(* ===== verification/Prelude.thy ===== *)
theory Prelude
  imports Main "HOL-Library.Word"
begin

text \<open>
  Shared vocabulary of the development: the machine integers and byte arrays of the Rust
  sources, \<open>Result\<close> values, the few operations of the Rust standard library that the
  sources use (\<open>saturating_sub\<close>, \<open>Iterator::max_by_key\<close>, \<open>slice::chunks\<close>), the
  combinator \<open>futures::future::select_ok\<close>, decimal and hexadecimal rendering, and the generic
  lemmas and theorem collections that the component theories rely on.

  Unsigned integers are machine words: \<open>+\<close>, \<open>-\<close> and \<open>*\<close> wrap around, as they do in the
  release profile of the workspace (which sets no \<open>overflow-checks\<close>). Fixed-size byte arrays
  (\<open>B256\<close>, \<open>BlsPublicKey\<close>, ...) are read as one big-endian word. Lengths of vectors are \<open>nat\<close>.
\<close>

named_theorems result_simps \<open>rewriting of Result combinators\<close>
named_theorems effect_simps \<open>how operations act on the effect log\<close>

section \<open>Machine types\<close>

type_synonym u8 = "8 word"
type_synonym u16 = "16 word"
type_synonym u32 = "32 word"
type_synonym u64 = "64 word"
type_synonym u256 = "256 word"
type_synonym b32 = "32 word"
type_synonym b256 = "256 word"
type_synonym address = "160 word"
type_synonym bls_public_key = "384 word"
type_synonym bls_signature = "768 word"
type_synonym bytes = "8 word list"

section \<open>Result values\<close>

type_synonym ('e, 'a) result = "'e + 'a"

abbreviation Err :: "'e \<Rightarrow> ('e, 'a) result" where
  "Err \<equiv> Inl"

abbreviation Ok :: "'a \<Rightarrow> ('e, 'a) result" where
  "Ok \<equiv> Inr"

text \<open>The \<open>?\<close> operator: stop at the first error, otherwise go on with the value.\<close>

definition and_then :: "('e, 'a) result \<Rightarrow> ('a \<Rightarrow> ('e, 'b) result) \<Rightarrow> ('e, 'b) result" where
  "and_then r f = (case r of Inl e \<Rightarrow> Inl e | Inr x \<Rightarrow> f x)"

definition map_err :: "('e \<Rightarrow> 'f) \<Rightarrow> ('e, 'a) result \<Rightarrow> ('f, 'a) result" where
  "map_err g r = (case r of Inl e \<Rightarrow> Inl (g e) | Inr x \<Rightarrow> Inr x)"

definition is_ok :: "('e, 'a) result \<Rightarrow> bool" where
  "is_ok r = (case r of Inl _ \<Rightarrow> False | Inr _ \<Rightarrow> True)"

text \<open>\<open>eyre::ensure!\<close>: an error carrying the message unless the condition holds.\<close>

definition ensure :: "bool \<Rightarrow> 'e \<Rightarrow> ('e, unit) result" where
  "ensure c msg = (if c then Inr () else Inl msg)"

text \<open>\<open>iter.map(f).collect::<Result<Vec<_>, _>>()\<close>: the first error, or all values in order.\<close>

fun collect_results :: "('e, 'a) result list \<Rightarrow> ('e, 'a list) result" where
  "collect_results [] = Inr []"
| "collect_results (r # rs) =
     (case r of Inl e \<Rightarrow> Inl e
      | Inr x \<Rightarrow> (case collect_results rs of Inl e \<Rightarrow> Inl e | Inr xs \<Rightarrow> Inr (x # xs)))"

lemma and_then_simps [simp, result_simps]:
  "and_then (Inl e) f = Inl e"
  "and_then (Inr x) f = f x"
  by (simp_all add: and_then_def)

lemma map_err_simps [simp, result_simps]:
  "map_err g (Inl e) = Inl (g e)"
  "map_err g (Inr x) = Inr x"
  by (simp_all add: map_err_def)

lemma is_ok_simps [simp, result_simps]:
  "\<not> is_ok (Inl e)"
  "is_ok (Inr x)"
  by (simp_all add: is_ok_def)

lemma and_then_Ok_iff [result_simps]:
  "and_then r f = Inr y \<longleftrightarrow> (\<exists>x. r = Inr x \<and> f x = Inr y)"
  by (cases r) auto

lemma and_then_Err_iff [result_simps]:
  "and_then r f = Inl e \<longleftrightarrow> r = Inl e \<or> (\<exists>x. r = Inr x \<and> f x = Inl e)"
  by (cases r) auto

lemma map_err_Ok_iff [simp, result_simps]: "map_err g r = Inr y \<longleftrightarrow> r = Inr y"
  by (cases r) auto

lemma map_err_Err_iff [result_simps]: "map_err g r = Inl e \<longleftrightarrow> (\<exists>d. r = Inl d \<and> e = g d)"
  by (cases r) auto

lemma is_ok_map_err [simp]: "is_ok (map_err g r) = is_ok r"
  by (cases r) auto

lemma is_ok_iff: "is_ok r \<longleftrightarrow> (\<exists>x. r = Inr x)"
  by (cases r) auto

lemma ensure_Ok_iff [simp, result_simps]: "ensure c msg = Inr u \<longleftrightarrow> c"
  by (simp add: ensure_def)

lemma ensure_Err_iff [simp, result_simps]: "ensure c msg = Inl e \<longleftrightarrow> \<not> c \<and> e = msg"
  by (auto simp: ensure_def)

lemma collect_results_map_Ok [simp]: "collect_results (map Inr xs) = Inr xs"
  by (induction xs) auto

lemma collect_results_Ok_iff:
  "collect_results rs = Inr xs \<longleftrightarrow> rs = map Inr xs"
  by (induction rs arbitrary: xs) (fastforce split: sum.splits)+

lemma collect_results_Err_iff:
  "collect_results rs = Inl e \<longleftrightarrow> (\<exists>xs ys. rs = map Inr xs @ Inl e # ys)"
proof (induction rs)
  case Nil
  then show ?case by simp
next
  case (Cons r rs)
  show ?case
  proof (cases r)
    case (Inl d)
    then show ?thesis by (auto simp: Cons_eq_append_conv Cons_eq_map_conv)
  next
    case (Inr x)
    have "(\<exists>xs ys. r # rs = map Inr xs @ Inl e # ys) \<longleftrightarrow> (\<exists>xs ys. rs = map Inr xs @ Inl e # ys)"
    proof
      assume "\<exists>xs ys. r # rs = map Inr xs @ Inl e # ys"
      then obtain xs ys where eq: "r # rs = map Inr xs @ Inl e # ys" by blast
      with Inr obtain x' xs' where "xs = x' # xs'" by (cases xs) auto
      with eq show "\<exists>xs ys. rs = map Inr xs @ Inl e # ys" by auto
    next
      assume "\<exists>xs ys. rs = map Inr xs @ Inl e # ys"
      then obtain xs ys where "rs = map Inr xs @ Inl e # ys" by blast
      with Inr have "r # rs = map Inr (x # xs) @ Inl e # ys" by simp
      then show "\<exists>xs ys. r # rs = map Inr xs @ Inl e # ys" by blast
    qed
    with Inr Cons.IH show ?thesis by (auto split: sum.splits)
  qed
qed

section \<open>Saturating subtraction\<close>

definition saturating_sub :: "'a::len word \<Rightarrow> 'a word \<Rightarrow> 'a word" where
  "saturating_sub a b = (if b \<le> a then a - b else 0)"

lemma unat_saturating_sub: "unat (saturating_sub a b) = unat a - unat b"
  by (auto simp: saturating_sub_def unat_sub word_le_nat_alt)

lemma saturating_sub_eq_0_iff: "saturating_sub a b = 0 \<longleftrightarrow> a \<le> b"
proof -
  have "saturating_sub a b = 0 \<longleftrightarrow> unat (saturating_sub a b) = 0"
    by (simp add: unat_eq_0)
  also have "\<dots> \<longleftrightarrow> a \<le> b"
    by (simp add: unat_saturating_sub word_le_nat_alt)
  finally show ?thesis .
qed

lemma saturating_sub_le: "saturating_sub a b \<le> a"
  by (simp add: word_le_nat_alt unat_saturating_sub)

lemma word_gt_0_iff: "(0 :: 'a::len word) < a \<longleftrightarrow> a \<noteq> 0"
  by (simp add: word_less_nat_alt unat_gt_0)

section \<open>Iterators\<close>

text \<open>
  \<open>Iterator::max_by_key\<close>: the element with the greatest key, the last of them when several
  elements share it.
\<close>

definition max_by_key :: "('a \<Rightarrow> 'k::linorder) \<Rightarrow> 'a list \<Rightarrow> 'a option" where
  "max_by_key key xs =
     (case xs of [] \<Rightarrow> None
      | y # ys \<Rightarrow> Some (foldl (\<lambda>m x. if key x < key m then m else x) y ys))"

lemma max_by_key_Nil [simp]: "max_by_key key [] = None"
  by (simp add: max_by_key_def)

lemma max_by_key_None_iff [simp]: "max_by_key key xs = None \<longleftrightarrow> xs = []"
  by (simp add: max_by_key_def split: list.splits)

lemma max_by_key_snoc:
  "max_by_key key (xs @ [x]) =
     (case max_by_key key xs of None \<Rightarrow> Some x
      | Some m \<Rightarrow> Some (if key x < key m then m else x))"
  by (cases xs) (simp_all add: max_by_key_def)

lemma max_by_key_SomeD:
  "max_by_key key xs = Some m \<Longrightarrow> m \<in> set xs \<and> (\<forall>x\<in>set xs. key x \<le> key m)"
proof (induction xs arbitrary: m rule: rev_induct)
  case Nil
  then show ?case by simp
next
  case (snoc x xs)
  show ?case
  proof (cases "max_by_key key xs")
    case None
    with snoc.prems show ?thesis by (auto simp: max_by_key_snoc)
  next
    case (Some n)
    with snoc.IH have "n \<in> set xs" "\<forall>y\<in>set xs. key y \<le> key n" by auto
    with snoc.prems Some show ?thesis
      by (fastforce simp: max_by_key_snoc split: if_splits)
  qed
qed

lemma max_by_key_last:
  "max_by_key key xs = Some m \<Longrightarrow>
     \<exists>us vs. xs = us @ m # vs \<and> (\<forall>v\<in>set vs. key v < key m)"
proof (induction xs arbitrary: m rule: rev_induct)
  case Nil
  then show ?case by simp
next
  case (snoc x xs)
  show ?case
  proof (cases "max_by_key key xs")
    case None
    with snoc.prems have "xs @ [x] = [] @ m # [] \<and> (\<forall>v\<in>set []. key v < key m)"
      by (auto simp: max_by_key_snoc)
    then show ?thesis by blast
  next
    case (Some n)
    show ?thesis
    proof (cases "key x < key n")
      case True
      with snoc.prems Some have "m = n" by (simp add: max_by_key_snoc)
      with Some snoc.IH obtain us vs where "xs = us @ m # vs" "\<forall>v\<in>set vs. key v < key m"
        by blast
      with True \<open>m = n\<close> have "xs @ [x] = us @ m # (vs @ [x]) \<and> (\<forall>v\<in>set (vs @ [x]). key v < key m)"
        by simp
      then show ?thesis by blast
    next
      case False
      with snoc.prems Some have "x = m" by (simp add: max_by_key_snoc)
      then have "xs @ [x] = xs @ m # [] \<and> (\<forall>v\<in>set []. key v < key m)" by simp
      then show ?thesis by blast
    qed
  qed
qed

text \<open>\<open>slice::chunks(n)\<close>: consecutive pieces of length \<open>n\<close>; a panic (\<open>None\<close>) for \<open>n = 0\<close>.\<close>

function chunks_of :: "nat \<Rightarrow> 'a list \<Rightarrow> 'a list list" where
  "chunks_of n xs = (if n = 0 \<or> xs = [] then [] else take n xs # chunks_of n (drop n xs))"
  by pat_completeness auto
termination
  by (relation "measure (\<lambda>(n, xs). length xs)") auto

declare chunks_of.simps [simp del]

definition chunks :: "nat \<Rightarrow> 'a list \<Rightarrow> 'a list list option" where
  "chunks n xs = (if n = 0 then None else Some (chunks_of n xs))"

lemma chunks_of_Nil [simp]: "chunks_of n [] = []"
  by (simp add: chunks_of.simps)

lemma concat_chunks_of: "0 < n \<Longrightarrow> concat (chunks_of n xs) = xs"
proof (induction n xs rule: chunks_of.induct)
  case (1 n xs)
  then show ?case
    by (cases "xs = []") (simp_all add: chunks_of.simps [of n xs])
qed

lemma chunks_of_bounds: "c \<in> set (chunks_of n xs) \<Longrightarrow> c \<noteq> [] \<and> length c \<le> n"
proof (induction n xs rule: chunks_of.induct)
  case (1 n xs)
  show ?case
  proof (cases "n = 0 \<or> xs = []")
    case True
    with "1.prems" show ?thesis by (simp add: chunks_of.simps [of n xs])
  next
    case False
    with "1.prems" have "c = take n xs \<or> c \<in> set (chunks_of n (drop n xs))"
      by (simp add: chunks_of.simps [of n xs])
    with False "1.IH" show ?thesis by auto
  qed
qed

lemma map_filter_mem: "y \<in> set (List.map_filter f xs) \<longleftrightarrow> (\<exists>x\<in>set xs. f x = Some y)"
  by (force simp: List.map_filter_def)

text \<open>A call either returns or panics.\<close>

datatype 'a outcome = Returned 'a | Panicked

section \<open>Loops that stop at the first error\<close>

text \<open>A \<open>for\<close> loop over \<open>xs\<close> whose body updates a state and may leave the function with an error.\<close>

fun try_fold :: "('a \<Rightarrow> 's \<Rightarrow> ('e, 's) result) \<Rightarrow> 'a list \<Rightarrow> 's \<Rightarrow> ('e, 's) result" where
  "try_fold f [] s = Inr s"
| "try_fold f (x # xs) s = and_then (f x s) (try_fold f xs)"

lemma try_fold_append: "try_fold f (xs @ ys) s = and_then (try_fold f xs s) (try_fold f ys)"
  by (induction xs arbitrary: s) (auto simp: and_then_def split: sum.splits)

lemma try_fold_is_ok_iff:
  assumes "\<And>x s. x \<in> set xs \<Longrightarrow> is_ok (f x s) \<longleftrightarrow> g x"
  shows "is_ok (try_fold f xs s) \<longleftrightarrow> (\<forall>x\<in>set xs. g x)"
  using assms
proof (induction xs arbitrary: s)
  case Nil
  then show ?case by simp
next
  case (Cons x xs)
  from Cons.prems [of x s] Cons.IH Cons.prems show ?case
    by (cases "f x s") auto
qed

section \<open>Futures\<close>

text \<open>
  \<open>futures::future::select_ok\<close> over futures listed in the order in which they complete: the
  first success, or the error of the last one to fail; it panics (\<open>None\<close>) on an empty iterator.
\<close>

fun select_ok :: "('e, 'a) result list \<Rightarrow> ('e, 'a) result option" where
  "select_ok [] = None"
| "select_ok [r] = Some r"
| "select_ok (r # s # rs) = (if is_ok r then Some r else select_ok (s # rs))"

lemma select_ok_None_iff [simp]: "select_ok rs = None \<longleftrightarrow> rs = []"
  by (induction rs rule: select_ok.induct) auto

lemma select_ok_mem: "select_ok rs = Some r \<Longrightarrow> r \<in> set rs"
  by (induction rs rule: select_ok.induct) (auto split: if_splits)

lemma select_ok_is_ok_iff:
  "select_ok rs = Some r \<Longrightarrow> is_ok r \<longleftrightarrow> (\<exists>s\<in>set rs. is_ok s)"
  by (induction rs rule: select_ok.induct) (auto split: if_splits)

section \<open>Rendering numbers\<close>

definition digit_char :: "nat \<Rightarrow> char" where
  "digit_char d = (if d < 10 then char_of (48 + d) else char_of (87 + d))"

text \<open>Lower-case hexadecimal with exactly \<open>k\<close> digits, the most significant first.\<close>

fun hex_digits :: "nat \<Rightarrow> nat \<Rightarrow> string" where
  "hex_digits 0 n = []"
| "hex_digits (Suc k) n = hex_digits k (n div 16) @ [digit_char (n mod 16)]"

fun decimal :: "nat \<Rightarrow> string" where
  "decimal n = (if n < 10 then [digit_char n] else decimal (n div 10) @ [digit_char (n mod 10)])"

declare decimal.simps [simp del]

text \<open>\<open>Display\<close> of a fixed-size byte array of \<open>k\<close> bytes: \<open>0x\<close> and its digits.\<close>

definition display_fixed_bytes :: "nat \<Rightarrow> 'a::len word \<Rightarrow> string" where
  "display_fixed_bytes k w = ''0x'' @ hex_digits (2 * k) (unat w)"

lemma length_hex_digits [simp]: "length (hex_digits k n) = k"
  by (induction k arbitrary: n) auto

lemma digit_char_inj:
  assumes "d < 16" and "e < 16" and "digit_char d = digit_char e"
  shows "d = e"
proof -
  have m: "48 + d < 256" "48 + e < 256" "87 + d < 256" "87 + e < 256"
    using assms(1,2) by simp_all
  have "of_char (digit_char d) = (of_char (digit_char e) :: nat)"
    by (simp add: assms(3))
  with m show ?thesis
    by (auto simp: digit_char_def split: if_splits)
qed

lemma hex_digits_inj:
  "hex_digits k m = hex_digits k n \<Longrightarrow> m < 16 ^ k \<Longrightarrow> n < 16 ^ k \<Longrightarrow> m = n"
proof (induction k arbitrary: m n)
  case 0
  then show ?case by simp
next
  case (Suc k)
  then have "hex_digits k (m div 16) = hex_digits k (n div 16)"
    and d: "digit_char (m mod 16) = digit_char (n mod 16)"
    by simp_all
  moreover have "m div 16 < 16 ^ k" "n div 16 < 16 ^ k"
    using Suc.prems(2,3) by (simp_all add: less_mult_imp_div_less mult.commute)
  ultimately have "m div 16 = n div 16" by (intro Suc.IH)
  moreover have "m mod 16 = n mod 16" by (rule digit_char_inj [OF _ _ d]) simp_all
  ultimately show ?case by (metis div_mult_mod_eq)
qed

end
