(* ===== verification/Chain.thy ===== *)
theory Chain
  imports Prelude
begin

text \<open>
  The chain model of \<open>crates/common/src/types.rs\<close> (\<open>Chain\<close>, \<open>KnownChain\<close>, \<open>ChainLoader\<close> and
  \<open>load_chain_from_file\<close>) and the slot clock of \<open>crates/common/src/utils.rs\<close>. Reading a file
  and the three decoders tried on it are parameters. A fork version (\<open>[u8; 4]\<close>) is read as one
  big-endian 32-bit word; \<open>Bytes\<close> stays a byte list.
\<close>

section \<open>Chains\<close>

type_synonym fork_version = b32

datatype chain =
    Mainnet
  | Holesky
  | Sepolia
  | Helder
  | Hoodi
  | Custom (genesis_time_secs: u64) (slot_time_secs: u64) (custom_fork_version: fork_version)

datatype known_chain = KMainnet | KHolesky | KSepolia | KHelder | KHoodi

fun known_id :: "known_chain \<Rightarrow> u64" where
  "known_id KMainnet = 1"
| "known_id KHolesky = 17000"
| "known_id KSepolia = 11155111"
| "known_id KHelder = 167000"
| "known_id KHoodi = 560048"

fun known_genesis_fork_version :: "known_chain \<Rightarrow> fork_version" where
  "known_genesis_fork_version KMainnet = 0x00000000"
| "known_genesis_fork_version KHolesky = 0x01017000"
| "known_genesis_fork_version KSepolia = 0x90000069"
| "known_genesis_fork_version KHelder = 0x10000000"
| "known_genesis_fork_version KHoodi = 0x10000910"

fun known_genesis_time_sec :: "known_chain \<Rightarrow> u64" where
  "known_genesis_time_sec KMainnet = 1606824023"
| "known_genesis_time_sec KHolesky = 1695902400"
| "known_genesis_time_sec KSepolia = 1655733600"
| "known_genesis_time_sec KHelder = 1718967660"
| "known_genesis_time_sec KHoodi = 1742213400"

fun known_slot_time_sec :: "known_chain \<Rightarrow> u64" where
  "known_slot_time_sec KMainnet = 12"
| "known_slot_time_sec KHolesky = 12"
| "known_slot_time_sec KSepolia = 12"
| "known_slot_time_sec KHelder = 12"
| "known_slot_time_sec KHoodi = 12"

text \<open>\<open>Chain::id\<close> panics (\<open>None\<close>) on custom chains.\<close>

fun chain_id :: "chain \<Rightarrow> u64 option" where
  "chain_id Mainnet = Some (known_id KMainnet)"
| "chain_id Holesky = Some (known_id KHolesky)"
| "chain_id Sepolia = Some (known_id KSepolia)"
| "chain_id Helder = Some (known_id KHelder)"
| "chain_id Hoodi = Some (known_id KHoodi)"
| "chain_id (Custom _ _ _) = None"

fun genesis_fork_version :: "chain \<Rightarrow> fork_version" where
  "genesis_fork_version Mainnet = known_genesis_fork_version KMainnet"
| "genesis_fork_version Holesky = known_genesis_fork_version KHolesky"
| "genesis_fork_version Sepolia = known_genesis_fork_version KSepolia"
| "genesis_fork_version Helder = known_genesis_fork_version KHelder"
| "genesis_fork_version Hoodi = known_genesis_fork_version KHoodi"
| "genesis_fork_version (Custom _ _ v) = v"

fun genesis_time_sec :: "chain \<Rightarrow> u64" where
  "genesis_time_sec Mainnet = known_genesis_time_sec KMainnet"
| "genesis_time_sec Holesky = known_genesis_time_sec KHolesky"
| "genesis_time_sec Sepolia = known_genesis_time_sec KSepolia"
| "genesis_time_sec Helder = known_genesis_time_sec KHelder"
| "genesis_time_sec Hoodi = known_genesis_time_sec KHoodi"
| "genesis_time_sec (Custom t _ _) = t"

fun slot_time_sec :: "chain \<Rightarrow> u64" where
  "slot_time_sec Mainnet = known_slot_time_sec KMainnet"
| "slot_time_sec Holesky = known_slot_time_sec KHolesky"
| "slot_time_sec Sepolia = known_slot_time_sec KSepolia"
| "slot_time_sec Helder = known_slot_time_sec KHelder"
| "slot_time_sec Hoodi = known_slot_time_sec KHoodi"
| "slot_time_sec (Custom _ s _) = s"

fun chain_of_known :: "known_chain \<Rightarrow> chain" where
  "chain_of_known KMainnet = Mainnet"
| "chain_of_known KHolesky = Holesky"
| "chain_of_known KSepolia = Sepolia"
| "chain_of_known KHelder = Helder"
| "chain_of_known KHoodi = Hoodi"

text \<open>\<open>impl Display for Chain\<close>\<close>

fun display_chain :: "chain \<Rightarrow> string" where
  "display_chain Mainnet = ''Mainnet''"
| "display_chain Holesky = ''Holesky''"
| "display_chain Sepolia = ''Sepolia''"
| "display_chain Helder = ''Helder''"
| "display_chain Hoodi = ''Hoodi''"
| "display_chain (Custom _ _ _) = ''Custom''"

fun is_custom :: "chain \<Rightarrow> bool" where
  "is_custom (Custom _ _ _) = True"
| "is_custom _ = False"

section \<open>Loading a chain\<close>

text \<open>Four big-endian bytes and the word they stand for (\<open>Bytes::from\<close> and \<open>try_into\<close>).\<close>

definition fork_version_bytes :: "fork_version \<Rightarrow> bytes" where
  "fork_version_bytes v =
     (let n = unat v in
      [word_of_nat (n div 2 ^ 24), word_of_nat (n div 2 ^ 16), word_of_nat (n div 2 ^ 8),
       word_of_nat n])"

datatype chain_error =
    ForkVersionLength nat
  | SpecFileNotFound string
  | SpecFileUndecodable string

definition fork_version_of_bytes :: "bytes \<Rightarrow> (chain_error, fork_version) result" where
  "fork_version_of_bytes bs =
     (case bs of
        [a, b, c, d] \<Rightarrow>
          Ok (word_of_nat (((unat a * 256 + unat b) * 256 + unat c) * 256 + unat d))
      | _ \<Rightarrow> Err (ForkVersionLength (length bs)))"

datatype chain_loader =
    LoadKnown known_chain
  | LoadPath u64 string
  | LoadCustom u64 u64 bytes

text \<open>\<open>impl Serialize for Chain\<close>: the loader value that is written out.\<close>

fun serialize_chain :: "chain \<Rightarrow> chain_loader" where
  "serialize_chain Mainnet = LoadKnown KMainnet"
| "serialize_chain Holesky = LoadKnown KHolesky"
| "serialize_chain Sepolia = LoadKnown KSepolia"
| "serialize_chain Helder = LoadKnown KHelder"
| "serialize_chain Hoodi = LoadKnown KHoodi"
| "serialize_chain (Custom t s v) = LoadCustom t s (fork_version_bytes v)"

text \<open>
  \<open>load_chain_from_file\<close>: JSON with a \<open>data\<close> field, then JSON without, then YAML. The two JSON
  formats carry the fork version as \<open>Bytes\<close>, the YAML one as a \<open>u32\<close>.
\<close>

record spec_decoders =
  json_data_spec :: "bytes \<Rightarrow> (u64 \<times> bytes) option"
  json_spec :: "bytes \<Rightarrow> (u64 \<times> bytes) option"
  yaml_spec :: "bytes \<Rightarrow> (u64 \<times> u32) option"

definition quoted_spec_to_chain :: "u64 \<times> bytes \<Rightarrow> (chain_error, u64 \<times> fork_version) result" where
  "quoted_spec_to_chain q =
     and_then (fork_version_of_bytes (snd q)) (\<lambda>v. Ok (fst q, v))"

definition load_chain_from_file ::
  "(string \<Rightarrow> bytes option) \<Rightarrow> spec_decoders \<Rightarrow> string
     \<Rightarrow> (chain_error, u64 \<times> fork_version) result" where
  "load_chain_from_file read_file dec path =
     (case read_file path of
        None \<Rightarrow> Err (SpecFileNotFound path)
      | Some file \<Rightarrow>
          (case json_data_spec dec file of
             Some q \<Rightarrow> quoted_spec_to_chain q
           | None \<Rightarrow>
               (case json_spec dec file of
                  Some q \<Rightarrow> quoted_spec_to_chain q
                | None \<Rightarrow>
                    (case yaml_spec dec file of
                       Some (s, v) \<Rightarrow> Ok (s, v)
                     | None \<Rightarrow> Err (SpecFileUndecodable path)))))"

fun deserialize_chain ::
  "(string \<Rightarrow> bytes option) \<Rightarrow> spec_decoders \<Rightarrow> chain_loader \<Rightarrow> (chain_error, chain) result" where
  "deserialize_chain read_file dec (LoadKnown k) = Ok (chain_of_known k)"
| "deserialize_chain read_file dec (LoadPath t path) =
     and_then (load_chain_from_file read_file dec path) (\<lambda>(s, v). Ok (Custom t s v))"
| "deserialize_chain read_file dec (LoadCustom t s bs) =
     and_then (fork_version_of_bytes bs) (\<lambda>v. Ok (Custom t s v))"

section \<open>The slot clock\<close>

definition MILLIS_PER_SECOND :: u64 where
  "MILLIS_PER_SECOND = 1000"

definition timestamp_of_slot_start_sec :: "u64 \<Rightarrow> chain \<Rightarrow> u64" where
  "timestamp_of_slot_start_sec slot chain = genesis_time_sec chain + slot * slot_time_sec chain"

definition timestamp_of_slot_start_millis :: "u64 \<Rightarrow> chain \<Rightarrow> u64" where
  "timestamp_of_slot_start_millis slot chain =
     timestamp_of_slot_start_sec slot chain * MILLIS_PER_SECOND"

text \<open>\<open>utcnow_ms\<close> is the argument \<open>now\<close>.\<close>

definition ms_into_slot :: "u64 \<Rightarrow> u64 \<Rightarrow> chain \<Rightarrow> u64" where
  "ms_into_slot now slot chain = saturating_sub now (timestamp_of_slot_start_millis slot chain)"

section \<open>Properties\<close>

lemma fork_version_of_fork_version_bytes [simp]:
  "fork_version_of_bytes (fork_version_bytes v) = Ok v"
proof -
  define n where "n = unat v"
  have n: "n < 2 ^ 32" unfolding n_def using unsigned_less [of v] by simp
  have top: "n div 2 ^ 24 mod 256 = n div 2 ^ 24"
    using n by (simp add: less_mult_imp_div_less)
  have "n div 2 ^ 16 = n div 2 ^ 24 * 256 + n div 2 ^ 16 mod 256"
    "n div 2 ^ 8 = n div 2 ^ 16 * 256 + n div 2 ^ 8 mod 256"
    "n = n div 2 ^ 8 * 256 + n mod 256"
    using div_mult_mod_eq [of "n div 2 ^ 16" 256] div_mult_mod_eq [of "n div 2 ^ 8" 256]
      div_mult_mod_eq [of n 256]
    by (simp_all add: div_mult2_eq [symmetric])
  then have eq: "((n div 2 ^ 24 mod 256 * 256 + n div 2 ^ 16 mod 256) * 256 + n div 2 ^ 8 mod 256)
      * 256 + n mod 256 = n"
    unfolding top by presburger
  have byte: "unat (word_of_nat m :: u8) = m mod 256" for m by (simp add: unat_of_nat)
  have "fork_version_of_bytes (fork_version_bytes v) = Ok (word_of_nat n)"
    by (simp only: fork_version_of_bytes_def fork_version_bytes_def Let_def n_def [symmetric]
        list.case byte eq)
  then show ?thesis by (simp add: n_def)
qed

lemma fork_version_of_bytes_Ok_length:
  "fork_version_of_bytes bs = Ok v \<Longrightarrow> length bs = 4"
  by (auto simp: fork_version_of_bytes_def split: list.splits)

lemma slot_time_known: "\<not> is_custom c \<Longrightarrow> slot_time_sec c = 12"
  by (cases c) auto

lemma genesis_time_known: "\<not> is_custom c \<Longrightarrow> unat (genesis_time_sec c) < 2 ^ 31"
  by (cases c) auto

text \<open>Within the slots a known chain can reach, the slot clock is exact: no product wraps.\<close>

lemma unat_timestamp_sec:
  assumes "\<not> is_custom c" and "unat slot < 2 ^ 50"
  shows "unat (timestamp_of_slot_start_sec slot c) = unat (genesis_time_sec c) + 12 * unat slot"
proof -
  have "unat (slot * (12 :: u64)) = unat slot * 12"
    using assms(2) by (subst unat_mult_lem [THEN iffD1]) simp_all
  moreover have "unat (genesis_time_sec c) + unat slot * 12 < 2 ^ 64"
    using assms(2) genesis_time_known [OF assms(1)] by simp
  ultimately show ?thesis
    using slot_time_known [OF assms(1)]
    by (simp add: timestamp_of_slot_start_sec_def unat_word_ariths)
qed

lemma unat_timestamp_millis:
  assumes "\<not> is_custom c" and "unat slot < 2 ^ 50"
  shows "unat (timestamp_of_slot_start_millis slot c) =
           1000 * (unat (genesis_time_sec c) + 12 * unat slot)"
proof -
  have "unat (timestamp_of_slot_start_sec slot c) * 1000 < 2 ^ 64"
    using assms(2) genesis_time_known [OF assms(1)] by (simp add: unat_timestamp_sec [OF assms])
  then show ?thesis
    by (simp add: timestamp_of_slot_start_millis_def MILLIS_PER_SECOND_def unat_word_ariths
        unat_timestamp_sec [OF assms] mult.commute)
qed

end
