(* ===== verification/Pbs_Types.thy ===== *)
theory Pbs_Types
  imports Chain
begin

text \<open>
  The Builder API data of \<open>crates/common/src/pbs/types/\<close>: the Electra preset, execution payloads
  and their headers, execution requests, blinded block bodies, blobs bundles, KZG commitments with
  their textual form, and the versioned request and response containers with their accessors.
  \<open>VariableList<T, N>\<close>, \<open>FixedVector<T, N>\<close>, \<open>BitList\<close> and \<open>BitVector\<close> are lists; the length
  limits of the preset are the predicates \<open>wf_...\<close>. Field names carry a prefix per struct.
\<close>

section \<open>The Electra preset (\<open>spec.rs\<close>)\<close>

text \<open>The trait \<open>EthSpec\<close> names the bounds, \<open>ElectraSpec\<close> gives them.\<close>

datatype eth_spec =
    MaxValidatorsPerCommittee
  | MaxProposerSlashings
  | MaxDeposits
  | MaxVoluntaryExits
  | SyncCommitteeSize
  | MaxExtraDataBytes
  | MaxBlobCommitmentsPerBlock
  | BytesPerLogsBloom
  | MaxBlsToExecutionChanges
  | MaxWithdrawalsPerPayload
  | MaxBytesPerTransaction
  | MaxTransactionsPerPayload
  | BytesPerBlob
  | MaxCommitteesPerSlot
  | MaxAttesterSlashings
  | MaxAttestations
  | MaxValidatorsPerSlot
  | MaxConsolidationRequestsPerPayload
  | MaxDepositRequestsPerPayload
  | MaxWithdrawalRequestsPerPayload

fun ElectraSpec :: "eth_spec \<Rightarrow> nat" where
  "ElectraSpec MaxValidatorsPerCommittee = 2048"
| "ElectraSpec MaxProposerSlashings = 16"
| "ElectraSpec MaxDeposits = 16"
| "ElectraSpec MaxVoluntaryExits = 16"
| "ElectraSpec SyncCommitteeSize = 512"
| "ElectraSpec MaxExtraDataBytes = 32"
| "ElectraSpec MaxBlobCommitmentsPerBlock = 4096"
| "ElectraSpec BytesPerLogsBloom = 256"
| "ElectraSpec MaxBlsToExecutionChanges = 16"
| "ElectraSpec MaxWithdrawalsPerPayload = 16"
| "ElectraSpec MaxBytesPerTransaction = 1073741824"
| "ElectraSpec MaxTransactionsPerPayload = 1048576"
| "ElectraSpec BytesPerBlob = 131072"
| "ElectraSpec MaxCommitteesPerSlot = 64"
| "ElectraSpec MaxAttesterSlashings = 1"
| "ElectraSpec MaxAttestations = 8"
| "ElectraSpec MaxValidatorsPerSlot = 131072"
| "ElectraSpec MaxConsolidationRequestsPerPayload = 2"
| "ElectraSpec MaxDepositRequestsPerPayload = 8192"
| "ElectraSpec MaxWithdrawalRequestsPerPayload = 16"

section \<open>KZG commitments and proofs (\<open>kzg.rs\<close>)\<close>

definition BYTES_PER_COMMITMENT :: nat where
  "BYTES_PER_COMMITMENT = 48"

definition BYTES_PER_PROOF :: nat where
  "BYTES_PER_PROOF = 48"

datatype kzg_commitment = KzgCommitment bytes

datatype kzg_proof = KzgProof bytes

text \<open>\<open>Display\<close>; \<open>hex_encode\<close> stands for \<open>serde_utils::hex::encode\<close>.\<close>

fun display_kzg_commitment :: "(bytes \<Rightarrow> string) \<Rightarrow> kzg_commitment \<Rightarrow> string" where
  "display_kzg_commitment hex_encode (KzgCommitment bs) = hex_encode bs"

fun display_kzg_proof :: "(bytes \<Rightarrow> string) \<Rightarrow> kzg_proof \<Rightarrow> string" where
  "display_kzg_proof hex_encode (KzgProof bs) = hex_encode bs"

text \<open>\<open>str::strip_prefix\<close>\<close>

definition strip_prefix :: "string \<Rightarrow> string \<Rightarrow> string option" where
  "strip_prefix p s = (if take (length p) s = p then Some (drop (length p) s) else None)"

definition invalid_byte_length :: "nat \<Rightarrow> nat \<Rightarrow> string" where
  "invalid_byte_length got expected =
     ''InvalidByteLength: got '' @ decimal got @ '', expected '' @ decimal expected"

text \<open>\<open>FromStr\<close>; \<open>hex_decode\<close> stands for \<open>alloy::primitives::hex::decode\<close>.\<close>

definition kzg_commitment_from_str ::
  "(string \<Rightarrow> (string, bytes) result) \<Rightarrow> string \<Rightarrow> (string, kzg_commitment) result" where
  "kzg_commitment_from_str hex_decode s =
     (case strip_prefix ''0x'' s of
        Some stripped \<Rightarrow>
          and_then (hex_decode stripped) (\<lambda>bs.
            if length bs = BYTES_PER_COMMITMENT then Ok (KzgCommitment bs)
            else Err (invalid_byte_length (length bs) BYTES_PER_COMMITMENT))
      | None \<Rightarrow> Err ''must start with 0x'')"

definition kzg_proof_from_str ::
  "(string \<Rightarrow> (string, bytes) result) \<Rightarrow> string \<Rightarrow> (string, kzg_proof) result" where
  "kzg_proof_from_str hex_decode s =
     (case strip_prefix ''0x'' s of
        Some stripped \<Rightarrow>
          and_then (hex_decode stripped) (\<lambda>bs.
            if length bs = BYTES_PER_PROOF then Ok (KzgProof bs)
            else Err (invalid_byte_length (length bs) BYTES_PER_PROOF))
      | None \<Rightarrow> Err ''must start with 0x'')"

fun wf_kzg_commitment :: "kzg_commitment \<Rightarrow> bool" where
  "wf_kzg_commitment (KzgCommitment bs) \<longleftrightarrow> length bs = BYTES_PER_COMMITMENT"

fun wf_kzg_proof :: "kzg_proof \<Rightarrow> bool" where
  "wf_kzg_proof (KzgProof bs) \<longleftrightarrow> length bs = BYTES_PER_PROOF"

section \<open>Execution payloads, requests and blobs\<close>

record withdrawal =
  wd_index :: u64
  wd_validator_index :: u64
  wd_address :: address
  wd_amount :: u64

record execution_payload =
  ep_parent_hash :: b256
  ep_fee_recipient :: address
  ep_state_root :: b256
  ep_receipts_root :: b256
  ep_logs_bloom :: bytes
  ep_prev_randao :: b256
  ep_block_number :: u64
  ep_gas_limit :: u64
  ep_gas_used :: u64
  ep_timestamp :: u64
  ep_extra_data :: bytes
  ep_base_fee_per_gas :: u256
  ep_block_hash :: b256
  ep_transactions :: "bytes list"
  ep_withdrawals :: "withdrawal list"
  ep_blob_gas_used :: u64
  ep_excess_blob_gas :: u64

record execution_payload_header =
  eph_parent_hash :: b256
  eph_fee_recipient :: address
  eph_state_root :: b256
  eph_receipts_root :: b256
  eph_logs_bloom :: bytes
  eph_prev_randao :: b256
  eph_block_number :: u64
  eph_gas_limit :: u64
  eph_gas_used :: u64
  eph_timestamp :: u64
  eph_extra_data :: bytes
  eph_base_fee_per_gas :: u256
  eph_block_hash :: b256
  eph_transactions_root :: b256
  eph_withdrawals_root :: b256
  eph_blob_gas_used :: u64
  eph_excess_blob_gas :: u64

definition EMPTY_TX_ROOT_HASH :: b256 where
  "EMPTY_TX_ROOT_HASH = 0x7ffe241ea60187fdb0187bfa22de35d1f9bed7ab061d9401fd47e34a54fbede1"

record deposit_request =
  dr_pubkey :: bls_public_key
  dr_withdrawal_credentials :: b256
  dr_amount :: u64
  dr_signature :: bls_signature
  dr_index :: u64

record withdrawal_request =
  wr_source_address :: address
  wr_validator_pubkey :: bls_public_key
  wr_amount :: u64

record consolidation_request =
  cr_source_address :: address
  cr_source_pubkey :: bls_public_key
  cr_target_pubkey :: bls_public_key

record execution_requests =
  er_deposits :: "deposit_request list"
  er_withdrawals :: "withdrawal_request list"
  er_consolidations :: "consolidation_request list"

record blobs_bundle =
  bb_commitments :: "kzg_commitment list"
  bb_proofs :: "kzg_proof list"
  bb_blobs :: "bytes list"

section \<open>Blinded block bodies (\<open>blinded_block_body.rs\<close>)\<close>

record eth1_data =
  e1_deposit_root :: b256
  e1_deposit_count :: u64
  e1_block_hash :: b256

record beacon_block_header =
  bh_slot :: u64
  bh_proposer_index :: u64
  bh_parent_root :: b256
  bh_state_root :: b256
  bh_body_root :: b256

record signed_beacon_block_header =
  sbh_message :: beacon_block_header
  sbh_signature :: bls_signature

record bls_to_execution_change =
  bec_validator_index :: u64
  bec_from_bls_pubkey :: bls_public_key
  bec_to_execution_address :: address

record signed_bls_to_execution_change =
  sbec_message :: bls_to_execution_change
  sbec_signature :: bls_signature

record proposer_slashing =
  ps_signed_header_1 :: signed_beacon_block_header
  ps_signed_header_2 :: signed_beacon_block_header

record checkpoint =
  cp_epoch :: u64
  cp_root :: b256

record attestation_data =
  ad_slot :: u64
  ad_index :: u64
  ad_beacon_block_root :: b256
  ad_source :: checkpoint
  ad_target :: checkpoint

record indexed_attestation_electra =
  ia_attesting_indices :: "u64 list"
  ia_data :: attestation_data
  ia_signature :: bls_signature

record attester_slashing_electra =
  as_attestation_1 :: indexed_attestation_electra
  as_attestation_2 :: indexed_attestation_electra

record attestation_electra =
  at_aggregation_bits :: "bool list"
  at_data :: attestation_data
  at_signature :: bls_signature
  at_committee_bits :: "bool list"

record deposit_data =
  dd_pubkey :: bls_public_key
  dd_withdrawal_credentials :: b256
  dd_amount :: u64
  dd_signature :: bls_signature

record deposit =
  dp_proof :: "b256 list"
  dp_data :: deposit_data

record voluntary_exit =
  ve_epoch :: u64
  ve_validator_index :: u64

record signed_voluntary_exit =
  sve_message :: voluntary_exit
  sve_signature :: bls_signature

record sync_aggregate =
  sa_sync_committee_bits :: "bool list"
  sa_sync_committee_signature :: bls_signature

record blinded_beacon_block_body_electra =
  bd_randao_reveal :: bls_signature
  bd_eth1_data :: eth1_data
  bd_graffiti :: b256
  bd_proposer_slashings :: "proposer_slashing list"
  bd_attester_slashings :: "attester_slashing_electra list"
  bd_attestations :: "attestation_electra list"
  bd_deposits :: "deposit list"
  bd_voluntary_exits :: "signed_voluntary_exit list"
  bd_sync_aggregate :: sync_aggregate
  bd_execution_payload_header :: execution_payload_header
  bd_bls_to_execution_changes :: "signed_bls_to_execution_change list"
  bd_blob_kzg_commitments :: "kzg_commitment list"
  bd_execution_requests :: execution_requests

section \<open>Requests and responses (\<open>beacon_block.rs\<close>, \<open>get_header.rs\<close>, \<open>utils.rs\<close>)\<close>

datatype 'e versioned_response = Electra 'e

fun response_version :: "'e versioned_response \<Rightarrow> string" where
  "response_version (Electra _) = ''electra''"

record blinded_beacon_block_electra =
  bbb_slot :: u64
  bbb_proposer_index :: u64
  bbb_parent_root :: b256
  bbb_state_root :: b256
  bbb_body :: blinded_beacon_block_body_electra

datatype blinded_beacon_block = BlindedElectra blinded_beacon_block_electra

record signed_blinded_beacon_block =
  sbb_message :: blinded_beacon_block
  sbb_signature :: bls_signature

definition sbb_block_hash :: "signed_blinded_beacon_block \<Rightarrow> b256" where
  "sbb_block_hash b =
     (case sbb_message b of BlindedElectra e \<Rightarrow> eph_block_hash (bd_execution_payload_header (bbb_body e)))"

definition sbb_block_number :: "signed_blinded_beacon_block \<Rightarrow> u64" where
  "sbb_block_number b =
     (case sbb_message b of BlindedElectra e \<Rightarrow> eph_block_number (bd_execution_payload_header (bbb_body e)))"

definition sbb_parent_hash :: "signed_blinded_beacon_block \<Rightarrow> b256" where
  "sbb_parent_hash b =
     (case sbb_message b of BlindedElectra e \<Rightarrow> eph_parent_hash (bd_execution_payload_header (bbb_body e)))"

definition sbb_slot :: "signed_blinded_beacon_block \<Rightarrow> u64" where
  "sbb_slot b = (case sbb_message b of BlindedElectra e \<Rightarrow> bbb_slot e)"

record payload_and_blobs_electra =
  pb_execution_payload :: execution_payload
  pb_blobs_bundle :: blobs_bundle

definition payload_block_hash :: "payload_and_blobs_electra \<Rightarrow> b256" where
  "payload_block_hash p = ep_block_hash (pb_execution_payload p)"

type_synonym submit_blinded_block_response = "payload_and_blobs_electra versioned_response"

fun submit_response_block_hash :: "submit_blinded_block_response \<Rightarrow> b256" where
  "submit_response_block_hash (Electra d) = payload_block_hash d"

record get_header_params =
  ghp_slot :: u64
  ghp_parent_hash :: b256
  ghp_pubkey :: bls_public_key

record execution_payload_header_message_electra =
  hm_header :: execution_payload_header
  hm_blob_kzg_commitments :: "kzg_commitment list"
  hm_execution_requests :: execution_requests
  hm_value :: u256
  hm_pubkey :: bls_public_key

record signed_execution_payload_header =
  sh_message :: execution_payload_header_message_electra
  sh_signature :: bls_signature

type_synonym get_header_response = "signed_execution_payload_header versioned_response"

fun ghr_block_number :: "get_header_response \<Rightarrow> u64" where
  "ghr_block_number (Electra d) = eph_block_number (hm_header (sh_message d))"

fun ghr_block_hash :: "get_header_response \<Rightarrow> b256" where
  "ghr_block_hash (Electra d) = eph_block_hash (hm_header (sh_message d))"

fun ghr_gas_limit :: "get_header_response \<Rightarrow> u64" where
  "ghr_gas_limit (Electra d) = eph_gas_limit (hm_header (sh_message d))"

fun ghr_pubkey :: "get_header_response \<Rightarrow> bls_public_key" where
  "ghr_pubkey (Electra d) = hm_pubkey (sh_message d)"

fun ghr_value :: "get_header_response \<Rightarrow> u256" where
  "ghr_value (Electra d) = hm_value (sh_message d)"

fun ghr_transactions_root :: "get_header_response \<Rightarrow> b256" where
  "ghr_transactions_root (Electra d) = eph_transactions_root (hm_header (sh_message d))"

fun ghr_parent_hash :: "get_header_response \<Rightarrow> b256" where
  "ghr_parent_hash (Electra d) = eph_parent_hash (hm_header (sh_message d))"

fun ghr_signature :: "get_header_response \<Rightarrow> bls_signature" where
  "ghr_signature (Electra d) = sh_signature d"

text \<open>A registration is defined outside the repository; only its identity matters here.\<close>

record validator_registration =
  vr_fee_recipient :: address
  vr_gas_limit :: u64
  vr_timestamp :: u64
  vr_pubkey :: bls_public_key
  vr_signature :: bls_signature

text \<open>\<open>BuilderApiVersion\<close> (\<open>builder.rs\<close>) and the path constants of \<open>constants.rs\<close>.\<close>

datatype builder_api_version = V1 | V2

definition BUILDER_V1_API_PATH :: string where
  "BUILDER_V1_API_PATH = ''/eth/v1/builder''"

definition BUILDER_V2_API_PATH :: string where
  "BUILDER_V2_API_PATH = ''/eth/v2/builder''"

fun api_version_path :: "builder_api_version \<Rightarrow> string" where
  "api_version_path V1 = BUILDER_V1_API_PATH"
| "api_version_path V2 = BUILDER_V2_API_PATH"

fun display_api_version :: "builder_api_version \<Rightarrow> string" where
  "display_api_version V1 = ''v1''"
| "display_api_version V2 = ''v2''"

section \<open>Properties\<close>

lemma strip_prefix_append [simp]: "strip_prefix p (p @ s) = Some s"
  by (simp add: strip_prefix_def)

lemma strip_prefix_Some_iff: "strip_prefix p s = Some t \<longleftrightarrow> s = p @ t"
  by (auto simp: strip_prefix_def) (metis append_take_drop_id)

lemma kzg_commitment_from_str_wf:
  "kzg_commitment_from_str dec s = Ok c \<Longrightarrow> wf_kzg_commitment c"
  by (auto simp: kzg_commitment_from_str_def and_then_Ok_iff split: option.splits if_splits)

lemma kzg_proof_from_str_wf:
  "kzg_proof_from_str dec s = Ok p \<Longrightarrow> wf_kzg_proof p"
  by (auto simp: kzg_proof_from_str_def and_then_Ok_iff split: option.splits if_splits)

end
