(* ===== verification/Signature.thy ===== *)
theory Signature
  imports Pbs_Types
begin

text \<open>
  Signing roots, domains, signing and verification: \<open>crates/common/src/signature.rs\<close>,
  \<open>crates/common/src/error.rs\<close> and \<open>crates/common/src/signer/schemes/\<close>. The SSZ tree hash, the
  \<open>blst\<close> library and the ECDSA signer of \<open>alloy\<close> are outside the repository: they are the fields
  of the record \<open>crypto\<close>, and a message enters by its tree hash root. Every definition takes that
  record as an argument.
\<close>

unbundle bit_operations_syntax

section \<open>The cryptographic libraries\<close>

datatype blst_error =
    BLST_SUCCESS
  | BLST_BAD_ENCODING
  | BLST_POINT_NOT_ON_CURVE
  | BLST_POINT_NOT_IN_GROUP
  | BLST_AGGR_TYPE_MISMATCH
  | BLST_VERIFY_FAIL
  | BLST_PK_IS_INFINITY
  | BLST_BAD_SCALAR

datatype blst_error_wrapper =
    BlstSuccess blst_error
  | BlstBadEncoding blst_error
  | BlstPointNotOnCurve blst_error
  | BlstPointNotInGroup blst_error
  | BlstAggrTypeMismatch blst_error
  | BlstVerifyFail blst_error
  | BlstPkIsInfinity blst_error
  | BlstBadScalar blst_error

fun blst_error_wrapper_from :: "blst_error \<Rightarrow> blst_error_wrapper" where
  "blst_error_wrapper_from BLST_SUCCESS = BlstSuccess BLST_SUCCESS"
| "blst_error_wrapper_from BLST_BAD_ENCODING = BlstBadEncoding BLST_BAD_ENCODING"
| "blst_error_wrapper_from BLST_POINT_NOT_ON_CURVE = BlstPointNotOnCurve BLST_POINT_NOT_ON_CURVE"
| "blst_error_wrapper_from BLST_POINT_NOT_IN_GROUP = BlstPointNotInGroup BLST_POINT_NOT_IN_GROUP"
| "blst_error_wrapper_from BLST_AGGR_TYPE_MISMATCH = BlstAggrTypeMismatch BLST_AGGR_TYPE_MISMATCH"
| "blst_error_wrapper_from BLST_VERIFY_FAIL = BlstVerifyFail BLST_VERIFY_FAIL"
| "blst_error_wrapper_from BLST_PK_IS_INFINITY = BlstPkIsInfinity BLST_PK_IS_INFINITY"
| "blst_error_wrapper_from BLST_BAD_SCALAR = BlstBadScalar BLST_BAD_SCALAR"

fun display_blst_error :: "blst_error_wrapper \<Rightarrow> string" where
  "display_blst_error (BlstSuccess _) = ''BLST_SUCCESS''"
| "display_blst_error (BlstBadEncoding _) = ''BLST_BAD_ENCODING''"
| "display_blst_error (BlstPointNotOnCurve _) = ''BLST_POINT_NOT_ON_CURVE''"
| "display_blst_error (BlstPointNotInGroup _) = ''BLST_POINT_NOT_IN_GROUP''"
| "display_blst_error (BlstAggrTypeMismatch _) = ''BLST_AGGR_TYPE_MISMATCH''"
| "display_blst_error (BlstVerifyFail _) = ''BLST_VERIFY_FAIL''"
| "display_blst_error (BlstPkIsInfinity _) = ''BLST_PK_IS_INFINITY''"
| "display_blst_error (BlstBadScalar _) = ''BLST_BAD_SCALAR''"

type_synonym bls_secret_key = "256 word"
type_synonym ecdsa_secret_key = "256 word"
type_synonym ecdsa_signature = "520 word"

text \<open>
  Tree hash roots of the containers \<open>SigningData\<close>, \<open>PropCommitSigningInfo\<close> and \<open>ForkData\<close> and of
  a bare \<open>B256\<close>; the \<open>blst\<close> calls (deserialisation reports an error code, \<open>verify\<close> returns one);
  the ECDSA calls of \<open>alloy\<close>.
\<close>

record crypto =
  th_signing_data :: "b256 \<Rightarrow> b256 \<Rightarrow> b256"
  th_prop_commit_signing_info :: "b256 \<Rightarrow> b256 \<Rightarrow> b256"
  th_fork_data :: "b32 \<Rightarrow> b256 \<Rightarrow> b256"
  th_b256 :: "b256 \<Rightarrow> b256"
  th_delegation_bls :: "bls_public_key \<Rightarrow> bls_public_key \<Rightarrow> b256"
  th_delegation_ecdsa :: "bls_public_key \<Rightarrow> address \<Rightarrow> b256"
  th_header_message :: "execution_payload_header_message_electra \<Rightarrow> b256"
  blst_key_validate :: "bls_public_key \<Rightarrow> (blst_error, bls_public_key) result"
  blst_sig_from_bytes :: "bls_signature \<Rightarrow> (blst_error, bls_signature) result"
  blst_verify :: "bls_signature \<Rightarrow> b256 \<Rightarrow> bls_public_key \<Rightarrow> blst_error"
  blst_sign :: "bls_secret_key \<Rightarrow> b256 \<Rightarrow> bls_signature"
  blst_sk_to_pk :: "bls_secret_key \<Rightarrow> bls_public_key"
  blst_sk_from_bytes :: "bytes \<Rightarrow> (blst_error, bls_secret_key) result"
  ecdsa_sign_hash :: "ecdsa_secret_key \<Rightarrow> b256 \<Rightarrow> (string, ecdsa_signature) result"
  ecdsa_recover :: "ecdsa_signature \<Rightarrow> b256 \<Rightarrow> (string, address) result"
  ecdsa_address :: "ecdsa_secret_key \<Rightarrow> address"
  ecdsa_sk_from_slice :: "bytes \<Rightarrow> (string, ecdsa_secret_key) result"

section \<open>Constants (\<open>constants.rs\<close>)\<close>

definition APPLICATION_BUILDER_DOMAIN :: b32 where
  "APPLICATION_BUILDER_DOMAIN = 0x00000001"

definition GENESIS_VALIDATORS_ROOT :: b256 where
  "GENESIS_VALIDATORS_ROOT = 0"

text \<open>The bytes 109, 109, 111, 67.\<close>

definition COMMIT_BOOST_DOMAIN :: b32 where
  "COMMIT_BOOST_DOMAIN = 0x6d6d6f43"

section \<open>Domains and signing roots\<close>

text \<open>The mask in the first four bytes, the first 28 bytes of the fork data root after it.\<close>

definition compute_domain :: "crypto \<Rightarrow> chain \<Rightarrow> b32 \<Rightarrow> b256" where
  "compute_domain C chain domain_mask =
     (let fork_data_root = th_fork_data C (genesis_fork_version chain) GENESIS_VALIDATORS_ROOT
      in push_bit 224 (ucast domain_mask) OR drop_bit 32 fork_data_root)"

fun known_builder_domain :: "known_chain \<Rightarrow> b256" where
  "known_builder_domain KMainnet =
     0x00000001f5a5fd42d16a20302798ef6ed309979b43003d2320d9f0e8ea9831a9"
| "known_builder_domain KHolesky =
     0x000000015b83a23759c560b2d0c64576e1dcfc34ea94c4988f3e0d9f77f05387"
| "known_builder_domain KSepolia =
     0x00000001d3010778cd08ee514b08fe67b6c503b510987a4ce43f42306d97c67c"
| "known_builder_domain KHelder =
     0x0000000194c41af484fff7964969e0bdd922f82dff0f4be87a60d0664cc9d1ff"
| "known_builder_domain KHoodi =
     0x00000001719103511efa4f1362ff2a50996cccf329cc84cb410c5e5c7d351d03"

fun builder_domain :: "crypto \<Rightarrow> chain \<Rightarrow> b256" where
  "builder_domain C Mainnet = known_builder_domain KMainnet"
| "builder_domain C Holesky = known_builder_domain KHolesky"
| "builder_domain C Sepolia = known_builder_domain KSepolia"
| "builder_domain C Helder = known_builder_domain KHelder"
| "builder_domain C Hoodi = known_builder_domain KHoodi"
| "builder_domain C (Custom t s v) = compute_domain C (Custom t s v) APPLICATION_BUILDER_DOMAIN"

definition compute_prop_commit_signing_root ::
  "crypto \<Rightarrow> chain \<Rightarrow> b256 \<Rightarrow> b256 option \<Rightarrow> b32 \<Rightarrow> b256" where
  "compute_prop_commit_signing_root C chain object_root module_signing_id domain_mask =
     (let domain = compute_domain C chain domain_mask in
      case module_signing_id of
        Some mid \<Rightarrow> th_signing_data C (th_prop_commit_signing_info C object_root mid) domain
      | None \<Rightarrow> th_signing_data C object_root domain)"

section \<open>Verification\<close>

definition alloy_pubkey_to_blst :: "crypto \<Rightarrow> bls_public_key \<Rightarrow> (blst_error, bls_public_key) result" where
  "alloy_pubkey_to_blst C pubkey = blst_key_validate C pubkey"

definition alloy_sig_to_blst :: "crypto \<Rightarrow> bls_signature \<Rightarrow> (blst_error, bls_signature) result" where
  "alloy_sig_to_blst C signature = blst_sig_from_bytes C signature"

definition verify_bls_signature ::
  "crypto \<Rightarrow> bls_public_key \<Rightarrow> b256 \<Rightarrow> bls_signature \<Rightarrow> (blst_error_wrapper, unit) result" where
  "verify_bls_signature C pubkey msg signature =
     and_then (map_err blst_error_wrapper_from (alloy_pubkey_to_blst C pubkey)) (\<lambda>pk.
     and_then (map_err blst_error_wrapper_from (alloy_sig_to_blst C signature)) (\<lambda>sig.
       let res = blst_verify C sig msg pk in
       if res = BLST_SUCCESS then Ok () else Err (blst_error_wrapper_from res)))"

definition verify_signed_message ::
  "crypto \<Rightarrow> chain \<Rightarrow> bls_public_key \<Rightarrow> b256 \<Rightarrow> bls_signature \<Rightarrow> b256 option \<Rightarrow> b32
     \<Rightarrow> (blst_error_wrapper, unit) result" where
  "verify_signed_message C chain pubkey msg_root signature module_signing_id domain_mask =
     verify_bls_signature C pubkey
       (compute_prop_commit_signing_root C chain msg_root module_signing_id domain_mask) signature"

definition verify_proposer_commitment_signature_bls ::
  "crypto \<Rightarrow> chain \<Rightarrow> bls_public_key \<Rightarrow> b256 \<Rightarrow> bls_signature \<Rightarrow> b256
     \<Rightarrow> (blst_error_wrapper, unit) result" where
  "verify_proposer_commitment_signature_bls C chain pubkey msg_root signature module_signing_id =
     (let signing_domain = compute_domain C chain COMMIT_BOOST_DOMAIN;
          object_root = th_prop_commit_signing_info C msg_root module_signing_id;
          signing_root = th_signing_data C object_root signing_domain
      in verify_bls_signature C pubkey signing_root signature)"

definition verify_ecdsa_signature ::
  "crypto \<Rightarrow> address \<Rightarrow> b256 \<Rightarrow> ecdsa_signature \<Rightarrow> (string, unit) result" where
  "verify_ecdsa_signature C addr msg signature =
     and_then (ecdsa_recover C signature msg) (\<lambda>recovered.
       ensure (recovered = addr) ''invalid signature'')"

definition verify_proposer_commitment_signature_ecdsa ::
  "crypto \<Rightarrow> chain \<Rightarrow> address \<Rightarrow> b256 \<Rightarrow> ecdsa_signature \<Rightarrow> b256 \<Rightarrow> (string, unit) result" where
  "verify_proposer_commitment_signature_ecdsa C chain addr msg_root signature module_signing_id =
     (let signing_domain = compute_domain C chain COMMIT_BOOST_DOMAIN;
          object_root = th_prop_commit_signing_info C msg_root module_signing_id;
          signing_root = th_signing_data C object_root signing_domain
      in verify_ecdsa_signature C addr signing_root signature)"

section \<open>Signing\<close>

definition sign_message :: "crypto \<Rightarrow> bls_secret_key \<Rightarrow> b256 \<Rightarrow> bls_signature" where
  "sign_message C secret_key msg = blst_sign C secret_key msg"

definition sign_builder_root :: "crypto \<Rightarrow> chain \<Rightarrow> bls_secret_key \<Rightarrow> b256 \<Rightarrow> bls_signature" where
  "sign_builder_root C chain secret_key object_root =
     (let signing_domain = builder_domain C chain;
          signing_root = th_signing_data C (th_b256 C object_root) signing_domain
      in sign_message C secret_key signing_root)"

definition sign_builder_message :: "crypto \<Rightarrow> chain \<Rightarrow> bls_secret_key \<Rightarrow> b256 \<Rightarrow> bls_signature" where
  "sign_builder_message C chain secret_key msg_root = sign_builder_root C chain secret_key msg_root"

definition sign_commit_boost_root ::
  "crypto \<Rightarrow> chain \<Rightarrow> bls_secret_key \<Rightarrow> b256 \<Rightarrow> b256 option \<Rightarrow> bls_signature" where
  "sign_commit_boost_root C chain secret_key object_root module_signing_id =
     sign_message C secret_key
       (compute_prop_commit_signing_root C chain object_root module_signing_id COMMIT_BOOST_DOMAIN)"

datatype bls_signer = BlsLocal bls_secret_key

fun bls_signer_pubkey :: "crypto \<Rightarrow> bls_signer \<Rightarrow> bls_public_key" where
  "bls_signer_pubkey C (BlsLocal secret) = blst_sk_to_pk C secret"

fun bls_signer_secret :: "bls_signer \<Rightarrow> b256" where
  "bls_signer_secret (BlsLocal secret) = secret"

fun bls_signer_sign :: "crypto \<Rightarrow> bls_signer \<Rightarrow> chain \<Rightarrow> b256 \<Rightarrow> b256 option \<Rightarrow> bls_signature" where
  "bls_signer_sign C (BlsLocal sk) chain object_root module_signing_id =
     sign_commit_boost_root C chain sk object_root module_signing_id"

definition bls_signer_new_from_bytes :: "crypto \<Rightarrow> bytes \<Rightarrow> (blst_error_wrapper, bls_signer) result" where
  "bls_signer_new_from_bytes C bs =
     and_then (map_err blst_error_wrapper_from (blst_sk_from_bytes C bs)) (\<lambda>secret. Ok (BlsLocal secret))"

datatype ecdsa_signer = EcdsaLocal ecdsa_secret_key

fun ecdsa_signer_address :: "crypto \<Rightarrow> ecdsa_signer \<Rightarrow> address" where
  "ecdsa_signer_address C (EcdsaLocal secret) = ecdsa_address C secret"

fun ecdsa_signer_sign ::
  "crypto \<Rightarrow> ecdsa_signer \<Rightarrow> chain \<Rightarrow> b256 \<Rightarrow> b256 option \<Rightarrow> (string, ecdsa_signature) result" where
  "ecdsa_signer_sign C (EcdsaLocal sk) chain object_root module_signing_id =
     (let signing_domain = compute_domain C chain COMMIT_BOOST_DOMAIN;
          signing_root =
            (case module_signing_id of
               Some mid \<Rightarrow>
                 th_signing_data C (th_prop_commit_signing_info C object_root mid) signing_domain
             | None \<Rightarrow> th_signing_data C object_root signing_domain)
      in ecdsa_sign_hash C sk signing_root)"

definition ecdsa_signer_new_from_bytes :: "crypto \<Rightarrow> bytes \<Rightarrow> (string, ecdsa_signer) result" where
  "ecdsa_signer_new_from_bytes C bs =
     and_then (ecdsa_sk_from_slice C bs) (\<lambda>secret. Ok (EcdsaLocal secret))"

section \<open>What the libraries promise\<close>

text \<open>Completeness of the BLS and ECDSA schemes: a signature verifies under the signer's own key.\<close>

definition bls_complete :: "crypto \<Rightarrow> bool" where
  "bls_complete C \<longleftrightarrow>
     (\<forall>sk msg.
        blst_key_validate C (blst_sk_to_pk C sk) = Ok (blst_sk_to_pk C sk) \<and>
        blst_sig_from_bytes C (blst_sign C sk msg) = Ok (blst_sign C sk msg) \<and>
        blst_verify C (blst_sign C sk msg) msg (blst_sk_to_pk C sk) = BLST_SUCCESS)"

definition ecdsa_complete :: "crypto \<Rightarrow> bool" where
  "ecdsa_complete C \<longleftrightarrow>
     (\<forall>sk msg sig. ecdsa_sign_hash C sk msg = Ok sig \<longrightarrow> ecdsa_recover C sig msg = Ok (ecdsa_address C sk))"

section \<open>Properties\<close>

lemma verify_sign_message:
  "bls_complete C \<Longrightarrow> verify_bls_signature C (blst_sk_to_pk C sk) msg (sign_message C sk msg) = Ok ()"
  by (simp add: bls_complete_def verify_bls_signature_def sign_message_def
      alloy_pubkey_to_blst_def alloy_sig_to_blst_def)

lemma verify_bls_signature_Ok_iff:
  "verify_bls_signature C pubkey msg signature = Ok u \<longleftrightarrow>
     (\<exists>pk sig. blst_key_validate C pubkey = Ok pk \<and> blst_sig_from_bytes C signature = Ok sig
        \<and> blst_verify C sig msg pk = BLST_SUCCESS)"
  by (auto simp: verify_bls_signature_def alloy_pubkey_to_blst_def alloy_sig_to_blst_def
      and_then_Ok_iff Let_def split: if_splits)

text \<open>The mask can be read back from the first four bytes of a domain.\<close>

lemma compute_domain_mask: "drop_bit 224 (compute_domain C chain m) = ucast m"
proof (rule bit_word_eqI)
  fix n
  assume "n < LENGTH(256)"
  show "bit (drop_bit 224 (compute_domain C chain m)) n = bit (ucast m :: b256) n"
    using bit_imp_le_length [of m n]
      bit_imp_le_length [of "th_fork_data C (genesis_fork_version chain) GENESIS_VALIDATORS_ROOT" "256 + n"]
    by (auto simp: compute_domain_def Let_def bit_simps add.commute)
qed

lemma compute_domain_inj_mask:
  assumes "compute_domain C c m = compute_domain C c' m'"
  shows "m = m'"
proof -
  have "(ucast m :: b256) = ucast m'"
    using assms compute_domain_mask [of C c m] compute_domain_mask [of C c' m'] by simp
  then have "bit (ucast m :: b256) n = bit (ucast m' :: b256) n" for n by simp
  then have eq: "n < 256 \<and> bit m n \<longleftrightarrow> n < 256 \<and> bit m' n" for n
    by (simp add: bit_ucast_iff)
  show ?thesis
  proof (rule bit_word_eqI)
    fix n
    assume "n < LENGTH(32)"
    with eq [of n] show "bit m n = bit m' n" by simp
  qed
qed

end
