(* ===== verification/Relay.thy ===== *)
theory Relay
  imports Signature
begin

text \<open>
  The relay side of the PBS module: the error types of \<open>crates/common/src/pbs/error.rs\<close>, the
  bounded body reader and the user agent helpers of \<open>crates/common/src/utils.rs\<close>, relay
  configuration and \<open>RelayClient\<close> with its URL builders (\<open>crates/common/src/pbs/relay.rs\<close>,
  \<open>crates/common/src/config/pbs.rs\<close>), the events of \<open>event.rs\<close>, the metrics labels of
  \<open>crates/pbs/src/constants.rs\<close> and \<open>metrics.rs\<close>.

  The network is an argument: \<open>http\<close> maps the request that the code sends to the time the call
  took and its outcome. The \<open>url\<close>, \<open>http\<close>, \<open>serde_json\<close> and \<open>hex\<close> crates are the record \<open>weblib\<close>.
  Metric updates and published events are recorded in a list of \<open>effect\<close>s in program order; log
  lines are left out. An error message built from response bytes keeps the bytes (the sources
  render them lossily as UTF-8 for display).
\<close>

section \<open>Errors\<close>

text \<open>What the code asks of a \<open>reqwest::Error\<close>.\<close>

record reqwest_error =
  err_is_timeout :: bool
  err_is_connect :: bool

datatype response_read_error =
    PayloadTooLarge nat nat bytes
  | ReqwestError reqwest_error

datatype validation_error =
    EmptyBlockhash
  | PubkeyMismatch bls_public_key bls_public_key
  | ParentHashMismatch b256 b256
  | BlockHashMismatch b256 b256
  | KzgCommitments nat nat nat nat
  | KzgMismatch string string nat
  | BidTooLow u256 u256
  | EmptyTxRoot
  | Sigverify blst_error_wrapper
  | TimestampMismatch u64 u64
  | BlockNumberMismatch u64 u64
  | GasLimit u64 u64
  | PayloadVersionMismatch string string

datatype pbs_error =
    AxumError string
  | Reqwest reqwest_error
  | JsonDecode string bytes
  | ReadResponse response_read_error
  | RelayResponse bytes u16
  | Validation validation_error
  | UrlParsing string

fun is_timeout :: "pbs_error \<Rightarrow> bool" where
  "is_timeout (Reqwest err) = err_is_timeout err"
| "is_timeout _ = False"

fun should_retry :: "pbs_error \<Rightarrow> bool" where
  "should_retry (Reqwest err) = (err_is_timeout err \<or> err_is_connect err)"
| "should_retry (RelayResponse _ code) =
     (if 500 \<le> code \<and> code < 509 then True
      else if code = 400 \<or> code = 429 then False
      else False)"
| "should_retry _ = False"

section \<open>Requests and responses\<close>

type_synonym header_map = "string \<rightharpoonup> string"

datatype http_method = GET | POST

datatype http_body =
    NoBody
  | JsonBlindedBlock signed_blinded_beacon_block
  | JsonRegistrations "validator_registration list"

record http_request =
  rq_method :: http_method
  rq_url :: string
  rq_timeout_ms :: u64
  rq_headers :: header_map
  rq_body :: http_body

record response =
  resp_status :: u16
  resp_content_length :: "u64 option"
  resp_chunks :: "(reqwest_error, bytes) result list"

type_synonym http = "http_request \<Rightarrow> nat \<times> (reqwest_error, response) result"

text \<open>\<open>StatusCode::is_success\<close>\<close>

definition is_success :: "u16 \<Rightarrow> bool" where
  "is_success code \<longleftrightarrow> 200 \<le> code \<and> code < 300"

definition NO_CONTENT :: u16 where
  "NO_CONTENT = 204"

text \<open>The loop of \<open>read_chunked_body_with_max\<close> over the chunks still to come.\<close>

fun read_chunks ::
  "u64 option \<Rightarrow> nat \<Rightarrow> bytes \<Rightarrow> (reqwest_error, bytes) result list
     \<Rightarrow> (response_read_error, bytes) result" where
  "read_chunks content_length max_size response_bytes [] = Ok response_bytes"
| "read_chunks content_length max_size response_bytes (chunk # rest) =
     (case chunk of
        Inl e \<Rightarrow> Err (ReqwestError e)
      | Inr bs \<Rightarrow>
          if length response_bytes + length bs > max_size
          then Err (PayloadTooLarge max_size
                 (case content_length of None \<Rightarrow> 0 | Some l \<Rightarrow> unat l)
                 (take 1024 response_bytes))
          else read_chunks content_length max_size (response_bytes @ bs) rest)"

definition read_chunked_body_with_max ::
  "response \<Rightarrow> nat \<Rightarrow> (response_read_error, bytes) result" where
  "read_chunked_body_with_max res max_size =
     (case resp_content_length res of
        Some l \<Rightarrow>
          if unat l > max_size then Err (PayloadTooLarge max_size (unat l) [])
          else read_chunks (Some l) max_size [] (resp_chunks res)
      | None \<Rightarrow> read_chunks None max_size [] (resp_chunks res))"

section \<open>Libraries of the web stack\<close>

text \<open>
  \<open>Url::join\<close>, \<open>query_pairs_mut().append_pair\<close>, \<open>Url::host\<close>, \<open>Url::username\<close>,
  \<open>BlsPublicKey::from_hex\<close>; header names and values (\<open>to_str\<close> gives \<open>None\<close> on opaque bytes,
  \<open>from_str\<close> on characters a header cannot carry); whether \<open>reqwest\<close> can build a client with the
  given default headers; JSON decoding of the two response types and the hex rendering of byte
  arrays.
\<close>

record weblib =
  url_join :: "string \<Rightarrow> string \<Rightarrow> (string, string) result"
  url_append_pair :: "string \<Rightarrow> string \<Rightarrow> string \<Rightarrow> string"
  url_host :: "string \<Rightarrow> string option"
  url_username :: "string \<Rightarrow> string"
  pubkey_from_hex :: "string \<Rightarrow> bls_public_key option"
  hv_to_str :: "string \<Rightarrow> string option"
  hv_from_str :: "string \<Rightarrow> string option"
  hn_from_str :: "string \<Rightarrow> string option"
  client_builds :: "header_map \<Rightarrow> bool"
  json_get_header :: "bytes \<Rightarrow> (string, get_header_response) result"
  json_submit_block :: "bytes \<Rightarrow> (string, submit_blinded_block_response) result"
  hex_encode :: "bytes \<Rightarrow> string"

section \<open>Constants\<close>

definition STATUS_ENDPOINT_TAG :: string where
  "STATUS_ENDPOINT_TAG = ''status''"

definition REGISTER_VALIDATOR_ENDPOINT_TAG :: string where
  "REGISTER_VALIDATOR_ENDPOINT_TAG = ''register_validator''"

definition SUBMIT_BLINDED_BLOCK_ENDPOINT_TAG :: string where
  "SUBMIT_BLINDED_BLOCK_ENDPOINT_TAG = ''submit_blinded_block''"

definition GET_HEADER_ENDPOINT_TAG :: string where
  "GET_HEADER_ENDPOINT_TAG = ''get_header''"

definition RELOAD_ENDPOINT_TAG :: string where
  "RELOAD_ENDPOINT_TAG = ''reload''"

definition TIMEOUT_ERROR_CODE :: u16 where
  "TIMEOUT_ERROR_CODE = 555"

definition TIMEOUT_ERROR_CODE_STR :: string where
  "TIMEOUT_ERROR_CODE_STR = ''555''"

definition MAX_SIZE_SUBMIT_BLOCK_RESPONSE :: nat where
  "MAX_SIZE_SUBMIT_BLOCK_RESPONSE = 20 * 1024 * 1024"

definition MAX_SIZE_REGISTER_VALIDATOR_REQUEST :: nat where
  "MAX_SIZE_REGISTER_VALIDATOR_REQUEST = 20 * 1024 * 1024"

definition MAX_SIZE_GET_HEADER_RESPONSE :: nat where
  "MAX_SIZE_GET_HEADER_RESPONSE = 5 * 1024 * 1024"

definition MAX_SIZE_DEFAULT :: nat where
  "MAX_SIZE_DEFAULT = 1024"

definition GET_STATUS_PATH :: string where
  "GET_STATUS_PATH = ''/status''"

definition REGISTER_VALIDATOR_PATH :: string where
  "REGISTER_VALIDATOR_PATH = ''/validators''"

definition SUBMIT_BLOCK_PATH :: string where
  "SUBMIT_BLOCK_PATH = ''/blinded_blocks''"

definition HEADER_VERSION_KEY :: string where
  "HEADER_VERSION_KEY = ''X-CommitBoost-Version''"

text \<open>\<open>CARGO_PKG_VERSION\<close> of the workspace manifest.\<close>

definition HEADER_VERSION_VALUE :: string where
  "HEADER_VERSION_VALUE = ''0.8.1-rc.1''"

definition HEADER_START_TIME_UNIX_MS :: string where
  "HEADER_START_TIME_UNIX_MS = ''Date-Milliseconds''"

text \<open>Header names are compared without regard to case: \<open>HeaderMap\<close> keeps them in lower case.\<close>

definition lower_char :: "char \<Rightarrow> char" where
  "lower_char c = (let n = (of_char c :: nat) in if 65 \<le> n \<and> n \<le> 90 then char_of (n + 32) else c)"

definition header_key :: "string \<Rightarrow> string" where
  "header_key = map lower_char"

definition USER_AGENT :: string where
  "USER_AGENT = ''user-agent''"

section \<open>User agent\<close>

definition get_user_agent :: "weblib \<Rightarrow> header_map \<Rightarrow> string" where
  "get_user_agent W req_headers =
     (case req_headers USER_AGENT of
        None \<Rightarrow> []
      | Some ua \<Rightarrow> (case hv_to_str W ua of None \<Rightarrow> [] | Some s \<Rightarrow> s))"

definition get_user_agent_with_version :: "weblib \<Rightarrow> header_map \<Rightarrow> (string, string) result" where
  "get_user_agent_with_version W req_headers =
     (let ua = get_user_agent W req_headers in
      case hv_from_str W (''commit-boost/'' @ HEADER_VERSION_VALUE @ '' '' @ ua) of
        Some v \<Rightarrow> Ok v
      | None \<Rightarrow> Err ''invalid header value'')"

section \<open>Relay entries, configuration and client\<close>

record relay_entry =
  re_id :: string
  re_pubkey :: bls_public_key
  re_url :: string

text \<open>\<open>Deserialize for RelayEntry\<close>, from the URL that was read.\<close>

definition deserialize_relay_entry :: "weblib \<Rightarrow> string \<Rightarrow> (string, relay_entry) result" where
  "deserialize_relay_entry W url =
     (case url_host W url of
        None \<Rightarrow> Err ''missing host''
      | Some host \<Rightarrow>
          (case pubkey_from_hex W (url_username W url) of
             None \<Rightarrow> Err ''invalid BLS pubkey''
           | Some pk \<Rightarrow> Ok \<lparr>re_id = host, re_pubkey = pk, re_url = url\<rparr>))"

text \<open>Header and parameter maps are listed in the order in which the hash map yields them.\<close>

record relay_config =
  rc_id :: "string option"
  rc_entry :: relay_entry
  rc_headers :: "(string \<times> string) list option"
  rc_get_params :: "(string \<times> string) list option"
  rc_enable_timing_games :: bool
  rc_target_first_request_ms :: "u64 option"
  rc_frequency_get_header_ms :: "u64 option"
  rc_validator_registration_batch_size :: "nat option"

definition relay_config_id :: "relay_config \<Rightarrow> string" where
  "relay_config_id c = (case rc_id c of Some i \<Rightarrow> i | None \<Rightarrow> re_id (rc_entry c))"

record relay_client =
  rl_id :: string
  rl_default_headers :: header_map
  rl_config :: relay_config

fun insert_custom_headers ::
  "weblib \<Rightarrow> header_map \<Rightarrow> (string \<times> string) list \<Rightarrow> (string, header_map) result" where
  "insert_custom_headers W headers [] = Ok headers"
| "insert_custom_headers W headers ((key, v) # rest) =
     (case hn_from_str W key of
        None \<Rightarrow> Err ''{key} is an invalid header name''
      | Some k \<Rightarrow>
          (case hv_from_str W v of
             None \<Rightarrow> Err ''{key} has an invalid header value''
           | Some hv \<Rightarrow> insert_custom_headers W (headers(k \<mapsto> hv)) rest))"

definition relay_client_new :: "weblib \<Rightarrow> relay_config \<Rightarrow> (string, relay_client) result" where
  "relay_client_new W config =
     and_then
       (let headers = [header_key HEADER_VERSION_KEY \<mapsto> HEADER_VERSION_VALUE] in
        case rc_headers config of
          None \<Rightarrow> Ok headers
        | Some custom_headers \<Rightarrow> insert_custom_headers W headers custom_headers)
       (\<lambda>headers.
          if client_builds W headers
          then Ok \<lparr>rl_id = relay_config_id config, rl_default_headers = headers, rl_config = config\<rparr>
          else Err ''client build failed'')"

definition relay_pubkey :: "relay_client \<Rightarrow> bls_public_key" where
  "relay_pubkey r = re_pubkey (rc_entry (rl_config r))"

definition get_url :: "weblib \<Rightarrow> relay_client \<Rightarrow> string \<Rightarrow> (pbs_error, string) result" where
  "get_url W r path =
     and_then (map_err UrlParsing (url_join W (re_url (rc_entry (rl_config r))) path)) (\<lambda>url.
       Ok (case rc_get_params (rl_config r) of
             None \<Rightarrow> url
           | Some params \<Rightarrow> foldl (\<lambda>u (k, v). url_append_pair W u k v) url params))"

definition builder_api_url ::
  "weblib \<Rightarrow> relay_client \<Rightarrow> string \<Rightarrow> builder_api_version \<Rightarrow> (pbs_error, string) result" where
  "builder_api_url W r path api_version = get_url W r (api_version_path api_version @ path)"

definition get_header_path :: "u64 \<Rightarrow> b256 \<Rightarrow> bls_public_key \<Rightarrow> string" where
  "get_header_path slot parent_hash validator_pubkey =
     ''/header/'' @ decimal (unat slot) @ ''/'' @ display_fixed_bytes 32 parent_hash @ ''/''
       @ display_fixed_bytes 48 validator_pubkey"

definition get_header_url ::
  "weblib \<Rightarrow> relay_client \<Rightarrow> u64 \<Rightarrow> b256 \<Rightarrow> bls_public_key \<Rightarrow> (pbs_error, string) result" where
  "get_header_url W r slot parent_hash validator_pubkey =
     builder_api_url W r (get_header_path slot parent_hash validator_pubkey) V1"

definition get_status_url :: "weblib \<Rightarrow> relay_client \<Rightarrow> (pbs_error, string) result" where
  "get_status_url W r = builder_api_url W r GET_STATUS_PATH V1"

definition register_validator_url :: "weblib \<Rightarrow> relay_client \<Rightarrow> (pbs_error, string) result" where
  "register_validator_url W r = builder_api_url W r REGISTER_VALIDATOR_PATH V1"

definition submit_block_url ::
  "weblib \<Rightarrow> relay_client \<Rightarrow> builder_api_version \<Rightarrow> (pbs_error, string) result" where
  "submit_block_url W r api_version = builder_api_url W r SUBMIT_BLOCK_PATH api_version"

section \<open>Events and effects\<close>

datatype builder_event =
    GetHeaderRequest get_header_params
  | GetHeaderResponse "get_header_response option"
  | GetStatusEvent
  | GetStatusResponse
  | SubmitBlockRequest signed_blinded_beacon_block builder_api_version
  | SubmitBlockResponseV1 submit_blinded_block_response
  | SubmitBlockResponseV2
  | MissedPayload b256
  | RegisterValidatorRequest "validator_registration list"
  | RegisterValidatorResponse
  | ReloadEvent
  | ReloadResponse

text \<open>
  Metric updates with their label values (\<open>metrics.rs\<close>): the counters \<open>relay_status_code_total\<close>
  and \<open>beacon_node_status_code_total\<close> are incremented, the histogram \<open>relay_latency\<close> observes
  milliseconds, the gauges \<open>relay_last_slot\<close> and \<open>relay_header_value\<close> are set. \<open>PublishTo\<close> is the
  POST of an event to one subscriber.
\<close>

datatype effect =
    RELAY_STATUS_CODE string string string
  | RELAY_LATENCY string string nat
  | RELAY_LAST_SLOT string int
  | RELAY_HEADER_VALUE string int
  | BEACON_NODE_STATUS string string
  | PublishTo string builder_event

type_synonym 'a run = "effect list \<times> 'a"

definition status_as_str :: "u16 \<Rightarrow> string" where
  "status_as_str code = decimal (unat code)"

text \<open>
  The opening of every request function: on a send error the status counter is incremented under
  the time-out label and the error returned; otherwise the latency is observed and the counter
  incremented under the response's status code.
\<close>

definition observe_send ::
  "string \<Rightarrow> string \<Rightarrow> nat \<times> (reqwest_error, response) result \<Rightarrow> (pbs_error, response) result run" where
  "observe_send tag relay_id outcome =
     (case snd outcome of
        Inl err \<Rightarrow> ([RELAY_STATUS_CODE TIMEOUT_ERROR_CODE_STR tag relay_id], Err (Reqwest err))
      | Inr res \<Rightarrow>
          ([RELAY_LATENCY tag relay_id (fst outcome),
            RELAY_STATUS_CODE (status_as_str (resp_status res)) tag relay_id], Ok res))"

text \<open>The status code updates of an effect log.\<close>

fun status_codes :: "effect list \<Rightarrow> (string \<times> string \<times> string) list" where
  "status_codes [] = []"
| "status_codes (RELAY_STATUS_CODE c t i # es) = (c, t, i) # status_codes es"
| "status_codes (_ # es) = status_codes es"

section \<open>Properties\<close>

lemma status_codes_append [simp, effect_simps]:
  "status_codes (es @ fs) = status_codes es @ status_codes fs"
  by (induction es rule: status_codes.induct) auto

lemma status_codes_concat: "status_codes (concat ess) = concat (map status_codes ess)"
  by (induction ess) auto

lemma status_codes_observe_send [simp, effect_simps]:
  "\<exists>code. status_codes (fst (observe_send tag rid out)) = [(code, tag, rid)]"
  by (auto simp: observe_send_def split: sum.splits)

lemma read_chunks_Ok:
  "read_chunks cl mx acc cs = Ok body \<Longrightarrow> length acc \<le> mx \<Longrightarrow>
     length body \<le> mx \<and> (\<exists>bss. cs = map Inr bss \<and> body = acc @ concat bss)"
proof (induction cl mx acc cs rule: read_chunks.induct)
  case (1 cl mx acc)
  then show ?case by simp
next
  case (2 cl mx acc c cs)
  from "2.prems"(1) obtain bs where c: "c = Inr bs"
    and len: "length acc + length bs \<le> mx" and rest: "read_chunks cl mx (acc @ bs) cs = Ok body"
    by (auto split: sum.splits if_splits)
  with "2.IH" [of bs] obtain bss where "length body \<le> mx" "cs = map Inr bss" "body = (acc @ bs) @ concat bss"
    by auto
  with c show ?case by (intro conjI exI [of _ "bs # bss"]) simp_all
qed

lemma read_chunks_enough:
  "length acc + length (concat bss) \<le> mx \<Longrightarrow>
     read_chunks cl mx acc (map Inr bss) = Ok (acc @ concat bss)"
  by (induction bss arbitrary: acc) auto

end
