(* ===== verification/Config.thy ===== *)
theory Config
  imports Relay "HOL-Library.AList"
begin

text \<open>
  Configuration of the PBS module: \<open>crates/common/src/config/pbs.rs\<close> (\<open>PbsConfig\<close> and its
  validation, \<open>load_pbs_config\<close>, \<open>load_pbs_custom_config\<close>), \<open>mux.rs\<close> (multiplexers and the
  loaders of their validator keys), \<open>utils.rs\<close> (environment variables, guarded HTTP reads, the
  secrets map), \<open>mod.rs\<close> (\<open>CommitBoostConfig\<close>) and the static part of \<open>signer.rs\<close>.

  Environment variables, files, RPC and HTTP endpoints and the parsers of other crates are the
  record \<open>config_env\<close>. A hash map is an association list whose order is the iteration order;
  \<open>insert\<close> is \<open>AList.update\<close>. Errors are the messages of \<open>eyre\<close>, without the interpolated values.
\<close>

section \<open>Strings\<close>

definition is_whitespace :: "char \<Rightarrow> bool" where
  "is_whitespace c \<longleftrightarrow> (let n = (of_char c :: nat) in n = 32 \<or> 9 \<le> n \<and> n \<le> 13)"

definition trim :: "string \<Rightarrow> string" where
  "trim s = rev (dropWhile is_whitespace (rev (dropWhile is_whitespace s)))"

text \<open>\<open>str::split\<close> at a character: always at least one piece.\<close>

fun split_char :: "char \<Rightarrow> string \<Rightarrow> string list" where
  "split_char c [] = [[]]"
| "split_char c (x # xs) =
     (if x = c then [] # split_char c xs
      else (case split_char c xs of [] \<Rightarrow> [[x]] | p # ps \<Rightarrow> (x # p) # ps))"

section \<open>The environment of the configuration loaders\<close>

datatype socket_addr = SocketAddr b32 u16

record ssv_response =
  ssv_validators :: "bls_public_key list"
  ssv_total :: nat

record config_env =
  ce_var :: "string \<Rightarrow> string option"
  ce_read_file :: "string \<Rightarrow> string option"
  ce_parse_addr :: "string \<Rightarrow> socket_addr option"
  ce_parse_url :: "string \<Rightarrow> string option"
  ce_rpc_chain_id :: "string \<Rightarrow> (string, u64) result"
  ce_http_get :: "string \<Rightarrow> (reqwest_error, response) result"
  ce_json_pubkeys :: "bytes \<Rightarrow> bls_public_key list option"
  ce_json_ssv :: "bytes \<Rightarrow> ssv_response option"
  ce_lido_total :: "address \<Rightarrow> u256 \<Rightarrow> (string, u256) result"
  ce_lido_keys :: "address \<Rightarrow> u256 \<Rightarrow> u256 \<Rightarrow> u256 \<Rightarrow> (string, bytes) result"

definition load_env_var :: "config_env \<Rightarrow> string \<Rightarrow> (string, string) result" where
  "load_env_var E name = (case ce_var E name of Some v \<Rightarrow> Ok v | None \<Rightarrow> Err (name @ '' is not set''))"

definition load_optional_env_var :: "config_env \<Rightarrow> string \<Rightarrow> string option" where
  "load_optional_env_var E name = ce_var E name"

definition bytes_of_string :: "string \<Rightarrow> bytes" where
  "bytes_of_string s = map of_char s"

section \<open>Shared helpers (\<open>config/utils.rs\<close>)\<close>

definition MUXER_HTTP_MAX_LENGTH :: nat where
  "MUXER_HTTP_MAX_LENGTH = 1024 * 1024 * 10"

definition safe_read_http_response :: "response \<Rightarrow> (string, bytes) result" where
  "safe_read_http_response res =
     (case read_chunked_body_with_max res MUXER_HTTP_MAX_LENGTH of
        Inr response_bytes \<Rightarrow>
          if is_success (resp_status res) then Ok response_bytes
          else Err ''Request failed with status''
      | Inl e \<Rightarrow>
          if is_success (resp_status res) then Err ''Failed to read response body''
          else Err ''Request failed, but decoding the response body failed'')"

text \<open>\<open>remove_duplicate_keys\<close>: a seen set and the unique keys so far.\<close>

fun dedup_loop :: "bls_public_key list \<Rightarrow> bls_public_key list \<Rightarrow> bls_public_key list" where
  "dedup_loop unique_keys [] = unique_keys"
| "dedup_loop unique_keys (key # keys) =
     (if key \<in> set unique_keys then dedup_loop unique_keys keys
      else dedup_loop (unique_keys @ [key]) keys)"

definition remove_duplicate_keys :: "bls_public_key list \<Rightarrow> bls_public_key list" where
  "remove_duplicate_keys keys = dedup_loop [] keys"

type_synonym module_id = string

definition decode_pair :: "string \<Rightarrow> (string, module_id \<times> string) result" where
  "decode_pair pair =
     (case split_char CHR ''='' (trim pair) of
        key # v # _ \<Rightarrow> Ok (key, v)
      | _ \<Rightarrow> Err ''Invalid key-value pair'')"

definition hash_map_of :: "('k \<times> 'v) list \<Rightarrow> ('k \<times> 'v) list" where
  "hash_map_of kvs = foldl (\<lambda>m (k, v). AList.update k v m) [] kvs"

definition decode_string_to_map :: "string \<Rightarrow> (string, (module_id \<times> string) list) result" where
  "decode_string_to_map raw =
     and_then (collect_results (map decode_pair (split_char CHR '','' (trim raw)))) (\<lambda>kvs.
       Ok (hash_map_of kvs))"

definition JWTS_ENV :: string where
  "JWTS_ENV = ''CB_JWTS''"

definition ADMIN_JWT_ENV :: string where
  "ADMIN_JWT_ENV = ''CB_SIGNER_ADMIN_JWT''"

definition load_jwt_secrets :: "config_env \<Rightarrow> (string, string \<times> (module_id \<times> string) list) result" where
  "load_jwt_secrets E =
     and_then (load_env_var E ADMIN_JWT_ENV) (\<lambda>admin_jwt.
     and_then (load_env_var E JWTS_ENV) (\<lambda>jwt_secrets.
     and_then (decode_string_to_map jwt_secrets) (\<lambda>secrets. Ok (admin_jwt, secrets))))"

section \<open>\<open>PbsConfig\<close>\<close>

record pbs_config =
  pc_host :: b32
  pc_port :: u16
  pc_relay_check :: bool
  pc_wait_all_registrations :: bool
  pc_timeout_get_header_ms :: u64
  pc_timeout_get_payload_ms :: u64
  pc_timeout_register_validator_ms :: u64
  pc_skip_sigverify :: bool
  pc_min_bid_wei :: u256
  pc_late_in_slot_time_ms :: u64
  pc_extra_validation_enabled :: bool
  pc_rpc_url :: "string option"
  pc_http_timeout_seconds :: u64
  pc_register_validator_retry_limit :: u32

definition WEI_PER_ETH :: u64 where
  "WEI_PER_ETH = 1000000000000000000"

definition pbs_config_validate :: "config_env \<Rightarrow> pbs_config \<Rightarrow> chain \<Rightarrow> (string, unit) result" where
  "pbs_config_validate E c chain =
     and_then (ensure (0 < pc_timeout_get_header_ms c) ''timeout_get_header_ms must be greater than 0'') (\<lambda>_.
     and_then (ensure (0 < pc_timeout_get_payload_ms c) ''timeout_get_payload_ms must be greater than 0'') (\<lambda>_.
     and_then (ensure (0 < pc_timeout_register_validator_ms c)
                 ''timeout_register_validator_ms must be greater than 0'') (\<lambda>_.
     and_then (ensure (0 < pc_late_in_slot_time_ms c) ''late_in_slot_time_ms must be greater than 0'') (\<lambda>_.
     and_then (ensure (pc_timeout_get_header_ms c < pc_late_in_slot_time_ms c)
                 ''timeout_get_header_ms must be less than late_in_slot_time_ms'') (\<lambda>_.
     and_then (ensure (0 < pc_register_validator_retry_limit c)
                 ''register_validator_retry_limit must be greater than 0'') (\<lambda>_.
     and_then (ensure (pc_min_bid_wei c < ucast WEI_PER_ETH) ''min bid is too high'') (\<lambda>_.
     and_then (if pc_extra_validation_enabled c
               then ensure (pc_rpc_url c \<noteq> None) ''rpc_url is required if extra_validation_enabled is true''
               else Ok ()) (\<lambda>_.
       case pc_rpc_url c of
         None \<Rightarrow> Ok ()
       | Some rpc_url \<Rightarrow>
           if is_custom chain then Ok ()
           else and_then (ce_rpc_chain_id E rpc_url) (\<lambda>cid.
                  ensure (Some cid = chain_id chain) ''Rpc url is for the wrong chain'')))))))))"

section \<open>Multiplexers (\<open>mux.rs\<close>)\<close>

datatype no_registry = Lido | SSV

datatype mux_keys_loader =
    LoaderFile string
  | LoaderHTTP string
  | LoaderRegistry no_registry u64

record mux_config =
  mc_id :: string
  mc_relays :: "relay_config list"
  mc_validator_pubkeys :: "bls_public_key list"
  mc_loader :: "mux_keys_loader option"
  mc_timeout_get_header_ms :: "u64 option"
  mc_late_in_slot_time_ms :: "u64 option"

record runtime_mux_config =
  rm_id :: string
  rm_config :: pbs_config
  rm_relays :: "relay_client list"

definition MUX_PATH_ENV :: string where
  "MUX_PATH_ENV = ''CB_MUX_PATH''"

definition get_mux_env :: "string \<Rightarrow> string" where
  "get_mux_env mux_id = MUX_PATH_ENV @ ''_'' @ mux_id"

definition get_mux_path :: "string \<Rightarrow> string" where
  "get_mux_path mux_id = ''/'' @ mux_id @ ''-mux_keys.json''"

definition load_file :: "config_env \<Rightarrow> string \<Rightarrow> (string, string) result" where
  "load_file E path =
     (case ce_read_file E path of Some s \<Rightarrow> Ok s | None \<Rightarrow> Err ''Unable to find mux keys file'')"

definition parse_mux_keys :: "config_env \<Rightarrow> bytes \<Rightarrow> string \<Rightarrow> (string, bls_public_key list) result" where
  "parse_mux_keys E bs msg = (case ce_json_pubkeys E bs of Some ks \<Rightarrow> Ok ks | None \<Rightarrow> Err msg)"

text \<open>The variable, path and internal path for the file loader, after checking that the file parses.\<close>

definition loader_env :: "config_env \<Rightarrow> mux_config \<Rightarrow> (string, (string \<times> string \<times> string) option) result" where
  "loader_env E mux =
     (case mc_loader mux of
        None \<Rightarrow> Ok None
      | Some (LoaderFile path) \<Rightarrow>
          and_then (load_file E path) (\<lambda>file.
          and_then (parse_mux_keys E (bytes_of_string file) ''failed to parse mux keys file'') (\<lambda>_.
            Ok (Some (get_mux_env (mc_id mux), path, get_mux_path (mc_id mux)))))
      | Some (LoaderHTTP _) \<Rightarrow> Ok None
      | Some (LoaderRegistry _ _) \<Rightarrow> Ok None)"

fun lido_registry_address :: "chain \<Rightarrow> (string, address) result" where
  "lido_registry_address Mainnet = Ok 0x55032650b14df07b85bF18A3a3eC8E0Af2e028d5"
| "lido_registry_address Holesky = Ok 0x595F64Ddc3856a3b5Ff4f4CC1d1fb4B46cFd2bAC"
| "lido_registry_address Hoodi = Ok 0x5cDbE1590c083b5A2A64427fAA63A7cfDB91FbB5"
| "lido_registry_address Sepolia = Ok 0x33d6E15047E8644F8DDf5CD05d202dfE587DA6E3"
| "lido_registry_address _ = Err ''Lido registry not supported for chain''"

definition CALL_BATCH_SIZE :: nat where
  "CALL_BATCH_SIZE = 250"

definition BLS_PK_LEN :: nat where
  "BLS_PK_LEN = 48"

definition be_nat :: "bytes \<Rightarrow> nat" where
  "be_nat bs = foldl (\<lambda>n b. n * 256 + unat b) 0 bs"

definition pubkey_try_from :: "bytes \<Rightarrow> (string, bls_public_key) result" where
  "pubkey_try_from bs =
     (if length bs = BLS_PK_LEN then Ok (word_of_nat (be_nat bs)) else Err ''invalid length'')"

text \<open>
  The batch loop of \<open>fetch_lido_registry_keys\<close>. \<open>offset\<close> and \<open>total_keys\<close> are \<open>u64\<close> values; as
  \<open>offset + limit\<close> never exceeds \<open>total_keys\<close>, no addition wraps and they are kept as \<open>nat\<close>.
\<close>

function lido_batches ::
  "(u256 \<Rightarrow> u256 \<Rightarrow> (string, bytes) result) \<Rightarrow> nat \<Rightarrow> bls_public_key list \<Rightarrow> nat
     \<Rightarrow> (string, bls_public_key list) result" where
  "lido_batches get_keys total_keys keys offset =
     (if offset < total_keys then
        (let limit = min CALL_BATCH_SIZE (total_keys - offset) in
         case get_keys (word_of_nat offset) (word_of_nat limit) of
           Inl e \<Rightarrow> Err e
         | Inr pubkeys \<Rightarrow>
             if length pubkeys mod BLS_PK_LEN \<noteq> 0
             then Err ''unexpected number of keys in batch''
             else (case collect_results (map pubkey_try_from (chunks_of BLS_PK_LEN pubkeys)) of
                     Inl e \<Rightarrow> Err e
                   | Inr ks \<Rightarrow> lido_batches get_keys total_keys (keys @ ks) (offset + limit)))
      else Ok keys)"
  by pat_completeness auto
termination
  by (relation "measure (\<lambda>(g, total, keys, offset). total - offset)")
    (auto simp: CALL_BATCH_SIZE_def)

declare lido_batches.simps [simp del]

definition fetch_lido_registry_keys ::
  "config_env \<Rightarrow> chain \<Rightarrow> u256 \<Rightarrow> (string, bls_public_key list) result" where
  "fetch_lido_registry_keys E chain node_operator_id =
     and_then (lido_registry_address chain) (\<lambda>registry.
     and_then (ce_lido_total E registry node_operator_id) (\<lambda>count.
       if unat count \<ge> 2 ^ 64 then Err ''out of range''
       else
         (let total_keys = unat count in
          if total_keys = 0 then Ok []
          else
            and_then (lido_batches (ce_lido_keys E registry node_operator_id) total_keys [] 0) (\<lambda>keys.
            and_then (ensure (length keys = total_keys) ''unexpected number of keys'') (\<lambda>_.
              Ok keys)))))"

definition MAX_PER_PAGE :: nat where
  "MAX_PER_PAGE = 100"

fun ssv_chain_name :: "chain \<Rightarrow> (string, string) result" where
  "ssv_chain_name Mainnet = Ok ''mainnet''"
| "ssv_chain_name Holesky = Ok ''holesky''"
| "ssv_chain_name Hoodi = Ok ''hoodi''"
| "ssv_chain_name _ = Err ''SSV network is not supported for chain''"

definition ssv_url :: "string \<Rightarrow> u256 \<Rightarrow> nat \<Rightarrow> string" where
  "ssv_url chain_name node_operator_id page =
     ''https://api.ssv.network/api/v4/'' @ chain_name @ ''/validators/in_operator/''
       @ decimal (unat node_operator_id) @ ''?perPage='' @ decimal MAX_PER_PAGE @ ''&page='' @ decimal page"

definition fetch_ssv_pubkeys_from_url :: "config_env \<Rightarrow> string \<Rightarrow> (string, ssv_response) result" where
  "fetch_ssv_pubkeys_from_url E url =
     and_then
       (map_err (\<lambda>e. if err_is_timeout e then ''Request to SSV network API timed out''
                     else ''Error sending request to SSV network API'') (ce_http_get E url))
       (\<lambda>res.
     and_then (safe_read_http_response res) (\<lambda>body_bytes.
       case ce_json_ssv E body_bytes of
         Some r \<Rightarrow> Ok r
       | None \<Rightarrow> Err ''failed to parse SSV response''))"

text \<open>The page loop of \<open>fetch_ssv_pubkeys\<close>: it ends only at a page with fewer than 100 entries.\<close>

partial_function (option) ssv_pages ::
  "(nat \<Rightarrow> (string, ssv_response) result) \<Rightarrow> bls_public_key list \<Rightarrow> nat
     \<Rightarrow> (string, bls_public_key list) result option" where
  "ssv_pages fetch pubkeys page =
     (case fetch page of
        Inl e \<Rightarrow> Some (Err e)
      | Inr r \<Rightarrow>
          let pubkeys' = pubkeys @ ssv_validators r in
          if length (ssv_validators r) < MAX_PER_PAGE
          then Some (and_then (ensure (length pubkeys' = ssv_total r) ''unexpected number of keys'')
                       (\<lambda>_. Ok pubkeys'))
          else ssv_pages fetch pubkeys' (page + 1))"

definition fetch_ssv_pubkeys ::
  "config_env \<Rightarrow> chain \<Rightarrow> u256 \<Rightarrow> (string, bls_public_key list) result option" where
  "fetch_ssv_pubkeys E chain node_operator_id =
     (case ssv_chain_name chain of
        Inl e \<Rightarrow> Some (Err e)
      | Inr chain_name \<Rightarrow>
          ssv_pages (\<lambda>page. fetch_ssv_pubkeys_from_url E (ssv_url chain_name node_operator_id page)) [] 1)"

text \<open>\<open>MuxKeysLoader::load\<close>; \<open>None\<close> when the page loop of the SSV loader does not end.\<close>

definition loader_load ::
  "config_env \<Rightarrow> mux_keys_loader \<Rightarrow> string \<Rightarrow> chain \<Rightarrow> string option
     \<Rightarrow> (string, bls_public_key list) result option" where
  "loader_load E loader mux_id chain rpc_url =
     map_option (\<lambda>keys. and_then keys (\<lambda>ks. Ok (remove_duplicate_keys ks)))
       (case loader of
          LoaderFile config_path \<Rightarrow>
            (let path = (case load_optional_env_var E (get_mux_env mux_id) of
                           Some p \<Rightarrow> p | None \<Rightarrow> config_path)
             in Some (and_then (load_file E path) (\<lambda>file.
                        parse_mux_keys E (bytes_of_string file) ''failed to parse mux keys file'')))
        | LoaderHTTP url \<Rightarrow>
            Some (case ce_parse_url E url of
                    None \<Rightarrow> Err ''failed to parse mux keys URL''
                  | Some u \<Rightarrow>
                      and_then (map_err (\<lambda>_. ''request failed'') (ce_http_get E u)) (\<lambda>res.
                      and_then (safe_read_http_response res) (\<lambda>bs.
                        parse_mux_keys E bs ''failed to fetch mux keys from HTTP endpoint'')))
        | LoaderRegistry Lido node_operator_id \<Rightarrow>
            Some (case rpc_url of
                    None \<Rightarrow> Err ''Lido registry requires RPC URL to be set in the PBS config''
                  | Some _ \<Rightarrow> fetch_lido_registry_keys E chain (ucast node_operator_id))
        | LoaderRegistry SSV node_operator_id \<Rightarrow> fetch_ssv_pubkeys E chain (ucast node_operator_id))"

text \<open>
  \<open>PbsMuxes::validate_and_fill\<close> in its three passes: load the extra keys of every mux, check that
  no key occurs twice, build the runtime configuration of every key.
\<close>

fun fill_mux_keys ::
  "config_env \<Rightarrow> chain \<Rightarrow> pbs_config \<Rightarrow> mux_config list \<Rightarrow> (string, mux_config list) result option" where
  "fill_mux_keys E chain default_pbs [] = Some (Ok [])"
| "fill_mux_keys E chain default_pbs (mux # muxes) =
     (if mc_relays mux = [] then Some (Err ''mux config must have at least one relay'')
      else
        (case (case mc_loader mux of
                 None \<Rightarrow> Some (Ok [])
               | Some loader \<Rightarrow> loader_load E loader (mc_id mux) chain (pc_rpc_url default_pbs)) of
           None \<Rightarrow> None
         | Some (Inl e) \<Rightarrow> Some (Err e)
         | Some (Inr extra_keys) \<Rightarrow>
             (let mux' = mux\<lparr>mc_validator_pubkeys := mc_validator_pubkeys mux @ extra_keys\<rparr> in
              if mc_validator_pubkeys mux' = []
              then Some (Err ''mux config must have at least one validator pubkey'')
              else map_option (\<lambda>rest. and_then rest (\<lambda>ms. Ok (mux' # ms)))
                     (fill_mux_keys E chain default_pbs muxes))))"

fun check_unique :: "bls_public_key list \<Rightarrow> bls_public_key list \<Rightarrow> (string, unit) result" where
  "check_unique seen [] = Ok ()"
| "check_unique seen (k # ks) =
     (if k \<in> set seen then Err ''duplicate validator pubkey in muxes'' else check_unique (k # seen) ks)"

definition mux_pbs_config :: "pbs_config \<Rightarrow> mux_config \<Rightarrow> pbs_config" where
  "mux_pbs_config default_pbs mux =
     default_pbs\<lparr>
       pc_timeout_get_header_ms :=
         (case mc_timeout_get_header_ms mux of Some t \<Rightarrow> t | None \<Rightarrow> pc_timeout_get_header_ms default_pbs),
       pc_late_in_slot_time_ms :=
         (case mc_late_in_slot_time_ms mux of Some t \<Rightarrow> t | None \<Rightarrow> pc_late_in_slot_time_ms default_pbs)\<rparr>"

definition mux_runtime ::
  "weblib \<Rightarrow> config_env \<Rightarrow> chain \<Rightarrow> pbs_config \<Rightarrow> mux_config \<Rightarrow> (string, runtime_mux_config) result" where
  "mux_runtime W E chain default_pbs mux =
     and_then (collect_results (map (relay_client_new W) (mc_relays mux))) (\<lambda>relay_clients.
       let config = mux_pbs_config default_pbs mux in
       and_then (pbs_config_validate E config chain) (\<lambda>_.
         Ok \<lparr>rm_id = mc_id mux, rm_config = config, rm_relays = relay_clients\<rparr>))"

fun fill_configs ::
  "weblib \<Rightarrow> config_env \<Rightarrow> chain \<Rightarrow> pbs_config \<Rightarrow> (bls_public_key \<times> runtime_mux_config) list
     \<Rightarrow> mux_config list \<Rightarrow> (string, (bls_public_key \<times> runtime_mux_config) list) result" where
  "fill_configs W E chain default_pbs configs [] = Ok configs"
| "fill_configs W E chain default_pbs configs (mux # muxes) =
     and_then (mux_runtime W E chain default_pbs mux) (\<lambda>rt.
       fill_configs W E chain default_pbs
         (foldl (\<lambda>m pubkey. AList.update pubkey rt m) configs (mc_validator_pubkeys mux)) muxes)"

definition validate_and_fill ::
  "weblib \<Rightarrow> config_env \<Rightarrow> mux_config list \<Rightarrow> chain \<Rightarrow> pbs_config
     \<Rightarrow> (string, (bls_public_key \<times> runtime_mux_config) list) result option" where
  "validate_and_fill W E muxes chain default_pbs =
     (case fill_mux_keys E chain default_pbs muxes of
        None \<Rightarrow> None
      | Some filled \<Rightarrow>
          Some (and_then filled (\<lambda>ms.
                and_then (check_unique [] (concat (map mc_validator_pubkeys ms))) (\<lambda>_.
                  fill_configs W E chain default_pbs [] ms))))"

end
