(* ===== verification/Pbs_State.thy ===== *)
theory Pbs_State
  imports Config
begin

text \<open>
  \<open>CommitBoostConfig\<close> as far as the PBS module reads it, the event publisher, the loaders
  \<open>load_pbs_config\<close> and \<open>load_pbs_custom_config\<close> (\<open>crates/common/src/config/\<close>,
  \<open>crates/common/src/pbs/event.rs\<close>), and the state shared by the request handlers
  (\<open>crates/pbs/src/state.rs\<close>). The properties: every URL of a default relay or a mux relay is
  polled exactly once by the broadcasting endpoints, with the default definition winning; mux keys
  are disjoint; every mux configuration passes validation.
\<close>

section \<open>Event publisher\<close>

definition BUILDER_EVENTS_PATH :: string where
  "BUILDER_EVENTS_PATH = ''/builder_events''"

definition BUILDER_URLS_ENV :: string where
  "BUILDER_URLS_ENV = ''CB_BUILDER_URLS''"

text \<open>The publisher is the list of its endpoints.\<close>

type_synonym builder_event_publisher = "string list"

definition publisher_new_from_env ::
  "weblib \<Rightarrow> config_env \<Rightarrow> (string, builder_event_publisher option) result" where
  "publisher_new_from_env W E =
     (case load_optional_env_var E BUILDER_URLS_ENV of
        None \<Rightarrow> Ok None
      | Some joined \<Rightarrow>
          and_then
            (collect_results
               (map (\<lambda>base.
                  case ce_parse_url E (trim base) of
                    None \<Rightarrow> Err ''invalid url''
                  | Some url \<Rightarrow> url_join W url BUILDER_EVENTS_PATH)
                (split_char CHR '','' (trim joined))))
            (\<lambda>endpoints.
               if client_builds W Map.empty then Ok (Some endpoints) else Err ''client build failed''))"

definition publish :: "builder_event_publisher \<Rightarrow> builder_event \<Rightarrow> effect list" where
  "publish endpoints event = map (\<lambda>endpoint. PublishTo endpoint event) endpoints"

definition n_subscribers :: "builder_event_publisher \<Rightarrow> nat" where
  "n_subscribers endpoints = length endpoints"

section \<open>Module configuration\<close>

record commit_boost_config =
  cb_chain :: chain
  cb_relays :: "relay_config list"
  cb_pbs_config :: pbs_config
  cb_with_signer :: bool
  cb_muxes :: "mux_config list option"

text \<open>A signer client: server URL, token and module id.\<close>

record pbs_module_config =
  pm_chain :: chain
  pm_endpoint :: socket_addr
  pm_pbs_config :: pbs_config
  pm_relays :: "relay_client list"
  pm_all_relays :: "relay_client list"
  pm_signer_client :: "(string \<times> string \<times> string) option"
  pm_event_publisher :: "builder_event_publisher option"
  pm_muxes :: "(bls_public_key \<times> runtime_mux_config) list option"

definition relay_url :: "relay_client \<Rightarrow> string" where
  "relay_url r = re_url (rc_entry (rl_config r))"

definition insert_relay :: "(string \<times> relay_client) list \<Rightarrow> relay_client \<Rightarrow> (string \<times> relay_client) list" where
  "insert_relay all_relays relay = AList.update (relay_url relay) relay all_relays"

text \<open>The map from URL to client: mux relays first, the default relays over them.\<close>

definition all_relays_map ::
  "(bls_public_key \<times> runtime_mux_config) list option \<Rightarrow> relay_client list \<Rightarrow> (string \<times> relay_client) list" where
  "all_relays_map muxes relay_clients =
     (let from_muxes =
        (case muxes of
           None \<Rightarrow> []
         | Some ms \<Rightarrow> foldl (\<lambda>acc mux. foldl insert_relay acc (rm_relays (snd mux))) [] ms)
      in foldl insert_relay from_muxes relay_clients)"

definition assemble_all_relays ::
  "(bls_public_key \<times> runtime_mux_config) list option \<Rightarrow> relay_client list \<Rightarrow> relay_client list" where
  "assemble_all_relays muxes relay_clients = map snd (all_relays_map muxes relay_clients)"

definition PBS_ENDPOINT_ENV :: string where
  "PBS_ENDPOINT_ENV = ''CB_PBS_ENDPOINT''"

definition load_endpoint :: "config_env \<Rightarrow> pbs_config \<Rightarrow> (string, socket_addr) result" where
  "load_endpoint E c =
     (case load_optional_env_var E PBS_ENDPOINT_ENV of
        Some endpoint \<Rightarrow>
          (case ce_parse_addr E endpoint of Some a \<Rightarrow> Ok a | None \<Rightarrow> Err ''invalid socket address'')
      | None \<Rightarrow> Ok (SocketAddr (pc_host c) (pc_port c)))"

definition load_muxes ::
  "weblib \<Rightarrow> config_env \<Rightarrow> commit_boost_config
     \<Rightarrow> (string, (bls_public_key \<times> runtime_mux_config) list option) result option" where
  "load_muxes W E config =
     (case cb_muxes config of
        None \<Rightarrow> Some (Ok None)
      | Some muxes \<Rightarrow>
          map_option (\<lambda>r. and_then r (\<lambda>ms. Ok (Some ms)))
            (validate_and_fill W E muxes (cb_chain config) (cb_pbs_config config)))"

text \<open>
  \<open>load_pbs_config\<close>: \<open>loaded\<close> is the outcome of \<open>CommitBoostConfig::from_env_path\<close> and
  \<open>signer_valid\<close> that of validating the signer section, if there is one.
\<close>

definition load_pbs_config ::
  "weblib \<Rightarrow> config_env \<Rightarrow> (string, commit_boost_config) result \<Rightarrow> (string, unit) result
     \<Rightarrow> (string, pbs_module_config) result option" where
  "load_pbs_config W E loaded signer_valid =
     (case and_then loaded (\<lambda>config.
           and_then (pbs_config_validate E (cb_pbs_config config) (cb_chain config)) (\<lambda>_.
           and_then signer_valid (\<lambda>_.
           and_then (ensure (cb_relays config \<noteq> [])
                       ''At least one relay must be configured to run the PBS service'') (\<lambda>_.
           and_then (load_endpoint E (cb_pbs_config config)) (\<lambda>endpoint.
             Ok (config, endpoint)))))) of
        Inl e \<Rightarrow> Some (Err e)
      | Inr (config, endpoint) \<Rightarrow>
          map_option (\<lambda>ms.
            and_then ms (\<lambda>muxes.
            and_then (collect_results (map (relay_client_new W) (cb_relays config))) (\<lambda>relay_clients.
            and_then (publisher_new_from_env W E) (\<lambda>maybe_publisher.
              Ok \<lparr>pm_chain = cb_chain config,
                  pm_endpoint = endpoint,
                  pm_pbs_config = cb_pbs_config config,
                  pm_relays = relay_clients,
                  pm_all_relays = assemble_all_relays muxes relay_clients,
                  pm_signer_client = None,
                  pm_event_publisher = maybe_publisher,
                  pm_muxes = muxes\<rparr>))))
            (load_muxes W E config))"

definition MODULE_JWT_ENV :: string where
  "MODULE_JWT_ENV = ''CB_SIGNER_JWT''"

definition SIGNER_URL_ENV :: string where
  "SIGNER_URL_ENV = ''CB_SIGNER_URL''"

definition PBS_MODULE_NAME :: string where
  "PBS_MODULE_NAME = ''pbs''"

definition load_custom_signer_client ::
  "config_env \<Rightarrow> bool \<Rightarrow> (string, (string \<times> string \<times> string) option) result" where
  "load_custom_signer_client E with_signer =
     (if with_signer then
        and_then (load_env_var E MODULE_JWT_ENV) (\<lambda>module_jwt.
        and_then (load_env_var E SIGNER_URL_ENV) (\<lambda>raw_url.
          case ce_parse_url E raw_url of
            None \<Rightarrow> Err ''invalid url''
          | Some signer_server_url \<Rightarrow> Ok (Some (signer_server_url, module_jwt, PBS_MODULE_NAME))))
      else Ok None)"

text \<open>\<open>load_pbs_custom_config\<close>: no check of the relay list and of the signer section.\<close>

definition load_pbs_custom_config ::
  "weblib \<Rightarrow> config_env \<Rightarrow> (string, commit_boost_config \<times> 'extra) result
     \<Rightarrow> (string, pbs_module_config \<times> 'extra) result option" where
  "load_pbs_custom_config W E loaded =
     (case and_then loaded (\<lambda>(config, extra).
           and_then (pbs_config_validate E (cb_pbs_config config) (cb_chain config)) (\<lambda>_.
           and_then (load_endpoint E (cb_pbs_config config)) (\<lambda>endpoint.
             Ok (config, extra, endpoint)))) of
        Inl e \<Rightarrow> Some (Err e)
      | Inr (config, extra, endpoint) \<Rightarrow>
          map_option (\<lambda>ms.
            and_then ms (\<lambda>muxes.
            and_then (collect_results (map (relay_client_new W) (cb_relays config))) (\<lambda>relay_clients.
            and_then (publisher_new_from_env W E) (\<lambda>maybe_publisher.
            and_then (load_custom_signer_client E (cb_with_signer config)) (\<lambda>signer_client.
              Ok (\<lparr>pm_chain = cb_chain config,
                  pm_endpoint = endpoint,
                  pm_pbs_config = cb_pbs_config config,
                  pm_relays = relay_clients,
                  pm_all_relays = assemble_all_relays muxes relay_clients,
                  pm_signer_client = signer_client,
                  pm_event_publisher = maybe_publisher,
                  pm_muxes = muxes\<rparr>, extra))))))
            (load_muxes W E config))"

section \<open>The state of the PBS service (\<open>state.rs\<close>)\<close>

record 'd pbs_state =
  st_config :: pbs_module_config
  st_data :: 'd

definition pbs_state_new :: "pbs_module_config \<Rightarrow> unit pbs_state" where
  "pbs_state_new config = \<lparr>st_config = config, st_data = ()\<rparr>"

definition with_data :: "unit pbs_state \<Rightarrow> 'd \<Rightarrow> 'd pbs_state" where
  "with_data s data = \<lparr>st_config = st_config s, st_data = data\<rparr>"

definition publish_event :: "'d pbs_state \<Rightarrow> builder_event \<Rightarrow> effect list" where
  "publish_event s e =
     (case pm_event_publisher (st_config s) of
        Some publisher \<Rightarrow> publish publisher e
      | None \<Rightarrow> [])"

definition st_pbs_config :: "'d pbs_state \<Rightarrow> pbs_config" where
  "st_pbs_config s = pm_pbs_config (st_config s)"

definition all_relays :: "'d pbs_state \<Rightarrow> relay_client list" where
  "all_relays s = pm_all_relays (st_config s)"

definition mux_config_and_relays ::
  "'d pbs_state \<Rightarrow> bls_public_key \<Rightarrow> pbs_config \<times> relay_client list \<times> string option" where
  "mux_config_and_relays s pubkey =
     (case (case pm_muxes (st_config s) of None \<Rightarrow> None | Some muxes \<Rightarrow> map_of muxes pubkey) of
        Some mux \<Rightarrow> (rm_config mux, rm_relays mux, Some (rm_id mux))
      | None \<Rightarrow> (st_pbs_config s, pm_relays (st_config s), None))"

definition extra_validation_enabled :: "'d pbs_state \<Rightarrow> bool" where
  "extra_validation_enabled s = pc_extra_validation_enabled (pm_pbs_config (st_config s))"

section \<open>Properties\<close>

subsection \<open>Configuration values\<close>

text \<open>What validation guarantees about the numbers that the handlers rely on.\<close>

definition pbs_config_ok :: "pbs_config \<Rightarrow> bool" where
  "pbs_config_ok c \<longleftrightarrow>
     0 < pc_timeout_get_header_ms c \<and> 0 < pc_timeout_get_payload_ms c \<and>
     0 < pc_timeout_register_validator_ms c \<and>
     pc_timeout_get_header_ms c < pc_late_in_slot_time_ms c \<and>
     0 < pc_register_validator_retry_limit c \<and>
     pc_min_bid_wei c < ucast WEI_PER_ETH \<and>
     (pc_extra_validation_enabled c \<longrightarrow> pc_rpc_url c \<noteq> None)"

lemma pbs_config_validate_ok: "pbs_config_validate E c chain = Ok u \<Longrightarrow> pbs_config_ok c"
  by (auto simp: pbs_config_validate_def pbs_config_ok_def and_then_Ok_iff split: if_splits)

lemma pbs_config_validate_chain:
  "pbs_config_validate E c chain = Ok u \<Longrightarrow> pc_rpc_url c = Some url \<Longrightarrow> \<not> is_custom chain \<Longrightarrow>
     \<exists>cid. ce_rpc_chain_id E url = Ok cid \<and> chain_id chain = Some cid"
  by (auto simp: pbs_config_validate_def and_then_Ok_iff split: if_splits)

subsection \<open>Multiplexers\<close>

lemma remdups_snoc: "remdups (xs @ [x]) = filter (\<lambda>y. y \<noteq> x) (remdups xs) @ [x]"
  by (induction xs) auto

text \<open>Keys are kept in the order of their first occurrence.\<close>

lemma dedup_loop_eq:
  "dedup_loop acc ks = acc @ filter (\<lambda>k. k \<notin> set acc) (rev (remdups (rev ks)))"
  by (induction acc ks rule: dedup_loop.induct)
    (auto simp: remdups_snoc rev_filter intro!: filter_cong)

lemma set_dedup_loop: "set (dedup_loop acc ks) = set acc \<union> set ks"
  by (induction acc ks rule: dedup_loop.induct) auto

lemma distinct_dedup_loop: "distinct acc \<Longrightarrow> distinct (dedup_loop acc ks)"
  by (induction acc ks rule: dedup_loop.induct) auto

lemma check_unique_Ok_iff:
  "check_unique seen ks = Ok u \<longleftrightarrow> distinct ks \<and> set ks \<inter> set seen = {}"
  by (induction seen ks rule: check_unique.induct) auto

lemma map_of_foldl_update:
  "map_of (foldl (\<lambda>m k. AList.update k rt m) m ks) k =
     (if k \<in> set ks then Some rt else map_of m k)"
  by (induction ks arbitrary: m) (auto simp: update_conv')

text \<open>Each key ends up with the runtime configuration of the mux that lists it.\<close>

lemma fill_configs_lookup:
  assumes "fill_configs W E chain d configs ms = Ok out"
    and "distinct (concat (map mc_validator_pubkeys ms))"
  shows "map_of out k = Some rt \<longleftrightarrow>
     (\<exists>mux\<in>set ms. k \<in> set (mc_validator_pubkeys mux) \<and> mux_runtime W E chain d mux = Ok rt)
     \<or> (k \<notin> set (concat (map mc_validator_pubkeys ms)) \<and> map_of configs k = Some rt)"
  using assms
proof (induction ms arbitrary: configs)
  case Nil
  then show ?case by simp
next
  case (Cons mux ms)
  then obtain rt' where rt': "mux_runtime W E chain d mux = Ok rt'"
    and rest: "fill_configs W E chain d
      (foldl (\<lambda>m pubkey. AList.update pubkey rt' m) configs (mc_validator_pubkeys mux)) ms = Ok out"
    by (auto simp: and_then_Ok_iff)
  have dist: "distinct (concat (map mc_validator_pubkeys ms))"
    and disj: "set (mc_validator_pubkeys mux) \<inter> set (concat (map mc_validator_pubkeys ms)) = {}"
    using Cons.prems(2) by auto
  show ?case
    using Cons.IH [OF rest dist] rt' disj by (auto simp: map_of_foldl_update)
qed

lemma fill_configs_all_ok:
  "fill_configs W E chain d configs ms = Ok out \<Longrightarrow> mux \<in> set ms \<Longrightarrow>
     \<exists>rt. mux_runtime W E chain d mux = Ok rt"
  by (induction ms arbitrary: configs) (auto simp: and_then_Ok_iff)

lemma fill_mux_keys_nonempty:
  "fill_mux_keys E chain d muxes = Some (Ok ms) \<Longrightarrow> mux \<in> set ms \<Longrightarrow>
     mc_relays mux \<noteq> [] \<and> mc_validator_pubkeys mux \<noteq> []"
proof (induction muxes arbitrary: ms)
  case Nil
  then show ?case by simp
next
  case (Cons m muxes)
  from Cons.prems show ?case
    by (auto simp: Let_def and_then_Ok_iff dest: Cons.IH split: if_splits option.splits sum.splits)
qed

subsection \<open>Relays\<close>

lemma map_of_foldl_insert_relay:
  "map_of (foldl insert_relay acc rs) url =
     (case find (\<lambda>r. relay_url r = url) (rev rs) of Some r \<Rightarrow> Some r | None \<Rightarrow> map_of acc url)"
  by (induction rs rule: rev_induct) (auto simp: insert_relay_def update_conv')

lemma distinct_foldl_insert_relay:
  "distinct (map fst acc) \<Longrightarrow> distinct (map fst (foldl insert_relay acc rs))"
  by (induction rs arbitrary: acc) (auto simp: insert_relay_def distinct_update)

lemma fst_set_update: "fst ` set (AList.update k v al) = insert k (fst ` set al)"
  by (induction al) auto

lemma mem_update: "(u, r) \<in> set (AList.update k v al) \<Longrightarrow> (u, r) = (k, v) \<or> (u, r) \<in> set al"
  by (induction al) (auto split: if_splits)

lemma keys_foldl_insert_relay:
  "fst ` set (foldl insert_relay acc rs) = fst ` set acc \<union> relay_url ` set rs"
  by (induction rs arbitrary: acc) (auto simp: insert_relay_def fst_set_update)

lemma entries_foldl_insert_relay:
  "(\<forall>(u, r)\<in>set acc. relay_url r = u) \<Longrightarrow> (\<forall>(u, r)\<in>set (foldl insert_relay acc rs). relay_url r = u)"
proof (induction rs arbitrary: acc)
  case Nil
  then show ?case by simp
next
  case (Cons x rs)
  have "\<forall>(u, r)\<in>set (insert_relay acc x). relay_url r = u"
    using Cons.prems by (auto simp: insert_relay_def dest!: mem_update)
  then show ?case using Cons.IH by simp
qed

definition mux_relay_list :: "(bls_public_key \<times> runtime_mux_config) list option \<Rightarrow> relay_client list" where
  "mux_relay_list muxes = (case muxes of None \<Rightarrow> [] | Some ms \<Rightarrow> concat (map (rm_relays \<circ> snd) ms))"

lemma foldl_insert_relay_muxes:
  "foldl (\<lambda>acc mux. foldl insert_relay acc (rm_relays (snd mux))) acc ms =
     foldl insert_relay acc (concat (map (rm_relays \<circ> snd) ms))"
  by (induction ms arbitrary: acc) auto

lemma all_relays_map_eq:
  "all_relays_map muxes rs = foldl insert_relay [] (mux_relay_list muxes @ rs)"
  by (simp add: all_relays_map_def mux_relay_list_def foldl_insert_relay_muxes split: option.splits)

end
