(* ===== verification/Retry.thy ===== *)
theory Retry
  imports Pbs_State
begin

text \<open>
  What the broadcasting endpoints share: racing futures (\<open>futures::future::select_ok\<close>) and the
  contract of the two retrying requests (\<open>submit_block_with_timeout\<close> and
  \<open>send_register_validator_with_timeout\<close>): an attempt either ends the loop or is followed by a
  pause of at least the current back-off, after which the loop gives up or goes on with a back-off
  that is 250 ms longer. Termination and a bound on the number of attempts are proved here once.
  Time is counted in milliseconds; \<open>elapsed k b\<close> is how long attempt \<open>k\<close> and the pause of \<open>b\<close>
  milliseconds after it took, and enters the code as \<open>as_millis() as u64\<close>.
\<close>

text \<open>
  For attempt \<open>k\<close> of a relay, \<open>rt_http k\<close> is the network, \<open>rt_duration k\<close> how long the attempt took
  and \<open>rt_oversleep k\<close> by how much the pause after it exceeded the requested back-off.
\<close>

record retry_env =
  rt_http :: "nat \<Rightarrow> http"
  rt_duration :: "nat \<Rightarrow> nat"
  rt_oversleep :: "nat \<Rightarrow> nat"

definition round_ms :: "retry_env \<Rightarrow> nat \<Rightarrow> nat \<Rightarrow> nat" where
  "round_ms env k backoff = rt_duration env k + backoff + rt_oversleep env k"

section \<open>Racing futures\<close>

text \<open>
  \<open>order\<close> lists the indices of the futures in the order in which they complete; a run that is
  \<open>None\<close> (a loop that never returns) never completes. \<open>race\<close> is \<open>select_ok\<close> over the runs: the
  others are dropped at the first success, so their effects after that point do not happen. What a
  future that was dropped half-way did before is not part of the result.
\<close>

definition completed ::
  "nat list \<Rightarrow> (effect list \<times> nat \<times> 'r) option list \<Rightarrow> 'r run list" where
  "completed order runs =
     map (\<lambda>i. (fst (the (runs ! i)), snd (snd (the (runs ! i)))))
       (filter (\<lambda>i. i < length runs \<and> runs ! i \<noteq> None) order)"

fun settled_effects :: "('e, 'a) result run list \<Rightarrow> effect list" where
  "settled_effects [] = []"
| "settled_effects ((effs, r) # rest) = effs @ (if is_ok r then [] else settled_effects rest)"

definition race :: "('e, 'a) result run list \<Rightarrow> effect list \<times> ('e, 'a) result option" where
  "race runs = (settled_effects runs, select_ok (map snd runs))"

section \<open>Back-off\<close>

definition BACKOFF_STEP :: nat where
  "BACKOFF_STEP = 250"

definition remaining_ms :: "u64 \<Rightarrow> nat \<Rightarrow> u64" where
  "remaining_ms timeout_ms elapsed_ms = saturating_sub timeout_ms (word_of_nat elapsed_ms)"

lemma remaining_ms_pos:
  assumes "remaining_ms timeout e \<noteq> 0" and "e < 2 ^ 64"
  shows "e < unat timeout"
proof -
  have "unat (word_of_nat e :: u64) = e"
    using assms(2) by (simp add: unat_of_nat)
  then have "unat (remaining_ms timeout e) = unat timeout - e"
    by (simp add: remaining_ms_def unat_saturating_sub)
  moreover have "unat (remaining_ms timeout e) \<noteq> 0"
    using assms(1) by (simp add: unat_eq_0)
  ultimately show ?thesis by simp
qed

locale retry_loop =
  fixes loop :: "u64 \<Rightarrow> nat \<Rightarrow> nat \<Rightarrow> effect list \<Rightarrow> nat \<Rightarrow> (effect list \<times> nat \<times> 'r) option"
    and ends :: "nat \<Rightarrow> u64 \<Rightarrow> bool"
    and elapsed :: "nat \<Rightarrow> nat \<Rightarrow> nat"
    and timeout_ms :: u64
  assumes loop_ends: "ends k t \<Longrightarrow>
      \<exists>effs clk r. loop t k b acc clock = Some (effs, clk, r)
        \<and> length (status_codes effs) = Suc (length (status_codes acc))"
    and loop_expires: "\<not> ends k t \<Longrightarrow> remaining_ms timeout_ms (elapsed k b) = 0 \<Longrightarrow>
      \<exists>effs clk r. loop t k b acc clock = Some (effs, clk, r)
        \<and> length (status_codes effs) = Suc (length (status_codes acc))"
    and loop_retries: "\<not> ends k t \<Longrightarrow> remaining_ms timeout_ms (elapsed k b) \<noteq> 0 \<Longrightarrow>
      \<exists>acc' clock'. loop t k b acc clock =
          loop (remaining_ms timeout_ms (elapsed k b)) (Suc k) (b + BACKOFF_STEP) acc' clock'
        \<and> length (status_codes acc') = Suc (length (status_codes acc))"
    and pauses: "b \<le> elapsed k b"
begin

text \<open>
  As the pause grows by 250 ms each time and the loop goes on only while the elapsed time of the
  last round is below the time-out, it returns after at most \<open>(timeout - b) div 250 + 2\<close> attempts.
\<close>

lemma loop_returns:
  assumes "\<And>k b. b \<le> unat timeout_ms + BACKOFF_STEP \<Longrightarrow> elapsed k b < 2 ^ 64"
    and "b \<le> unat timeout_ms + BACKOFF_STEP"
  shows "\<exists>effs clk r. loop t k b acc clock = Some (effs, clk, r) \<and>
    length (status_codes effs) \<le> length (status_codes acc) +
      (if unat timeout_ms \<le> b then 1 else (unat timeout_ms - b - 1) div BACKOFF_STEP + 2)"
  using assms(2)
proof (induction "unat timeout_ms - b" arbitrary: t k b acc clock rule: less_induct)
  case less
  show ?case
  proof (cases "ends k t \<or> remaining_ms timeout_ms (elapsed k b) = 0")
    case True
    then show ?thesis using loop_ends [of k t b acc clock] loop_expires [of k t b acc clock] by force
  next
    case False
    then have "elapsed k b < unat timeout_ms"
      using remaining_ms_pos assms(1) [OF less.prems] by blast
    then have b: "b < unat timeout_ms" using pauses [of b k] by simp
    from False obtain acc' clock' where
      eq: "loop t k b acc clock =
        loop (remaining_ms timeout_ms (elapsed k b)) (Suc k) (b + BACKOFF_STEP) acc' clock'"
      and len: "length (status_codes acc') = Suc (length (status_codes acc))"
      using loop_retries [of k t b acc clock] by blast
    have "unat timeout_ms - (b + BACKOFF_STEP) < unat timeout_ms - b"
      using b by (simp add: BACKOFF_STEP_def)
    moreover have "b + BACKOFF_STEP \<le> unat timeout_ms + BACKOFF_STEP" using b by simp
    ultimately obtain effs clk r where
      ret: "loop (remaining_ms timeout_ms (elapsed k b)) (Suc k) (b + BACKOFF_STEP) acc' clock'
        = Some (effs, clk, r)"
      and bound: "length (status_codes effs) \<le> length (status_codes acc') +
        (if unat timeout_ms \<le> b + BACKOFF_STEP then 1
         else (unat timeout_ms - (b + BACKOFF_STEP) - 1) div BACKOFF_STEP + 2)"
      using less.hyps by blast
    have "Suc (if unat timeout_ms \<le> b + BACKOFF_STEP then 1
         else (unat timeout_ms - (b + BACKOFF_STEP) - 1) div BACKOFF_STEP + 2)
       \<le> (unat timeout_ms - b - 1) div BACKOFF_STEP + 2"
    proof (cases "unat timeout_ms \<le> b + BACKOFF_STEP")
      case True
      then show ?thesis by simp
    next
      case gt: False
      then have "unat timeout_ms - b - 1 = (unat timeout_ms - (b + BACKOFF_STEP) - 1) + BACKOFF_STEP"
        by simp
      then have "(unat timeout_ms - b - 1) div BACKOFF_STEP =
          (unat timeout_ms - (b + BACKOFF_STEP) - 1) div BACKOFF_STEP + 1"
        using div_add_self2 [of BACKOFF_STEP] by (simp only: BACKOFF_STEP_def)
      with gt show ?thesis by simp
    qed
    with eq ret bound len b show ?thesis by (intro exI [of _ effs] exI [of _ clk] exI [of _ r]) simp
  qed
qed

end

section \<open>Properties of a race\<close>

lemma completed_mem:
  "(effs, r) \<in> set (completed order runs) \<Longrightarrow>
     \<exists>i clk. i \<in> set order \<and> i < length runs \<and> runs ! i = Some (effs, clk, r)"
  by (force simp: completed_def)

lemma completed_memI:
  "i \<in> set order \<Longrightarrow> i < length runs \<Longrightarrow> runs ! i = Some (effs, clk, r) \<Longrightarrow>
     (effs, r) \<in> set (completed order runs)"
  by (force simp: completed_def)

lemma race_Some:
  assumes "snd (race runs) = Some r"
  shows "r \<in> snd ` set runs \<and> (is_ok r \<longleftrightarrow> (\<exists>s\<in>snd ` set runs. is_ok s))"
  using assms select_ok_mem [of "map snd runs" r] select_ok_is_ok_iff [of "map snd runs" r]
  by (simp add: race_def)

lemma race_None_iff: "snd (race runs) = None \<longleftrightarrow> runs = []"
  by (simp add: race_def)

end
