(* ===== verification/Submit_Block.thy ===== *)
theory Submit_Block
  imports Retry
begin

text \<open>
  \<open>submitBlindedBlock\<close>: \<open>crates/pbs/src/mev_boost/submit_block.rs\<close>. One request with the checks on
  the unblinded payload, the retry loop of one relay, and the race over all relays
  (\<open>select_ok\<close>, with the order in which the relays finish as an argument).

  The counter \<open>retry\<close> (a \<open>u32\<close> used only for logging here) is the attempt number. The loop also
  returns the milliseconds that passed in it.
\<close>

section \<open>Checks on the unblinded block\<close>

fun check_commitments ::
  "(bytes \<Rightarrow> string) \<Rightarrow> nat \<Rightarrow> kzg_commitment list \<Rightarrow> kzg_commitment list \<Rightarrow> (pbs_error, unit) result" where
  "check_commitments hex i (comm # expected) (c # commitments) =
     (if comm \<noteq> c
      then Err (Validation (KzgMismatch (display_kzg_commitment hex comm) (display_kzg_commitment hex c) i))
      else check_commitments hex (Suc i) expected commitments)"
| "check_commitments hex i _ _ = Ok ()"

definition validate_unblinded_block_electra ::
  "weblib \<Rightarrow> blinded_beacon_block_electra \<Rightarrow> payload_and_blobs_electra \<Rightarrow> (pbs_error, unit) result" where
  "validate_unblinded_block_electra W signed_blinded_block block_response =
     (let blobs = pb_blobs_bundle block_response;
          expected_commitments = bd_blob_kzg_commitments (bbb_body signed_blinded_block)
      in
      if length expected_commitments \<noteq> length (bb_blobs blobs) \<or>
         length expected_commitments \<noteq> length (bb_commitments blobs) \<or>
         length expected_commitments \<noteq> length (bb_proofs blobs)
      then Err (Validation (KzgCommitments (length expected_commitments) (length (bb_blobs blobs))
             (length (bb_commitments blobs)) (length (bb_proofs blobs))))
      else check_commitments (hex_encode W) 0 expected_commitments (bb_commitments blobs))"

section \<open>One request\<close>

definition send_submit_block ::
  "weblib \<Rightarrow> http \<Rightarrow> string \<Rightarrow> signed_blinded_beacon_block \<Rightarrow> relay_client \<Rightarrow> header_map \<Rightarrow> u64
     \<Rightarrow> builder_api_version \<Rightarrow> (pbs_error, submit_blinded_block_response option) result run" where
  "send_submit_block W http url signed_blinded_block relay headers timeout_ms api_version =
     (let sent = observe_send SUBMIT_BLINDED_BLOCK_ENDPOINT_TAG (rl_id relay)
            (http \<lparr>rq_method = POST, rq_url = url, rq_timeout_ms = timeout_ms,
                   rq_headers = headers, rq_body = JsonBlindedBlock signed_blinded_block\<rparr>)
      in
      (fst sent,
       and_then (snd sent) (\<lambda>res.
       and_then (map_err ReadResponse (read_chunked_body_with_max res MAX_SIZE_SUBMIT_BLOCK_RESPONSE))
         (\<lambda>response_bytes.
            let code = resp_status res in
            if \<not> is_success code then Err (RelayResponse response_bytes code)
            else if api_version \<noteq> V1 then Ok None
            else (case json_submit_block W response_bytes of
                    Inl err \<Rightarrow> Err (JsonDecode err response_bytes)
                  | Inr block_response \<Rightarrow>
                      if sbb_block_hash signed_blinded_block \<noteq> submit_response_block_hash block_response
                      then Err (Validation (BlockHashMismatch (sbb_block_hash signed_blinded_block)
                             (submit_response_block_hash block_response)))
                      else
                        and_then (case (sbb_message signed_blinded_block, block_response) of
                                    (BlindedElectra b, Electra r) \<Rightarrow> validate_unblinded_block_electra W b r)
                          (\<lambda>_. Ok (Some block_response)))))))"

section \<open>Retrying one relay\<close>

partial_function (option) submit_loop ::
  "weblib \<Rightarrow> retry_env \<Rightarrow> string \<Rightarrow> signed_blinded_beacon_block \<Rightarrow> relay_client \<Rightarrow> header_map \<Rightarrow> u64
     \<Rightarrow> builder_api_version \<Rightarrow> u64 \<Rightarrow> nat \<Rightarrow> nat \<Rightarrow> effect list \<Rightarrow> nat
     \<Rightarrow> (effect list \<times> nat \<times> (pbs_error, submit_blinded_block_response option) result) option" where
  "submit_loop W env url block relay headers timeout_ms api_version remaining_timeout_ms retry backoff
     effs clock =
     (let attempt = send_submit_block W (rt_http env retry) url block relay headers remaining_timeout_ms
            api_version;
          effs' = effs @ fst attempt
      in
      case snd attempt of
        Inr response \<Rightarrow> Some (effs', clock + rt_duration env retry, Ok response)
      | Inl err \<Rightarrow>
          if should_retry err then
            (let elapsed = round_ms env retry backoff in
             if remaining_ms timeout_ms elapsed = 0 then Some (effs', clock + elapsed, Err err)
             else submit_loop W env url block relay headers timeout_ms api_version
                    (remaining_ms timeout_ms elapsed) (Suc retry) (backoff + BACKOFF_STEP) effs'
                    (clock + elapsed))
          else Some (effs', clock + rt_duration env retry, Err err))"

definition submit_block_with_timeout ::
  "weblib \<Rightarrow> retry_env \<Rightarrow> signed_blinded_beacon_block \<Rightarrow> relay_client \<Rightarrow> header_map \<Rightarrow> u64
     \<Rightarrow> builder_api_version
     \<Rightarrow> (effect list \<times> nat \<times> (pbs_error, submit_blinded_block_response option) result) option" where
  "submit_block_with_timeout W env block relay headers timeout_ms api_version =
     (case submit_block_url W relay api_version of
        Inl e \<Rightarrow> Some ([], 0, Err e)
      | Inr url \<Rightarrow>
          submit_loop W env url block relay headers timeout_ms api_version timeout_ms 0 BACKOFF_STEP [] 0)"

section \<open>The race\<close>

definition submit_relay_runs ::
  "weblib \<Rightarrow> (nat \<Rightarrow> retry_env) \<Rightarrow> signed_blinded_beacon_block \<Rightarrow> header_map \<Rightarrow> 'd pbs_state
     \<Rightarrow> builder_api_version
     \<Rightarrow> (effect list \<times> nat \<times> (pbs_error, submit_blinded_block_response option) result) option list" where
  "submit_relay_runs W env block send_headers state api_version =
     map (\<lambda>(i, relay). submit_block_with_timeout W (env i) block relay send_headers
            (pc_timeout_get_payload_ms (st_pbs_config state)) api_version)
       (enumerate 0 (all_relays state))"

definition submit_block ::
  "weblib \<Rightarrow> u64 \<Rightarrow> (nat \<Rightarrow> retry_env) \<Rightarrow> nat list \<Rightarrow> signed_blinded_beacon_block \<Rightarrow> header_map
     \<Rightarrow> 'd pbs_state \<Rightarrow> builder_api_version
     \<Rightarrow> (string + pbs_error, submit_blinded_block_response option) result outcome run" where
  "submit_block W now_ms env order block req_headers state api_version =
     (case get_user_agent_with_version W req_headers of
        Inl e \<Rightarrow> ([], Returned (Err (Inl e)))
      | Inr ua \<Rightarrow>
          (let send_headers = [header_key HEADER_START_TIME_UNIX_MS \<mapsto> decimal (unat now_ms), USER_AGENT \<mapsto> ua];
               results = race (completed order
                  (submit_relay_runs W env block send_headers state api_version))
           in (fst results,
               case snd results of
                 None \<Rightarrow> Panicked
               | Some (Inr res) \<Rightarrow> Returned (Ok res)
               | Some (Inl err) \<Rightarrow> Returned (Err (Inr err)))))"

section \<open>Properties\<close>

subsection \<open>Validation\<close>

lemma check_commitments_Ok_iff:
  "length xs = length ys \<Longrightarrow> check_commitments hex i xs ys = Ok u \<longleftrightarrow> xs = ys"
  by (induction hex i xs ys rule: check_commitments.induct) auto

lemma validate_unblinded_block_electra_Ok_iff:
  "validate_unblinded_block_electra W b r = Ok u \<longleftrightarrow>
     bb_commitments (pb_blobs_bundle r) = bd_blob_kzg_commitments (bbb_body b) \<and>
     length (bb_blobs (pb_blobs_bundle r)) = length (bd_blob_kzg_commitments (bbb_body b)) \<and>
     length (bb_proofs (pb_blobs_bundle r)) = length (bd_blob_kzg_commitments (bbb_body b))"
  by (auto simp: validate_unblinded_block_electra_def Let_def check_commitments_Ok_iff)

text \<open>What a payload accepted for a signed blinded block satisfies.\<close>

definition payload_matches :: "signed_blinded_beacon_block \<Rightarrow> submit_blinded_block_response \<Rightarrow> bool" where
  "payload_matches block resp \<longleftrightarrow>
     submit_response_block_hash resp = sbb_block_hash block \<and>
     (case (sbb_message block, resp) of (BlindedElectra b, Electra r) \<Rightarrow>
        bb_commitments (pb_blobs_bundle r) = bd_blob_kzg_commitments (bbb_body b) \<and>
        length (bb_blobs (pb_blobs_bundle r)) = length (bd_blob_kzg_commitments (bbb_body b)) \<and>
        length (bb_proofs (pb_blobs_bundle r)) = length (bd_blob_kzg_commitments (bbb_body b)))"

lemma send_submit_block_Ok:
  assumes "snd (send_submit_block W http url block relay headers t ver) = Ok res"
  shows "(res = None \<longleftrightarrow> ver \<noteq> V1) \<and> (\<forall>resp. res = Some resp \<longrightarrow> payload_matches block resp)"
  using assms
  by (auto simp: send_submit_block_def payload_matches_def Let_def and_then_Ok_iff
      validate_unblinded_block_electra_Ok_iff
      split: if_splits sum.splits blinded_beacon_block.splits versioned_response.splits)

lemma send_submit_block_status:
  "\<exists>code. status_codes (fst (send_submit_block W http url block relay headers t ver))
     = [(code, SUBMIT_BLINDED_BLOCK_ENDPOINT_TAG, rl_id relay)]"
  by (simp add: send_submit_block_def Let_def)

subsection \<open>The retry loop\<close>

lemma submit_loop_inv:
  assumes "submit_loop W env url block relay headers timeout ver rem retry b acc clock
    = Some (effs, clk, Ok res)"
  shows "(res = None \<longleftrightarrow> ver \<noteq> V1) \<and> (\<forall>resp. res = Some resp \<longrightarrow> payload_matches block resp)"
proof -
  have "\<forall>res'. snd (snd (effs, clk, Ok res :: (pbs_error, submit_blinded_block_response option) result))
      = Ok res' \<longrightarrow> (res' = None \<longleftrightarrow> ver \<noteq> V1) \<and> (\<forall>resp. res' = Some resp \<longrightarrow> payload_matches block resp)"
  proof (rule submit_loop.raw_induct [where P = "\<lambda>W env url block relay headers timeout ver rem retry b
      acc clock out. \<forall>res'. snd (snd out) = Ok res' \<longrightarrow>
        (res' = None \<longleftrightarrow> ver \<noteq> V1) \<and> (\<forall>resp. res' = Some resp \<longrightarrow> payload_matches block resp)",
        OF _ assms], goal_cases)
    case (1 f W env url block relay headers timeout ver rem retry b acc clock out)
    show ?case
    proof (cases "snd (send_submit_block W (rt_http env retry) url block relay headers rem ver)")
      case (Inr response)
      from send_submit_block_Ok [OF Inr] Inr 1(2) show ?thesis by (auto simp: Let_def)
    next
      case (Inl err)
      show ?thesis
      proof (cases "should_retry err \<and> remaining_ms timeout (round_ms env retry b) \<noteq> 0")
        case True
        with Inl 1(2) show ?thesis by (simp add: Let_def) (drule 1(1), blast)
      next
        case False
        with Inl 1(2) show ?thesis by (auto simp: Let_def split: if_splits)
      qed
    qed
  qed
  then show ?thesis by simp
qed

definition submit_ends ::
  "weblib \<Rightarrow> retry_env \<Rightarrow> string \<Rightarrow> signed_blinded_beacon_block \<Rightarrow> relay_client \<Rightarrow> header_map
     \<Rightarrow> builder_api_version \<Rightarrow> nat \<Rightarrow> u64 \<Rightarrow> bool" where
  "submit_ends W env url block relay headers ver k t =
     (case snd (send_submit_block W (rt_http env k) url block relay headers t ver) of
        Inr _ \<Rightarrow> True
      | Inl err \<Rightarrow> \<not> should_retry err)"

interpretation submit: retry_loop
  "submit_loop W env url block relay headers timeout_ms ver"
  "submit_ends W env url block relay headers ver"
  "round_ms env"
  timeout_ms
  for W env url block relay headers timeout_ms ver
proof (unfold_locales, goal_cases)
  case (1 k t b acc clock)
  then show ?case
    using send_submit_block_status [of W "rt_http env k" url block relay headers t ver]
    by (subst submit_loop.simps)
      (auto simp: submit_ends_def Let_def split: sum.splits)
next
  case (2 k t b acc clock)
  then show ?case
    using send_submit_block_status [of W "rt_http env k" url block relay headers t ver]
    by (subst submit_loop.simps) (auto simp: submit_ends_def Let_def split: sum.splits)
next
  case (3 k t b acc clock)
  then show ?case
    using send_submit_block_status [of W "rt_http env k" url block relay headers t ver]
    by (subst submit_loop.simps)
      (auto simp: submit_ends_def Let_def split: sum.splits
        intro!: exI [of _ "acc @ fst (send_submit_block W (rt_http env k) url block relay headers t ver)"]
          exI [of _ "clock + round_ms env k b"])
next
  case (4 b k)
  then show ?case by (simp add: round_ms_def)
qed

lemma submit_loop_total:
  assumes "\<And>k. rt_duration env k + rt_oversleep env k + unat timeout + 250 < 2 ^ 64"
  shows "\<exists>effs clk r. submit_block_with_timeout W env block relay headers timeout ver = Some (effs, clk, r)
    \<and> length (status_codes effs) \<le> unat timeout div 250 + 2"
proof (cases "submit_block_url W relay ver")
  case (Inl e)
  then show ?thesis by (simp add: submit_block_with_timeout_def)
next
  case (Inr url)
  have *: "round_ms env k b < 2 ^ 64" if "b \<le> unat timeout + BACKOFF_STEP" for k b
    using that assms [of k] by (simp add: round_ms_def BACKOFF_STEP_def)
  have "(if unat timeout \<le> BACKOFF_STEP then 1 else (unat timeout - BACKOFF_STEP - 1) div BACKOFF_STEP + 2)
      \<le> unat timeout div 250 + 2"
    by (auto simp: BACKOFF_STEP_def intro!: div_le_mono)
  moreover have "BACKOFF_STEP \<le> unat timeout + BACKOFF_STEP" by simp
  ultimately show ?thesis
    using submit.loop_returns [where W = W and url = url and block = block and relay = relay
        and headers = headers and ver = ver and timeout_ms = timeout and env = env and t = timeout
        and k = 0 and b = BACKOFF_STEP and acc = "[]" and clock = 0, OF *] Inr
    by (fastforce simp: submit_block_with_timeout_def)
qed

end
