(* ===== verification/Register_Validator.thy ===== *)
theory Register_Validator
  imports Retry
begin

text \<open>
  \<open>registerValidator\<close>: \<open>crates/pbs/src/mev_boost/register_validator.rs\<close>. One request, the retry loop
  with its retry limit, the batches of a relay, and the two ways of waiting for the spawned tasks.
  \<open>order\<close> lists the tasks as they complete and \<open>joined i\<close> says that task \<open>i\<close> ended without a join
  error. A spawned task is not cancelled when its handle is dropped, so the effects of all tasks
  are part of the result also when the call returns before they are over.
\<close>

section \<open>One request\<close>

definition send_register_validator ::
  "weblib \<Rightarrow> http \<Rightarrow> string \<Rightarrow> validator_registration list \<Rightarrow> relay_client \<Rightarrow> header_map \<Rightarrow> u64
     \<Rightarrow> (pbs_error, unit) result run" where
  "send_register_validator W http url registrations relay headers timeout_ms =
     (let sent = observe_send REGISTER_VALIDATOR_ENDPOINT_TAG (rl_id relay)
            (http \<lparr>rq_method = POST, rq_url = url, rq_timeout_ms = timeout_ms,
                   rq_headers = headers, rq_body = JsonRegistrations registrations\<rparr>)
      in
      (fst sent,
       and_then (snd sent) (\<lambda>res.
         let code = resp_status res in
         if \<not> is_success code then
           and_then (map_err ReadResponse (read_chunked_body_with_max res MAX_SIZE_DEFAULT))
             (\<lambda>response_bytes. Err (RelayResponse response_bytes code))
         else Ok ())))"

section \<open>Retrying one batch\<close>

partial_function (option) register_loop ::
  "weblib \<Rightarrow> retry_env \<Rightarrow> string \<Rightarrow> validator_registration list \<Rightarrow> relay_client \<Rightarrow> header_map \<Rightarrow> u64
     \<Rightarrow> u32 \<Rightarrow> u64 \<Rightarrow> nat \<Rightarrow> nat \<Rightarrow> effect list \<Rightarrow> nat
     \<Rightarrow> (effect list \<times> nat \<times> (pbs_error, unit) result) option" where
  "register_loop W env url registrations relay headers timeout_ms retry_limit remaining_timeout_ms retry
     backoff effs clock =
     (let attempt = send_register_validator W (rt_http env retry) url registrations relay headers
            remaining_timeout_ms;
          effs' = effs @ fst attempt
      in
      case snd attempt of
        Inr u \<Rightarrow> Some (effs', clock + rt_duration env retry, Ok ())
      | Inl err \<Rightarrow>
          if should_retry err then
            (if Suc retry \<ge> unat retry_limit then Some (effs', clock + rt_duration env retry, Err err)
             else
               (let elapsed = round_ms env retry backoff in
                if remaining_ms timeout_ms elapsed = 0 then Some (effs', clock + elapsed, Err err)
                else register_loop W env url registrations relay headers timeout_ms retry_limit
                       (remaining_ms timeout_ms elapsed) (Suc retry) (backoff + BACKOFF_STEP) effs'
                       (clock + elapsed)))
          else Some (effs', clock + rt_duration env retry, Err err))"

definition send_register_validator_with_timeout ::
  "weblib \<Rightarrow> retry_env \<Rightarrow> validator_registration list \<Rightarrow> relay_client \<Rightarrow> header_map \<Rightarrow> u64 \<Rightarrow> u32
     \<Rightarrow> (effect list \<times> nat \<times> (pbs_error, unit) result) option" where
  "send_register_validator_with_timeout W env registrations relay headers timeout_ms retry_limit =
     (case register_validator_url W relay of
        Inl e \<Rightarrow> Some ([], 0, Err e)
      | Inr url \<Rightarrow>
          register_loop W env url registrations relay headers timeout_ms retry_limit timeout_ms 0
            BACKOFF_STEP [] 0)"

section \<open>The broadcast\<close>

text \<open>
  The tasks that are spawned, and whether building them panicked: \<open>slice::chunks\<close> panics on a batch
  size of zero, after the tasks of the relays before it were spawned.
\<close>

fun register_tasks ::
  "validator_registration list \<Rightarrow> relay_client list
     \<Rightarrow> (relay_client \<times> validator_registration list) list \<times> bool" where
  "register_tasks registrations [] = ([], False)"
| "register_tasks registrations (relay # relays) =
     (case rc_validator_registration_batch_size (rl_config relay) of
        Some batch_size \<Rightarrow>
          (case chunks batch_size registrations of
             None \<Rightarrow> ([], True)
           | Some batches \<Rightarrow>
               (map (Pair relay) batches @ fst (register_tasks registrations relays),
                snd (register_tasks registrations relays)))
      | None \<Rightarrow>
          ((relay, registrations) # fst (register_tasks registrations relays),
           snd (register_tasks registrations relays)))"

definition register_runs ::
  "weblib \<Rightarrow> (nat \<Rightarrow> retry_env) \<Rightarrow> header_map \<Rightarrow> pbs_config
     \<Rightarrow> (relay_client \<times> validator_registration list) list
     \<Rightarrow> (effect list \<times> nat \<times> (pbs_error, unit) result) option list" where
  "register_runs W env send_headers config tasks =
     map (\<lambda>(i, relay, batch). send_register_validator_with_timeout W (env i) batch relay send_headers
            (pc_timeout_register_validator_ms config) (pc_register_validator_retry_limit config))
       (enumerate 0 tasks)"

definition runs_effects :: "(effect list \<times> 'r) option list \<Rightarrow> effect list" where
  "runs_effects runs = concat (map (\<lambda>r. case r of None \<Rightarrow> [] | Some (effs, _) \<Rightarrow> effs) runs)"

definition NO_RELAY_PASSED :: string where
  "NO_RELAY_PASSED = ''No relay passed register_validator successfully''"

definition JOIN_ERROR :: string where
  "JOIN_ERROR = ''task failed''"

text \<open>\<open>JoinHandle::await\<close> of task \<open>i\<close>\<close>

definition join_task ::
  "(nat \<Rightarrow> bool) \<Rightarrow> (effect list \<times> nat \<times> 'r) option list \<Rightarrow> nat \<Rightarrow> (string, 'r) result" where
  "join_task joined runs i = (if joined i then Ok (snd (snd (the (runs ! i)))) else Err JOIN_ERROR)"

text \<open>\<open>None\<close>: some task that is waited for never ends.\<close>

definition wait_all ::
  "(nat \<Rightarrow> bool) \<Rightarrow> (effect list \<times> nat \<times> (pbs_error, unit) result) option list
     \<Rightarrow> (string, unit) result outcome option" where
  "wait_all joined runs =
     (if None \<in> set runs then None
      else Some (Returned
        (if \<exists>res\<in>set (map (join_task joined runs) [0..<length runs]).
              (case res of Inr r \<Rightarrow> is_ok r | Inl _ \<Rightarrow> False)
         then Ok () else Err NO_RELAY_PASSED)))"

definition first_completed ::
  "nat list \<Rightarrow> (nat \<Rightarrow> bool) \<Rightarrow> (effect list \<times> nat \<times> (pbs_error, unit) result) option list
     \<Rightarrow> (string, unit) result outcome" where
  "first_completed order joined runs =
     (case select_ok (map (join_task joined runs)
             (filter (\<lambda>i. i < length runs \<and> runs ! i \<noteq> None) order)) of
        None \<Rightarrow> Panicked
      | Some (Inl e) \<Rightarrow> Returned (Err e)
      | Some (Inr (Inr _)) \<Rightarrow> Returned (Ok ())
      | Some (Inr (Inl _)) \<Rightarrow> Returned (Err NO_RELAY_PASSED))"

definition register_validator ::
  "weblib \<Rightarrow> u64 \<Rightarrow> (nat \<Rightarrow> retry_env) \<Rightarrow> nat list \<Rightarrow> (nat \<Rightarrow> bool) \<Rightarrow> validator_registration list
     \<Rightarrow> header_map \<Rightarrow> 'd pbs_state \<Rightarrow> (string, unit) result outcome run option" where
  "register_validator W now_ms env order joined registrations req_headers state =
     (case hv_from_str W (decimal (unat now_ms)) of
        None \<Rightarrow> Some ([], Returned (Err ''invalid header value''))
      | Some start_time \<Rightarrow>
          (case get_user_agent_with_version W req_headers of
             Inl e \<Rightarrow> Some ([], Returned (Err e))
           | Inr ua \<Rightarrow>
               (let send_headers = [header_key HEADER_START_TIME_UNIX_MS \<mapsto> start_time, USER_AGENT \<mapsto> ua];
                    (tasks, panicked) = register_tasks registrations (all_relays state);
                    runs = register_runs W env send_headers (st_pbs_config state) tasks;
                    effs = runs_effects runs
                in
                if panicked then Some (effs, Panicked)
                else if pc_wait_all_registrations (st_pbs_config state)
                then map_option (\<lambda>res. (effs, res)) (wait_all joined runs)
                else Some (effs, first_completed order joined runs))))"

section \<open>Properties\<close>

lemma send_register_validator_status:
  "\<exists>code. status_codes (fst (send_register_validator W http url regs relay headers t))
     = [(code, REGISTER_VALIDATOR_ENDPOINT_TAG, rl_id relay)]"
  by (simp add: send_register_validator_def Let_def)

subsection \<open>The retry loop\<close>

definition register_ends ::
  "weblib \<Rightarrow> retry_env \<Rightarrow> string \<Rightarrow> validator_registration list \<Rightarrow> relay_client \<Rightarrow> header_map \<Rightarrow> u32
     \<Rightarrow> nat \<Rightarrow> u64 \<Rightarrow> bool" where
  "register_ends W env url regs relay headers retry_limit k t =
     (case snd (send_register_validator W (rt_http env k) url regs relay headers t) of
        Inr _ \<Rightarrow> True
      | Inl err \<Rightarrow> \<not> should_retry err \<or> Suc k \<ge> unat retry_limit)"

interpretation register: retry_loop
  "register_loop W env url regs relay headers timeout_ms retry_limit"
  "register_ends W env url regs relay headers retry_limit"
  "round_ms env"
  timeout_ms
  for W env url regs relay headers timeout_ms retry_limit
proof (unfold_locales, goal_cases)
  case (1 k t b acc clock)
  then show ?case
    using send_register_validator_status [of W "rt_http env k" url regs relay headers t]
    by (subst register_loop.simps) (auto simp: register_ends_def Let_def split: sum.splits)
next
  case (2 k t b acc clock)
  then show ?case
    using send_register_validator_status [of W "rt_http env k" url regs relay headers t]
    by (subst register_loop.simps) (auto simp: register_ends_def Let_def split: sum.splits)
next
  case (3 k t b acc clock)
  then show ?case
    using send_register_validator_status [of W "rt_http env k" url regs relay headers t]
    by (subst register_loop.simps)
      (auto simp: register_ends_def Let_def split: sum.splits
        intro!: exI [of _ "acc @ fst (send_register_validator W (rt_http env k) url regs relay headers t)"]
          exI [of _ "clock + round_ms env k b"])
next
  case (4 b k)
  then show ?case by (simp add: round_ms_def)
qed

text \<open>The retry limit bounds the attempts whatever the time-out is.\<close>

lemma register_loop_attempts:
  assumes "register_loop W env url regs relay headers timeout limit rem k b acc clock = Some (effs, clk, r)"
  shows "length (status_codes effs) \<le> length (status_codes acc) + max 1 (unat limit - k)"
proof -
  have "length (status_codes (fst (effs, clk, r))) \<le> length (status_codes acc) + max 1 (unat limit - k)"
  proof (rule register_loop.raw_induct [where P = "\<lambda>W env url regs relay headers timeout limit rem k b
      acc clock out. length (status_codes (fst out)) \<le> length (status_codes acc) + max 1 (unat limit - k)",
        OF _ assms], goal_cases)
    case (1 f W env url regs relay headers timeout limit rem k b acc clock out)
    let ?a = "send_register_validator W (rt_http env k) url regs relay headers rem"
    have len: "length (status_codes (fst ?a)) = 1"
      using send_register_validator_status [of W "rt_http env k" url regs relay headers rem] by auto
    show ?case
    proof (cases "\<exists>err. snd ?a = Inl err \<and> should_retry err \<and> \<not> Suc k \<ge> unat limit \<and>
        remaining_ms timeout (round_ms env k b) \<noteq> 0")
      case True
      with 1(2) have "f W env url regs relay headers timeout limit
          (remaining_ms timeout (round_ms env k b)) (Suc k) (b + BACKOFF_STEP) (acc @ fst ?a)
          (clock + round_ms env k b) = Some out"
        by (auto simp: Let_def)
      from 1(1) [OF this] len True show ?thesis by (auto simp: max_def split: if_splits)
    next
      case False
      with 1(2) have "fst out = acc @ fst ?a" by (auto simp: Let_def split: sum.splits if_splits)
      with len show ?thesis by simp
    qed
  qed
  then show ?thesis by simp
qed

lemma register_loop_total:
  assumes "\<And>k. rt_duration env k + rt_oversleep env k + unat timeout + 250 < 2 ^ 64"
  shows "\<exists>effs clk r. send_register_validator_with_timeout W env regs relay headers timeout limit
      = Some (effs, clk, r)
    \<and> length (status_codes effs) \<le> min (unat timeout div 250 + 2) (max 1 (unat limit))"
proof (cases "register_validator_url W relay")
  case (Inl e)
  then show ?thesis by (simp add: send_register_validator_with_timeout_def)
next
  case (Inr url)
  have *: "round_ms env k b < 2 ^ 64" if "b \<le> unat timeout + BACKOFF_STEP" for k b
    using that assms [of k] by (simp add: round_ms_def BACKOFF_STEP_def)
  have "(if unat timeout \<le> BACKOFF_STEP then 1 else (unat timeout - BACKOFF_STEP - 1) div BACKOFF_STEP + 2)
      \<le> unat timeout div 250 + 2"
    by (auto simp: BACKOFF_STEP_def intro!: div_le_mono)
  moreover have "BACKOFF_STEP \<le> unat timeout + BACKOFF_STEP" by simp
  ultimately obtain effs clk r where
    "register_loop W env url regs relay headers timeout limit timeout 0 BACKOFF_STEP [] 0 = Some (effs, clk, r)"
    "length (status_codes effs) \<le> unat timeout div 250 + 2"
    using register.loop_returns [where W = W and url = url and regs = regs and relay = relay
        and headers = headers and retry_limit = limit and timeout_ms = timeout and env = env
        and t = timeout and k = 0 and b = BACKOFF_STEP and acc = "[]" and clock = 0, OF *]
    by fastforce
  with register_loop_attempts [OF this(1)] Inr show ?thesis
    by (simp add: send_register_validator_with_timeout_def)
qed

subsection \<open>Batches\<close>

lemma chunks_Some: "chunks n xs = Some bs \<Longrightarrow> 0 < n \<and> concat bs = xs \<and> (\<forall>b\<in>set bs. b \<noteq> [] \<and> length b \<le> n)"
  by (auto simp: chunks_def concat_chunks_of dest: chunks_of_bounds split: if_splits)

lemma register_tasks_relays:
  "(relay, batch) \<in> set (fst (register_tasks regs relays)) \<Longrightarrow> relay \<in> set relays"
  by (induction regs relays rule: register_tasks.induct) (auto split: option.splits)

lemma filter_fst_other:
  "(\<And>r b. (r, b) \<in> set ts \<Longrightarrow> r \<noteq> relay) \<Longrightarrow> filter (\<lambda>t. fst t = relay) ts = []"
  by (force simp: filter_empty_conv)

lemma filter_fst_Pair: "filter (\<lambda>t. fst t = r') (map (Pair r) bs) = (if r = r' then map (Pair r) bs else [])"
  by (induction bs) auto

text \<open>Every relay is sent every registration exactly once, in order and in batches within its limit.\<close>

lemma register_tasks_batches:
  assumes "register_tasks regs relays = (tasks, False)" and "distinct relays" and "relay \<in> set relays"
  shows "concat (map snd (filter (\<lambda>t. fst t = relay) tasks)) = regs \<and>
    (\<forall>n batch. rc_validator_registration_batch_size (rl_config relay) = Some n \<longrightarrow>
       (relay, batch) \<in> set tasks \<longrightarrow> batch \<noteq> [] \<and> length batch \<le> n)"
  using assms
proof (induction relays arbitrary: tasks)
  case Nil
  then show ?case by simp
next
  case (Cons r relays)
  obtain ts where ts: "register_tasks regs relays = (ts, False)"
    using Cons.prems(1) by (cases "register_tasks regs relays") (auto split: option.splits)
  have other: "filter (\<lambda>t. fst t = r) ts = []"
    using Cons.prems(2) register_tasks_relays [of _ _ regs relays] ts by (intro filter_fst_other) auto
  obtain bs where tasks: "tasks = map (Pair r) bs @ ts"
    and bs: "concat bs = regs"
      "\<And>n b. rc_validator_registration_batch_size (rl_config r) = Some n \<Longrightarrow> b \<in> set bs \<Longrightarrow>
         b \<noteq> [] \<and> length b \<le> n"
  proof (cases "rc_validator_registration_batch_size (rl_config r)")
    case None
    with Cons.prems(1) ts show ?thesis by (intro that [of "[regs]"]) auto
  next
    case (Some n)
    with Cons.prems(1) ts obtain bs where "chunks n regs = Some bs" "tasks = map (Pair r) bs @ ts"
      by (auto split: option.splits)
    with Some chunks_Some [of n regs bs] show ?thesis by (intro that [of bs]) auto
  qed
  have no_r: "(r, batch) \<notin> set ts" for batch
    using other by (auto simp: filter_empty_conv)
  show ?case
  proof (cases "relay = r")
    case True
    with tasks bs other no_r show ?thesis by (auto simp: filter_fst_Pair comp_def)
  next
    case False
    with Cons.IH [OF ts] Cons.prems tasks show ?thesis by (auto simp: filter_fst_Pair)
  qed
qed

subsection \<open>Waiting\<close>

lemma register_runs_nth:
  "i < length tasks \<Longrightarrow> register_runs W env hs c tasks ! i =
     send_register_validator_with_timeout W (env i) (snd (tasks ! i)) (fst (tasks ! i)) hs
       (pc_timeout_register_validator_ms c) (pc_register_validator_retry_limit c)"
  by (simp add: register_runs_def nth_enumerate_eq case_prod_beta)

lemma length_register_runs [simp]: "length (register_runs W env hs c tasks) = length tasks"
  by (simp add: register_runs_def)

lemma wait_all_iff:
  assumes "None \<notin> set runs"
  shows "wait_all joined runs = Some (Returned (Ok ())) \<longleftrightarrow>
    (\<exists>i<length runs. joined i \<and> (\<exists>effs clk. runs ! i = Some (effs, clk, Ok ())))"
proof -
  have nth: "\<exists>effs clk r. runs ! i = Some (effs, clk, r)" if "i < length runs" for i
    using assms that by (metis nth_mem not_None_eq surj_pair)
  have "(case join_task joined runs i of Inr r \<Rightarrow> is_ok r | Inl _ \<Rightarrow> False) \<longleftrightarrow>
      joined i \<and> (\<exists>effs clk. runs ! i = Some (effs, clk, Ok ()))" if "i < length runs" for i
    using nth [OF that] by (auto simp: join_task_def is_ok_def split: sum.splits)
  then show ?thesis using assms by (auto simp: wait_all_def)
qed

end
