(* ===== verification/Get_Header.thy ===== *)
theory Get_Header
  imports Pbs_State
begin

text \<open>
  \<open>getHeader\<close>: \<open>crates/pbs/src/mev_boost/get_header.rs\<close> and \<open>crates/pbs/src/utils.rs\<close>. One
  request (\<open>send_one_get_header\<close>) with the validation of its response, the timing games of one
  relay (\<open>send_timed_get_header\<close>) and the auction over all relays (\<open>get_header\<close>).

  Request \<open>k\<close> of a relay sees the network \<open>http k\<close>, starts at time \<open>now k\<close> and its task ends
  without a join error iff \<open>joined k\<close>. The parent block is fetched by a background task that writes
  a shared cell: \<open>arrived\<close> says whether that write came before the request read the cell.
\<close>

section \<open>Gas limit (\<open>utils.rs\<close>)\<close>

definition GAS_LIMIT_ADJUSTMENT_FACTOR :: u64 where
  "GAS_LIMIT_ADJUSTMENT_FACTOR = 1024"

definition GAS_LIMIT_MINIMUM :: u64 where
  "GAS_LIMIT_MINIMUM = 5000"

definition check_gas_limit :: "u64 \<Rightarrow> u64 \<Rightarrow> bool" where
  "check_gas_limit gas_limit parent_gas_limit =
     (let max_adjustment_delta = parent_gas_limit div GAS_LIMIT_ADJUSTMENT_FACTOR in
      if gas_limit \<ge> parent_gas_limit + max_adjustment_delta then False
      else if gas_limit \<le> parent_gas_limit - max_adjustment_delta then False
      else if gas_limit < GAS_LIMIT_MINIMUM then False
      else True)"

section \<open>Validation of a header\<close>

record parent_block =
  blk_number :: u64
  blk_gas_limit :: u64

record request_context =
  rctx_url :: string
  rctx_timeout_ms :: u64
  rctx_headers :: header_map

record validation_context =
  vc_skip_sigverify :: bool
  vc_min_bid_wei :: u256
  vc_extra_validation_enabled :: bool
  vc_parent_block :: "parent_block option"

record header_data =
  hd_block_hash :: b256
  hd_parent_hash :: b256
  hd_tx_root :: b256
  hd_value :: u256
  hd_timestamp :: u64

definition validate_header_data ::
  "header_data \<Rightarrow> chain \<Rightarrow> b256 \<Rightarrow> u256 \<Rightarrow> u64 \<Rightarrow> (validation_error, unit) result" where
  "validate_header_data h chain expected_parent_hash minimum_bid_wei slot =
     (if hd_block_hash h = 0 then Err EmptyBlockhash
      else if expected_parent_hash \<noteq> hd_parent_hash h
      then Err (ParentHashMismatch expected_parent_hash (hd_parent_hash h))
      else if hd_tx_root h = EMPTY_TX_ROOT_HASH then Err EmptyTxRoot
      else if hd_value h < minimum_bid_wei then Err (BidTooLow minimum_bid_wei (hd_value h))
      else
        (let expected_timestamp = timestamp_of_slot_start_sec slot chain in
         if expected_timestamp \<noteq> hd_timestamp h
         then Err (TimestampMismatch expected_timestamp (hd_timestamp h))
         else Ok ()))"

definition validate_signature ::
  "crypto \<Rightarrow> chain \<Rightarrow> bls_public_key \<Rightarrow> bls_public_key \<Rightarrow> b256 \<Rightarrow> bls_signature
     \<Rightarrow> (validation_error, unit) result" where
  "validate_signature C chain expected_relay_pubkey received_relay_pubkey message_root signature =
     (if expected_relay_pubkey \<noteq> received_relay_pubkey
      then Err (PubkeyMismatch expected_relay_pubkey received_relay_pubkey)
      else map_err Sigverify
             (verify_signed_message C chain received_relay_pubkey message_root signature None
                APPLICATION_BUILDER_DOMAIN))"

definition extra_validation ::
  "parent_block \<Rightarrow> get_header_response \<Rightarrow> (validation_error, unit) result" where
  "extra_validation parent signed_header =
     (if ghr_block_number signed_header \<noteq> blk_number parent + 1
      then Err (BlockNumberMismatch (blk_number parent) (ghr_block_number signed_header))
      else if \<not> check_gas_limit (ghr_gas_limit signed_header) (blk_gas_limit parent)
      then Err (GasLimit (blk_gas_limit parent) (ghr_gas_limit signed_header))
      else Ok ())"

text \<open>The checks of \<open>send_one_get_header\<close> on a decoded response.\<close>

definition validate_get_header_response ::
  "crypto \<Rightarrow> get_header_params \<Rightarrow> relay_client \<Rightarrow> chain \<Rightarrow> validation_context \<Rightarrow> get_header_response
     \<Rightarrow> (validation_error, unit) result" where
  "validate_get_header_response C params relay chain validation resp =
     (case resp of Electra res \<Rightarrow>
        (let msg = sh_message res;
             h = \<lparr>hd_block_hash = eph_block_hash (hm_header msg),
                  hd_parent_hash = eph_parent_hash (hm_header msg),
                  hd_tx_root = eph_transactions_root (hm_header msg),
                  hd_value = hm_value msg,
                  hd_timestamp = eph_timestamp (hm_header msg)\<rparr>
         in
         and_then (validate_header_data h chain (ghp_parent_hash params)
                     (vc_min_bid_wei validation) (ghp_slot params)) (\<lambda>_.
         and_then (if vc_skip_sigverify validation then Ok ()
                   else validate_signature C chain (relay_pubkey relay) (hm_pubkey msg)
                          (th_header_message C msg) (sh_signature res)) (\<lambda>_.
           if vc_extra_validation_enabled validation
           then (case vc_parent_block validation of
                   Some parent \<Rightarrow> extra_validation parent resp
                 | None \<Rightarrow> Ok ())
           else Ok ()))))"

section \<open>One request\<close>

definition send_one_get_header ::
  "weblib \<Rightarrow> crypto \<Rightarrow> http \<Rightarrow> u64 \<Rightarrow> get_header_params \<Rightarrow> relay_client \<Rightarrow> chain
     \<Rightarrow> request_context \<Rightarrow> validation_context
     \<Rightarrow> (pbs_error, u64 \<times> get_header_response option) result run" where
  "send_one_get_header W C http start_request_time params relay chain req_config validation =
     (let headers = (rctx_headers req_config)
            (header_key HEADER_START_TIME_UNIX_MS \<mapsto> decimal (unat start_request_time));
          sent = observe_send GET_HEADER_ENDPOINT_TAG (rl_id relay)
            (http \<lparr>rq_method = GET, rq_url = rctx_url req_config,
                   rq_timeout_ms = rctx_timeout_ms req_config, rq_headers = headers,
                   rq_body = NoBody\<rparr>)
      in
      (fst sent,
       and_then (snd sent) (\<lambda>res.
       and_then (map_err ReadResponse (read_chunked_body_with_max res MAX_SIZE_GET_HEADER_RESPONSE))
         (\<lambda>response_bytes.
            let code = resp_status res in
            if \<not> is_success code then Err (RelayResponse response_bytes code)
            else if code = NO_CONTENT then Ok (start_request_time, None)
            else (case json_get_header W response_bytes of
                    Inl err \<Rightarrow> Err (JsonDecode err response_bytes)
                  | Inr resp \<Rightarrow>
                      and_then (map_err Validation
                        (validate_get_header_response C params relay chain validation resp)) (\<lambda>_.
                          Ok (start_request_time, Some resp)))))))"

section \<open>Timing games\<close>

text \<open>
  The loop that spawns requests: the time-outs given to them, in order. It does not return when
  the frequency is zero and there is time left.
\<close>

partial_function (option) tg_timeouts :: "u64 \<Rightarrow> u64 \<Rightarrow> u64 list option" where
  "tg_timeouts send_freq_ms timeout_left_ms =
     (if timeout_left_ms > send_freq_ms
      then Option.bind (tg_timeouts send_freq_ms (saturating_sub timeout_left_ms send_freq_ms))
             (\<lambda>ts. Some (timeout_left_ms # ts))
      else Some [timeout_left_ms])"

record gh_env =
  ge_http :: "nat \<Rightarrow> http"
  ge_now :: "nat \<Rightarrow> u64"
  ge_joined :: "nat \<Rightarrow> bool"
  ge_arrived :: "nat \<Rightarrow> bool"

text \<open>\<open>validation.parent_block.read()\<close> at request \<open>k\<close>.\<close>

definition cell_at :: "gh_env \<Rightarrow> validation_context \<Rightarrow> nat \<Rightarrow> validation_context" where
  "cell_at env validation k =
     (if ge_arrived env k then validation else validation\<lparr>vc_parent_block := None\<rparr>)"

definition received_header ::
  "(pbs_error, u64 \<times> get_header_response option) result \<Rightarrow> (u64 \<times> get_header_response option) option" where
  "received_header inner_res =
     (case inner_res of
        Inr maybe_header \<Rightarrow> if snd maybe_header \<noteq> None then Some maybe_header else None
      | Inl err \<Rightarrow> None)"

text \<open>
  The joined requests of one relay, as \<open>(k, run)\<close>: of those that brought a header, the one whose
  request started last.
\<close>

definition collect_timed ::
  "gh_env \<Rightarrow> (nat \<times> (pbs_error, u64 \<times> get_header_response option) result run) list
     \<Rightarrow> (pbs_error, get_header_response option) result" where
  "collect_timed env runs =
     (case max_by_key fst
             (List.map_filter (\<lambda>(k, r). if ge_joined env k then received_header (snd r) else None) runs) of
        Some (_, maybe_header) \<Rightarrow> Ok maybe_header
      | None \<Rightarrow> Err (RelayResponse (bytes_of_string ''no headers received'') TIMEOUT_ERROR_CODE))"

definition send_timed_get_header ::
  "weblib \<Rightarrow> crypto \<Rightarrow> gh_env \<Rightarrow> get_header_params \<Rightarrow> relay_client \<Rightarrow> chain \<Rightarrow> header_map
     \<Rightarrow> u64 \<Rightarrow> u64 \<Rightarrow> validation_context
     \<Rightarrow> (pbs_error, get_header_response option) result run option" where
  "send_timed_get_header W C env params relay chain headers ms_into timeout_left_ms validation =
     (case get_header_url W relay (ghp_slot params) (ghp_parent_hash params) (ghp_pubkey params) of
        Inl e \<Rightarrow> Some ([], Err e)
      | Inr url \<Rightarrow>
          (let config = rl_config relay;
               one = (\<lambda>k timeout. send_one_get_header W C (ge_http env k) (ge_now env k) params relay chain
                        \<lparr>rctx_url = url, rctx_timeout_ms = timeout, rctx_headers = headers\<rparr>
                        (cell_at env validation k));
               timeout_left =
                 (if rc_enable_timing_games config
                  then (case rc_target_first_request_ms config of
                          Some target_ms \<Rightarrow>
                            (let delay = saturating_sub target_ms ms_into in
                             if delay > 0 then saturating_sub timeout_left_ms delay
                             else timeout_left_ms)
                        | None \<Rightarrow> timeout_left_ms)
                  else timeout_left_ms)
           in
           case (if rc_enable_timing_games config then rc_frequency_get_header_ms config else None) of
             Some send_freq_ms \<Rightarrow>
               map_option (\<lambda>timeouts.
                 let runs = map (\<lambda>(k, t). (k, one k t)) (enumerate 0 timeouts)
                 in (concat (map (fst \<circ> snd) runs), collect_timed env runs))
                 (tg_timeouts send_freq_ms timeout_left)
           | None \<Rightarrow>
               (let r = one 0 timeout_left in
                Some (fst r, and_then (snd r) (\<lambda>(_, maybe_header). Ok maybe_header)))))"

section \<open>The auction\<close>

definition value_gwei :: "u256 \<Rightarrow> int" where
  "value_gwei v = (let g = unat v div 1000000000 in if g < 2 ^ 63 then int g else 0)"

text \<open>What the loop over the results records and collects for one relay.\<close>

definition record_bid ::
  "get_header_params \<Rightarrow> string \<Rightarrow> (pbs_error, get_header_response option) result
     \<Rightarrow> effect list \<times> get_header_response list" where
  "record_bid params relay_id res =
     (case res of
        Inr (Some bid) \<Rightarrow>
          ([RELAY_LAST_SLOT relay_id (sint (ghp_slot params)),
            RELAY_HEADER_VALUE relay_id (value_gwei (ghr_value bid))], [bid])
      | Inr None \<Rightarrow> ([], [])
      | Inl err \<Rightarrow> ([], []))"

text \<open>One future per relay and \<open>join_all\<close>: the results in the order of the relays.\<close>

definition join_get_headers ::
  "weblib \<Rightarrow> crypto \<Rightarrow> (nat \<Rightarrow> gh_env) \<Rightarrow> get_header_params \<Rightarrow> chain \<Rightarrow> header_map \<Rightarrow> u64 \<Rightarrow> u64
     \<Rightarrow> validation_context \<Rightarrow> relay_client list
     \<Rightarrow> (pbs_error, get_header_response option) result run list option" where
  "join_get_headers W C relay_env params chain send_headers ms_into max_timeout_ms validation relays =
     those (map (\<lambda>(i, relay). send_timed_get_header W C (relay_env i) params relay chain send_headers
                   ms_into max_timeout_ms validation)
              (enumerate 0 relays))"

text \<open>
  \<open>get_header\<close> on a snapshot of the state. \<open>now_ms\<close> is the clock when the request arrives,
  \<open>relay_env i\<close> the environment of the \<open>i\<close>-th relay, \<open>fetched\<close> the answer to the parent block
  query.
\<close>

definition header_validation ::
  "(string, parent_block option) result \<Rightarrow> 'd pbs_state \<Rightarrow> validation_context" where
  "header_validation fetched state =
     \<lparr>vc_skip_sigverify = pc_skip_sigverify (st_pbs_config state),
      vc_min_bid_wei = pc_min_bid_wei (st_pbs_config state),
      vc_extra_validation_enabled = extra_validation_enabled state,
      vc_parent_block =
        (if extra_validation_enabled state \<and> pc_rpc_url (st_pbs_config state) \<noteq> None
         then (case fetched of Inr maybe_block \<Rightarrow> maybe_block | Inl _ \<Rightarrow> None)
         else None)\<rparr>"

definition max_header_timeout :: "u64 \<Rightarrow> pbs_config \<Rightarrow> u64" where
  "max_header_timeout ms_into pbs_config =
     min (pc_timeout_get_header_ms pbs_config)
       (saturating_sub (pc_late_in_slot_time_ms pbs_config) ms_into)"

definition get_header ::
  "weblib \<Rightarrow> crypto \<Rightarrow> u64 \<Rightarrow> (nat \<Rightarrow> gh_env) \<Rightarrow> (string, parent_block option) result
     \<Rightarrow> get_header_params \<Rightarrow> header_map \<Rightarrow> 'd pbs_state
     \<Rightarrow> (string, get_header_response option) result run option" where
  "get_header W C now_ms relay_env fetched params req_headers state =
     (let ms_into = ms_into_slot now_ms (ghp_slot params) (pm_chain (st_config state));
          (pbs_config, relays, maybe_mux_id) = mux_config_and_relays state (ghp_pubkey params);
          max_timeout_ms = max_header_timeout ms_into pbs_config
      in
      if max_timeout_ms = 0 then Some ([], Ok None)
      else
        (case get_user_agent_with_version W req_headers of
           Inl e \<Rightarrow> Some ([], Err e)
         | Inr ua \<Rightarrow>
             map_option (\<lambda>results.
               let recorded = map (\<lambda>(relay, r). record_bid params (rl_id relay) (snd r)) (zip relays results);
                   relay_bids = concat (map snd recorded)
               in (concat (map fst results) @ concat (map fst recorded),
                   Ok (max_by_key ghr_value relay_bids)))
               (join_get_headers W C relay_env params (pm_chain (st_config state)) [USER_AGENT \<mapsto> ua]
                  ms_into max_timeout_ms (header_validation fetched state) relays)))"

section \<open>Properties\<close>

subsection \<open>Gas limit\<close>

text \<open>
  The word arithmetic agrees with the execution specification as long as the sum of the parent gas
  limit and its allowed change fits in 64 bits.
\<close>

lemma unat_gas_delta: "unat (p div GAS_LIMIT_ADJUSTMENT_FACTOR) = unat p div 1024"
  by (simp add: GAS_LIMIT_ADJUSTMENT_FACTOR_def unat_div)

lemma check_gas_limit_unat:
  assumes "unat p + unat p div 1024 < 2 ^ 64"
  shows "check_gas_limit g p \<longleftrightarrow>
    unat g < unat p + unat p div 1024 \<and> unat p - unat p div 1024 < unat g \<and> 5000 \<le> unat g"
proof -
  let ?d = "p div GAS_LIMIT_ADJUSTMENT_FACTOR"
  have sum: "unat (p + ?d) = unat p + unat p div 1024"
    using assms unat_gas_delta [of p] by (simp add: unat_word_ariths(1))
  have "?d \<le> p"
    by (simp add: word_le_nat_alt unat_gas_delta)
  then have diff: "unat (p - ?d) = unat p - unat p div 1024"
    by (simp add: unat_sub word_le_nat_alt unat_gas_delta)
  show ?thesis
    unfolding check_gas_limit_def Let_def word_le_nat_alt word_less_nat_alt sum diff
    by (auto simp: GAS_LIMIT_MINIMUM_def not_le)
qed

subsection \<open>Header validation\<close>

lemma validate_header_data_Ok_iff:
  "validate_header_data h chain parent_hash min_bid slot = Ok u \<longleftrightarrow>
     hd_block_hash h \<noteq> 0 \<and> hd_parent_hash h = parent_hash \<and> hd_tx_root h \<noteq> EMPTY_TX_ROOT_HASH \<and>
     min_bid \<le> hd_value h \<and> hd_timestamp h = timestamp_of_slot_start_sec slot chain"
  by (auto simp: validate_header_data_def Let_def)

lemma validate_signature_Ok_iff:
  "validate_signature C chain expected received root sig = Ok u \<longleftrightarrow>
     received = expected \<and>
     verify_signed_message C chain expected root sig None APPLICATION_BUILDER_DOMAIN = Ok ()"
  by (auto simp: validate_signature_def)

text \<open>What an accepted response satisfies, in terms of the response's accessors.\<close>

definition header_acceptable ::
  "crypto \<Rightarrow> get_header_params \<Rightarrow> relay_client \<Rightarrow> chain \<Rightarrow> bool \<Rightarrow> u256 \<Rightarrow> get_header_response \<Rightarrow> bool" where
  "header_acceptable C params relay chain skip_sigverify min_bid resp \<longleftrightarrow>
     ghr_block_hash resp \<noteq> 0 \<and>
     ghr_parent_hash resp = ghp_parent_hash params \<and>
     ghr_transactions_root resp \<noteq> EMPTY_TX_ROOT_HASH \<and>
     min_bid \<le> ghr_value resp \<and>
     (case resp of Electra d \<Rightarrow>
        eph_timestamp (hm_header (sh_message d)) = timestamp_of_slot_start_sec (ghp_slot params) chain \<and>
        (skip_sigverify \<or>
           ghr_pubkey resp = relay_pubkey relay \<and>
           verify_signed_message C chain (relay_pubkey relay) (th_header_message C (sh_message d))
             (ghr_signature resp) None APPLICATION_BUILDER_DOMAIN = Ok ()))"

lemma validate_get_header_response_Ok_iff:
  "validate_get_header_response C params relay chain v resp = Ok u \<longleftrightarrow>
     header_acceptable C params relay chain (vc_skip_sigverify v) (vc_min_bid_wei v) resp \<and>
     (vc_extra_validation_enabled v \<longrightarrow>
        (\<forall>parent. vc_parent_block v = Some parent \<longrightarrow> extra_validation parent resp = Ok ()))"
  by (cases resp)
    (auto simp: validate_get_header_response_def header_acceptable_def Let_def and_then_Ok_iff
      validate_header_data_Ok_iff validate_signature_Ok_iff split: if_splits option.splits)

lemma send_one_get_header_Ok:
  assumes "snd (send_one_get_header W C http now params relay chain ctx v) = Ok (t, Some resp)"
  shows "t = now \<and> validate_get_header_response C params relay chain v resp = Ok ()"
  using assms
  by (auto simp: send_one_get_header_def Let_def and_then_Ok_iff split: if_splits sum.splits)

lemma send_one_get_header_None:
  assumes "snd (send_one_get_header W C http now params relay chain ctx v) = Ok (t, None)"
  shows "t = now"
  using assms
  by (auto simp: send_one_get_header_def Let_def and_then_Ok_iff split: if_splits sum.splits)

lemma cell_at_simps [simp]:
  "vc_skip_sigverify (cell_at env v k) = vc_skip_sigverify v"
  "vc_min_bid_wei (cell_at env v k) = vc_min_bid_wei v"
  "vc_extra_validation_enabled (cell_at env v k) = vc_extra_validation_enabled v"
  by (simp_all add: cell_at_def)

subsection \<open>Timing games\<close>

lemma tg_timeouts_unfold:
  "tg_timeouts f t =
     (if f < t then map_option (Cons t) (tg_timeouts f (saturating_sub t f)) else Some [t])"
  by (subst tg_timeouts.simps) (simp add: map_conv_bind_option comp_def)

lemma tg_timeouts_terminates:
  assumes "0 < f"
  shows "\<exists>ts. tg_timeouts f t = Some ts \<and> ts \<noteq> [] \<and>
    (\<forall>k<length ts. unat (ts ! k) + k * unat f = unat t) \<and>
    length ts = (if t = 0 then 1 else (unat t + unat f - 1) div unat f)"
proof (induction "unat t" arbitrary: t rule: less_induct)
  case less
  have f: "0 < unat f" using assms by (simp add: unat_gt_0 word_gt_0_iff)
  show ?case
  proof (cases "f < t")
    case False
    then have le: "unat t \<le> unat f" by (simp add: not_less word_le_nat_alt)
    have "(unat t + unat f - 1) div unat f = 1" if "t \<noteq> 0"
    proof -
      have "0 < unat t" using that by (simp add: unat_gt_0)
      with le f show ?thesis
        by (intro div_nat_eqI) auto
    qed
    with False show ?thesis by (subst tg_timeouts_unfold) auto
  next
    case True
    then have lt: "unat f < unat t" by (simp add: word_less_nat_alt)
    have u: "unat (saturating_sub t f) = unat t - unat f" by (rule unat_saturating_sub)
    with lt f obtain ts where ts: "tg_timeouts f (saturating_sub t f) = Some ts" "ts \<noteq> []"
      and nth: "\<forall>k<length ts. unat (ts ! k) + k * unat f = unat t - unat f"
      and len: "length ts = (if saturating_sub t f = 0 then 1 else (unat t - unat f + unat f - 1) div unat f)"
      using less.hyps [of "saturating_sub t f"] by auto
    have "saturating_sub t f \<noteq> 0" using lt u by (metis unat_0 zero_less_diff less_numeral_extra(3))
    with len lt have "length ts = (unat t - 1) div unat f" by simp
    moreover have "(unat t + unat f - 1) div unat f = Suc ((unat t - 1) div unat f)"
    proof -
      have "unat t + unat f - 1 = (unat t - 1) + unat f" using lt by simp
      moreover have "((unat t - 1) + unat f) div unat f = Suc ((unat t - 1) div unat f)"
        using f div_add_self2 [of "unat f" "unat t - 1"] by linarith
      ultimately show ?thesis by (simp only:)
    qed
    moreover have "t \<noteq> 0" using lt by auto
    moreover have "\<forall>k<length (t # ts). unat ((t # ts) ! k) + k * unat f = unat t"
    proof (intro allI impI)
      fix k
      assume "k < length (t # ts)"
      then show "unat ((t # ts) ! k) + k * unat f = unat t"
        using nth lt by (cases k) auto
    qed
    ultimately show ?thesis using True ts by (subst tg_timeouts_unfold) simp
  qed
qed

lemma tg_timeouts_diverges:
  assumes "0 < t"
  shows "tg_timeouts 0 t = None"
proof (rule ccontr)
  assume "tg_timeouts 0 t \<noteq> None"
  then obtain ts where ts: "tg_timeouts 0 t = Some ts" by blast
  have "\<not> (0 = (0::u64) \<and> 0 < t)"
  proof (rule tg_timeouts.raw_induct [where P = "\<lambda>f t ts. \<not> (f = 0 \<and> 0 < t)", OF _ ts])
    fix rec f t ts
    assume IH: "\<And>f t ts. rec f t = Some ts \<Longrightarrow> \<not> (f = 0 \<and> 0 < t)"
      and eq: "(if f < t then Option.bind (rec f (saturating_sub t f)) (\<lambda>ts. Some (t # ts))
                else Some [t]) = Some ts"
    show "\<not> (f = 0 \<and> 0 < t)"
      using IH [of f "saturating_sub t f"] eq
      by (auto simp: saturating_sub_def bind_eq_Some_conv split: if_splits)
  qed
  with assms show False by simp
qed

lemma received_header_Some_iff:
  "received_header r = Some th \<longleftrightarrow> r = Ok th \<and> snd th \<noteq> None"
  by (auto simp: received_header_def split: sum.splits if_splits)

lemma collect_timed_Ok:
  assumes "collect_timed env runs = Ok h"
  shows "\<exists>k r t. (k, r) \<in> set runs \<and> ge_joined env k \<and> snd r = Ok (t, h) \<and> h \<noteq> None \<and>
    (\<forall>(k', r')\<in>set runs. ge_joined env k' \<longrightarrow> (\<forall>t' h'. snd r' = Ok (t', Some h') \<longrightarrow> t' \<le> t))"
proof -
  let ?f = "\<lambda>(k, r). if ge_joined env k then received_header (snd r) else None"
  obtain t where m: "max_by_key fst (List.map_filter ?f runs) = Some (t, h)"
    using assms by (auto simp: collect_timed_def split: option.splits)
  then have mem: "(t, h) \<in> set (List.map_filter ?f runs)"
    and mx: "\<forall>th\<in>set (List.map_filter ?f runs). fst th \<le> t"
    by (auto dest!: max_by_key_SomeD)
  from mem obtain k r where kr: "(k, r) \<in> set runs" "ge_joined env k" "snd r = Ok (t, h)" "h \<noteq> None"
    by (auto simp: map_filter_mem received_header_Some_iff split: if_splits)
  have "t' \<le> t" if "(k', r') \<in> set runs" "ge_joined env k'" "snd r' = Ok (t', Some h')" for k' r' t' h'
  proof -
    have "(t', Some h') \<in> set (List.map_filter ?f runs)"
      using that by (force simp: map_filter_mem received_header_Some_iff)
    with mx show ?thesis by force
  qed
  with kr show ?thesis by blast
qed

text \<open>A header that a relay delivers was accepted by the checks of one of its requests.\<close>

lemma send_timed_get_header_Ok:
  assumes "send_timed_get_header W C env params relay chain headers ms timeout v = Some (effs, Ok (Some resp))"
  shows "\<exists>k. validate_get_header_response C params relay chain (cell_at env v k) resp = Ok ()"
proof -
  obtain url where url:
    "get_header_url W relay (ghp_slot params) (ghp_parent_hash params) (ghp_pubkey params) = Ok url"
    using assms by (auto simp: send_timed_get_header_def split: sum.splits)
  show ?thesis
  proof (cases "if rc_enable_timing_games (rl_config relay)
                then rc_frequency_get_header_ms (rl_config relay) else None")
    case None
    with assms url show ?thesis
      by (auto simp: send_timed_get_header_def Let_def and_then_Ok_iff dest!: send_one_get_header_Ok
          split: prod.splits)
  next
    case (Some freq)
    with assms url obtain ts where "collect_timed env
        (map (\<lambda>(k, t). (k, send_one_get_header W C (ge_http env k) (ge_now env k) params relay chain
                \<lparr>rctx_url = url, rctx_timeout_ms = t, rctx_headers = headers\<rparr> (cell_at env v k)))
           (enumerate 0 ts)) = Ok (Some resp)"
      by (auto simp: send_timed_get_header_def Let_def split: if_splits)
    from collect_timed_Ok [OF this] obtain k r t' where
      kr: "(k, r) \<in> set (map (\<lambda>(k, t). (k, send_one_get_header W C (ge_http env k) (ge_now env k) params
          relay chain \<lparr>rctx_url = url, rctx_timeout_ms = t, rctx_headers = headers\<rparr> (cell_at env v k)))
           (enumerate 0 ts))"
      and ok: "snd r = Ok (t', Some resp)"
      by blast
    from kr obtain t where "r = send_one_get_header W C (ge_http env k) (ge_now env k) params relay chain
         \<lparr>rctx_url = url, rctx_timeout_ms = t, rctx_headers = headers\<rparr> (cell_at env v k)"
      by auto
    with ok show ?thesis by (blast dest: send_one_get_header_Ok)
  qed
qed

subsection \<open>The auction\<close>

lemma those_Some_iff: "those xs = Some ys \<longleftrightarrow> xs = map Some ys"
proof (induction xs arbitrary: ys)
  case Nil
  then show ?case by auto
next
  case (Cons x xs)
  then show ?case by (cases x; cases ys) auto
qed

lemma join_get_headers_nth:
  assumes "join_get_headers W C env params chain hs ms t v relays = Some results"
  shows "length results = length relays \<and>
    (\<forall>i<length relays. send_timed_get_header W C (env i) params (relays ! i) chain hs ms t v
        = Some (results ! i))"
proof -
  have eq: "map (\<lambda>(i, relay). send_timed_get_header W C (env i) params relay chain hs ms t v)
      (enumerate 0 relays) = map Some results"
    using assms by (simp add: join_get_headers_def those_Some_iff)
  then have len: "length relays = length results"
    by (metis length_enumerate length_map)
  moreover have "send_timed_get_header W C (env i) params (relays ! i) chain hs ms t v
      = Some (results ! i)" if "i < length relays" for i
    using arg_cong [OF eq, of "\<lambda>xs. xs ! i"] that len by (simp add: nth_enumerate_eq)
  ultimately show ?thesis by simp
qed

lemma record_bid_bids: "bid \<in> set (snd (record_bid params rid res)) \<longleftrightarrow> res = Ok (Some bid)"
  by (auto simp: record_bid_def split: sum.splits option.splits)

lemma relay_bids_mem:
  assumes "length results = length relays"
  shows "bid \<in> set (concat (map snd (map (\<lambda>(relay, r). record_bid params (rl_id relay) (snd r))
      (zip relays results)))) \<longleftrightarrow> (\<exists>i<length relays. snd (results ! i) = Ok (Some bid))"
proof -
  have "bid \<in> set (concat (map snd (map (\<lambda>(relay, r). record_bid params (rl_id relay) (snd r))
      (zip relays results)))) \<longleftrightarrow> (\<exists>(relay, r)\<in>set (zip relays results). snd r = Ok (Some bid))"
    by (simp add: record_bid_bids case_prod_beta)
  also have "\<dots> \<longleftrightarrow> (\<exists>r\<in>snd ` set (zip relays results). snd r = Ok (Some bid))"
    by (simp add: case_prod_beta)
  also have "snd ` set (zip relays results) = set results"
    using assms by (metis list.set_map map_snd_zip)
  also have "(\<exists>r\<in>set results. snd r = Ok (Some bid)) \<longleftrightarrow>
      (\<exists>i<length relays. snd (results ! i) = Ok (Some bid))"
    using assms by (metis in_set_conv_nth)
  finally show ?thesis .
qed

end
