(* ===== verification/Status.thy ===== *)
theory Status
  imports Submit_Block Register_Validator Get_Header
begin

text \<open>
  The status check of the relays: \<open>crates/pbs/src/mev_boost/status.rs\<close>, and the contract that every
  request function of the PBS module keeps towards the metrics: a call that reaches the network
  increments \<open>relay_status_code_total\<close> exactly once, under the tag of the endpoint and the id of the
  relay.
\<close>

section \<open>Status\<close>

definition send_relay_check ::
  "weblib \<Rightarrow> http \<Rightarrow> relay_client \<Rightarrow> header_map \<Rightarrow> (pbs_error, unit) result run" where
  "send_relay_check W http relay headers =
     (case get_status_url W relay of
        Inl e \<Rightarrow> ([], Err e)
      | Inr url \<Rightarrow>
          (let sent = observe_send STATUS_ENDPOINT_TAG (rl_id relay)
                 (http \<lparr>rq_method = GET, rq_url = url, rq_timeout_ms = 30000,
                        rq_headers = headers, rq_body = NoBody\<rparr>)
           in
           (fst sent,
            and_then (snd sent) (\<lambda>res.
              let code = resp_status res in
              if \<not> is_success code then
                and_then (map_err ReadResponse (read_chunked_body_with_max res MAX_SIZE_DEFAULT))
                  (\<lambda>response_bytes. Err (RelayResponse response_bytes code))
              else Ok ()))))"

text \<open>The relays answer in the order given.\<close>

definition get_status ::
  "weblib \<Rightarrow> (nat \<Rightarrow> http) \<Rightarrow> nat list \<Rightarrow> header_map \<Rightarrow> 'd pbs_state
     \<Rightarrow> (string + pbs_error, unit) result outcome run" where
  "get_status W http order req_headers state =
     (if \<not> pc_relay_check (st_pbs_config state) then ([], Returned (Ok ()))
      else
        (case get_user_agent_with_version W req_headers of
           Inl e \<Rightarrow> ([], Returned (Err (Inl e)))
         | Inr ua \<Rightarrow>
             (let runs = map (\<lambda>(i, relay). send_relay_check W (http i) relay [USER_AGENT \<mapsto> ua])
                    (enumerate 0 (all_relays state));
                  results = race (map (\<lambda>i. runs ! i) (filter (\<lambda>i. i < length runs) order))
              in (fst results,
                  case snd results of
                    None \<Rightarrow> Panicked
                  | Some (Inr _) \<Rightarrow> Returned (Ok ())
                  | Some (Inl err) \<Rightarrow> Returned (Err (Inr err))))))"

section \<open>The contract of a request function\<close>

locale relay_endpoint =
  fixes send :: "http \<Rightarrow> relay_client \<Rightarrow> (pbs_error, 'a) result run"
    and tag :: string
    and url_of :: "relay_client \<Rightarrow> (pbs_error, string) result"
  assumes bad_url: "url_of relay = Err e \<Longrightarrow> send http relay = ([], Err e)"
    and good_url: "url_of relay = Ok url \<Longrightarrow>
      \<exists>code. status_codes (fst (send http relay)) = [(code, tag, rl_id relay)]"
    and network_error: "url_of relay = Ok url \<Longrightarrow> (\<And>rq. snd (http rq) = Err err) \<Longrightarrow>
      send http relay = ([RELAY_STATUS_CODE TIMEOUT_ERROR_CODE_STR tag (rl_id relay)], Err (Reqwest err))"
begin

lemma codes_cases:
  "status_codes (fst (send http relay)) = [] \<or>
   (\<exists>code. status_codes (fst (send http relay)) = [(code, tag, rl_id relay)])"
proof (cases "url_of relay")
  case (Inl e)
  then show ?thesis by (simp add: bad_url)
next
  case (Inr url)
  then show ?thesis by (blast intro: good_url)
qed

lemma at_most_one_code: "length (status_codes (fst (send http relay))) \<le> 1"
  using codes_cases [of http relay] by auto

text \<open>Each call is accounted for under its own endpoint and relay, and under no other.\<close>

lemma codes_of_endpoint:
  "(code, t, rid) \<in> set (status_codes (fst (send http relay))) \<Longrightarrow> t = tag \<and> rid = rl_id relay"
  using codes_cases [of http relay] by auto

lemma broadcast_codes:
  assumes "\<And>relay. relay \<in> set relays \<Longrightarrow> \<exists>url. url_of relay = Ok url"
  shows "map snd (status_codes (concat (map (\<lambda>relay. fst (send (http relay) relay)) relays)))
    = map (\<lambda>relay. (tag, rl_id relay)) relays"
  using assms
proof (induction relays)
  case Nil
  then show ?case by simp
next
  case (Cons r relays)
  obtain url where "url_of r = Ok url" using Cons.prems by auto
  from good_url [OF this, of "http r"] Cons show ?case by auto
qed

end

interpretation status: relay_endpoint
  "\<lambda>http relay. send_relay_check W http relay headers" STATUS_ENDPOINT_TAG "get_status_url W"
  for W headers
  by unfold_locales (auto simp: send_relay_check_def Let_def observe_send_def split: sum.split)

interpretation registration: relay_endpoint
  "\<lambda>http relay. case register_validator_url W relay of
     Inl e \<Rightarrow> ([], Err e)
   | Inr url \<Rightarrow> send_register_validator W http url regs relay headers t"
  REGISTER_VALIDATOR_ENDPOINT_TAG "register_validator_url W"
  for W regs headers t
  by unfold_locales (auto simp: send_register_validator_def Let_def observe_send_def split: sum.split)

interpretation submission: relay_endpoint
  "\<lambda>http relay. case submit_block_url W relay ver of
     Inl e \<Rightarrow> ([], Err e)
   | Inr url \<Rightarrow> send_submit_block W http url block relay headers t ver"
  SUBMIT_BLINDED_BLOCK_ENDPOINT_TAG "\<lambda>relay. submit_block_url W relay ver"
  for W block headers t ver
  by unfold_locales (auto simp: send_submit_block_def Let_def observe_send_def split: sum.split)

interpretation header: relay_endpoint
  "\<lambda>http relay. case get_header_url W relay slot parent_hash pubkey of
     Inl e \<Rightarrow> ([], Err e)
   | Inr url \<Rightarrow> send_one_get_header W C http now params relay chain
       \<lparr>rctx_url = url, rctx_timeout_ms = t, rctx_headers = headers\<rparr> v"
  GET_HEADER_ENDPOINT_TAG "\<lambda>relay. get_header_url W relay slot parent_hash pubkey"
  for W C now params chain t headers v slot parent_hash pubkey
  by unfold_locales (auto simp: send_one_get_header_def Let_def observe_send_def split: sum.split)

section \<open>Properties\<close>

lemma send_relay_check_Ok_iff:
  "snd (send_relay_check W http relay headers) = Ok u \<longleftrightarrow>
     (\<exists>url res. get_status_url W relay = Ok url \<and> is_success (resp_status res) \<and>
       snd (http \<lparr>rq_method = GET, rq_url = url, rq_timeout_ms = 30000,
                  rq_headers = headers, rq_body = NoBody\<rparr>) = Ok res)"
  by (auto simp: send_relay_check_def Let_def observe_send_def and_then_Ok_iff
      split: sum.splits if_splits)

end
