(* ===== verification/Routes.thy ===== *)
theory Routes
  imports Status
begin

text \<open>
  The HTTP surface of the PBS service: the errors shown to the beacon node (\<open>crates/pbs/src/error.rs\<close>),
  the handlers and the route table (\<open>crates/pbs/src/routes/\<close>), the reload of the configuration
  (\<open>crates/pbs/src/mev_boost/reload.rs\<close>), and the service as a transition system in which requests
  run on snapshots of the state that a reload replaces.
\<close>

section \<open>Replies\<close>

datatype pbs_client_error = NoResponse | NoPayload | Internal

fun client_status_code :: "pbs_client_error \<Rightarrow> u16" where
  "client_status_code NoResponse = 502"
| "client_status_code NoPayload = 502"
| "client_status_code Internal = 500"

fun client_message :: "pbs_client_error \<Rightarrow> string" where
  "client_message NoResponse = ''no response from relays''"
| "client_message NoPayload = ''no payload from relays''"
| "client_message Internal = ''internal server error''"

datatype reply_body =
    EmptyBody
  | TextBody string
  | HeaderBody get_header_response
  | PayloadBody submit_blinded_block_response

record reply =
  rp_status :: u16
  rp_body :: reply_body

definition client_error_reply :: "pbs_client_error \<Rightarrow> reply" where
  "client_error_reply e = \<lparr>rp_status = client_status_code e, rp_body = TextBody (client_message e)\<rparr>"

text \<open>The metric and the reply of a handler that fails with a client error.\<close>

definition fail_with :: "pbs_client_error \<Rightarrow> string \<Rightarrow> reply run" where
  "fail_with e tag =
     ([BEACON_NODE_STATUS (status_as_str (client_status_code e)) tag], client_error_reply e)"

section \<open>Handlers\<close>

definition handle_get_header ::
  "weblib \<Rightarrow> crypto \<Rightarrow> u64 \<Rightarrow> (nat \<Rightarrow> gh_env) \<Rightarrow> (string, parent_block option) result
     \<Rightarrow> 'd pbs_state \<Rightarrow> header_map \<Rightarrow> get_header_params \<Rightarrow> reply run option" where
  "handle_get_header W C now_ms relay_env fetched state req_headers params =
     map_option (\<lambda>(effs, res).
       let answer =
         (case res of
            Inr r \<Rightarrow>
              (case r of
                 Some max_bid \<Rightarrow>
                   (publish_event state (GetHeaderResponse r) @
                      [BEACON_NODE_STATUS ''200'' GET_HEADER_ENDPOINT_TAG],
                    \<lparr>rp_status = 200, rp_body = HeaderBody max_bid\<rparr>)
               | None \<Rightarrow>
                   (publish_event state (GetHeaderResponse r) @
                      [BEACON_NODE_STATUS ''204'' GET_HEADER_ENDPOINT_TAG],
                    \<lparr>rp_status = 204, rp_body = EmptyBody\<rparr>))
          | Inl err \<Rightarrow> fail_with NoPayload GET_HEADER_ENDPOINT_TAG)
       in (publish_event state (GetHeaderRequest params) @ effs @ fst answer, snd answer))
       (get_header W C now_ms relay_env fetched params req_headers state)"

definition handle_get_status ::
  "weblib \<Rightarrow> (nat \<Rightarrow> http) \<Rightarrow> nat list \<Rightarrow> 'd pbs_state \<Rightarrow> header_map \<Rightarrow> reply outcome run" where
  "handle_get_status W http order state req_headers =
     (let (effs, out) = get_status W http order req_headers state;
          request = publish_event state GetStatusEvent
      in
      case out of
        Panicked \<Rightarrow> (request @ effs, Panicked)
      | Returned res \<Rightarrow>
          (let answer =
             (case res of
                Inr _ \<Rightarrow>
                  (publish_event state GetStatusResponse @ [BEACON_NODE_STATUS ''200'' STATUS_ENDPOINT_TAG],
                   \<lparr>rp_status = 200, rp_body = EmptyBody\<rparr>)
              | Inl _ \<Rightarrow> fail_with NoResponse STATUS_ENDPOINT_TAG)
           in (request @ effs @ fst answer, Returned (snd answer))))"

definition handle_register_validator ::
  "weblib \<Rightarrow> u64 \<Rightarrow> (nat \<Rightarrow> retry_env) \<Rightarrow> nat list \<Rightarrow> (nat \<Rightarrow> bool) \<Rightarrow> 'd pbs_state \<Rightarrow> header_map
     \<Rightarrow> validator_registration list \<Rightarrow> reply outcome run option" where
  "handle_register_validator W now_ms env order joined state req_headers registrations =
     map_option (\<lambda>(effs, out).
       let request = publish_event state (RegisterValidatorRequest registrations) in
       case out of
         Panicked \<Rightarrow> (request @ effs, Panicked)
       | Returned res \<Rightarrow>
           (let answer =
              (case res of
                 Inl _ \<Rightarrow>
                   (publish_event state RegisterValidatorResponse @
                      fst (fail_with NoResponse REGISTER_VALIDATOR_ENDPOINT_TAG),
                    snd (fail_with NoResponse REGISTER_VALIDATOR_ENDPOINT_TAG))
               | Inr _ \<Rightarrow>
                   ([BEACON_NODE_STATUS ''200'' REGISTER_VALIDATOR_ENDPOINT_TAG],
                    \<lparr>rp_status = 200, rp_body = EmptyBody\<rparr>))
            in (request @ effs @ fst answer, Returned (snd answer))))
       (register_validator W now_ms env order joined registrations req_headers state)"

definition handle_submit_block_impl ::
  "weblib \<Rightarrow> u64 \<Rightarrow> (nat \<Rightarrow> retry_env) \<Rightarrow> nat list \<Rightarrow> 'd pbs_state \<Rightarrow> header_map
     \<Rightarrow> signed_blinded_beacon_block \<Rightarrow> builder_api_version \<Rightarrow> reply outcome run" where
  "handle_submit_block_impl W now_ms env order state req_headers block api_version =
     (let (effs, out) = submit_block W now_ms env order block req_headers state api_version;
          request = publish_event state (SubmitBlockRequest block api_version)
      in
      case out of
        Panicked \<Rightarrow> (request @ effs, Panicked)
      | Returned res \<Rightarrow>
          (let answer =
             (case res of
                Inr (Some block_response) \<Rightarrow>
                  (publish_event state (SubmitBlockResponseV1 block_response) @
                     [BEACON_NODE_STATUS ''200'' SUBMIT_BLINDED_BLOCK_ENDPOINT_TAG],
                   \<lparr>rp_status = 200, rp_body = PayloadBody block_response\<rparr>)
              | Inr None \<Rightarrow>
                  (publish_event state SubmitBlockResponseV2 @
                     [BEACON_NODE_STATUS ''202'' SUBMIT_BLINDED_BLOCK_ENDPOINT_TAG],
                   \<lparr>rp_status = 202, rp_body = EmptyBody\<rparr>)
              | Inl _ \<Rightarrow>
                  (publish_event state (MissedPayload (sbb_block_hash block)) @
                     fst (fail_with NoPayload SUBMIT_BLINDED_BLOCK_ENDPOINT_TAG),
                   snd (fail_with NoPayload SUBMIT_BLINDED_BLOCK_ENDPOINT_TAG)))
           in (request @ effs @ fst answer, Returned (snd answer))))"

definition handle_submit_block_v1 ::
  "weblib \<Rightarrow> u64 \<Rightarrow> (nat \<Rightarrow> retry_env) \<Rightarrow> nat list \<Rightarrow> 'd pbs_state \<Rightarrow> header_map
     \<Rightarrow> signed_blinded_beacon_block \<Rightarrow> reply outcome run" where
  "handle_submit_block_v1 W now_ms env order state req_headers block =
     handle_submit_block_impl W now_ms env order state req_headers block V1"

definition handle_submit_block_v2 ::
  "weblib \<Rightarrow> u64 \<Rightarrow> (nat \<Rightarrow> retry_env) \<Rightarrow> nat list \<Rightarrow> 'd pbs_state \<Rightarrow> header_map
     \<Rightarrow> signed_blinded_beacon_block \<Rightarrow> reply outcome run" where
  "handle_submit_block_v2 W now_ms env order state req_headers block =
     handle_submit_block_impl W now_ms env order state req_headers block V2"

section \<open>Reload\<close>

text \<open>
  \<open>loaded\<close> and \<open>signer_valid\<close> are what \<open>load_pbs_config\<close> reads; the two warnings about a changed host
  or port are log lines.
\<close>

definition reload ::
  "weblib \<Rightarrow> config_env \<Rightarrow> (string, commit_boost_config) result \<Rightarrow> (string, unit) result
     \<Rightarrow> 'd pbs_state \<Rightarrow> (string, 'd pbs_state) result option" where
  "reload W E loaded signer_valid state =
     map_option (\<lambda>cfg. and_then cfg (\<lambda>pbs_config.
         Ok (with_data (pbs_state_new pbs_config) (st_data state))))
       (load_pbs_config W E loaded signer_valid)"

text \<open>The handler on the snapshot \<open>prev_state\<close>; the state to write back, if any, comes last.\<close>

definition handle_reload ::
  "weblib \<Rightarrow> config_env \<Rightarrow> (string, commit_boost_config) result \<Rightarrow> (string, unit) result
     \<Rightarrow> 'd pbs_state \<Rightarrow> (effect list \<times> reply \<times> 'd pbs_state option) option" where
  "handle_reload W E loaded signer_valid prev_state =
     map_option (\<lambda>res.
       case res of
         Inr new_state \<Rightarrow>
           (publish_event prev_state ReloadEvent @ publish_event prev_state ReloadResponse @
              [BEACON_NODE_STATUS ''200'' RELOAD_ENDPOINT_TAG],
            \<lparr>rp_status = 200, rp_body = TextBody ''OK''\<rparr>, Some new_state)
       | Inl err \<Rightarrow>
           (publish_event prev_state ReloadEvent @ fst (fail_with Internal RELOAD_ENDPOINT_TAG),
            snd (fail_with Internal RELOAD_ENDPOINT_TAG), None))
       (reload W E loaded signer_valid prev_state)"

section \<open>Route table\<close>

text \<open>The handlers of the module and, by their names, those of the extra routes of an extension.\<close>

datatype handler =
    HandleGetHeader | HandleGetStatus | HandleRegisterValidator
  | HandleSubmitBlockV1 | HandleSubmitBlockV2 | HandleReload | HandleExtra string

definition GET_HEADER_PATH :: string where
  "GET_HEADER_PATH = ''/header/{slot}/{parent_hash}/{pubkey}''"

definition RELOAD_PATH :: string where
  "RELOAD_PATH = ''/reload''"

text \<open>\<open>DefaultBodyLimit\<close> of axum, for the routes that do not set one.\<close>

definition DEFAULT_BODY_LIMIT :: nat where
  "DEFAULT_BODY_LIMIT = 2 * 1024 * 1024"

record route =
  rt_method :: http_method
  rt_path :: string
  rt_handler :: handler
  rt_body_limit :: nat

definition v1_builder_routes :: "route list" where
  "v1_builder_routes =
     [\<lparr>rt_method = GET, rt_path = GET_HEADER_PATH, rt_handler = HandleGetHeader,
       rt_body_limit = DEFAULT_BODY_LIMIT\<rparr>,
      \<lparr>rt_method = GET, rt_path = GET_STATUS_PATH, rt_handler = HandleGetStatus,
       rt_body_limit = DEFAULT_BODY_LIMIT\<rparr>,
      \<lparr>rt_method = POST, rt_path = REGISTER_VALIDATOR_PATH, rt_handler = HandleRegisterValidator,
       rt_body_limit = MAX_SIZE_REGISTER_VALIDATOR_REQUEST\<rparr>,
      \<lparr>rt_method = POST, rt_path = SUBMIT_BLOCK_PATH, rt_handler = HandleSubmitBlockV1,
       rt_body_limit = MAX_SIZE_SUBMIT_BLOCK_RESPONSE\<rparr>]"

definition v2_builder_routes :: "route list" where
  "v2_builder_routes =
     [\<lparr>rt_method = POST, rt_path = SUBMIT_BLOCK_PATH, rt_handler = HandleSubmitBlockV2,
       rt_body_limit = MAX_SIZE_SUBMIT_BLOCK_RESPONSE\<rparr>]"

definition nest :: "string \<Rightarrow> route list \<Rightarrow> route list" where
  "nest prefix = map (\<lambda>r. r\<lparr>rt_path := prefix @ rt_path r\<rparr>)"

definition create_app_router :: "route list option \<Rightarrow> route list" where
  "create_app_router extra_routes =
     (let builder_api =
        nest BUILDER_V1_API_PATH v1_builder_routes @ nest BUILDER_V2_API_PATH v2_builder_routes @
        [\<lparr>rt_method = POST, rt_path = RELOAD_PATH, rt_handler = HandleReload,
          rt_body_limit = DEFAULT_BODY_LIMIT\<rparr>]
      in case extra_routes of Some rs \<Rightarrow> builder_api @ rs | None \<Rightarrow> builder_api)"

section \<open>The service as a transition system\<close>

text \<open>
  \<open>PbsStateGuard\<close> holds the current state. Every handler begins by cloning it, so that a request in
  flight keeps the snapshot it started with, while the write of a successful reload replaces the
  state for later requests. The configuration files and the environment may be different at every
  reload.
\<close>

record 'd service =
  sv_state :: "'d pbs_state"
  sv_inflight :: "(handler \<times> 'd pbs_state) list"

inductive service_step :: "weblib \<Rightarrow> 'd service \<Rightarrow> 'd service \<Rightarrow> bool" for W where
  arrive: "service_step W s (s\<lparr>sv_inflight := (h, sv_state s) # sv_inflight s\<rparr>)"
| respond: "(h, snap) \<in> set (sv_inflight s) \<Longrightarrow> h \<noteq> HandleReload \<Longrightarrow>
    service_step W s (s\<lparr>sv_inflight := remove1 (h, snap) (sv_inflight s)\<rparr>)"
| reloaded: "(HandleReload, snap) \<in> set (sv_inflight s) \<Longrightarrow>
    handle_reload W E loaded signer_valid snap = Some (effs, answer, Some new_state) \<Longrightarrow>
    service_step W s
      (s\<lparr>sv_state := new_state, sv_inflight := remove1 (HandleReload, snap) (sv_inflight s)\<rparr>)"
| reload_failed: "(HandleReload, snap) \<in> set (sv_inflight s) \<Longrightarrow>
    handle_reload W E loaded signer_valid snap = Some (effs, answer, None) \<Longrightarrow>
    service_step W s (s\<lparr>sv_inflight := remove1 (HandleReload, snap) (sv_inflight s)\<rparr>)"

text \<open>A service starts on a configuration that \<open>load_pbs_config\<close> accepted, with the data of its user.\<close>

inductive service_reachable :: "weblib \<Rightarrow> 'd \<Rightarrow> 'd service \<Rightarrow> bool" for W d where
  start: "load_pbs_config W E loaded signer_valid = Some (Ok config) \<Longrightarrow>
    service_reachable W d \<lparr>sv_state = with_data (pbs_state_new config) d, sv_inflight = []\<rparr>"
| step: "service_reachable W d s \<Longrightarrow> service_step W s s' \<Longrightarrow> service_reachable W d s'"

section \<open>Properties\<close>

subsection \<open>Well-formed states\<close>

definition mux_wf :: "runtime_mux_config \<Rightarrow> bool" where
  "mux_wf rm \<longleftrightarrow> rm_relays rm \<noteq> [] \<and> pbs_config_ok (rm_config rm)"

definition pbs_module_wf :: "pbs_module_config \<Rightarrow> bool" where
  "pbs_module_wf pm \<longleftrightarrow>
     pbs_config_ok (pm_pbs_config pm) \<and> pm_relays pm \<noteq> [] \<and>
     distinct (map relay_url (pm_all_relays pm)) \<and>
     relay_url ` set (pm_all_relays pm) =
       relay_url ` (set (pm_relays pm) \<union> set (mux_relay_list (pm_muxes pm))) \<and>
     (\<forall>k rm. (case pm_muxes pm of None \<Rightarrow> None | Some ms \<Rightarrow> map_of ms k) = Some rm \<longrightarrow> mux_wf rm)"

lemma all_relays_props:
  "distinct (map relay_url (assemble_all_relays muxes rs)) \<and>
   relay_url ` set (assemble_all_relays muxes rs) = relay_url ` (set rs \<union> set (mux_relay_list muxes))"
proof -
  let ?m = "all_relays_map muxes rs"
  have entries: "\<forall>(u, r)\<in>set ?m. relay_url r = u"
    unfolding all_relays_map_eq by (rule entries_foldl_insert_relay) simp
  then have urls: "map relay_url (map snd ?m) = map fst ?m" by force
  have "distinct (map fst ?m)"
    unfolding all_relays_map_eq by (rule distinct_foldl_insert_relay) simp
  moreover have "fst ` set ?m = relay_url ` set (mux_relay_list muxes @ rs)"
    unfolding all_relays_map_eq keys_foldl_insert_relay by simp
  moreover have "relay_url ` set (map snd ?m) = fst ` set ?m"
    using arg_cong [OF urls, of set] by (simp only: list.set_map)
  ultimately show ?thesis
    unfolding assemble_all_relays_def urls by (simp add: Un_commute)
qed

lemma relay_clients_nonempty:
  "collect_results (map (relay_client_new W) rcs) = Ok rs \<Longrightarrow> rcs \<noteq> [] \<Longrightarrow> rs \<noteq> []"
  by (auto simp: collect_results_Ok_iff)

lemma mux_runtime_wf:
  assumes "mux_runtime W E chain d mux = Ok rm" and "mc_relays mux \<noteq> []"
  shows "mux_wf rm"
  using assms
  by (auto simp: mux_runtime_def mux_wf_def and_then_Ok_iff Let_def
      dest: pbs_config_validate_ok relay_clients_nonempty)

lemma validate_and_fill_wf:
  assumes "validate_and_fill W E muxes chain d = Some (Ok ms)" and "map_of ms k = Some rm"
  shows "mux_wf rm"
proof -
  from assms(1) obtain filled where filled: "fill_mux_keys E chain d muxes = Some (Ok filled)"
    and uniq: "check_unique [] (concat (map mc_validator_pubkeys filled)) = Ok ()"
    and fill: "fill_configs W E chain d [] filled = Ok ms"
    by (auto simp: validate_and_fill_def and_then_Ok_iff split: option.splits)
  have "distinct (concat (map mc_validator_pubkeys filled))"
    using uniq by (simp add: check_unique_Ok_iff)
  from fill_configs_lookup [OF fill this] assms(2) obtain mux
    where "mux \<in> set filled" "mux_runtime W E chain d mux = Ok rm" by auto
  with fill_mux_keys_nonempty [OF filled] mux_runtime_wf show ?thesis by blast
qed

lemma load_pbs_config_wf:
  assumes "load_pbs_config W E loaded signer_valid = Some (Ok pm)"
  shows "pbs_module_wf pm"
proof -
  from assms obtain config endpoint muxes rs pub where
    valid: "pbs_config_validate E (cb_pbs_config config) (cb_chain config) = Ok ()"
      "cb_relays config \<noteq> []"
    and muxes: "load_muxes W E config = Some (Ok muxes)"
    and rs: "collect_results (map (relay_client_new W) (cb_relays config)) = Ok rs"
    and pm: "pm = \<lparr>pm_chain = cb_chain config, pm_endpoint = endpoint,
      pm_pbs_config = cb_pbs_config config, pm_relays = rs, pm_all_relays = assemble_all_relays muxes rs,
      pm_signer_client = None, pm_event_publisher = pub, pm_muxes = muxes\<rparr>"
    by (auto simp: load_pbs_config_def and_then_Ok_iff split: sum.splits prod.splits option.splits)
  have "mux_wf rm" if "(case muxes of None \<Rightarrow> None | Some ms \<Rightarrow> map_of ms k) = Some rm" for k rm
    using that muxes validate_and_fill_wf [of W E _ "cb_chain config" "cb_pbs_config config" _ k rm]
    by (auto simp: load_muxes_def and_then_Ok_iff split: option.splits)
  then show ?thesis
    using valid rs relay_clients_nonempty [OF rs] all_relays_props [of muxes rs]
    by (auto simp: pbs_module_wf_def pm dest: pbs_config_validate_ok)
qed

lemma reload_Ok:
  assumes "reload W E loaded sv state = Some (Ok new)"
  shows "pbs_module_wf (st_config new) \<and> st_data new = st_data state"
  using assms load_pbs_config_wf
  by (auto simp: reload_def and_then_Ok_iff with_data_def pbs_state_new_def)

lemma handle_reload_new:
  assumes "handle_reload W E loaded sv snap = Some (effs, answer, Some new)"
  shows "pbs_module_wf (st_config new) \<and> st_data new = st_data snap \<and> rp_status answer = 200"
proof -
  from assms obtain res where res: "reload W E loaded sv snap = Some res"
    by (auto simp: handle_reload_def)
  with assms have "res = Ok new \<and> rp_status answer = 200"
    by (cases res) (auto simp: handle_reload_def)
  with res reload_Ok show ?thesis by blast
qed

text \<open>Invariant of the service: the current state and every snapshot in flight are well formed.\<close>

definition service_inv :: "'d \<Rightarrow> 'd service \<Rightarrow> bool" where
  "service_inv d s \<longleftrightarrow>
     (\<forall>st\<in>insert (sv_state s) (snd ` set (sv_inflight s)). pbs_module_wf (st_config st) \<and> st_data st = d)"

lemma service_inv_step:
  assumes "service_inv d s" and "service_step W s s'"
  shows "service_inv d s'"
  using assms(2)
proof (cases rule: service_step.cases)
  case (reloaded snap E loaded sv effs answer new)
  have "st_data snap = d" using assms(1) reloaded(2) by (force simp: service_inv_def)
  with handle_reload_new [OF reloaded(3)] have "pbs_module_wf (st_config new) \<and> st_data new = d" by simp
  with assms(1) show ?thesis
    unfolding reloaded(1) service_inv_def by (auto dest!: set_remove1_subset [THEN subsetD])
qed (use assms(1) in \<open>auto simp: service_inv_def dest!: set_remove1_subset [THEN subsetD]\<close>)

lemma service_inv_reachable: "service_reachable W d s \<Longrightarrow> service_inv d s"
proof (induction rule: service_reachable.induct)
  case (start E loaded sv config)
  then show ?case by (simp add: service_inv_def with_data_def pbs_state_new_def load_pbs_config_wf)
next
  case (step s s')
  then show ?case by (blast intro: service_inv_step)
qed

end
