(* ===== verification/Signer_Config.thy ===== *)
theory Signer_Config
  imports Config
begin

text \<open>
  Configuration of the signer module: \<open>crates/common/src/config/signer.rs\<close>, the static module
  configuration of \<open>crates/common/src/config/module.rs\<close> and the assembly of \<open>CommitBoostConfig\<close> from
  the environment in \<open>crates/common/src/config/mod.rs\<close> as far as the signer reads it. The central
  operation is \<open>load_module_signing_configs\<close>, which couples every module with its JWT secret and
  rejects duplicates.
\<close>

section \<open>Configuration values\<close>

datatype module_kind = Commit | Events

record static_module_config =
  sm_id :: module_id
  sm_docker_image :: string
  sm_env :: "(string \<times> string) list option"
  sm_env_file :: "string option"
  sm_kind :: module_kind
  sm_signing_id :: b256

datatype validator_keys_format = Lighthouse | Teku | Lodestar | Prysm | Nimbus

datatype signer_loader =
    KeysFile string
  | ValidatorsDir string string validator_keys_format

datatype proxy_store =
    StoreFile string
  | StoreERC2335 string string

record dirk_host_config =
  dh_server_name :: "string option"
  dh_url :: string
  dh_wallets :: "string list"

datatype signer_type =
    SignerLocal signer_loader "proxy_store option"
  | SignerRemote string
  | SignerDirk "dirk_host_config list" string string string "string option" "proxy_store option"

record signer_config =
  sg_host :: b32
  sg_port :: u16
  sg_docker_image :: string
  sg_jwt_auth_fail_limit :: u32
  sg_jwt_auth_fail_timeout_seconds :: u32
  sg_inner :: signer_type

definition SIGNER_PORT_DEFAULT :: u16 where
  "SIGNER_PORT_DEFAULT = 20000"

definition SIGNER_JWT_AUTH_FAIL_LIMIT_DEFAULT :: u32 where
  "SIGNER_JWT_AUTH_FAIL_LIMIT_DEFAULT = 3"

definition SIGNER_JWT_AUTH_FAIL_TIMEOUT_SECONDS_DEFAULT :: u32 where
  "SIGNER_JWT_AUTH_FAIL_TIMEOUT_SECONDS_DEFAULT = 5 * 60"

definition SIGNER_ENDPOINT_ENV :: string where
  "SIGNER_ENDPOINT_ENV = ''CB_SIGNER_ENDPOINT''"

definition SIGNER_JWT_AUTH_FAIL_LIMIT_ENV :: string where
  "SIGNER_JWT_AUTH_FAIL_LIMIT_ENV = ''CB_SIGNER_JWT_AUTH_FAIL_LIMIT''"

definition SIGNER_JWT_AUTH_FAIL_TIMEOUT_SECONDS_ENV :: string where
  "SIGNER_JWT_AUTH_FAIL_TIMEOUT_SECONDS_ENV = ''CB_SIGNER_JWT_AUTH_FAIL_TIMEOUT_SECONDS''"

definition DIRK_CERT_ENV :: string where
  "DIRK_CERT_ENV = ''CB_SIGNER_DIRK_CERT_FILE''"

definition DIRK_KEY_ENV :: string where
  "DIRK_KEY_ENV = ''CB_SIGNER_DIRK_KEY_FILE''"

definition DIRK_CA_CERT_ENV :: string where
  "DIRK_CA_CERT_ENV = ''CB_SIGNER_DIRK_CA_CERT_FILE''"

definition DIRK_DIR_SECRETS_ENV :: string where
  "DIRK_DIR_SECRETS_ENV = ''CB_SIGNER_DIRK_SECRETS_DIR''"

text \<open>\<open>SignerConfig::validate\<close>; \<open>docker_parses\<close> is \<open>DockerImage::parse\<close> succeeding.\<close>

definition signer_config_validate :: "(string \<Rightarrow> bool) \<Rightarrow> signer_config \<Rightarrow> (string, unit) result" where
  "signer_config_validate docker_parses c =
     and_then (ensure (0 < sg_port c) ''Port must be positive'') (\<lambda>_.
     and_then (ensure (sg_docker_image c \<noteq> []) ''Docker image is empty'') (\<lambda>_.
       ensure (docker_parses (sg_docker_image c)) ''Invalid Docker image''))"

section \<open>Module signing configurations\<close>

record module_signing_config =
  ms_module_name :: module_id
  ms_jwt_secret :: string
  ms_signing_id :: b256

definition module_signing_config_validate :: "module_signing_config \<Rightarrow> (string, unit) result" where
  "module_signing_config_validate c =
     (if ms_jwt_secret c = [] then Err ''JWT secret cannot be empty''
      else if ms_signing_id c = 0 then Err ''Signing ID cannot be zero''
      else Ok ())"

text \<open>
  The loop of \<open>load_module_signing_configs\<close> over the modules still to come, with the map built so
  far and the maps of the secrets and signing ids seen. \<open>HashMap::insert\<close> returns the previous
  value, which makes the loop fail.
\<close>

fun signing_configs_loop ::
  "(module_id \<times> string) list \<Rightarrow> (module_id \<times> module_signing_config) list
     \<Rightarrow> (string \<times> module_id) list \<Rightarrow> (b256 \<times> module_id) list \<Rightarrow> static_module_config list
     \<Rightarrow> (string, (module_id \<times> module_signing_config) list) result" where
  "signing_configs_loop jwt_secrets configs seen_jwt_secrets seen_signing_ids [] = Ok configs"
| "signing_configs_loop jwt_secrets configs seen_jwt_secrets seen_signing_ids (module # modules) =
     and_then (ensure (sm_id module \<noteq> []) ''Module ID cannot be empty'') (\<lambda>_.
     and_then (ensure (map_of configs (sm_id module) = None)
                 ''Duplicate module config detected'') (\<lambda>_.
     case map_of jwt_secrets (sm_id module) of
       None \<Rightarrow> Err ''JWT secret for module is missing''
     | Some jwt_secret \<Rightarrow>
         (let config = \<lparr>ms_module_name = sm_id module, ms_jwt_secret = jwt_secret,
                        ms_signing_id = sm_signing_id module\<rparr>
          in
          and_then (module_signing_config_validate config) (\<lambda>_.
          if map_of seen_jwt_secrets jwt_secret \<noteq> None then Err ''Duplicate JWT secret detected''
          else if map_of seen_signing_ids (sm_signing_id module) \<noteq> None
          then Err ''Duplicate signing ID detected''
          else signing_configs_loop jwt_secrets
                 (AList.update (sm_id module) config configs)
                 (AList.update jwt_secret (sm_id module) seen_jwt_secrets)
                 (AList.update (sm_signing_id module) (sm_id module) seen_signing_ids)
                 modules))))"

definition load_module_signing_configs ::
  "static_module_config list option \<Rightarrow> (module_id \<times> string) list
     \<Rightarrow> (string, (module_id \<times> module_signing_config) list) result" where
  "load_module_signing_configs maybe_modules jwt_secrets =
     (case maybe_modules of
        None \<Rightarrow> Err ''No modules defined in the config''
      | Some modules \<Rightarrow> signing_configs_loop jwt_secrets [] [] [] modules)"

section \<open>\<open>StartSignerConfig::load_from_env\<close>\<close>

text \<open>\<open>str::parse\<close> into a \<open>u32\<close>: decimal digits after an optional plus sign, without overflow.\<close>

definition is_digit :: "char \<Rightarrow> bool" where
  "is_digit c \<longleftrightarrow> (let n = (of_char c :: nat) in 48 \<le> n \<and> n \<le> 57)"

definition digits_value :: "string \<Rightarrow> nat" where
  "digits_value = foldl (\<lambda>acc c. acc * 10 + (of_char c - 48)) 0"

definition parse_u32 :: "string \<Rightarrow> (string, u32) result" where
  "parse_u32 s =
     (let ds = (case s of c # cs \<Rightarrow> if c = CHR ''+'' then cs else s | [] \<Rightarrow> []) in
      if ds \<noteq> [] \<and> list_all is_digit ds \<and> digits_value ds < 2 ^ 32
      then Ok (word_of_nat (digits_value ds)) else Err ''invalid digit found in string'')"

text \<open>Certificates enter as the PEM text read from their files.\<close>

record dirk_config =
  dk_hosts :: "dirk_host_config list"
  dk_client_cert :: "string \<times> string"
  dk_secrets_path :: string
  dk_cert_auth :: "string option"

record start_signer_config =
  ss_chain :: chain
  ss_loader :: "signer_loader option"
  ss_store :: "proxy_store option"
  ss_endpoint :: socket_addr
  ss_mod_signing_configs :: "(module_id \<times> module_signing_config) list"
  ss_admin_secret :: string
  ss_jwt_auth_fail_limit :: u32
  ss_jwt_auth_fail_timeout_seconds :: u32
  ss_dirk :: "dirk_config option"

text \<open>The part of \<open>CommitBoostConfig\<close> that the signer reads.\<close>

record signer_file_config =
  sf_chain :: chain
  sf_modules :: "static_module_config list option"
  sf_signer :: "signer_config option"

definition load_signer_endpoint :: "config_env \<Rightarrow> signer_config \<Rightarrow> (string, socket_addr) result" where
  "load_signer_endpoint E c =
     (case load_optional_env_var E SIGNER_ENDPOINT_ENV of
        Some endpoint \<Rightarrow>
          (case ce_parse_addr E endpoint of Some a \<Rightarrow> Ok a | None \<Rightarrow> Err ''invalid socket address'')
      | None \<Rightarrow> Ok (SocketAddr (sg_host c) (sg_port c)))"

definition load_u32_override :: "config_env \<Rightarrow> string \<Rightarrow> u32 \<Rightarrow> (string, u32) result" where
  "load_u32_override E var default_value =
     (case load_optional_env_var E var of Some s \<Rightarrow> parse_u32 s | None \<Rightarrow> Ok default_value)"

definition path_override :: "config_env \<Rightarrow> string \<Rightarrow> string \<Rightarrow> string" where
  "path_override E var path = (case load_env_var E var of Inr p \<Rightarrow> p | Inl _ \<Rightarrow> path)"

definition read_to_string :: "config_env \<Rightarrow> string \<Rightarrow> (string, string) result" where
  "read_to_string E path = (case ce_read_file E path of Some s \<Rightarrow> Ok s | None \<Rightarrow> Err ''unable to read file'')"

definition load_dirk_config ::
  "config_env \<Rightarrow> dirk_host_config list \<Rightarrow> string \<Rightarrow> string \<Rightarrow> string \<Rightarrow> string option
     \<Rightarrow> (string, dirk_config) result" where
  "load_dirk_config E hosts cert_path key_path secrets_path ca_cert_path =
     and_then (read_to_string E (path_override E DIRK_CERT_ENV cert_path)) (\<lambda>cert.
     and_then (read_to_string E (path_override E DIRK_KEY_ENV key_path)) (\<lambda>key.
     and_then (case (case load_env_var E DIRK_CA_CERT_ENV of Inr p \<Rightarrow> Some p | Inl _ \<Rightarrow> ca_cert_path) of
                 Some path \<Rightarrow> and_then (read_to_string E path) (\<lambda>ca. Ok (Some ca))
               | None \<Rightarrow> Ok None) (\<lambda>cert_auth.
       Ok \<lparr>dk_hosts = hosts, dk_client_cert = (cert, key),
           dk_secrets_path = path_override E DIRK_DIR_SECRETS_ENV secrets_path,
           dk_cert_auth = cert_auth\<rparr>)))"

definition load_from_env ::
  "config_env \<Rightarrow> (string, signer_file_config) result \<Rightarrow> (string, start_signer_config) result" where
  "load_from_env E loaded =
     and_then loaded (\<lambda>config.
     and_then (load_jwt_secrets E) (\<lambda>(admin_secret, jwt_secrets).
     and_then (load_module_signing_configs (sf_modules config) jwt_secrets) (\<lambda>mod_signing_configs.
     and_then (case sf_signer config of None \<Rightarrow> Err ''Signer config is missing'' | Some c \<Rightarrow> Ok c) (\<lambda>c.
     and_then (load_signer_endpoint E c) (\<lambda>endpoint.
     and_then (load_u32_override E SIGNER_JWT_AUTH_FAIL_LIMIT_ENV (sg_jwt_auth_fail_limit c)) (\<lambda>limit.
     and_then (load_u32_override E SIGNER_JWT_AUTH_FAIL_TIMEOUT_SECONDS_ENV
                 (sg_jwt_auth_fail_timeout_seconds c)) (\<lambda>timeout.
       let start = \<lparr>ss_chain = sf_chain config, ss_loader = None, ss_store = None,
                    ss_endpoint = endpoint, ss_mod_signing_configs = mod_signing_configs,
                    ss_admin_secret = admin_secret, ss_jwt_auth_fail_limit = limit,
                    ss_jwt_auth_fail_timeout_seconds = timeout, ss_dirk = None\<rparr>
       in
       case sg_inner c of
         SignerLocal loader store \<Rightarrow> Ok (start\<lparr>ss_loader := Some loader, ss_store := store\<rparr>)
       | SignerDirk hosts cert_path key_path secrets_path ca_cert_path store \<Rightarrow>
           (case store of
              Some (StoreERC2335 _ _) \<Rightarrow> Err ''ERC2335 store is not supported with Dirk signer''
            | _ \<Rightarrow>
                and_then (load_dirk_config E hosts cert_path key_path secrets_path ca_cert_path)
                  (\<lambda>dirk. Ok (start\<lparr>ss_store := store, ss_dirk := Some dirk\<rparr>)))
       | SignerRemote _ \<Rightarrow> Err ''Remote signer configured'')))))))"

section \<open>Properties\<close>

lemma update_fresh: "k \<notin> fst ` set al \<Longrightarrow> AList.update k v al = al @ [(k, v)]"
  by (induction al) auto

text \<open>What the loop has stored for a module.\<close>

definition signing_entry ::
  "(module_id \<times> string) list \<Rightarrow> static_module_config \<Rightarrow> module_id \<times> module_signing_config" where
  "signing_entry jwt_secrets m =
     (sm_id m, \<lparr>ms_module_name = sm_id m, ms_jwt_secret = the (map_of jwt_secrets (sm_id m)),
                ms_signing_id = sm_signing_id m\<rparr>)"

text \<open>Which module lists are accepted.\<close>

definition modules_ok :: "(module_id \<times> string) list \<Rightarrow> static_module_config list \<Rightarrow> bool" where
  "modules_ok jwt_secrets modules \<longleftrightarrow>
     (\<forall>m\<in>set modules. sm_id m \<noteq> [] \<and> sm_signing_id m \<noteq> 0 \<and>
        (\<exists>s. map_of jwt_secrets (sm_id m) = Some s \<and> s \<noteq> [])) \<and>
     distinct (map sm_id modules) \<and>
     distinct (map (\<lambda>m. the (map_of jwt_secrets (sm_id m))) modules) \<and>
     distinct (map sm_signing_id modules)"

lemma signing_configs_loop_Ok_iff:
  "signing_configs_loop secrets configs seen_s seen_i modules = Ok out \<longleftrightarrow>
     modules_ok secrets modules \<and>
     sm_id ` set modules \<inter> fst ` set configs = {} \<and>
     (\<lambda>m. the (map_of secrets (sm_id m))) ` set modules \<inter> fst ` set seen_s = {} \<and>
     sm_signing_id ` set modules \<inter> fst ` set seen_i = {} \<and>
     out = configs @ map (signing_entry secrets) modules"
proof (induction modules arbitrary: configs seen_s seen_i)
  case Nil
  then show ?case by (auto simp: modules_ok_def)
next
  case (Cons m modules)
  show ?case
  proof (cases "sm_id m \<noteq> [] \<and> sm_id m \<notin> fst ` set configs \<and>
      (\<exists>s. map_of secrets (sm_id m) = Some s \<and> s \<noteq> [] \<and> s \<notin> fst ` set seen_s) \<and>
      sm_signing_id m \<noteq> 0 \<and> sm_signing_id m \<notin> fst ` set seen_i")
    case True
    then obtain s where s: "map_of secrets (sm_id m) = Some s" "s \<noteq> []" "s \<notin> fst ` set seen_s" by blast
    with True have "signing_configs_loop secrets configs seen_s seen_i (m # modules) =
        signing_configs_loop secrets (configs @ [signing_entry secrets m]) (seen_s @ [(s, sm_id m)])
          (seen_i @ [(sm_signing_id m, sm_id m)]) modules"
      by (simp add: Let_def module_signing_config_validate_def map_of_eq_None_iff update_fresh
          signing_entry_def ensure_def)
    with s True show ?thesis
      by (simp only: Cons.IH) (auto simp: modules_ok_def signing_entry_def)
  next
    case False
    then have "\<not> (\<exists>out. signing_configs_loop secrets configs seen_s seen_i (m # modules) = Ok out)"
      by (auto simp: Let_def module_signing_config_validate_def map_of_eq_None_iff and_then_Ok_iff
          split: option.splits if_splits)
    moreover have "\<not> (modules_ok secrets (m # modules) \<and>
      sm_id ` set (m # modules) \<inter> fst ` set configs = {} \<and>
      (\<lambda>m. the (map_of secrets (sm_id m))) ` set (m # modules) \<inter> fst ` set seen_s = {} \<and>
      sm_signing_id ` set (m # modules) \<inter> fst ` set seen_i = {})"
      using False by (auto simp: modules_ok_def)
    ultimately show ?thesis by blast
  qed
qed

lemma load_module_signing_configs_Ok_iff:
  "load_module_signing_configs maybe_modules secrets = Ok configs \<longleftrightarrow>
     (\<exists>modules. maybe_modules = Some modules \<and> modules_ok secrets modules \<and>
        configs = map (signing_entry secrets) modules)"
  by (auto simp: load_module_signing_configs_def signing_configs_loop_Ok_iff split: option.splits)

end
