(* ===== verification/Commit.thy ===== *)
theory Commit
  imports Signer_Config
begin

text \<open>
  The commitment API: \<open>crates/common/src/commit/request.rs\<close> (delegations, requests, responses), the
  signers of \<open>crates/common/src/signer/types.rs\<close>, and the JSON web tokens of
  \<open>crates/common/src/utils.rs\<close>. The \<open>jsonwebtoken\<close> crate is the record \<open>jwtlib\<close>.
\<close>

text \<open>The big-endian bytes of a fixed-size value.\<close>

definition fixed_bytes :: "nat \<Rightarrow> 'a::len word \<Rightarrow> bytes" where
  "fixed_bytes k w = map (\<lambda>i. ucast (drop_bit (8 * (k - 1 - i)) w)) [0..<k]"

section \<open>Delegations\<close>

record 'p proxy_delegation =
  pd_delegator :: bls_public_key
  pd_proxy :: 'p

record 'p signed_proxy_delegation =
  sd_message :: "'p proxy_delegation"
  sd_signature :: bls_signature

type_synonym signed_proxy_delegation_bls = "bls_public_key signed_proxy_delegation"
type_synonym signed_proxy_delegation_ecdsa = "address signed_proxy_delegation"

text \<open>The tree hash roots of the two kinds of message.\<close>

definition delegation_root_bls :: "crypto \<Rightarrow> bls_public_key proxy_delegation \<Rightarrow> b256" where
  "delegation_root_bls C d = th_delegation_bls C (pd_delegator d) (pd_proxy d)"

definition delegation_root_ecdsa :: "crypto \<Rightarrow> address proxy_delegation \<Rightarrow> b256" where
  "delegation_root_ecdsa C d = th_delegation_ecdsa C (pd_delegator d) (pd_proxy d)"

text \<open>\<open>SignedProxyDelegation::validate\<close>, for either kind of proxy by its root function.\<close>

definition delegation_validate ::
  "crypto \<Rightarrow> ('p proxy_delegation \<Rightarrow> b256) \<Rightarrow> 'p signed_proxy_delegation \<Rightarrow> chain
     \<Rightarrow> (blst_error_wrapper, unit) result" where
  "delegation_validate C root d chain =
     verify_signed_message C chain (pd_delegator (sd_message d)) (root (sd_message d))
       (sd_signature d) None COMMIT_BOOST_DOMAIN"

section \<open>Requests and responses\<close>

record sign_consensus_request =
  scr_pubkey :: bls_public_key
  scr_object_root :: b256

record 'p sign_proxy_request =
  spr_proxy :: 'p
  spr_object_root :: b256

datatype sign_request =
    SignConsensus sign_consensus_request
  | SignProxyBls "bls_public_key sign_proxy_request"
  | SignProxyEcdsa "address sign_proxy_request"

datatype encryption_scheme = Bls | Ecdsa

fun display_scheme :: "encryption_scheme \<Rightarrow> string" where
  "display_scheme Bls = ''bls''"
| "display_scheme Ecdsa = ''ecdsa''"

definition scheme_from_str :: "string \<Rightarrow> (string, encryption_scheme) result" where
  "scheme_from_str s =
     (if s = ''bls'' then Ok Bls
      else if s = ''ecdsa'' then Ok Ecdsa
      else Err (''Unknown scheme: '' @ s))"

record generate_proxy_request =
  gpr_consensus_pubkey :: bls_public_key
  gpr_scheme :: encryption_scheme

record reload_request =
  rr_jwt_secrets :: "(module_id \<times> string) list option"
  rr_admin_secret :: "string option"

text \<open>\<open>deserialize_jwt_secrets\<close>, from the string that was read.\<close>

definition deserialize_jwt_secrets :: "string \<Rightarrow> (string, (module_id \<times> string) list option) result" where
  "deserialize_jwt_secrets raw =
     and_then (map_err (\<lambda>_. ''Invalid format'') (decode_string_to_map raw)) (\<lambda>secrets. Ok (Some secrets))"

record consensus_proxy_map =
  cpm_consensus :: bls_public_key
  cpm_proxy_bls :: "bls_public_key list"
  cpm_proxy_ecdsa :: "address list"

definition consensus_proxy_map_new :: "bls_public_key \<Rightarrow> consensus_proxy_map" where
  "consensus_proxy_map_new consensus =
     \<lparr>cpm_consensus = consensus, cpm_proxy_bls = [], cpm_proxy_ecdsa = []\<rparr>"

section \<open>Proxy signers (\<open>signer/types.rs\<close>)\<close>

record bls_proxy_signer =
  bp_signer :: bls_signer
  bp_delegation :: signed_proxy_delegation_bls

record ecdsa_proxy_signer =
  ep_signer :: ecdsa_signer
  ep_delegation :: signed_proxy_delegation_ecdsa

record proxy_signers =
  px_bls_signers :: "(bls_public_key \<times> bls_proxy_signer) list"
  px_ecdsa_signers :: "(address \<times> ecdsa_proxy_signer) list"

definition proxy_signers_default :: proxy_signers where
  "proxy_signers_default = \<lparr>px_bls_signers = [], px_ecdsa_signers = []\<rparr>"

section \<open>JSON web tokens\<close>

record jwt_claims =
  jc_exp :: u64
  jc_module :: string

record jwt_admin =
  ja_exp :: u64
  ja_admin :: bool

text \<open>The fields of \<open>jsonwebtoken::Validation\<close> that the code sets.\<close>

record jwt_validation =
  jv_leeway :: u64
  jv_check_signature :: bool

record jwtlib =
  jl_now :: u64
  jl_encode :: "jwt_claims \<Rightarrow> string \<Rightarrow> (string, string) result"
  jl_decode :: "string \<Rightarrow> string \<Rightarrow> jwt_validation \<Rightarrow> (string, jwt_claims) result"
  jl_decode_admin :: "string \<Rightarrow> string \<Rightarrow> jwt_validation \<Rightarrow> (string, jwt_admin) result"

text \<open>\<open>Validation::default\<close>: a leeway of 60 seconds, signatures checked.\<close>

definition jwt_validation_default :: jwt_validation where
  "jwt_validation_default = \<lparr>jv_leeway = 60, jv_check_signature = True\<rparr>"

definition SIGNER_JWT_EXPIRATION :: u64 where
  "SIGNER_JWT_EXPIRATION = 300"

definition create_jwt :: "jwtlib \<Rightarrow> module_id \<Rightarrow> string \<Rightarrow> (string, string) result" where
  "create_jwt J mid secret =
     jl_encode J \<lparr>jc_exp = jl_now J + SIGNER_JWT_EXPIRATION, jc_module = mid\<rparr> secret"

definition decode_jwt :: "jwtlib \<Rightarrow> string \<Rightarrow> (string, module_id) result" where
  "decode_jwt J jwt =
     and_then (jl_decode J jwt [] (jwt_validation_default\<lparr>jv_check_signature := False\<rparr>))
       (\<lambda>claims. Ok (jc_module claims))"

definition validate_jwt :: "jwtlib \<Rightarrow> string \<Rightarrow> string \<Rightarrow> (string, unit) result" where
  "validate_jwt J jwt secret =
     and_then (jl_decode J jwt secret (jwt_validation_default\<lparr>jv_leeway := 10\<rparr>)) (\<lambda>_. Ok ())"

definition validate_admin_jwt :: "jwtlib \<Rightarrow> string \<Rightarrow> string \<Rightarrow> (string, unit) result" where
  "validate_admin_jwt J jwt secret =
     and_then (jl_decode_admin J jwt secret (jwt_validation_default\<lparr>jv_leeway := 10\<rparr>)) (\<lambda>claims.
       if ja_admin claims then Ok () else Err ''Token is not admin'')"

text \<open>
  What the code relies on: an encoded token decodes to its claims under the same secret, or under
  any secret when signatures are not checked, as long as it expires no earlier than now.
\<close>

definition jwt_complete :: "jwtlib \<Rightarrow> bool" where
  "jwt_complete J \<longleftrightarrow>
     (\<forall>claims secret jwt secret' v.
        jl_encode J claims secret = Ok jwt \<longrightarrow> jl_now J \<le> jc_exp claims \<longrightarrow>
        (secret' = secret \<or> \<not> jv_check_signature v) \<longrightarrow>
        jl_decode J jwt secret' v = Ok claims)"

section \<open>Properties\<close>

lemma create_jwt_validates:
  assumes "jwt_complete J" and "create_jwt J mid secret = Ok jwt"
    and "jl_now J \<le> jl_now J + SIGNER_JWT_EXPIRATION"
  shows "decode_jwt J jwt = Ok mid \<and> validate_jwt J jwt secret = Ok ()"
proof -
  let ?claims = "\<lparr>jc_exp = jl_now J + SIGNER_JWT_EXPIRATION, jc_module = mid\<rparr>"
  have "jl_decode J jwt s v = Ok ?claims" if "s = secret \<or> \<not> jv_check_signature v" for s v
    using assms that unfolding jwt_complete_def create_jwt_def by force
  then show ?thesis
    by (simp add: decode_jwt_def validate_jwt_def jwt_validation_default_def)
qed

end
