(* ===== verification/Proxy_Store.thy ===== *)
theory Proxy_Store
  imports Commit
begin

text \<open>
  Persistence of proxy keys and delegations: \<open>crates/common/src/signer/store.rs\<close>, and the two
  single-key loaders of \<open>crates/common/src/signer/loader.rs\<close> that it uses.

  The file system is a value: the files with their contents in directory order, and the
  directories that exist on their own (every proper prefix of a file is a directory too). A write is
  not atomic: it can fail before the file is opened, with some parent directories made, or after
  \<open>File::create\<close> has truncated the file, with a part of the content written (\<open>write_outcome\<close>). So the
  storing operations return the file system in any case. JSON encodings, the \<open>eth2_keystore\<close> crate and the parsers of fixed-size
  hex strings are the record \<open>storelib\<close>; random passwords and salts are arguments.
\<close>

section \<open>Paths and files\<close>

datatype path = Path bool "string list"

definition components :: "string \<Rightarrow> string list" where
  "components s = filter (\<lambda>c. c \<noteq> [] \<and> c \<noteq> ''.'') (split_char CHR ''/'' s)"

definition is_absolute :: "string \<Rightarrow> bool" where
  "is_absolute s \<longleftrightarrow> (case s of [] \<Rightarrow> False | c # _ \<Rightarrow> c = CHR ''/'')"

definition path_of :: "string \<Rightarrow> path" where
  "path_of s = Path (is_absolute s) (components s)"

text \<open>\<open>Path::join\<close>: an absolute argument replaces the path.\<close>

fun path_join :: "path \<Rightarrow> string \<Rightarrow> path" where
  "path_join (Path a cs) s =
     (if is_absolute s then Path True (components s) else Path a (cs @ components s))"

record filesystem =
  fs_files :: "(path \<times> string) list"
  fs_dirs :: "path list"

fun strip_components :: "string list \<Rightarrow> string list \<Rightarrow> string list option" where
  "strip_components [] ds = Some ds"
| "strip_components (c # cs) (d # ds) = (if c = d then strip_components cs ds else None)"
| "strip_components (c # cs) [] = None"

text \<open>The name under which a path lies in a directory, and the directory's entries.\<close>

fun child_name :: "path \<Rightarrow> path \<Rightarrow> string option" where
  "child_name (Path a cs) (Path b ds) =
     (if a = b then (case strip_components cs ds of Some (c # _) \<Rightarrow> Some c | _ \<Rightarrow> None) else None)"

definition dir_entries :: "filesystem \<Rightarrow> path \<Rightarrow> string list" where
  "dir_entries fs d = remdups (List.map_filter (child_name d) (map fst (fs_files fs) @ fs_dirs fs))"

fun entry_path :: "path \<Rightarrow> string \<Rightarrow> path" where
  "entry_path (Path a cs) name = Path a (cs @ [name])"

definition is_file :: "filesystem \<Rightarrow> path \<Rightarrow> bool" where
  "is_file fs p \<longleftrightarrow> map_of (fs_files fs) p \<noteq> None"

definition is_dir :: "filesystem \<Rightarrow> path \<Rightarrow> bool" where
  "is_dir fs d \<longleftrightarrow> d \<in> set (fs_dirs fs) \<or> dir_entries fs d \<noteq> []"

section \<open>Libraries\<close>

record json_keystore =
  jk_crypto :: string
  jk_uuid :: nat
  jk_pubkey :: string
  jk_description :: string

text \<open>
  How a write ends: it succeeds; it fails in \<open>create_dir_all\<close> or \<open>File::create\<close>, after the given
  directories above the file were made; or it fails in \<open>write_all\<close>, with so many characters written.
\<close>

datatype write_outcome = WriteDone | NotOpened "path list" | WriteCut nat

record storelib =
  sl_write :: "path \<Rightarrow> write_outcome"
  sl_readable :: "path \<Rightarrow> bool"
  sl_kd_bls_to_json :: "bytes \<Rightarrow> signed_proxy_delegation_bls \<Rightarrow> string"
  sl_kd_bls_from_json :: "string \<Rightarrow> (string, bytes \<times> signed_proxy_delegation_bls) result"
  sl_kd_ecdsa_to_json :: "bytes \<Rightarrow> signed_proxy_delegation_ecdsa \<Rightarrow> string"
  sl_kd_ecdsa_from_json :: "string \<Rightarrow> (string, bytes \<times> signed_proxy_delegation_ecdsa) result"
  sl_delegation_to_json :: "signed_proxy_delegation_bls \<Rightarrow> string"
  sl_encrypt :: "bytes \<Rightarrow> string \<Rightarrow> nat \<Rightarrow> (string, string) result"
  sl_keystore_to_json :: "json_keystore \<Rightarrow> string"
  sl_keystore_from_json :: "string \<Rightarrow> (string, json_keystore) result"
  sl_decrypt :: "string \<Rightarrow> string \<Rightarrow> (string, bytes) result"
  sl_decrypt_keypair :: "json_keystore \<Rightarrow> string \<Rightarrow> (string, bytes) result"
  sl_address_to_string :: "address \<Rightarrow> string"
  sl_parse_signature :: "string \<Rightarrow> (string, bls_signature) result"
  sl_parse_pubkey :: "string \<Rightarrow> bls_public_key option"

text \<open>\<open>create_dir_all\<close> on the parent, \<open>File::create\<close> and \<open>write_all\<close>; \<open>fs::read_to_string\<close>.\<close>

definition write_file :: "storelib \<Rightarrow> path \<Rightarrow> string \<Rightarrow> filesystem \<Rightarrow> filesystem \<times> (string, unit) result" where
  "write_file L p content fs =
     (case sl_write L p of
        WriteDone \<Rightarrow> (fs\<lparr>fs_files := AList.update p content (fs_files fs)\<rparr>, Ok ())
      | NotOpened made \<Rightarrow>
          (fs\<lparr>fs_dirs := filter (\<lambda>d. child_name d p \<noteq> None) made @ fs_dirs fs\<rparr>, Err ''open failed'')
      | WriteCut n \<Rightarrow> (fs\<lparr>fs_files := AList.update p (take n content) (fs_files fs)\<rparr>, Err ''write failed''))"

definition read_file :: "storelib \<Rightarrow> filesystem \<Rightarrow> path \<Rightarrow> (string, string) result" where
  "read_file L fs p =
     (case map_of (fs_files fs) p of
        None \<Rightarrow> Err ''no such file''
      | Some content \<Rightarrow> if sl_readable L p then Ok content else Err ''read failed'')"

text \<open>The 32 big-endian bytes of a secret key.\<close>

definition secret_bytes :: "b256 \<Rightarrow> bytes" where
  "secret_bytes s = fixed_bytes 32 s"

section \<open>Storing\<close>

definition PROXY_DIR_ENV :: string where
  "PROXY_DIR_ENV = ''CB_PROXY_STORE_DIR''"

definition PROXY_DIR_KEYS_ENV :: string where
  "PROXY_DIR_KEYS_ENV = ''CB_PROXY_KEYS_DIR''"

definition PROXY_DIR_SECRETS_ENV :: string where
  "PROXY_DIR_SECRETS_ENV = ''CB_PROXY_SECRETS_DIR''"

fun init_from_env :: "config_env \<Rightarrow> proxy_store \<Rightarrow> (string, proxy_store) result" where
  "init_from_env E (StoreFile proxy_dir) = Ok (StoreFile (path_override E PROXY_DIR_ENV proxy_dir))"
| "init_from_env E (StoreERC2335 keys_path secrets_path) =
     Ok (StoreERC2335 (path_override E PROXY_DIR_KEYS_ENV keys_path)
           (path_override E PROXY_DIR_SECRETS_ENV secrets_path))"

text \<open>
  \<open>store_erc2335_key\<close>: the password, then the delegation signature, then the encrypted key store.
  \<open>proxy\<close> and \<open>proxy_hex\<close> are the proxy's display and bare hex forms.
\<close>

definition scheme_dir :: "path \<Rightarrow> bls_public_key \<Rightarrow> module_id \<Rightarrow> encryption_scheme \<Rightarrow> path" where
  "scheme_dir base delegator mid scheme =
     path_join (path_join (path_join base (display_fixed_bytes 48 delegator)) mid) (display_scheme scheme)"

definition store_erc2335_key ::
  "storelib \<Rightarrow> module_id \<Rightarrow> 'p signed_proxy_delegation \<Rightarrow> string \<Rightarrow> string \<Rightarrow> bytes \<Rightarrow> path \<Rightarrow> path
     \<Rightarrow> encryption_scheme \<Rightarrow> string \<Rightarrow> nat \<Rightarrow> filesystem \<Rightarrow> filesystem \<times> (string, unit) result" where
  "store_erc2335_key L mid delegation proxy proxy_hex secret keys_path secrets_path scheme password seed fs =
     (let delegator = pd_delegator (sd_message delegation);
          pass_path = path_join (scheme_dir secrets_path delegator mid scheme) proxy;
          keys_dir = scheme_dir keys_path delegator mid scheme
      in
      case write_file L pass_path password fs of
        (fs1, Inl e) \<Rightarrow> (fs1, Err e)
      | (fs1, Inr _) \<Rightarrow>
          (case write_file L (path_join keys_dir (proxy @ ''.sig''))
                  (display_fixed_bytes 96 (sd_signature delegation)) fs1 of
             (fs2, Inl e) \<Rightarrow> (fs2, Err e)
           | (fs2, Inr _) \<Rightarrow>
               (case sl_encrypt L secret password seed of
                  Inl _ \<Rightarrow> (fs2, Err ''Error encrypting key'')
                | Inr crypto_section \<Rightarrow>
                    write_file L (path_join keys_dir (proxy @ ''.json''))
                      (sl_keystore_to_json L
                         \<lparr>jk_crypto = crypto_section, jk_uuid = seed, jk_pubkey = proxy_hex,
                          jk_description = proxy\<rparr>) fs2)))"

definition store_proxy_bls ::
  "crypto \<Rightarrow> storelib \<Rightarrow> proxy_store \<Rightarrow> module_id \<Rightarrow> bls_proxy_signer \<Rightarrow> string \<Rightarrow> nat \<Rightarrow> filesystem
     \<Rightarrow> filesystem \<times> (string, unit) result" where
  "store_proxy_bls C L store mid proxy password seed fs =
     (let secret = secret_bytes (bls_signer_secret (bp_signer proxy)) in
      case store of
        StoreFile proxy_dir \<Rightarrow>
          write_file L (path_join (path_join (path_join (path_of proxy_dir) mid) ''bls'')
               (display_fixed_bytes 48 (bls_signer_pubkey C (bp_signer proxy))))
            (sl_kd_bls_to_json L secret (bp_delegation proxy)) fs
      | StoreERC2335 keys_path secrets_path \<Rightarrow>
          (let d = bp_delegation proxy; pk = pd_proxy (sd_message d) in
           store_erc2335_key L mid d (display_fixed_bytes 48 pk) (hex_digits 96 (unat pk)) secret
             (path_of keys_path) (path_of secrets_path) Bls password seed fs))"

fun ecdsa_signer_secret :: "ecdsa_signer \<Rightarrow> b256" where
  "ecdsa_signer_secret (EcdsaLocal secret) = secret"

definition store_proxy_ecdsa ::
  "crypto \<Rightarrow> storelib \<Rightarrow> proxy_store \<Rightarrow> module_id \<Rightarrow> ecdsa_proxy_signer \<Rightarrow> string \<Rightarrow> nat \<Rightarrow> filesystem
     \<Rightarrow> filesystem \<times> (string, unit) result" where
  "store_proxy_ecdsa C L store mid proxy password seed fs =
     (let secret = secret_bytes (ecdsa_signer_secret (ep_signer proxy)) in
      case store of
        StoreFile proxy_dir \<Rightarrow>
          write_file L (path_join (path_join (path_join (path_of proxy_dir) mid) ''ecdsa'')
               (sl_address_to_string L (ecdsa_signer_address C (ep_signer proxy))))
            (sl_kd_ecdsa_to_json L secret (ep_delegation proxy)) fs
      | StoreERC2335 keys_path secrets_path \<Rightarrow>
          (let d = ep_delegation proxy; a = pd_proxy (sd_message d) in
           store_erc2335_key L mid d (sl_address_to_string L a) (hex_digits 40 (unat a)) secret
             (path_of keys_path) (path_of secrets_path) Ecdsa password seed fs))"

definition store_proxy_bls_delegation ::
  "storelib \<Rightarrow> proxy_store \<Rightarrow> module_id \<Rightarrow> signed_proxy_delegation_bls \<Rightarrow> filesystem
     \<Rightarrow> filesystem \<times> (string, unit) result" where
  "store_proxy_bls_delegation L store mid delegation fs =
     (let base_path = (case store of StoreFile proxy_dir \<Rightarrow> proxy_dir | StoreERC2335 keys_path _ \<Rightarrow> keys_path)
      in write_file L
           (path_join (path_join (path_join (path_join (path_of base_path) ''delegations'') mid) ''bls'')
              (display_fixed_bytes 48 (pd_proxy (sd_message delegation)) @ ''.sig''))
           (sl_delegation_to_json L delegation) fs)"

section \<open>Loading\<close>

type_synonym loaded_proxies =
  "proxy_signers \<times> (module_id \<times> bls_public_key list) list \<times> (module_id \<times> address list) list"

text \<open>\<open>entry(k).or_default().push(v)\<close>\<close>

definition push_entry :: "'k \<Rightarrow> 'v \<Rightarrow> ('k \<times> 'v list) list \<Rightarrow> ('k \<times> 'v list) list" where
  "push_entry k v m = AList.update k ((case map_of m k of Some vs \<Rightarrow> vs | None \<Rightarrow> []) @ [v]) m"

definition insert_bls_proxy :: "crypto \<Rightarrow> module_id \<Rightarrow> bls_proxy_signer \<Rightarrow> loaded_proxies \<Rightarrow> loaded_proxies" where
  "insert_bls_proxy C mid proxy = (\<lambda>(signers, bls_map, ecdsa_map).
     let pubkey = bls_signer_pubkey C (bp_signer proxy) in
     (signers\<lparr>px_bls_signers := AList.update pubkey proxy (px_bls_signers signers)\<rparr>,
      push_entry mid pubkey bls_map, ecdsa_map))"

definition insert_ecdsa_proxy :: "crypto \<Rightarrow> module_id \<Rightarrow> ecdsa_proxy_signer \<Rightarrow> loaded_proxies \<Rightarrow> loaded_proxies" where
  "insert_ecdsa_proxy C mid proxy = (\<lambda>(signers, bls_map, ecdsa_map).
     let addr = ecdsa_signer_address C (ep_signer proxy) in
     (signers\<lparr>px_ecdsa_signers := AList.update addr proxy (px_ecdsa_signers signers)\<rparr>,
      bls_map, push_entry mid addr ecdsa_map))"

subsection \<open>Plain files\<close>

definition read_bls_proxy :: "crypto \<Rightarrow> storelib \<Rightarrow> filesystem \<Rightarrow> path \<Rightarrow> (string, bls_proxy_signer) result" where
  "read_bls_proxy C L fs p =
     and_then (read_file L fs p) (\<lambda>content.
     and_then (sl_kd_bls_from_json L content) (\<lambda>(secret, delegation).
     and_then (map_err display_blst_error (bls_signer_new_from_bytes C secret)) (\<lambda>signer.
       Ok \<lparr>bp_signer = signer, bp_delegation = delegation\<rparr>)))"

definition read_ecdsa_proxy :: "crypto \<Rightarrow> storelib \<Rightarrow> filesystem \<Rightarrow> path \<Rightarrow> (string, ecdsa_proxy_signer) result" where
  "read_ecdsa_proxy C L fs p =
     and_then (read_file L fs p) (\<lambda>content.
     and_then (sl_kd_ecdsa_from_json L content) (\<lambda>(secret, delegation).
     and_then (ecdsa_signer_new_from_bytes C secret) (\<lambda>signer.
       Ok \<lparr>ep_signer = signer, ep_delegation = delegation\<rparr>)))"

text \<open>The loop over one directory of files, skipping what is not a file.\<close>

definition load_dir_files ::
  "filesystem \<Rightarrow> (path \<Rightarrow> (string, 'a) result) \<Rightarrow> ('a \<Rightarrow> 's \<Rightarrow> 's) \<Rightarrow> path \<Rightarrow> 's \<Rightarrow> (string, 's) result" where
  "load_dir_files fs read ins dir st =
     (if is_dir fs dir
      then try_fold (\<lambda>name st.
             if is_file fs (entry_path dir name)
             then and_then (read (entry_path dir name)) (\<lambda>x. Ok (ins x st))
             else Ok st) (dir_entries fs dir) st
      else Ok st)"

definition load_module_dir ::
  "crypto \<Rightarrow> storelib \<Rightarrow> filesystem \<Rightarrow> path \<Rightarrow> module_id \<Rightarrow> loaded_proxies \<Rightarrow> (string, loaded_proxies) result" where
  "load_module_dir C L fs base mid st =
     (let module_path = entry_path base mid in
      if is_dir fs module_path then
        and_then (load_dir_files fs (read_bls_proxy C L fs) (insert_bls_proxy C mid)
                    (path_join module_path ''bls'') st)
          (load_dir_files fs (read_ecdsa_proxy C L fs) (insert_ecdsa_proxy C mid)
             (path_join module_path ''ecdsa''))
      else Ok st)"

definition load_file_store ::
  "crypto \<Rightarrow> storelib \<Rightarrow> filesystem \<Rightarrow> path \<Rightarrow> (string, loaded_proxies) result" where
  "load_file_store C L fs proxy_dir =
     (if is_dir fs proxy_dir
      then try_fold (load_module_dir C L fs proxy_dir) (dir_entries fs proxy_dir)
             (proxy_signers_default, [], [])
      else Err ''failed reading proxy dir'')"

subsection \<open>ERC-2335 key stores\<close>

text \<open>\<open>load_bls_signer\<close> (\<open>load_one\<close>) and \<open>load_ecdsa_signer\<close> of \<open>loader.rs\<close>.\<close>

definition load_one ::
  "crypto \<Rightarrow> storelib \<Rightarrow> filesystem \<Rightarrow> path \<Rightarrow> path \<Rightarrow> (string, bls_signer) result" where
  "load_one C L fs ks_path pw_path =
     and_then (map_err (\<lambda>_. ''failed reading json'')
                 (and_then (read_file L fs ks_path) (sl_keystore_from_json L))) (\<lambda>keystore.
     and_then (map_err (\<lambda>_. ''Failed to read password'') (read_file L fs pw_path)) (\<lambda>password.
     and_then (map_err (\<lambda>_. ''failed decrypting keypair'') (sl_decrypt_keypair L keystore password)) (\<lambda>key.
       map_err display_blst_error (bls_signer_new_from_bytes C key))))"

definition load_ecdsa_signer ::
  "crypto \<Rightarrow> storelib \<Rightarrow> filesystem \<Rightarrow> path \<Rightarrow> path \<Rightarrow> (string, ecdsa_signer) result" where
  "load_ecdsa_signer C L fs keys_path secrets_path =
     and_then (and_then (read_file L fs keys_path) (sl_keystore_from_json L)) (\<lambda>keystore.
     and_then (read_file L fs secrets_path) (\<lambda>password.
     and_then (map_err (\<lambda>_. ''Error decrypting ECDSA keystore'')
                 (sl_decrypt L password (jk_crypto keystore))) (\<lambda>secret.
       ecdsa_signer_new_from_bytes C secret)))"

text \<open>\<open>Path::extension\<close> equal to \<open>json\<close>, and \<open>trim_end_matches\<close>, which removes the suffix repeatedly.\<close>

definition has_json_ext :: "string \<Rightarrow> bool" where
  "has_json_ext name \<longleftrightarrow> length name > 5 \<and> drop (length name - 5) name = ''.json''"

function trim_json :: "string \<Rightarrow> string" where
  "trim_json name =
     (if length name \<ge> 5 \<and> drop (length name - 5) name = ''.json''
      then trim_json (take (length name - 5) name) else name)"
  by auto

termination trim_json
  by (relation "measure length") auto

declare trim_json.simps [simp del]

definition load_erc_entry ::
  "storelib \<Rightarrow> filesystem \<Rightarrow> (path \<Rightarrow> path \<Rightarrow> (string, 'k) result) \<Rightarrow> (bls_signature \<Rightarrow> 'k \<Rightarrow> 's \<Rightarrow> 's)
     \<Rightarrow> path \<Rightarrow> path \<Rightarrow> string \<Rightarrow> 's \<Rightarrow> (string, 's) result" where
  "load_erc_entry L fs load ins keys_dir secrets_dir file_name st =
     (if \<not> is_file fs (entry_path keys_dir file_name) \<or> \<not> has_json_ext file_name then Ok st
      else
        (let name = trim_json file_name in
         and_then (load (entry_path keys_dir file_name) (path_join secrets_dir name)) (\<lambda>signer.
         case read_file L fs (path_join keys_dir (name @ ''.sig'')) of
           Inl _ \<Rightarrow> Ok st
         | Inr sig \<Rightarrow>
             and_then (sl_parse_signature L sig) (\<lambda>delegation_signature.
               Ok (ins delegation_signature signer st)))))"

definition load_erc_dir ::
  "storelib \<Rightarrow> filesystem \<Rightarrow> (path \<Rightarrow> path \<Rightarrow> (string, 'k) result) \<Rightarrow> (bls_signature \<Rightarrow> 'k \<Rightarrow> 's \<Rightarrow> 's)
     \<Rightarrow> path \<Rightarrow> path \<Rightarrow> 's \<Rightarrow> (string, 's) result" where
  "load_erc_dir L fs load ins keys_dir secrets_dir st =
     (if is_dir fs keys_dir
      then try_fold (load_erc_entry L fs load ins keys_dir secrets_dir) (dir_entries fs keys_dir) st
      else Ok st)"

definition erc_bls_proxy :: "crypto \<Rightarrow> bls_public_key \<Rightarrow> bls_signature \<Rightarrow> bls_signer \<Rightarrow> bls_proxy_signer" where
  "erc_bls_proxy C consensus_pubkey sig signer =
     \<lparr>bp_signer = signer,
      bp_delegation = \<lparr>sd_message = \<lparr>pd_delegator = consensus_pubkey, pd_proxy = bls_signer_pubkey C signer\<rparr>,
                       sd_signature = sig\<rparr>\<rparr>"

definition erc_ecdsa_proxy :: "crypto \<Rightarrow> bls_public_key \<Rightarrow> bls_signature \<Rightarrow> ecdsa_signer \<Rightarrow> ecdsa_proxy_signer" where
  "erc_ecdsa_proxy C consensus_pubkey sig signer =
     \<lparr>ep_signer = signer,
      ep_delegation = \<lparr>sd_message = \<lparr>pd_delegator = consensus_pubkey, pd_proxy = ecdsa_signer_address C signer\<rparr>,
                       sd_signature = sig\<rparr>\<rparr>"

definition load_erc_module ::
  "crypto \<Rightarrow> storelib \<Rightarrow> filesystem \<Rightarrow> path \<Rightarrow> bls_public_key \<Rightarrow> path \<Rightarrow> module_id
     \<Rightarrow> loaded_proxies \<Rightarrow> (string, loaded_proxies) result" where
  "load_erc_module C L fs secrets_path consensus_pubkey consensus_key_path mid st =
     (let module_path = entry_path consensus_key_path mid;
          secrets_dir = (\<lambda>scheme.
            path_join (path_join (path_join secrets_path (display_fixed_bytes 48 consensus_pubkey)) mid) scheme)
      in
      if \<not> is_dir fs module_path then Ok st
      else
        and_then (load_erc_dir L fs (load_one C L fs)
                    (\<lambda>sig signer. insert_bls_proxy C mid (erc_bls_proxy C consensus_pubkey sig signer))
                    (path_join module_path ''bls'') (secrets_dir ''bls'') st)
          (load_erc_dir L fs (load_ecdsa_signer C L fs)
             (\<lambda>sig signer. insert_ecdsa_proxy C mid (erc_ecdsa_proxy C consensus_pubkey sig signer))
             (path_join module_path ''ecdsa'') (secrets_dir ''ecdsa'')))"

definition load_erc_consensus ::
  "crypto \<Rightarrow> storelib \<Rightarrow> filesystem \<Rightarrow> path \<Rightarrow> path \<Rightarrow> string
     \<Rightarrow> loaded_proxies \<Rightarrow> (string, loaded_proxies) result" where
  "load_erc_consensus C L fs keys_path secrets_path name st =
     (case sl_parse_pubkey L name of
        None \<Rightarrow> Ok st
      | Some consensus_pubkey \<Rightarrow>
          (let consensus_key_path = entry_path keys_path name in
           if \<not> is_dir fs consensus_key_path then Ok st
           else try_fold (load_erc_module C L fs secrets_path consensus_pubkey consensus_key_path)
                  (dir_entries fs consensus_key_path) st))"

definition load_erc_store ::
  "crypto \<Rightarrow> storelib \<Rightarrow> filesystem \<Rightarrow> path \<Rightarrow> path \<Rightarrow> (string, loaded_proxies) result" where
  "load_erc_store C L fs keys_path secrets_path =
     (if is_dir fs keys_path
      then try_fold (load_erc_consensus C L fs keys_path secrets_path) (dir_entries fs keys_path)
             (proxy_signers_default, [], [])
      else Err ''no such directory'')"

fun load_proxies ::
  "crypto \<Rightarrow> storelib \<Rightarrow> proxy_store \<Rightarrow> filesystem \<Rightarrow> (string, loaded_proxies) result" where
  "load_proxies C L (StoreFile proxy_dir) fs = load_file_store C L fs (path_of proxy_dir)"
| "load_proxies C L (StoreERC2335 keys_path secrets_path) fs =
     load_erc_store C L fs (path_of keys_path) (path_of secrets_path)"

section \<open>Properties\<close>

subsection \<open>What loading keeps\<close>

lemma try_fold_invariant:
  assumes "try_fold f xs s = Ok s'" and "P s" and "\<And>x s s'. f x s = Ok s' \<Longrightarrow> P s \<Longrightarrow> P s'"
  shows "P s'"
  using assms(1,2)
proof (induction xs arbitrary: s)
  case (Cons x xs)
  then show ?case using assms(3) by (auto simp: and_then_Ok_iff)
qed simp

lemma load_dir_files_invariant:
  assumes "load_dir_files fs read ins dir s = Ok s'" and "P s" and "\<And>x s. P s \<Longrightarrow> P (ins x s)"
  shows "P s'"
  using assms(1,2) unfolding load_dir_files_def
  by (auto simp: and_then_Ok_iff assms(3) elim!: try_fold_invariant [where P = P] split: if_splits)

lemma load_erc_dir_invariant:
  assumes "load_erc_dir L fs load ins keys_dir secrets_dir s = Ok s'" and "P s" and "\<And>sig k s. P s \<Longrightarrow> P (ins sig k s)"
  shows "P s'"
proof -
  have "P s2" if "load_erc_entry L fs load ins keys_dir secrets_dir name s1 = Ok s2" "P s1" for name s1 s2
    using that
    by (cases "read_file L fs (path_join keys_dir (trim_json name @ ''.sig''))")
      (auto simp: load_erc_entry_def Let_def and_then_Ok_iff assms(3) split: if_splits)
  with assms(1,2) show ?thesis
    by (auto simp: load_erc_dir_def elim!: try_fold_invariant [where P = P] split: if_splits)
qed

text \<open>Loading a store of either kind is a sequence of insertions.\<close>

lemma load_proxies_invariant:
  assumes "load_proxies C L store fs = Ok st" and "P (proxy_signers_default, [], [])"
    and bls: "\<And>mid p s. P s \<Longrightarrow> P (insert_bls_proxy C mid p s)"
    and ecdsa: "\<And>mid p s. P s \<Longrightarrow> P (insert_ecdsa_proxy C mid p s)"
  shows "P st"
proof (cases store)
  case (StoreFile dir)
  have "P s'" if "load_module_dir C L fs base mid s = Ok s'" "P s" for base mid s s'
    using that unfolding load_module_dir_def Let_def
    by (auto simp: and_then_Ok_iff bls ecdsa elim!: load_dir_files_invariant [where P = P] split: if_splits)
  with StoreFile assms(1,2) show ?thesis
    by (auto simp: load_file_store_def elim!: try_fold_invariant [where P = P] split: if_splits)
next
  case (StoreERC2335 keys_path secrets_path)
  have "P s'" if "load_erc_module C L fs secrets consensus path mid s = Ok s'" "P s" for secrets consensus path mid s s'
    using that unfolding load_erc_module_def Let_def
    by (auto simp: and_then_Ok_iff bls ecdsa elim!: load_erc_dir_invariant [where P = P] split: if_splits)
  then have "P s'" if "load_erc_consensus C L fs keys secrets name s = Ok s'" "P s" for keys secrets name s s'
    using that unfolding load_erc_consensus_def Let_def
    by (auto elim!: try_fold_invariant [where P = P] split: if_splits option.splits)
  with StoreERC2335 assms(1,2) show ?thesis
    by (auto simp: load_erc_store_def elim!: try_fold_invariant [where P = P] split: if_splits)
qed

subsection \<open>Paths\<close>

text \<open>A name that is one path component: no separator, not empty, not a dot or two.\<close>

definition plain_name :: "string \<Rightarrow> bool" where
  "plain_name s \<longleftrightarrow> s \<noteq> [] \<and> s \<noteq> ''.'' \<and> s \<noteq> ''..'' \<and> CHR ''/'' \<notin> set s"

lemma split_char_single: "c \<notin> set s \<Longrightarrow> split_char c s = [s]"
  by (induction s) auto

lemma components_plain: "plain_name s \<Longrightarrow> components s = [s]"
  by (simp add: components_def plain_name_def split_char_single)

lemma not_absolute_plain: "plain_name s \<Longrightarrow> \<not> is_absolute s"
  by (auto simp: plain_name_def is_absolute_def split: list.splits)

lemma path_join_plain: "plain_name s \<Longrightarrow> path_join p s = entry_path p s"
  by (cases p) (simp add: components_plain not_absolute_plain)

lemma strip_components_append [simp]: "strip_components cs (cs @ ds) = Some ds"
  by (induction cs) auto

lemma set_dir_entries:
  "set (dir_entries fs d) =
     {name. \<exists>p\<in>fst ` set (fs_files fs) \<union> set (fs_dirs fs). child_name d p = Some name}"
  by (force simp: dir_entries_def List.map_filter_def)

lemma is_dir_of_entry: "name \<in> set (dir_entries fs d) \<Longrightarrow> is_dir fs d"
  by (auto simp: is_dir_def)

lemma digit_char_not_slash: "d < 16 \<Longrightarrow> digit_char d \<noteq> CHR ''/''"
proof
  assume d: "d < 16" and eq: "digit_char d = CHR ''/''"
  have "(of_char (digit_char d) :: nat) = 47" by (simp add: eq)
  with d show False by (auto simp: digit_char_def of_char_of split: if_splits)
qed

lemma plain_display: "plain_name (display_fixed_bytes k w)"
proof -
  have "CHR ''/'' \<notin> set (hex_digits m n)" for m n
    by (induction m arbitrary: n) (auto dest: sym [of "CHR ''/''"] simp: digit_char_not_slash)
  then show ?thesis by (simp add: plain_name_def display_fixed_bytes_def)
qed

subsection \<open>Reading a directory after a write\<close>

lemma write_file_Ok:
  "write_file L p content fs = (fs', Ok u) \<longleftrightarrow>
     sl_write L p = WriteDone \<and> fs' = fs\<lparr>fs_files := AList.update p content (fs_files fs)\<rparr>"
  by (auto simp: write_file_def split: write_outcome.splits)

lemma dir_entries_write:
  assumes "fs' = fs\<lparr>fs_files := AList.update p content (fs_files fs)\<rparr>"
  shows "set (dir_entries fs' d) = set (dir_entries fs d) \<union> set_option (child_name d p)"
proof -
  have "fst ` set (fs_files fs') = insert p (fst ` set (fs_files fs))"
    using assms by (simp add: dom_update)
  moreover have "fs_dirs fs' = fs_dirs fs" by (simp add: assms)
  ultimately show ?thesis
    unfolding set_dir_entries by auto
qed

lemma is_file_write:
  assumes "fs' = fs\<lparr>fs_files := AList.update p content (fs_files fs)\<rparr>"
  shows "is_file fs' q \<longleftrightarrow> q = p \<or> is_file fs q"
  using assms by (auto simp: is_file_def update_conv')

lemma read_file_write:
  assumes "fs' = fs\<lparr>fs_files := AList.update p content (fs_files fs)\<rparr>"
  shows "read_file L fs' q =
    (if q = p then (if sl_readable L p then Ok content else Err ''read failed'') else read_file L fs q)"
  using assms by (auto simp: read_file_def update_conv')

subsection \<open>The plain file store\<close>

lemma map_of_push_entry:
  "map_of (push_entry k v m) k' =
     (if k' = k then Some ((case map_of m k of Some vs \<Rightarrow> vs | None \<Rightarrow> []) @ [v]) else map_of m k')"
  by (simp add: push_entry_def update_conv')

lemma load_dir_files_is_ok_iff:
  "is_ok (load_dir_files fs read ins dir st) \<longleftrightarrow>
     (\<forall>name\<in>set (dir_entries fs dir). is_file fs (entry_path dir name) \<longrightarrow> is_ok (read (entry_path dir name)))"
proof (cases "is_dir fs dir")
  case True
  have "is_ok (if is_file fs (entry_path dir name)
      then and_then (read (entry_path dir name)) (\<lambda>x. Ok (ins x s)) else Ok s) \<longleftrightarrow>
      (is_file fs (entry_path dir name) \<longrightarrow> is_ok (read (entry_path dir name)))" for name s
    by (cases "read (entry_path dir name)") auto
  with True show ?thesis
    unfolding load_dir_files_def by (simp add: try_fold_is_ok_iff)
next
  case False
  then show ?thesis by (simp add: load_dir_files_def is_dir_def)
qed

text \<open>All files of the store decode.\<close>

definition module_decodes :: "crypto \<Rightarrow> storelib \<Rightarrow> filesystem \<Rightarrow> path \<Rightarrow> module_id \<Rightarrow> bool" where
  "module_decodes C L fs base mid \<longleftrightarrow>
     (\<forall>name\<in>set (dir_entries fs (path_join (entry_path base mid) ''bls'')).
        is_file fs (entry_path (path_join (entry_path base mid) ''bls'') name) \<longrightarrow>
        is_ok (read_bls_proxy C L fs (entry_path (path_join (entry_path base mid) ''bls'') name))) \<and>
     (\<forall>name\<in>set (dir_entries fs (path_join (entry_path base mid) ''ecdsa'')).
        is_file fs (entry_path (path_join (entry_path base mid) ''ecdsa'') name) \<longrightarrow>
        is_ok (read_ecdsa_proxy C L fs (entry_path (path_join (entry_path base mid) ''ecdsa'') name)))"

lemma is_ok_and_then: "(\<And>x. is_ok (f x) = b) \<Longrightarrow> is_ok (and_then r f) \<longleftrightarrow> is_ok r \<and> b"
  by (cases r) auto

lemma load_file_store_is_ok_iff:
  "is_ok (load_file_store C L fs base) \<longleftrightarrow>
     is_dir fs base \<and> (\<forall>mid\<in>set (dir_entries fs base).
       is_dir fs (entry_path base mid) \<longrightarrow> module_decodes C L fs base mid)"
proof -
  have "is_ok (load_module_dir C L fs base mid s) \<longleftrightarrow>
      (is_dir fs (entry_path base mid) \<longrightarrow> module_decodes C L fs base mid)" for mid s
    unfolding load_module_dir_def module_decodes_def Let_def
    by (simp add: is_ok_and_then [OF load_dir_files_is_ok_iff] load_dir_files_is_ok_iff)
  then show ?thesis
    unfolding load_file_store_def by (simp add: try_fold_is_ok_iff)
qed

text \<open>The file of a key: \<open>base/module/scheme/name\<close>.\<close>

fun key_file :: "path \<Rightarrow> module_id \<Rightarrow> encryption_scheme \<Rightarrow> string \<Rightarrow> path" where
  "key_file (Path a cs) mid scheme name = Path a (cs @ [mid, display_scheme scheme, name])"

lemma plain_scheme [simp]: "plain_name ''bls''" "plain_name ''ecdsa''"
  by (simp_all add: plain_name_def)

lemma key_file_entry:
  "entry_path (path_join (entry_path base mid) ''bls'') name = key_file base mid Bls name"
  "entry_path (path_join (entry_path base mid) ''ecdsa'') name = key_file base mid Ecdsa name"
  by (cases base; simp add: path_join_plain del: path_join.simps)+

lemma key_file_inj:
  "key_file base m s n = key_file base m' s' n' \<longleftrightarrow> m = m' \<and> s = s' \<and> n = n'"
  by (cases base; cases s; cases s') auto

lemma key_file_children:
  "child_name base (key_file base mid s name) = Some mid"
  "child_name (entry_path base mid) (key_file base mid Bls name) = Some ''bls''"
  "child_name (entry_path base mid) (key_file base mid Ecdsa name) = Some ''ecdsa''"
  "child_name (path_join (entry_path base mid) ''bls'') (key_file base mid Bls name) = Some name"
  "child_name (path_join (entry_path base mid) ''ecdsa'') (key_file base mid Ecdsa name) = Some name"
proof -
  have *: "strip_components (cs @ [m]) (cs @ m # ds) = Some ds"
    "strip_components (cs @ [m, n]) (cs @ m # n # ds) = Some ds" for cs ds :: "string list" and m n
    using strip_components_append [of "cs @ [m]" ds] strip_components_append [of "cs @ [m, n]" ds] by simp_all
  show "child_name base (key_file base mid s name) = Some mid" by (cases base) simp
  show "child_name (entry_path base mid) (key_file base mid Bls name) = Some ''bls''"
    "child_name (entry_path base mid) (key_file base mid Ecdsa name) = Some ''ecdsa''"
    by (cases base; simp add: *)+
  show "child_name (path_join (entry_path base mid) ''bls'') (key_file base mid Bls name) = Some name"
    "child_name (path_join (entry_path base mid) ''ecdsa'') (key_file base mid Ecdsa name) = Some name"
    by (cases base; simp add: path_join_plain * del: path_join.simps)+
qed

lemma is_file_entry:
  assumes "is_file fs p" and "child_name d p = Some name"
  shows "name \<in> set (dir_entries fs d)"
proof -
  have "p \<in> fst ` set (fs_files fs)" using assms(1) by (auto simp: is_file_def map_of_eq_None_iff)
  with assms(2) show ?thesis unfolding set_dir_entries by blast
qed

lemma key_file_reached:
  assumes "is_file fs (key_file base mid s name)"
  shows "mid \<in> set (dir_entries fs base)" and "is_dir fs base" and "is_dir fs (entry_path base mid)"
proof -
  show mid: "mid \<in> set (dir_entries fs base)"
    by (rule is_file_entry [OF assms key_file_children(1)])
  then show "is_dir fs base" by (rule is_dir_of_entry)
  show "is_dir fs (entry_path base mid)"
    using is_file_entry [OF assms] key_file_children(2,3) is_dir_of_entry by (cases s) metis+
qed

definition store_decodes :: "crypto \<Rightarrow> storelib \<Rightarrow> filesystem \<Rightarrow> path \<Rightarrow> bool" where
  "store_decodes C L fs base \<longleftrightarrow>
     (\<forall>mid name. is_file fs (key_file base mid Bls name) \<longrightarrow>
        is_ok (read_bls_proxy C L fs (key_file base mid Bls name))) \<and>
     (\<forall>mid name. is_file fs (key_file base mid Ecdsa name) \<longrightarrow>
        is_ok (read_ecdsa_proxy C L fs (key_file base mid Ecdsa name)))"

lemma load_file_store_is_ok:
  "is_ok (load_file_store C L fs base) \<longleftrightarrow> is_dir fs base \<and> store_decodes C L fs base"
proof -
  have 1: "name \<in> set (dir_entries fs (path_join (entry_path base mid) ''bls''))"
    if "is_file fs (key_file base mid Bls name)" for mid name
    by (rule is_file_entry [OF that key_file_children(4)])
  have 2: "name \<in> set (dir_entries fs (path_join (entry_path base mid) ''ecdsa''))"
    if "is_file fs (key_file base mid Ecdsa name)" for mid name
    by (rule is_file_entry [OF that key_file_children(5)])
  show ?thesis
    unfolding load_file_store_is_ok_iff module_decodes_def store_decodes_def key_file_entry
    using 1 2 key_file_reached by blast
qed

text \<open>Where a key is stored.\<close>

lemma store_proxy_bls_path:
  assumes "plain_name mid"
  shows "store_proxy_bls C L (StoreFile dir) mid proxy pw seed fs =
    write_file L (key_file (path_of dir) mid Bls (display_fixed_bytes 48 (bls_signer_pubkey C (bp_signer proxy))))
      (sl_kd_bls_to_json L (secret_bytes (bls_signer_secret (bp_signer proxy))) (bp_delegation proxy)) fs"
  using assms
  by (cases "path_of dir") (simp add: store_proxy_bls_def Let_def path_join_plain plain_display del: path_join.simps)

end
