(* ===== verification/Local_Manager.thy ===== *)
theory Local_Manager
  imports Proxy_Store
begin

text \<open>
  The local signing manager: \<open>crates/signer/src/manager/local.rs\<close>, and the errors of
  \<open>crates/signer/src/error.rs\<close>. Operations that persist a proxy key thread the file system; random
  keys, passwords and salts are arguments. The BLS and the ECDSA half of the manager keep the same
  contract, stated as the locale \<open>proxy_registry\<close>.
\<close>

section \<open>Errors\<close>

text \<open>The remaining time of a rate limit is kept in milliseconds.\<close>

datatype signer_module_error =
    Unauthorized
  | SignerError string
  | UnknownConsensusSigner bytes
  | UnknownProxySigner bytes
  | DirkCommunicationError string
  | DirkNotSupported
  | ModuleIdNotFound
  | InternalError string
  | RateLimited nat
  | RequestError string

fun signer_status :: "signer_module_error \<Rightarrow> u16" where
  "signer_status Unauthorized = 401"
| "signer_status (UnknownConsensusSigner _) = 404"
| "signer_status (UnknownProxySigner _) = 404"
| "signer_status (DirkCommunicationError _) = 502"
| "signer_status DirkNotSupported = 400"
| "signer_status (InternalError _) = 500"
| "signer_status (SignerError _) = 400"
| "signer_status ModuleIdNotFound = 404"
| "signer_status (RateLimited _) = 429"
| "signer_status (RequestError _) = 400"

section \<open>State\<close>

record local_manager =
  lm_chain :: chain
  lm_proxy_store :: "proxy_store option"
  lm_consensus_signers :: "(bls_public_key \<times> bls_signer) list"
  lm_proxy_signers :: proxy_signers
  lm_proxy_pubkeys_bls :: "(module_id \<times> bls_public_key list) list"
  lm_proxy_addresses_ecdsa :: "(module_id \<times> address list) list"

definition local_manager_new ::
  "crypto \<Rightarrow> storelib \<Rightarrow> filesystem \<Rightarrow> chain \<Rightarrow> proxy_store option \<Rightarrow> (string, local_manager) result" where
  "local_manager_new C L fs chain proxy_store =
     (let manager = \<lparr>lm_chain = chain, lm_proxy_store = proxy_store, lm_consensus_signers = [],
                     lm_proxy_signers = proxy_signers_default, lm_proxy_pubkeys_bls = [],
                     lm_proxy_addresses_ecdsa = []\<rparr>
      in
      case proxy_store of
        None \<Rightarrow> Ok manager
      | Some store \<Rightarrow>
          and_then (load_proxies C L store fs) (\<lambda>(proxies, bls, ecdsa).
            Ok (manager\<lparr>lm_proxy_signers := proxies, lm_proxy_pubkeys_bls := bls,
                        lm_proxy_addresses_ecdsa := ecdsa\<rparr>)))"

definition add_consensus_signer :: "crypto \<Rightarrow> bls_signer \<Rightarrow> local_manager \<Rightarrow> local_manager" where
  "add_consensus_signer C signer m =
     m\<lparr>lm_consensus_signers := AList.update (bls_signer_pubkey C signer) signer (lm_consensus_signers m)\<rparr>"

section \<open>Proxy keys\<close>

definition insert_proxy_bls :: "crypto \<Rightarrow> bls_proxy_signer \<Rightarrow> module_id \<Rightarrow> local_manager \<Rightarrow> local_manager" where
  "insert_proxy_bls C proxy mid m =
     (let proxy_pubkey = bls_signer_pubkey C (bp_signer proxy) in
      m\<lparr>lm_proxy_signers := (lm_proxy_signers m)
           \<lparr>px_bls_signers := AList.update proxy_pubkey proxy (px_bls_signers (lm_proxy_signers m))\<rparr>,
        lm_proxy_pubkeys_bls := push_entry mid proxy_pubkey (lm_proxy_pubkeys_bls m)\<rparr>)"

definition insert_proxy_ecdsa :: "crypto \<Rightarrow> ecdsa_proxy_signer \<Rightarrow> module_id \<Rightarrow> local_manager \<Rightarrow> local_manager" where
  "insert_proxy_ecdsa C proxy mid m =
     (let proxy_address = ecdsa_signer_address C (ep_signer proxy) in
      m\<lparr>lm_proxy_signers := (lm_proxy_signers m)
           \<lparr>px_ecdsa_signers := AList.update proxy_address proxy (px_ecdsa_signers (lm_proxy_signers m))\<rparr>,
        lm_proxy_addresses_ecdsa := push_entry mid proxy_address (lm_proxy_addresses_ecdsa m)\<rparr>)"

text \<open>The key is persisted first; when that fails the manager is not changed.\<close>

definition add_proxy_signer_bls ::
  "crypto \<Rightarrow> storelib \<Rightarrow> string \<Rightarrow> nat \<Rightarrow> bls_proxy_signer \<Rightarrow> module_id \<Rightarrow> local_manager \<Rightarrow> filesystem
     \<Rightarrow> local_manager \<times> filesystem \<times> (string, unit) result" where
  "add_proxy_signer_bls C L password seed proxy mid m fs =
     (case lm_proxy_store m of
        None \<Rightarrow> (insert_proxy_bls C proxy mid m, fs, Ok ())
      | Some store \<Rightarrow>
          (case store_proxy_bls C L store mid proxy password seed fs of
             (fs', Inl e) \<Rightarrow> (m, fs', Err e)
           | (fs', Inr _) \<Rightarrow> (insert_proxy_bls C proxy mid m, fs', Ok ())))"

definition add_proxy_signer_ecdsa ::
  "crypto \<Rightarrow> storelib \<Rightarrow> string \<Rightarrow> nat \<Rightarrow> ecdsa_proxy_signer \<Rightarrow> module_id \<Rightarrow> local_manager \<Rightarrow> filesystem
     \<Rightarrow> local_manager \<times> filesystem \<times> (string, unit) result" where
  "add_proxy_signer_ecdsa C L password seed proxy mid m fs =
     (case lm_proxy_store m of
        None \<Rightarrow> (insert_proxy_ecdsa C proxy mid m, fs, Ok ())
      | Some store \<Rightarrow>
          (case store_proxy_ecdsa C L store mid proxy password seed fs of
             (fs', Inl e) \<Rightarrow> (m, fs', Err e)
           | (fs', Inr _) \<Rightarrow> (insert_proxy_ecdsa C proxy mid m, fs', Ok ())))"

section \<open>Signing\<close>

definition sign_consensus ::
  "crypto \<Rightarrow> local_manager \<Rightarrow> bls_public_key \<Rightarrow> b256 \<Rightarrow> b256 option
     \<Rightarrow> (signer_module_error, bls_signature) result" where
  "sign_consensus C m pubkey object_root module_signing_id =
     (case map_of (lm_consensus_signers m) pubkey of
        None \<Rightarrow> Err (UnknownConsensusSigner (fixed_bytes 48 pubkey))
      | Some signer \<Rightarrow> Ok (bls_signer_sign C signer (lm_chain m) object_root module_signing_id))"

definition sign_proxy_bls ::
  "crypto \<Rightarrow> local_manager \<Rightarrow> bls_public_key \<Rightarrow> b256 \<Rightarrow> b256 option
     \<Rightarrow> (signer_module_error, bls_signature) result" where
  "sign_proxy_bls C m pubkey object_root module_signing_id =
     (case map_of (px_bls_signers (lm_proxy_signers m)) pubkey of
        None \<Rightarrow> Err (UnknownProxySigner (fixed_bytes 48 pubkey))
      | Some bls_proxy \<Rightarrow>
          Ok (bls_signer_sign C (bp_signer bls_proxy) (lm_chain m) object_root module_signing_id))"

definition sign_proxy_ecdsa ::
  "crypto \<Rightarrow> local_manager \<Rightarrow> address \<Rightarrow> b256 \<Rightarrow> b256 option
     \<Rightarrow> (signer_module_error, ecdsa_signature) result" where
  "sign_proxy_ecdsa C m addr object_root module_signing_id =
     (case map_of (px_ecdsa_signers (lm_proxy_signers m)) addr of
        None \<Rightarrow> Err (UnknownProxySigner (fixed_bytes 20 addr))
      | Some ecdsa_proxy \<Rightarrow>
          map_err SignerError
            (ecdsa_signer_sign C (ep_signer ecdsa_proxy) (lm_chain m) object_root module_signing_id))"

definition create_proxy_bls ::
  "crypto \<Rightarrow> storelib \<Rightarrow> bls_secret_key \<Rightarrow> string \<Rightarrow> nat \<Rightarrow> module_id \<Rightarrow> bls_public_key
     \<Rightarrow> local_manager \<Rightarrow> filesystem
     \<Rightarrow> local_manager \<times> filesystem \<times> (signer_module_error, signed_proxy_delegation_bls) result" where
  "create_proxy_bls C L new_random password seed mid delegator m fs =
     (let signer = BlsLocal new_random;
          message = \<lparr>pd_delegator = delegator, pd_proxy = bls_signer_pubkey C signer\<rparr>
      in
      case sign_consensus C m delegator (delegation_root_bls C message) None of
        Inl e \<Rightarrow> (m, fs, Err e)
      | Inr signature \<Rightarrow>
          (let delegation = \<lparr>sd_message = message, sd_signature = signature\<rparr>;
               proxy_signer = \<lparr>bp_signer = signer, bp_delegation = delegation\<rparr>
           in
           case add_proxy_signer_bls C L password seed proxy_signer mid m fs of
             (m', fs', Inl e) \<Rightarrow> (m', fs', Err (InternalError e))
           | (m', fs', Inr _) \<Rightarrow> (m', fs', Ok delegation)))"

definition create_proxy_ecdsa ::
  "crypto \<Rightarrow> storelib \<Rightarrow> ecdsa_secret_key \<Rightarrow> string \<Rightarrow> nat \<Rightarrow> module_id \<Rightarrow> bls_public_key
     \<Rightarrow> local_manager \<Rightarrow> filesystem
     \<Rightarrow> local_manager \<times> filesystem \<times> (signer_module_error, signed_proxy_delegation_ecdsa) result" where
  "create_proxy_ecdsa C L new_random password seed mid delegator m fs =
     (let signer = EcdsaLocal new_random;
          message = \<lparr>pd_delegator = delegator, pd_proxy = ecdsa_signer_address C signer\<rparr>
      in
      case sign_consensus C m delegator (delegation_root_ecdsa C message) None of
        Inl e \<Rightarrow> (m, fs, Err e)
      | Inr signature \<Rightarrow>
          (let delegation = \<lparr>sd_message = message, sd_signature = signature\<rparr>;
               proxy_signer = \<lparr>ep_signer = signer, ep_delegation = delegation\<rparr>
           in
           case add_proxy_signer_ecdsa C L password seed proxy_signer mid m fs of
             (m', fs', Inl e) \<Rightarrow> (m', fs', Err (InternalError e))
           | (m', fs', Inr _) \<Rightarrow> (m', fs', Ok delegation)))"

section \<open>Queries\<close>

definition consensus_pubkeys :: "local_manager \<Rightarrow> bls_public_key list" where
  "consensus_pubkeys m = map fst (lm_consensus_signers m)"

definition has_consensus :: "local_manager \<Rightarrow> bls_public_key \<Rightarrow> bool" where
  "has_consensus m pubkey \<longleftrightarrow> map_of (lm_consensus_signers m) pubkey \<noteq> None"

definition keys_of_module :: "module_id \<Rightarrow> (module_id \<times> 'k list) list \<Rightarrow> 'k list" where
  "keys_of_module mid km = (case map_of km mid of Some ks \<Rightarrow> ks | None \<Rightarrow> [])"

definition has_proxy_bls_for_module :: "local_manager \<Rightarrow> bls_public_key \<Rightarrow> module_id \<Rightarrow> bool" where
  "has_proxy_bls_for_module m pk mid =
     (case map_of (lm_proxy_pubkeys_bls m) mid of Some keys \<Rightarrow> pk \<in> set keys | None \<Rightarrow> False)"

definition has_proxy_ecdsa_for_module :: "local_manager \<Rightarrow> address \<Rightarrow> module_id \<Rightarrow> bool" where
  "has_proxy_ecdsa_for_module m addr mid =
     (case map_of (lm_proxy_addresses_ecdsa m) mid of Some keys \<Rightarrow> addr \<in> set keys | None \<Rightarrow> False)"

definition get_delegation_bls ::
  "local_manager \<Rightarrow> bls_public_key \<Rightarrow> (signer_module_error, signed_proxy_delegation_bls) result" where
  "get_delegation_bls m pubkey =
     (case map_of (px_bls_signers (lm_proxy_signers m)) pubkey of
        Some x \<Rightarrow> Ok (bp_delegation x)
      | None \<Rightarrow> Err (UnknownProxySigner (fixed_bytes 48 pubkey)))"

definition get_delegation_ecdsa ::
  "local_manager \<Rightarrow> address \<Rightarrow> (signer_module_error, signed_proxy_delegation_ecdsa) result" where
  "get_delegation_ecdsa m addr =
     (case map_of (px_ecdsa_signers (lm_proxy_signers m)) addr of
        Some x \<Rightarrow> Ok (ep_delegation x)
      | None \<Rightarrow> Err (UnknownProxySigner (fixed_bytes 20 addr)))"

text \<open>\<open>iter_mut().find\<close> followed by an update of the entry found.\<close>

fun update_first :: "('a \<Rightarrow> bool) \<Rightarrow> ('a \<Rightarrow> 'a) \<Rightarrow> 'a list \<Rightarrow> 'a list option" where
  "update_first P f [] = None"
| "update_first P f (x # xs) =
     (if P x then Some (f x # xs) else map_option (Cons x) (update_first P f xs))"

definition push_proxy ::
  "(consensus_proxy_map \<Rightarrow> consensus_proxy_map) \<Rightarrow> bls_public_key \<Rightarrow> consensus_proxy_map list
     \<Rightarrow> (signer_module_error, consensus_proxy_map list) result" where
  "push_proxy f delegator keys =
     (case update_first (\<lambda>x. cpm_consensus x = delegator) f keys of
        Some keys' \<Rightarrow> Ok keys'
      | None \<Rightarrow> Err (UnknownConsensusSigner (fixed_bytes 48 delegator)))"

definition get_consensus_proxy_maps ::
  "local_manager \<Rightarrow> module_id \<Rightarrow> (signer_module_error, consensus_proxy_map list) result" where
  "get_consensus_proxy_maps m mid =
     and_then
       (try_fold (\<lambda>bls keys.
            and_then (get_delegation_bls m bls) (\<lambda>d.
              push_proxy (\<lambda>e. e\<lparr>cpm_proxy_bls := cpm_proxy_bls e @ [bls]\<rparr>) (pd_delegator (sd_message d)) keys))
          (keys_of_module mid (lm_proxy_pubkeys_bls m))
          (map consensus_proxy_map_new (consensus_pubkeys m)))
       (try_fold (\<lambda>ecdsa keys.
            and_then (get_delegation_ecdsa m ecdsa) (\<lambda>d.
              push_proxy (\<lambda>e. e\<lparr>cpm_proxy_ecdsa := cpm_proxy_ecdsa e @ [ecdsa]\<rparr>) (pd_delegator (sd_message d)) keys))
          (keys_of_module mid (lm_proxy_addresses_ecdsa m)))"

definition available_proxy_signers :: "local_manager \<Rightarrow> nat" where
  "available_proxy_signers m =
     length (px_bls_signers (lm_proxy_signers m)) + length (px_ecdsa_signers (lm_proxy_signers m))"

section \<open>The contract of a proxy registry\<close>

text \<open>
  What the two halves of the manager promise: the key added last is found with its proxy and is
  listed for its module, and nothing else changes.
\<close>

locale proxy_registry =
  fixes add :: "'proxy \<Rightarrow> module_id \<Rightarrow> 'm \<Rightarrow> 'm"
    and key_of :: "'proxy \<Rightarrow> 'key"
    and lookup :: "'m \<Rightarrow> 'key \<Rightarrow> 'proxy option"
    and listed :: "'m \<Rightarrow> module_id \<Rightarrow> 'key list"
  assumes lookup_add: "lookup (add p mid m) k = (if k = key_of p then Some p else lookup m k)"
    and listed_add: "listed (add p mid m) mid' =
      (if mid' = mid then listed m mid @ [key_of p] else listed m mid')"
begin

lemma adds_listed:
  "listed (foldl (\<lambda>m (p, mid). add p mid m) m ps) mid' =
     listed m mid' @ map (key_of \<circ> fst) (filter (\<lambda>(_, mid). mid = mid') ps)"
  by (induction ps arbitrary: m) (auto simp: listed_add)

lemma adds_lookup:
  "lookup (foldl (\<lambda>m (p, mid). add p mid m) m ps) k =
     (case find (\<lambda>(p, _). key_of p = k) (rev ps) of Some (p, _) \<Rightarrow> Some p | None \<Rightarrow> lookup m k)"
  by (induction ps rule: rev_induct) (auto simp: lookup_add)

lemma listed_known_add:
  assumes "\<And>mid k. k \<in> set (listed m mid) \<Longrightarrow> lookup m k \<noteq> None"
    and "k \<in> set (listed (add p mid m) mid')"
  shows "lookup (add p mid m) k \<noteq> None"
  using assms by (auto simp: lookup_add listed_add split: if_splits)

end

definition lookup_proxy_bls :: "local_manager \<Rightarrow> bls_public_key \<Rightarrow> bls_proxy_signer option" where
  "lookup_proxy_bls m = map_of (px_bls_signers (lm_proxy_signers m))"

definition lookup_proxy_ecdsa :: "local_manager \<Rightarrow> address \<Rightarrow> ecdsa_proxy_signer option" where
  "lookup_proxy_ecdsa m = map_of (px_ecdsa_signers (lm_proxy_signers m))"

definition listed_bls :: "local_manager \<Rightarrow> module_id \<Rightarrow> bls_public_key list" where
  "listed_bls m mid = keys_of_module mid (lm_proxy_pubkeys_bls m)"

definition listed_ecdsa :: "local_manager \<Rightarrow> module_id \<Rightarrow> address list" where
  "listed_ecdsa m mid = keys_of_module mid (lm_proxy_addresses_ecdsa m)"

lemma keys_of_module_push:
  "keys_of_module mid' (push_entry mid k km) =
     (if mid' = mid then keys_of_module mid km @ [k] else keys_of_module mid' km)"
  by (simp add: keys_of_module_def map_of_push_entry)

interpretation bls: proxy_registry
  "insert_proxy_bls C" "\<lambda>p. bls_signer_pubkey C (bp_signer p)" lookup_proxy_bls listed_bls for C
  by unfold_locales
    (auto simp: lookup_proxy_bls_def listed_bls_def insert_proxy_bls_def Let_def update_conv'
      keys_of_module_push)

interpretation ecdsa: proxy_registry
  "insert_proxy_ecdsa C" "\<lambda>p. ecdsa_signer_address C (ep_signer p)" lookup_proxy_ecdsa listed_ecdsa for C
  by unfold_locales
    (auto simp: lookup_proxy_ecdsa_def listed_ecdsa_def insert_proxy_ecdsa_def Let_def update_conv'
      keys_of_module_push)

text \<open>The two halves do not touch each other.\<close>

lemma insert_proxy_frame [simp]:
  "lookup_proxy_ecdsa (insert_proxy_bls C p mid m) = lookup_proxy_ecdsa m"
  "listed_ecdsa (insert_proxy_bls C p mid m) = listed_ecdsa m"
  "lookup_proxy_bls (insert_proxy_ecdsa C q mid m) = lookup_proxy_bls m"
  "listed_bls (insert_proxy_ecdsa C q mid m) = listed_bls m"
  "lm_consensus_signers (insert_proxy_bls C p mid m) = lm_consensus_signers m"
  "lm_consensus_signers (insert_proxy_ecdsa C q mid m) = lm_consensus_signers m"
  "lm_chain (insert_proxy_bls C p mid m) = lm_chain m"
  "lm_chain (insert_proxy_ecdsa C q mid m) = lm_chain m"
  by (simp_all add: lookup_proxy_ecdsa_def lookup_proxy_bls_def listed_ecdsa_def listed_bls_def
      insert_proxy_bls_def insert_proxy_ecdsa_def Let_def fun_eq_iff)

section \<open>Properties\<close>

subsection \<open>The key maps of a module\<close>

lemma update_first_consensus:
  "distinct (map cpm_consensus keys) \<Longrightarrow> d \<in> cpm_consensus ` set keys \<Longrightarrow>
     update_first (\<lambda>x. cpm_consensus x = d) f keys =
       Some (map (\<lambda>x. if cpm_consensus x = d then f x else x) keys)"
proof (induction keys)
  case Nil
  then show ?case by simp
next
  case (Cons x keys)
  show ?case
  proof (cases "cpm_consensus x = d")
    case True
    then have "d \<notin> cpm_consensus ` set keys" using Cons.prems(1) by auto
    then have "\<And>y. y \<in> set keys \<Longrightarrow> cpm_consensus y \<noteq> d" by blast
    with True show ?thesis by (simp cong: map_cong)
  next
    case False
    with Cons show ?thesis by auto
  qed
qed

lemma push_proxies:
  assumes "distinct (map cpm_consensus keys)"
    and "\<And>b. b \<in> set bs \<Longrightarrow> \<exists>d. get b = Ok d \<and> deleg d = dl b \<and> dl b \<in> cpm_consensus ` set keys"
    and f: "\<And>b e. cpm_consensus (f b e) = cpm_consensus e"
  shows "try_fold (\<lambda>b keys. and_then (get b) (\<lambda>d. push_proxy (f b) (deleg d) keys)) bs keys
    = Ok (map (\<lambda>e. fold f (filter (\<lambda>b. dl b = cpm_consensus e) bs) e) keys)"
  using assms(1,2)
proof (induction bs arbitrary: keys)
  case Nil
  then show ?case by (simp cong: map_cong)
next
  case (Cons b bs)
  from Cons.prems(2) [of b] obtain d where d: "get b = Ok d" "deleg d = dl b"
    and mem: "dl b \<in> cpm_consensus ` set keys" by auto
  let ?keys = "map (\<lambda>x. if cpm_consensus x = dl b then f b x else x) keys"
  have cons: "map cpm_consensus ?keys = map cpm_consensus keys" by (simp add: f)
  have im: "cpm_consensus ` set ?keys = cpm_consensus ` set keys"
    using arg_cong [OF cons, of set] by (simp only: list.set_map)
  have "try_fold (\<lambda>b keys. and_then (get b) (\<lambda>d. push_proxy (f b) (deleg d) keys)) bs ?keys
    = Ok (map (\<lambda>e. fold f (filter (\<lambda>b. dl b = cpm_consensus e) bs) e) ?keys)"
    by (rule Cons.IH) (use Cons.prems cons im in \<open>auto simp del: map_map\<close>)
  with d update_first_consensus [OF Cons.prems(1) mem] show ?case
    by (auto simp: push_proxy_def f)
qed

lemma fold_push_bls:
  "fold (\<lambda>b e. e\<lparr>cpm_proxy_bls := cpm_proxy_bls e @ [b]\<rparr>) bs e =
     e\<lparr>cpm_proxy_bls := cpm_proxy_bls e @ bs\<rparr>"
  by (induction bs arbitrary: e) auto

lemma fold_push_ecdsa:
  "fold (\<lambda>b e. e\<lparr>cpm_proxy_ecdsa := cpm_proxy_ecdsa e @ [b]\<rparr>) bs e =
     e\<lparr>cpm_proxy_ecdsa := cpm_proxy_ecdsa e @ bs\<rparr>"
  by (induction bs arbitrary: e) auto

definition delegator_bls :: "local_manager \<Rightarrow> bls_public_key \<Rightarrow> bls_public_key option" where
  "delegator_bls m b = map_option (\<lambda>p. pd_delegator (sd_message (bp_delegation p))) (lookup_proxy_bls m b)"

definition delegator_ecdsa :: "local_manager \<Rightarrow> address \<Rightarrow> bls_public_key option" where
  "delegator_ecdsa m a = map_option (\<lambda>p. pd_delegator (sd_message (ep_delegation p))) (lookup_proxy_ecdsa m a)"

text \<open>
  The answer to \<open>get_pubkeys\<close>: one entry per consensus key, listing the module's proxies whose
  delegator it is, in the order in which they were added.
\<close>

lemma get_consensus_proxy_maps_spec:
  assumes dist: "distinct (consensus_pubkeys m)"
    and bls: "\<And>b. b \<in> set (listed_bls m mid) \<Longrightarrow> \<exists>k\<in>set (consensus_pubkeys m). delegator_bls m b = Some k"
    and ecdsa: "\<And>a. a \<in> set (listed_ecdsa m mid) \<Longrightarrow> \<exists>k\<in>set (consensus_pubkeys m). delegator_ecdsa m a = Some k"
  shows "get_consensus_proxy_maps m mid = Ok (map (\<lambda>k.
      \<lparr>cpm_consensus = k,
       cpm_proxy_bls = filter (\<lambda>b. delegator_bls m b = Some k) (listed_bls m mid),
       cpm_proxy_ecdsa = filter (\<lambda>a. delegator_ecdsa m a = Some k) (listed_ecdsa m mid)\<rparr>)
    (consensus_pubkeys m))"
proof -
  let ?init = "map consensus_proxy_map_new (consensus_pubkeys m)"
  let ?deleg = "\<lambda>d. pd_delegator (sd_message d)"
  let ?dlb = "\<lambda>b. the (delegator_bls m b)"
  let ?dla = "\<lambda>a. the (delegator_ecdsa m a)"
  let ?fb = "\<lambda>b e. e\<lparr>cpm_proxy_bls := cpm_proxy_bls e @ [b]\<rparr>"
  let ?fa = "\<lambda>a e. e\<lparr>cpm_proxy_ecdsa := cpm_proxy_ecdsa e @ [a]\<rparr>"
  have init: "map cpm_consensus ?init = consensus_pubkeys m"
    by (simp add: consensus_proxy_map_new_def comp_def)
  let ?mid = "map (\<lambda>e. fold ?fb (filter (\<lambda>b. ?dlb b = cpm_consensus e) (listed_bls m mid)) e) ?init"
  have mid: "map cpm_consensus ?mid = consensus_pubkeys m"
    unfolding fold_push_bls using init by (simp add: comp_def)
  have sets: "cpm_consensus ` set ?init = set (consensus_pubkeys m)"
    "cpm_consensus ` set ?mid = set (consensus_pubkeys m)"
    using arg_cong [OF init, of set] arg_cong [OF mid, of set] by (simp_all only: list.set_map)
  have one: "try_fold (\<lambda>b keys. and_then (get_delegation_bls m b) (\<lambda>d. push_proxy (?fb b) (?deleg d) keys))
      (listed_bls m mid) ?init = Ok ?mid"
  proof (rule push_proxies)
    show "distinct (map cpm_consensus ?init)" unfolding init by (fact dist)
  next
    fix b
    assume "b \<in> set (listed_bls m mid)"
    from bls [OF this] show "\<exists>d. get_delegation_bls m b = Ok d \<and> ?deleg d = ?dlb b \<and>
        ?dlb b \<in> cpm_consensus ` set ?init"
      unfolding sets by (auto simp: delegator_bls_def get_delegation_bls_def lookup_proxy_bls_def)
  qed simp
  have two: "try_fold (\<lambda>a keys. and_then (get_delegation_ecdsa m a) (\<lambda>d. push_proxy (?fa a) (?deleg d) keys))
      (listed_ecdsa m mid) ?mid =
      Ok (map (\<lambda>e. fold ?fa (filter (\<lambda>a. ?dla a = cpm_consensus e) (listed_ecdsa m mid)) e) ?mid)"
  proof (rule push_proxies)
    show "distinct (map cpm_consensus ?mid)" unfolding mid by (fact dist)
  next
    fix a
    assume "a \<in> set (listed_ecdsa m mid)"
    from ecdsa [OF this] show "\<exists>d. get_delegation_ecdsa m a = Ok d \<and> ?deleg d = ?dla a \<and>
        ?dla a \<in> cpm_consensus ` set ?mid"
      unfolding sets by (auto simp: delegator_ecdsa_def get_delegation_ecdsa_def lookup_proxy_ecdsa_def)
  qed simp
  have fb: "filter (\<lambda>b. ?dlb b = k) (listed_bls m mid) = filter (\<lambda>b. delegator_bls m b = Some k) (listed_bls m mid)"
    for k by (rule filter_cong) (use bls in force)+
  have fa: "filter (\<lambda>a. ?dla a = k) (listed_ecdsa m mid) = filter (\<lambda>a. delegator_ecdsa m a = Some k) (listed_ecdsa m mid)"
    for k by (rule filter_cong) (use ecdsa in force)+
  from one two show ?thesis
    unfolding get_consensus_proxy_maps_def listed_bls_def [symmetric] listed_ecdsa_def [symmetric]
    by (simp add: fold_push_bls fold_push_ecdsa consensus_proxy_map_new_def fb fa)
qed

subsection \<open>Invariant\<close>

text \<open>
  Signers are stored under their own public key; every proxy is stored under its own key, with a
  delegation that names it, names a consensus key of the manager and carries a valid signature of
  that key; every key listed for a module is known.
\<close>

definition bls_proxy_ok :: "crypto \<Rightarrow> local_manager \<Rightarrow> bls_public_key \<Rightarrow> bls_proxy_signer \<Rightarrow> bool" where
  "bls_proxy_ok C m k p \<longleftrightarrow>
     bls_signer_pubkey C (bp_signer p) = k \<and> pd_proxy (sd_message (bp_delegation p)) = k \<and>
     has_consensus m (pd_delegator (sd_message (bp_delegation p))) \<and>
     delegation_validate C (delegation_root_bls C) (bp_delegation p) (lm_chain m) = Ok ()"

definition ecdsa_proxy_ok :: "crypto \<Rightarrow> local_manager \<Rightarrow> address \<Rightarrow> ecdsa_proxy_signer \<Rightarrow> bool" where
  "ecdsa_proxy_ok C m k p \<longleftrightarrow>
     ecdsa_signer_address C (ep_signer p) = k \<and> pd_proxy (sd_message (ep_delegation p)) = k \<and>
     has_consensus m (pd_delegator (sd_message (ep_delegation p))) \<and>
     delegation_validate C (delegation_root_ecdsa C) (ep_delegation p) (lm_chain m) = Ok ()"

definition local_wf :: "crypto \<Rightarrow> local_manager \<Rightarrow> bool" where
  "local_wf C m \<longleftrightarrow>
     distinct (consensus_pubkeys m) \<and>
     (\<forall>k s. map_of (lm_consensus_signers m) k = Some s \<longrightarrow> bls_signer_pubkey C s = k) \<and>
     (\<forall>k p. lookup_proxy_bls m k = Some p \<longrightarrow> bls_proxy_ok C m k p) \<and>
     (\<forall>k p. lookup_proxy_ecdsa m k = Some p \<longrightarrow> ecdsa_proxy_ok C m k p) \<and>
     (\<forall>mid. \<forall>k\<in>set (listed_bls m mid). lookup_proxy_bls m k \<noteq> None) \<and>
     (\<forall>mid. \<forall>k\<in>set (listed_ecdsa m mid). lookup_proxy_ecdsa m k \<noteq> None)"

text \<open>
  The part of it that holds of every manager, also of one whose proxies were loaded from a store, which
  are not checked: signers and proxies are stored under their own keys, and every key listed is known.
\<close>

definition local_keyed :: "crypto \<Rightarrow> local_manager \<Rightarrow> bool" where
  "local_keyed C m \<longleftrightarrow>
     distinct (consensus_pubkeys m) \<and>
     (\<forall>k s. map_of (lm_consensus_signers m) k = Some s \<longrightarrow> bls_signer_pubkey C s = k) \<and>
     (\<forall>k p. lookup_proxy_bls m k = Some p \<longrightarrow> bls_signer_pubkey C (bp_signer p) = k) \<and>
     (\<forall>k p. lookup_proxy_ecdsa m k = Some p \<longrightarrow> ecdsa_signer_address C (ep_signer p) = k) \<and>
     (\<forall>mid. \<forall>k\<in>set (listed_bls m mid). lookup_proxy_bls m k \<noteq> None) \<and>
     (\<forall>mid. \<forall>k\<in>set (listed_ecdsa m mid). lookup_proxy_ecdsa m k \<noteq> None)"

lemma local_wf_keyed: "local_wf C m \<Longrightarrow> local_keyed C m"
  unfolding local_wf_def local_keyed_def bls_proxy_ok_def ecdsa_proxy_ok_def by blast

lemma has_consensus_iff: "has_consensus m k \<longleftrightarrow> k \<in> set (consensus_pubkeys m)"
  by (simp add: has_consensus_def consensus_pubkeys_def map_of_eq_None_iff)

lemma has_consensus_insert [simp]:
  "has_consensus (insert_proxy_bls C p mid m) k = has_consensus m k"
  "has_consensus (insert_proxy_ecdsa C q mid m) k = has_consensus m k"
  by (simp_all add: has_consensus_def)

lemma proxy_ok_insert [simp]:
  "bls_proxy_ok C (insert_proxy_bls C' p mid m) k q = bls_proxy_ok C m k q"
  "bls_proxy_ok C (insert_proxy_ecdsa C' p' mid m) k q = bls_proxy_ok C m k q"
  "ecdsa_proxy_ok C (insert_proxy_bls C' p mid m) a q' = ecdsa_proxy_ok C m a q'"
  "ecdsa_proxy_ok C (insert_proxy_ecdsa C' p' mid m) a q' = ecdsa_proxy_ok C m a q'"
  by (simp_all add: bls_proxy_ok_def ecdsa_proxy_ok_def)

lemma consensus_pubkeys_insert [simp]:
  "consensus_pubkeys (insert_proxy_bls C p mid m) = consensus_pubkeys m"
  "consensus_pubkeys (insert_proxy_ecdsa C q mid m) = consensus_pubkeys m"
  by (simp_all add: consensus_pubkeys_def)

lemma local_wf_insert_bls:
  assumes "local_wf C m" and "bls_proxy_ok C m (bls_signer_pubkey C (bp_signer p)) p"
  shows "local_wf C (insert_proxy_bls C p mid m)"
  using assms
  by (auto simp: local_wf_def bls.lookup_add bls.listed_add split: if_splits)

lemma local_wf_insert_ecdsa:
  assumes "local_wf C m" and "ecdsa_proxy_ok C m (ecdsa_signer_address C (ep_signer p)) p"
  shows "local_wf C (insert_proxy_ecdsa C p mid m)"
  using assms
  by (auto simp: local_wf_def ecdsa.lookup_add ecdsa.listed_add split: if_splits)

text \<open>The proxies of a module all have their delegators among the consensus keys.\<close>

definition proxies_delegated :: "local_manager \<Rightarrow> module_id \<Rightarrow> bool" where
  "proxies_delegated m mid \<longleftrightarrow>
     (\<forall>b\<in>set (listed_bls m mid). \<exists>k\<in>set (consensus_pubkeys m). delegator_bls m b = Some k) \<and>
     (\<forall>a\<in>set (listed_ecdsa m mid). \<exists>k\<in>set (consensus_pubkeys m). delegator_ecdsa m a = Some k)"

lemma local_wf_delegated:
  assumes "local_wf C m"
  shows "proxies_delegated m mid"
  unfolding proxies_delegated_def
proof (intro conjI ballI)
  fix b
  assume "b \<in> set (listed_bls m mid)"
  with assms obtain p where "lookup_proxy_bls m b = Some p" "bls_proxy_ok C m b p"
    unfolding local_wf_def by blast
  then show "\<exists>k\<in>set (consensus_pubkeys m). delegator_bls m b = Some k"
    by (simp add: delegator_bls_def bls_proxy_ok_def has_consensus_iff)
next
  fix a
  assume "a \<in> set (listed_ecdsa m mid)"
  with assms obtain p where "lookup_proxy_ecdsa m a = Some p" "ecdsa_proxy_ok C m a p"
    unfolding local_wf_def by blast
  then show "\<exists>k\<in>set (consensus_pubkeys m). delegator_ecdsa m a = Some k"
    by (simp add: delegator_ecdsa_def ecdsa_proxy_ok_def has_consensus_iff)
qed

text \<open>On a well-formed manager the query never fails.\<close>

lemma local_wf_proxy_maps:
  assumes "local_wf C m"
  shows "get_consensus_proxy_maps m mid = Ok (map (\<lambda>k.
      \<lparr>cpm_consensus = k,
       cpm_proxy_bls = filter (\<lambda>b. delegator_bls m b = Some k) (listed_bls m mid),
       cpm_proxy_ecdsa = filter (\<lambda>a. delegator_ecdsa m a = Some k) (listed_ecdsa m mid)\<rparr>)
    (consensus_pubkeys m))"
  using local_wf_delegated [OF assms, of mid] assms
  by (intro get_consensus_proxy_maps_spec) (auto simp: proxies_delegated_def local_wf_def)

text \<open>A consensus signature of the manager verifies under the key it was asked for.\<close>

lemma sign_consensus_verifies:
  assumes "bls_complete C" and "local_keyed C m" and "sign_consensus C m pubkey root sid = Ok sig"
  shows "verify_signed_message C (lm_chain m) pubkey root sig sid COMMIT_BOOST_DOMAIN = Ok ()
    \<and> has_consensus m pubkey"
proof -
  from assms(3) obtain s where s: "map_of (lm_consensus_signers m) pubkey = Some s"
    and sig: "sig = bls_signer_sign C s (lm_chain m) root sid"
    by (auto simp: sign_consensus_def split: option.splits)
  obtain sk where sk: "s = BlsLocal sk" by (cases s)
  have "bls_signer_pubkey C s = pubkey" using assms(2) s unfolding local_keyed_def by blast
  then have "pubkey = blst_sk_to_pk C sk" using sk by simp
  with sig sk s show ?thesis
    by (simp add: verify_signed_message_def sign_commit_boost_root_def verify_sign_message [OF assms(1)]
        has_consensus_def)
qed

lemma create_proxy_bls_Ok:
  assumes "bls_complete C" and "local_wf C m"
    and "create_proxy_bls C L sk pw seed mid delegator m fs = (m', fs', Ok d)"
  shows "\<exists>p. m' = insert_proxy_bls C p mid m \<and> bp_signer p = BlsLocal sk \<and> bp_delegation p = d \<and>
    pd_delegator (sd_message d) = delegator \<and> bls_proxy_ok C m (blst_sk_to_pk C sk) p"
proof -
  let ?msg = "\<lparr>pd_delegator = delegator, pd_proxy = blst_sk_to_pk C sk\<rparr>"
  from assms(3) obtain sig where sig: "sign_consensus C m delegator (delegation_root_bls C ?msg) None = Ok sig"
    and d: "d = \<lparr>sd_message = ?msg, sd_signature = sig\<rparr>"
    and m': "m' = insert_proxy_bls C \<lparr>bp_signer = BlsLocal sk, bp_delegation = d\<rparr> mid m"
    by (auto simp: create_proxy_bls_def add_proxy_signer_bls_def Let_def
        split: sum.splits option.splits prod.splits)
  from sign_consensus_verifies [OF assms(1) local_wf_keyed [OF assms(2)] sig] m' d show ?thesis
    by (intro exI [of _ "\<lparr>bp_signer = BlsLocal sk, bp_delegation = d\<rparr>"])
      (simp add: bls_proxy_ok_def delegation_validate_def)
qed

lemma create_proxy_ecdsa_Ok:
  assumes "bls_complete C" and "local_wf C m"
    and "create_proxy_ecdsa C L sk pw seed mid delegator m fs = (m', fs', Ok d)"
  shows "\<exists>p. m' = insert_proxy_ecdsa C p mid m \<and> ep_signer p = EcdsaLocal sk \<and> ep_delegation p = d \<and>
    pd_delegator (sd_message d) = delegator \<and> ecdsa_proxy_ok C m (ecdsa_address C sk) p"
proof -
  let ?msg = "\<lparr>pd_delegator = delegator, pd_proxy = ecdsa_address C sk\<rparr>"
  from assms(3) obtain sig where sig: "sign_consensus C m delegator (delegation_root_ecdsa C ?msg) None = Ok sig"
    and d: "d = \<lparr>sd_message = ?msg, sd_signature = sig\<rparr>"
    and m': "m' = insert_proxy_ecdsa C \<lparr>ep_signer = EcdsaLocal sk, ep_delegation = d\<rparr> mid m"
    by (auto simp: create_proxy_ecdsa_def add_proxy_signer_ecdsa_def Let_def
        split: sum.splits option.splits prod.splits)
  from sign_consensus_verifies [OF assms(1) local_wf_keyed [OF assms(2)] sig] m' d show ?thesis
    by (intro exI [of _ "\<lparr>ep_signer = EcdsaLocal sk, ep_delegation = d\<rparr>"])
      (simp add: ecdsa_proxy_ok_def delegation_validate_def)
qed

lemma create_proxy_bls_Err:
  "create_proxy_bls C L sk pw seed mid delegator m fs = (m', fs', Err e) \<Longrightarrow> m' = m"
  by (auto simp: create_proxy_bls_def add_proxy_signer_bls_def Let_def
      split: sum.splits option.splits prod.splits)

lemma create_proxy_ecdsa_Err:
  "create_proxy_ecdsa C L sk pw seed mid delegator m fs = (m', fs', Err e) \<Longrightarrow> m' = m"
  by (auto simp: create_proxy_ecdsa_def add_proxy_signer_ecdsa_def Let_def
      split: sum.splits option.splits prod.splits)

lemma add_consensus_signer_simps [simp]:
  "lookup_proxy_bls (add_consensus_signer C s m) = lookup_proxy_bls m"
  "lookup_proxy_ecdsa (add_consensus_signer C s m) = lookup_proxy_ecdsa m"
  "listed_bls (add_consensus_signer C s m) = listed_bls m"
  "listed_ecdsa (add_consensus_signer C s m) = listed_ecdsa m"
  "lm_chain (add_consensus_signer C s m) = lm_chain m"
  "map_of (lm_consensus_signers (add_consensus_signer C s m)) =
     (map_of (lm_consensus_signers m))(bls_signer_pubkey C s \<mapsto> s)"
  by (simp_all add: add_consensus_signer_def lookup_proxy_bls_def lookup_proxy_ecdsa_def
      listed_bls_def listed_ecdsa_def update_conv' fun_eq_iff)

lemma local_wf_add_consensus:
  assumes "local_wf C m"
  shows "local_wf C (add_consensus_signer C s m)"
proof -
  have "distinct (consensus_pubkeys (add_consensus_signer C s m))"
    using assms by (simp add: local_wf_def consensus_pubkeys_def add_consensus_signer_def distinct_update)
  moreover have "has_consensus (add_consensus_signer C s m) k" if "has_consensus m k" for k
    using that by (simp add: has_consensus_def)
  ultimately show ?thesis
    using assms by (auto simp: local_wf_def bls_proxy_ok_def ecdsa_proxy_ok_def split: if_splits)
qed

lemma local_wf_new: "local_manager_new C L fs chain None = Ok m \<Longrightarrow> local_wf C m"
  by (auto simp: local_manager_new_def local_wf_def consensus_pubkeys_def lookup_proxy_bls_def
      lookup_proxy_ecdsa_def listed_bls_def listed_ecdsa_def keys_of_module_def proxy_signers_default_def)

text \<open>The weaker invariant holds after a start with any store, and every operation keeps it.\<close>

lemma local_keyed_insert:
  assumes "local_keyed C m"
  shows "local_keyed C (insert_proxy_bls C p mid m)" and "local_keyed C (insert_proxy_ecdsa C q mid m)"
  using assms
  by (auto simp: local_keyed_def bls.lookup_add bls.listed_add ecdsa.lookup_add ecdsa.listed_add split: if_splits)

lemma local_keyed_add_consensus:
  assumes "local_keyed C m"
  shows "local_keyed C (add_consensus_signer C s m)"
proof -
  have "distinct (consensus_pubkeys (add_consensus_signer C s m))"
    using assms by (simp add: local_keyed_def consensus_pubkeys_def add_consensus_signer_def distinct_update)
  then show ?thesis using assms by (auto simp: local_keyed_def split: if_splits)
qed

definition with_loaded :: "local_manager \<Rightarrow> loaded_proxies \<Rightarrow> local_manager" where
  "with_loaded m = (\<lambda>(proxies, bls, ecdsa).
     m\<lparr>lm_proxy_signers := proxies, lm_proxy_pubkeys_bls := bls, lm_proxy_addresses_ecdsa := ecdsa\<rparr>)"

lemma with_loaded_insert:
  "with_loaded m (insert_bls_proxy C mid p st) = insert_proxy_bls C p mid (with_loaded m st)"
  "with_loaded m (insert_ecdsa_proxy C mid q st) = insert_proxy_ecdsa C q mid (with_loaded m st)"
  by (cases st; simp add: with_loaded_def insert_bls_proxy_def insert_ecdsa_proxy_def insert_proxy_bls_def
      insert_proxy_ecdsa_def Let_def)+

lemma local_keyed_new:
  assumes "local_manager_new C L fs chain store = Ok m"
  shows "local_keyed C m"
proof -
  let ?m0 = "\<lparr>lm_chain = chain, lm_proxy_store = store, lm_consensus_signers = [],
    lm_proxy_signers = proxy_signers_default, lm_proxy_pubkeys_bls = [], lm_proxy_addresses_ecdsa = []\<rparr>"
  have empty: "local_keyed C ?m0"
    by (simp add: local_keyed_def consensus_pubkeys_def lookup_proxy_bls_def lookup_proxy_ecdsa_def listed_bls_def
        listed_ecdsa_def keys_of_module_def proxy_signers_default_def)
  show ?thesis
  proof (cases store)
    case None
    with assms empty show ?thesis by (simp add: local_manager_new_def)
  next
    case (Some st)
    with assms obtain loaded where loaded: "load_proxies C L st fs = Ok loaded" "m = with_loaded ?m0 loaded"
      by (auto simp: local_manager_new_def with_loaded_def and_then_Ok_iff)
    have "with_loaded ?m0 (proxy_signers_default, [], []) = ?m0" by (simp add: with_loaded_def)
    with loaded(2) load_proxies_invariant [OF loaded(1), where P = "\<lambda>st. local_keyed C (with_loaded ?m0 st)"] empty
    show ?thesis by (simp add: with_loaded_insert local_keyed_insert)
  qed
qed

lemma create_proxy_insert:
  "create_proxy_bls C L sk pw seed mid delegator m fs = (m', fs', r) \<Longrightarrow>
     m' = m \<or> (\<exists>p. m' = insert_proxy_bls C p mid m)"
  "create_proxy_ecdsa C L sk' pw seed mid delegator m fs = (m', fs', r') \<Longrightarrow>
     m' = m \<or> (\<exists>q. m' = insert_proxy_ecdsa C q mid m)"
  by (auto simp: create_proxy_bls_def create_proxy_ecdsa_def add_proxy_signer_bls_def add_proxy_signer_ecdsa_def Let_def
      split: sum.splits option.splits prod.splits)

text \<open>
  Managers reached by the operations of the signer service, from the one that is made at the start, with the
  proxies of its store if it has one; the outcomes of the writes may differ from one operation to the next.
\<close>

inductive local_reachable ::
  "crypto \<Rightarrow> storelib \<Rightarrow> proxy_store option \<Rightarrow> local_manager \<Rightarrow> filesystem \<Rightarrow> bool" for C L store where
  fresh: "local_manager_new C L fs chain store = Ok m \<Longrightarrow> local_reachable C L store m fs"
| consensus: "local_reachable C L store m fs \<Longrightarrow> local_reachable C L store (add_consensus_signer C s m) fs"
| bls_proxy: "local_reachable C L store m fs \<Longrightarrow>
    create_proxy_bls C (L\<lparr>sl_write := w\<rparr>) sk pw seed mid delegator m fs = (m', fs', r) \<Longrightarrow>
    local_reachable C L store m' fs'"
| ecdsa_proxy: "local_reachable C L store m fs \<Longrightarrow>
    create_proxy_ecdsa C (L\<lparr>sl_write := w\<rparr>) sk' pw seed mid delegator m fs = (m', fs', r') \<Longrightarrow>
    local_reachable C L store m' fs'"

lemma local_reachable_keyed: "local_reachable C L store m fs \<Longrightarrow> local_keyed C m"
proof (induction rule: local_reachable.induct)
  case (fresh fs chain m)
  then show ?case by (rule local_keyed_new)
next
  case (consensus m fs s)
  then show ?case by (blast intro: local_keyed_add_consensus)
next
  case (bls_proxy m fs w sk pw seed mid delegator m' fs' r)
  then show ?case using create_proxy_insert(1) local_keyed_insert(1) by metis
next
  case (ecdsa_proxy m fs w sk' pw seed mid delegator m' fs' r')
  then show ?case using create_proxy_insert(2) local_keyed_insert(2) by metis
qed

lemma local_reachable_wf:
  assumes "local_reachable C L None m fs" and "bls_complete C"
  shows "local_wf C m"
  using assms(1)
proof (induction rule: local_reachable.induct)
  case (fresh fs chain m)
  then show ?case by (rule local_wf_new)
next
  case (consensus m fs s)
  then show ?case by (blast intro: local_wf_add_consensus)
next
  case (bls_proxy m fs w sk pw seed mid delegator m' fs' r)
  show ?case
  proof (cases r)
    case (Inl e)
    with bls_proxy create_proxy_bls_Err show ?thesis by blast
  next
    case (Inr d)
    from create_proxy_bls_Ok [OF assms(2) bls_proxy.IH bls_proxy.hyps(2) [unfolded Inr]] bls_proxy.IH
    show ?thesis by (auto intro: local_wf_insert_bls)
  qed
next
  case (ecdsa_proxy m fs w sk' pw seed mid delegator m' fs' r')
  show ?case
  proof (cases r')
    case (Inl e)
    with ecdsa_proxy create_proxy_ecdsa_Err show ?thesis by blast
  next
    case (Inr d)
    from create_proxy_ecdsa_Ok [OF assms(2) ecdsa_proxy.IH ecdsa_proxy.hyps(2) [unfolded Inr]] ecdsa_proxy.IH
    show ?thesis by (auto intro: local_wf_insert_ecdsa)
  qed
qed

subsection \<open>Proxies whose delegator is not there\<close>

lemma update_first_None: "d \<notin> cpm_consensus ` set keys \<Longrightarrow> update_first (\<lambda>x. cpm_consensus x = d) f keys = None"
  by (induction keys) auto

lemma update_first_keys:
  "update_first P f keys = Some keys' \<Longrightarrow> (\<And>x. cpm_consensus (f x) = cpm_consensus x) \<Longrightarrow>
     map cpm_consensus keys' = map cpm_consensus keys"
  by (induction keys arbitrary: keys') (auto split: if_splits)

lemma push_proxies_Err:
  assumes "b \<in> set bs" and "deleg (the_d b) \<notin> cpm_consensus ` set keys"
    and "\<And>b. b \<in> set bs \<Longrightarrow> get b = Ok (the_d b)" and f: "\<And>b e. cpm_consensus (f b e) = cpm_consensus e"
  shows "\<exists>k. try_fold (\<lambda>b keys. and_then (get b) (\<lambda>d. push_proxy (f b) (deleg d) keys)) bs keys = Err (UnknownConsensusSigner k)"
  using assms(1-3)
proof (induction bs arbitrary: keys)
  case (Cons c bs)
  show ?case
  proof (cases "update_first (\<lambda>x. cpm_consensus x = deleg (the_d c)) (f c) keys")
    case None
    with Cons.prems(3) show ?thesis by (simp add: push_proxy_def)
  next
    case (Some keys')
    then have "b \<noteq> c" using update_first_None [OF Cons.prems(2)] by auto
    moreover have "cpm_consensus ` set keys' = cpm_consensus ` set keys"
      using arg_cong [OF update_first_keys [OF Some f], of set] by simp
    ultimately show ?thesis using Cons.IH [of keys'] Cons.prems Some by (simp add: push_proxy_def)
  qed
qed simp

lemma push_proxies_keys:
  assumes "try_fold (\<lambda>b keys. and_then (get b) (\<lambda>d. push_proxy (f b) (deleg d) keys)) bs keys = Ok keys'"
    and f: "\<And>b e. cpm_consensus (f b e) = cpm_consensus e"
  shows "map cpm_consensus keys' = map cpm_consensus keys"
proof (rule try_fold_invariant [where P = "\<lambda>ks. map cpm_consensus ks = map cpm_consensus keys", OF assms(1)])
  fix b ks ks'
  assume "and_then (get b) (\<lambda>d. push_proxy (f b) (deleg d) ks) = Ok ks'" and "map cpm_consensus ks = map cpm_consensus keys"
  then show "map cpm_consensus ks' = map cpm_consensus keys"
    using update_first_keys [OF _ f] by (auto simp: and_then_Ok_iff push_proxy_def split: option.splits)
qed simp

lemma push_proxies_unknown:
  assumes "\<And>b. b \<in> set bs \<Longrightarrow> get b = Ok (the_d b)"
    and "try_fold (\<lambda>b keys. and_then (get b) (\<lambda>d. push_proxy (f b) (deleg d) keys)) bs keys = Err e"
  shows "\<exists>k. e = UnknownConsensusSigner k"
  using assms by (induction bs arbitrary: keys) (auto simp: push_proxy_def split: option.splits)

lemma keyed_delegation_bls:
  assumes "local_keyed C m" and "b \<in> set (listed_bls m mid)"
  shows "get_delegation_bls m b = Ok (bp_delegation (the (lookup_proxy_bls m b)))"
    and "delegator_bls m b = Some (pd_delegator (sd_message (bp_delegation (the (lookup_proxy_bls m b)))))"
proof -
  obtain p where "lookup_proxy_bls m b = Some p" using assms unfolding local_keyed_def by blast
  then show "get_delegation_bls m b = Ok (bp_delegation (the (lookup_proxy_bls m b)))"
    "delegator_bls m b = Some (pd_delegator (sd_message (bp_delegation (the (lookup_proxy_bls m b)))))"
    by (simp_all add: get_delegation_bls_def delegator_bls_def lookup_proxy_bls_def)
qed

lemma keyed_delegation_ecdsa:
  assumes "local_keyed C m" and "a \<in> set (listed_ecdsa m mid)"
  shows "get_delegation_ecdsa m a = Ok (ep_delegation (the (lookup_proxy_ecdsa m a)))"
    and "delegator_ecdsa m a = Some (pd_delegator (sd_message (ep_delegation (the (lookup_proxy_ecdsa m a)))))"
proof -
  obtain p where "lookup_proxy_ecdsa m a = Some p" using assms unfolding local_keyed_def by blast
  then show "get_delegation_ecdsa m a = Ok (ep_delegation (the (lookup_proxy_ecdsa m a)))"
    "delegator_ecdsa m a = Some (pd_delegator (sd_message (ep_delegation (the (lookup_proxy_ecdsa m a)))))"
    by (simp_all add: get_delegation_ecdsa_def delegator_ecdsa_def lookup_proxy_ecdsa_def)
qed

lemma undelegated_proxy_maps:
  assumes "local_keyed C m" and "\<not> proxies_delegated m mid"
  shows "\<exists>k. get_consensus_proxy_maps m mid = Err (UnknownConsensusSigner k)"
proof -
  let ?deleg = "\<lambda>d. pd_delegator (sd_message d)"
  let ?fb = "\<lambda>b e. e\<lparr>cpm_proxy_bls := cpm_proxy_bls e @ [b]\<rparr>"
  let ?fa = "\<lambda>a e. e\<lparr>cpm_proxy_ecdsa := cpm_proxy_ecdsa e @ [a]\<rparr>"
  let ?init = "map consensus_proxy_map_new (consensus_pubkeys m)"
  let ?one = "try_fold (\<lambda>b keys. and_then (get_delegation_bls m b) (\<lambda>d. push_proxy (?fb b) (?deleg d) keys)) (listed_bls m mid)"
  let ?two = "try_fold (\<lambda>a keys. and_then (get_delegation_ecdsa m a) (\<lambda>d. push_proxy (?fa a) (?deleg d) keys)) (listed_ecdsa m mid)"
  note b = keyed_delegation_bls [OF assms(1), of _ mid] and a = keyed_delegation_ecdsa [OF assms(1), of _ mid]
  have maps: "get_consensus_proxy_maps m mid = and_then (?one ?init) ?two"
    by (simp add: get_consensus_proxy_maps_def listed_bls_def listed_ecdsa_def)
  have init: "map cpm_consensus ?init = consensus_pubkeys m" by (simp add: consensus_proxy_map_new_def comp_def)
  have cons: "cpm_consensus ` set keys = set (consensus_pubkeys m)" if "map cpm_consensus keys = consensus_pubkeys m" for keys
    using arg_cong [OF that, of set] by simp
  show ?thesis
  proof (cases "?one ?init")
    case (Inl e)
    from push_proxies_unknown [OF b(1) Inl] Inl show ?thesis unfolding maps by auto
  next
    case (Inr keys)
    have keys: "map cpm_consensus keys = consensus_pubkeys m" using push_proxies_keys [OF Inr] init by simp
    have "?deleg (bp_delegation (the (lookup_proxy_bls m k))) \<in> set (consensus_pubkeys m)" if "k \<in> set (listed_bls m mid)" for k
      using push_proxies_Err [OF that, of ?deleg _ ?init "get_delegation_bls m" ?fb, OF _ b(1)] cons [OF init] Inr by fastforce
    with assms(2) b(2) a(2) obtain k where k: "k \<in> set (listed_ecdsa m mid)"
      "?deleg (ep_delegation (the (lookup_proxy_ecdsa m k))) \<notin> set (consensus_pubkeys m)"
      by (auto simp: proxies_delegated_def)
    from push_proxies_Err [OF k(1), of ?deleg _ keys "get_delegation_ecdsa m" ?fa, OF _ a(1)] k(2) cons [OF keys] Inr
    show ?thesis unfolding maps by auto
  qed
qed

end
