(* ===== verification/Dirk.thy ===== *)
theory Dirk
  imports Local_Manager
begin

text \<open>
  The Dirk signing manager: \<open>crates/signer/src/manager/dirk.rs\<close>. The gRPC services of a Dirk server
  are the record \<open>dirknet\<close>; a channel is a number. A response carries whether its state was
  \<open>Succeeded\<close>. Responses of the participants of a distributed account arrive in the order given by
  the caller. The scalar field and the signature group of \<open>blsful\<close> are a field type, a group type
  and the scalar multiplication and point encodings in the record \<open>siggroup\<close>.
\<close>

section \<open>Accounts\<close>

type_synonym channel = nat

record simple_account =
  sa_public_key :: bls_public_key
  sa_connection :: channel
  sa_name :: string

record distributed_account =
  da_composite_public_key :: bls_public_key
  da_participants :: "(u32 \<times> channel) list"
  da_threshold :: u32
  da_name :: string

datatype account = Simple simple_account | Distributed distributed_account

fun account_name :: "account \<Rightarrow> string" where
  "account_name (Simple a) = sa_name a"
| "account_name (Distributed a) = da_name a"

fun account_public_key :: "account \<Rightarrow> bls_public_key" where
  "account_public_key (Simple a) = sa_public_key a"
| "account_public_key (Distributed a) = da_composite_public_key a"

record proxy_account =
  pa_consensus :: account
  pa_module :: module_id
  pa_inner :: account

record dirk_manager =
  dm_chain :: chain
  dm_consensus_accounts :: "(bls_public_key \<times> account) list"
  dm_proxy_accounts :: "(bls_public_key \<times> proxy_account) list"
  dm_secrets_path :: string
  dm_delegations_store :: "proxy_store option"

section \<open>The remote services\<close>

record proto_account =
  pr_name :: string
  pr_public_key :: bytes

record proto_endpoint =
  pe_id :: u64
  pe_name :: string

record proto_distributed_account =
  pd_name :: string
  pd_composite_public_key :: bytes
  pd_participants :: "proto_endpoint list"
  pd_signing_threshold :: u32

record list_accounts_response =
  la_succeeded :: bool
  la_accounts :: "proto_account list"
  la_distributed_accounts :: "proto_distributed_account list"

datatype sign_id = IdPublicKey bls_public_key | IdAccount string

record dirk_sign_request =
  ds_data :: b256
  ds_domain :: b256
  ds_id :: sign_id

record generate_request =
  gr_account :: string
  gr_passphrase :: string
  gr_participants :: u32
  gr_signing_threshold :: u32

record dirknet =
  dn_connect :: "dirk_host_config \<Rightarrow> (string, channel) result"
  dn_list_accounts :: "channel \<Rightarrow> string list \<Rightarrow> (string, list_accounts_response) result"
  dn_sign :: "channel \<Rightarrow> dirk_sign_request \<Rightarrow> (string, bool \<times> bytes) result"
  dn_generate :: "channel \<Rightarrow> generate_request \<Rightarrow> (string, bool \<times> string \<times> bytes) result"
  dn_unlock :: "channel \<Rightarrow> string \<Rightarrow> string \<Rightarrow> (string, bool) result"
  dn_url_host :: "string \<Rightarrow> string option"
  dn_uuid_parses :: "string \<Rightarrow> bool"

definition signature_try_from :: "bytes \<Rightarrow> bls_signature option" where
  "signature_try_from bs = (if length bs = 96 then Some (word_of_nat (be_nat bs)) else None)"

section \<open>Loading accounts\<close>

text \<open>\<open>str::rsplit_once('/')\<close>\<close>

definition rsplit_slash :: "string \<Rightarrow> (string \<times> string) option" where
  "rsplit_slash s =
     (if CHR ''/'' \<in> set s
      then Some (rev (tl (dropWhile (\<lambda>c. c \<noteq> CHR ''/'') (rev s))),
                 rev (takeWhile (\<lambda>c. c \<noteq> CHR ''/'') (rev s)))
      else None)"

definition name_matches_proxy :: "dirknet \<Rightarrow> string \<Rightarrow> bool" where
  "name_matches_proxy N name \<longleftrightarrow>
     length (split_char CHR ''/'' name) > 3 \<and>
     (case rsplit_slash name of None \<Rightarrow> False | Some (_, last_part) \<Rightarrow> dn_uuid_parses N last_part)"

fun load_simple_accounts ::
  "dirknet \<Rightarrow> channel \<Rightarrow> proto_account list \<Rightarrow> (bls_public_key \<times> account) list
     \<Rightarrow> (bls_public_key \<times> account) list" where
  "load_simple_accounts N channel [] accounts = accounts"
| "load_simple_accounts N channel (a # rest) accounts =
     (if name_matches_proxy N (pr_name a) then load_simple_accounts N channel rest accounts
      else
        (case pubkey_try_from (pr_public_key a) of
           Inr public_key \<Rightarrow>
             load_simple_accounts N channel rest
               (AList.update public_key
                  (Simple \<lparr>sa_public_key = public_key, sa_connection = channel, sa_name = pr_name a\<rparr>)
                  accounts)
         | Inl _ \<Rightarrow> load_simple_accounts N channel rest accounts))"

text \<open>
  One distributed account; \<open>None\<close> is the \<open>bail!\<close> on a key that is known as a simple account. The
  participant id is narrowed with \<open>as u32\<close>.
\<close>

definition load_distributed_account ::
  "dirknet \<Rightarrow> string \<Rightarrow> channel \<Rightarrow> proto_distributed_account \<Rightarrow> (bls_public_key \<times> account) list
     \<Rightarrow> (bls_public_key \<times> account) list option" where
  "load_distributed_account N host_name channel a accounts =
     (if name_matches_proxy N (pd_name a) then Some accounts
      else
        (case pubkey_try_from (pd_composite_public_key a) of
           Inl _ \<Rightarrow> Some accounts
         | Inr public_key \<Rightarrow>
             (case find (\<lambda>p. pe_name p = host_name) (pd_participants a) of
                None \<Rightarrow> Some accounts
              | Some p \<Rightarrow>
                  if pe_id p = 0 then Some accounts
                  else
                    (case map_of accounts public_key of
                       Some (Distributed d) \<Rightarrow>
                         Some (AList.update public_key
                           (Distributed (d\<lparr>da_participants :=
                              AList.update (ucast (pe_id p)) channel (da_participants d)\<rparr>)) accounts)
                     | None \<Rightarrow>
                         Some (AList.update public_key
                           (Distributed \<lparr>da_composite_public_key = public_key,
                                         da_participants = [(ucast (pe_id p), channel)],
                                         da_threshold = pd_signing_threshold a,
                                         da_name = pd_name a\<rparr>) accounts)
                     | Some (Simple _) \<Rightarrow> None))))"

text \<open>The loop stops at the first \<open>bail!\<close>, keeping what was loaded before it.\<close>

fun load_distributed_loop ::
  "dirknet \<Rightarrow> string \<Rightarrow> channel \<Rightarrow> proto_distributed_account list \<Rightarrow> (bls_public_key \<times> account) list
     \<Rightarrow> (bls_public_key \<times> account) list" where
  "load_distributed_loop N host_name channel [] accounts = accounts"
| "load_distributed_loop N host_name channel (a # rest) accounts =
     (case load_distributed_account N host_name channel a accounts of
        None \<Rightarrow> accounts
      | Some accounts' \<Rightarrow> load_distributed_loop N host_name channel rest accounts')"

definition load_distributed_accounts ::
  "dirknet \<Rightarrow> dirk_host_config \<Rightarrow> channel \<Rightarrow> proto_distributed_account list
     \<Rightarrow> (bls_public_key \<times> account) list \<Rightarrow> (bls_public_key \<times> account) list" where
  "load_distributed_accounts N host channel as accounts =
     (case (case dh_server_name host of Some n \<Rightarrow> Some n | None \<Rightarrow> dn_url_host N (dh_url host)) of
        None \<Rightarrow> accounts
      | Some host_name \<Rightarrow> load_distributed_loop N host_name channel as accounts)"

definition load_host ::
  "dirknet \<Rightarrow> (bls_public_key \<times> account) list \<Rightarrow> dirk_host_config \<Rightarrow> (bls_public_key \<times> account) list" where
  "load_host N accounts host =
     (case dn_connect N host of
        Inl _ \<Rightarrow> accounts
      | Inr channel \<Rightarrow>
          (case dn_list_accounts N channel (dh_wallets host) of
             Inl _ \<Rightarrow> accounts
           | Inr res \<Rightarrow>
               if la_succeeded res
               then load_distributed_accounts N host channel (la_distributed_accounts res)
                      (load_simple_accounts N channel (la_accounts res) accounts)
               else accounts))"

definition dirk_manager_new :: "dirknet \<Rightarrow> chain \<Rightarrow> dirk_config \<Rightarrow> dirk_manager" where
  "dirk_manager_new N chain config =
     \<lparr>dm_chain = chain, dm_consensus_accounts = foldl (load_host N) [] (dk_hosts config),
      dm_proxy_accounts = [], dm_secrets_path = dk_secrets_path config, dm_delegations_store = None\<rparr>"

fun with_proxy_store :: "dirk_manager \<Rightarrow> proxy_store \<Rightarrow> (string, dirk_manager) result" where
  "with_proxy_store m (StoreERC2335 _ _) = Err ''ERC2335 proxy store not supported''"
| "with_proxy_store m (StoreFile dir) = Ok (m\<lparr>dm_delegations_store := Some (StoreFile dir)\<rparr>)"

section \<open>Queries\<close>

definition dirk_available_consensus_signers :: "dirk_manager \<Rightarrow> nat" where
  "dirk_available_consensus_signers m = length (dm_consensus_accounts m)"

definition dirk_available_proxy_signers :: "dirk_manager \<Rightarrow> nat" where
  "dirk_available_proxy_signers m = length (dm_proxy_accounts m)"

definition dirk_consensus_proxy_maps :: "dirk_manager \<Rightarrow> module_id \<Rightarrow> consensus_proxy_map list" where
  "dirk_consensus_proxy_maps m mid =
     map (\<lambda>account.
            \<lparr>cpm_consensus = account_public_key account,
             cpm_proxy_bls =
               List.map_filter (\<lambda>proxy.
                 if pa_module proxy = mid \<and>
                    account_public_key (pa_consensus proxy) = account_public_key account
                 then Some (account_public_key (pa_inner proxy)) else None)
                 (map snd (dm_proxy_accounts m)),
             cpm_proxy_ecdsa = []\<rparr>)
       (map snd (dm_consensus_accounts m))"

section \<open>Signatures\<close>

definition dirk_sign_data :: "crypto \<Rightarrow> b256 \<Rightarrow> b256 option \<Rightarrow> b256" where
  "dirk_sign_data C object_root module_signing_id =
     (case module_signing_id of
        Some mid \<Rightarrow> th_prop_commit_signing_info C object_root mid
      | None \<Rightarrow> object_root)"

definition request_simple_signature ::
  "crypto \<Rightarrow> dirknet \<Rightarrow> dirk_manager \<Rightarrow> simple_account \<Rightarrow> b256 \<Rightarrow> b256 option
     \<Rightarrow> (signer_module_error, bls_signature) result" where
  "request_simple_signature C N m account object_root module_signing_id =
     (case dn_sign N (sa_connection account)
             \<lparr>ds_data = dirk_sign_data C object_root module_signing_id,
              ds_domain = compute_domain C (dm_chain m) COMMIT_BOOST_DOMAIN,
              ds_id = IdPublicKey (sa_public_key account)\<rparr> of
        Inl _ \<Rightarrow> Err (DirkCommunicationError ''Failed to sign object'')
      | Inr (succeeded, sig) \<Rightarrow>
          if \<not> succeeded
          then Err (DirkCommunicationError ''Failed to sign object, server responded error'')
          else
            (case signature_try_from sig of
               None \<Rightarrow> Err (DirkCommunicationError ''Failed to parse signature'')
             | Some s \<Rightarrow> Ok s))"

text \<open>The partial signatures collected from the responses in order, until there are enough.\<close>

fun collect_partials ::
  "(u32 \<Rightarrow> channel \<Rightarrow> (string, bool \<times> bytes) result) \<Rightarrow> nat \<Rightarrow> (bls_signature \<times> u32) list
     \<Rightarrow> (u32 \<times> channel) list \<Rightarrow> (bls_signature \<times> u32) list" where
  "collect_partials respond threshold partials [] = partials"
| "collect_partials respond threshold partials ((pid, channel) # rest) =
     (case respond pid channel of
        Inl _ \<Rightarrow> collect_partials respond threshold partials rest
      | Inr (succeeded, bs) \<Rightarrow>
          if \<not> succeeded then collect_partials respond threshold partials rest
          else
            (case signature_try_from bs of
               None \<Rightarrow> collect_partials respond threshold partials rest
             | Some signature \<Rightarrow>
                 (let partials' = partials @ [(signature, pid)] in
                  if length partials' \<ge> threshold then partials'
                  else collect_partials respond threshold partials' rest)))"

record ('s, 'g) siggroup =
  sg_scale :: "'s \<Rightarrow> 'g \<Rightarrow> 'g"
  sg_from_compressed :: "bls_signature \<Rightarrow> 'g option"
  sg_to_compressed :: "'g \<Rightarrow> bls_signature"

fun deserialize_shares ::
  "('s, 'g) siggroup \<Rightarrow> (u32 \<times> 'g) list \<Rightarrow> (bls_signature \<times> u32) list
     \<Rightarrow> (string, (u32 \<times> 'g) list) result" where
  "deserialize_shares G shares [] = Ok shares"
| "deserialize_shares G shares ((signature, pid) # rest) =
     (case sg_from_compressed G signature of
        None \<Rightarrow> Err ''Failed to deserialize signature''
      | Some point \<Rightarrow> deserialize_shares G (AList.update pid point shares) rest)"

definition scalar :: "u32 \<Rightarrow> 's::field" where
  "scalar pid = of_nat (unat pid)"

text \<open>\<open>Scalar::invert\<close> has no result at zero.\<close>

definition lagrange_coeff :: "u32 list \<Rightarrow> u32 \<Rightarrow> 's::field option" where
  "lagrange_coeff ids pid =
     (let others = filter (\<lambda>other_id. other_id \<noteq> pid) ids;
          numerator = foldl (\<lambda>acc other_id. acc * scalar other_id) 1 others;
          denominator = foldl (\<lambda>acc other_id. acc * (scalar other_id - scalar pid)) 1 others
      in if denominator = 0 then None else Some (numerator * inverse denominator))"

fun interpolate ::
  "('s::field, 'g::ab_group_add) siggroup \<Rightarrow> u32 list \<Rightarrow> 'g \<Rightarrow> (u32 \<times> 'g) list \<Rightarrow> (string, 'g) result" where
  "interpolate G ids recovered [] = Ok recovered"
| "interpolate G ids recovered ((pid, point) # rest) =
     (case lagrange_coeff ids pid of
        None \<Rightarrow> Err ''Failed to get lagrange coefficient''
      | Some c \<Rightarrow> interpolate G ids (recovered + sg_scale G c point) rest)"

definition aggregate_partial_signatures ::
  "('s::field, 'g::ab_group_add) siggroup \<Rightarrow> (bls_signature \<times> u32) list \<Rightarrow> (string, bls_signature) result" where
  "aggregate_partial_signatures G partials =
     and_then (deserialize_shares G [] partials) (\<lambda>shares.
     and_then (interpolate G (map fst shares) 0 shares) (\<lambda>recovered.
       Ok (sg_to_compressed G recovered)))"

text \<open>
  \<open>FuturesUnordered\<close> yields the responses as they come in: \<open>arrival\<close> gives the time at which the response of each
  participant is there, and the loop sees the participants of the account in the order of these times.
\<close>

type_synonym arrival_times = "u32 \<times> channel \<Rightarrow> nat"

definition request_distributed_signature ::
  "crypto \<Rightarrow> dirknet \<Rightarrow> ('s::field, 'g::ab_group_add) siggroup
     \<Rightarrow> arrival_times \<Rightarrow> dirk_manager
     \<Rightarrow> distributed_account \<Rightarrow> b256 \<Rightarrow> b256 option \<Rightarrow> (signer_module_error, bls_signature) result" where
  "request_distributed_signature C N G arrival m account object_root module_signing_id =
     (let respond = (\<lambda>pid channel. dn_sign N channel
            \<lparr>ds_data = dirk_sign_data C object_root module_signing_id,
             ds_domain = compute_domain C (dm_chain m) COMMIT_BOOST_DOMAIN,
             ds_id = IdAccount (da_name account)\<rparr>);
          partials = collect_partials respond (unat (da_threshold account)) []
            (sort_key arrival (da_participants account))
      in
      if length partials < unat (da_threshold account)
      then Err (DirkCommunicationError ''Failed to get enough partial signatures'')
      else map_err InternalError (aggregate_partial_signatures G partials))"

definition request_account_signature ::
  "crypto \<Rightarrow> dirknet \<Rightarrow> ('s::field, 'g::ab_group_add) siggroup
     \<Rightarrow> arrival_times \<Rightarrow> dirk_manager
     \<Rightarrow> account \<Rightarrow> b256 \<Rightarrow> b256 option \<Rightarrow> (signer_module_error, bls_signature) result" where
  "request_account_signature C N G arrival m a object_root module_signing_id =
     (case a of
        Simple account \<Rightarrow> request_simple_signature C N m account object_root module_signing_id
      | Distributed account \<Rightarrow>
          request_distributed_signature C N G arrival m account object_root module_signing_id)"

definition request_consensus_signature ::
  "crypto \<Rightarrow> dirknet \<Rightarrow> ('s::field, 'g::ab_group_add) siggroup
     \<Rightarrow> arrival_times \<Rightarrow> dirk_manager
     \<Rightarrow> bls_public_key \<Rightarrow> b256 \<Rightarrow> b256 option \<Rightarrow> (signer_module_error, bls_signature) result" where
  "request_consensus_signature C N G arrival m pubkey object_root module_signing_id =
     (case map_of (dm_consensus_accounts m) pubkey of
        Some a \<Rightarrow> request_account_signature C N G arrival m a object_root module_signing_id
      | None \<Rightarrow> Err (UnknownConsensusSigner (fixed_bytes 48 pubkey)))"

definition request_proxy_signature ::
  "crypto \<Rightarrow> dirknet \<Rightarrow> ('s::field, 'g::ab_group_add) siggroup
     \<Rightarrow> arrival_times \<Rightarrow> dirk_manager
     \<Rightarrow> bls_public_key \<Rightarrow> b256 \<Rightarrow> b256 option \<Rightarrow> (signer_module_error, bls_signature) result" where
  "request_proxy_signature C N G arrival m pubkey object_root module_signing_id =
     (case map_of (dm_proxy_accounts m) pubkey of
        Some proxy \<Rightarrow> request_account_signature C N G arrival m (pa_inner proxy) object_root module_signing_id
      | None \<Rightarrow> Err (UnknownProxySigner (fixed_bytes 48 pubkey)))"

section \<open>Proxy keys\<close>

definition store_password ::
  "storelib \<Rightarrow> dirk_manager \<Rightarrow> proxy_account \<Rightarrow> string \<Rightarrow> filesystem \<Rightarrow> filesystem \<times> (string, unit) result" where
  "store_password L m account password fs =
     (case rsplit_slash (account_name (pa_inner account)) of
        None \<Rightarrow> (fs, Err ''Invalid account name'')
      | Some (parent, name) \<Rightarrow>
          write_file L (path_join (path_join (path_of (dm_secrets_path m)) parent) (name @ ''.pass''))
            password fs)"

definition unlock_account :: "dirknet \<Rightarrow> account \<Rightarrow> string \<Rightarrow> (string, unit) result" where
  "unlock_account N a password =
     (let unlocked = (\<lambda>channel. case dn_unlock N channel (account_name a) password of
                                  Inr succeeded \<Rightarrow> succeeded
                                | Inl _ \<Rightarrow> False)
      in
      case a of
        Simple account \<Rightarrow>
          ensure (unlocked (sa_connection account)) ''Failed to unlock account''
      | Distributed account \<Rightarrow>
          ensure (length (filter id (map (unlocked \<circ> snd) (da_participants account)))
                    \<ge> unat (da_threshold account)) ''Failed to get enough unlocks'')"

text \<open>The steps that both kinds of account take once the server has generated a key.\<close>

definition finish_proxy_account ::
  "dirknet \<Rightarrow> storelib \<Rightarrow> dirk_manager \<Rightarrow> string \<Rightarrow> proxy_account \<Rightarrow> filesystem
     \<Rightarrow> filesystem \<times> (signer_module_error, proxy_account) result" where
  "finish_proxy_account N L m password proxy_account fs =
     (case store_password L m proxy_account password fs of
        (fs', Inl _) \<Rightarrow> (fs', Err (InternalError ''Failed to store password''))
      | (fs', Inr _) \<Rightarrow>
          (case unlock_account N (pa_inner proxy_account) password of
             Inl _ \<Rightarrow> (fs', Err (DirkCommunicationError ''Failed to unlock new account''))
           | Inr _ \<Rightarrow> (fs', Ok proxy_account)))"

definition proxy_account_name :: "string \<Rightarrow> module_id \<Rightarrow> string \<Rightarrow> string" where
  "proxy_account_name name mid uuid = name @ ''/'' @ mid @ ''/'' @ uuid"

definition generate_simple_proxy_account ::
  "dirknet \<Rightarrow> storelib \<Rightarrow> string \<Rightarrow> string \<Rightarrow> dirk_manager \<Rightarrow> simple_account \<Rightarrow> module_id \<Rightarrow> filesystem
     \<Rightarrow> filesystem \<times> (signer_module_error, proxy_account) result" where
  "generate_simple_proxy_account N L uuid password m consensus mid fs =
     (let name = proxy_account_name (sa_name consensus) mid uuid in
      case dn_generate N (sa_connection consensus)
             \<lparr>gr_account = name, gr_passphrase = password, gr_participants = 1, gr_signing_threshold = 1\<rparr> of
        Inl e \<Rightarrow> (fs, Err (DirkCommunicationError e))
      | Inr (succeeded, message, public_key) \<Rightarrow>
          if \<not> succeeded
          then (fs, Err (DirkCommunicationError (''Failed to generate proxy key: '' @ message)))
          else
            (case pubkey_try_from public_key of
               Inl _ \<Rightarrow> (fs, Err (DirkCommunicationError ''Failed to parse proxy key''))
             | Inr proxy_key \<Rightarrow>
                 finish_proxy_account N L m password
                   \<lparr>pa_consensus = Simple consensus, pa_module = mid,
                    pa_inner = Simple \<lparr>sa_public_key = proxy_key, sa_connection = sa_connection consensus,
                                       sa_name = name\<rparr>\<rparr> fs))"

text \<open>The participants are tried in turn until one generates a key that parses.\<close>

fun generate_with_participants ::
  "dirknet \<Rightarrow> storelib \<Rightarrow> string \<Rightarrow> string \<Rightarrow> dirk_manager \<Rightarrow> distributed_account \<Rightarrow> module_id
     \<Rightarrow> (u32 \<times> channel) list \<Rightarrow> filesystem \<Rightarrow> filesystem \<times> (signer_module_error, proxy_account) result" where
  "generate_with_participants N L uuid password m consensus mid [] fs =
     (fs, Err (DirkCommunicationError ''All participant connections failed''))"
| "generate_with_participants N L uuid password m consensus mid ((pid, channel) # rest) fs =
     (let name = proxy_account_name (da_name consensus) mid uuid in
      case dn_generate N channel
             \<lparr>gr_account = name, gr_passphrase = password,
              gr_participants = word_of_nat (length (da_participants consensus)),
              gr_signing_threshold = da_threshold consensus\<rparr> of
        Inl _ \<Rightarrow> generate_with_participants N L uuid password m consensus mid rest fs
      | Inr (succeeded, message, public_key) \<Rightarrow>
          if \<not> succeeded then generate_with_participants N L uuid password m consensus mid rest fs
          else
            (case pubkey_try_from public_key of
               Inl _ \<Rightarrow> generate_with_participants N L uuid password m consensus mid rest fs
             | Inr proxy_key \<Rightarrow>
                 finish_proxy_account N L m password
                   \<lparr>pa_consensus = Distributed consensus, pa_module = mid,
                    pa_inner = Distributed \<lparr>da_composite_public_key = proxy_key,
                                            da_participants = da_participants consensus,
                                            da_threshold = da_threshold consensus, da_name = name\<rparr>\<rparr> fs))"

definition generate_distributed_proxy_key ::
  "dirknet \<Rightarrow> storelib \<Rightarrow> string \<Rightarrow> string \<Rightarrow> dirk_manager \<Rightarrow> distributed_account \<Rightarrow> module_id \<Rightarrow> filesystem
     \<Rightarrow> filesystem \<times> (signer_module_error, proxy_account) result" where
  "generate_distributed_proxy_key N L uuid password m consensus mid fs =
     generate_with_participants N L uuid password m consensus mid (da_participants consensus) fs"

definition store_delegation ::
  "storelib \<Rightarrow> dirk_manager \<Rightarrow> module_id \<Rightarrow> signed_proxy_delegation_bls \<Rightarrow> filesystem
     \<Rightarrow> filesystem \<times> (signer_module_error, unit) result" where
  "store_delegation L m mid delegation fs =
     (case dm_delegations_store m of
        None \<Rightarrow> (fs, Ok ())
      | Some store \<Rightarrow>
          (case store_proxy_bls_delegation L store mid delegation fs of
             (fs', Inl _) \<Rightarrow> (fs', Err (InternalError ''Couldn't store delegation signature''))
           | (fs', Inr _) \<Rightarrow> (fs', Ok ())))"

definition generate_proxy_key ::
  "crypto \<Rightarrow> dirknet \<Rightarrow> ('s::field, 'g::ab_group_add) siggroup
     \<Rightarrow> arrival_times \<Rightarrow> storelib \<Rightarrow> string \<Rightarrow> string
     \<Rightarrow> module_id \<Rightarrow> bls_public_key \<Rightarrow> dirk_manager \<Rightarrow> filesystem
     \<Rightarrow> dirk_manager \<times> filesystem \<times> (signer_module_error, signed_proxy_delegation_bls) result" where
  "generate_proxy_key C N G arrival L uuid password mid consensus m fs =
     (case (case map_of (dm_consensus_accounts m) consensus of
              Some (Simple account) \<Rightarrow> generate_simple_proxy_account N L uuid password m account mid fs
            | Some (Distributed account) \<Rightarrow> generate_distributed_proxy_key N L uuid password m account mid fs
            | None \<Rightarrow> (fs, Err (UnknownConsensusSigner (fixed_bytes 48 consensus)))) of
        (fs1, Inl e) \<Rightarrow> (m, fs1, Err e)
      | (fs1, Inr proxy_account) \<Rightarrow>
          (let proxy = account_public_key (pa_inner proxy_account);
               message = \<lparr>pd_delegator = consensus, pd_proxy = proxy\<rparr>
           in
           case request_consensus_signature C N G arrival m consensus (delegation_root_bls C message) None of
             Inl e \<Rightarrow> (m, fs1, Err e)
           | Inr delegation_signature \<Rightarrow>
               (let delegation = \<lparr>sd_message = message, sd_signature = delegation_signature\<rparr> in
                case store_delegation L m mid delegation fs1 of
                  (fs2, Inl e) \<Rightarrow> (m, fs2, Err e)
                | (fs2, Inr _) \<Rightarrow>
                    (m\<lparr>dm_proxy_accounts := AList.update proxy proxy_account (dm_proxy_accounts m)\<rparr>, fs2,
                     Ok delegation))))"

section \<open>Properties\<close>

subsection \<open>Threshold signatures\<close>

text \<open>The usable answer of a participant, if it gives one.\<close>

definition partial_of ::
  "(u32 \<Rightarrow> channel \<Rightarrow> (string, bool \<times> bytes) result) \<Rightarrow> u32 \<times> channel \<Rightarrow> (bls_signature \<times> u32) option" where
  "partial_of respond pc =
     (case respond (fst pc) (snd pc) of
        Inl _ \<Rightarrow> None
      | Inr (succeeded, bs) \<Rightarrow>
          if succeeded then map_option (\<lambda>sig. (sig, fst pc)) (signature_try_from bs) else None)"

lemma partial_of_Some_iff:
  "partial_of respond (pid', channel) = Some (s, pid) \<longleftrightarrow>
     pid = pid' \<and> (\<exists>bs. respond pid' channel = Ok (True, bs) \<and> signature_try_from bs = Some s)"
  by (auto simp: partial_of_def split: sum.splits)

lemma collect_partials_step:
  "collect_partials respond t partials (pc # rest) =
     (case partial_of respond pc of
        None \<Rightarrow> collect_partials respond t partials rest
      | Some sp \<Rightarrow>
          if length partials + 1 \<ge> t then partials @ [sp]
          else collect_partials respond t (partials @ [sp]) rest)"
  by (cases pc) (simp add: partial_of_def Let_def split: sum.split prod.split option.split)

text \<open>The loop takes the first usable answers, as many as the threshold asks for.\<close>

lemma collect_partials_eq:
  "length partials < max 1 t \<Longrightarrow> collect_partials respond t partials ps =
     partials @ take (max 1 t - length partials) (List.map_filter (partial_of respond) ps)"
proof (induction ps arbitrary: partials)
  case Nil
  then show ?case by simp
next
  case (Cons pc ps)
  show ?case
  proof (cases "partial_of respond pc")
    case None
    with Cons show ?thesis
      by (simp add: collect_partials_step map_filter_simps del: collect_partials.simps)
  next
    case (Some sp)
    show ?thesis
    proof (cases "length partials + 1 \<ge> t")
      case True
      with Cons.prems have "max 1 t - length partials = 1" by (simp add: max_def split: if_splits)
      with True Some show ?thesis
        by (simp add: collect_partials_step map_filter_simps del: collect_partials.simps)
    next
      case False
      then have "length (partials @ [sp]) < max 1 t" by simp
      from Cons.IH [OF this] False Some show ?thesis
        by (simp add: collect_partials_step map_filter_simps take_Cons' del: collect_partials.simps)
    qed
  qed
qed

lemma distinct_fst_sort_key: "distinct (map fst (sort_key f xs)) \<longleftrightarrow> distinct (map fst xs)"
  by (simp add: distinct_map)

lemma partial_of_ids:
  "map snd (List.map_filter (partial_of respond) ps) = map fst (filter (\<lambda>pc. partial_of respond pc \<noteq> None) ps)"
  by (induction ps) (auto simp: map_filter_simps partial_of_def split: sum.splits option.splits)

lemma request_distributed_signature_Ok:
  assumes "request_distributed_signature C N G arrival m a root sid = Ok sig"
    and "distinct (map fst (da_participants a))"
  shows "\<exists>partials. aggregate_partial_signatures G partials = Ok sig \<and>
    unat (da_threshold a) \<le> length partials \<and> length partials \<le> max 1 (unat (da_threshold a)) \<and>
    distinct (map snd partials) \<and>
    (\<forall>(s, pid)\<in>set partials. \<exists>channel bs. (pid, channel) \<in> set (da_participants a) \<and>
       signature_try_from bs = Some s \<and>
       dn_sign N channel \<lparr>ds_data = dirk_sign_data C root sid,
         ds_domain = compute_domain C (dm_chain m) COMMIT_BOOST_DOMAIN,
         ds_id = IdAccount (da_name a)\<rparr> = Ok (True, bs))"
proof -
  let ?t = "unat (da_threshold a)"
  let ?respond = "\<lambda>pid channel. dn_sign N channel \<lparr>ds_data = dirk_sign_data C root sid,
    ds_domain = compute_domain C (dm_chain m) COMMIT_BOOST_DOMAIN, ds_id = IdAccount (da_name a)\<rparr>"
  let ?answers = "List.map_filter (partial_of ?respond) (sort_key arrival (da_participants a))"
  let ?ps = "take (max 1 ?t) ?answers"
  have eq: "collect_partials ?respond ?t [] (sort_key arrival (da_participants a)) = ?ps"
    by (subst collect_partials_eq) simp_all
  have "?t \<le> length ?ps" and "aggregate_partial_signatures G ?ps = Ok sig"
    using assms(1) unfolding request_distributed_signature_def Let_def eq
    by (auto simp: not_less split: if_splits)
  moreover have "distinct (map snd ?answers)"
    using assms(2) by (simp add: partial_of_ids distinct_map_filter distinct_fst_sort_key)
  then have "distinct (map snd ?ps)" by (metis distinct_take take_map)
  moreover have "\<exists>channel bs. (pid, channel) \<in> set (da_participants a) \<and>
      signature_try_from bs = Some s \<and> ?respond pid channel = Ok (True, bs)"
    if "(s, pid) \<in> set ?ps" for s pid
  proof -
    from that have "(s, pid) \<in> set ?answers" by (meson in_set_takeD)
    then obtain channel bs where "(pid, channel) \<in> set (da_participants a)"
      "?respond pid channel = Ok (True, bs)" "signature_try_from bs = Some s"
      by (auto simp: map_filter_mem partial_of_Some_iff)
    then show ?thesis by (intro exI [of _ channel] exI [of _ bs]) simp
  qed
  ultimately show ?thesis by (intro exI [of _ ?ps]) auto
qed

text \<open>What an account signs depends on the chain of the manager and not on its accounts.\<close>

lemma request_account_signature_chain:
  "dm_chain m = dm_chain m0 \<Longrightarrow>
     request_account_signature C N G arrival m = request_account_signature C N G arrival m0"
  by (simp add: fun_eq_iff request_account_signature_def request_simple_signature_def request_distributed_signature_def
      split: account.split)

subsection \<open>Proxy keys\<close>

lemma generate_proxy_key_Err:
  "generate_proxy_key C N G arrival L uuid pw mid consensus m fs = (m', fs', Err e) \<Longrightarrow> m' = m"
  by (auto simp: generate_proxy_key_def Let_def split: prod.splits sum.splits option.splits account.splits)

lemma finish_proxy_account_Ok:
  "finish_proxy_account N L m pw pa fs = (fs', Ok pa') \<Longrightarrow> pa' = pa"
  by (auto simp: finish_proxy_account_def split: prod.splits sum.splits)

lemma generate_with_participants_Ok:
  "generate_with_participants N L uuid pw m c mid ps fs = (fs', Ok pa) \<Longrightarrow>
     pa_consensus pa = Distributed c \<and> pa_module pa = mid \<and>
     (\<exists>d. pa_inner pa = Distributed d \<and> da_participants d = da_participants c)"
proof (induction ps)
  case Nil
  then show ?case by simp
next
  case (Cons pc ps)
  then show ?case
    by (cases pc) (auto simp: Let_def dest!: finish_proxy_account_Ok split: sum.splits prod.splits if_splits)
qed

subsection \<open>The accounts of a manager\<close>

text \<open>
  The participants of a distributed account are the keys of a \<open>HashMap\<close>: no participant id occurs twice. The
  loading code and the generation of proxy keys keep it so, whatever the servers answer.
\<close>

fun account_wf :: "account \<Rightarrow> bool" where
  "account_wf (Simple _) \<longleftrightarrow> True"
| "account_wf (Distributed d) \<longleftrightarrow> distinct (map fst (da_participants d))"

definition dirk_wf :: "dirk_manager \<Rightarrow> bool" where
  "dirk_wf m \<longleftrightarrow> list_all (account_wf \<circ> snd) (dm_consensus_accounts m) \<and>
     list_all (account_wf \<circ> pa_inner \<circ> snd) (dm_proxy_accounts m)"

lemma list_all_update:
  assumes "list_all (P \<circ> snd) xs" and "P v"
  shows "list_all (P \<circ> snd) (AList.update k v xs)"
  using assms by (induction xs) auto

lemmas accounts_wf_update = list_all_update [where P = account_wf]
  and proxies_wf_update = list_all_update [where P = "account_wf \<circ> pa_inner"]

lemma load_simple_accounts_wf:
  "list_all (account_wf \<circ> snd) accounts \<Longrightarrow>
     list_all (account_wf \<circ> snd) (load_simple_accounts N channel as accounts)"
  by (induction N channel as accounts rule: load_simple_accounts.induct)
    (auto simp: accounts_wf_update split: sum.splits)

lemma load_distributed_account_wf:
  assumes "load_distributed_account N host_name channel a accounts = Some accounts'"
    and "list_all (account_wf \<circ> snd) accounts"
  shows "list_all (account_wf \<circ> snd) accounts'"
proof -
  have known: "distinct (map fst (AList.update pid channel (da_participants d)))"
    if "map_of accounts key = Some (Distributed d)" for key d pid
    using map_of_SomeD [OF that] assms(2) by (auto simp: list_all_iff intro!: distinct_update)
  show ?thesis
    using assms known
    by (auto simp: load_distributed_account_def intro!: accounts_wf_update
        split: if_splits sum.splits option.splits account.splits)
qed

lemma load_distributed_loop_wf:
  "list_all (account_wf \<circ> snd) accounts \<Longrightarrow>
     list_all (account_wf \<circ> snd) (load_distributed_loop N host_name channel as accounts)"
  by (induction N host_name channel as accounts rule: load_distributed_loop.induct)
    (auto split: option.splits dest: load_distributed_account_wf)

lemma load_host_wf:
  "list_all (account_wf \<circ> snd) accounts \<Longrightarrow> list_all (account_wf \<circ> snd) (load_host N accounts host)"
  by (auto simp: load_host_def load_distributed_accounts_def
      intro!: load_distributed_loop_wf load_simple_accounts_wf split: sum.splits option.splits)

lemma dirk_manager_new_wf: "dirk_wf (dirk_manager_new N chain config)"
proof -
  have "list_all (account_wf \<circ> snd) (foldl (load_host N) accounts hosts)"
    if "list_all (account_wf \<circ> snd) accounts" for accounts hosts
    using that by (induction hosts arbitrary: accounts) (simp_all add: load_host_wf)
  then show ?thesis by (simp add: dirk_wf_def dirk_manager_new_def)
qed

lemma generate_proxy_key_wf:
  assumes "generate_proxy_key C N G arrival L uuid pw mid consensus m fs = (m', fs', r)" and "dirk_wf m"
  shows "dirk_wf m'"
proof (cases r)
  case (Inl e)
  with assms show ?thesis by (auto dest: generate_proxy_key_Err)
next
  case (Inr delegation)
  have "account_wf (pa_inner pa)"
    if "map_of (dm_consensus_accounts m) consensus = Some (Distributed d)"
      and "generate_distributed_proxy_key N L uuid pw m d mid fs = (fs1, Ok pa)" for d fs1 pa
    using map_of_SomeD [OF that(1)] that(2) assms(2)
    by (auto simp: dirk_wf_def list_all_iff generate_distributed_proxy_key_def dest!: generate_with_participants_Ok)
  moreover have "account_wf (pa_inner pa)"
    if "generate_simple_proxy_account N L uuid pw m s mid fs = (fs1, Ok pa)" for s fs1 pa
    using that by (auto simp: generate_simple_proxy_account_def Let_def dest!: finish_proxy_account_Ok
        split: sum.splits prod.splits if_splits)
  ultimately show ?thesis
    using assms Inr
    by (auto simp: generate_proxy_key_def Let_def dirk_wf_def intro!: proxies_wf_update
        split: prod.splits sum.splits option.splits account.splits)
qed

text \<open>The states of the manager of a running signer: the loaded one, with or without a delegation store, and
  those after generations of proxy keys.\<close>

inductive dirk_reachable ::
  "crypto \<Rightarrow> ('s::field, 'g::ab_group_add) siggroup \<Rightarrow> chain \<Rightarrow> dirk_config \<Rightarrow> dirk_manager \<Rightarrow> bool"
  for C G chain config where
  dirk_loaded: "dirk_reachable C G chain config (dirk_manager_new N chain config)"
| dirk_stored:
    "dirk_reachable C G chain config m \<Longrightarrow> with_proxy_store m store = Ok m' \<Longrightarrow>
     dirk_reachable C G chain config m'"
| dirk_generated:
    "dirk_reachable C G chain config m \<Longrightarrow>
     generate_proxy_key C N G arrival L uuid pw mid consensus m fs = (m', fs', r) \<Longrightarrow>
     dirk_reachable C G chain config m'"

lemma dirk_reachable_wf: "dirk_reachable C G chain config m \<Longrightarrow> dirk_wf m"
proof (induction rule: dirk_reachable.induct)
  case (dirk_loaded N)
  show ?case by (rule dirk_manager_new_wf)
next
  case (dirk_stored m store m')
  then show ?case by (cases store) (auto simp: dirk_wf_def)
next
  case (dirk_generated m N arrival L uuid pw mid consensus fs m' fs' r)
  then show ?case by (blast intro: generate_proxy_key_wf)
qed

lemma dirk_wf_participants:
  "dirk_wf m \<Longrightarrow> map_of (dm_consensus_accounts m) pubkey = Some (Distributed a) \<Longrightarrow>
     distinct (map fst (da_participants a))"
  by (auto simp: dirk_wf_def list_all_iff dest!: map_of_SomeD)

end
