(* ===== verification/Key_Loader.thy ===== *)
theory Key_Loader
  imports Proxy_Store
begin

text \<open>
  Loading of the consensus keys: \<open>crates/common/src/signer/loader.rs\<close>. The formats of the supported
  clients differ in where the key stores and passwords lie; keys that do not decrypt are skipped
  with a warning, except in the plain file and in the Prysm wallet, where any bad key is an error.
  The parallel iterators keep the order of the directory listing.
\<close>

section \<open>Environment\<close>

definition SIGNER_KEYS_ENV :: string where
  "SIGNER_KEYS_ENV = ''CB_SIGNER_LOADER_FILE''"

definition SIGNER_DIR_KEYS_ENV :: string where
  "SIGNER_DIR_KEYS_ENV = ''CB_SIGNER_LOADER_KEYS_DIR''"

definition SIGNER_DIR_SECRETS_ENV :: string where
  "SIGNER_DIR_SECRETS_ENV = ''CB_SIGNER_LOADER_SECRETS_DIR''"

text \<open>A value of \<open>serde_json\<close>; numbers that are not integers are kept as text.\<close>

datatype json =
    JNull | JBool bool | JInt int | JFloat string | JString string
  | JArray "json list" | JObject "(string \<times> json) list"

text \<open>
  Parsers and ciphers of other crates: JSON from text and from bytes, the JSON array of hex secrets,
  the decoding of \<open>Bytes\<close> from a JSON value, base64, \<open>BlsPublicKey::from_hex\<close>, the Unicode
  normalisation of a password, PBKDF2, and the AES-CTR cipher with whether it accepts a key and nonce.
\<close>

record keylib =
  kl_json :: "string \<Rightarrow> (string, json) result"
  kl_json_slice :: "bytes \<Rightarrow> (string, json) result"
  kl_json_strings :: "string \<Rightarrow> (string, string list) result"
  kl_json_bytes :: "json \<Rightarrow> bytes option"
  kl_base64_decode :: "string \<Rightarrow> bytes option"
  kl_hex_decode :: "string \<Rightarrow> (string, bytes) result"
  kl_pubkey_from_hex :: "string \<Rightarrow> bls_public_key option"
  kl_nfkd_bytes :: "string \<Rightarrow> bytes"
  kl_pbkdf2 :: "bytes \<Rightarrow> bytes \<Rightarrow> u32 \<Rightarrow> (string, bytes) result"
  kl_ctr_accepts :: "bytes \<Rightarrow> bytes \<Rightarrow> bool"
  kl_ctr_apply :: "bytes \<Rightarrow> bytes \<Rightarrow> bytes \<Rightarrow> (string, bytes) result"

section \<open>Plain file\<close>

text \<open>\<open>str::trim_start_matches("0x")\<close> removes the prefix repeatedly.\<close>

fun trim_0x :: "string \<Rightarrow> string" where
  "trim_0x (a # b # s) = (if a = CHR ''0'' \<and> b = CHR ''x'' then trim_0x s else a # b # s)"
| "trim_0x s = s"

text \<open>\<open>Deserialize for FileKey\<close>\<close>

definition deserialize_file_key :: "keylib \<Rightarrow> string \<Rightarrow> (string, bytes) result" where
  "deserialize_file_key K s =
     and_then (kl_hex_decode K (trim_0x s)) (\<lambda>bs.
       if length bs = 32 then Ok bs else Err ''wrong length'')"

definition new_signer :: "crypto \<Rightarrow> bytes \<Rightarrow> (string, bls_signer) result" where
  "new_signer C bs = map_err display_blst_error (bls_signer_new_from_bytes C bs)"

text \<open>A keys file that cannot be read makes the loader panic.\<close>

definition load_keys_file ::
  "crypto \<Rightarrow> storelib \<Rightarrow> keylib \<Rightarrow> filesystem \<Rightarrow> path \<Rightarrow> (string, bls_signer list) result outcome" where
  "load_keys_file C L K fs p =
     (case read_file L fs p of
        Inl _ \<Rightarrow> Panicked
      | Inr file \<Rightarrow>
          Returned (and_then (kl_json_strings K file) (\<lambda>ss.
                    and_then (collect_results (map (deserialize_file_key K) ss)) (\<lambda>keys.
                      collect_results (map (new_signer C) keys)))))"

section \<open>Directories of key stores\<close>

text \<open>Lighthouse and Nimbus keep one directory per key, named by its public key.\<close>

definition load_pubkey_dir ::
  "crypto \<Rightarrow> storelib \<Rightarrow> keylib \<Rightarrow> filesystem \<Rightarrow> string \<Rightarrow> path \<Rightarrow> path \<Rightarrow> string \<Rightarrow> bls_signer option" where
  "load_pubkey_dir C L K fs keystore_name keys_path secrets_path name =
     (if \<not> is_dir fs (entry_path keys_path name) then None
      else
        (case kl_pubkey_from_hex K name of
           None \<Rightarrow> None
         | Some pubkey \<Rightarrow>
             (case load_one C L fs (path_join (path_join keys_path name) keystore_name)
                     (path_join secrets_path (display_fixed_bytes 48 pubkey)) of
                Inr signer \<Rightarrow> Some signer
              | Inl _ \<Rightarrow> None)))"

definition load_dir_with ::
  "filesystem \<Rightarrow> path \<Rightarrow> (string \<Rightarrow> bls_signer option) \<Rightarrow> (string, bls_signer list) result" where
  "load_dir_with fs keys_path load =
     (if is_dir fs keys_path then Ok (List.map_filter load (dir_entries fs keys_path))
      else Err ''no such directory'')"

definition load_from_lighthouse_format ::
  "crypto \<Rightarrow> storelib \<Rightarrow> keylib \<Rightarrow> filesystem \<Rightarrow> path \<Rightarrow> path \<Rightarrow> (string, bls_signer list) result" where
  "load_from_lighthouse_format C L K fs keys_path secrets_path =
     load_dir_with fs keys_path (load_pubkey_dir C L K fs ''voting-keystore.json'' keys_path secrets_path)"

definition load_from_nimbus_format ::
  "crypto \<Rightarrow> storelib \<Rightarrow> keylib \<Rightarrow> filesystem \<Rightarrow> path \<Rightarrow> path \<Rightarrow> (string, bls_signer list) result" where
  "load_from_nimbus_format C L K fs keys_path secrets_path =
     load_dir_with fs keys_path (load_pubkey_dir C L K fs ''keystore.json'' keys_path secrets_path)"

text \<open>\<open>rsplit_once(".")\<close>: what precedes the last dot.\<close>

definition before_last_dot :: "string \<Rightarrow> string option" where
  "before_last_dot s =
     (if CHR ''.'' \<in> set s then Some (rev (tl (dropWhile (\<lambda>c. c \<noteq> CHR ''.'') (rev s)))) else None)"

definition load_teku_entry ::
  "crypto \<Rightarrow> storelib \<Rightarrow> filesystem \<Rightarrow> path \<Rightarrow> path \<Rightarrow> string \<Rightarrow> bls_signer option" where
  "load_teku_entry C L fs keys_path secrets_path name =
     (if is_dir fs (entry_path keys_path name) then None
      else
        (case before_last_dot name of
           None \<Rightarrow> None
         | Some file_name \<Rightarrow>
             (case load_one C L fs (path_join keys_path (file_name @ ''.json''))
                     (path_join secrets_path (file_name @ ''.txt'')) of
                Inr signer \<Rightarrow> Some signer
              | Inl _ \<Rightarrow> None)))"

definition load_from_teku_format ::
  "crypto \<Rightarrow> storelib \<Rightarrow> filesystem \<Rightarrow> path \<Rightarrow> path \<Rightarrow> (string, bls_signer list) result" where
  "load_from_teku_format C L fs keys_path secrets_path =
     load_dir_with fs keys_path (load_teku_entry C L fs keys_path secrets_path)"

definition load_lodestar_entry ::
  "crypto \<Rightarrow> storelib \<Rightarrow> filesystem \<Rightarrow> path \<Rightarrow> path \<Rightarrow> string \<Rightarrow> bls_signer option" where
  "load_lodestar_entry C L fs keys_path password_path name =
     (if is_dir fs (entry_path keys_path name) then None
      else
        (case load_one C L fs (entry_path keys_path name) password_path of
           Inr signer \<Rightarrow> Some signer
         | Inl _ \<Rightarrow> None))"

definition load_from_lodestar_format ::
  "crypto \<Rightarrow> storelib \<Rightarrow> filesystem \<Rightarrow> path \<Rightarrow> path \<Rightarrow> (string, bls_signer list) result" where
  "load_from_lodestar_format C L fs keys_path password_path =
     load_dir_with fs keys_path (load_lodestar_entry C L fs keys_path password_path)"

section \<open>Prysm wallet\<close>

record prysm_keystore =
  pk_message :: bytes
  pk_salt :: bytes
  pk_c :: u32
  pk_iv :: bytes

record prysm_decrypted_keystore =
  dk_private_keys :: "bytes list"
  dk_public_keys :: "bytes list"

text \<open>\<open>Value::get\<close>, with the error for a field that is not there.\<close>

fun json_get :: "string \<Rightarrow> json \<Rightarrow> json option" where
  "json_get k (JObject kvs) = map_of kvs k"
| "json_get k _ = None"

definition json_field :: "string \<Rightarrow> string \<Rightarrow> json \<Rightarrow> (string, json) result" where
  "json_field k name v =
     (case json_get k v of Some x \<Rightarrow> Ok x | None \<Rightarrow> Err (''missing field '' @ name))"

fun json_u32 :: "json \<Rightarrow> u32 option" where
  "json_u32 (JInt i) = (if 0 \<le> i \<and> i < 2 ^ 32 then Some (word_of_int i) else None)"
| "json_u32 _ = None"

definition typed :: "string \<Rightarrow> 'a option \<Rightarrow> (string, 'a) result" where
  "typed ty x = (case x of Some y \<Rightarrow> Ok y | None \<Rightarrow> Err (''invalid type: unknown, expected '' @ ty))"

text \<open>\<open>Deserialize for PrysmKeystore\<close>, from the value that the text parses to.\<close>

definition deserialize_prysm_keystore :: "keylib \<Rightarrow> json \<Rightarrow> (string, prysm_keystore) result" where
  "deserialize_prysm_keystore K v =
     and_then (json_field ''crypto'' ''crypto'' v) (\<lambda>crypto.
     and_then (json_field ''cipher'' ''crypto.cipher'' crypto) (\<lambda>cipher.
     and_then (and_then (json_field ''kdf'' ''kdf'' crypto) (json_field ''params'' ''kdf.params'')) (\<lambda>kdf_params.
     and_then (and_then (json_field ''message'' ''crypto.cipher.message'' cipher)
                 (\<lambda>x. typed ''bytes'' (kl_json_bytes K x))) (\<lambda>message.
     and_then (and_then (json_field ''salt'' ''crypto.kdf.params.salt'' kdf_params)
                 (\<lambda>x. typed ''bytes'' (kl_json_bytes K x))) (\<lambda>salt.
     and_then (and_then (json_field ''c'' ''crypto.kdf.params.c'' kdf_params)
                 (\<lambda>x. typed ''u32'' (json_u32 x))) (\<lambda>c.
     and_then (and_then (and_then (json_field ''params'' ''crypto.cipher.params'' cipher)
                           (json_field ''iv'' ''crypto.cipher.params.iv''))
                 (\<lambda>x. typed ''bytes'' (kl_json_bytes K x))) (\<lambda>iv.
       Ok \<lparr>pk_message = message, pk_salt = salt, pk_c = c, pk_iv = iv\<rparr>)))))))"

text \<open>\<open>base64_list_decode\<close>\<close>

fun json_strings :: "json \<Rightarrow> (string, string list) result" where
  "json_strings (JArray xs) =
     collect_results (map (\<lambda>x. case x of JString s \<Rightarrow> Ok s | _ \<Rightarrow> Err ''invalid type'') xs)"
| "json_strings _ = Err ''invalid type''"

definition base64_list_decode :: "keylib \<Rightarrow> json \<Rightarrow> (string, bytes list) result" where
  "base64_list_decode K v =
     and_then (json_strings v) (\<lambda>encoded.
       collect_results (map (\<lambda>s. typed ''base64 string'' (kl_base64_decode K s)) encoded))"

definition deserialize_prysm_decrypted :: "keylib \<Rightarrow> json \<Rightarrow> (string, prysm_decrypted_keystore) result" where
  "deserialize_prysm_decrypted K v =
     and_then (and_then (json_field ''private_keys'' ''private_keys'' v) (base64_list_decode K)) (\<lambda>private_keys.
     and_then (and_then (json_field ''public_keys'' ''public_keys'' v) (base64_list_decode K)) (\<lambda>public_keys.
       Ok \<lparr>dk_private_keys = private_keys, dk_public_keys = public_keys\<rparr>))"

text \<open>EIP-2335 drops control characters from the normalised password.\<close>

definition normalize_password :: "keylib \<Rightarrow> string \<Rightarrow> bytes" where
  "normalize_password K password =
     filter (\<lambda>c. (0x1F < c \<and> c < 0x7F) \<or> 0x9F < c) (kl_nfkd_bytes K password)"

definition decrypt_prysm_keystore :: "keylib \<Rightarrow> bytes \<Rightarrow> prysm_keystore \<Rightarrow> (string, bytes) result" where
  "decrypt_prysm_keystore K normalized_password keystore =
     and_then (kl_pbkdf2 K normalized_password (pk_salt keystore) (pk_c keystore)) (\<lambda>decryption_key.
       let key = take 16 decryption_key in
       if kl_ctr_accepts K key (pk_iv keystore)
       then map_err (\<lambda>_. ''Failed decrypting accounts'') (kl_ctr_apply K key (pk_iv keystore) (pk_message keystore))
       else Err ''Invalid key or nonce'')"

definition load_from_prysm_format ::
  "crypto \<Rightarrow> storelib \<Rightarrow> keylib \<Rightarrow> filesystem \<Rightarrow> path \<Rightarrow> path \<Rightarrow> (string, bls_signer list) result" where
  "load_from_prysm_format C L K fs accounts_path password_path =
     and_then (read_file L fs accounts_path) (\<lambda>text.
     and_then (map_err (\<lambda>_. ''Failed reading json'')
                 (and_then (kl_json K text) (deserialize_prysm_keystore K))) (\<lambda>keystore.
     and_then (read_file L fs password_path) (\<lambda>password.
     and_then (decrypt_prysm_keystore K (normalize_password K password) keystore) (\<lambda>buf.
     and_then (map_err (\<lambda>_. ''Failed reading json'')
                 (and_then (kl_json_slice K buf) (deserialize_prysm_decrypted K))) (\<lambda>decrypted_keystore.
       map_err (\<lambda>_. ''failed to load signers'')
         (collect_results (map (new_signer C) (dk_private_keys decrypted_keystore))))))))"

section \<open>\<open>SignerLoader::load_keys\<close>\<close>

definition load_keys ::
  "crypto \<Rightarrow> storelib \<Rightarrow> keylib \<Rightarrow> config_env \<Rightarrow> filesystem \<Rightarrow> signer_loader
     \<Rightarrow> (string, bls_signer list) result outcome" where
  "load_keys C L K E fs loader =
     (case loader of
        KeysFile key_path \<Rightarrow> load_keys_file C L K fs (path_of (path_override E SIGNER_KEYS_ENV key_path))
      | ValidatorsDir keys secrets format \<Rightarrow>
          (let keys_path = path_of (path_override E SIGNER_DIR_KEYS_ENV keys);
               secrets_path = path_of (path_override E SIGNER_DIR_SECRETS_ENV secrets)
           in Returned
                (case format of
                   Lighthouse \<Rightarrow> load_from_lighthouse_format C L K fs keys_path secrets_path
                 | Teku \<Rightarrow> load_from_teku_format C L fs keys_path secrets_path
                 | Lodestar \<Rightarrow> load_from_lodestar_format C L fs keys_path secrets_path
                 | Prysm \<Rightarrow> load_from_prysm_format C L K fs keys_path secrets_path
                 | Nimbus \<Rightarrow> load_from_nimbus_format C L K fs keys_path secrets_path)))"

section \<open>Properties\<close>

lemma load_dir_with_mem:
  "load_dir_with fs keys_path load = Ok signers \<Longrightarrow>
     set signers = {s. \<exists>name\<in>set (dir_entries fs keys_path). load name = Some s}"
  by (auto simp: load_dir_with_def map_filter_mem split: if_splits)

end
