(* ===== verification/Signer_Service.thy ===== *)
theory Signer_Service
  imports Dirk Key_Loader
begin

text \<open>
  The signer service: \<open>crates/signer/src/service.rs\<close>, \<open>manager/mod.rs\<close> and \<open>metrics.rs\<close>.

  \<open>SigningState\<close> is cloned for every request and consists of shared cells. The cells of the module
  registry, the admin secret and the failure counters are never replaced, so they are fields of the
  record \<open>signer_heap\<close>. The manager is behind an \<open>Arc\<close> that a request handler may replace in its own
  clone: \<open>hp_managers\<close> holds the managers that were allocated, and a state names one by its index.
  Time is in milliseconds; \<open>Instant::elapsed\<close> is truncated subtraction.
\<close>

section \<open>Managers (\<open>manager/mod.rs\<close>)\<close>

datatype signing_manager = ManagerLocal local_manager | ManagerDirk dirk_manager

fun available_consensus_signers :: "signing_manager \<Rightarrow> nat" where
  "available_consensus_signers (ManagerLocal m) = length (consensus_pubkeys m)"
| "available_consensus_signers (ManagerDirk m) = dirk_available_consensus_signers m"

fun manager_proxy_signers :: "signing_manager \<Rightarrow> nat" where
  "manager_proxy_signers (ManagerLocal m) = available_proxy_signers m"
| "manager_proxy_signers (ManagerDirk m) = dirk_available_proxy_signers m"

fun manager_proxy_maps ::
  "signing_manager \<Rightarrow> module_id \<Rightarrow> (signer_module_error, consensus_proxy_map list) result" where
  "manager_proxy_maps (ManagerLocal m) mid = get_consensus_proxy_maps m mid"
| "manager_proxy_maps (ManagerDirk m) mid = Ok (dirk_consensus_proxy_maps m mid)"

section \<open>State\<close>

type_synonym ip_addr = "128 word"

record jwt_auth_failure_info =
  jf_failure_count :: u32
  jf_last_failure :: nat

record signer_heap =
  hp_managers :: "signing_manager list"
  hp_jwts :: "(module_id \<times> module_signing_config) list"
  hp_admin_secret :: string
  hp_jwt_auth_failures :: "(ip_addr \<times> jwt_auth_failure_info) list"
  hp_fs :: filesystem

record signing_state =
  sv_manager :: nat
  sv_jwt_auth_fail_limit :: u32
  sv_jwt_auth_fail_timeout :: nat

section \<open>Authentication\<close>

definition check_jwt_rate_limit ::
  "signing_state \<Rightarrow> nat \<Rightarrow> ip_addr \<Rightarrow> signer_heap \<Rightarrow> signer_heap \<times> (signer_module_error, unit) result" where
  "check_jwt_rate_limit state now client_ip h =
     (case map_of (hp_jwt_auth_failures h) client_ip of
        None \<Rightarrow> (h, Ok ())
      | Some failure_info \<Rightarrow>
          (let elapsed = now - jf_last_failure failure_info in
           if elapsed > sv_jwt_auth_fail_timeout state
           then (h\<lparr>hp_jwt_auth_failures := AList.delete client_ip (hp_jwt_auth_failures h)\<rparr>, Ok ())
           else if jf_failure_count failure_info < sv_jwt_auth_fail_limit state then (h, Ok ())
           else (h, Err (RateLimited (sv_jwt_auth_fail_timeout state - elapsed)))))"

definition check_jwt_auth ::
  "jwtlib \<Rightarrow> string \<Rightarrow> signer_heap \<Rightarrow> (signer_module_error, module_id) result" where
  "check_jwt_auth J jwt h =
     and_then (map_err (\<lambda>_. Unauthorized) (decode_jwt J jwt)) (\<lambda>mid.
     case map_of (hp_jwts h) mid of
       None \<Rightarrow> Err Unauthorized
     | Some jwt_config \<Rightarrow>
         and_then (map_err (\<lambda>_. Unauthorized) (validate_jwt J jwt (ms_jwt_secret jwt_config))) (\<lambda>_.
           Ok mid))"

text \<open>\<open>entry(ip).or_insert(..)\<close> and the update of the counter; a \<open>u32\<close> addition.\<close>

definition record_failure :: "nat \<Rightarrow> ip_addr \<Rightarrow> signer_heap \<Rightarrow> signer_heap" where
  "record_failure now client_ip h =
     (let count = (case map_of (hp_jwt_auth_failures h) client_ip of
                     Some i \<Rightarrow> jf_failure_count i | None \<Rightarrow> 0)
      in h\<lparr>hp_jwt_auth_failures :=
             AList.update client_ip \<lparr>jf_failure_count = count + 1, jf_last_failure = now\<rparr>
               (hp_jwt_auth_failures h)\<rparr>)"

text \<open>The middleware: the module id of the request, with which the handler is run.\<close>

definition jwt_auth ::
  "jwtlib \<Rightarrow> signing_state \<Rightarrow> nat \<Rightarrow> ip_addr \<Rightarrow> string \<Rightarrow> signer_heap
     \<Rightarrow> signer_heap \<times> (signer_module_error, module_id) result" where
  "jwt_auth J state now client_ip jwt h =
     (case check_jwt_rate_limit state now client_ip h of
        (h1, Inl e) \<Rightarrow> (h1, Err e)
      | (h1, Inr _) \<Rightarrow>
          (case check_jwt_auth J jwt h1 of
             Inr mid \<Rightarrow> (h1, Ok mid)
           | Inl Unauthorized \<Rightarrow> (record_failure now client_ip h1, Err Unauthorized)
           | Inl e \<Rightarrow> (h1, Err e)))"

definition admin_auth :: "jwtlib \<Rightarrow> string \<Rightarrow> signer_heap \<Rightarrow> (signer_module_error, unit) result" where
  "admin_auth J jwt h = map_err (\<lambda>_. Unauthorized) (validate_admin_jwt J jwt (hp_admin_secret h))"

section \<open>Handlers\<close>

datatype signer_reply =
    StatusOk
  | BlsSignatureReply bls_signature
  | EcdsaSignatureReply ecdsa_signature
  | BlsDelegationReply signed_proxy_delegation_bls
  | EcdsaDelegationReply signed_proxy_delegation_ecdsa
  | PubkeysReply "consensus_proxy_map list"

definition signer_handle_status :: "(signer_module_error, signer_reply) result" where
  "signer_handle_status = Ok StatusOk"

definition handle_get_pubkeys ::
  "signing_state \<Rightarrow> module_id \<Rightarrow> signer_heap \<Rightarrow> (signer_module_error, signer_reply) result" where
  "handle_get_pubkeys state mid h =
     and_then (map_err (\<lambda>_. InternalError ''get_consensus_proxy_maps'')
                 (manager_proxy_maps (hp_managers h ! sv_manager state) mid))
       (\<lambda>keys. Ok (PubkeysReply keys))"

definition handle_request_signature ::
  "crypto \<Rightarrow> dirknet \<Rightarrow> ('s::field, 'g::ab_group_add) siggroup
     \<Rightarrow> arrival_times
     \<Rightarrow> signing_state \<Rightarrow> module_id \<Rightarrow> sign_request \<Rightarrow> signer_heap
     \<Rightarrow> (signer_module_error, signer_reply) result" where
  "handle_request_signature C N G arrival state mid request h =
     (case map_of (hp_jwts h) mid of
        None \<Rightarrow> Err (RequestError ''Module signing ID not found'')
      | Some cfg \<Rightarrow>
          (let signing_id = ms_signing_id cfg in
           case hp_managers h ! sv_manager state of
             ManagerLocal m \<Rightarrow>
               (case request of
                  SignConsensus r \<Rightarrow>
                    and_then (sign_consensus C m (scr_pubkey r) (scr_object_root r) (Some signing_id))
                      (\<lambda>sig. Ok (BlsSignatureReply sig))
                | SignProxyBls r \<Rightarrow>
                    and_then (sign_proxy_bls C m (spr_proxy r) (spr_object_root r) (Some signing_id))
                      (\<lambda>sig. Ok (BlsSignatureReply sig))
                | SignProxyEcdsa r \<Rightarrow>
                    and_then (sign_proxy_ecdsa C m (spr_proxy r) (spr_object_root r) (Some signing_id))
                      (\<lambda>sig. Ok (EcdsaSignatureReply sig)))
           | ManagerDirk m \<Rightarrow>
               (case request of
                  SignConsensus r \<Rightarrow>
                    and_then (request_consensus_signature C N G arrival m (scr_pubkey r)
                                (scr_object_root r) (Some signing_id))
                      (\<lambda>sig. Ok (BlsSignatureReply sig))
                | SignProxyBls r \<Rightarrow>
                    and_then (request_proxy_signature C N G arrival m (spr_proxy r)
                                (spr_object_root r) (Some signing_id))
                      (\<lambda>sig. Ok (BlsSignatureReply sig))
                | SignProxyEcdsa _ \<Rightarrow> Err DirkNotSupported)))"

text \<open>Fresh randomness of a request: new secret keys, a password, a salt, an account uuid.\<close>

record fresh =
  fr_bls_secret :: bls_secret_key
  fr_ecdsa_secret :: ecdsa_secret_key
  fr_password :: string
  fr_seed :: nat
  fr_uuid :: string

definition handle_generate_proxy ::
  "crypto \<Rightarrow> dirknet \<Rightarrow> ('s::field, 'g::ab_group_add) siggroup
     \<Rightarrow> arrival_times \<Rightarrow> storelib \<Rightarrow> fresh
     \<Rightarrow> signing_state \<Rightarrow> module_id \<Rightarrow> generate_proxy_request \<Rightarrow> signer_heap
     \<Rightarrow> signer_heap \<times> (signer_module_error, signer_reply) result" where
  "handle_generate_proxy C N G arrival L fr state mid request h =
     (let write_back = (\<lambda>manager fs. h\<lparr>hp_managers := (hp_managers h)[sv_manager state := manager], hp_fs := fs\<rparr>)
      in
      case hp_managers h ! sv_manager state of
        ManagerLocal m \<Rightarrow>
          (case gpr_scheme request of
             Bls \<Rightarrow>
               (case create_proxy_bls C L (fr_bls_secret fr) (fr_password fr) (fr_seed fr) mid
                       (gpr_consensus_pubkey request) m (hp_fs h) of
                  (m', fs', r) \<Rightarrow>
                    (write_back (ManagerLocal m') fs', and_then r (\<lambda>d. Ok (BlsDelegationReply d))))
           | Ecdsa \<Rightarrow>
               (case create_proxy_ecdsa C L (fr_ecdsa_secret fr) (fr_password fr) (fr_seed fr) mid
                       (gpr_consensus_pubkey request) m (hp_fs h) of
                  (m', fs', r) \<Rightarrow>
                    (write_back (ManagerLocal m') fs', and_then r (\<lambda>d. Ok (EcdsaDelegationReply d)))))
      | ManagerDirk m \<Rightarrow>
          (case gpr_scheme request of
             Bls \<Rightarrow>
               (case generate_proxy_key C N G arrival L (fr_uuid fr) (fr_password fr) mid
                       (gpr_consensus_pubkey request) m (hp_fs h) of
                  (m', fs', r) \<Rightarrow>
                    (write_back (ManagerDirk m') fs', and_then r (\<lambda>d. Ok (BlsDelegationReply d))))
           | Ecdsa \<Rightarrow> (h, Err DirkNotSupported)))"

definition handle_revoke_module ::
  "module_id \<Rightarrow> signer_heap \<Rightarrow> signer_heap \<times> (signer_module_error, signer_reply) result" where
  "handle_revoke_module mid h =
     (case map_of (hp_jwts h) mid of
        None \<Rightarrow> (h, Err ModuleIdNotFound)
      | Some _ \<Rightarrow> (h\<lparr>hp_jwts := AList.delete mid (hp_jwts h)\<rparr>, Ok StatusOk))"

section \<open>Start and reload\<close>

definition start_manager ::
  "crypto \<Rightarrow> storelib \<Rightarrow> keylib \<Rightarrow> dirknet \<Rightarrow> config_env \<Rightarrow> filesystem \<Rightarrow> start_signer_config
     \<Rightarrow> (string, signing_manager) result outcome" where
  "start_manager C L K N E fs config =
     (case (case ss_store config of
              Some store \<Rightarrow> and_then (init_from_env E store) (\<lambda>s. Ok (Some s))
            | None \<Rightarrow> Ok None) of
        Inl e \<Rightarrow> Returned (Err e)
      | Inr proxy_store \<Rightarrow>
          (case ss_dirk config of
             Some dirk \<Rightarrow>
               (let manager = dirk_manager_new N (ss_chain config) dirk in
                Returned
                  (case ss_store config of
                     None \<Rightarrow> Ok (ManagerDirk manager)
                   | Some store \<Rightarrow>
                       and_then (init_from_env E store) (\<lambda>s.
                       and_then (with_proxy_store manager s) (\<lambda>m. Ok (ManagerDirk m)))))
           | None \<Rightarrow>
               (case local_manager_new C L fs (ss_chain config) proxy_store of
                  Inl e \<Rightarrow> Returned (Err e)
                | Inr manager \<Rightarrow>
                    (case ss_loader config of
                       None \<Rightarrow> Returned (Err ''No loader configured'')
                     | Some loader \<Rightarrow>
                         (case load_keys C L K E fs loader of
                            Panicked \<Rightarrow> Panicked
                          | Returned (Inl e) \<Rightarrow> Returned (Err e)
                          | Returned (Inr signers) \<Rightarrow>
                              Returned (Ok (ManagerLocal
                                (foldl (\<lambda>m s. add_consensus_signer C s m) manager signers))))))))"

text \<open>The loop over the secrets of a reload request.\<close>

fun reload_jwts ::
  "(module_id \<times> module_signing_config) list \<Rightarrow> (module_id \<times> module_signing_config) list
     \<Rightarrow> (module_id \<times> string) list
     \<Rightarrow> (signer_module_error, (module_id \<times> module_signing_config) list) result" where
  "reload_jwts jwt_configs new_configs [] = Ok new_configs"
| "reload_jwts jwt_configs new_configs ((mid, jwt_secret) # rest) =
     (case map_of jwt_configs mid of
        Some cfg \<Rightarrow>
          reload_jwts jwt_configs
            (AList.update mid \<lparr>ms_module_name = mid, ms_jwt_secret = jwt_secret,
                               ms_signing_id = ms_signing_id cfg\<rparr> new_configs) rest
      | None \<Rightarrow> Err (RequestError ''signing ID not found in commit-boost config, cannot reload''))"

text \<open>
  \<open>handle_reload\<close>: the state is the request's own clone, returned last. The new manager is allocated
  and the clone made to refer to it.
\<close>

definition signer_handle_reload ::
  "crypto \<Rightarrow> storelib \<Rightarrow> keylib \<Rightarrow> dirknet \<Rightarrow> config_env \<Rightarrow> (string, signer_file_config) result
     \<Rightarrow> reload_request \<Rightarrow> signing_state \<Rightarrow> signer_heap
     \<Rightarrow> signer_heap \<times> (signer_module_error, signer_reply) result outcome \<times> signing_state" where
  "signer_handle_reload C L K N E loaded request state h =
     (case load_from_env E loaded of
        Inl _ \<Rightarrow> (h, Returned (Err (InternalError ''failed to reload config'')), state)
      | Inr config \<Rightarrow>
          (case (case rr_jwt_secrets request of
                   None \<Rightarrow> Ok (hp_jwts h)
                 | Some jwt_secrets \<Rightarrow> reload_jwts (hp_jwts h) [] jwt_secrets) of
             Inl e \<Rightarrow> (h, Returned (Err e), state)
           | Inr jwts \<Rightarrow>
               (let h1 = h\<lparr>hp_jwts := jwts\<rparr>;
                    h2 = (case rr_admin_secret request of
                            Some admin_secret \<Rightarrow> h1\<lparr>hp_admin_secret := admin_secret\<rparr>
                          | None \<Rightarrow> h1)
                in
                case start_manager C L K N E (hp_fs h2) config of
                  Panicked \<Rightarrow> (h2, Panicked, state)
                | Returned (Inl _) \<Rightarrow>
                    (h2, Returned (Err (InternalError ''failed to reload config'')), state)
                | Returned (Inr new_manager) \<Rightarrow>
                    (h2\<lparr>hp_managers := hp_managers h2 @ [new_manager]\<rparr>, Returned (Ok StatusOk),
                     state\<lparr>sv_manager := length (hp_managers h2)\<rparr>))))"

text \<open>\<open>SigningService::run\<close> up to serving: the shared cells and the state that the routers clone.\<close>

definition signing_service_start ::
  "crypto \<Rightarrow> storelib \<Rightarrow> keylib \<Rightarrow> dirknet \<Rightarrow> config_env \<Rightarrow> filesystem \<Rightarrow> start_signer_config
     \<Rightarrow> (string, (signer_heap \<times> signing_state) option) result outcome" where
  "signing_service_start C L K N E fs config =
     (if ss_mod_signing_configs config = [] then Returned (Ok None)
      else
        (case start_manager C L K N E fs config of
           Panicked \<Rightarrow> Panicked
         | Returned (Inl e) \<Rightarrow> Returned (Err e)
         | Returned (Inr manager) \<Rightarrow>
             Returned (Ok (Some
               (\<lparr>hp_managers = [manager], hp_jwts = ss_mod_signing_configs config,
                 hp_admin_secret = ss_admin_secret config, hp_jwt_auth_failures = [], hp_fs = fs\<rparr>,
                \<lparr>sv_manager = 0, sv_jwt_auth_fail_limit = ss_jwt_auth_fail_limit config,
                 sv_jwt_auth_fail_timeout = 1000 * unat (ss_jwt_auth_fail_timeout_seconds config)\<rparr>)))))"


section \<open>Serving requests\<close>

text \<open>
  The two routers of \<open>run\<close>: the three routes of the signer behind \<open>jwt_auth\<close>, the two administrative
  ones behind \<open>admin_auth\<close>, and the status route behind neither. Every request gets a clone of the
  state of the service; what a handler does to its clone is dropped with it.
\<close>

datatype signer_route =
    RequestSignature sign_request
  | GetPubkeys
  | GenerateProxy generate_proxy_request
  | Reload reload_request
  | RevokeModule module_id
  | SignerStatus

record signer_call =
  ca_now :: nat
  ca_ip :: ip_addr
  ca_token :: string
  ca_route :: signer_route
  ca_fresh :: fresh
  ca_jwt :: jwtlib
  ca_env :: config_env
  ca_config :: "(string, signer_file_config) result"
  ca_arrival :: arrival_times

text \<open>A route of the signer router: the handler runs with the module id that \<open>jwt_auth\<close> gives.\<close>

definition with_jwt_auth ::
  "signing_state \<Rightarrow> signer_call \<Rightarrow> signer_heap
     \<Rightarrow> (module_id \<Rightarrow> signer_heap \<Rightarrow> signer_heap \<times> (signer_module_error, signer_reply) result)
     \<Rightarrow> signer_heap \<times> (signer_module_error, signer_reply) result outcome" where
  "with_jwt_auth state ca h handler =
     (case jwt_auth (ca_jwt ca) state (ca_now ca) (ca_ip ca) (ca_token ca) h of
        (h1, Inl e) \<Rightarrow> (h1, Returned (Err e))
      | (h1, Inr mid) \<Rightarrow> (case handler mid h1 of (h2, r) \<Rightarrow> (h2, Returned r)))"

fun serve ::
  "crypto \<Rightarrow> dirknet \<Rightarrow> ('s::field, 'g::ab_group_add) siggroup \<Rightarrow> storelib \<Rightarrow> keylib
     \<Rightarrow> signing_state \<Rightarrow> signer_call \<Rightarrow> signer_heap
     \<Rightarrow> signer_heap \<times> (signer_module_error, signer_reply) result outcome" where
  "serve C N G L K state ca h =
     (case ca_route ca of
        RequestSignature request \<Rightarrow>
          with_jwt_auth state ca h (\<lambda>mid h.
            (h, handle_request_signature C N G (ca_arrival ca) state mid request h))
      | GetPubkeys \<Rightarrow>
          with_jwt_auth state ca h (\<lambda>mid h. (h, handle_get_pubkeys state mid h))
      | GenerateProxy request \<Rightarrow>
          with_jwt_auth state ca h (\<lambda>mid h.
            handle_generate_proxy C N G (ca_arrival ca) L (ca_fresh ca) state mid request h)
      | Reload request \<Rightarrow>
          (case admin_auth (ca_jwt ca) (ca_token ca) h of
             Inl e \<Rightarrow> (h, Returned (Err e))
           | Inr _ \<Rightarrow>
               (case signer_handle_reload C L K N (ca_env ca) (ca_config ca) request state h of
                  (h', r, _) \<Rightarrow> (h', r)))
      | RevokeModule mid \<Rightarrow>
          (case admin_auth (ca_jwt ca) (ca_token ca) h of
             Inl e \<Rightarrow> (h, Returned (Err e))
           | Inr _ \<Rightarrow> (case handle_revoke_module mid h of (h', r) \<Rightarrow> (h', Returned r)))
      | SignerStatus \<Rightarrow> (h, Returned signer_handle_status))"

declare serve.simps [simp del]

text \<open>The heaps that a running service goes through, one request after the other.\<close>

inductive signer_reachable ::
  "crypto \<Rightarrow> dirknet \<Rightarrow> ('s::field, 'g::ab_group_add) siggroup \<Rightarrow> storelib \<Rightarrow> keylib
     \<Rightarrow> signing_state \<Rightarrow> signer_heap \<Rightarrow> signer_heap \<Rightarrow> bool"
  for C N G L K state h0 where
  start: "signer_reachable C N G L K state h0 h0"
| request: "signer_reachable C N G L K state h0 h \<Longrightarrow> serve C N G L K state ca h = (h', r) \<Longrightarrow>
    signer_reachable C N G L K state h0 h'"

section \<open>Authentication: properties\<close>

lemma check_jwt_auth_Ok_iff:
  "check_jwt_auth J jwt h = Ok mid \<longleftrightarrow>
     decode_jwt J jwt = Ok mid \<and>
     (\<exists>cfg. map_of (hp_jwts h) mid = Some cfg \<and> validate_jwt J jwt (ms_jwt_secret cfg) = Ok ())"
  by (auto simp: check_jwt_auth_def and_then_Ok_iff split: option.splits)

lemma check_jwt_auth_Err: "check_jwt_auth J jwt h = Err e \<Longrightarrow> e = Unauthorized"
  by (auto simp: check_jwt_auth_def and_then_Err_iff map_err_Err_iff split: option.splits)

lemma check_jwt_rate_limit_frame:
  "check_jwt_rate_limit state now ip h = (h1, r) \<Longrightarrow>
     hp_managers h1 = hp_managers h \<and> hp_jwts h1 = hp_jwts h \<and> hp_fs h1 = hp_fs h \<and>
     hp_admin_secret h1 = hp_admin_secret h"
  by (auto simp: check_jwt_rate_limit_def Let_def split: option.splits if_splits)

lemma check_jwt_auth_cong: "hp_jwts h1 = hp_jwts h \<Longrightarrow> check_jwt_auth J jwt h1 = check_jwt_auth J jwt h"
  by (simp add: check_jwt_auth_def)

text \<open>Every failure of \<open>check_jwt_auth\<close> is \<open>Unauthorized\<close>, so every failure is counted.\<close>

lemma jwt_auth_eq:
  "jwt_auth J state now ip jwt h =
     (case check_jwt_rate_limit state now ip h of
        (h1, Inl e) \<Rightarrow> (h1, Err e)
      | (h1, Inr _) \<Rightarrow>
          (case check_jwt_auth J jwt h of
             Inr mid \<Rightarrow> (h1, Ok mid)
           | Inl _ \<Rightarrow> (record_failure now ip h1, Err Unauthorized)))"
proof -
  obtain h1 q where l: "check_jwt_rate_limit state now ip h = (h1, q)" by fastforce
  have c: "check_jwt_auth J jwt h1 = check_jwt_auth J jwt h"
    by (rule check_jwt_auth_cong) (simp add: check_jwt_rate_limit_frame [OF l])
  show ?thesis
  proof (cases "check_jwt_auth J jwt h")
    case (Inl e)
    with check_jwt_auth_Err [OF Inl] l c show ?thesis by (cases q) (simp_all add: jwt_auth_def)
  next
    case (Inr mid)
    with l c show ?thesis by (cases q) (simp_all add: jwt_auth_def)
  qed
qed

lemma jwt_auth_frame:
  assumes "jwt_auth J state now ip jwt h = (h1, r)"
  shows "hp_managers h1 = hp_managers h \<and> hp_jwts h1 = hp_jwts h \<and> hp_fs h1 = hp_fs h \<and>
    hp_admin_secret h1 = hp_admin_secret h"
proof -
  obtain h2 q where l: "check_jwt_rate_limit state now ip h = (h2, q)" by fastforce
  show ?thesis
    using check_jwt_rate_limit_frame [OF l] assms l
    by (cases q; cases "check_jwt_auth J jwt h") (auto simp: jwt_auth_eq record_failure_def Let_def)
qed

lemma jwt_auth_jwts: "hp_jwts (fst (jwt_auth J state now ip jwt h)) = hp_jwts h"
  using jwt_auth_frame [OF prod.collapse [symmetric]] by blast

lemma jwt_auth_Ok:
  assumes "jwt_auth J state now ip jwt h = (h1, Ok mid)"
  shows "check_jwt_auth J jwt h = Ok mid"
proof -
  obtain h2 q where l: "check_jwt_rate_limit state now ip h = (h2, q)" by fastforce
  with assms show ?thesis
    by (cases q; cases "check_jwt_auth J jwt h") (auto simp: jwt_auth_eq)
qed

text \<open>The failures counted for a client.\<close>

definition failures_of :: "signer_heap \<Rightarrow> ip_addr \<Rightarrow> jwt_auth_failure_info option" where
  "failures_of h = map_of (hp_jwt_auth_failures h)"

definition rate_limited :: "signing_state \<Rightarrow> nat \<Rightarrow> ip_addr \<Rightarrow> signer_heap \<Rightarrow> bool" where
  "rate_limited state now ip h \<longleftrightarrow>
     (case failures_of h ip of None \<Rightarrow> False
      | Some i \<Rightarrow> now - jf_last_failure i \<le> sv_jwt_auth_fail_timeout state \<and>
                 sv_jwt_auth_fail_limit state \<le> jf_failure_count i)"

lemma check_jwt_rate_limit_Err_iff:
  "is_ok (snd (check_jwt_rate_limit state now ip h)) \<longleftrightarrow> \<not> rate_limited state now ip h"
  by (auto simp: check_jwt_rate_limit_def rate_limited_def failures_of_def Let_def split: option.splits)

text \<open>A rate-limited request fails with the time that is left, and changes nothing.\<close>

lemma jwt_auth_rate_limited:
  assumes "rate_limited state now ip h"
  shows "\<exists>i. failures_of h ip = Some i \<and> jwt_auth J state now ip jwt h =
    (h, Err (RateLimited (sv_jwt_auth_fail_timeout state - (now - jf_last_failure i))))"
  using assms
  by (auto simp: rate_limited_def failures_of_def jwt_auth_def check_jwt_rate_limit_def Let_def
      split: option.splits)

lemma jwt_auth_not_limited:
  assumes "\<not> rate_limited state now ip h"
  shows "snd (jwt_auth J state now ip jwt h) = check_jwt_auth J jwt h"
proof -
  obtain h2 q where l: "check_jwt_rate_limit state now ip h = (h2, q)" by fastforce
  with assms check_jwt_rate_limit_Err_iff [of state now ip h] have "is_ok q" by simp
  with l check_jwt_auth_Err [of J jwt h] show ?thesis
    by (cases q; cases "check_jwt_auth J jwt h") (auto simp: jwt_auth_eq)
qed

text \<open>A wrong token is counted, from one when the client had no recent failure.\<close>

lemma jwt_auth_bad_token:
  assumes "\<not> rate_limited state now ip h" and "check_jwt_auth J jwt h = Err e"
  shows "snd (jwt_auth J state now ip jwt h) = Err Unauthorized \<and>
    failures_of (fst (jwt_auth J state now ip jwt h)) =
      (failures_of h)(ip \<mapsto>
        \<lparr>jf_failure_count =
           (case failures_of h ip of None \<Rightarrow> 1
            | Some i \<Rightarrow> if now - jf_last_failure i > sv_jwt_auth_fail_timeout state then 1
                       else jf_failure_count i + 1),
         jf_last_failure = now\<rparr>)"
  using assms
  by (cases "failures_of h ip")
    (simp_all add: jwt_auth_eq rate_limited_def failures_of_def check_jwt_rate_limit_def
      record_failure_def Let_def update_conv' delete_conv' fun_eq_iff not_le, blast)

text \<open>The results of a client that presents the tokens of a list at the times given with them.\<close>

fun jwt_attempts ::
  "jwtlib \<Rightarrow> signing_state \<Rightarrow> ip_addr \<Rightarrow> (nat \<times> string) list \<Rightarrow> signer_heap
     \<Rightarrow> (signer_module_error, module_id) result list" where
  "jwt_attempts J state ip [] h = []"
| "jwt_attempts J state ip ((now, jwt) # rest) h =
     (case jwt_auth J state now ip jwt h of (h1, r) \<Rightarrow> r # jwt_attempts J state ip rest h1)"


text \<open>
  A client that had no failure and presents wrong tokens only, all of them within the window after
  the first: the first \<open>max 1 limit\<close> are answered with 401 and all later ones with 429.
\<close>

definition auth_status :: "(signer_module_error, 'a) result \<Rightarrow> u16" where
  "auth_status r = (case r of Inl e \<Rightarrow> signer_status e | Inr _ \<Rightarrow> 200)"

lemma auth_status_simps [simp]:
  "auth_status (Inl e) = signer_status e" "auth_status (Inr x) = 200"
  by (simp_all add: auth_status_def)

definition wrong_token :: "jwtlib \<Rightarrow> signer_heap \<Rightarrow> string \<Rightarrow> bool" where
  "wrong_token J h jwt \<longleftrightarrow> \<not> is_ok (check_jwt_auth J jwt h)"

lemma wrong_token_frame: "hp_jwts h1 = hp_jwts h \<Longrightarrow> wrong_token J h1 jwt = wrong_token J h jwt"
  unfolding wrong_token_def using check_jwt_auth_cong by metis

lemma jwt_attempts_limited:
  assumes "\<forall>(t, jwt)\<in>set xs. t - jf_last_failure i \<le> sv_jwt_auth_fail_timeout state"
    and "failures_of h ip = Some i" and "sv_jwt_auth_fail_limit state \<le> jf_failure_count i"
  shows "map auth_status (jwt_attempts J state ip xs h) = replicate (length xs) 429"
  using assms
proof (induction xs)
  case Nil
  then show ?case by simp
next
  case (Cons x xs)
  obtain t jwt where x: "x = (t, jwt)" by fastforce
  with Cons.prems have "rate_limited state t ip h" by (simp add: rate_limited_def)
  from jwt_auth_rate_limited [OF this, of J jwt] Cons x show ?case
    by auto
qed

lemma jwt_attempts_counting:
  assumes "\<forall>(t, jwt)\<in>set xs. wrong_token J h jwt \<and> t \<le> t0 + sv_jwt_auth_fail_timeout state \<and> t0 \<le> t"
    and "failures_of h ip = Some i" and "t0 \<le> jf_last_failure i"
    and "1 \<le> unat (jf_failure_count i)"
    and "unat (jf_failure_count i) \<le> max 1 (unat (sv_jwt_auth_fail_limit state))"
    and "n = max 1 (unat (sv_jwt_auth_fail_limit state)) - unat (jf_failure_count i)"
  shows "map auth_status (jwt_attempts J state ip xs h) =
    replicate (min n (length xs)) 401 @ replicate (length xs - n) 429"
  using assms
proof (induction xs arbitrary: h i n)
  case Nil
  then show ?case by simp
next
  case (Cons x xs)
  obtain t jwt where x: "x = (t, jwt)" by fastforce
  have window: "s - jf_last_failure i \<le> sv_jwt_auth_fail_timeout state" if "(s, j) \<in> set (x # xs)" for s j
    using Cons.prems(1,3) that by fastforce
  show ?case
  proof (cases "sv_jwt_auth_fail_limit state \<le> jf_failure_count i")
    case True
    then have "n = 0" using Cons.prems(4,6) by (simp add: word_le_nat_alt)
    moreover have "map auth_status (jwt_attempts J state ip (x # xs) h) = replicate (length (x # xs)) 429"
      using window Cons.prems(2) True by (intro jwt_attempts_limited [of _ i]) auto
    ultimately show ?thesis by simp
  next
    case False
    then have lt: "unat (jf_failure_count i) < unat (sv_jwt_auth_fail_limit state)"
      by (simp add: word_le_nat_alt)
    then have suc: "unat (jf_failure_count i + 1) = Suc (unat (jf_failure_count i))"
      using unsigned_less [of "sv_jwt_auth_fail_limit state", where 'a = nat]
      by (simp add: unat_word_ariths)
    let ?h1 = "fst (jwt_auth J state t ip jwt h)"
    let ?i1 = "\<lparr>jf_failure_count = jf_failure_count i + 1, jf_last_failure = t\<rparr>"
    have open_: "\<not> rate_limited state t ip h"
      using False Cons.prems(2) by (simp add: rate_limited_def)
    obtain e where e: "check_jwt_auth J jwt h = Err e"
      using Cons.prems(1) x by (cases "check_jwt_auth J jwt h") (auto simp: wrong_token_def)
    have w: "t - jf_last_failure i \<le> sv_jwt_auth_fail_timeout state"
      by (rule window [of t jwt]) (simp add: x)
    from jwt_auth_bad_token [OF open_ e] w Cons.prems(2)
    have step: "snd (jwt_auth J state t ip jwt h) = Err Unauthorized" "failures_of ?h1 ip = Some ?i1"
      by simp_all
    have jwts: "hp_jwts ?h1 = hp_jwts h"
      by (rule jwt_auth_jwts)
    have "map auth_status (jwt_attempts J state ip xs ?h1) =
        replicate (min (n - 1) (length xs)) 401 @ replicate (length xs - (n - 1)) 429"
      using Cons.prems(1,3,5,6) x jwts step(2) lt suc
      by (intro Cons.IH [of ?h1 ?i1]) (auto simp: wrong_token_frame [OF jwts])
    moreover have "0 < n" using lt Cons.prems(6) by simp
    ultimately show ?thesis
      using step(1) x
      by (cases n) (simp_all add: split_beta min_def)
  qed
qed

lemma jwt_attempts_bad_tokens:
  assumes "failures_of h ip = None" and "xs = (t0, jwt0) # ys"
    and "\<forall>(t, jwt)\<in>set xs. wrong_token J h jwt \<and> t \<le> t0 + sv_jwt_auth_fail_timeout state \<and> t0 \<le> t"
    and "n = max 1 (unat (sv_jwt_auth_fail_limit state))"
  shows "map auth_status (jwt_attempts J state ip xs h) =
    replicate (min n (length xs)) 401 @ replicate (length xs - n) 429"
proof -
  let ?h1 = "fst (jwt_auth J state t0 ip jwt0 h)"
  let ?i1 = "\<lparr>jf_failure_count = 1, jf_last_failure = t0\<rparr>"
  have "\<not> rate_limited state t0 ip h" using assms(1) by (simp add: rate_limited_def)
  moreover obtain e where "check_jwt_auth J jwt0 h = Err e"
    using assms(2,3) by (cases "check_jwt_auth J jwt0 h") (auto simp: wrong_token_def)
  ultimately have step: "snd (jwt_auth J state t0 ip jwt0 h) = Err Unauthorized" "failures_of ?h1 ip = Some ?i1"
    using jwt_auth_bad_token [of state t0 ip h J jwt0 e] assms(1) by simp_all
  have jwts: "hp_jwts ?h1 = hp_jwts h"
    by (rule jwt_auth_jwts)
  have "map auth_status (jwt_attempts J state ip ys ?h1) =
      replicate (min (n - 1) (length ys)) 401 @ replicate (length ys - (n - 1)) 429"
    using assms(2,3,4) step(2)
    by (intro jwt_attempts_counting [of _ _ _ t0 _ _ ?i1]) (auto simp: wrong_token_frame [OF jwts])
  moreover have "0 < n" using assms(4) by simp
  ultimately show ?thesis
    using step(1) assms(2)
    by (cases n) (simp_all add: split_beta min_def)
qed

text \<open>Only failures of the same client count against it.\<close>

lemma jwt_auth_other_client:
  assumes "ip' \<noteq> ip"
  shows "failures_of (fst (jwt_auth J state now ip' jwt h)) ip = failures_of h ip"
proof -
  have lim: "failures_of (fst (check_jwt_rate_limit state now ip' h)) ip = failures_of h ip"
    using assms
    by (simp add: check_jwt_rate_limit_def failures_of_def Let_def delete_conv' split: option.splits)
  moreover have "failures_of (record_failure now ip' h1) ip = failures_of h1 ip" for h1
    using assms by (simp add: record_failure_def failures_of_def Let_def update_conv')
  ultimately show ?thesis
    by (cases "check_jwt_rate_limit state now ip' h"; cases "snd (check_jwt_rate_limit state now ip' h)";
        cases "check_jwt_auth J jwt h") (simp_all add: jwt_auth_eq)
qed


section \<open>What a running service keeps\<close>

lemma reload_jwts_Ok:
  assumes "reload_jwts configs acc secrets = Ok jwts" and "map_of jwts mid = Some cfg"
  shows "map_of acc mid = Some cfg \<or>
    (\<exists>old secret. map_of configs mid = Some old \<and> (mid, secret) \<in> set secrets \<and>
       cfg = \<lparr>ms_module_name = mid, ms_jwt_secret = secret, ms_signing_id = ms_signing_id old\<rparr>)"
  using assms
proof (induction configs acc secrets rule: reload_jwts.induct)
  case (1 configs acc)
  then show ?case by simp
next
  case (2 configs acc m secret rest)
  from "2.prems"(1) obtain old where old: "map_of configs m = Some old"
    by (simp split: option.splits)
  from "2.IH" [OF old] "2.prems" old show ?case
    by (auto simp: update_conv' split: if_splits)
qed

text \<open>
  Every module that is registered was registered at the start, and signs under the signing id it had
  then; the manager that requests use is of the same kind, chain and consensus keys as at the start.
\<close>

definition registry_from :: "signer_heap \<Rightarrow> signer_heap \<Rightarrow> bool" where
  "registry_from h0 h \<longleftrightarrow>
     (\<forall>mid cfg. map_of (hp_jwts h) mid = Some cfg \<longrightarrow>
        (\<exists>cfg0. map_of (hp_jwts h0) mid = Some cfg0 \<and> ms_signing_id cfg = ms_signing_id cfg0))"

lemma registry_from_refl: "registry_from h h"
  by (auto simp: registry_from_def)

lemma registry_from_trans: "registry_from h0 h1 \<Longrightarrow> registry_from h1 h2 \<Longrightarrow> registry_from h0 h2"
  unfolding registry_from_def by metis

lemma registry_from_cong: "hp_jwts h1 = hp_jwts h \<Longrightarrow> registry_from h h1"
  by (auto simp: registry_from_def)

definition active_manager :: "signing_state \<Rightarrow> signer_heap \<Rightarrow> signing_manager" where
  "active_manager state h = hp_managers h ! sv_manager state"

lemma handle_generate_proxy_frame:
  assumes "handle_generate_proxy C N G arrival L fr state mid request h = (h', r)"
  shows "hp_jwts h' = hp_jwts h \<and> hp_admin_secret h' = hp_admin_secret h \<and>
    length (hp_managers h') = length (hp_managers h)"
  using assms
  by (auto simp: handle_generate_proxy_def Let_def
      split: signing_manager.splits encryption_scheme.splits prod.splits)

lemma signer_handle_reload_jwts:
  assumes "signer_handle_reload C L K N E loaded request state h = (h', r, st)"
  shows "hp_jwts h' = hp_jwts h \<or>
    (\<exists>secrets. rr_jwt_secrets request = Some secrets \<and> reload_jwts (hp_jwts h) [] secrets = Ok (hp_jwts h'))"
  using assms
  by (auto simp: signer_handle_reload_def Let_def
      split: sum.splits option.splits outcome.splits)

text \<open>A reload adds a manager that only the request's own clone of the state refers to.\<close>

lemma signer_handle_reload_managers:
  assumes "signer_handle_reload C L K N E loaded request state h = (h', r, st)"
  shows "\<exists>new. hp_managers h' = hp_managers h @ new"
  using assms
  by (auto simp: signer_handle_reload_def Let_def
      split: sum.splits option.splits outcome.splits)

lemma serve_registry:
  assumes "serve C N G L K state ca h = (h', r)"
  shows "registry_from h h'"
proof (cases "ca_route ca")
  case (Reload request)
  with assms obtain st where "h' = h \<or>
      signer_handle_reload C L K N (ca_env ca) (ca_config ca) request state h = (h', r, st)"
    by (auto simp: serve.simps split: sum.splits prod.splits)
  then show ?thesis
  proof
    assume "signer_handle_reload C L K N (ca_env ca) (ca_config ca) request state h = (h', r, st)"
    from signer_handle_reload_jwts [OF this] show ?thesis
      by (fastforce simp: registry_from_def dest: reload_jwts_Ok)
  qed (simp add: registry_from_refl)
next
  case (RevokeModule mid)
  with assms show ?thesis
    by (auto simp: serve.simps handle_revoke_module_def registry_from_def delete_conv'
        split: sum.splits option.splits if_splits)
next
  case (GenerateProxy request)
  with assms obtain h1 q where a: "jwt_auth (ca_jwt ca) state (ca_now ca) (ca_ip ca) (ca_token ca) h = (h1, q)"
    and "h' = h1 \<or> (\<exists>mid r'. handle_generate_proxy C N G (ca_arrival ca) L (ca_fresh ca) state mid request h1 = (h', r'))"
    by (auto simp: serve.simps with_jwt_auth_def split: sum.splits prod.splits)
  then have "hp_jwts h' = hp_jwts h1" using handle_generate_proxy_frame by blast
  with jwt_auth_frame [OF a] show ?thesis by (intro registry_from_cong) simp
qed (use assms in \<open>auto simp: serve.simps with_jwt_auth_def intro!: registry_from_cong
      dest: jwt_auth_frame split: sum.splits prod.splits\<close>)

lemma signer_reachable_registry:
  "signer_reachable C N G L K state h0 h \<Longrightarrow> registry_from h0 h"
  by (induction rule: signer_reachable.induct)
    (auto intro: registry_from_refl registry_from_trans dest: serve_registry)


fun manager_from :: "signing_manager \<Rightarrow> signing_manager \<Rightarrow> bool" where
  "manager_from (ManagerLocal m0) (ManagerLocal m) \<longleftrightarrow>
     lm_chain m = lm_chain m0 \<and> lm_consensus_signers m = lm_consensus_signers m0"
| "manager_from (ManagerDirk m0) (ManagerDirk m) \<longleftrightarrow>
     dm_chain m = dm_chain m0 \<and> dm_consensus_accounts m = dm_consensus_accounts m0"
| "manager_from _ _ \<longleftrightarrow> False"

fun manager_wf :: "crypto \<Rightarrow> signing_manager \<Rightarrow> bool" where
  "manager_wf C (ManagerLocal m) \<longleftrightarrow> local_wf C m"
| "manager_wf C (ManagerDirk m) \<longleftrightarrow> True"

text \<open>What holds of a manager whatever its store held and whatever the Dirk servers answered.\<close>

fun manager_keyed :: "crypto \<Rightarrow> signing_manager \<Rightarrow> bool" where
  "manager_keyed C (ManagerLocal m) \<longleftrightarrow> local_keyed C m"
| "manager_keyed C (ManagerDirk m) \<longleftrightarrow> dirk_wf m"

lemma manager_from_refl: "manager_from m m"
  by (cases m) simp_all

lemma manager_from_trans: "manager_from m0 m1 \<Longrightarrow> manager_from m1 m2 \<Longrightarrow> manager_from m0 m2"
  by (cases m0; cases m1; cases m2) simp_all

lemma create_proxy_bls_from:
  "create_proxy_bls C L sk pw seed mid delegator m fs = (m', fs', r) \<Longrightarrow>
     manager_from (ManagerLocal m) (ManagerLocal m')"
  by (auto simp: create_proxy_bls_def add_proxy_signer_bls_def Let_def
      split: sum.splits option.splits prod.splits)

lemma create_proxy_ecdsa_from:
  "create_proxy_ecdsa C L sk pw seed mid delegator m fs = (m', fs', r) \<Longrightarrow>
     manager_from (ManagerLocal m) (ManagerLocal m')"
  by (auto simp: create_proxy_ecdsa_def add_proxy_signer_ecdsa_def Let_def
      split: sum.splits option.splits prod.splits)

lemma generate_proxy_key_from:
  "generate_proxy_key C N G arrival L uuid pw mid consensus m fs = (m', fs', r) \<Longrightarrow>
     manager_from (ManagerDirk m) (ManagerDirk m')"
  by (auto simp: generate_proxy_key_def Let_def split: prod.splits sum.splits option.splits account.splits)

lemma create_proxy_bls_wf:
  assumes "bls_complete C" and "local_wf C m"
    and "create_proxy_bls C L sk pw seed mid delegator m fs = (m', fs', r)"
  shows "local_wf C m'"
  using create_proxy_bls_Err [of C L sk pw seed mid delegator m fs m' fs']
    create_proxy_bls_Ok [OF assms(1,2), of L sk pw seed mid delegator fs m' fs'] assms
  by (cases r) (auto intro: local_wf_insert_bls)

lemma create_proxy_ecdsa_wf:
  assumes "bls_complete C" and "local_wf C m"
    and "create_proxy_ecdsa C L sk pw seed mid delegator m fs = (m', fs', r)"
  shows "local_wf C m'"
  using create_proxy_ecdsa_Err [of C L sk pw seed mid delegator m fs m' fs']
    create_proxy_ecdsa_Ok [OF assms(1,2), of L sk pw seed mid delegator fs m' fs'] assms
  by (cases r) (auto intro: local_wf_insert_ecdsa)

lemma create_proxy_keyed:
  "create_proxy_bls C L sk pw seed mid delegator m fs = (m', fs', r) \<Longrightarrow> local_keyed C m \<Longrightarrow> local_keyed C m'"
  "create_proxy_ecdsa C L sk' pw seed mid delegator m fs = (m', fs', r') \<Longrightarrow> local_keyed C m \<Longrightarrow> local_keyed C m'"
  using create_proxy_insert local_keyed_insert by metis+

lemma handle_generate_proxy_manager:
  assumes "handle_generate_proxy C N G arrival L fr state mid request h = (h', r)"
    and "sv_manager state < length (hp_managers h)"
  shows "manager_from (active_manager state h) (active_manager state h') \<and>
    (manager_keyed C (active_manager state h) \<longrightarrow> manager_keyed C (active_manager state h')) \<and>
    (bls_complete C \<longrightarrow> manager_wf C (active_manager state h) \<longrightarrow> manager_wf C (active_manager state h'))"
proof (cases "active_manager state h")
  case (ManagerLocal m)
  show ?thesis
  proof (cases "gpr_scheme request")
    case Bls
    with assms ManagerLocal obtain m' fs' q where
      c: "create_proxy_bls C L (fr_bls_secret fr) (fr_password fr) (fr_seed fr) mid
            (gpr_consensus_pubkey request) m (hp_fs h) = (m', fs', q)"
      and "active_manager state h' = ManagerLocal m'"
      by (auto simp: handle_generate_proxy_def active_manager_def Let_def split: prod.splits)
    with ManagerLocal create_proxy_bls_from [OF c] create_proxy_bls_wf [OF _ _ c] create_proxy_keyed(1) [OF c]
    show ?thesis by simp
  next
    case Ecdsa
    with assms ManagerLocal obtain m' fs' q where
      c: "create_proxy_ecdsa C L (fr_ecdsa_secret fr) (fr_password fr) (fr_seed fr) mid
            (gpr_consensus_pubkey request) m (hp_fs h) = (m', fs', q)"
      and "active_manager state h' = ManagerLocal m'"
      by (auto simp: handle_generate_proxy_def active_manager_def Let_def split: prod.splits)
    with ManagerLocal create_proxy_ecdsa_from [OF c] create_proxy_ecdsa_wf [OF _ _ c] create_proxy_keyed(2) [OF c]
    show ?thesis by simp
  qed
next
  case (ManagerDirk m)
  show ?thesis
  proof (cases "gpr_scheme request")
    case Bls
    with assms ManagerDirk obtain m' fs' q where
      c: "generate_proxy_key C N G arrival L (fr_uuid fr) (fr_password fr) mid
            (gpr_consensus_pubkey request) m (hp_fs h) = (m', fs', q)"
      and "active_manager state h' = ManagerDirk m'"
      by (auto simp: handle_generate_proxy_def active_manager_def Let_def split: prod.splits)
    with ManagerDirk generate_proxy_key_from [OF c] generate_proxy_key_wf [OF c] show ?thesis by simp
  next
    case Ecdsa
    with assms ManagerDirk have "h' = h"
      by (simp add: handle_generate_proxy_def active_manager_def Let_def)
    then show ?thesis by (simp add: manager_from_refl)
  qed
qed

definition manager_kept :: "crypto \<Rightarrow> signing_state \<Rightarrow> signer_heap \<Rightarrow> signer_heap \<Rightarrow> bool" where
  "manager_kept C state h h' \<longleftrightarrow>
     sv_manager state < length (hp_managers h') \<and>
     manager_from (active_manager state h) (active_manager state h') \<and>
     (manager_keyed C (active_manager state h) \<longrightarrow> manager_keyed C (active_manager state h')) \<and>
     (bls_complete C \<longrightarrow> manager_wf C (active_manager state h) \<longrightarrow> manager_wf C (active_manager state h'))"

lemma manager_keptI:
  assumes "sv_manager state < length (hp_managers h)" and "hp_managers h' = hp_managers h @ new"
  shows "manager_kept C state h h'"
  using assms by (simp add: manager_kept_def active_manager_def nth_append manager_from_refl)

lemma manager_kept_trans:
  "manager_kept C state h0 h1 \<Longrightarrow> manager_kept C state h1 h2 \<Longrightarrow> manager_kept C state h0 h2"
  unfolding manager_kept_def using manager_from_trans by blast

lemma with_jwt_auth_query:
  assumes "with_jwt_auth state ca h (\<lambda>mid h. (h, f mid h)) = (h', r)"
  shows "hp_managers h' = hp_managers h"
  using assms jwt_auth_frame
  by (cases "jwt_auth (ca_jwt ca) state (ca_now ca) (ca_ip ca) (ca_token ca) h")
    (fastforce simp: with_jwt_auth_def split: sum.splits)

lemma serve_manager:
  assumes "serve C N G L K state ca h = (h', r)" and "sv_manager state < length (hp_managers h)"
  shows "manager_kept C state h h'"
proof -
  note keep = manager_keptI [OF assms(2), where new = "[]", simplified]
  have auth: "hp_managers h1 = hp_managers h"
    if "jwt_auth (ca_jwt ca) state (ca_now ca) (ca_ip ca) (ca_token ca) h = (h1, q)" for h1 q
    using jwt_auth_frame [OF that] by simp
  show ?thesis
  proof (cases "ca_route ca")
    case (Reload request)
    with assms(1) obtain st where "h' = h \<or>
        signer_handle_reload C L K N (ca_env ca) (ca_config ca) request state h = (h', r, st)"
      by (auto simp: serve.simps split: sum.splits prod.splits)
    then show ?thesis
      using keep manager_keptI [OF assms(2)] signer_handle_reload_managers by metis
  next
    case (RevokeModule mid)
    with assms(1) have "hp_managers h' = hp_managers h"
      by (auto simp: serve.simps handle_revoke_module_def split: sum.splits option.splits)
    then show ?thesis by (rule keep)
  next
    case (GenerateProxy request)
    with assms obtain h1 q where a: "jwt_auth (ca_jwt ca) state (ca_now ca) (ca_ip ca) (ca_token ca) h = (h1, q)"
      and h': "h' = h1 \<or> (\<exists>mid r'. handle_generate_proxy C N G (ca_arrival ca) L (ca_fresh ca) state mid request h1 = (h', r'))"
      by (auto simp: serve.simps with_jwt_auth_def split: sum.splits prod.splits)
    have k: "manager_kept C state h h1" by (rule keep [OF auth [OF a]])
    have "manager_kept C state h1 h'" if "handle_generate_proxy C N G (ca_arrival ca) L (ca_fresh ca) state mid request h1 = (h', r')" for mid r'
      using handle_generate_proxy_manager [OF that] handle_generate_proxy_frame [OF that] auth [OF a] assms(2)
      by (simp add: manager_kept_def)
    with h' k manager_kept_trans show ?thesis by blast
  next
    case (RequestSignature request)
    with assms(1) show ?thesis by (intro keep) (simp add: serve.simps with_jwt_auth_query)
  next
    case GetPubkeys
    with assms(1) show ?thesis by (intro keep) (simp add: serve.simps with_jwt_auth_query)
  next
    case SignerStatus
    with assms(1) show ?thesis by (intro keep) (simp add: serve.simps)
  qed
qed

lemma signer_reachable_manager:
  assumes "signer_reachable C N G L K state h0 h" and "sv_manager state < length (hp_managers h0)"
  shows "manager_kept C state h0 h"
  using assms(1)
proof (induction rule: signer_reachable.induct)
  case start
  show ?case by (rule manager_keptI [OF assms(2), where new = "[]"]) simp
next
  case (request h ca h' r)
  then have "sv_manager state < length (hp_managers h)" by (simp add: manager_kept_def)
  from serve_manager [OF request.hyps(2) this] request.IH show ?case by (blast intro: manager_kept_trans)
qed

text \<open>A service starts with a manager whose keys are in order.\<close>

lemma start_manager_keyed:
  assumes "start_manager C L K N E fs config = Returned (Ok manager)"
  shows "manager_keyed C manager"
proof -
  have added: "local_keyed C (foldl (\<lambda>m s. add_consensus_signer C s m) m signers)" if "local_keyed C m" for m signers
    using that by (induction signers arbitrary: m) (simp_all add: local_keyed_add_consensus)
  have dirk: "dirk_wf m" if "with_proxy_store (dirk_manager_new N chain d) store = Ok m" for m chain d store
    using that dirk_manager_new_wf [of N chain d] by (cases store) (auto simp: dirk_wf_def)
  show ?thesis
    using assms
    by (auto simp: start_manager_def Let_def and_then_Ok_iff dirk_manager_new_wf
        intro: added [OF local_keyed_new] dirk split: sum.splits option.splits outcome.splits)
qed

fun manager_chain :: "signing_manager \<Rightarrow> chain" where
  "manager_chain (ManagerLocal m) = lm_chain m"
| "manager_chain (ManagerDirk m) = dm_chain m"

lemma manager_from_chain: "manager_from m0 m \<Longrightarrow> manager_chain m = manager_chain m0"
  by (cases m0; cases m) simp_all

lemma start_manager_chain:
  assumes "start_manager C L K N E fs config = Returned (Ok manager)"
  shows "manager_chain manager = ss_chain config"
proof -
  have added: "lm_chain (foldl (\<lambda>m s. add_consensus_signer C s m) m signers) = lm_chain m" for m signers
    by (induction signers arbitrary: m) simp_all
  have new: "lm_chain m = chain" if "local_manager_new C L fs chain store = Ok m" for m chain store
    using that by (auto simp: local_manager_new_def Let_def and_then_Ok_iff split: option.splits)
  have dirk: "dm_chain m = chain" if "with_proxy_store (dirk_manager_new N chain d) store = Ok m" for m chain d store
    using that by (cases store) (auto simp: dirk_manager_new_def)
  have plain: "dm_chain (dirk_manager_new N chain d) = chain" for chain d by (simp add: dirk_manager_new_def)
  show ?thesis
    using assms
    by (auto simp: start_manager_def Let_def and_then_Ok_iff added plain dest: new dirk
        split: sum.splits option.splits outcome.splits)
qed

text \<open>What a served request for a consensus signature did.\<close>

lemma handle_request_consensus:
  assumes "handle_request_signature C N G arrival state mid (SignConsensus r) h = Ok reply"
    and "map_of (hp_jwts h) mid = Some cfg"
  shows "\<exists>sig. reply = BlsSignatureReply sig \<and>
    (case active_manager state h of
       ManagerLocal m \<Rightarrow> sign_consensus C m (scr_pubkey r) (scr_object_root r) (Some (ms_signing_id cfg)) = Ok sig
     | ManagerDirk m \<Rightarrow>
         request_consensus_signature C N G arrival m (scr_pubkey r) (scr_object_root r) (Some (ms_signing_id cfg)) = Ok sig)"
  using assms
  by (auto simp: handle_request_signature_def active_manager_def Let_def and_then_Ok_iff split: signing_manager.splits)

lemma signing_service_start_keyed:
  assumes "signing_service_start C L K N E fs config = Returned (Ok (Some (h0, state)))"
  shows "sv_manager state < length (hp_managers h0)" and "manager_keyed C (active_manager state h0)"
    and "hp_jwts h0 = ss_mod_signing_configs config" and "hp_jwt_auth_failures h0 = []"
    and "manager_chain (active_manager state h0) = ss_chain config"
  using assms start_manager_keyed [of C L K N E fs config] start_manager_chain [of C L K N E fs config]
  by (auto simp: signing_service_start_def active_manager_def split: if_splits outcome.splits sum.splits)

end
