(* ===== verification/Instances.thy ===== *)
theory Instances
  imports Routes Signer_Service
begin

text \<open>
  Concrete environments: a web stack, a cryptographic library, a network and configurations on which
  the definitions of the development run. The properties that have hypotheses are applied to them.
\<close>

section \<open>Libraries\<close>

definition demo_header :: execution_payload_header where
  "demo_header = \<lparr>eph_parent_hash = 11, eph_fee_recipient = 1, eph_state_root = 2, eph_receipts_root = 3,
     eph_logs_bloom = [], eph_prev_randao = 4, eph_block_number = 101, eph_gas_limit = 30000000,
     eph_gas_used = 21000, eph_timestamp = 1606824035, eph_extra_data = [], eph_base_fee_per_gas = 7,
     eph_block_hash = 22, eph_transactions_root = 33, eph_withdrawals_root = 44, eph_blob_gas_used = 0,
     eph_excess_blob_gas = 0\<rparr>"

definition no_requests :: execution_requests where
  "no_requests = \<lparr>er_deposits = [], er_withdrawals = [], er_consolidations = []\<rparr>"

definition demo_message :: execution_payload_header_message_electra where
  "demo_message = \<lparr>hm_header = demo_header, hm_blob_kzg_commitments = [], hm_execution_requests = no_requests,
     hm_value = 1000, hm_pubkey = 5\<rparr>"

text \<open>Signatures pair the key with the message; a relay's key is its secret.\<close>

definition demo_sign :: "bls_secret_key \<Rightarrow> b256 \<Rightarrow> bls_signature" where
  "demo_sign sk msg = ucast sk * 2 ^ 256 + ucast msg"

definition demo_crypto :: crypto where
  "demo_crypto = \<lparr>
     th_signing_data = (\<lambda>root domain. root + domain),
     th_prop_commit_signing_info = (\<lambda>root mid. root + mid),
     th_fork_data = (\<lambda>v root. root),
     th_b256 = (\<lambda>root. root),
     th_delegation_bls = (\<lambda>d p. ucast d + ucast p),
     th_delegation_ecdsa = (\<lambda>d p. ucast d + ucast p),
     th_header_message = (\<lambda>m. eph_block_hash (hm_header m)),
     blst_key_validate = Ok,
     blst_sig_from_bytes = Ok,
     blst_verify = (\<lambda>sig msg pk. if sig = ucast pk * 2 ^ 256 + ucast msg then BLST_SUCCESS else BLST_VERIFY_FAIL),
     blst_sign = demo_sign,
     blst_sk_to_pk = ucast,
     blst_sk_from_bytes = (\<lambda>bs. Ok (word_of_nat (be_nat bs))),
     ecdsa_sign_hash = (\<lambda>sk msg. Ok (ucast sk)),
     ecdsa_recover = (\<lambda>sig msg. Ok (ucast sig)),
     ecdsa_address = ucast,
     ecdsa_sk_from_slice = (\<lambda>bs. Ok (word_of_nat (be_nat bs)))\<rparr>"

definition demo_bid :: get_header_response where
  "demo_bid = Electra \<lparr>sh_message = demo_message,
     sh_signature = demo_sign 5 (22 + compute_domain demo_crypto Mainnet APPLICATION_BUILDER_DOMAIN)\<rparr>"

text \<open>The unblinded payload for a block without blobs.\<close>

definition demo_payload :: submit_blinded_block_response where
  "demo_payload = Electra \<lparr>pb_execution_payload =
       \<lparr>ep_parent_hash = 11, ep_fee_recipient = 1, ep_state_root = 2, ep_receipts_root = 3,
        ep_logs_bloom = [], ep_prev_randao = 4, ep_block_number = 101, ep_gas_limit = 30000000,
        ep_gas_used = 21000, ep_timestamp = 1606824035, ep_extra_data = [], ep_base_fee_per_gas = 7,
        ep_block_hash = 22, ep_transactions = [], ep_withdrawals = [], ep_blob_gas_used = 0,
        ep_excess_blob_gas = 0\<rparr>,
     pb_blobs_bundle = \<lparr>bb_commitments = [KzgCommitment []], bb_proofs = [KzgProof []], bb_blobs = [[]]\<rparr>\<rparr>"

definition demo_block :: signed_blinded_beacon_block where
  "demo_block = \<lparr>sbb_message = BlindedElectra \<lparr>bbb_slot = 1, bbb_proposer_index = 0, bbb_parent_root = 0,
       bbb_state_root = 0,
       bbb_body = \<lparr>bd_randao_reveal = 0,
         bd_eth1_data = \<lparr>e1_deposit_root = 0, e1_deposit_count = 0, e1_block_hash = 0\<rparr>,
         bd_graffiti = 0, bd_proposer_slashings = [], bd_attester_slashings = [], bd_attestations = [],
         bd_deposits = [], bd_voluntary_exits = [],
         bd_sync_aggregate = \<lparr>sa_sync_committee_bits = [], sa_sync_committee_signature = 0\<rparr>,
         bd_execution_payload_header = demo_header, bd_bls_to_execution_changes = [],
         bd_blob_kzg_commitments = [KzgCommitment []], bd_execution_requests = no_requests\<rparr>\<rparr>,
     sbb_signature = 0\<rparr>"

definition demo_web :: weblib where
  "demo_web = \<lparr>
     url_join = (\<lambda>base path. Ok (base @ path)),
     url_append_pair = (\<lambda>u k v. u @ ''?'' @ k @ ''='' @ v),
     url_host = (\<lambda>_. Some ''relay''),
     url_username = (\<lambda>_. ''''),
     pubkey_from_hex = (\<lambda>_. Some 5),
     hv_to_str = Some,
     hv_from_str = Some,
     hn_from_str = Some,
     client_builds = (\<lambda>_. True),
     json_get_header = (\<lambda>bs. if bs = [1] then Ok demo_bid else Err ''not json''),
     json_submit_block = (\<lambda>bs. if bs = [2] then Ok demo_payload else Err ''not json''),
     hex_encode = (\<lambda>_. '''')\<rparr>"

section \<open>Relays and state\<close>

definition demo_relay_config :: "string \<Rightarrow> relay_config" where
  "demo_relay_config url = \<lparr>rc_id = None, rc_entry = \<lparr>re_id = url, re_pubkey = 5, re_url = url\<rparr>,
     rc_headers = None, rc_get_params = None, rc_enable_timing_games = False,
     rc_target_first_request_ms = None, rc_frequency_get_header_ms = None,
     rc_validator_registration_batch_size = None\<rparr>"

definition client_of :: "relay_config \<Rightarrow> relay_client" where
  "client_of c = \<lparr>rl_id = relay_config_id c, rl_default_headers = Map.empty, rl_config = c\<rparr>"

definition demo_pbs_config :: pbs_config where
  "demo_pbs_config = \<lparr>pc_host = 0, pc_port = 18550, pc_relay_check = True, pc_wait_all_registrations = True,
     pc_timeout_get_header_ms = 950, pc_timeout_get_payload_ms = 4000,
     pc_timeout_register_validator_ms = 3000, pc_skip_sigverify = False, pc_min_bid_wei = 0,
     pc_late_in_slot_time_ms = 2000, pc_extra_validation_enabled = False, pc_rpc_url = None,
     pc_http_timeout_seconds = 10, pc_register_validator_retry_limit = 3\<rparr>"

definition demo_module :: "pbs_config \<Rightarrow> relay_client list \<Rightarrow> pbs_module_config" where
  "demo_module c relays = \<lparr>pm_chain = Mainnet, pm_endpoint = SocketAddr 0 18550, pm_pbs_config = c,
     pm_relays = relays, pm_all_relays = relays, pm_signer_client = None, pm_event_publisher = Some [''sub''],
     pm_muxes = None\<rparr>"

definition demo_state :: "pbs_config \<Rightarrow> relay_client list \<Rightarrow> unit pbs_state" where
  "demo_state c relays = \<lparr>st_config = demo_module c relays, st_data = ()\<rparr>"

definition demo_relay :: relay_client where
  "demo_relay = client_of (demo_relay_config ''a'')"

text \<open>A relay that polls every 100 ms, from 50 ms into the slot on.\<close>

definition demo_timing_relay :: "u64 \<Rightarrow> relay_client" where
  "demo_timing_relay freq = client_of ((demo_relay_config ''a'')
     \<lparr>rc_enable_timing_games := True, rc_target_first_request_ms := Some 50,
      rc_frequency_get_header_ms := Some freq\<rparr>)"

section \<open>Networks\<close>

definition answer :: "u16 \<Rightarrow> bytes \<Rightarrow> http" where
  "answer code body = (\<lambda>_. (5, Ok \<lparr>resp_status = code, resp_content_length = None, resp_chunks = [Ok body]\<rparr>))"

definition refused :: http where
  "refused = (\<lambda>_. (0, Err \<lparr>err_is_timeout = False, err_is_connect = True\<rparr>))"

definition demo_gh_env :: gh_env where
  "demo_gh_env = \<lparr>ge_http = (\<lambda>_. answer 200 [1]), ge_now = (\<lambda>k. 1000 + word_of_nat k),
     ge_joined = (\<lambda>_. True), ge_arrived = (\<lambda>_. True)\<rparr>"

definition demo_params :: get_header_params where
  "demo_params = \<lparr>ghp_slot = 1, ghp_parent_hash = 11, ghp_pubkey = 77\<rparr>"

definition constant_net :: "http \<Rightarrow> retry_env" where
  "constant_net http = \<lparr>rt_http = (\<lambda>_. http), rt_duration = (\<lambda>_. 0), rt_oversleep = (\<lambda>_. 0)\<rparr>"

section \<open>The libraries keep their promises\<close>

lemma ucast_through:
  "(ucast (ucast (sk :: 256 word) :: 384 word) :: 768 word) = ucast sk"
  "(ucast (ucast (sk :: 256 word) :: 520 word) :: 160 word) = ucast sk"
  by (rule bit_word_eqI, auto simp: bit_ucast_iff dest: bit_imp_le_length)+

lemma demo_bls_complete: "bls_complete demo_crypto"
  by (simp add: bls_complete_def demo_crypto_def demo_sign_def ucast_through)

lemma demo_ecdsa_complete: "ecdsa_complete demo_crypto"
  by (simp add: ecdsa_complete_def demo_crypto_def ucast_through)

end
