(* ===== verification/Header_Properties.thy ===== *)
theory Header_Properties
  imports Instances
begin

text \<open>
  The properties of \<open>getHeader\<close>: what a bid that is returned satisfies, that it is the best one
  delivered, when nothing is asked of the relays, and how timing games spread the requests.
\<close>

lemma get_header_cases:
  assumes "get_header W C now env fetched params hs st = Some (effs, Ok best)"
    and "mux_config_and_relays st (ghp_pubkey params) = (cfg, relays, mid)"
  shows "max_header_timeout (ms_into_slot now (ghp_slot params) (pm_chain (st_config st))) cfg = 0
      \<and> effs = [] \<and> best = None \<or>
    (\<exists>ua results. get_user_agent_with_version W hs = Ok ua \<and>
       join_get_headers W C env params (pm_chain (st_config st)) [USER_AGENT \<mapsto> ua]
         (ms_into_slot now (ghp_slot params) (pm_chain (st_config st)))
         (max_header_timeout (ms_into_slot now (ghp_slot params) (pm_chain (st_config st))) cfg)
         (header_validation fetched st) relays = Some results \<and>
       best = max_by_key ghr_value (concat (map snd (map (\<lambda>(relay, r).
         record_bid params (rl_id relay) (snd r)) (zip relays results)))))"
  using assms
  by (auto simp: get_header_def Let_def split: if_splits sum.splits)

lemma get_header_bid:
  assumes "get_header W C now env fetched params hs st = Some (effs, Ok (Some bid))"
    and "mux_config_and_relays st (ghp_pubkey params) = (cfg, relays, mid)"
  shows "\<exists>i<length relays. \<exists>k. validate_get_header_response C params (relays ! i)
    (pm_chain (st_config st)) (cell_at (env i) (header_validation fetched st) k) bid = Ok ()"
proof -
  from get_header_cases [OF assms] obtain ua results where
    join: "join_get_headers W C env params (pm_chain (st_config st)) [USER_AGENT \<mapsto> ua]
         (ms_into_slot now (ghp_slot params) (pm_chain (st_config st)))
         (max_header_timeout (ms_into_slot now (ghp_slot params) (pm_chain (st_config st))) cfg)
         (header_validation fetched st) relays = Some results"
    and best: "Some bid = max_by_key ghr_value (concat (map snd (map (\<lambda>(relay, r).
         record_bid params (rl_id relay) (snd r)) (zip relays results))))"
    by auto
  note nth = join_get_headers_nth [OF join]
  have "bid \<in> set (concat (map snd (map (\<lambda>(relay, r).
         record_bid params (rl_id relay) (snd r)) (zip relays results))))"
    using max_by_key_SomeD [OF best [symmetric]] by blast
  then obtain i where i: "i < length relays" "snd (results ! i) = Ok (Some bid)"
    using relay_bids_mem [of results relays bid params] nth by blast
  then have "send_timed_get_header W C (env i) params (relays ! i) (pm_chain (st_config st))
      [USER_AGENT \<mapsto> ua] (ms_into_slot now (ghp_slot params) (pm_chain (st_config st)))
      (max_header_timeout (ms_into_slot now (ghp_slot params) (pm_chain (st_config st))) cfg)
      (header_validation fetched st) = Some (fst (results ! i), Ok (Some bid))"
    using nth by (metis prod.collapse)
  from send_timed_get_header_Ok [OF this] i(1) show ?thesis by blast
qed

lemma demo_mux: "mux_config_and_relays (demo_state c relays) pk = (c, relays, None)"
  by (simp add: mux_config_and_relays_def demo_state_def demo_module_def st_pbs_config_def)

lemma demo_ms_into: "ms_into_slot 1606824035100 1 Mainnet = 100"
  by (simp add: ms_into_slot_def timestamp_of_slot_start_millis_def timestamp_of_slot_start_sec_def
      MILLIS_PER_SECOND_def saturating_sub_def)

lemma demo_bid_fields [simp]:
  "ghr_block_hash demo_bid = 22" "ghr_parent_hash demo_bid = 11" "ghr_transactions_root demo_bid = 33"
  "ghr_value demo_bid = 1000" "ghr_pubkey demo_bid = 5" "ghr_block_number demo_bid = 101"
  "ghr_gas_limit demo_bid = 30000000"
  by (simp_all add: demo_bid_def demo_message_def demo_header_def)

lemma demo_relay_fields [simp]:
  "relay_pubkey demo_relay = 5" "rl_id demo_relay = ''a''" "rc_enable_timing_games (rl_config demo_relay) = False"
  by (simp_all add: demo_relay_def client_of_def demo_relay_config_def relay_pubkey_def relay_config_id_def)

lemma demo_bid_signed:
  "verify_signed_message demo_crypto Mainnet 5 22
     (demo_sign 5 (22 + compute_domain demo_crypto Mainnet APPLICATION_BUILDER_DOMAIN)) None
     APPLICATION_BUILDER_DOMAIN = Ok ()"
  using verify_sign_message [OF demo_bls_complete, of 5
      "22 + compute_domain demo_crypto Mainnet APPLICATION_BUILDER_DOMAIN"]
  by (simp add: verify_signed_message_def compute_prop_commit_signing_root_def sign_message_def demo_crypto_def)

lemma demo_acceptable: "relay_pubkey relay = 5 \<Longrightarrow> header_acceptable demo_crypto demo_params relay Mainnet False 0 demo_bid"
proof -
  assume r: "relay_pubkey relay = 5"
  have th: "th_header_message demo_crypto demo_message = 22"
    by (simp add: demo_crypto_def demo_message_def demo_header_def)
  have "timestamp_of_slot_start_sec (ghp_slot demo_params) Mainnet = 1606824035"
    by (simp add: timestamp_of_slot_start_sec_def demo_params_def)
  with r th demo_bid_signed show ?thesis
    by (simp add: header_acceptable_def demo_params_def EMPTY_TX_ROOT_HASH_def)
      (simp add: demo_bid_def demo_message_def demo_header_def)
qed

lemma demo_config_fields [simp]:
  "st_pbs_config (demo_state c relays) = c" "extra_validation_enabled (demo_state c relays) = pc_extra_validation_enabled c"
  "pm_chain (st_config (demo_state c relays)) = Mainnet" "all_relays (demo_state c relays) = relays"
  "pm_event_publisher (st_config (demo_state c relays)) = Some [''sub'']"
  by (simp_all add: demo_state_def demo_module_def st_pbs_config_def extra_validation_enabled_def all_relays_def)

lemma demo_validates:
  assumes "pc_skip_sigverify c = False" and "pc_min_bid_wei c = 0" and "relay_pubkey relay = 5"
    and "pc_extra_validation_enabled c \<longrightarrow> fetched = Ok (Some \<lparr>blk_number = 100, blk_gas_limit = 30000000\<rparr>)"
  shows "validate_get_header_response demo_crypto demo_params relay Mainnet
     (cell_at demo_gh_env (header_validation fetched (demo_state c relays)) k) demo_bid = Ok ()"
proof -
  have "extra_validation \<lparr>blk_number = 100, blk_gas_limit = 30000000\<rparr> demo_bid = Ok ()"
    by (simp add: extra_validation_def check_gas_limit_def GAS_LIMIT_ADJUSTMENT_FACTOR_def GAS_LIMIT_MINIMUM_def)
  with demo_acceptable [OF assms(3)] assms show ?thesis
    by (auto simp: validate_get_header_response_Ok_iff header_validation_def cell_at_def demo_gh_env_def
        split: if_splits)
qed

lemma demo_one_header:
  assumes "validate_get_header_response demo_crypto demo_params relay Mainnet v demo_bid = Ok ()"
  shows "send_one_get_header demo_web demo_crypto (answer 200 [1]) t demo_params relay Mainnet ctx v =
    ([RELAY_LATENCY GET_HEADER_ENDPOINT_TAG (rl_id relay) 5,
      RELAY_STATUS_CODE (status_as_str 200) GET_HEADER_ENDPOINT_TAG (rl_id relay)], Ok (t, Some demo_bid))"
  using assms
  by (simp add: send_one_get_header_def answer_def observe_send_def read_chunked_body_with_max_def Let_def
      MAX_SIZE_GET_HEADER_RESPONSE_def is_success_def NO_CONTENT_def demo_web_def)

lemma demo_get_header:
  assumes "c = demo_pbs_config \<or> c = demo_pbs_config\<lparr>pc_extra_validation_enabled := True, pc_rpc_url := Some ''r''\<rparr>"
  shows "\<exists>effs. get_header demo_web demo_crypto 1606824035100 (\<lambda>_. demo_gh_env)
    (Ok (Some \<lparr>blk_number = 100, blk_gas_limit = 30000000\<rparr>)) demo_params Map.empty
    (demo_state c [demo_relay]) = Some (effs, Ok (Some demo_bid))"
proof -
  let ?f = "Ok (Some \<lparr>blk_number = 100, blk_gas_limit = 30000000\<rparr>)"
  have v: "validate_get_header_response demo_crypto demo_params demo_relay Mainnet
     (cell_at demo_gh_env (header_validation ?f (demo_state c [demo_relay])) 0) demo_bid = Ok ()"
    using assms by (intro demo_validates) (auto simp: demo_pbs_config_def)
  have t: "max_header_timeout 100 c = 950"
    using assms by (auto simp: max_header_timeout_def demo_pbs_config_def saturating_sub_def)
  obtain ua where ua: "get_user_agent_with_version demo_web Map.empty = Ok ua"
    by (simp add: get_user_agent_with_version_def get_user_agent_def demo_web_def Let_def)
  have url: "\<exists>url. get_header_url demo_web demo_relay (ghp_slot demo_params) (ghp_parent_hash demo_params)
      (ghp_pubkey demo_params) = Ok url"
    by (simp add: get_header_url_def builder_api_url_def get_url_def demo_web_def and_then_Ok_iff)
  have ms: "ms_into_slot 1606824035100 (ghp_slot demo_params) Mainnet = 100"
    using demo_ms_into by (simp add: demo_params_def)
  have "\<exists>effs. send_timed_get_header demo_web demo_crypto demo_gh_env demo_params demo_relay Mainnet hs ms 950
      (header_validation ?f (demo_state c [demo_relay])) = Some (effs, Ok (Some demo_bid))" for hs ms
    using url demo_one_header [OF v]
    by (auto simp: send_timed_get_header_def Let_def) (simp add: demo_gh_env_def)
  then obtain effs where "send_timed_get_header demo_web demo_crypto demo_gh_env demo_params demo_relay Mainnet
      [USER_AGENT \<mapsto> ua] 100 950 (header_validation ?f (demo_state c [demo_relay])) = Some (effs, Ok (Some demo_bid))"
    by blast
  then show ?thesis
    unfolding get_header_def
    by (simp add: demo_mux ms t ua join_get_headers_def Let_def record_bid_def max_by_key_def)
qed

section \<open>Safety\<close>

text \<open>
  C1. A bid that \<open>get_header\<close> returns was sent by a relay serving the validator (those of its mux, or
  the default ones) and is acceptable: non-empty block hash, the parent hash that was asked for, a
  non-empty transaction root, a value of at least the minimum bid, the time stamp of the slot and,
  unless verification is switched off, that relay's key and a valid signature of it.
\<close>

theorem get_header_safe:
  assumes "get_header W C now env fetched params hs st = Some (effs, Ok (Some bid))"
    and "mux_config_and_relays st (ghp_pubkey params) = (cfg, relays, mid)"
  shows "\<exists>relay\<in>set relays. header_acceptable C params relay (pm_chain (st_config st))
    (pc_skip_sigverify (st_pbs_config st)) (pc_min_bid_wei (st_pbs_config st)) bid"
  using get_header_bid [OF assms]
  by (auto simp: validate_get_header_response_Ok_iff header_validation_def)

theorem get_header_safe_witness:
  "header_acceptable demo_crypto demo_params demo_relay Mainnet False 0 demo_bid"
proof -
  obtain effs where "get_header demo_web demo_crypto 1606824035100 (\<lambda>_. demo_gh_env)
    (Ok (Some \<lparr>blk_number = 100, blk_gas_limit = 30000000\<rparr>)) demo_params Map.empty
    (demo_state demo_pbs_config [demo_relay]) = Some (effs, Ok (Some demo_bid))"
    using demo_get_header by blast
  from get_header_safe [OF this demo_mux] show ?thesis by (simp add: demo_pbs_config_def)
qed

text \<open>
  C8. With extra validation on and the parent block known before the relays answer, a returned bid
  also has the block number after the parent's and a gas limit within the protocol's bounds.
\<close>

theorem get_header_extra_validated:
  assumes "get_header W C now env (Ok (Some parent)) params hs st = Some (effs, Ok (Some bid))"
    and "extra_validation_enabled st" and "pc_rpc_url (st_pbs_config st) \<noteq> None"
    and "\<And>i k. ge_arrived (env i) k"
  shows "ghr_block_number bid = blk_number parent + 1 \<and>
    check_gas_limit (ghr_gas_limit bid) (blk_gas_limit parent)"
proof -
  obtain cfg relays mid where "mux_config_and_relays st (ghp_pubkey params) = (cfg, relays, mid)"
    using prod_cases3 by blast
  from get_header_bid [OF assms(1) this] assms(2-4) have "extra_validation parent bid = Ok ()"
    by (auto simp: validate_get_header_response_Ok_iff header_validation_def cell_at_def)
  then show ?thesis by (auto simp: extra_validation_def split: if_splits)
qed

theorem get_header_extra_validated_witness:
  "ghr_block_number demo_bid = 101 \<and> check_gas_limit 30000000 30000000"
proof -
  let ?c = "demo_pbs_config\<lparr>pc_extra_validation_enabled := True, pc_rpc_url := Some ''r''\<rparr>"
  obtain effs where "get_header demo_web demo_crypto 1606824035100 (\<lambda>_. demo_gh_env)
    (Ok (Some \<lparr>blk_number = 100, blk_gas_limit = 30000000\<rparr>)) demo_params Map.empty
    (demo_state ?c [demo_relay]) = Some (effs, Ok (Some demo_bid))"
    using demo_get_header by blast
  from get_header_extra_validated [OF this] show ?thesis by (simp add: demo_gh_env_def)
qed

section \<open>The auction\<close>

text \<open>
  C4. The answer is the best bid delivered: when \<open>get_header\<close> has asked its relays, it returns \<open>None\<close>
  exactly if none of them delivered a header, and otherwise a delivered header whose value no other
  delivered header exceeds.
\<close>

theorem get_header_best:
  assumes "get_header W C now env fetched params hs st = Some (effs, Ok best)"
    and "mux_config_and_relays st (ghp_pubkey params) = (cfg, relays, mid)"
    and "get_user_agent_with_version W hs = Ok ua"
    and "ms = ms_into_slot now (ghp_slot params) (pm_chain (st_config st))"
    and "max_header_timeout ms cfg = timeout" and "timeout \<noteq> 0"
    and "delivered = {bid. \<exists>i<length relays. \<exists>es. send_timed_get_header W C (env i) params (relays ! i)
           (pm_chain (st_config st)) [USER_AGENT \<mapsto> ua] ms timeout (header_validation fetched st)
             = Some (es, Ok (Some bid))}"
  shows "(best = None \<longleftrightarrow> delivered = {}) \<and>
    (\<forall>bid. best = Some bid \<longrightarrow> bid \<in> delivered \<and> (\<forall>other\<in>delivered. ghr_value other \<le> ghr_value bid))"
proof -
  from get_header_cases [OF assms(1,2)] assms(3-6) obtain results where
    join: "join_get_headers W C env params (pm_chain (st_config st)) [USER_AGENT \<mapsto> ua] ms timeout
         (header_validation fetched st) relays = Some results"
    and best: "best = max_by_key ghr_value (concat (map snd (map (\<lambda>(relay, r).
         record_bid params (rl_id relay) (snd r)) (zip relays results))))"
    by auto
  let ?bids = "concat (map snd (map (\<lambda>(relay, r). record_bid params (rl_id relay) (snd r)) (zip relays results)))"
  note nth = join_get_headers_nth [OF join]
  have "(\<exists>i<length relays. snd (results ! i) = Ok (Some bid)) \<longleftrightarrow>
      (\<exists>i<length relays. \<exists>es. send_timed_get_header W C (env i) params (relays ! i)
           (pm_chain (st_config st)) [USER_AGENT \<mapsto> ua] ms timeout (header_validation fetched st)
             = Some (es, Ok (Some bid)))" for bid
    using nth by (metis option.inject prod.collapse snd_conv)
  then have set_bids: "set ?bids = delivered"
    using relay_bids_mem [of results relays _ params] nth assms(7) by blast
  then have "best = None \<longleftrightarrow> delivered = {}"
    unfolding best max_by_key_None_iff by (metis set_empty)
  with max_by_key_SomeD [of ghr_value ?bids] set_bids show ?thesis unfolding best by blast
qed

theorem get_header_best_witness:
  "demo_bid \<in> {bid. \<exists>i<length [demo_relay]. \<exists>es. send_timed_get_header demo_web demo_crypto demo_gh_env
     demo_params ([demo_relay] ! i) Mainnet [USER_AGENT \<mapsto> ''commit-boost/0.8.1-rc.1 ''] 100 950
     (header_validation (Ok None) (demo_state demo_pbs_config [demo_relay])) = Some (es, Ok (Some bid))}"
proof -
  let ?st = "demo_state demo_pbs_config [demo_relay]"
  have ua: "get_user_agent_with_version demo_web Map.empty = Ok ''commit-boost/0.8.1-rc.1 ''"
    by (simp add: get_user_agent_with_version_def get_user_agent_def demo_web_def Let_def HEADER_VERSION_VALUE_def)
  have t: "max_header_timeout 100 demo_pbs_config = 950"
    by (simp add: max_header_timeout_def demo_pbs_config_def saturating_sub_def)
  have ms: "100 = ms_into_slot 1606824035100 (ghp_slot demo_params) (pm_chain (st_config ?st))"
    using demo_ms_into by (simp add: demo_params_def)
  obtain effs where g: "get_header demo_web demo_crypto 1606824035100 (\<lambda>_. demo_gh_env)
    (Ok (Some \<lparr>blk_number = 100, blk_gas_limit = 30000000\<rparr>)) demo_params Map.empty ?st
      = Some (effs, Ok (Some demo_bid))"
    using demo_get_header by blast
  have "header_validation (Ok (Some \<lparr>blk_number = 100, blk_gas_limit = 30000000\<rparr>)) ?st = header_validation (Ok None) ?st"
    by (simp add: header_validation_def demo_pbs_config_def)
  with get_header_best [OF g demo_mux ua ms t _ refl] show ?thesis by auto
qed

section \<open>The deadline\<close>

text \<open>
  When the request comes no earlier than the configured late-in-slot time, no relay is asked and
  the answer is that there is no bid.
\<close>

theorem get_header_late:
  assumes "mux_config_and_relays st (ghp_pubkey params) = (cfg, relays, mid)"
    and "pc_late_in_slot_time_ms cfg \<le> ms_into_slot now (ghp_slot params) (pm_chain (st_config st))"
  shows "get_header W C now env fetched params hs st = Some ([], Ok None)"
  using assms
  by (simp add: get_header_def Let_def max_header_timeout_def saturating_sub_eq_0_iff [THEN iffD2])

theorem get_header_late_witness:
  "get_header demo_web demo_crypto 1606824037000 (\<lambda>_. demo_gh_env) (Ok None) demo_params Map.empty
     (demo_state demo_pbs_config [demo_relay]) = Some ([], Ok None)"
  by (rule get_header_late [OF demo_mux])
    (simp add: demo_pbs_config_def demo_params_def ms_into_slot_def timestamp_of_slot_start_millis_def
      timestamp_of_slot_start_sec_def MILLIS_PER_SECOND_def saturating_sub_def)

section \<open>Timing games\<close>

text \<open>The time a relay with timing games has left after waiting for its first request.\<close>

definition first_request_timeout :: "relay_config \<Rightarrow> u64 \<Rightarrow> u64 \<Rightarrow> u64" where
  "first_request_timeout config ms_into timeout_left_ms =
     saturating_sub timeout_left_ms
       (case rc_target_first_request_ms config of None \<Rightarrow> 0 | Some target \<Rightarrow> saturating_sub target ms_into)"

lemma saturating_sub_0 [simp]: "saturating_sub t 0 = t" "saturating_sub 0 t = 0"
  by (simp_all add: saturating_sub_def)

lemma send_timed_games:
  assumes "rc_enable_timing_games (rl_config relay)" and "rc_frequency_get_header_ms (rl_config relay) = Some freq"
    and "get_header_url W relay (ghp_slot params) (ghp_parent_hash params) (ghp_pubkey params) = Ok url"
  shows "send_timed_get_header W C env params relay chain headers ms timeout v =
    map_option (\<lambda>timeouts.
      let runs = map (\<lambda>(k, t). (k, send_one_get_header W C (ge_http env k) (ge_now env k) params relay chain
                     \<lparr>rctx_url = url, rctx_timeout_ms = t, rctx_headers = headers\<rparr> (cell_at env v k)))
                   (enumerate 0 timeouts)
      in (concat (map (fst \<circ> snd) runs), collect_timed env runs))
      (tg_timeouts freq (first_request_timeout (rl_config relay) ms timeout))"
proof -
  have "(case rc_target_first_request_ms (rl_config relay) of
      Some target_ms \<Rightarrow>
        (let delay = saturating_sub target_ms ms in
         if delay > 0 then saturating_sub timeout delay else timeout)
    | None \<Rightarrow> timeout) = first_request_timeout (rl_config relay) ms timeout"
    by (simp add: first_request_timeout_def Let_def word_gt_0_iff split: option.splits)
  with assms show ?thesis by (simp add: send_timed_get_header_def Let_def)
qed

lemma one_header_codes:
  "length (status_codes (fst (send_one_get_header W C http now params relay chain ctx v))) = 1"
  by (simp add: send_one_get_header_def Let_def) (simp add: observe_send_def split: sum.split)

lemma length_codes_enumerate:
  assumes "\<And>k t. length (status_codes (fst (f k t))) = 1"
  shows "length (status_codes (concat (map (fst \<circ> snd) (map (\<lambda>(k, t). (k, f k t)) (enumerate n ts))))) = length ts"
  using assms by (induction ts arbitrary: n) auto

text \<open>
  C18. With timing games and a positive frequency, a relay is sent one request every \<open>freq\<close> ms for as
  long as there is time, each with exactly the time that is then left: request \<open>k\<close> starts \<open>k * freq\<close>
  ms after the first and may take the rest, so all of them share one deadline. That makes
  \<open>\<lceil>time left / freq\<rceil>\<close> requests (one when no time is left).
\<close>

theorem timing_games_requests:
  assumes "rc_enable_timing_games (rl_config relay)" and "rc_frequency_get_header_ms (rl_config relay) = Some freq"
    and "0 < freq"
    and "get_header_url W relay (ghp_slot params) (ghp_parent_hash params) (ghp_pubkey params) = Ok url"
    and "left = first_request_timeout (rl_config relay) ms timeout"
  shows "\<exists>ts effs res. tg_timeouts freq left = Some ts \<and>
    (\<forall>k<length ts. unat (ts ! k) + k * unat freq = unat left) \<and>
    length ts = (if left = 0 then 1 else (unat left + unat freq - 1) div unat freq) \<and>
    send_timed_get_header W C env params relay chain headers ms timeout v = Some (effs, res) \<and>
    length (status_codes effs) = length ts"
proof -
  from tg_timeouts_terminates [OF assms(3), of left] obtain ts where ts: "tg_timeouts freq left = Some ts"
    and props: "\<forall>k<length ts. unat (ts ! k) + k * unat freq = unat left"
      "length ts = (if left = 0 then 1 else (unat left + unat freq - 1) div unat freq)"
    by blast
  let ?one = "\<lambda>k t. send_one_get_header W C (ge_http env k) (ge_now env k) params relay chain
    \<lparr>rctx_url = url, rctx_timeout_ms = t, rctx_headers = headers\<rparr> (cell_at env v k)"
  from length_codes_enumerate [of ?one, OF one_header_codes, of 0 ts]
  show ?thesis
    using ts props send_timed_games [OF assms(1,2,4)] assms(5) by (auto simp: Let_def)
qed

lemma demo_timing_fields [simp]:
  "rc_enable_timing_games (rl_config (demo_timing_relay f))"
  "rc_frequency_get_header_ms (rl_config (demo_timing_relay f)) = Some f"
  "rc_target_first_request_ms (rl_config (demo_timing_relay f)) = Some 50"
  "relay_pubkey (demo_timing_relay f) = 5" "rl_id (demo_timing_relay f) = ''a''"
  by (simp_all add: demo_timing_relay_def client_of_def demo_relay_config_def relay_pubkey_def relay_config_id_def)

lemma demo_env_fields [simp]:
  "ge_joined demo_gh_env k" "ge_now demo_gh_env k = 1000 + word_of_nat k"
  by (simp_all add: demo_gh_env_def)

lemma demo_header_url: "\<exists>url. get_header_url demo_web relay slot parent_hash pubkey = Ok url"
  by (simp add: get_header_url_def builder_api_url_def get_url_def demo_web_def and_then_Ok_iff)

theorem timing_games_requests_witness:
  "\<exists>effs res. send_timed_get_header demo_web demo_crypto demo_gh_env demo_params (demo_timing_relay 100)
     Mainnet Map.empty 20 950 (header_validation (Ok None) (demo_state demo_pbs_config [demo_relay]))
       = Some (effs, res) \<and> length (status_codes effs) = 10"
proof -
  obtain url where url: "get_header_url demo_web (demo_timing_relay 100) (ghp_slot demo_params)
      (ghp_parent_hash demo_params) (ghp_pubkey demo_params) = Ok url"
    using demo_header_url by blast
  have left: "920 = first_request_timeout (rl_config (demo_timing_relay 100)) 20 950"
    by (simp add: first_request_timeout_def saturating_sub_def)
  from timing_games_requests [OF _ _ _ url left, of 100 demo_crypto demo_gh_env Mainnet Map.empty
      "header_validation (Ok None) (demo_state demo_pbs_config [demo_relay])"]
  show ?thesis by auto
qed

text \<open>
  C39. With timing games and a frequency of zero, the loop that spawns requests does not end while
  there is time left: a single such relay keeps \<open>get_header\<close> from ever returning.
\<close>

theorem timing_games_zero_frequency:
  assumes "mux_config_and_relays st (ghp_pubkey params) = (cfg, relays, mid)"
    and "relay \<in> set relays" and "rc_enable_timing_games (rl_config relay)"
    and "rc_frequency_get_header_ms (rl_config relay) = Some 0"
    and "get_header_url W relay (ghp_slot params) (ghp_parent_hash params) (ghp_pubkey params) = Ok url"
    and "get_user_agent_with_version W hs = Ok ua"
    and "ms = ms_into_slot now (ghp_slot params) (pm_chain (st_config st))"
    and "0 < first_request_timeout (rl_config relay) ms (max_header_timeout ms cfg)"
  shows "get_header W C now env fetched params hs st = None"
proof -
  let ?t = "max_header_timeout ms cfg"
  have "?t \<noteq> 0" using assms(8) by (auto simp: first_request_timeout_def)
  moreover have "send_timed_get_header W C e params relay chain headers ms ?t v = None" for e chain headers v
    using send_timed_games [OF assms(3,4,5)] tg_timeouts_diverges [OF assms(8)] by simp
  moreover obtain i where "i < length relays" "relays ! i = relay"
    using assms(2) by (auto simp: in_set_conv_nth)
  ultimately have "join_get_headers W C env params (pm_chain (st_config st)) [USER_AGENT \<mapsto> ua] ms ?t
      (header_validation fetched st) relays \<noteq> Some results" for results
    using join_get_headers_nth by (metis option.distinct(1))
  then have "join_get_headers W C env params (pm_chain (st_config st)) [USER_AGENT \<mapsto> ua] ms ?t
      (header_validation fetched st) relays = None"
    by fastforce
  with \<open>?t \<noteq> 0\<close> assms(1,6,7) show ?thesis by (simp add: get_header_def Let_def)
qed

theorem timing_games_zero_frequency_witness:
  "get_header demo_web demo_crypto 1606824035100 (\<lambda>_. demo_gh_env) (Ok None) demo_params Map.empty
     (demo_state demo_pbs_config [demo_relay, demo_timing_relay 0]) = None"
proof -
  obtain url where url: "get_header_url demo_web (demo_timing_relay 0) (ghp_slot demo_params)
      (ghp_parent_hash demo_params) (ghp_pubkey demo_params) = Ok url"
    using demo_header_url by blast
  obtain ua where ua: "get_user_agent_with_version demo_web Map.empty = Ok ua"
    by (simp add: get_user_agent_with_version_def get_user_agent_def demo_web_def Let_def)
  show ?thesis
    by (rule timing_games_zero_frequency [OF demo_mux _ _ _ url ua refl])
      (simp_all add: demo_ms_into demo_params_def first_request_timeout_def saturating_sub_def
        max_header_timeout_def demo_pbs_config_def)
qed

lemma mem_runs:
  "(k, r) \<in> set (map (\<lambda>(k, t). (k, f k t)) (enumerate 0 ts)) \<longleftrightarrow> k < length ts \<and> r = f k (ts ! k)"
proof -
  have "(k, t) \<in> set (enumerate 0 ts) \<longleftrightarrow> k < length ts \<and> t = ts ! k" for k t
    by (auto simp: in_set_enumerate_eq)
  then show ?thesis by (auto simp: image_iff split_beta) force
qed

text \<open>
  With timing games, the header that a relay contributes to the auction is the one whose request
  started last among those that brought an accepted header and whose task did not fail.
\<close>

theorem timing_games_latest:
  assumes "rc_enable_timing_games (rl_config relay)" and "rc_frequency_get_header_ms (rl_config relay) = Some freq"
    and "get_header_url W relay (ghp_slot params) (ghp_parent_hash params) (ghp_pubkey params) = Ok url"
    and "one = (\<lambda>k t. snd (send_one_get_header W C (ge_http env k) (ge_now env k) params relay chain
           \<lparr>rctx_url = url, rctx_timeout_ms = t, rctx_headers = headers\<rparr> (cell_at env v k)))"
    and "send_timed_get_header W C env params relay chain headers ms timeout v = Some (effs, Ok (Some bid))"
  shows "\<exists>ts k. tg_timeouts freq (first_request_timeout (rl_config relay) ms timeout) = Some ts \<and>
    k < length ts \<and> ge_joined env k \<and> one k (ts ! k) = Ok (ge_now env k, Some bid) \<and>
    (\<forall>j<length ts. \<forall>s other. ge_joined env j \<longrightarrow> one j (ts ! j) = Ok (s, Some other) \<longrightarrow> s \<le> ge_now env k)"
proof -
  let ?run = "\<lambda>k t. send_one_get_header W C (ge_http env k) (ge_now env k) params relay chain
           \<lparr>rctx_url = url, rctx_timeout_ms = t, rctx_headers = headers\<rparr> (cell_at env v k)"
  obtain ts where ts: "tg_timeouts freq (first_request_timeout (rl_config relay) ms timeout) = Some ts"
    and c: "collect_timed env (map (\<lambda>(k, t). (k, ?run k t)) (enumerate 0 ts)) = Ok (Some bid)"
    using assms(5) send_timed_games [OF assms(1-3)] by (auto simp: Let_def)
  note runs = mem_runs [of _ _ ?run ts]
  from collect_timed_Ok [OF c] obtain k r t where
    kr: "(k, r) \<in> set (map (\<lambda>(k, t). (k, ?run k t)) (enumerate 0 ts))" "ge_joined env k" "snd r = Ok (t, Some bid)"
    and latest: "\<forall>(j, q)\<in>set (map (\<lambda>(k, t). (k, ?run k t)) (enumerate 0 ts)). ge_joined env j \<longrightarrow>
      (\<forall>s other. snd q = Ok (s, Some other) \<longrightarrow> s \<le> t)"
    by blast
  from kr have k: "k < length ts" "ge_joined env k" "one k (ts ! k) = Ok (t, Some bid)"
    unfolding runs assms(4) by simp_all
  have "s \<le> t" if "j < length ts" "ge_joined env j" "one j (ts ! j) = Ok (s, Some other)" for j s other
  proof -
    have "(j, ?run j (ts ! j)) \<in> set (map (\<lambda>(k, t). (k, ?run k t)) (enumerate 0 ts))"
      using that(1) unfolding runs by simp
    from bspec [OF latest this] that(2,3) show ?thesis unfolding assms(4) by simp
  qed
  moreover have "t = ge_now env k"
    using send_one_get_header_Ok k(3) unfolding assms(4) by blast
  ultimately show ?thesis using ts k by (intro exI [of _ ts] exI [of _ k]) blast
qed

theorem timing_games_latest_witness:
  "\<exists>ts k. tg_timeouts 500 920 = Some ts \<and> k < length ts \<and>
     (\<forall>j<length ts. ge_joined demo_gh_env j \<longrightarrow> ge_now demo_gh_env j \<le> ge_now demo_gh_env k)"
proof -
  let ?v = "header_validation (Ok None) (demo_state demo_pbs_config [demo_relay])"
  obtain url where url: "get_header_url demo_web (demo_timing_relay 500) (ghp_slot demo_params)
      (ghp_parent_hash demo_params) (ghp_pubkey demo_params) = Ok url"
    using demo_header_url by blast
  have left: "first_request_timeout (rl_config (demo_timing_relay 500)) 20 950 = 920"
    by (simp add: first_request_timeout_def saturating_sub_def)
  have ts: "tg_timeouts 500 920 = Some [920, 420]"
    by (simp add: tg_timeouts_unfold [of 500 920] tg_timeouts_unfold [of 500 420] saturating_sub_def)
  have one: "send_one_get_header demo_web demo_crypto (ge_http demo_gh_env k) t demo_params
      (demo_timing_relay 500) Mainnet ctx (cell_at demo_gh_env ?v k) =
    ([RELAY_LATENCY GET_HEADER_ENDPOINT_TAG ''a'' 5,
      RELAY_STATUS_CODE (status_as_str 200) GET_HEADER_ENDPOINT_TAG ''a''], Ok (t, Some demo_bid))" for k t ctx
    using demo_one_header [OF demo_validates [of demo_pbs_config "demo_timing_relay 500"]]
    by (simp add: demo_pbs_config_def) (simp add: demo_gh_env_def)
  have "\<exists>effs. send_timed_get_header demo_web demo_crypto demo_gh_env demo_params (demo_timing_relay 500)
     Mainnet Map.empty 20 950 ?v = Some (effs, Ok (Some demo_bid))"
    by (simp add: send_timed_games [OF _ _ url] left ts one collect_timed_def received_header_def
        List.map_filter_def max_by_key_def Let_def)
  then obtain effs where "send_timed_get_header demo_web demo_crypto demo_gh_env demo_params
     (demo_timing_relay 500) Mainnet Map.empty 20 950 ?v = Some (effs, Ok (Some demo_bid))" ..
  from timing_games_latest [OF _ _ url refl this] show ?thesis
    by (simp add: left one)
qed

section \<open>Gas limits\<close>

lemma abs_diff_less: "\<bar>int a - int b\<bar> < int d \<longleftrightarrow> a < b + d \<and> b < a + d"
  by linarith

text \<open>
  C6. \<open>check_gas_limit\<close> decides the rule of the execution specification: the gas limit differs from
  the parent's by less than a 1024th of it and is at least 5000; a parent gas limit so large that
  adding the difference leaves the 64-bit range is always rejected.
\<close>

theorem check_gas_limit_spec:
  "check_gas_limit g p \<longleftrightarrow>
     unat p + unat p div 1024 < 2 ^ 64 \<and>
     \<bar>int (unat g) - int (unat p)\<bar> < int (unat p div 1024) \<and> 5000 \<le> unat g"
proof (cases "unat p + unat p div 1024 < 2 ^ 64")
  case True
  have "unat p div 1024 \<le> unat p" by simp
  then show ?thesis
    unfolding check_gas_limit_unat [OF True] abs_diff_less using True by linarith
next
  case False
  let ?d = "p div GAS_LIMIT_ADJUSTMENT_FACTOR"
  have p: "unat p < 2 ^ 64" using unsigned_less [of p, where 'a = nat] by simp
  have "unat (p + ?d) = unat p + unat p div 1024 - 2 ^ 64"
    using False p unat_gas_delta [of p] by (simp add: unat_word_ariths mod_if)
  moreover have "unat (p - ?d) = unat p - unat p div 1024"
    by (simp add: unat_sub word_le_nat_alt unat_gas_delta)
  moreover have "unat p + unat p div 1024 - 2 ^ 64 \<le> unat p - unat p div 1024" using p by simp
  ultimately have "p + ?d \<le> p - ?d" by (simp add: word_le_nat_alt)
  then have "\<not> check_gas_limit g p"
    unfolding check_gas_limit_def Let_def by (cases "p + ?d \<le> g") (auto simp: not_le)
  then show ?thesis using False by simp
qed

end
