(* ===== verification/Broadcast_Properties.thy ===== *)
theory Broadcast_Properties
  imports Instances
begin

text \<open>
  The properties of the endpoints that address every relay: \<open>submitBlindedBlock\<close>,
  \<open>registerValidator\<close> and the status check.
\<close>

section \<open>Submitting a blinded block\<close>

lemma submit_with_timeout_Ok:
  assumes "submit_block_with_timeout W env block relay hs timeout ver = Some (effs, clk, Ok res)"
  shows "(res = None \<longleftrightarrow> ver \<noteq> V1) \<and> (\<forall>resp. res = Some resp \<longrightarrow> payload_matches block resp)"
  using assms submit_loop_inv
  by (auto simp: submit_block_with_timeout_def split: sum.splits)

lemma submit_runs_nth:
  "i < length (all_relays st) \<Longrightarrow> submit_relay_runs W env block hs st ver ! i =
     submit_block_with_timeout W (env i) block (all_relays st ! i) hs
       (pc_timeout_get_payload_ms (st_pbs_config st)) ver"
  by (simp add: submit_relay_runs_def nth_enumerate_eq)

lemma length_submit_runs [simp]: "length (submit_relay_runs W env block hs st ver) = length (all_relays st)"
  by (simp add: submit_relay_runs_def)

lemma submit_block_outcome:
  assumes "get_user_agent_with_version W hs = Ok ua"
    and "headers = [header_key HEADER_START_TIME_UNIX_MS \<mapsto> decimal (unat now), USER_AGENT \<mapsto> ua]"
  shows "snd (submit_block W now env order block hs st ver) =
    (case snd (race (completed order (submit_relay_runs W env block headers st ver))) of
       None \<Rightarrow> Panicked
     | Some (Inr res) \<Rightarrow> Returned (Ok res)
     | Some (Inl err) \<Rightarrow> Returned (Err (Inr err)))"
  using assms by (simp add: submit_block_def Let_def)

lemma submit_block_Ok:
  assumes "snd (submit_block W now env order block hs st ver) = Returned (Ok res)"
  shows "(res = None \<longleftrightarrow> ver \<noteq> V1) \<and> (\<forall>resp. res = Some resp \<longrightarrow> payload_matches block resp)"
proof -
  obtain ua where ua: "get_user_agent_with_version W hs = Ok ua"
    using assms by (auto simp: submit_block_def split: sum.splits)
  let ?runs = "submit_relay_runs W env block
    [header_key HEADER_START_TIME_UNIX_MS \<mapsto> decimal (unat now), USER_AGENT \<mapsto> ua] st ver"
  have "snd (race (completed order ?runs)) = Some (Ok res)"
    using assms unfolding submit_block_outcome [OF ua refl] by (simp split: option.splits sum.splits)
  then have "Ok res \<in> snd ` set (completed order ?runs)" using race_Some by blast
  then obtain effs where "(effs, Ok res) \<in> set (completed order ?runs)" by force
  from completed_mem [OF this] obtain i clk where "i < length ?runs" "?runs ! i = Some (effs, clk, Ok res)"
    by blast
  then show ?thesis using submit_with_timeout_Ok by (simp add: submit_runs_nth)
qed

text \<open>
  C2. What the proposer gets for its blinded block: a payload is returned only for version 1 of the
  API, it has the block hash that was signed, its KZG commitments are those of the signed block, in
  order, and there are as many blobs and proofs; for version 2 no payload is returned.
\<close>

theorem submit_block_safe:
  assumes "snd (submit_block W now env order block hs st ver) = Returned (Ok res)"
  shows "(res = None \<longleftrightarrow> ver \<noteq> V1) \<and> (\<forall>resp. res = Some resp \<longrightarrow> payload_matches block resp)"
  by (rule submit_block_Ok [OF assms])

definition demo_submit_state :: "unit pbs_state" where
  "demo_submit_state = demo_state demo_pbs_config [demo_relay]"

lemma demo_user_agent: "\<exists>ua. get_user_agent_with_version demo_web Map.empty = Ok ua"
  by (simp add: get_user_agent_with_version_def get_user_agent_def demo_web_def Let_def)

lemma demo_submit_url: "\<exists>url. submit_block_url demo_web relay ver = Ok url"
  by (simp add: submit_block_url_def builder_api_url_def get_url_def demo_web_def and_then_Ok_iff)

lemma demo_payload_ok: "validate_unblinded_block_electra W
    \<lparr>bbb_slot = 1, bbb_proposer_index = 0, bbb_parent_root = 0, bbb_state_root = 0, bbb_body = body\<rparr>
    \<lparr>pb_execution_payload = payload, pb_blobs_bundle =
      \<lparr>bb_commitments = [KzgCommitment []], bb_proofs = [KzgProof []], bb_blobs = [[]]\<rparr>\<rparr> = Ok ()"
  if "bd_blob_kzg_commitments body = [KzgCommitment []]"
  using that by (simp add: validate_unblinded_block_electra_Ok_iff)

lemma demo_send_submit:
  "send_submit_block demo_web (answer 200 [2]) url demo_block relay hs t V1 =
    ([RELAY_LATENCY SUBMIT_BLINDED_BLOCK_ENDPOINT_TAG (rl_id relay) 5,
      RELAY_STATUS_CODE (status_as_str 200) SUBMIT_BLINDED_BLOCK_ENDPOINT_TAG (rl_id relay)],
     Ok (Some demo_payload))"
proof -
  have hash: "sbb_block_hash demo_block = submit_response_block_hash demo_payload"
    by (simp add: sbb_block_hash_def demo_block_def demo_payload_def payload_block_hash_def demo_header_def)
  have v: "(case (sbb_message demo_block, demo_payload) of
      (BlindedElectra b, Electra r) \<Rightarrow> validate_unblinded_block_electra demo_web b r) = Ok ()"
    by (simp add: demo_block_def demo_payload_def demo_payload_ok)
  show ?thesis
    using hash v
    by (simp add: send_submit_block_def answer_def observe_send_def read_chunked_body_with_max_def Let_def
        MAX_SIZE_SUBMIT_BLOCK_RESPONSE_def is_success_def) (simp add: demo_web_def)
qed

lemma demo_submit:
  "snd (submit_block demo_web 7 (\<lambda>_. constant_net (answer 200 [2])) [0] demo_block Map.empty
     demo_submit_state V1) = Returned (Ok (Some demo_payload))"
proof -
  obtain ua where ua: "get_user_agent_with_version demo_web Map.empty = Ok ua" using demo_user_agent by blast
  obtain url where url: "submit_block_url demo_web demo_relay V1 = Ok url" using demo_submit_url by blast
  have "\<exists>effs clk. submit_block_with_timeout demo_web (constant_net (answer 200 [2])) demo_block demo_relay hs t V1
      = Some (effs, clk, Ok (Some demo_payload))" for hs t
    unfolding submit_block_with_timeout_def url sum.case
    by (subst submit_loop.simps) (simp add: constant_net_def demo_send_submit Let_def)
  note run = this
  define headers where "headers = [header_key HEADER_START_TIME_UNIX_MS \<mapsto> decimal (unat (7::u64)), USER_AGENT \<mapsto> ua]"
  obtain effs clk where "submit_block_with_timeout demo_web (constant_net (answer 200 [2])) demo_block
      demo_relay headers (pc_timeout_get_payload_ms demo_pbs_config) V1 = Some (effs, clk, Ok (Some demo_payload))"
    using run by blast
  moreover have "all_relays demo_submit_state = [demo_relay]" "st_pbs_config demo_submit_state = demo_pbs_config"
    by (simp_all add: demo_submit_state_def demo_state_def demo_module_def all_relays_def st_pbs_config_def)
  ultimately show ?thesis
    unfolding submit_block_outcome [OF ua headers_def]
    by (simp add: completed_def submit_runs_nth race_def)
qed

theorem submit_block_safe_witness: "payload_matches demo_block demo_payload"
  using submit_block_safe [OF demo_submit] by simp

lemma completed_iff:
  assumes "set order = {..<length runs}"
  shows "(effs, r) \<in> set (completed order runs) \<longleftrightarrow> (\<exists>i<length runs. \<exists>clk. runs ! i = Some (effs, clk, r))"
proof
  assume "(effs, r) \<in> set (completed order runs)"
  from completed_mem [OF this] show "\<exists>i<length runs. \<exists>clk. runs ! i = Some (effs, clk, r)" by blast
next
  assume "\<exists>i<length runs. \<exists>clk. runs ! i = Some (effs, clk, r)"
  then obtain i clk where "i < length runs" "runs ! i = Some (effs, clk, r)" by blast
  moreover from this(1) have "i \<in> set order" using assms by simp
  ultimately show "(effs, r) \<in> set (completed order runs)" by (intro completed_memI)
qed

lemma race_ok_iff: "(\<exists>res. snd (race runs) = Some (Ok res)) \<longleftrightarrow> (\<exists>effs res. (effs, Ok res) \<in> set runs)"
proof (cases "snd (race runs)")
  case None
  moreover from None have "runs = []" by (simp only: race_None_iff)
  ultimately show ?thesis by simp
next
  case (Some r)
  with race_Some [OF this] show ?thesis by (force simp: is_ok_iff)
qed

lemma submit_block_total:
  assumes "get_user_agent_with_version W hs = Ok ua"
    and "headers = [header_key HEADER_START_TIME_UNIX_MS \<mapsto> decimal (unat now), USER_AGENT \<mapsto> ua]"
    and "runs = submit_relay_runs W env block headers st ver"
    and "\<And>i k. rt_duration (env i) k + rt_oversleep (env i) k
           + unat (pc_timeout_get_payload_ms (st_pbs_config st)) + 250 < 2 ^ 64"
    and "set order = {..<length (all_relays st)}"
  shows "None \<notin> set runs \<and>
    (snd (submit_block W now env order block hs st ver) = Panicked \<longleftrightarrow> all_relays st = []) \<and>
    ((\<exists>res. snd (submit_block W now env order block hs st ver) = Returned (Ok res)) \<longleftrightarrow>
     (\<exists>i<length runs. \<exists>effs clk res. runs ! i = Some (effs, clk, Ok res)))"
proof -
  have len: "length runs = length (all_relays st)" by (simp add: assms(3))
  with assms(5) have order: "set order = {..<length runs}" by simp
  have some: "\<exists>effs clk r. runs ! i = Some (effs, clk, r)" if "i < length runs" for i
  proof -
    have run: "runs ! i = submit_block_with_timeout W (env i) block (all_relays st ! i) headers
        (pc_timeout_get_payload_ms (st_pbs_config st)) ver"
      using that len unfolding assms(3) by (simp add: submit_runs_nth)
    from submit_loop_total [OF assms(4) [of i], of W block "all_relays st ! i" headers ver]
    show ?thesis unfolding run by blast
  qed
  then have none: "None \<notin> set runs" by (metis in_set_conv_nth option.distinct(1))
  have "completed order runs = [] \<longleftrightarrow> runs = []"
  proof (cases runs)
    case (Cons run rest)
    with some [of 0] completed_iff [OF order] have "\<exists>x. x \<in> set (completed order runs)" by (metis length_greater_0_conv list.distinct(1))
    with Cons show ?thesis by auto
  qed (simp add: completed_def)
  then have "snd (race (completed order runs)) = None \<longleftrightarrow> all_relays st = []"
    using len by (simp add: race_None_iff flip: length_0_conv)
  moreover have "(\<exists>res. snd (race (completed order runs)) = Some (Ok res)) \<longleftrightarrow>
      (\<exists>i<length runs. \<exists>effs clk res. runs ! i = Some (effs, clk, Ok res))"
    unfolding race_ok_iff completed_iff [OF order] by blast
  ultimately show ?thesis
    using none unfolding submit_block_outcome [OF assms(1,2)] assms(3) [symmetric]
    by (auto split: option.splits sum.splits)
qed

text \<open>
  C23. The race ends: if no attempt takes absurdly long (the elapsed milliseconds fit in 64 bits) and the
  relays are awaited to the end, every relay's retry loop returns; the call panics exactly when
  there is no relay at all, and it succeeds exactly when some relay does.
\<close>

theorem submit_block_returns:
  assumes "get_user_agent_with_version W hs = Ok ua"
    and "headers = [header_key HEADER_START_TIME_UNIX_MS \<mapsto> decimal (unat now), USER_AGENT \<mapsto> ua]"
    and "runs = submit_relay_runs W env block headers st ver"
    and "\<And>i k. rt_duration (env i) k + rt_oversleep (env i) k
           + unat (pc_timeout_get_payload_ms (st_pbs_config st)) + 250 < 2 ^ 64"
    and "set order = {..<length (all_relays st)}"
  shows "None \<notin> set runs \<and>
    (snd (submit_block W now env order block hs st ver) = Panicked \<longleftrightarrow> all_relays st = []) \<and>
    ((\<exists>res. snd (submit_block W now env order block hs st ver) = Returned (Ok res)) \<longleftrightarrow>
     (\<exists>i<length runs. \<exists>effs clk res. runs ! i = Some (effs, clk, Ok res)))"
  by (rule submit_block_total [OF assms])

theorem submit_block_returns_witness:
  "snd (submit_block demo_web 7 (\<lambda>_. constant_net refused) [] demo_block Map.empty
     (demo_state demo_pbs_config []) V1) = Panicked"
proof -
  obtain ua where ua: "get_user_agent_with_version demo_web Map.empty = Ok ua" using demo_user_agent by blast
  have "all_relays (demo_state demo_pbs_config []) = []"
    by (simp add: demo_state_def demo_module_def all_relays_def)
  with submit_block_returns [OF ua refl refl, where env = "\<lambda>_. constant_net refused"
      and st = "demo_state demo_pbs_config []" and order = "[]" and block = demo_block and ver = V1 and now = 7]
  show ?thesis
    by (simp add: constant_net_def demo_state_def demo_module_def st_pbs_config_def demo_pbs_config_def)
qed

text \<open>
  One relay is asked at most \<open>timeout / 250 + 2\<close> times, and the retry loop returns.
\<close>

theorem submit_attempts_bounded:
  assumes "\<And>k. rt_duration env k + rt_oversleep env k + unat timeout + 250 < 2 ^ 64"
  shows "\<exists>effs clk r. submit_block_with_timeout W env block relay headers timeout ver = Some (effs, clk, r)
    \<and> length (status_codes effs) \<le> unat timeout div 250 + 2"
  by (rule submit_loop_total [OF assms])

theorem submit_attempts_bounded_witness:
  "\<exists>effs clk r. submit_block_with_timeout demo_web (constant_net refused) demo_block demo_relay Map.empty 4000 V1
     = Some (effs, clk, r) \<and> length (status_codes effs) \<le> 18"
  using submit_attempts_bounded [of "constant_net refused" 4000 demo_web demo_block demo_relay Map.empty V1]
  by (simp add: constant_net_def)

text \<open>
  When every attempt fails at once with an error worth retrying: attempt \<open>k\<close> is followed by a pause of
  \<open>250 * (k + 1)\<close> ms, and only that pause is compared with the time-out.
\<close>

lemma submit_loop_failing:
  assumes "\<And>k t. \<exists>err. snd (send_submit_block W (rt_http env k) url block relay headers t ver) = Err err \<and> should_retry err"
    and "\<And>k. rt_duration env k = 0 \<and> rt_oversleep env k = 0"
    and "unat timeout = 250 * n" and "j < n"
  shows "\<exists>effs err. submit_loop W env url block relay headers timeout ver rem j (250 * Suc j) acc clock =
    Some (effs, clock + (\<Sum>i\<in>{Suc j..n}. 250 * i), Err err)"
  using assms(4)
proof (induction "n - j" arbitrary: j rem acc clock)
  case 0
  then show ?case by simp
next
  case (Suc m)
  obtain err where err: "snd (send_submit_block W (rt_http env j) url block relay headers rem ver) = Err err"
    "should_retry err" using assms(1) by blast
  have ms: "round_ms env j (250 * Suc j) = 250 * Suc j" using assms(2) by (simp add: round_ms_def)
  have n: "250 * n < 2 ^ 64" using unsigned_less [of timeout, where 'a = nat] assms(3) by simp
  have "250 * Suc j < 2 ^ 64" using Suc.prems n by (intro le_less_trans [OF _ n]) simp
  then have small: "unat (word_of_nat (250 * Suc j) :: u64) = 250 * Suc j"
    by (subst unat_of_nat) simp
  have rem0: "remaining_ms timeout (250 * Suc j) = 0 \<longleftrightarrow> Suc j = n"
    using Suc.prems assms(3) small
    by (simp only: remaining_ms_def saturating_sub_eq_0_iff word_le_nat_alt) auto
  have sum: "(\<Sum>i\<in>{Suc j..n}. 250 * i) = 250 * Suc j + (\<Sum>i\<in>{Suc (Suc j)..n}. 250 * i)"
    using Suc.prems by (subst sum.atLeast_Suc_atMost) auto
  show ?case
  proof (cases "Suc j = n")
    case True
    with err ms rem0 sum show ?thesis by (subst submit_loop.simps) (simp add: Let_def)
  next
    case False
    with Suc.prems have "Suc j < n" by simp
    moreover have "m = n - Suc j" using Suc.hyps(2) by simp
    ultimately obtain effs err' where
      "submit_loop W env url block relay headers timeout ver (remaining_ms timeout (250 * Suc j)) (Suc j)
        (250 * Suc (Suc j)) (acc @ fst (send_submit_block W (rt_http env j) url block relay headers rem ver))
        (clock + 250 * Suc j) = Some (effs, clock + 250 * Suc j + (\<Sum>i\<in>{Suc (Suc j)..n}. 250 * i), Err err')"
      using Suc.hyps(1) by blast
    moreover have "submit_loop W env url block relay headers timeout ver rem j (250 * Suc j) acc clock =
      submit_loop W env url block relay headers timeout ver (remaining_ms timeout (250 * Suc j)) (Suc j)
        (250 * Suc j + BACKOFF_STEP) (acc @ fst (send_submit_block W (rt_http env j) url block relay headers rem ver))
        (clock + 250 * Suc j)"
      using err ms rem0 False by (subst submit_loop.simps) (simp add: Let_def del: mult_Suc_right)
    moreover have "250 * Suc j + BACKOFF_STEP = 250 * Suc (Suc j)" by (simp add: BACKOFF_STEP_def)
    ultimately show ?thesis unfolding sum by (simp only: add.assoc) blast
  qed
qed

text \<open>
  The time-out does not bound the whole call: with a time-out of \<open>250 n\<close> ms and attempts that fail at
  once, \<open>n\<close> attempts are made and the loop gives up after \<open>125 n (n + 1)\<close> ms, since each round measures
  only its own elapsed time.
\<close>

theorem submit_overruns_timeout:
  assumes "submit_block_url W relay ver = Ok url"
    and "\<And>k t. \<exists>err. snd (send_submit_block W (rt_http env k) url block relay headers t ver) = Err err \<and> should_retry err"
    and "\<And>k. rt_duration env k = 0 \<and> rt_oversleep env k = 0"
    and "unat timeout = 250 * n" and "0 < n"
  shows "\<exists>effs err. submit_block_with_timeout W env block relay headers timeout ver =
    Some (effs, 125 * (n * (n + 1)), Err err)"
proof -
  have "(\<Sum>i\<in>{Suc 0..n}. 250 * i) = 250 * (\<Sum>i\<in>{0..n}. i)"
    by (simp add: sum_distrib_left [symmetric] sum.atLeast_Suc_atMost [of 0 n])
  also have "\<dots> = 125 * (n * (n + 1))" using gauss_sum_nat [of n] by (simp add: div_mult_swap)
  finally have sum: "(\<Sum>i\<in>{Suc 0..n}. 250 * i) = 125 * (n * (n + 1))" .
  from submit_loop_failing [of W env url block relay headers ver timeout n 0 timeout "[]" 0, OF assms(2-5)]
  show ?thesis using assms(1) sum by (simp add: submit_block_with_timeout_def BACKOFF_STEP_def)
qed

theorem submit_overruns_timeout_witness:
  "\<exists>effs err. submit_block_with_timeout demo_web (constant_net refused) demo_block demo_relay Map.empty 4000 V1 =
    Some (effs, 34000, Err err)"
proof -
  obtain url where url: "submit_block_url demo_web demo_relay V1 = Ok url" using demo_submit_url by blast
  have "\<exists>err. snd (send_submit_block demo_web (rt_http (constant_net refused) k) url demo_block demo_relay
      Map.empty t V1) = Err err \<and> should_retry err" for k t
    by (simp add: send_submit_block_def constant_net_def refused_def observe_send_def Let_def)
  from submit_overruns_timeout [OF url this, of 4000 16] show ?thesis by (simp add: constant_net_def)
qed

section \<open>Registering validators\<close>

text \<open>
  C27. Every relay is sent every registration exactly once and in order, in batches that are neither
  empty nor longer than its configured batch size.
\<close>

theorem register_batches:
  assumes "register_tasks regs relays = (tasks, False)" and "distinct relays" and "relay \<in> set relays"
  shows "concat (map snd (filter (\<lambda>t. fst t = relay) tasks)) = regs \<and>
    (\<forall>n batch. rc_validator_registration_batch_size (rl_config relay) = Some n \<longrightarrow>
       (relay, batch) \<in> set tasks \<longrightarrow> batch \<noteq> [] \<and> length batch \<le> n)"
  by (rule register_tasks_batches [OF assms])

definition demo_batch_relay :: "nat \<Rightarrow> relay_client" where
  "demo_batch_relay n = client_of ((demo_relay_config ''b'')\<lparr>rc_validator_registration_batch_size := Some n\<rparr>)"

definition demo_registration :: "bls_public_key \<Rightarrow> validator_registration" where
  "demo_registration pk = \<lparr>vr_fee_recipient = 0, vr_gas_limit = 30000000, vr_timestamp = 1, vr_pubkey = pk,
     vr_signature = 0\<rparr>"

lemma demo_batch_fields [simp]:
  "rc_validator_registration_batch_size (rl_config (demo_batch_relay n)) = Some n"
  "rc_validator_registration_batch_size (rl_config demo_relay) = None"
  by (simp_all add: demo_batch_relay_def demo_relay_def client_of_def demo_relay_config_def)

theorem register_batches_witness:
  "concat (map snd (filter (\<lambda>t. fst t = demo_batch_relay 2)
     (fst (register_tasks (map demo_registration [1, 2, 3]) [demo_relay, demo_batch_relay 2])))) =
   map demo_registration [1, 2, 3]"
proof -
  let ?regs = "map demo_registration [1, 2, 3]"
  have ne: "demo_relay \<noteq> demo_batch_relay 2"
    using demo_batch_fields by (metis option.distinct(1))
  have "register_tasks ?regs [demo_relay, demo_batch_relay 2] =
      (fst (register_tasks ?regs [demo_relay, demo_batch_relay 2]), False)"
    by (simp add: chunks_def)
  from register_batches [OF this, of "demo_batch_relay 2"] ne show ?thesis by simp
qed

text \<open>
  A batch is sent at most as often as the retry limit says (once if that is zero), and at most
  \<open>timeout / 250 + 2\<close> times; the retry loop returns.
\<close>

theorem register_attempts_bounded:
  assumes "\<And>k. rt_duration env k + rt_oversleep env k + unat timeout + 250 < 2 ^ 64"
  shows "\<exists>effs clk r. send_register_validator_with_timeout W env regs relay headers timeout limit
      = Some (effs, clk, r)
    \<and> length (status_codes effs) \<le> min (unat timeout div 250 + 2) (max 1 (unat limit))"
  by (rule register_loop_total [OF assms])

theorem register_attempts_bounded_witness:
  "\<exists>effs clk r. send_register_validator_with_timeout demo_web (constant_net refused) [demo_registration 1]
     demo_relay Map.empty 3000 3 = Some (effs, clk, r) \<and> length (status_codes effs) \<le> 3"
  using register_attempts_bounded [of "constant_net refused" 3000 demo_web "[demo_registration 1]" demo_relay Map.empty 3]
  by (simp add: constant_net_def)

lemma register_validator_unfold:
  assumes "get_user_agent_with_version W hs = Ok ua" and "hv_from_str W (decimal (unat now)) = Some start"
    and "register_tasks regs (all_relays st) = (tasks, panicked)"
    and "runs = register_runs W env [header_key HEADER_START_TIME_UNIX_MS \<mapsto> start, USER_AGENT \<mapsto> ua]
           (st_pbs_config st) tasks"
  shows "register_validator W now env order joined regs hs st =
    (if panicked then Some (runs_effects runs, Panicked)
     else if pc_wait_all_registrations (st_pbs_config st)
     then map_option (\<lambda>res. (runs_effects runs, res)) (wait_all joined runs)
     else Some (runs_effects runs, first_completed order joined runs))"
  using assms by (simp add: register_validator_def Let_def)

text \<open>
  C28. When all registrations are awaited, the call returns, and it succeeds exactly if some batch was
  accepted by its relay in a task that did not fail.
\<close>

theorem register_wait_all:
  assumes "get_user_agent_with_version W hs = Ok ua" and "hv_from_str W (decimal (unat now)) = Some start"
    and "register_tasks regs (all_relays st) = (tasks, False)"
    and "runs = register_runs W env [header_key HEADER_START_TIME_UNIX_MS \<mapsto> start, USER_AGENT \<mapsto> ua]
           (st_pbs_config st) tasks"
    and "pc_wait_all_registrations (st_pbs_config st)"
    and "\<And>i k. rt_duration (env i) k + rt_oversleep (env i) k
           + unat (pc_timeout_register_validator_ms (st_pbs_config st)) + 250 < 2 ^ 64"
  shows "\<exists>res. register_validator W now env order joined regs hs st = Some (runs_effects runs, Returned res) \<and>
    (res = Ok () \<longleftrightarrow> (\<exists>i<length tasks. joined i \<and> (\<exists>effs clk. runs ! i = Some (effs, clk, Ok ()))))"
proof -
  have len: "length runs = length tasks" by (simp add: assms(4))
  have "\<exists>effs clk r. runs ! i = Some (effs, clk, r)" if "i < length tasks" for i
  proof -
    have run: "runs ! i = send_register_validator_with_timeout W (env i) (snd (tasks ! i)) (fst (tasks ! i))
        [header_key HEADER_START_TIME_UNIX_MS \<mapsto> start, USER_AGENT \<mapsto> ua]
        (pc_timeout_register_validator_ms (st_pbs_config st)) (pc_register_validator_retry_limit (st_pbs_config st))"
      using that unfolding assms(4) by (simp add: register_runs_nth)
    from register_loop_total [OF assms(6) [of i]] show ?thesis unfolding run by blast
  qed
  then have none: "None \<notin> set runs" using len by (metis in_set_conv_nth option.distinct(1))
  obtain res where w: "wait_all joined runs = Some (Returned res)"
    using none by (auto simp: wait_all_def)
  have "res = Ok () \<longleftrightarrow> wait_all joined runs = Some (Returned (Ok ()))" using w by simp
  also have "\<dots> \<longleftrightarrow> (\<exists>i<length tasks. joined i \<and> (\<exists>effs clk. runs ! i = Some (effs, clk, Ok ())))"
    using wait_all_iff [OF none, of joined] len by simp
  finally show ?thesis
    using w assms(5) register_validator_unfold [OF assms(1-4), of order joined] by simp
qed

lemma demo_register_url: "\<exists>url. register_validator_url demo_web relay = Ok url"
  by (simp add: register_validator_url_def builder_api_url_def get_url_def demo_web_def and_then_Ok_iff)

lemma demo_register_answer:
  "\<exists>effs clk. send_register_validator_with_timeout demo_web (constant_net (answer 200 [])) batch relay hs t limit
     = Some (effs, clk, Ok ())"
proof -
  obtain url where url: "register_validator_url demo_web relay = Ok url" using demo_register_url by blast
  show ?thesis
    unfolding send_register_validator_with_timeout_def url sum.case
    by (subst register_loop.simps)
      (simp add: constant_net_def send_register_validator_def answer_def observe_send_def is_success_def Let_def)
qed

lemma demo_register_rejected:
  "\<exists>effs clk err. send_register_validator_with_timeout demo_web (constant_net (answer 400 [])) batch relay hs t limit
     = Some (effs, clk, Err err)"
proof -
  obtain url where url: "register_validator_url demo_web relay = Ok url" using demo_register_url by blast
  show ?thesis
    unfolding send_register_validator_with_timeout_def url sum.case
    by (subst register_loop.simps)
      (simp add: constant_net_def send_register_validator_def answer_def observe_send_def is_success_def Let_def
        read_chunked_body_with_max_def MAX_SIZE_DEFAULT_def)
qed

lemma demo_start_time: "hv_from_str demo_web (decimal (unat (7::u64))) = Some (decimal (unat (7::u64)))"
  by (simp add: demo_web_def)

theorem register_wait_all_witness:
  "\<exists>effs. register_validator demo_web 7
     (\<lambda>i. constant_net (if i = 0 then answer 400 [] else answer 200 [])) [] (\<lambda>_. True) [demo_registration 1] Map.empty
     (demo_state demo_pbs_config [demo_relay, demo_batch_relay 2]) = Some (effs, Returned (Ok ()))"
proof -
  let ?st = "demo_state demo_pbs_config [demo_relay, demo_batch_relay 2]"
  let ?env = "\<lambda>i::nat. constant_net (if i = 0 then answer 400 [] else answer 200 [])"
  obtain ua where ua: "get_user_agent_with_version demo_web Map.empty = Ok ua" using demo_user_agent by blast
  have st: "all_relays ?st = [demo_relay, demo_batch_relay 2]" "st_pbs_config ?st = demo_pbs_config"
    by (simp_all add: demo_state_def demo_module_def all_relays_def st_pbs_config_def)
  have tasks: "register_tasks [demo_registration 1] (all_relays ?st) =
      ([(demo_relay, [demo_registration 1]), (demo_batch_relay 2, [demo_registration 1])], False)"
    by (simp add: st chunks_def chunks_of.simps)
  let ?tasks = "[(demo_relay, [demo_registration 1]), (demo_batch_relay 2, [demo_registration 1])]"
  define hs where "hs = [header_key HEADER_START_TIME_UNIX_MS \<mapsto> decimal (unat (7::u64)), USER_AGENT \<mapsto> ua]"
  obtain effs clk where "send_register_validator_with_timeout demo_web (?env 1) [demo_registration 1]
      (demo_batch_relay 2) hs (pc_timeout_register_validator_ms demo_pbs_config)
      (pc_register_validator_retry_limit demo_pbs_config) = Some (effs, clk, Ok ())"
    using demo_register_answer by fastforce
  then have run: "register_runs demo_web ?env hs (st_pbs_config ?st) ?tasks ! 1 = Some (effs, clk, Ok ())"
    by (simp add: register_runs_nth st)
  from register_wait_all [OF ua demo_start_time tasks refl, of ?env "[]" "\<lambda>_. True"] obtain res where
    res: "register_validator demo_web 7 ?env [] (\<lambda>_. True) [demo_registration 1] Map.empty ?st =
      Some (runs_effects (register_runs demo_web ?env hs (st_pbs_config ?st) ?tasks), Returned res)"
    and iff: "res = Ok () \<longleftrightarrow> (\<exists>i<length ?tasks. True \<and> (\<exists>effs clk.
      register_runs demo_web ?env hs (st_pbs_config ?st) ?tasks ! i = Some (effs, clk, Ok ())))"
    unfolding hs_def st(2) by (auto simp: demo_pbs_config_def constant_net_def)
  have "1 < length ?tasks" by simp
  with iff run have "res = Ok ()" by blast
  with res show ?thesis by blast
qed

text \<open>
  C40. When the registrations are not awaited, the first task to end decides: if its relay rejects the
  batch, the call fails even if other relays accept theirs.
\<close>

theorem register_first_decides:
  assumes "get_user_agent_with_version W hs = Ok ua" and "hv_from_str W (decimal (unat now)) = Some start"
    and "register_tasks regs (all_relays st) = (tasks, False)"
    and "runs = register_runs W env [header_key HEADER_START_TIME_UNIX_MS \<mapsto> start, USER_AGENT \<mapsto> ua]
           (st_pbs_config st) tasks"
    and "\<not> pc_wait_all_registrations (st_pbs_config st)"
    and "i < length tasks" and "joined i" and "runs ! i = Some (effs, clk, r)"
  shows "register_validator W now env (i # order) joined regs hs st =
    Some (runs_effects runs, Returned (case r of Inr _ \<Rightarrow> Ok () | Inl _ \<Rightarrow> Err NO_RELAY_PASSED))"
proof -
  have len: "length runs = length tasks" by (simp add: assms(4))
  have "select_ok (Ok r # rest) = Some (Ok r :: (string, (pbs_error, unit) result) result)" for rest
    by (cases rest) auto
  then have "first_completed (i # order) joined runs =
      Returned (case r of Inr _ \<Rightarrow> Ok () | Inl _ \<Rightarrow> Err NO_RELAY_PASSED)"
    using assms(6-8) len by (cases r) (simp_all add: first_completed_def join_task_def)
  then show ?thesis using register_validator_unfold [OF assms(1-4)] assms(5) by simp
qed

theorem register_first_decides_witness:
  "\<exists>effs. register_validator demo_web 7
     (\<lambda>i. constant_net (if i = 0 then answer 400 [] else answer 200 [])) [0, 1] (\<lambda>_. True) [demo_registration 1] Map.empty
     (demo_state (demo_pbs_config\<lparr>pc_wait_all_registrations := False\<rparr>) [demo_relay, demo_batch_relay 2])
     = Some (effs, Returned (Err NO_RELAY_PASSED))"
proof -
  let ?st = "demo_state (demo_pbs_config\<lparr>pc_wait_all_registrations := False\<rparr>) [demo_relay, demo_batch_relay 2]"
  let ?env = "\<lambda>i::nat. constant_net (if i = 0 then answer 400 [] else answer 200 [])"
  let ?tasks = "[(demo_relay, [demo_registration 1]), (demo_batch_relay 2, [demo_registration 1])]"
  obtain ua where ua: "get_user_agent_with_version demo_web Map.empty = Ok ua" using demo_user_agent by blast
  have st: "all_relays ?st = [demo_relay, demo_batch_relay 2]"
      "st_pbs_config ?st = demo_pbs_config\<lparr>pc_wait_all_registrations := False\<rparr>"
    by (simp_all add: demo_state_def demo_module_def all_relays_def st_pbs_config_def)
  have tasks: "register_tasks [demo_registration 1] (all_relays ?st) = (?tasks, False)"
    by (simp add: st chunks_def chunks_of.simps)
  define hs where "hs = [header_key HEADER_START_TIME_UNIX_MS \<mapsto> decimal (unat (7::u64)), USER_AGENT \<mapsto> ua]"
  obtain effs clk err where "send_register_validator_with_timeout demo_web (?env 0) [demo_registration 1]
      demo_relay hs (pc_timeout_register_validator_ms (st_pbs_config ?st))
      (pc_register_validator_retry_limit (st_pbs_config ?st)) = Some (effs, clk, Err err)"
    using demo_register_rejected by fastforce
  then have run: "register_runs demo_web ?env hs (st_pbs_config ?st) ?tasks ! 0 = Some (effs, clk, Err err)"
    by (simp add: register_runs_nth)
  have "\<not> pc_wait_all_registrations (st_pbs_config ?st)" by (simp add: st)
  from register_first_decides [OF ua demo_start_time tasks refl this _ _ run [unfolded hs_def], of "\<lambda>_. True" "[1]"]
  show ?thesis by simp
qed

end
