(* ===== verification/Service_Properties.thy ===== *)
theory Service_Properties
  imports Broadcast_Properties
begin

text \<open>
  The properties of the PBS module as a service: the status check, the replies of the handlers, the
  metrics of the requests, reload, and the states that the service can reach.
\<close>

section \<open>Status check\<close>

lemma is_ok_Ok_unit: "is_ok r \<longleftrightarrow> r = Ok ()" for r :: "('e, unit) result"
  by (cases r) auto

lemma get_status_unfold:
  assumes "get_user_agent_with_version W hs = Ok ua" and "pc_relay_check (st_pbs_config st)"
    and "runs = map (\<lambda>(i, relay). send_relay_check W (http i) relay [USER_AGENT \<mapsto> ua]) (enumerate 0 (all_relays st))"
  shows "snd (get_status W http order hs st) =
    (case snd (race (map (\<lambda>i. runs ! i) (filter (\<lambda>i. i < length runs) order))) of
       None \<Rightarrow> Panicked | Some (Inr _) \<Rightarrow> Returned (Ok ()) | Some (Inl err) \<Rightarrow> Returned (Err (Inr err)))"
  using assms by (simp add: get_status_def Let_def)

text \<open>
  The status call succeeds exactly if the check of the relays is off or some relay answers its
  status request with a success code; with the check off no relay is asked.
\<close>

theorem get_status_spec:
  assumes "get_user_agent_with_version W hs = Ok ua"
    and "set order = {..<length (all_relays st)}"
  shows "(snd (get_status W http order hs st) = Returned (Ok ()) \<longleftrightarrow>
      \<not> pc_relay_check (st_pbs_config st) \<or>
      (\<exists>i<length (all_relays st). \<exists>url res. get_status_url W (all_relays st ! i) = Ok url \<and>
         is_success (resp_status res) \<and>
         snd (http i \<lparr>rq_method = GET, rq_url = url, rq_timeout_ms = 30000,
                      rq_headers = [USER_AGENT \<mapsto> ua], rq_body = NoBody\<rparr>) = Ok res)) \<and>
    (\<not> pc_relay_check (st_pbs_config st) \<longrightarrow> fst (get_status W http order hs st) = [])"
proof (cases "pc_relay_check (st_pbs_config st)")
  case False
  then show ?thesis by (simp add: get_status_def)
next
  case True
  define runs where "runs = map (\<lambda>(i, relay). send_relay_check W (http i) relay [USER_AGENT \<mapsto> ua])
    (enumerate 0 (all_relays st))"
  let ?done = "map (\<lambda>i. runs ! i) (filter (\<lambda>i. i < length runs) order)"
  have len: "length runs = length (all_relays st)" by (simp add: runs_def)
  have run: "runs ! i = send_relay_check W (http i) (all_relays st ! i) [USER_AGENT \<mapsto> ua]"
    if "i < length (all_relays st)" for i
    using that by (simp add: runs_def nth_enumerate_eq)
  have all: "snd ` set ?done = {snd (runs ! i) | i. i < length (all_relays st)}"
    using assms(2) len by auto
  have "snd (get_status W http order hs st) = Returned (Ok ()) \<longleftrightarrow> snd (race ?done) = Some (Ok ())"
    unfolding get_status_unfold [OF assms(1) True runs_def]
    by (auto split: option.splits sum.splits)
  also have "\<dots> \<longleftrightarrow> (\<exists>s\<in>snd ` set ?done. is_ok s)"
    using race_Some [of ?done] race_None_iff [of ?done] is_ok_Ok_unit
    by (cases "snd (race ?done)") auto
  also have "\<dots> \<longleftrightarrow> (\<exists>i<length (all_relays st). snd (runs ! i) = Ok ())"
    unfolding all is_ok_Ok_unit by blast
  finally show ?thesis using True run by (auto simp: send_relay_check_Ok_iff)
qed

lemma demo_status_url: "\<exists>url. get_status_url demo_web relay = Ok url"
  by (simp add: get_status_url_def builder_api_url_def get_url_def demo_web_def and_then_Ok_iff)

lemma is_success_200: "is_success 200"
  by (simp add: is_success_def)

theorem get_status_spec_witness:
  "snd (get_status demo_web (\<lambda>i. if i = 0 then refused else answer 200 []) [1, 0] Map.empty
     (demo_state demo_pbs_config [demo_relay, demo_batch_relay 2])) = Returned (Ok ())"
proof -
  let ?st = "demo_state demo_pbs_config [demo_relay, demo_batch_relay 2]"
  obtain ua where ua: "get_user_agent_with_version demo_web Map.empty = Ok ua" using demo_user_agent by blast
  have st: "all_relays ?st = [demo_relay, demo_batch_relay 2]"
    by (simp add: demo_state_def demo_module_def all_relays_def)
  have "set [1, 0] = {..<length (all_relays ?st)}" by (auto simp: st)
  note spec = get_status_spec [OF ua this, of "\<lambda>i. if i = 0 then refused else answer 200 []"]
  obtain url where "get_status_url demo_web (all_relays ?st ! 1) = Ok url" using demo_status_url st by auto
  moreover have "snd ((if (1::nat) = 0 then refused else answer 200 []) rq) =
      Ok \<lparr>resp_status = 200, resp_content_length = None, resp_chunks = [Ok []]\<rparr>" for rq
    by (simp add: answer_def)
  moreover have "1 < length (all_relays ?st)" by (simp add: st)
  ultimately show ?thesis using spec is_success_200 by (metis (no_types, lifting) response.select_convs(1))
qed

section \<open>Replies\<close>

definition published :: "effect list \<Rightarrow> builder_event \<Rightarrow> 'd pbs_state \<Rightarrow> bool" where
  "published effs e st \<longleftrightarrow> set (publish_event st e) \<subseteq> set effs"

text \<open>
  C13. The reply of \<open>submitBlindedBlock\<close>: 200 with a payload that matches the signed block, for version
  1 only; 202 without a body, for version 2 only; otherwise 502, after the event that the payload
  of this block was missed.
\<close>

theorem submit_block_replies:
  assumes "handle_submit_block_impl W now env order st hs block ver = (effs, Returned reply)"
  shows "rp_status reply = 200 \<and> ver = V1 \<and> (\<exists>resp. rp_body reply = PayloadBody resp \<and> payload_matches block resp) \<or>
    rp_status reply = 202 \<and> ver \<noteq> V1 \<and> rp_body reply = EmptyBody \<or>
    rp_status reply = 502 \<and> published effs (MissedPayload (sbb_block_hash block)) st"
proof -
  obtain inner out where run: "submit_block W now env order block hs st ver = (inner, out)" by fastforce
  with assms obtain res where out: "out = Returned res"
    by (cases out) (auto simp: handle_submit_block_impl_def)
  show ?thesis
  proof (cases res)
    case (Inl e)
    with assms run out show ?thesis
      by (auto simp: handle_submit_block_impl_def fail_with_def client_error_reply_def Let_def published_def)
  next
    case (Inr opt)
    have "(opt = None \<longleftrightarrow> ver \<noteq> V1) \<and> (\<forall>resp. opt = Some resp \<longrightarrow> payload_matches block resp)"
      using submit_block_Ok [of W now env order block hs st ver opt] run out Inr by simp
    with assms run out Inr show ?thesis
      by (cases opt) (auto simp: handle_submit_block_impl_def Let_def)
  qed
qed

text \<open>
  C29. Reloading is atomic: the reply is 200 exactly if there is a new state, which is well formed and
  keeps the data of the user; otherwise the reply is 500 and the state stays as it is.
\<close>

theorem reload_atomic:
  assumes "handle_reload W E loaded signer_valid st = Some (effs, rep, new)"
  shows "(case new of
      Some st' \<Rightarrow> rp_status rep = 200 \<and> pbs_module_wf (st_config st') \<and> st_data st' = st_data st \<and>
                  load_pbs_config W E loaded signer_valid = Some (Ok (st_config st'))
    | None \<Rightarrow> rp_status rep = 500 \<and> (\<exists>e. load_pbs_config W E loaded signer_valid = Some (Err e)))"
proof -
  from assms obtain res where res: "load_pbs_config W E loaded signer_valid = Some res"
    by (auto simp: handle_reload_def reload_def)
  show ?thesis
  proof (cases res)
    case (Inl e)
    with assms res show ?thesis
      by (auto simp: handle_reload_def reload_def fail_with_def client_error_reply_def)
  next
    case (Inr cfg)
    with assms res load_pbs_config_wf show ?thesis
      by (auto simp: handle_reload_def reload_def with_data_def pbs_state_new_def)
  qed
qed

text \<open>
  The accounting of a broadcast: if the URLs of the relays are valid, asking each of them once, with
  whatever outcome, increments the counter of status codes once per relay, under the tag of the
  endpoint and the id of the relay, for status checks, registrations and submissions alike.
\<close>

theorem broadcast_counted:
  assumes "\<And>relay. relay \<in> set relays \<Longrightarrow>
    (\<exists>url. get_status_url W relay = Ok url) \<and> (\<exists>url. register_validator_url W relay = Ok url) \<and>
    (\<exists>url. submit_block_url W relay ver = Ok url)"
  shows "map snd (status_codes (concat (map (\<lambda>relay. fst (send_relay_check W (http relay) relay hs)) relays))) =
      map (\<lambda>relay. (STATUS_ENDPOINT_TAG, rl_id relay)) relays \<and>
    map snd (status_codes (concat (map (\<lambda>relay. fst (case register_validator_url W relay of Inl e \<Rightarrow> ([], Err e)
        | Inr url \<Rightarrow> send_register_validator W (http relay) url regs relay hs t)) relays))) =
      map (\<lambda>relay. (REGISTER_VALIDATOR_ENDPOINT_TAG, rl_id relay)) relays \<and>
    map snd (status_codes (concat (map (\<lambda>relay. fst (case submit_block_url W relay ver of Inl e \<Rightarrow> ([], Err e)
        | Inr url \<Rightarrow> send_submit_block W (http relay) url block relay hs t ver)) relays))) =
      map (\<lambda>relay. (SUBMIT_BLINDED_BLOCK_ENDPOINT_TAG, rl_id relay)) relays"
  using assms status.broadcast_codes [of relays W http hs] registration.broadcast_codes [of relays W http regs hs t]
    submission.broadcast_codes [of relays W ver http block hs t]
  by blast

theorem broadcast_counted_witness:
  "map snd (status_codes (concat (map (\<lambda>relay. fst (send_relay_check demo_web refused relay Map.empty))
     [demo_relay, demo_batch_relay 2]))) = [(''status'', ''a''), (''status'', ''b'')]"
  using broadcast_counted [of "[demo_relay, demo_batch_relay 2]" demo_web V1 "\<lambda>_. refused" Map.empty "[]" 1 demo_block]
  by (simp add: demo_status_url demo_register_url demo_submit_url demo_relay_def demo_batch_relay_def client_of_def
      relay_config_id_def demo_relay_config_def STATUS_ENDPOINT_TAG_def)

section \<open>Reachable states\<close>

definition demo_env :: config_env where
  "demo_env = \<lparr>ce_var = (\<lambda>_. None), ce_read_file = (\<lambda>_. None), ce_parse_addr = (\<lambda>_. None), ce_parse_url = Some,
     ce_rpc_chain_id = (\<lambda>_. Ok 1), ce_http_get = (\<lambda>_. Err \<lparr>err_is_timeout = False, err_is_connect = True\<rparr>),
     ce_json_pubkeys = (\<lambda>_. None), ce_json_ssv = (\<lambda>_. None), ce_lido_total = (\<lambda>_ _. Ok 0),
     ce_lido_keys = (\<lambda>_ _ _ _. Ok [])\<rparr>"

definition demo_config :: commit_boost_config where
  "demo_config = \<lparr>cb_chain = Mainnet, cb_relays = [demo_relay_config ''a''], cb_pbs_config = demo_pbs_config,
     cb_with_signer = False, cb_muxes = None\<rparr>"

lemma demo_load:
  "\<exists>cfg. load_pbs_config demo_web demo_env (Ok demo_config) (Ok ()) = Some (Ok cfg) \<and>
     length (pm_all_relays cfg) = 1 \<and> pc_timeout_get_payload_ms (pm_pbs_config cfg) = 4000"
  by (simp add: load_pbs_config_def demo_config_def pbs_config_validate_def demo_pbs_config_def ensure_def
      load_endpoint_def demo_env_def load_optional_env_var_def load_muxes_def relay_client_new_def
      demo_relay_config_def publisher_new_from_env_def demo_web_def assemble_all_relays_def all_relays_map_def insert_relay_def WEI_PER_ETH_def word_less_nat_alt)

theorem reload_atomic_witness:
  "\<exists>effs rep st'. handle_reload demo_web demo_env (Ok demo_config) (Ok ()) (demo_state demo_pbs_config []) =
     Some (effs, rep, Some st') \<and> pbs_module_wf (st_config st')"
proof -
  let ?run = "handle_reload demo_web demo_env (Ok demo_config) (Ok ()) (demo_state demo_pbs_config [])"
  obtain cfg where cfg: "load_pbs_config demo_web demo_env (Ok demo_config) (Ok ()) = Some (Ok cfg)"
    using demo_load by blast
  then obtain effs rep new where run: "?run = Some (effs, rep, new)"
    by (simp add: handle_reload_def reload_def)
  from reload_atomic [OF run] cfg run show ?thesis by (cases new) auto
qed

theorem submit_block_replies_witness:
  "\<exists>effs reply resp. handle_submit_block_impl demo_web 7 (\<lambda>_. constant_net (answer 200 [2])) [0] demo_submit_state
     Map.empty demo_block V1 = (effs, Returned reply) \<and>
     rp_body reply = PayloadBody resp \<and> payload_matches demo_block resp"
proof -
  let ?run = "handle_submit_block_impl demo_web 7 (\<lambda>_. constant_net (answer 200 [2])) [0] demo_submit_state
     Map.empty demo_block V1"
  obtain inner where inner: "submit_block demo_web 7 (\<lambda>_. constant_net (answer 200 [2])) [0] demo_block Map.empty
      demo_submit_state V1 = (inner, Returned (Ok (Some demo_payload)))"
    using demo_submit by (metis prod.collapse)
  then obtain effs where run: "?run = (effs, Returned \<lparr>rp_status = 200, rp_body = PayloadBody demo_payload\<rparr>)"
    using inner by (simp add: handle_submit_block_impl_def)
  from submit_block_replies [OF run] run show ?thesis by auto
qed

text \<open>
  C7. In every state that the service can reach, through any sequence of requests and reloads, the
  state that a request works on has a valid configuration, at least one relay, exactly one relay per
  URL, well-formed multiplexers and the data of the user.
\<close>

theorem service_states_wf:
  assumes "service_reachable W d s" and "(h, snap) \<in> set (sv_inflight s)"
  shows "pbs_module_wf (st_config snap) \<and> st_data snap = d"
  using service_inv_reachable [OF assms(1)] assms(2) by (force simp: service_inv_def)

lemma demo_service:
  "\<exists>s snap. service_reachable demo_web () s \<and> (HandleSubmitBlockV1, snap) \<in> set (sv_inflight s) \<and>
     length (all_relays snap) = 1 \<and> pc_timeout_get_payload_ms (st_pbs_config snap) = 4000"
proof -
  obtain cfg where cfg: "load_pbs_config demo_web demo_env (Ok demo_config) (Ok ()) = Some (Ok cfg)"
      and one: "length (pm_all_relays cfg) = 1" "pc_timeout_get_payload_ms (pm_pbs_config cfg) = 4000"
    using demo_load by blast
  let ?s = "\<lparr>sv_state = with_data (pbs_state_new cfg) (), sv_inflight = []\<rparr>"
  have "service_reachable demo_web () ?s" using cfg by (rule service_reachable.start)
  from service_reachable.step [OF this service_step.arrive [of demo_web ?s HandleSubmitBlockV1]]
  show ?thesis using one
    by (intro exI conjI) (auto simp: with_data_def pbs_state_new_def all_relays_def st_pbs_config_def)
qed

theorem service_states_wf_witness:
  "\<exists>s snap. service_reachable demo_web () s \<and> (HandleSubmitBlockV1, snap) \<in> set (sv_inflight s) \<and>
     pbs_module_wf (st_config snap)"
proof -
  obtain s snap where s: "service_reachable demo_web () s" "(HandleSubmitBlockV1, snap) \<in> set (sv_inflight s)"
    using demo_service by blast
  from service_states_wf [OF s] s show ?thesis by blast
qed

text \<open>
  C16. A block submitted to a service in a reachable state never makes the handler panic: the race over
  the relays is never empty, whatever was reloaded before.
\<close>

theorem service_submit_no_panic:
  assumes "service_reachable W d s" and "(h, snap) \<in> set (sv_inflight s)"
    and "get_user_agent_with_version W hs = Ok ua"
    and "\<And>i k. rt_duration (env i) k + rt_oversleep (env i) k
           + unat (pc_timeout_get_payload_ms (st_pbs_config snap)) + 250 < 2 ^ 64"
    and "set order = {..<length (all_relays snap)}"
  shows "snd (handle_submit_block_impl W now env order snap hs block ver) \<noteq> Panicked"
proof -
  have "pbs_module_wf (st_config snap)"
    using service_inv_reachable [OF assms(1)] assms(2) by (force simp: service_inv_def)
  then have "all_relays snap \<noteq> []" by (auto simp: pbs_module_wf_def all_relays_def)
  with submit_block_total [where env = env, OF assms(3) refl refl assms(4,5)]
  have "snd (submit_block W now env order block hs snap ver) \<noteq> Panicked" by blast
  then show ?thesis
    by (auto simp: handle_submit_block_impl_def Let_def split: prod.split outcome.split)
qed

theorem service_submit_no_panic_witness:
  "\<exists>s snap. service_reachable demo_web () s \<and> (HandleSubmitBlockV1, snap) \<in> set (sv_inflight s) \<and>
     snd (handle_submit_block_impl demo_web 7 (\<lambda>_. constant_net refused) [0] snap Map.empty demo_block V1) \<noteq> Panicked"
proof -
  obtain s snap where s: "service_reachable demo_web () s" "(HandleSubmitBlockV1, snap) \<in> set (sv_inflight s)"
    and one: "length (all_relays snap) = 1" "pc_timeout_get_payload_ms (st_pbs_config snap) = 4000"
    using demo_service by blast
  obtain ua where ua: "get_user_agent_with_version demo_web Map.empty = Ok ua" using demo_user_agent by blast
  have "set [0] = {..<length (all_relays snap)}" using one by auto
  with service_submit_no_panic [OF s ua, where env = "\<lambda>_. constant_net refused" and order = "[0]"
      and now = 7 and block = demo_block and ver = V1] one s
  show ?thesis by (auto simp: constant_net_def)
qed

end
