(* ===== verification/Config_Properties.thy ===== *)
theory Config_Properties
  imports Service_Properties
begin

text \<open>
  The properties of the shared library: chains and the slot clock, signing domains and signatures,
  bounded reading of responses, and the loading of the configuration.
\<close>

section \<open>Chains\<close>

text \<open>
  Writing a chain out and reading it back gives the same chain, for known and custom chains, and
  whatever the files of the system hold.
\<close>

theorem chain_roundtrip: "deserialize_chain files dec (serialize_chain c) = Ok c"
  by (cases c) simp_all

text \<open>
  On every known chain and for all slots below \<open>2 ^ 50\<close> the 64-bit slot clock is exact: the
  milliseconds into a slot are the time since \<open>genesis + 12 s * slot\<close>, or zero before that.
\<close>

theorem ms_into_slot_exact:
  assumes "\<not> is_custom c" and "unat slot < 2 ^ 50"
  shows "int (unat (ms_into_slot now slot c)) =
    max 0 (int (unat now) - 1000 * (int (unat (genesis_time_sec c)) + 12 * int (unat slot)))"
proof -
  have "int (a - b) = max 0 (int a - int b)" for a b :: nat by simp
  then show ?thesis
    unfolding ms_into_slot_def unat_saturating_sub unat_timestamp_millis [OF assms] by simp
qed

theorem ms_into_slot_exact_witness:
  "int (unat (ms_into_slot 1606824036500 1 Mainnet)) = 1500"
  using ms_into_slot_exact [of Mainnet 1 1606824036500] by simp

section \<open>Signatures\<close>

text \<open>
  A signature made for a module verifies under the signer's public key or address and the signing
  id of the module, for BLS and for ECDSA keys, provided the libraries verify their own signatures.
\<close>

theorem commitment_signatures_verify:
  assumes "bls_complete C" and "ecdsa_complete C"
  shows "verify_proposer_commitment_signature_bls C chain (bls_signer_pubkey C bs) root
      (bls_signer_sign C bs chain root (Some mid)) mid = Ok () \<and>
    (\<forall>sig. ecdsa_signer_sign C es chain root (Some mid) = Ok sig \<longrightarrow>
      verify_proposer_commitment_signature_ecdsa C chain (ecdsa_signer_address C es) root sig mid = Ok ())"
proof
  obtain sk where "bs = BlsLocal sk" by (cases bs)
  with verify_sign_message [OF assms(1)]
  show "verify_proposer_commitment_signature_bls C chain (bls_signer_pubkey C bs) root
      (bls_signer_sign C bs chain root (Some mid)) mid = Ok ()"
    by (simp add: verify_proposer_commitment_signature_bls_def sign_commit_boost_root_def
        compute_prop_commit_signing_root_def Let_def)
  obtain esk where "es = EcdsaLocal esk" by (cases es)
  with assms(2) show "\<forall>sig. ecdsa_signer_sign C es chain root (Some mid) = Ok sig \<longrightarrow>
      verify_proposer_commitment_signature_ecdsa C chain (ecdsa_signer_address C es) root sig mid = Ok ()"
    by (simp add: ecdsa_complete_def verify_proposer_commitment_signature_ecdsa_def verify_ecdsa_signature_def
        Let_def)
qed

theorem commitment_signatures_verify_witness:
  "verify_proposer_commitment_signature_bls demo_crypto Hoodi (bls_signer_pubkey demo_crypto (BlsLocal 9)) 3
     (bls_signer_sign demo_crypto (BlsLocal 9) Hoodi 3 (Some 4)) 4 = Ok ()"
  using commitment_signatures_verify [OF demo_bls_complete demo_ecdsa_complete] by blast

text \<open>
  No commitment is signed in the domain in which the builder API's messages (bids, registrations) are
  signed: on every chain the commit-boost domain differs from the builder domain of every chain, and
  the same holds for the domains that are computed from the fork version.
\<close>

theorem domains_separated:
  "compute_domain C chain COMMIT_BOOST_DOMAIN \<noteq> builder_domain C chain' \<and>
   compute_domain C chain COMMIT_BOOST_DOMAIN \<noteq> compute_domain C chain' APPLICATION_BUILDER_DOMAIN"
proof -
  have masks: "COMMIT_BOOST_DOMAIN \<noteq> APPLICATION_BUILDER_DOMAIN"
    by (simp add: COMMIT_BOOST_DOMAIN_def APPLICATION_BUILDER_DOMAIN_def)
  then have computed: "compute_domain C chain COMMIT_BOOST_DOMAIN \<noteq> compute_domain C c APPLICATION_BUILDER_DOMAIN" for c
    using compute_domain_inj_mask by blast
  moreover have "compute_domain C chain COMMIT_BOOST_DOMAIN \<noteq> d" if "drop_bit 224 d = 1" for d
    using that compute_domain_mask [of C chain COMMIT_BOOST_DOMAIN] by (auto simp: COMMIT_BOOST_DOMAIN_def)
  moreover have "drop_bit 224 (known_builder_domain k) = 1" for k
    by (cases k) (simp_all add: drop_bit_eq_div)
  ultimately show ?thesis by (cases chain') auto
qed

section \<open>Reading responses\<close>

text \<open>
  A body is read exactly if the announced length is within the limit, every chunk arrives and the sum
  of the chunks is within the limit; the result is then the concatenation of the chunks. So no more
  than the limit is ever kept, also when the announced length is missing or too small.
\<close>

theorem read_body_spec:
  "read_chunked_body_with_max res mx = Ok body \<longleftrightarrow>
     (case resp_content_length res of None \<Rightarrow> True | Some l \<Rightarrow> unat l \<le> mx) \<and>
     (\<exists>bss. resp_chunks res = map Inr bss \<and> body = concat bss \<and> length body \<le> mx)"
proof -
  have "read_chunks cl mx [] cs = Ok body \<longleftrightarrow> (\<exists>bss. cs = map Inr bss \<and> body = concat bss \<and> length body \<le> mx)"
    for cl cs
    using read_chunks_Ok [of cl mx "[]" cs body] read_chunks_enough [of "[]" _ mx cl] by auto
  then show ?thesis by (simp add: read_chunked_body_with_max_def split: option.split)
qed

section \<open>Multiplexers\<close>

text \<open>
  C24. In an accepted configuration no validator key belongs to two multiplexers, every multiplexer has
  relays and keys, and looking a key up gives the runtime configuration of the multiplexer that
  lists it, and nothing for a key that no multiplexer lists.
\<close>

theorem mux_lookup:
  assumes "validate_and_fill W E muxes chain d = Some (Ok configs)"
  shows "\<exists>ms. fill_mux_keys E chain d muxes = Some (Ok ms) \<and>
    distinct (concat (map mc_validator_pubkeys ms)) \<and>
    (\<forall>mux\<in>set ms. mc_relays mux \<noteq> [] \<and> mc_validator_pubkeys mux \<noteq> []) \<and>
    (\<forall>k. case map_of configs k of
       Some rt \<Rightarrow> \<exists>mux\<in>set ms. k \<in> set (mc_validator_pubkeys mux) \<and> mux_runtime W E chain d mux = Ok rt
     | None \<Rightarrow> \<forall>mux\<in>set ms. k \<notin> set (mc_validator_pubkeys mux))"
proof -
  from assms obtain ms where filled: "fill_mux_keys E chain d muxes = Some (Ok ms)"
    and uniq: "check_unique [] (concat (map mc_validator_pubkeys ms)) = Ok ()"
    and fill: "fill_configs W E chain d [] ms = Ok configs"
    by (auto simp: validate_and_fill_def and_then_Ok_iff split: option.splits)
  have dist: "distinct (concat (map mc_validator_pubkeys ms))"
    using uniq by (simp add: check_unique_Ok_iff)
  note lookup = fill_configs_lookup [OF fill dist]
  have "case map_of configs k of
       Some rt \<Rightarrow> \<exists>mux\<in>set ms. k \<in> set (mc_validator_pubkeys mux) \<and> mux_runtime W E chain d mux = Ok rt
     | None \<Rightarrow> \<forall>mux\<in>set ms. k \<notin> set (mc_validator_pubkeys mux)" for k
    using lookup [of k] fill_configs_all_ok [OF fill] by (cases "map_of configs k") (auto, blast)
  with filled dist fill_mux_keys_nonempty [OF filled] show ?thesis by blast
qed

definition demo_mux_config :: mux_config where
  "demo_mux_config = \<lparr>mc_id = ''m'', mc_relays = [demo_relay_config ''b''], mc_validator_pubkeys = [77],
     mc_loader = None, mc_timeout_get_header_ms = None, mc_late_in_slot_time_ms = None\<rparr>"

lemma demo_pbs_validate: "pbs_config_validate E demo_pbs_config chain = Ok ()"
  by (simp add: pbs_config_validate_def demo_pbs_config_def ensure_def WEI_PER_ETH_def word_less_nat_alt)

lemma demo_mux_runtime: "\<exists>rt. mux_runtime demo_web demo_env chain demo_pbs_config demo_mux_config = Ok rt"
proof -
  have "mux_pbs_config demo_pbs_config demo_mux_config = demo_pbs_config"
    by (simp add: mux_pbs_config_def demo_mux_config_def)
  then show ?thesis
    by (simp add: mux_runtime_def Let_def demo_pbs_validate and_then_Ok_iff)
      (simp add: demo_mux_config_def relay_client_new_def demo_web_def demo_relay_config_def)
qed

theorem mux_lookup_witness:
  "\<exists>configs rt. validate_and_fill demo_web demo_env [demo_mux_config] Mainnet demo_pbs_config = Some (Ok configs) \<and>
     map_of configs 77 = Some rt \<and> map_of configs 78 = None"
proof -
  obtain rt where rt: "mux_runtime demo_web demo_env Mainnet demo_pbs_config demo_mux_config = Ok rt"
    using demo_mux_runtime by blast
  have keys: "mc_validator_pubkeys demo_mux_config = [77]" "mc_loader demo_mux_config = None"
    "mc_relays demo_mux_config \<noteq> []" by (simp_all add: demo_mux_config_def)
  let ?run = "validate_and_fill demo_web demo_env [demo_mux_config] Mainnet demo_pbs_config"
  have fill: "fill_mux_keys demo_env Mainnet demo_pbs_config [demo_mux_config] = Some (Ok [demo_mux_config])"
    using keys by (simp add: Let_def)
  obtain configs where run: "?run = Some (Ok configs)"
    unfolding validate_and_fill_def fill by (simp add: keys rt)
  obtain ms where ms: "fill_mux_keys demo_env Mainnet demo_pbs_config [demo_mux_config] = Some (Ok ms)"
    and look: "\<And>k. case map_of configs k of
       Some rt \<Rightarrow> \<exists>mux\<in>set ms. k \<in> set (mc_validator_pubkeys mux) \<and>
         mux_runtime demo_web demo_env Mainnet demo_pbs_config mux = Ok rt
     | None \<Rightarrow> \<forall>mux\<in>set ms. k \<notin> set (mc_validator_pubkeys mux)"
    using mux_lookup [OF run] by blast
  have "ms = [demo_mux_config]" using ms fill by (metis option.inject sum.inject(2))
  then have "case map_of configs k of Some rt \<Rightarrow> k = 77 | None \<Rightarrow> k \<noteq> 77" for k
    using look [of k] keys by (auto split: option.splits)
  from this [of 77] this [of 78] run show ?thesis by (auto split: option.splits)
qed

section \<open>Key registries\<close>

lemma chunks_of_concat:
  "0 < n \<Longrightarrow> (\<And>k. k \<in> set ks \<Longrightarrow> length k = n) \<Longrightarrow> chunks_of n (concat ks) = ks"
proof (induction ks)
  case Nil
  then show ?case by simp
next
  case (Cons k ks)
  have "k \<noteq> []" "length k = n" using Cons.prems by auto
  with Cons show ?case by (simp add: chunks_of.simps [of n "k @ concat ks"])
qed

lemma length_concat_const: "(\<And>k. k \<in> set ks \<Longrightarrow> length k = n) \<Longrightarrow> length (concat ks) = length ks * n"
  by (induction ks) auto

lemma lido_batches_complete:
  assumes keys: "\<And>k. k \<in> set ks \<Longrightarrow> length k = BLS_PK_LEN" and small: "length ks < 2 ^ 64"
    and registry: "\<And>off lim. unat off + unat lim \<le> length ks \<Longrightarrow>
      get_keys off lim = Ok (concat (take (unat lim) (drop (unat off) ks)))"
    and "offset \<le> length ks"
  shows "lido_batches get_keys (length ks) acc offset = Ok (acc @ map (\<lambda>k. word_of_nat (be_nat k)) (drop offset ks))"
  using assms(4)
proof (induction "length ks - offset" arbitrary: offset acc rule: less_induct)
  case less
  show ?case
  proof (cases "offset < length ks")
    case False
    with less.prems show ?thesis by (simp add: lido_batches.simps)
  next
    case True
    define limit where "limit = min CALL_BATCH_SIZE (length ks - offset)"
    let ?batch = "take limit (drop offset ks)"
    have limit: "0 < limit" "offset + limit \<le> length ks"
      using True by (auto simp: limit_def CALL_BATCH_SIZE_def)
    have unat: "unat (word_of_nat offset :: u256) = offset" "unat (word_of_nat limit :: u256) = limit"
      using True limit small by (simp_all add: unat_of_nat)
    have got: "get_keys (word_of_nat offset) (word_of_nat limit) = Ok (concat ?batch)"
      using registry [of "word_of_nat offset" "word_of_nat limit"] limit unat by simp
    have sz: "length k = BLS_PK_LEN" if "k \<in> set ?batch" for k
      using that keys by (meson in_set_dropD in_set_takeD)
    have mod: "length (concat ?batch) mod BLS_PK_LEN = 0"
      using length_concat_const [of ?batch, OF sz] by simp
    have "chunks_of BLS_PK_LEN (concat ?batch) = ?batch"
      by (rule chunks_of_concat) (use sz in \<open>auto simp: BLS_PK_LEN_def\<close>)
    moreover have "map pubkey_try_from ?batch = map Inr (map (\<lambda>k. word_of_nat (be_nat k)) ?batch)"
      using sz by (auto simp: pubkey_try_from_def)
    ultimately have parsed: "collect_results (map pubkey_try_from (chunks_of BLS_PK_LEN (concat ?batch))) =
        Ok (map (\<lambda>k. word_of_nat (be_nat k)) ?batch)"
      by (simp only: collect_results_map_Ok)
    have "lido_batches get_keys (length ks) acc offset =
        lido_batches get_keys (length ks) (acc @ map (\<lambda>k. word_of_nat (be_nat k)) ?batch) (offset + limit)"
      using True got mod parsed
      by (subst lido_batches.simps) (simp add: Let_def flip: limit_def)
    also have "\<dots> = Ok ((acc @ map (\<lambda>k. word_of_nat (be_nat k)) ?batch) @
        map (\<lambda>k. word_of_nat (be_nat k)) (drop (offset + limit) ks))"
      using less.hyps limit True by simp
    also have "\<dots> = Ok (acc @ map (\<lambda>k. word_of_nat (be_nat k)) (drop offset ks))"
      by (simp add: add.commute flip: map_append drop_drop)
    finally show ?thesis .
  qed
qed

text \<open>
  If the Lido registry holds the keys \<open>ks\<close> (48 bytes each) of a node operator and answers every request
  within range with that range, then fetching in batches of 250 gives all keys in order: none is
  lost, repeated or split at the boundary of a batch.
\<close>

theorem lido_keys_complete:
  assumes "lido_registry_address chain = Ok registry"
    and "ce_lido_total E registry operator = Ok (word_of_nat (length ks))"
    and "\<And>k. k \<in> set ks \<Longrightarrow> length k = BLS_PK_LEN" and "length ks < 2 ^ 64"
    and "\<And>off lim. unat off + unat lim \<le> length ks \<Longrightarrow>
      ce_lido_keys E registry operator off lim = Ok (concat (take (unat lim) (drop (unat off) ks)))"
  shows "fetch_lido_registry_keys E chain operator = Ok (map (\<lambda>k. word_of_nat (be_nat k)) ks)"
proof -
  have "unat (word_of_nat (length ks) :: u256) = length ks" using assms(4) by (simp add: unat_of_nat)
  moreover have "lido_batches (ce_lido_keys E registry operator) (length ks) [] 0 =
      Ok (map (\<lambda>k. word_of_nat (be_nat k)) ks)"
    using lido_batches_complete [OF assms(3,4,5), of 0 "[]"] by simp
  ultimately show ?thesis
    using assms(1,2,4) by (simp add: fetch_lido_registry_keys_def Let_def ensure_def)
qed

definition demo_lido_env :: "bytes list \<Rightarrow> config_env" where
  "demo_lido_env ks = demo_env\<lparr>ce_lido_total := (\<lambda>_ _. Ok (word_of_nat (length ks))),
     ce_lido_keys := (\<lambda>_ _ off lim. Ok (concat (take (unat lim) (drop (unat off) ks))))\<rparr>"

theorem lido_keys_complete_witness:
  "fetch_lido_registry_keys (demo_lido_env (replicate 600 (replicate 48 1))) Mainnet 7 =
     Ok (replicate 600 (word_of_nat (be_nat (replicate 48 1))))"
  using lido_keys_complete [of Mainnet "0x55032650b14df07b85bF18A3a3eC8E0Af2e028d5"
      "demo_lido_env (replicate 600 (replicate 48 1))" 7 "replicate 600 (replicate 48 1)"]
  by (simp add: demo_lido_env_def BLS_PK_LEN_def)

definition full_page :: "(nat \<Rightarrow> (string, ssv_response) result) \<Rightarrow> nat \<Rightarrow> ssv_response \<Rightarrow> bool" where
  "full_page fetch page r \<longleftrightarrow> fetch page = Ok r \<and> MAX_PER_PAGE \<le> length (ssv_validators r)"

lemma ssv_pages_upto:
  assumes "\<And>i. page \<le> i \<Longrightarrow> i < n \<Longrightarrow> full_page fetch i (r i)" and "page \<le> n"
    and "fetch n = Ok (r n)" and "length (ssv_validators (r n)) < MAX_PER_PAGE"
  shows "ssv_pages fetch acc page =
    (let keys = acc @ concat (map (\<lambda>i. ssv_validators (r i)) [page..<Suc n]) in
     Some (and_then (ensure (length keys = ssv_total (r n)) ''unexpected number of keys'') (\<lambda>_. Ok keys)))"
  using assms(1,2)
proof (induction "n - page" arbitrary: page acc)
  case 0
  then have "page = n" by simp
  with assms(3,4) show ?case by (subst ssv_pages.simps) simp
next
  case (Suc d)
  then have "page < n" by simp
  with Suc.prems(1) [of page] have "ssv_pages fetch acc page = ssv_pages fetch (acc @ ssv_validators (r page)) (Suc page)"
    by (subst ssv_pages.simps) (simp add: full_page_def)
  with Suc.hyps(1) [of "Suc page"] Suc.hyps(2) Suc.prems \<open>page < n\<close> show ?case
    by (simp add: upt_conv_Cons add.assoc)
qed

lemma ssv_pages_endless:
  assumes "\<And>i. full_page fetch i (r i)"
  shows "ssv_pages fetch acc page = None"
proof (rule ccontr)
  assume "ssv_pages fetch acc page \<noteq> None"
  then obtain res where res: "ssv_pages fetch acc page = Some res" by blast
  have "\<exists>i. \<not> full_page fetch i (r i)"
  proof (rule ssv_pages.raw_induct [where P = "\<lambda>fetch acc page res. \<exists>i. \<not> full_page fetch i (r i)", OF _ res],
      goal_cases)
    case (1 f fetch acc page res)
    show ?case
    proof (rule ccontr)
      assume "\<not> (\<exists>i. \<not> full_page fetch i (r i))"
      then have full: "full_page fetch i (r i)" for i by blast
      from full [of page] 1(2) have "f fetch (acc @ ssv_validators (r page)) (Suc page) = Some res"
        by (simp add: full_page_def Let_def)
      from 1(1) [OF this] full show False by blast
    qed
  qed
  with assms show False by blast
qed

text \<open>
  C36. The page loop of the SSV loader: if the pages before page \<open>n\<close> are full and page \<open>n\<close> is not, and the
  keys of all pages add up to the announced total, it returns the keys of all pages in order; if every
  page that the server gives is full, it never returns.
\<close>

theorem ssv_keys_complete:
  "((\<forall>i. 1 \<le> i \<and> i < n \<longrightarrow> full_page fetch i (r i)) \<and> 1 \<le> n \<and> fetch n = Ok (r n) \<and>
    length (ssv_validators (r n)) < MAX_PER_PAGE \<and>
    ssv_total (r n) = length (concat (map (\<lambda>i. ssv_validators (r i)) [1..<Suc n])) \<longrightarrow>
    ssv_pages fetch [] 1 = Some (Ok (concat (map (\<lambda>i. ssv_validators (r i)) [1..<Suc n])))) \<and>
   ((\<forall>i. full_page fetch i (r i)) \<longrightarrow> ssv_pages fetch [] 1 = None)"
  using ssv_pages_upto [of 1 n fetch r "[]"] ssv_pages_endless [of fetch r "[]" 1]
  by (auto simp: Let_def ensure_def simp del: upt_Suc)

definition demo_page :: "nat \<Rightarrow> ssv_response" where
  "demo_page i = \<lparr>ssv_validators = (if i = 1 then replicate 100 5 else [6]), ssv_total = 101\<rparr>"

theorem ssv_keys_complete_witness:
  "ssv_pages (\<lambda>i. Ok (demo_page i)) [] 1 = Some (Ok (replicate 100 5 @ [6]))"
proof -
  let ?keys = "concat (map (\<lambda>i. ssv_validators (demo_page i)) [1..<Suc 2])"
  have keys: "?keys = replicate 100 5 @ [6]" by (simp add: demo_page_def upt_rec)
  from ssv_keys_complete [of 2 "\<lambda>i. Ok (demo_page i)" demo_page]
  show ?thesis unfolding keys by (auto simp: full_page_def demo_page_def MAX_PER_PAGE_def)
qed

section \<open>Signing ids and secrets of the modules\<close>

text \<open>
  The registry of the modules is accepted exactly if every module has an id, a non-zero signing id and
  a secret, and no two modules share an id, a secret or a signing id; it then maps each module to
  its own secret and signing id.
\<close>

theorem module_registry_spec:
  "load_module_signing_configs maybe_modules secrets = Ok configs \<longleftrightarrow>
     (\<exists>modules. maybe_modules = Some modules \<and> modules_ok secrets modules \<and>
        configs = map (signing_entry secrets) modules)"
  by (rule load_module_signing_configs_Ok_iff)

end
