(* ===== verification/Signer_Client.thy ===== *)
theory Signer_Client
  imports Commit
begin

text \<open>
  The client with which commit modules call the signer: \<open>crates/common/src/commit/client.rs\<close>,
  \<open>error.rs\<close> and \<open>constants.rs\<close>. The client is a value that every call returns updated, since a call
  may replace the token in its default headers. \<open>now\<close> is the monotonic clock in milliseconds; the
  token library \<open>jwtlib\<close> holds the wall clock. Of a response the status and the outcome of reading its
  body count; the decoders of the bodies are arguments.
\<close>

section \<open>Paths and errors\<close>

definition GET_PUBKEYS_PATH :: string where
  "GET_PUBKEYS_PATH = ''/signer/v1/get_pubkeys''"

definition REQUEST_SIGNATURE_PATH :: string where
  "REQUEST_SIGNATURE_PATH = ''/signer/v1/request_signature''"

definition GENERATE_PROXY_KEY_PATH :: string where
  "GENERATE_PROXY_KEY_PATH = ''/signer/v1/generate_proxy_key''"

text \<open>The message of a failed request is kept as the bytes it is decoded from.\<close>

datatype signer_client_error =
    ClientReqwestError reqwest_error
  | InvalidHeader
  | FailedRequest u16 bytes
  | SerdeDecodeError string
  | ClientParseError string
  | JWTError string

section \<open>State and requests\<close>

record signer_client =
  sc_url :: string
  sc_headers :: header_map
  sc_last_jwt_refresh :: nat
  sc_module_id :: module_id
  sc_jwt_secret :: string

datatype client_body =
    NoJson
  | JsonSignRequest sign_request
  | JsonGenerateProxy generate_proxy_request

record client_request =
  cq_method :: http_method
  cq_url :: string
  cq_headers :: header_map
  cq_body :: client_body

type_synonym client_http =
  "client_request \<Rightarrow> (reqwest_error, u16 \<times> (reqwest_error, bytes) result) result"

definition AUTHORIZATION :: string where
  "AUTHORIZATION = ''authorization''"

definition CLIENT_BUILD_ERROR :: reqwest_error where
  "CLIENT_BUILD_ERROR = \<lparr>err_is_timeout = False, err_is_connect = False\<rparr>"

text \<open>The token, the header made of it, and a client that sends it with every request.\<close>

definition auth_headers :: "weblib \<Rightarrow> string \<Rightarrow> (string, header_map) result" where
  "auth_headers W jwt =
     (case hv_from_str W (''Bearer '' @ jwt) of
        None \<Rightarrow> Err ''invalid jwt''
      | Some auth_value \<Rightarrow> Ok [AUTHORIZATION \<mapsto> auth_value])"

definition signer_client_new ::
  "weblib \<Rightarrow> jwtlib \<Rightarrow> nat \<Rightarrow> string \<Rightarrow> string \<Rightarrow> module_id \<Rightarrow> (string, signer_client) result" where
  "signer_client_new W J now signer_server_url jwt_secret mid =
     and_then (create_jwt J mid jwt_secret) (\<lambda>jwt.
     and_then (auth_headers W jwt) (\<lambda>headers.
       if client_builds W headers
       then Ok \<lparr>sc_url = signer_server_url, sc_headers = headers, sc_last_jwt_refresh = now,
                sc_module_id = mid, sc_jwt_secret = jwt_secret\<rparr>
       else Err ''client build failed''))"

text \<open>The time of the last refresh is not updated.\<close>

definition refresh_jwt ::
  "weblib \<Rightarrow> jwtlib \<Rightarrow> nat \<Rightarrow> signer_client \<Rightarrow> (signer_client_error, signer_client) result" where
  "refresh_jwt W J now client =
     (if now - sc_last_jwt_refresh client > unat SIGNER_JWT_EXPIRATION * 1000 then
        and_then (map_err JWTError (create_jwt J (sc_module_id client) (sc_jwt_secret client))) (\<lambda>jwt.
        and_then (map_err JWTError (auth_headers W jwt)) (\<lambda>headers.
          if client_builds W headers then Ok (client\<lparr>sc_headers := headers\<rparr>)
          else Err (ClientReqwestError CLIENT_BUILD_ERROR)))
      else Ok client)"

text \<open>What follows the refresh in every call: the request, the reading of the body, the check of the status.\<close>

definition call_signer ::
  "weblib \<Rightarrow> client_http \<Rightarrow> signer_client \<Rightarrow> http_method \<Rightarrow> string \<Rightarrow> client_body
     \<Rightarrow> (bytes \<Rightarrow> (string, 'a) result) \<Rightarrow> (signer_client_error, 'a) result" where
  "call_signer W http client meth path body decode =
     and_then (map_err ClientParseError (url_join W (sc_url client) path)) (\<lambda>url.
     and_then (map_err ClientReqwestError
                 (http \<lparr>cq_method = meth, cq_url = url, cq_headers = sc_headers client, cq_body = body\<rparr>))
       (\<lambda>(status, read).
     and_then (map_err ClientReqwestError read) (\<lambda>response_bytes.
       if \<not> is_success status then Err (FailedRequest status response_bytes)
       else map_err SerdeDecodeError (decode response_bytes))))"

text \<open>A call refreshes the token first; when that fails nothing is sent and the client is as before.\<close>

definition with_refresh ::
  "weblib \<Rightarrow> jwtlib \<Rightarrow> nat \<Rightarrow> signer_client \<Rightarrow> (signer_client \<Rightarrow> (signer_client_error, 'a) result)
     \<Rightarrow> signer_client \<times> (signer_client_error, 'a) result" where
  "with_refresh W J now client call =
     (case refresh_jwt W J now client of
        Inl e \<Rightarrow> (client, Err e)
      | Inr client' \<Rightarrow> (client', call client'))"

section \<open>Calls\<close>

definition client_get_pubkeys ::
  "weblib \<Rightarrow> jwtlib \<Rightarrow> nat \<Rightarrow> client_http \<Rightarrow> (bytes \<Rightarrow> (string, consensus_proxy_map list) result)
     \<Rightarrow> signer_client \<Rightarrow> signer_client \<times> (signer_client_error, consensus_proxy_map list) result" where
  "client_get_pubkeys W J now http decode client =
     with_refresh W J now client (\<lambda>c. call_signer W http c GET GET_PUBKEYS_PATH NoJson decode)"

definition client_request_signature ::
  "weblib \<Rightarrow> jwtlib \<Rightarrow> nat \<Rightarrow> client_http \<Rightarrow> (bytes \<Rightarrow> (string, 'a) result) \<Rightarrow> sign_request
     \<Rightarrow> signer_client \<Rightarrow> signer_client \<times> (signer_client_error, 'a) result" where
  "client_request_signature W J now http decode request client =
     with_refresh W J now client (\<lambda>c.
       call_signer W http c POST REQUEST_SIGNATURE_PATH (JsonSignRequest request) decode)"

definition client_request_consensus_signature ::
  "weblib \<Rightarrow> jwtlib \<Rightarrow> nat \<Rightarrow> client_http \<Rightarrow> (bytes \<Rightarrow> (string, bls_signature) result)
     \<Rightarrow> sign_consensus_request \<Rightarrow> signer_client \<Rightarrow> signer_client \<times> (signer_client_error, bls_signature) result" where
  "client_request_consensus_signature W J now http decode request =
     client_request_signature W J now http decode (SignConsensus request)"

definition client_request_proxy_signature_ecdsa ::
  "weblib \<Rightarrow> jwtlib \<Rightarrow> nat \<Rightarrow> client_http \<Rightarrow> (bytes \<Rightarrow> (string, ecdsa_signature) result)
     \<Rightarrow> address sign_proxy_request \<Rightarrow> signer_client
     \<Rightarrow> signer_client \<times> (signer_client_error, ecdsa_signature) result" where
  "client_request_proxy_signature_ecdsa W J now http decode request =
     client_request_signature W J now http decode (SignProxyEcdsa request)"

definition client_request_proxy_signature_bls ::
  "weblib \<Rightarrow> jwtlib \<Rightarrow> nat \<Rightarrow> client_http \<Rightarrow> (bytes \<Rightarrow> (string, bls_signature) result)
     \<Rightarrow> bls_public_key sign_proxy_request \<Rightarrow> signer_client
     \<Rightarrow> signer_client \<times> (signer_client_error, bls_signature) result" where
  "client_request_proxy_signature_bls W J now http decode request =
     client_request_signature W J now http decode (SignProxyBls request)"

definition client_generate_proxy_key ::
  "weblib \<Rightarrow> jwtlib \<Rightarrow> nat \<Rightarrow> client_http \<Rightarrow> (bytes \<Rightarrow> (string, 'p signed_proxy_delegation) result)
     \<Rightarrow> generate_proxy_request \<Rightarrow> signer_client
     \<Rightarrow> signer_client \<times> (signer_client_error, 'p signed_proxy_delegation) result" where
  "client_generate_proxy_key W J now http decode request client =
     with_refresh W J now client (\<lambda>c.
       call_signer W http c POST GENERATE_PROXY_KEY_PATH (JsonGenerateProxy request) decode)"

definition client_generate_proxy_key_bls ::
  "weblib \<Rightarrow> jwtlib \<Rightarrow> nat \<Rightarrow> client_http \<Rightarrow> (bytes \<Rightarrow> (string, signed_proxy_delegation_bls) result)
     \<Rightarrow> bls_public_key \<Rightarrow> signer_client
     \<Rightarrow> signer_client \<times> (signer_client_error, signed_proxy_delegation_bls) result" where
  "client_generate_proxy_key_bls W J now http decode consensus_pubkey =
     client_generate_proxy_key W J now http decode
       \<lparr>gpr_consensus_pubkey = consensus_pubkey, gpr_scheme = Bls\<rparr>"

definition client_generate_proxy_key_ecdsa ::
  "weblib \<Rightarrow> jwtlib \<Rightarrow> nat \<Rightarrow> client_http \<Rightarrow> (bytes \<Rightarrow> (string, signed_proxy_delegation_ecdsa) result)
     \<Rightarrow> bls_public_key \<Rightarrow> signer_client
     \<Rightarrow> signer_client \<times> (signer_client_error, signed_proxy_delegation_ecdsa) result" where
  "client_generate_proxy_key_ecdsa W J now http decode consensus_pubkey =
     client_generate_proxy_key W J now http decode
       \<lparr>gpr_consensus_pubkey = consensus_pubkey, gpr_scheme = Ecdsa\<rparr>"

section \<open>The life of a client\<close>

text \<open>
  \<open>clock\<close> gives the token library as it is at a time, and time goes on between calls. The clients that
  a module can hold: the one it created, and what its calls leave behind.
\<close>

inductive client_at ::
  "weblib \<Rightarrow> (nat \<Rightarrow> jwtlib) \<Rightarrow> string \<Rightarrow> string \<Rightarrow> module_id \<Rightarrow> nat \<Rightarrow> nat \<Rightarrow> signer_client \<Rightarrow> bool"
  for W clock url secret mid created where
  created: "signer_client_new W (clock created) created url secret mid = Ok client \<Longrightarrow>
    client_at W clock url secret mid created created client"
| time_passes: "client_at W clock url secret mid created now client \<Longrightarrow> now \<le> later \<Longrightarrow>
    client_at W clock url secret mid created later client"
| refreshed: "client_at W clock url secret mid created now client \<Longrightarrow>
    refresh_jwt W (clock now) now client = Ok client' \<Longrightarrow>
    client_at W clock url secret mid created now client'"

text \<open>Every call leaves such a client behind, whether it succeeds or not.\<close>

lemma client_at_call:
  "client_at W clock url secret mid created now client \<Longrightarrow>
     client_at W clock url secret mid created now (fst (with_refresh W (clock now) now client f))"
  by (auto simp: with_refresh_def intro: client_at.refreshed split: sum.split)

text \<open>The clocks agree: the wall clock of the token library shows whole seconds of the monotonic one.\<close>

definition clocks_agree :: "(nat \<Rightarrow> jwtlib) \<Rightarrow> nat \<Rightarrow> bool" where
  "clocks_agree clock epoch \<longleftrightarrow>
     (\<forall>now. (epoch + now) div 1000 + 300 < 2 ^ 64 \<longrightarrow> unat (jl_now (clock now)) = (epoch + now) div 1000)"

text \<open>A token made at one time decodes at a later one as long as it has not expired.\<close>

definition jwt_complete_over_time :: "(nat \<Rightarrow> jwtlib) \<Rightarrow> bool" where
  "jwt_complete_over_time clock \<longleftrightarrow>
     (\<forall>made now claims secret jwt secret' v.
        jl_encode (clock made) claims secret = Ok jwt \<longrightarrow> made \<le> now \<longrightarrow>
        jl_now (clock now) \<le> jc_exp claims \<longrightarrow>
        (secret' = secret \<or> \<not> jv_check_signature v) \<longrightarrow>
        jl_decode (clock now) jwt secret' v = Ok claims)"

text \<open>The token a client holds was made when it was created or later, by its own secret.\<close>

definition holds_token :: "weblib \<Rightarrow> (nat \<Rightarrow> jwtlib) \<Rightarrow> string \<Rightarrow> module_id \<Rightarrow> nat \<Rightarrow> nat \<Rightarrow> signer_client \<Rightarrow> bool" where
  "holds_token W clock secret mid created now client \<longleftrightarrow>
     sc_module_id client = mid \<and> sc_jwt_secret client = secret \<and> sc_last_jwt_refresh client = created \<and>
     created \<le> now \<and>
     (\<exists>made jwt. created \<le> made \<and> made \<le> now \<and> create_jwt (clock made) mid secret = Ok jwt \<and>
        auth_headers W jwt = Ok (sc_headers client))"

lemma refresh_jwt_Ok:
  assumes "refresh_jwt W J now client = Ok client'"
  shows "client' = client \<and> now - sc_last_jwt_refresh client \<le> 300000 \<or>
    (\<exists>jwt headers. create_jwt J (sc_module_id client) (sc_jwt_secret client) = Ok jwt \<and>
       auth_headers W jwt = Ok headers \<and> client' = client\<lparr>sc_headers := headers\<rparr>)"
  using assms
  by (auto simp: refresh_jwt_def and_then_Ok_iff SIGNER_JWT_EXPIRATION_def not_less split: if_splits)

lemma client_holds_token:
  "client_at W clock url secret mid created now client \<Longrightarrow>
     holds_token W clock secret mid created now client"
proof (induction rule: client_at.induct)
  case (created client)
  then show ?case
    by (auto simp: signer_client_new_def holds_token_def and_then_Ok_iff split: if_splits)
next
  case (time_passes now client later)
  then show ?case by (auto simp: holds_token_def)
next
  case (refreshed now client client')
  with refresh_jwt_Ok [OF refreshed.hyps(2)] show ?case by (auto simp: holds_token_def)
qed

text \<open>The token with which a request is sent is at most 300 seconds old.\<close>

lemma refreshed_token:
  assumes "holds_token W clock secret mid created now client"
    and "refresh_jwt W (clock now) now client = Ok client'"
  shows "\<exists>made jwt. made \<le> now \<and> now - made \<le> 300000 \<and> create_jwt (clock made) mid secret = Ok jwt \<and>
    auth_headers W jwt = Ok (sc_headers client')"
  using refresh_jwt_Ok [OF assms(2)]
proof
  assume "client' = client \<and> now - sc_last_jwt_refresh client \<le> 300000"
  with assms(1) show ?thesis by (auto simp: holds_token_def)
next
  assume "\<exists>jwt headers. create_jwt (clock now) (sc_module_id client) (sc_jwt_secret client) = Ok jwt \<and>
    auth_headers W jwt = Ok headers \<and> client' = client\<lparr>sc_headers := headers\<rparr>"
  with assms(1) show ?thesis by (intro exI [of _ now]) (auto simp: holds_token_def)
qed

lemma token_valid_later:
  assumes "jwt_complete_over_time clock" and "clocks_agree clock epoch"
    and "made \<le> now" and "now - made \<le> 300000" and "(epoch + now) div 1000 + 300 < 2 ^ 64"
    and "create_jwt (clock made) mid secret = Ok jwt"
  shows "decode_jwt (clock now) jwt = Ok mid \<and> validate_jwt (clock now) jwt secret = Ok ()"
proof -
  let ?claims = "\<lparr>jc_exp = jl_now (clock made) + SIGNER_JWT_EXPIRATION, jc_module = mid\<rparr>"
  have le: "(epoch + made) div 1000 \<le> (epoch + now) div 1000" using assms(3) by (simp add: div_le_mono)
  have now: "unat (jl_now (clock now)) = (epoch + now) div 1000"
    and made: "unat (jl_now (clock made)) = (epoch + made) div 1000"
    using assms(2,5) le unfolding clocks_agree_def by auto
  have "(epoch + now) div 1000 \<le> (epoch + made + 300 * 1000) div 1000"
    using assms(3,4) by (intro div_le_mono) simp
  then have age: "(epoch + now) div 1000 \<le> (epoch + made) div 1000 + 300" by simp
  have "unat (jl_now (clock made) + SIGNER_JWT_EXPIRATION) = (epoch + made) div 1000 + 300"
    using made le assms(5) by (simp add: SIGNER_JWT_EXPIRATION_def unat_word_ariths)
  then have "jl_now (clock now) \<le> jc_exp ?claims" using age now by (simp add: word_le_nat_alt)
  then have "jl_decode (clock now) jwt s v = Ok ?claims" if "s = secret \<or> \<not> jv_check_signature v" for s v
    using assms(1,3,6) that unfolding jwt_complete_over_time_def create_jwt_def by metis
  then show ?thesis by (simp add: decode_jwt_def validate_jwt_def jwt_validation_default_def)
qed

end
