(* ===== verification/Module_Config.thy ===== *)
theory Module_Config
  imports Signer_Client Pbs_State Proxy_Store
begin

text \<open>
  The configuration file as a whole (\<open>crates/common/src/config/mod.rs\<close>), the settings for logs and
  metrics (\<open>log.rs\<close>, \<open>metrics.rs\<close>) and the loaders of commit and event modules (\<open>module.rs\<close>). Decoding
  of TOML is a parameter: for a type of configuration a function from the text of the file.
\<close>

section \<open>Variables\<close>

definition CONFIG_ENV :: string where
  "CONFIG_ENV = ''CB_CONFIG''"

definition CHAIN_SPEC_ENV :: string where
  "CHAIN_SPEC_ENV = ''CB_CHAIN_SPEC''"

definition METRICS_PORT_ENV :: string where
  "METRICS_PORT_ENV = ''CB_METRICS_PORT''"

definition LOGS_DIR_ENV :: string where
  "LOGS_DIR_ENV = ''CB_LOGS_DIR''"

definition LOGS_DIR_DEFAULT :: string where
  "LOGS_DIR_DEFAULT = ''/var/logs/commit-boost''"

definition MODULE_ID_ENV :: string where
  "MODULE_ID_ENV = ''CB_MODULE_ID''"

definition BUILDER_PORT_ENV :: string where
  "BUILDER_PORT_ENV = ''CB_BUILDER_PORT''"

section \<open>Logs and metrics\<close>

record stdout_log_settings =
  so_enabled :: bool
  so_level :: string
  so_use_json :: bool
  so_color :: bool

record file_log_settings =
  fl_enabled :: bool
  fl_level :: string
  fl_use_json :: bool
  fl_dir_path :: string
  fl_max_files :: "nat option"

record logs_settings =
  lg_stdout :: stdout_log_settings
  lg_file :: file_log_settings

definition stdout_log_default :: stdout_log_settings where
  "stdout_log_default = \<lparr>so_enabled = True, so_level = ''info'', so_use_json = False, so_color = True\<rparr>"

definition file_log_default :: file_log_settings where
  "file_log_default = \<lparr>fl_enabled = False, fl_level = ''info'', fl_use_json = True,
     fl_dir_path = LOGS_DIR_DEFAULT, fl_max_files = None\<rparr>"

record metrics_config =
  mt_enabled :: bool
  mt_host :: b32
  mt_start_port :: u16

text \<open>\<open>str::parse\<close> into a \<open>u16\<close>.\<close>

definition parse_u16 :: "string \<Rightarrow> (string, u16) result" where
  "parse_u16 s =
     (let ds = (case s of c # cs \<Rightarrow> if c = CHR ''+'' then cs else s | [] \<Rightarrow> []) in
      if ds \<noteq> [] \<and> list_all is_digit ds \<and> digits_value ds < 2 ^ 16
      then Ok (word_of_nat (digits_value ds)) else Err ''invalid digit found in string'')"

text \<open>\<open>ModuleMetricsConfig::load_from_env\<close>: the port of the metrics server, if one is set.\<close>

definition metrics_load_from_env :: "config_env \<Rightarrow> (string, u16 option) result" where
  "metrics_load_from_env E =
     (case load_optional_env_var E METRICS_PORT_ENV of
        Some server_port \<Rightarrow> and_then (parse_u16 server_port) (\<lambda>p. Ok (Some p))
      | None \<Rightarrow> Ok None)"

section \<open>The configuration file\<close>

record static_pbs_config =
  sp_docker_image :: string
  sp_pbs_config :: pbs_config
  sp_with_signer :: bool

text \<open>\<open>CommitBoostConfig\<close>; \<open>HelperConfig\<close> is the same with a chain that has not been loaded yet.\<close>

record 'c file_config =
  fc_chain :: 'c
  fc_relays :: "relay_config list"
  fc_pbs :: static_pbs_config
  fc_muxes :: "mux_config list option"
  fc_modules :: "static_module_config list option"
  fc_signer :: "signer_config option"
  fc_metrics :: "metrics_config option"
  fc_logs :: logs_settings

type_synonym cb_config = "chain file_config"
type_synonym helper_config = "chain_loader file_config"

text \<open>The parts that the PBS module and the signer read.\<close>

definition pbs_part :: "cb_config \<Rightarrow> commit_boost_config" where
  "pbs_part c = \<lparr>cb_chain = fc_chain c, cb_relays = fc_relays c, cb_pbs_config = sp_pbs_config (fc_pbs c),
     cb_with_signer = sp_with_signer (fc_pbs c), cb_muxes = fc_muxes c\<rparr>"

definition signer_part :: "cb_config \<Rightarrow> signer_file_config" where
  "signer_part c = \<lparr>sf_chain = fc_chain c, sf_modules = fc_modules c, sf_signer = fc_signer c\<rparr>"

definition config_validate :: "config_env \<Rightarrow> (string \<Rightarrow> bool) \<Rightarrow> cb_config \<Rightarrow> (string, unit) result" where
  "config_validate E docker_parses c =
     and_then (pbs_config_validate E (sp_pbs_config (fc_pbs c)) (fc_chain c)) (\<lambda>_.
       case fc_signer c of
         None \<Rightarrow> Ok ()
       | Some signer \<Rightarrow> signer_config_validate docker_parses signer)"

definition load_from_file ::
  "config_env \<Rightarrow> (string \<Rightarrow> (string, 'a) result) \<Rightarrow> string \<Rightarrow> (string, 'a) result" where
  "load_from_file E toml path =
     (case ce_read_file E path of
        None \<Rightarrow> Err ''Unable to find config file''
      | Some config_file \<Rightarrow> map_err (\<lambda>_. ''could not deserialize toml from string'') (toml config_file))"

definition load_file_from_env ::
  "config_env \<Rightarrow> (string \<Rightarrow> (string, 'a) result) \<Rightarrow> string \<Rightarrow> (string, 'a) result" where
  "load_file_from_env E toml env = and_then (load_env_var E env) (load_from_file E toml)"

text \<open>
  \<open>from_env_path\<close>: the path of the chain specification may be replaced by the environment. Errors of
  the chain loader are shown as one message.
\<close>

definition chain_of_loader ::
  "config_env \<Rightarrow> (string \<Rightarrow> bytes option) \<Rightarrow> spec_decoders \<Rightarrow> chain_loader \<Rightarrow> (string, chain) result" where
  "chain_of_loader E files dec loader =
     map_err (\<lambda>_. ''failed to load chain'')
       (deserialize_chain files dec
          (case loader of
             LoadPath genesis_time path \<Rightarrow>
               LoadPath genesis_time
                 (case load_optional_env_var E CHAIN_SPEC_ENV of Some p \<Rightarrow> p | None \<Rightarrow> path)
           | other \<Rightarrow> other))"

definition from_env_path ::
  "config_env \<Rightarrow> (string \<Rightarrow> bytes option) \<Rightarrow> spec_decoders \<Rightarrow> (string \<Rightarrow> (string, helper_config) result)
     \<Rightarrow> (string, cb_config) result" where
  "from_env_path E files dec toml =
     and_then (load_file_from_env E toml CONFIG_ENV) (\<lambda>h.
     and_then (chain_of_loader E files dec (fc_chain h)) (\<lambda>chain.
       Ok \<lparr>fc_chain = chain, fc_relays = fc_relays h, fc_pbs = fc_pbs h, fc_muxes = fc_muxes h,
           fc_modules = fc_modules h, fc_signer = fc_signer h, fc_metrics = fc_metrics h,
           fc_logs = fc_logs h\<rparr>))"

text \<open>\<open>chain_spec_file\<close>: the path of the chain specification in the file, if there is one.\<close>

definition chain_spec_file ::
  "config_env \<Rightarrow> (string \<Rightarrow> (string, chain_loader) result) \<Rightarrow> string \<Rightarrow> string option" where
  "chain_spec_file E toml path =
     (case load_from_file E toml path of
        Inr (LoadPath _ p) \<Rightarrow> Some p
      | _ \<Rightarrow> None)"

text \<open>\<open>LogsSettings::from_env_config\<close>\<close>

definition logs_from_env_config :: "config_env \<Rightarrow> (string, cb_config) result \<Rightarrow> (string, logs_settings) result" where
  "logs_from_env_config E loaded =
     and_then loaded (\<lambda>config.
       Ok (case load_optional_env_var E LOGS_DIR_ENV of
             Some log_dir \<Rightarrow>
               (fc_logs config)\<lparr>lg_file := (lg_file (fc_logs config))\<lparr>fl_dir_path := log_dir\<rparr>\<rparr>
           | None \<Rightarrow> fc_logs config))"

section \<open>Modules\<close>

text \<open>
  The list of modules as a module reads it: entries that decode with its own extra fields, and others.
\<close>

datatype 'x this_module = Target static_module_config 'x | Other

record 'x stub_config =
  sc_chain :: chain
  sc_modules :: "'x this_module list"

fun target_of :: "'x this_module \<Rightarrow> (static_module_config \<times> 'x) option" where
  "target_of (Target c x) = Some (c, x)"
| "target_of Other = None"

definition find_module :: "module_id \<Rightarrow> 'x stub_config \<Rightarrow> (string, static_module_config \<times> 'x) result" where
  "find_module mid cb_config =
     (let matches = List.map_filter target_of (sc_modules cb_config) in
      and_then (ensure (matches \<noteq> []) ''Failed to find matching config type'') (\<lambda>_.
        case find (\<lambda>m. sm_id (fst m) = mid) matches of
          None \<Rightarrow> Err ''failed to find module''
        | Some m \<Rightarrow> Ok m))"

record 'x start_commit_module_config =
  cm_id :: module_id
  cm_chain :: chain
  cm_signer_client :: signer_client
  cm_extra :: 'x

definition load_commit_module_config ::
  "weblib \<Rightarrow> jwtlib \<Rightarrow> nat \<Rightarrow> config_env \<Rightarrow> (string \<Rightarrow> (string, 'x stub_config) result)
     \<Rightarrow> (string, 'x start_commit_module_config) result" where
  "load_commit_module_config W J now E toml =
     and_then (load_env_var E MODULE_ID_ENV) (\<lambda>mid.
     and_then (load_env_var E MODULE_JWT_ENV) (\<lambda>module_jwt.
     and_then (load_env_var E SIGNER_URL_ENV) (\<lambda>raw_url.
     and_then (case ce_parse_url E raw_url of None \<Rightarrow> Err ''invalid url'' | Some u \<Rightarrow> Ok u) (\<lambda>signer_server_url.
     and_then (load_file_from_env E toml CONFIG_ENV) (\<lambda>cb_config.
     and_then (find_module mid cb_config) (\<lambda>(module_config, extra).
     and_then (signer_client_new W J now signer_server_url module_jwt mid) (\<lambda>signer_client.
       Ok \<lparr>cm_id = sm_id module_config, cm_chain = sc_chain cb_config, cm_signer_client = signer_client,
           cm_extra = extra\<rparr>)))))))"

record 'x start_builder_module_config =
  bm_id :: module_id
  bm_chain :: chain
  bm_server_port :: u16
  bm_extra :: 'x

definition load_builder_module_config ::
  "config_env \<Rightarrow> (string \<Rightarrow> (string, 'x stub_config) result)
     \<Rightarrow> (string, 'x start_builder_module_config) result" where
  "load_builder_module_config E toml =
     and_then (load_env_var E MODULE_ID_ENV) (\<lambda>mid.
     and_then (load_env_var E BUILDER_PORT_ENV) (\<lambda>raw_port.
     and_then (parse_u16 raw_port) (\<lambda>builder_events_port.
     and_then (load_file_from_env E toml CONFIG_ENV) (\<lambda>cb_config.
     and_then (find_module mid cb_config) (\<lambda>(module_config, extra).
       Ok \<lparr>bm_id = sm_id module_config, bm_chain = sc_chain cb_config, bm_server_port = builder_events_port,
           bm_extra = extra\<rparr>)))))"

section \<open>Properties\<close>

subsection \<open>Decimal numbers\<close>

lemma of_char_digit: "d < 10 \<Longrightarrow> (of_char (digit_char d) :: nat) = 48 + d"
  by (simp add: digit_char_def)

lemma is_digit_digit_char: "d < 10 \<Longrightarrow> is_digit (digit_char d)"
  by (simp add: is_digit_def of_char_digit)

lemma decimal_digits: "list_all is_digit (decimal n)"
proof (induction n rule: decimal.induct)
  case (1 n)
  then show ?case by (subst decimal.simps) (simp add: is_digit_digit_char)
qed

lemma decimal_value: "digits_value (decimal n) = n"
proof (induction n rule: decimal.induct)
  case (1 n)
  then show ?case by (subst decimal.simps) (auto simp: digits_value_def of_char_digit)
qed

lemma decimal_nonempty [simp]: "decimal n \<noteq> []"
  by (subst decimal.simps) simp

lemma decimal_no_char: "\<not> is_digit c \<Longrightarrow> c \<notin> set (decimal n)"
  using decimal_digits [of n] by (auto simp: list_all_iff)

lemma decimal_separators [simp]:
  "CHR ''$'' \<notin> set (decimal n)" "CHR ''/'' \<notin> set (decimal n)" "CHR '','' \<notin> set (decimal n)"
  "CHR '':'' \<notin> set (decimal n)" "CHR ''+'' \<notin> set (decimal n)"
  by (rule decimal_no_char, simp add: is_digit_def)+

lemma is_digit_not_whitespace: "is_digit c \<Longrightarrow> \<not> is_whitespace c"
  by (auto simp: is_digit_def is_whitespace_def Let_def)

lemma decimal_ends:
  "\<not> is_whitespace (hd (decimal n))" "\<not> is_whitespace (last (decimal n))"
  using decimal_digits [of n] hd_in_set [OF decimal_nonempty [of n]] last_in_set [OF decimal_nonempty [of n]]
  by (simp_all add: list_all_iff is_digit_not_whitespace)

lemma parse_u16_decimal [simp]: "parse_u16 (decimal (unat p)) = Ok p"
proof -
  have "unat p < 2 ^ 16" using unsigned_less [of p, where 'a = nat] by simp
  moreover obtain c cs where c: "decimal (unat p) = c # cs" using decimal_nonempty by (meson list.exhaust)
  moreover have "digits_value (c # cs) = unat p" "list_all is_digit (c # cs)"
    using decimal_value [of "unat p"] decimal_digits [of "unat p"] by (simp_all only: c)
  moreover have "c \<noteq> CHR ''+''" using decimal_separators(5) [of "unat p"] unfolding c by auto
  ultimately show ?thesis unfolding parse_u16_def c by (simp add: Let_def)
qed

subsection \<open>Modules\<close>

lemma find_module_Ok:
  assumes "find_module mid cb_config = Ok (m, extra)"
  shows "sm_id m = mid \<and> Target m extra \<in> set (sc_modules cb_config)"
proof -
  have "find (\<lambda>m. sm_id (fst m) = mid) (List.map_filter target_of (sc_modules cb_config)) = Some (m, extra)"
    using assms by (simp add: find_module_def Let_def and_then_Ok_iff split: option.splits)
  then obtain i where i: "i < length (List.map_filter target_of (sc_modules cb_config))"
    "sm_id (fst (List.map_filter target_of (sc_modules cb_config) ! i)) = mid"
    "(m, extra) = List.map_filter target_of (sc_modules cb_config) ! i"
    unfolding find_Some_iff by blast
  from i(2) [folded i(3)] have "sm_id m = mid" by simp
  have "(m, extra) \<in> set (List.map_filter target_of (sc_modules cb_config))"
    unfolding i(3) by (rule nth_mem [OF i(1)])
  then obtain t where "t \<in> set (sc_modules cb_config)" "target_of t = Some (m, extra)"
    by (auto simp: map_filter_mem)
  with \<open>sm_id m = mid\<close> show ?thesis by (cases t) auto
qed

end
