(* ===== verification/Defaults.thy ===== *)
theory Defaults
  imports Module_Config
begin

text \<open>
  The default values of the sections \<open>[pbs]\<close> and \<open>[signer]\<close> of the configuration file: the \<open>serde\<close>
  attributes of \<open>crates/common/src/config/pbs.rs\<close> and \<open>signer.rs\<close>, with the constants of
  \<open>config/constants.rs\<close> and \<open>pbs/constants.rs\<close>. A section is a record of the values that the file gives, each
  already decoded to its type; the field that is not optional is the type of the signer.
\<close>

definition DEFAULT_PBS_PORT :: u16 where
  "DEFAULT_PBS_PORT = 18550"

definition GET_HEADER_MS :: u64 where
  "GET_HEADER_MS = 950"

definition GET_PAYLOAD_MS :: u64 where
  "GET_PAYLOAD_MS = 4000"

definition REGISTER_VALIDATOR_MS :: u64 where
  "REGISTER_VALIDATOR_MS = 3000"

definition LATE_IN_SLOT_TIME_MS :: u64 where
  "LATE_IN_SLOT_TIME_MS = 2000"

definition REGISTER_VALIDATOR_RETRY_LIMIT :: u32 where
  "REGISTER_VALIDATOR_RETRY_LIMIT = 3"

definition HTTP_TIMEOUT_SECONDS_DEFAULT :: u64 where
  "HTTP_TIMEOUT_SECONDS_DEFAULT = 10"

definition PBS_IMAGE_DEFAULT :: string where
  "PBS_IMAGE_DEFAULT = ''ghcr.io/commit-boost/pbs:latest''"

definition SIGNER_IMAGE_DEFAULT :: string where
  "SIGNER_IMAGE_DEFAULT = ''ghcr.io/commit-boost/signer:latest''"

text \<open>\<open>Ipv4Addr::LOCALHOST\<close>\<close>

definition default_host :: b32 where
  "default_host = 0x7F000001"

record pbs_section =
  pe_docker_image :: "string option"
  pe_with_signer :: "bool option"
  pe_host :: "b32 option"
  pe_port :: "u16 option"
  pe_relay_check :: "bool option"
  pe_wait_all_registrations :: "bool option"
  pe_timeout_get_header_ms :: "u64 option"
  pe_timeout_get_payload_ms :: "u64 option"
  pe_timeout_register_validator_ms :: "u64 option"
  pe_skip_sigverify :: "bool option"
  pe_min_bid_eth :: "u256 option"
  pe_late_in_slot_time_ms :: "u64 option"
  pe_extra_validation_enabled :: "bool option"
  pe_rpc_url :: "string option"
  pe_http_timeout_seconds :: "u64 option"
  pe_register_validator_retry_limit :: "u32 option"

definition or_default :: "'a option \<Rightarrow> 'a \<Rightarrow> 'a" where
  "or_default v d = (case v of Some x \<Rightarrow> x | None \<Rightarrow> d)"

lemma or_default_simps [simp]: "or_default None d = d" "or_default (Some x) d = x"
  by (simp_all add: or_default_def)

definition pbs_config_of :: "pbs_section \<Rightarrow> pbs_config" where
  "pbs_config_of e = \<lparr>
     pc_host = or_default (pe_host e) default_host,
     pc_port = or_default (pe_port e) DEFAULT_PBS_PORT,
     pc_relay_check = or_default (pe_relay_check e) True,
     pc_wait_all_registrations = or_default (pe_wait_all_registrations e) True,
     pc_timeout_get_header_ms = or_default (pe_timeout_get_header_ms e) GET_HEADER_MS,
     pc_timeout_get_payload_ms = or_default (pe_timeout_get_payload_ms e) GET_PAYLOAD_MS,
     pc_timeout_register_validator_ms = or_default (pe_timeout_register_validator_ms e) REGISTER_VALIDATOR_MS,
     pc_skip_sigverify = or_default (pe_skip_sigverify e) False,
     pc_min_bid_wei = or_default (pe_min_bid_eth e) 0,
     pc_late_in_slot_time_ms = or_default (pe_late_in_slot_time_ms e) LATE_IN_SLOT_TIME_MS,
     pc_extra_validation_enabled = or_default (pe_extra_validation_enabled e) False,
     pc_rpc_url = pe_rpc_url e,
     pc_http_timeout_seconds = or_default (pe_http_timeout_seconds e) HTTP_TIMEOUT_SECONDS_DEFAULT,
     pc_register_validator_retry_limit =
       or_default (pe_register_validator_retry_limit e) REGISTER_VALIDATOR_RETRY_LIMIT\<rparr>"

definition static_pbs_config_of :: "pbs_section \<Rightarrow> static_pbs_config" where
  "static_pbs_config_of e = \<lparr>sp_docker_image = or_default (pe_docker_image e) PBS_IMAGE_DEFAULT,
     sp_pbs_config = pbs_config_of e, sp_with_signer = or_default (pe_with_signer e) False\<rparr>"

record signer_section =
  si_host :: "b32 option"
  si_port :: "u16 option"
  si_docker_image :: "string option"
  si_jwt_auth_fail_limit :: "u32 option"
  si_jwt_auth_fail_timeout_seconds :: "u32 option"
  si_inner :: signer_type

definition signer_config_of :: "signer_section \<Rightarrow> signer_config" where
  "signer_config_of e = \<lparr>
     sg_host = or_default (si_host e) default_host,
     sg_port = or_default (si_port e) SIGNER_PORT_DEFAULT,
     sg_docker_image = or_default (si_docker_image e) SIGNER_IMAGE_DEFAULT,
     sg_jwt_auth_fail_limit = or_default (si_jwt_auth_fail_limit e) SIGNER_JWT_AUTH_FAIL_LIMIT_DEFAULT,
     sg_jwt_auth_fail_timeout_seconds =
       or_default (si_jwt_auth_fail_timeout_seconds e) SIGNER_JWT_AUTH_FAIL_TIMEOUT_SECONDS_DEFAULT,
     sg_inner = si_inner e\<rparr>"

section \<open>Properties\<close>

lemmas default_values =
  DEFAULT_PBS_PORT_def GET_HEADER_MS_def GET_PAYLOAD_MS_def REGISTER_VALIDATOR_MS_def LATE_IN_SLOT_TIME_MS_def
  REGISTER_VALIDATOR_RETRY_LIMIT_def HTTP_TIMEOUT_SECONDS_DEFAULT_def default_host_def

text \<open>
  A section that leaves the other timing fields out and asks for no extra validation is accepted exactly if
  its timeout for headers is positive and below the default for a late request.
\<close>

lemma pbs_section_header_timeout:
  assumes "pe_timeout_get_payload_ms e = None" and "pe_timeout_register_validator_ms e = None"
    and "pe_late_in_slot_time_ms e = None" and "pe_register_validator_retry_limit e = None"
    and "pe_min_bid_eth e = None" and "pe_extra_validation_enabled e = None" and "pe_rpc_url e = None"
  shows "is_ok (pbs_config_validate E (pbs_config_of e) chain) \<longleftrightarrow>
    0 < or_default (pe_timeout_get_header_ms e) 950 \<and> or_default (pe_timeout_get_header_ms e) 950 < 2000"
  using assms
  by (simp add: pbs_config_validate_def pbs_config_of_def default_values ensure_def WEI_PER_ETH_def
      word_less_nat_alt)

lemma signer_section_default_valid:
  assumes "docker_parses SIGNER_IMAGE_DEFAULT" and "si_port e = None" and "si_docker_image e = None"
  shows "signer_config_validate docker_parses (signer_config_of e) = Ok ()"
  using assms by (simp add: signer_config_validate_def signer_config_of_def SIGNER_PORT_DEFAULT_def ensure_def
      SIGNER_IMAGE_DEFAULT_def word_less_nat_alt)

end
