(* ===== verification/Docker_Init.thy ===== *)
theory Docker_Init
  imports Module_Config Key_Loader
begin

text \<open>
  The generator of docker-compose files: \<open>crates/cli/src/docker_init.rs\<close>. What it writes is a value of
  type \<open>docker_output\<close>; the YAML text of the services is left to the library. An \<open>IndexMap\<close> is an
  association list with \<open>AList.update\<close>, which keeps the place of a key that is inserted again. Random
  secrets are drawn from a sequence; the port for metrics wraps around like all words. Letters are ASCII. Fields of a service that the code leaves at
  their default are empty.
\<close>

section \<open>Paths inside the containers\<close>

definition CONFIG_DEFAULT :: string where
  "CONFIG_DEFAULT = ''/cb-config.toml''"

definition SIGNER_DEFAULT :: string where
  "SIGNER_DEFAULT = ''/keys.json''"

definition SIGNER_DIR_KEYS_DEFAULT :: string where
  "SIGNER_DIR_KEYS_DEFAULT = ''/keys''"

definition SIGNER_DIR_SECRETS_DEFAULT :: string where
  "SIGNER_DIR_SECRETS_DEFAULT = ''/secrets''"

definition DIRK_CERT_DEFAULT :: string where
  "DIRK_CERT_DEFAULT = ''/certificates/dirk.crt''"

definition DIRK_KEY_DEFAULT :: string where
  "DIRK_KEY_DEFAULT = ''/certificates/dirk.key''"

definition DIRK_CA_CERT_DEFAULT :: string where
  "DIRK_CA_CERT_DEFAULT = ''/certificates/ca.crt''"

definition DIRK_DIR_SECRETS_DEFAULT :: string where
  "DIRK_DIR_SECRETS_DEFAULT = ''/dirk_secrets''"

definition PROXY_DIR_DEFAULT :: string where
  "PROXY_DIR_DEFAULT = ''/proxies''"

definition PROXY_DIR_KEYS_DEFAULT :: string where
  "PROXY_DIR_KEYS_DEFAULT = ''/proxy_keys''"

definition PROXY_DIR_SECRETS_DEFAULT :: string where
  "PROXY_DIR_SECRETS_DEFAULT = ''/proxy_secrets''"

definition SIGNER_MODULE_NAME :: string where
  "SIGNER_MODULE_NAME = ''signer''"

definition SIGNER_NETWORK :: string where
  "SIGNER_NETWORK = ''signer_network''"

section \<open>Strings\<close>

definition to_lowercase :: "string \<Rightarrow> string" where
  "to_lowercase = map lower_char"

definition upper_char :: "char \<Rightarrow> char" where
  "upper_char c = (let n = (of_char c :: nat) in if 97 \<le> n \<and> n \<le> 122 then char_of (n - 32) else c)"

definition to_uppercase :: "string \<Rightarrow> string" where
  "to_uppercase = map upper_char"

definition join_with :: "string \<Rightarrow> string list \<Rightarrow> string" where
  "join_with sep parts = (case parts of [] \<Rightarrow> [] | p # ps \<Rightarrow> foldl (\<lambda>acc q. acc @ sep @ q) p ps)"

text \<open>\<open>random_jwt_secret\<close>: 32 samples of the distribution \<open>Alphanumeric\<close>.\<close>

definition is_alphanumeric :: "char \<Rightarrow> bool" where
  "is_alphanumeric c \<longleftrightarrow>
     (let n = (of_char c :: nat) in 48 \<le> n \<and> n \<le> 57 \<or> 65 \<le> n \<and> n \<le> 90 \<or> 97 \<le> n \<and> n \<le> 122)"

definition random_jwt_secret :: "(nat \<Rightarrow> char) \<Rightarrow> string" where
  "random_jwt_secret samples = map samples [0..<32]"

text \<open>\<open>Display\<close> of \<open>Ipv4Addr\<close> and \<open>SocketAddr\<close>.\<close>

definition display_ipv4 :: "b32 \<Rightarrow> string" where
  "display_ipv4 ip =
     join_with ''.'' (map (\<lambda>i. decimal (unat ip div 256 ^ i mod 256)) [3, 2, 1, 0])"

fun display_socket_addr :: "socket_addr \<Rightarrow> string" where
  "display_socket_addr (SocketAddr ip port) = display_ipv4 ip @ '':'' @ decimal (unat port)"

text \<open>\<open>Path::file_name\<close> and \<open>PathBuf::join\<close> on paths as they are displayed.\<close>

definition file_name :: "string \<Rightarrow> string option" where
  "file_name p =
     (case rev (components p) of [] \<Rightarrow> None | c # _ \<Rightarrow> if c = ''..'' then None else Some c)"

definition path_push :: "string \<Rightarrow> string \<Rightarrow> string" where
  "path_push dir s =
     (if is_absolute s then s
      else if dir = [] \<or> last dir = CHR ''/'' then dir @ s
      else dir @ ''/'' @ s)"

section \<open>Services\<close>

datatype single_value = SvString string | SvUnsigned u64

type_synonym env_map = "(string \<times> single_value) list"

datatype depends_on = DependsSimple "string list" | DependsConditional "(string \<times> string) list"

record healthcheck =
  hc_test :: string
  hc_interval :: string
  hc_timeout :: string
  hc_retries :: nat
  hc_start_period :: string

record compose_service =
  dv_container_name :: string
  dv_image :: string
  dv_networks :: "string list"
  dv_ports :: "string list"
  dv_volumes :: "string list"
  dv_environment :: env_map
  dv_depends_on :: depends_on
  dv_env_file :: "string option"
  dv_healthcheck :: "healthcheck option"

definition get_env_val :: "string \<Rightarrow> string \<Rightarrow> string \<times> single_value" where
  "get_env_val k v = (k, SvString v)"

definition get_env_interp :: "string \<Rightarrow> string \<Rightarrow> string \<times> single_value" where
  "get_env_interp k v = get_env_val k (''${'' @ v @ ''}'')"

definition get_env_same :: "string \<Rightarrow> string \<times> single_value" where
  "get_env_same k = get_env_interp k k"

definition get_env_uval :: "string \<Rightarrow> u64 \<Rightarrow> string \<times> single_value" where
  "get_env_uval k v = (k, SvUnsigned v)"

definition insert_env :: "string \<times> single_value \<Rightarrow> env_map \<Rightarrow> env_map" where
  "insert_env kv envs = AList.update (fst kv) (snd kv) envs"

definition insert_env_opt :: "(string \<times> single_value) option \<Rightarrow> env_map \<Rightarrow> env_map" where
  "insert_env_opt kv envs = (case kv of Some e \<Rightarrow> insert_env e envs | None \<Rightarrow> envs)"

definition get_log_volume :: "logs_settings \<Rightarrow> string \<Rightarrow> string option" where
  "get_log_volume config mid =
     (if fl_enabled (lg_file config)
      then Some (path_push (fl_dir_path (lg_file config)) (to_lowercase mid) @ '':'' @ LOGS_DIR_DEFAULT)
      else None)"

definition format_comma_separated :: "(module_id \<times> string) list \<Rightarrow> string" where
  "format_comma_separated m = join_with '','' (map (\<lambda>(k, v). k @ ''='' @ v) m)"

definition opt_list :: "'a option \<Rightarrow> 'a list" where
  "opt_list x = (case x of Some y \<Rightarrow> [y] | None \<Rightarrow> [])"

section \<open>The state of the generator\<close>

text \<open>What is fixed before the modules are set up, and what the set-up accumulates.\<close>

record init_context =
  dx_config :: cb_config
  dx_config_volume :: string
  dx_chain_spec_volume :: "string option"
  dx_chain_spec_env :: "(string \<times> single_value) option"
  dx_signer_server :: string
  dx_secret :: "nat \<Rightarrow> string"

record init_state =
  is_services :: "(string \<times> compose_service) list"
  is_jwts :: "(module_id \<times> string) list"
  is_envs :: "(string \<times> string) list"
  is_targets :: "string list"
  is_builder_events :: "string list"
  is_warnings :: "string list"
  is_metrics_port :: u16
  is_drawn :: nat

definition builder_events_port :: u64 where
  "builder_events_port = 30000"

definition exposed_warning :: "string \<Rightarrow> u16 \<Rightarrow> string" where
  "exposed_warning cid port = cid @ '' has an exported port on '' @ decimal (unat port)"

text \<open>The port for metrics, when they are enabled: \<open>next_port\<close> is what the counter becomes.\<close>

definition expose_metrics ::
  "cb_config \<Rightarrow> string \<Rightarrow> (u16 \<Rightarrow> u16) \<Rightarrow> string list \<times> env_map \<times> init_state
     \<Rightarrow> string list \<times> env_map \<times> init_state" where
  "expose_metrics config cid next_port = (\<lambda>(ports, envs, st).
     case fc_metrics config of
       Some m \<Rightarrow>
         if mt_enabled m then
           (let port = is_metrics_port st;
                host_endpoint = display_socket_addr (SocketAddr (mt_host m) port)
            in
            (ports @ [host_endpoint @ '':'' @ decimal (unat port)],
             insert_env (get_env_uval METRICS_PORT_ENV (ucast port)) envs,
             st\<lparr>is_warnings := is_warnings st @ [exposed_warning cid port],
                is_targets := is_targets st @ [host_endpoint],
                is_metrics_port := next_port port\<rparr>))
         else (ports, envs, st)
     | None \<Rightarrow> (ports, envs, st))"

definition log_envs :: "cb_config \<Rightarrow> env_map \<Rightarrow> env_map" where
  "log_envs config envs =
     (if fl_enabled (lg_file (fc_logs config))
      then insert_env (get_env_val LOGS_DIR_ENV LOGS_DIR_DEFAULT) envs else envs)"

fun is_remote :: "signer_config option \<Rightarrow> bool" where
  "is_remote (Some c) = (case sg_inner c of SignerRemote _ \<Rightarrow> True | _ \<Rightarrow> False)"
| "is_remote None = False"

section \<open>Modules\<close>

definition module_cid :: "static_module_config \<Rightarrow> string" where
  "module_cid module = ''cb_'' @ to_lowercase (sm_id module)"

definition module_volumes :: "init_context \<Rightarrow> static_module_config \<Rightarrow> string list" where
  "module_volumes ctx module =
     [dx_config_volume ctx] @ opt_list (dx_chain_spec_volume ctx) @
     opt_list (get_log_volume (fc_logs (dx_config ctx)) (sm_id module))"

text \<open>A commit module gets a secret of its own and access to the signer network.\<close>

definition commit_module_service ::
  "init_context \<Rightarrow> static_module_config \<Rightarrow> init_state \<Rightarrow> compose_service \<times> init_state" where
  "commit_module_service ctx module st =
     (let jwt_secret = dx_secret ctx (is_drawn st);
          jwt_name = ''CB_JWT_'' @ to_uppercase (sm_id module);
          envs0 = hash_map_of
            [get_env_val MODULE_ID_ENV (sm_id module),
             get_env_val CONFIG_ENV CONFIG_DEFAULT,
             get_env_interp MODULE_JWT_ENV jwt_name,
             get_env_val SIGNER_URL_ENV (dx_signer_server ctx)];
          envs1 = (case sm_env module of
                     Some es \<Rightarrow> foldl (\<lambda>m (k, v). insert_env (k, SvString v) m) envs0 es
                   | None \<Rightarrow> envs0);
          envs2 = insert_env_opt (dx_chain_spec_env ctx) envs1;
          (ports, envs3, st1) =
            expose_metrics (dx_config ctx) (module_cid module) (\<lambda>p. p + 1) ([], envs2, st);
          envs4 = log_envs (dx_config ctx) envs3;
          st2 = st1\<lparr>is_envs := AList.update jwt_name jwt_secret (is_envs st1),
                    is_jwts := AList.update (sm_id module) jwt_secret (is_jwts st1),
                    is_drawn := is_drawn st1 + 1\<rparr>
      in
      (\<lparr>dv_container_name = module_cid module,
        dv_image = sm_docker_image module,
        dv_networks = [SIGNER_NETWORK],
        dv_ports = ports,
        dv_volumes = module_volumes ctx module,
        dv_environment = envs4,
        dv_depends_on =
          (if is_remote (fc_signer (dx_config ctx)) then DependsSimple []
           else DependsConditional [(''cb_signer'', ''service_healthy'')]),
        dv_env_file = sm_env_file module,
        dv_healthcheck = None\<rparr>, st2))"

text \<open>An event module gets a port to listen on.\<close>

definition events_module_service ::
  "init_context \<Rightarrow> static_module_config \<Rightarrow> init_state \<Rightarrow> compose_service \<times> init_state" where
  "events_module_service ctx module st =
     (let st0 = st\<lparr>is_builder_events := is_builder_events st @
                 [''http://'' @ module_cid module @ '':'' @ decimal (unat builder_events_port)]\<rparr>;
          envs0 = hash_map_of
            [get_env_val MODULE_ID_ENV (sm_id module),
             get_env_val CONFIG_ENV CONFIG_DEFAULT,
             get_env_uval BUILDER_PORT_ENV builder_events_port];
          envs1 = insert_env_opt (dx_chain_spec_env ctx) envs0;
          (ports, envs2, st1) =
            expose_metrics (dx_config ctx) (module_cid module) (\<lambda>p. p + 1) ([], envs1, st0);
          envs3 = log_envs (dx_config ctx) envs2
      in
      (\<lparr>dv_container_name = module_cid module,
        dv_image = sm_docker_image module,
        dv_networks = [],
        dv_ports = ports,
        dv_volumes = module_volumes ctx module,
        dv_environment = envs3,
        dv_depends_on = DependsSimple [''cb_pbs''],
        dv_env_file = None,
        dv_healthcheck = None\<rparr>, st1))"

definition setup_module :: "init_context \<Rightarrow> init_state \<Rightarrow> static_module_config \<Rightarrow> init_state" where
  "setup_module ctx st module =
     (let (service, st') =
        (case sm_kind module of
           Commit \<Rightarrow> commit_module_service ctx module st
         | Events \<Rightarrow> events_module_service ctx module st)
      in st'\<lparr>is_services := AList.update (module_cid module) service (is_services st')\<rparr>)"

definition setup_modules :: "init_context \<Rightarrow> init_state \<Rightarrow> init_state" where
  "setup_modules ctx st =
     (case fc_modules (dx_config ctx) of
        Some modules \<Rightarrow> foldl (setup_module ctx) st modules
      | None \<Rightarrow> st)"

section \<open>The PBS service\<close>

definition service_healthcheck :: "string \<Rightarrow> healthcheck" where
  "service_healthcheck url = \<lparr>hc_test = ''curl -f '' @ url, hc_interval = ''30s'', hc_timeout = ''5s'',
     hc_retries = 3, hc_start_period = ''5s''\<rparr>"

text \<open>The key files of the multiplexers are mounted and their paths passed on.\<close>

fun mux_mounts ::
  "config_env \<Rightarrow> mux_config list \<Rightarrow> env_map \<times> string list \<Rightarrow> (string, env_map \<times> string list) result" where
  "mux_mounts E [] acc = Ok acc"
| "mux_mounts E (mux # muxes) acc =
     and_then (loader_env E mux) (\<lambda>l.
       mux_mounts E muxes
         (case l of
            Some (env_name, actual_path, internal_path) \<Rightarrow>
              (insert_env (get_env_val env_name internal_path) (fst acc),
               snd acc @ [actual_path @ '':'' @ internal_path @ '':ro''])
          | None \<Rightarrow> acc))"

definition setup_pbs :: "config_env \<Rightarrow> init_context \<Rightarrow> init_state \<Rightarrow> (string, init_state) result" where
  "setup_pbs E ctx st =
     (let config = dx_config ctx;
          pbs = sp_pbs_config (fc_pbs config);
          port = decimal (unat (pc_port pbs));
          host_endpoint = display_socket_addr (SocketAddr (pc_host pbs) (pc_port pbs));
          st0 = st\<lparr>is_warnings := is_warnings st @ [exposed_warning ''cb_pbs'' (pc_port pbs)]\<rparr>
      in
      and_then
        (mux_mounts E (case fc_muxes config of Some ms \<Rightarrow> ms | None \<Rightarrow> [])
           (hash_map_of [get_env_val CONFIG_ENV CONFIG_DEFAULT], [dx_config_volume ctx]))
        (\<lambda>(envs0, volumes).
           let envs1 = insert_env_opt (dx_chain_spec_env ctx) envs0;
               (ports, envs2, st1) = expose_metrics config ''cb_pbs'' (\<lambda>p. p + 1)
                 ([host_endpoint @ '':'' @ port], envs1, st0);
               envs3 = log_envs config envs2;
               envs4 = (if is_builder_events st1 = [] then envs3
                        else insert_env (get_env_val BUILDER_URLS_ENV (join_with '','' (is_builder_events st1))) envs3);
               envs5 = insert_env (get_env_val PBS_ENDPOINT_ENV
                         (display_socket_addr (SocketAddr 0 (pc_port pbs)))) envs4;
               service =
                 \<lparr>dv_container_name = ''cb_pbs'', dv_image = sp_docker_image (fc_pbs config),
                  dv_networks = [], dv_ports = ports,
                  dv_volumes = volumes @ opt_list (dx_chain_spec_volume ctx) @
                    opt_list (get_log_volume (fc_logs config) PBS_MODULE_NAME),
                  dv_environment = envs5, dv_depends_on = DependsSimple [], dv_env_file = None,
                  dv_healthcheck = Some (service_healthcheck
                    (''http://localhost:'' @ port @ BUILDER_V1_API_PATH @ GET_STATUS_PATH))\<rparr>
           in Ok (st1\<lparr>is_services := AList.update ''cb_pbs'' service (is_services st1)\<rparr>)))"

section \<open>The signer service\<close>

definition signer_port_of :: "cb_config \<Rightarrow> u16" where
  "signer_port_of config = (case fc_signer config of Some s \<Rightarrow> sg_port s | None \<Rightarrow> SIGNER_PORT_DEFAULT)"

definition signer_server_of :: "cb_config \<Rightarrow> string" where
  "signer_server_of config =
     (case fc_signer config of
        Some s \<Rightarrow>
          (case sg_inner s of
             SignerRemote url \<Rightarrow> url
           | _ \<Rightarrow> ''http://cb_signer:'' @ decimal (unat (signer_port_of config)))
      | None \<Rightarrow> ''http://cb_signer:'' @ decimal (unat (signer_port_of config)))"

definition needs_signer_module :: "cb_config \<Rightarrow> bool" where
  "needs_signer_module config \<longleftrightarrow>
     sp_with_signer (fc_pbs config) \<or>
     (case fc_modules config of
        Some modules \<Rightarrow> list_ex (\<lambda>module. sm_kind module = Commit) modules
      | None \<Rightarrow> False)"

text \<open>The endpoint, the chain specification, the metrics port and the logs, for both kinds of signer.\<close>

definition signer_common_envs ::
  "init_context \<Rightarrow> signer_config \<Rightarrow> env_map \<Rightarrow> init_state \<Rightarrow> string list \<times> env_map \<times> init_state" where
  "signer_common_envs ctx signer_config envs0 st =
     (let envs1 = insert_env (get_env_val SIGNER_ENDPOINT_ENV
                    (display_socket_addr (SocketAddr 0 (sg_port signer_config)))) envs0;
          host_endpoint = display_socket_addr (SocketAddr (sg_host signer_config) (sg_port signer_config));
          st0 = st\<lparr>is_warnings := is_warnings st @ [exposed_warning ''cb_signer'' (sg_port signer_config)]\<rparr>;
          envs2 = insert_env_opt (dx_chain_spec_env ctx) envs1;
          (ports, envs3, st1) = expose_metrics (dx_config ctx) ''cb_signer'' (\<lambda>p. p)
            ([host_endpoint @ '':'' @ decimal (unat (sg_port signer_config))], envs2, st0)
      in (ports, log_envs (dx_config ctx) envs3, st1))"

definition signer_compose_service ::
  "init_context \<Rightarrow> signer_config \<Rightarrow> string list \<Rightarrow> string list \<Rightarrow> env_map \<Rightarrow> compose_service" where
  "signer_compose_service ctx signer_config ports volumes envs =
     \<lparr>dv_container_name = ''cb_signer'', dv_image = sg_docker_image signer_config,
      dv_networks = [SIGNER_NETWORK], dv_ports = ports, dv_volumes = volumes, dv_environment = envs,
      dv_depends_on = DependsSimple [], dv_env_file = None,
      dv_healthcheck = Some (service_healthcheck
        (''http://localhost:'' @ decimal (unat (signer_port_of (dx_config ctx))) @ ''/status''))\<rparr>"

fun local_loader_mounts :: "signer_loader \<Rightarrow> string list \<times> (string \<times> single_value) list" where
  "local_loader_mounts (KeysFile key_path) =
     ([key_path @ '':'' @ SIGNER_DEFAULT @ '':ro''], [get_env_val SIGNER_KEYS_ENV SIGNER_DEFAULT])"
| "local_loader_mounts (ValidatorsDir keys_path secrets_path _) =
     ([keys_path @ '':'' @ SIGNER_DIR_KEYS_DEFAULT @ '':ro'',
       secrets_path @ '':'' @ SIGNER_DIR_SECRETS_DEFAULT @ '':ro''],
      [get_env_val SIGNER_DIR_KEYS_ENV SIGNER_DIR_KEYS_DEFAULT,
       get_env_val SIGNER_DIR_SECRETS_ENV SIGNER_DIR_SECRETS_DEFAULT])"

fun local_store_mounts :: "proxy_store option \<Rightarrow> string list \<times> (string \<times> single_value) list" where
  "local_store_mounts None = ([], [])"
| "local_store_mounts (Some (StoreFile proxy_dir)) =
     ([proxy_dir @ '':'' @ PROXY_DIR_DEFAULT @ '':rw''], [get_env_val PROXY_DIR_ENV PROXY_DIR_DEFAULT])"
| "local_store_mounts (Some (StoreERC2335 keys_path secrets_path)) =
     ([keys_path @ '':'' @ PROXY_DIR_KEYS_DEFAULT @ '':rw'',
       secrets_path @ '':'' @ PROXY_DIR_SECRETS_DEFAULT @ '':rw''],
      [get_env_val PROXY_DIR_KEYS_ENV PROXY_DIR_KEYS_DEFAULT,
       get_env_val PROXY_DIR_SECRETS_ENV PROXY_DIR_SECRETS_DEFAULT])"

definition setup_local_signer ::
  "init_context \<Rightarrow> signer_config \<Rightarrow> signer_loader \<Rightarrow> proxy_store option \<Rightarrow> init_state \<Rightarrow> init_state" where
  "setup_local_signer ctx signer_config loader store st =
     (let (ports, envs0, st0) = signer_common_envs ctx signer_config
            (hash_map_of [get_env_val CONFIG_ENV CONFIG_DEFAULT, get_env_same JWTS_ENV, get_env_same ADMIN_JWT_ENV]) st;
          st1 = st0\<lparr>is_envs := AList.update ADMIN_JWT_ENV (dx_secret ctx (is_drawn st0))
                       (AList.update JWTS_ENV (format_comma_separated (is_jwts st0)) (is_envs st0)),
                    is_drawn := is_drawn st0 + 1\<rparr>;
          (loader_volumes, loader_envs) = local_loader_mounts loader;
          (store_volumes, store_envs) = local_store_mounts store;
          envs1 = fold insert_env (loader_envs @ store_envs) envs0;
          volumes = [dx_config_volume ctx] @ opt_list (dx_chain_spec_volume ctx) @ loader_volumes @ store_volumes @
            opt_list (get_log_volume (fc_logs (dx_config ctx)) SIGNER_MODULE_NAME)
      in st1\<lparr>is_services := AList.update ''cb_signer''
               (signer_compose_service ctx signer_config ports volumes envs1) (is_services st1)\<rparr>)"

text \<open>With Dirk the variable of the administrator's secret is not passed on; \<open>ERC2335\<close> stores make it panic.\<close>

definition setup_dirk_signer ::
  "init_context \<Rightarrow> signer_config \<Rightarrow> string \<Rightarrow> string \<Rightarrow> string \<Rightarrow> string option \<Rightarrow> proxy_store option
     \<Rightarrow> init_state \<Rightarrow> init_state outcome" where
  "setup_dirk_signer ctx signer_config cert_path key_path secrets_path ca_cert_path store st =
     (let (ports, envs0, st0) = signer_common_envs ctx signer_config
            (hash_map_of [get_env_val CONFIG_ENV CONFIG_DEFAULT, get_env_same JWTS_ENV,
               get_env_val DIRK_CERT_ENV DIRK_CERT_DEFAULT, get_env_val DIRK_KEY_ENV DIRK_KEY_DEFAULT,
               get_env_val DIRK_DIR_SECRETS_ENV DIRK_DIR_SECRETS_DEFAULT]) st;
          st1 = st0\<lparr>is_envs := AList.update JWTS_ENV (format_comma_separated (is_jwts st0)) (is_envs st0)\<rparr>;
          volumes0 = [dx_config_volume ctx,
             cert_path @ '':'' @ DIRK_CERT_DEFAULT @ '':ro'',
             key_path @ '':'' @ DIRK_KEY_DEFAULT @ '':ro'',
             secrets_path @ '':'' @ DIRK_DIR_SECRETS_DEFAULT] @
            opt_list (dx_chain_spec_volume ctx) @
            opt_list (get_log_volume (fc_logs (dx_config ctx)) SIGNER_MODULE_NAME);
          (volumes1, envs1) =
            (case ca_cert_path of
               Some ca \<Rightarrow> (volumes0 @ [ca @ '':'' @ DIRK_CA_CERT_DEFAULT @ '':ro''],
                           insert_env (get_env_val DIRK_CA_CERT_ENV DIRK_CA_CERT_DEFAULT) envs0)
             | None \<Rightarrow> (volumes0, envs0));
          finish = (\<lambda>volumes envs. Returned (st1\<lparr>is_services := AList.update ''cb_signer''
             (signer_compose_service ctx signer_config ports volumes envs) (is_services st1)\<rparr>))
      in
      case store of
        Some (StoreFile proxy_dir) \<Rightarrow>
          finish (volumes1 @ [proxy_dir @ '':'' @ PROXY_DIR_DEFAULT])
            (insert_env (get_env_val PROXY_DIR_ENV PROXY_DIR_DEFAULT) envs1)
      | Some (StoreERC2335 _ _) \<Rightarrow> Panicked
      | None \<Rightarrow> finish volumes1 envs1)"

definition setup_signer :: "init_context \<Rightarrow> init_state \<Rightarrow> init_state outcome" where
  "setup_signer ctx st =
     (if needs_signer_module (dx_config ctx) then
        (case fc_signer (dx_config ctx) of
           None \<Rightarrow> Panicked
         | Some signer_config \<Rightarrow>
             (case sg_inner signer_config of
                SignerLocal loader store \<Rightarrow> Returned (setup_local_signer ctx signer_config loader store st)
              | SignerDirk _ cert_path key_path secrets_path ca_cert_path store \<Rightarrow>
                  setup_dirk_signer ctx signer_config cert_path key_path secrets_path ca_cert_path store st
              | SignerRemote _ \<Rightarrow> Panicked))
      else Returned st)"

section \<open>The command\<close>

definition CB_COMPOSE_FILE :: string where
  "CB_COMPOSE_FILE = ''cb.docker-compose.yml''"

definition CB_ENV_FILE :: string where
  "CB_ENV_FILE = ''.cb.env''"

record docker_output =
  do_services :: "(string \<times> compose_service) list"
  do_networks :: "string list"
  do_warnings :: "string list"
  do_targets :: "string list"
  do_env_file :: "(string \<times> string) list option"

definition env_file_text :: "(string \<times> string) list \<Rightarrow> string" where
  "env_file_text envs = concat (map (\<lambda>(k, v). k @ ''='' @ v @ [CHR 0x0A]) envs)"

definition init_context_of ::
  "cb_config \<Rightarrow> string \<Rightarrow> string option \<Rightarrow> (nat \<Rightarrow> string) \<Rightarrow> init_context" where
  "init_context_of config config_path chain_spec_path secrets =
     \<lparr>dx_config = config,
      dx_config_volume = ''./'' @ config_path @ '':'' @ CONFIG_DEFAULT @ '':ro'',
      dx_chain_spec_volume = Option.bind chain_spec_path (\<lambda>p.
        map_option (\<lambda>name. p @ '':/'' @ name @ '':ro'') (file_name p)),
      dx_chain_spec_env = Option.bind chain_spec_path (\<lambda>p.
        map_option (\<lambda>name. get_env_val CHAIN_SPEC_ENV (''/'' @ name)) (file_name p)),
      dx_signer_server = signer_server_of config,
      dx_secret = secrets\<rparr>"

definition init_state_of :: "cb_config \<Rightarrow> init_state" where
  "init_state_of config =
     \<lparr>is_services = [], is_jwts = [], is_envs = [], is_targets = [], is_builder_events = [], is_warnings = [],
      is_metrics_port = (case fc_metrics config of Some m \<Rightarrow> mt_start_port m | None \<Rightarrow> 0),
      is_drawn = 0\<rparr>"

text \<open>
  \<open>loaded\<close> and \<open>chain_spec_path\<close> are what \<open>from_file\<close> and \<open>chain_spec_file\<close> give for the path; \<open>writes\<close>
  tells whether a file can be written. The services are set up in the order modules, PBS, signer.
\<close>

definition handle_docker_init ::
  "config_env \<Rightarrow> (string \<Rightarrow> bool) \<Rightarrow> (nat \<Rightarrow> string) \<Rightarrow> (string \<Rightarrow> bool) \<Rightarrow> (string, cb_config) result
     \<Rightarrow> string option \<Rightarrow> string \<Rightarrow> string \<Rightarrow> (string, docker_output) result outcome" where
  "handle_docker_init E docker_parses secrets writes loaded chain_spec_path config_path output_dir =
     (case and_then loaded (\<lambda>config. and_then (config_validate E docker_parses config) (\<lambda>_. Ok config)) of
        Inl e \<Rightarrow> Returned (Err e)
      | Inr config \<Rightarrow>
          (let ctx = init_context_of config config_path chain_spec_path secrets in
           case setup_pbs E ctx (setup_modules ctx (init_state_of config)) of
             Inl e \<Rightarrow> Returned (Err e)
           | Inr st \<Rightarrow>
               (case setup_signer ctx st of
                  Panicked \<Rightarrow> Panicked
                | Returned st' \<Rightarrow>
                    Returned
                      (and_then (ensure (writes (path_push output_dir CB_COMPOSE_FILE)) ''write failed'') (\<lambda>_.
                       and_then (ensure (is_envs st' = [] \<or> writes (path_push output_dir CB_ENV_FILE))
                                   ''write failed'') (\<lambda>_.
                         Ok \<lparr>do_services = is_services st',
                             do_networks = (if needs_signer_module config then [SIGNER_NETWORK] else []),
                             do_warnings = is_warnings st', do_targets = is_targets st',
                             do_env_file = (if is_envs st' = [] then None else Some (is_envs st'))\<rparr>))))))"

text \<open>The command on a path: the file is read once for the configuration and once for its chain.\<close>

definition docker_init_command ::
  "config_env \<Rightarrow> (string \<Rightarrow> bool) \<Rightarrow> (nat \<Rightarrow> string) \<Rightarrow> (string \<Rightarrow> bool) \<Rightarrow> (string \<Rightarrow> (string, cb_config) result)
     \<Rightarrow> (string \<Rightarrow> (string, chain_loader) result) \<Rightarrow> string \<Rightarrow> string \<Rightarrow> (string, docker_output) result outcome" where
  "docker_init_command E docker_parses secrets writes toml chain_toml config_path output_dir =
     handle_docker_init E docker_parses secrets writes (load_from_file E toml config_path)
       (chain_spec_file E chain_toml config_path) config_path output_dir"

section \<open>Properties\<close>

subsection \<open>Lists of secrets\<close>

lemma join_with_Cons: "join_with sep (p # q # ps) = p @ sep @ join_with sep (q # ps)"
proof -
  have "foldl (\<lambda>acc q. acc @ sep @ q) (a @ b) ps = a @ foldl (\<lambda>acc q. acc @ sep @ q) b ps" for a b
    by (induction ps arbitrary: b) simp_all
  then show ?thesis by (simp add: join_with_def)
qed

lemma split_char_append:
  "c \<notin> set p \<Longrightarrow> split_char c (p @ c # s) = p # split_char c s"
  by (induction p) auto

lemma split_join:
  assumes "\<And>p. p \<in> set ps \<Longrightarrow> c \<notin> set p" and "ps \<noteq> []"
  shows "split_char c (join_with [c] ps) = ps"
  using assms
proof (induction ps)
  case Nil
  then show ?case by simp
next
  case (Cons p ps)
  show ?case
  proof (cases ps)
    case Nil
    with Cons.prems show ?thesis by (simp add: join_with_def split_char_single)
  next
    case (Cons q qs)
    have "split_char c (join_with [c] (p # ps)) = split_char c (p @ c # join_with [c] ps)"
      using Cons by (simp add: join_with_Cons)
    also have "\<dots> = p # ps" using Cons.IH Cons.prems Cons by (simp add: split_char_append)
    finally show ?thesis .
  qed
qed

text \<open>A name or secret that survives the encoding: no separators, and no space at either end.\<close>

definition clean :: "string \<Rightarrow> bool" where
  "clean s \<longleftrightarrow> s \<noteq> [] \<and> list_all (\<lambda>c. c \<noteq> CHR ''='' \<and> c \<noteq> CHR '','' \<and> \<not> is_whitespace c) s"

text \<open>Generated secrets are such strings.\<close>

lemma random_jwt_secret_clean:
  assumes "\<And>i. is_alphanumeric (samples i)"
  shows "clean (random_jwt_secret samples)"
proof -
  have "c \<noteq> CHR ''='' \<and> c \<noteq> CHR '','' \<and> \<not> is_whitespace c" if "is_alphanumeric c" for c
    using that by (auto simp: is_alphanumeric_def is_whitespace_def Let_def)
  with assms show ?thesis by (auto simp: clean_def random_jwt_secret_def list_all_iff)
qed

lemma trim_id:
  assumes "s = [] \<or> \<not> is_whitespace (hd s)" and "s = [] \<or> \<not> is_whitespace (last s)"
  shows "trim s = s"
proof (cases s rule: rev_cases)
  case Nil
  then show ?thesis by (simp add: trim_def)
next
  case (snoc xs x)
  then have "dropWhile is_whitespace s = s" using assms(1) by (cases xs) auto
  moreover have "dropWhile is_whitespace (rev s) = rev s" using assms(2) snoc by simp
  ultimately show ?thesis by (simp add: trim_def)
qed

lemma decode_pair_encoded:
  assumes "clean k" and "clean v"
  shows "decode_pair (k @ ''='' @ v) = Ok (k, v)"
proof -
  have "trim (k @ ''='' @ v) = k @ ''='' @ v"
    using assms by (intro trim_id) (auto simp: clean_def list_all_iff last_in_set hd_append)
  moreover have "CHR ''='' \<notin> set k" "CHR ''='' \<notin> set v" using assms by (auto simp: clean_def list_all_iff)
  then have "split_char CHR ''='' (k @ CHR ''='' # v) = [k, v]"
    by (simp add: split_char_append split_char_single)
  ultimately show ?thesis by (simp add: decode_pair_def)
qed

lemma hash_map_of_distinct:
  "distinct (map fst m) \<Longrightarrow> hash_map_of m = m"
proof (induction m rule: rev_induct)
  case Nil
  then show ?case by (simp add: hash_map_of_def)
next
  case (snoc x m)
  then have "hash_map_of m = m" and "fst x \<notin> fst ` set m" by auto
  then show ?case by (cases x) (simp add: hash_map_of_def update_fresh)
qed

text \<open>Joined pieces without space at their ends have none at theirs.\<close>

lemma trim_join:
  assumes "ps \<noteq> []" and "\<And>p. p \<in> set ps \<Longrightarrow> p \<noteq> [] \<and> \<not> is_whitespace (hd p) \<and> \<not> is_whitespace (last p)"
  shows "trim (join_with sep ps) = join_with sep ps"
proof -
  have "join_with sep ps \<noteq> [] \<and> \<not> is_whitespace (hd (join_with sep ps)) \<and> \<not> is_whitespace (last (join_with sep ps))"
    using assms
  proof (induction ps)
    case (Cons p ps)
    show ?case
    proof (cases ps)
      case Nil
      with Cons.prems show ?thesis by (simp add: join_with_def)
    next
      case (Cons q qs)
      with Cons.IH Cons.prems show ?thesis by (simp add: join_with_Cons hd_append)
    qed
  qed simp
  then show ?thesis by (intro trim_id) simp_all
qed

lemma decode_formatted:
  assumes "m \<noteq> []" and "distinct (map fst m)"
    and "\<And>k v. (k, v) \<in> set m \<Longrightarrow> clean k \<and> clean v"
  shows "decode_string_to_map (format_comma_separated m) = Ok m"
proof -
  let ?ps = "map (\<lambda>(k, v). k @ ''='' @ v) m"
  have pieces: "p \<noteq> [] \<and> CHR '','' \<notin> set p \<and> \<not> is_whitespace (hd p) \<and> \<not> is_whitespace (last p)"
    if "p \<in> set ?ps" for p
  proof -
    from that obtain k v where p: "p = k @ ''='' @ v" and kv: "(k, v) \<in> set m" by auto
    from assms(3) [OF kv] have "clean k" "clean v" by simp_all
    then show ?thesis unfolding p by (auto simp: clean_def list_all_iff hd_append)
  qed
  have trimmed: "trim (format_comma_separated m) = format_comma_separated m"
    unfolding format_comma_separated_def using pieces assms(1) by (intro trim_join) auto
  have split: "split_char CHR '','' (format_comma_separated m) = ?ps"
    unfolding format_comma_separated_def using pieces assms(1) by (intro split_join) auto
  have decoded: "map decode_pair ?ps = map Inr m"
    using assms(3) decode_pair_encoded by auto
  show ?thesis
    unfolding decode_string_to_map_def trimmed split decoded collect_results_map_Ok and_then_simps
      hash_map_of_distinct [OF assms(2)] ..
qed

subsection \<open>What the set-up of the modules leaves\<close>

lemma expose_metrics_frame:
  assumes "expose_metrics config cid np (ports, envs, st) = (ports', envs', st')"
  shows "is_jwts st' = is_jwts st \<and> is_envs st' = is_envs st \<and> is_drawn st' = is_drawn st \<and>
    is_services st' = is_services st \<and> is_builder_events st' = is_builder_events st"
  using assms by (auto simp: expose_metrics_def Let_def split: option.splits if_splits)

lemma setup_commit_module:
  assumes "sm_kind m = Commit"
  shows "is_jwts (setup_module ctx st m) = AList.update (sm_id m) (dx_secret ctx (is_drawn st)) (is_jwts st) \<and>
    is_envs (setup_module ctx st m) =
      AList.update (''CB_JWT_'' @ to_uppercase (sm_id m)) (dx_secret ctx (is_drawn st)) (is_envs st) \<and>
    is_drawn (setup_module ctx st m) = Suc (is_drawn st)"
  using assms
  by (auto simp: setup_module_def commit_module_service_def Let_def dest: expose_metrics_frame split: prod.splits)

lemma setup_events_module:
  assumes "sm_kind m = Events"
  shows "is_jwts (setup_module ctx st m) = is_jwts st \<and> is_envs (setup_module ctx st m) = is_envs st \<and>
    is_drawn (setup_module ctx st m) = is_drawn st"
  using assms
  by (auto simp: setup_module_def events_module_service_def Let_def dest: expose_metrics_frame split: prod.splits)

abbreviation commit_modules :: "static_module_config list \<Rightarrow> static_module_config list" where
  "commit_modules ms \<equiv> filter (\<lambda>m. sm_kind m = Commit) ms"

lemma setup_modules_jwts:
  assumes "distinct (map sm_id (commit_modules ms))"
    and "fst ` set (is_jwts st) \<inter> sm_id ` set (commit_modules ms) = {}"
  shows "is_jwts (foldl (setup_module ctx) st ms) = is_jwts st @
    zip (map sm_id (commit_modules ms))
      (map (dx_secret ctx) [is_drawn st..<is_drawn st + length (commit_modules ms)])"
  using assms
proof (induction ms arbitrary: st)
  case Nil
  then show ?case by simp
next
  case (Cons m ms)
  show ?case
  proof (cases "sm_kind m")
    case Commit
    have fresh: "sm_id m \<notin> fst ` set (is_jwts st)" using Cons.prems(2) Commit by auto
    let ?st = "setup_module ctx st m"
    have step: "is_jwts ?st = is_jwts st @ [(sm_id m, dx_secret ctx (is_drawn st))]" "is_drawn ?st = Suc (is_drawn st)"
      using setup_commit_module [OF Commit, of ctx st] by (simp_all add: update_fresh [OF fresh])
    have "fst ` set (is_jwts ?st) \<inter> sm_id ` set (commit_modules ms) = {}"
      using Cons.prems Commit by (auto simp: step)
    with Cons.IH [of ?st] Cons.prems(1) Commit show ?thesis by (simp add: step upt_conv_Cons del: upt_Suc)
  next
    case Events
    with Cons setup_events_module [OF Events, of ctx st] show ?thesis by simp
  qed
qed

lemma setup_pbs_frame:
  assumes "setup_pbs E ctx st = Ok st'"
  shows "is_jwts st' = is_jwts st \<and> is_envs st' = is_envs st \<and> is_drawn st' = is_drawn st \<and>
    (\<exists>service. is_services st' = AList.update ''cb_pbs'' service (is_services st))"
proof -
  let ?pbs = "sp_pbs_config (fc_pbs (dx_config ctx))"
  let ?st0 = "st\<lparr>is_warnings := is_warnings st @ [exposed_warning ''cb_pbs'' (pc_port ?pbs)]\<rparr>"
  let ?mounts = "mux_mounts E (case fc_muxes (dx_config ctx) of Some ms \<Rightarrow> ms | None \<Rightarrow> [])
      (hash_map_of [get_env_val CONFIG_ENV CONFIG_DEFAULT], [dx_config_volume ctx])"
  obtain envs0 volumes where mounts: "?mounts = Ok (envs0, volumes)"
  proof (cases ?mounts)
    case (Inl e)
    with assms show ?thesis unfolding setup_pbs_def Let_def by simp
  next
    case (Inr m)
    with that show ?thesis by (cases m) simp
  qed
  let ?port = "decimal (unat (pc_port ?pbs))"
  let ?ports0 = "[display_socket_addr (SocketAddr (pc_host ?pbs) (pc_port ?pbs)) @ '':'' @ ?port]"
  obtain ports envs st1 where
    e: "expose_metrics (dx_config ctx) ''cb_pbs'' (\<lambda>p. p + 1)
      (?ports0, insert_env_opt (dx_chain_spec_env ctx) envs0, ?st0) = (ports, envs, st1)"
    by (rule prod_cases3)
  from assms have "\<exists>service. st' = st1\<lparr>is_services := AList.update ''cb_pbs'' service (is_services st1)\<rparr>"
    unfolding setup_pbs_def Let_def mounts and_then_simps prod.case e sum.inject by (intro exI) (rule sym)
  then obtain service where st': "st' = st1\<lparr>is_services := AList.update ''cb_pbs'' service (is_services st1)\<rparr>" ..
  from expose_metrics_frame [OF e] show ?thesis by (auto simp: st')
qed

end
