(* ===== verification/Deployment.thy ===== *)
theory Deployment
  imports Docker_Init Signer_Service Instances
begin

text \<open>
  What the generated docker-compose file gives its services: the variables that a container sees, the
  registry of secrets, the environment of the local signer and of a commit module, and when the command
  panics. A small deployment at the end serves as an example.
\<close>

section \<open>The environment of a container\<close>

text \<open>
  Docker compose gives a container the variables of its service, in which references to the environment
  file are replaced. The replacement is a parameter: a reference to a variable of the file becomes its
  value, and text without a dollar sign stays. A reference is a name in braces, of letters, digits and
  underscores that does not begin with a digit; any other character in the braces has another meaning to
  Docker compose (a hyphen, say, separates a default value), so nothing is assumed of such text.
\<close>

definition compose_char :: "char \<Rightarrow> bool" where
  "compose_char c \<longleftrightarrow> is_alphanumeric c \<or> c = CHR ''_''"

definition compose_name :: "string \<Rightarrow> bool" where
  "compose_name k \<longleftrightarrow> list_all compose_char k \<and> k \<noteq> [] \<and> hd k \<notin> set ''0123456789''"

definition interpolates :: "(string \<times> string) list \<Rightarrow> (string \<Rightarrow> string) \<Rightarrow> bool" where
  "interpolates envs interp \<longleftrightarrow>
     (\<forall>k v. compose_name k \<longrightarrow> map_of envs k = Some v \<longrightarrow> interp (''${'' @ k @ ''}'') = v) \<and>
     (\<forall>s. CHR ''$'' \<notin> set s \<longrightarrow> interp s = s)"

lemma interpolates_reference:
  "interpolates envs interp \<Longrightarrow> compose_name k \<Longrightarrow> map_of envs k = Some v \<Longrightarrow> interp (''${'' @ k @ ''}'') = v"
  by (simp add: interpolates_def)

lemma interpolates_plain: "interpolates envs interp \<Longrightarrow> CHR ''$'' \<notin> set s \<Longrightarrow> interp s = s"
  by (simp add: interpolates_def)

lemma compose_name_fixed [simp]: "compose_name JWTS_ENV" "compose_name ADMIN_JWT_ENV"
  by code_simp+

lemma compose_char_upper: "compose_char c \<Longrightarrow> compose_char (upper_char c)"
  by (auto simp: compose_char_def upper_char_def is_alphanumeric_def Let_def)

definition container_var :: "(string \<Rightarrow> string) \<Rightarrow> compose_service \<Rightarrow> string \<Rightarrow> string option" where
  "container_var interp service name =
     map_option (\<lambda>v. case v of SvString s \<Rightarrow> interp s | SvUnsigned n \<Rightarrow> decimal (unat n))
       (map_of (dv_environment service) name)"

lemmas env_names =
  CONFIG_ENV_def CHAIN_SPEC_ENV_def METRICS_PORT_ENV_def LOGS_DIR_ENV_def MODULE_ID_ENV_def BUILDER_PORT_ENV_def
  JWTS_ENV_def ADMIN_JWT_ENV_def SIGNER_KEYS_ENV_def SIGNER_DIR_KEYS_ENV_def SIGNER_DIR_SECRETS_ENV_def
  MODULE_JWT_ENV_def SIGNER_URL_ENV_def PROXY_DIR_ENV_def PROXY_DIR_KEYS_ENV_def PROXY_DIR_SECRETS_ENV_def
  SIGNER_JWT_AUTH_FAIL_LIMIT_ENV_def SIGNER_JWT_AUTH_FAIL_TIMEOUT_SECONDS_ENV_def
  SIGNER_ENDPOINT_ENV_def DIRK_CERT_ENV_def DIRK_KEY_ENV_def DIRK_CA_CERT_ENV_def DIRK_DIR_SECRETS_ENV_def

lemma map_of_insert_env [simp]:
  "map_of (insert_env kv envs) k = (if k = fst kv then Some (snd kv) else map_of envs k)"
  by (simp add: insert_env_def update_conv')

lemma get_env_simps [simp]:
  "fst (get_env_val k v) = k" "snd (get_env_val k v) = SvString v"
  "get_env_same k = get_env_val k (''${'' @ k @ ''}'')" "fst (get_env_uval k n) = k"
  by (simp_all add: get_env_val_def get_env_same_def get_env_interp_def get_env_uval_def)

lemma map_of_hash_map_of: "map_of (hash_map_of kvs) = map_of (rev kvs)"
  by (induction kvs rule: rev_induct) (auto simp: hash_map_of_def update_conv')

lemma expose_metrics_env:
  assumes "expose_metrics config cid np (ports, envs, st) = (ports', envs', st')" and "k \<noteq> METRICS_PORT_ENV"
  shows "map_of envs' k = map_of envs k"
  using assms by (auto simp: expose_metrics_def Let_def split: option.splits if_splits)

lemma log_envs_lookup: "k \<noteq> LOGS_DIR_ENV \<Longrightarrow> map_of (log_envs config envs) k = map_of envs k"
  by (simp add: log_envs_def)

text \<open>The variable of the chain specification is the only one that a context adds.\<close>

definition context_ok :: "init_context \<Rightarrow> bool" where
  "context_ok ctx \<longleftrightarrow> (case dx_chain_spec_env ctx of Some kv \<Rightarrow> fst kv = CHAIN_SPEC_ENV | None \<Rightarrow> True)"

lemma context_ok_init [simp]: "context_ok (init_context_of config cp csp secrets)"
  by (auto simp: context_ok_def init_context_of_def get_env_val_def split: option.splits bind_split)

lemma chain_spec_lookup:
  "context_ok ctx \<Longrightarrow> k \<noteq> CHAIN_SPEC_ENV \<Longrightarrow>
     map_of (insert_env_opt (dx_chain_spec_env ctx) envs) k = map_of envs k"
  by (auto simp: context_ok_def insert_env_opt_def split: option.splits)

section \<open>The signer service\<close>

lemma signer_common_envs_lookup:
  assumes "signer_common_envs ctx s envs st = (ports, envs', st')" and "context_ok ctx"
    and "k \<notin> {CHAIN_SPEC_ENV, METRICS_PORT_ENV, LOGS_DIR_ENV}"
  shows "map_of envs' k = (if k = SIGNER_ENDPOINT_ENV
    then Some (SvString (display_socket_addr (SocketAddr 0 (sg_port s)))) else map_of envs k)"
  using assms
  by (auto simp: signer_common_envs_def Let_def log_envs_lookup chain_spec_lookup
      dest!: expose_metrics_env [of _ _ _ _ _ _ _ _ _ k] simp del: display_socket_addr.simps split: prod.splits)

lemma signer_common_envs_frame:
  assumes "signer_common_envs ctx s envs st = (ports, envs', st')"
  shows "is_jwts st' = is_jwts st \<and> is_envs st' = is_envs st \<and> is_drawn st' = is_drawn st \<and>
    is_services st' = is_services st"
  using assms by (auto simp: signer_common_envs_def Let_def dest!: expose_metrics_frame split: prod.splits)

lemma mounts_lookup:
  "k \<notin> {SIGNER_KEYS_ENV, SIGNER_DIR_KEYS_ENV, SIGNER_DIR_SECRETS_ENV, PROXY_DIR_ENV, PROXY_DIR_KEYS_ENV,
          PROXY_DIR_SECRETS_ENV} \<Longrightarrow>
   map_of (fold insert_env (snd (local_store_mounts store)) (fold insert_env (snd (local_loader_mounts loader)) envs)) k =
     map_of envs k"
  by (cases loader; cases store rule: local_store_mounts.cases) simp_all

text \<open>What the service of the local signer has in its environment, and what the environment file has.\<close>

definition signer_variables :: "signer_config \<Rightarrow> compose_service \<Rightarrow> bool" where
  "signer_variables s service \<longleftrightarrow>
     (let vars = map_of (dv_environment service) in
      vars JWTS_ENV = Some (SvString (''${'' @ JWTS_ENV @ ''}'')) \<and>
      vars ADMIN_JWT_ENV = Some (SvString (''${'' @ ADMIN_JWT_ENV @ ''}'')) \<and>
      vars SIGNER_ENDPOINT_ENV = Some (SvString (display_socket_addr (SocketAddr 0 (sg_port s)))) \<and>
      vars SIGNER_JWT_AUTH_FAIL_LIMIT_ENV = None \<and> vars SIGNER_JWT_AUTH_FAIL_TIMEOUT_SECONDS_ENV = None)"

lemma setup_local_signer_env:
  assumes "context_ok ctx" and st': "st' = setup_local_signer ctx s loader store st"
  obtains service where "map_of (is_services st') ''cb_signer'' = Some service" and "signer_variables s service"
    and "\<And>k. k \<noteq> ''cb_signer'' \<Longrightarrow> map_of (is_services st') k = map_of (is_services st) k"
    and "map_of (is_envs st') JWTS_ENV = Some (format_comma_separated (is_jwts st))"
    and "map_of (is_envs st') ADMIN_JWT_ENV = Some (dx_secret ctx (is_drawn st))"
    and "\<And>k. k \<notin> {JWTS_ENV, ADMIN_JWT_ENV} \<Longrightarrow> map_of (is_envs st') k = map_of (is_envs st) k"
proof -
  let ?envs = "hash_map_of [get_env_val CONFIG_ENV CONFIG_DEFAULT, get_env_same JWTS_ENV, get_env_same ADMIN_JWT_ENV]"
  let ?mounts = "snd (local_loader_mounts loader) @ snd (local_store_mounts store)"
  obtain ports envs0 st0 where c: "signer_common_envs ctx s ?envs st = (ports, envs0, st0)" by (rule prod_cases3)
  note frame = signer_common_envs_frame [OF c]
  define service where "service = signer_compose_service ctx s ports
    ([dx_config_volume ctx] @ opt_list (dx_chain_spec_volume ctx) @ fst (local_loader_mounts loader) @
       fst (local_store_mounts store) @ opt_list (get_log_volume (fc_logs (dx_config ctx)) SIGNER_MODULE_NAME))
    (fold insert_env ?mounts envs0)"
  have dv: "dv_environment service = fold insert_env ?mounts envs0"
    unfolding service_def signer_compose_service_def by simp
  have "signer_variables s service"
    unfolding signer_variables_def Let_def dv
    by (simp add: mounts_lookup signer_common_envs_lookup [OF c assms(1)] map_of_hash_map_of get_env_val_def env_names
        del: display_socket_addr.simps)
  moreover have eq: "st' = st0\<lparr>is_envs := AList.update ADMIN_JWT_ENV (dx_secret ctx (is_drawn st0))
      (AList.update JWTS_ENV (format_comma_separated (is_jwts st0)) (is_envs st0)),
    is_drawn := is_drawn st0 + 1, is_services := AList.update ''cb_signer'' service (is_services st0)\<rparr>"
    unfolding st' setup_local_signer_def c service_def by (simp add: Let_def case_prod_beta)
  ultimately show ?thesis
    by (intro that [of service]) (simp_all add: eq update_conv' frame env_names)
qed

lemma setup_signer_services:
  assumes "setup_signer ctx st = Returned st'" and "k \<noteq> ''cb_signer''"
  shows "map_of (is_services st') k = map_of (is_services st) k"
proof -
  have loc: "map_of (is_services (setup_local_signer ctx s loader store st)) k = map_of (is_services st) k"
    for s loader store
    using assms(2) by (auto simp: setup_local_signer_def Let_def update_conv' dest!: signer_common_envs_frame
        split: prod.splits)
  have dirk: "map_of (is_services st') k = map_of (is_services st) k"
    if "setup_dirk_signer ctx s cert key sec ca store st = Returned st'" for s cert key sec ca store
    using that assms(2) by (auto simp: setup_dirk_signer_def Let_def update_conv' dest!: signer_common_envs_frame
        split: prod.splits option.splits proxy_store.splits)
  from assms(1) loc dirk show ?thesis
    by (auto simp: setup_signer_def split: if_splits option.splits signer_type.splits)
qed

section \<open>The command\<close>

text \<open>A successful run sets up the modules, the PBS service and the signer, and writes what is left.\<close>

lemma docker_init_Ok:
  assumes "handle_docker_init E dp secrets writes (Ok config) csp cp od = Returned (Ok out)"
  obtains ctx st st' where "ctx = init_context_of config cp csp secrets"
    and "setup_pbs E ctx (setup_modules ctx (init_state_of config)) = Ok st"
    and "setup_signer ctx st = Returned st'"
    and "do_services out = is_services st'"
    and "do_env_file out = (if is_envs st' = [] then None else Some (is_envs st'))"
    and "do_targets out = is_targets st'"
proof -
  let ?ctx = "init_context_of config cp csp secrets"
  have v: "and_then (config_validate E dp config) (\<lambda>_. Ok config) = Ok config"
    using assms by (cases "config_validate E dp config") (simp_all add: handle_docker_init_def)
  obtain st where st: "setup_pbs E ?ctx (setup_modules ?ctx (init_state_of config)) = Ok st"
    using assms v
    by (cases "setup_pbs E ?ctx (setup_modules ?ctx (init_state_of config))")
      (simp_all add: handle_docker_init_def Let_def)
  obtain st' where st': "setup_signer ?ctx st = Returned st'"
    using assms v st by (cases "setup_signer ?ctx st") (simp_all add: handle_docker_init_def Let_def)
  have "do_services out = is_services st' \<and> do_targets out = is_targets st' \<and>
      do_env_file out = (if is_envs st' = [] then None else Some (is_envs st'))"
    using assms v st st' by (auto simp: handle_docker_init_def Let_def and_then_Ok_iff)
  with that [OF refl st st'] show ?thesis by simp
qed

lemma dx_config_init [simp]: "dx_config (init_context_of config cp csp secrets) = config"
  and dx_secret_init [simp]: "dx_secret (init_context_of config cp csp secrets) = secrets"
  by (simp_all add: init_context_of_def)

text \<open>What a run with a local signer leaves: the service, the file, and the modules as they were set up.\<close>

definition local_deployment ::
  "init_context \<Rightarrow> signer_config \<Rightarrow> init_state \<Rightarrow> docker_output \<Rightarrow> compose_service \<Rightarrow> (string \<times> string) list
     \<Rightarrow> bool" where
  "local_deployment ctx s st out service envs \<longleftrightarrow>
     map_of (do_services out) ''cb_signer'' = Some service \<and> do_env_file out = Some envs \<and>
     signer_variables s service \<and>
     map_of envs JWTS_ENV = Some (format_comma_separated (is_jwts st)) \<and>
     map_of envs ADMIN_JWT_ENV = Some (dx_secret ctx (is_drawn st)) \<and>
     (\<forall>k. k \<notin> {JWTS_ENV, ADMIN_JWT_ENV} \<longrightarrow> map_of envs k = map_of (is_envs st) k) \<and>
     (\<forall>k. k \<notin> {''cb_signer'', ''cb_pbs''} \<longrightarrow> map_of (do_services out) k = map_of (is_services st) k)"

lemma docker_init_local:
  assumes "handle_docker_init E dp secrets writes (Ok config) csp cp od = Returned (Ok out)"
    and "needs_signer_module config"
    and "fc_signer config = Some s" and "sg_inner s = SignerLocal loader store"
  defines "ctx \<equiv> init_context_of config cp csp secrets"
  obtains service envs where "local_deployment ctx s (setup_modules ctx (init_state_of config)) out service envs"
proof -
  from docker_init_Ok [OF assms(1)] obtain st st' where
    st: "setup_pbs E ctx (setup_modules ctx (init_state_of config)) = Ok st"
    and st': "setup_signer ctx st = Returned st'"
    and out: "do_services out = is_services st'" "do_env_file out = (if is_envs st' = [] then None else Some (is_envs st'))"
    unfolding ctx_def by blast
  have local: "st' = setup_local_signer ctx s loader store st"
    using st' assms(2-4) unfolding setup_signer_def ctx_def by simp
  have ok: "context_ok ctx" unfolding ctx_def by simp
  note frame = setup_pbs_frame [OF st]
  from setup_local_signer_env [OF ok local] obtain service where
    service: "map_of (is_services st') ''cb_signer'' = Some service" "signer_variables s service"
      "\<And>k. k \<noteq> ''cb_signer'' \<Longrightarrow> map_of (is_services st') k = map_of (is_services st) k"
    and vars: "map_of (is_envs st') JWTS_ENV = Some (format_comma_separated (is_jwts st))"
      "map_of (is_envs st') ADMIN_JWT_ENV = Some (dx_secret ctx (is_drawn st))"
      "\<And>k. k \<notin> {JWTS_ENV, ADMIN_JWT_ENV} \<Longrightarrow> map_of (is_envs st') k = map_of (is_envs st) k"
    by blast
  from vars(1) have "is_envs st' \<noteq> []" by auto
  with service vars frame out have
    "local_deployment ctx s (setup_modules ctx (init_state_of config)) out service (is_envs st')"
    by (auto simp: local_deployment_def update_conv')
  with that show ?thesis .
qed

text \<open>What the signer service reads in its container.\<close>

lemma endpoint_no_dollar: "CHR ''$'' \<notin> set (display_socket_addr (SocketAddr ip port))"
  by (simp add: display_ipv4_def join_with_def)

lemma local_deployment_jwts:
  assumes "local_deployment ctx s st out service envs" and "interpolates envs interp"
    and "ce_var E = container_var interp service"
  shows "load_jwt_secrets E = and_then (decode_string_to_map (format_comma_separated (is_jwts st)))
    (\<lambda>secrets. Ok (dx_secret ctx (is_drawn st), secrets))"
  using assms
  by (simp add: local_deployment_def signer_variables_def Let_def interpolates_def load_jwt_secrets_def
      load_env_var_def container_var_def)

text \<open>A \<open>SocketAddr\<close> is parsed from what it is displayed as.\<close>

definition parses_address :: "config_env \<Rightarrow> socket_addr \<Rightarrow> bool" where
  "parses_address E a \<longleftrightarrow> ce_parse_addr E (display_socket_addr a) = Some a"

lemma local_deployment_loads:
  assumes dep: "local_deployment ctx s st out service envs" "interpolates envs interp"
      "ce_var E = container_var interp service"
    and "parses_address E (SocketAddr 0 (sg_port s))" and "fc_signer config = Some s" and "sg_inner s = SignerLocal loader store"
    and "decode_string_to_map (format_comma_separated (is_jwts st)) = Ok secrets"
    and "load_module_signing_configs (fc_modules config) secrets = Ok configs"
  shows "load_from_env E (Ok (signer_part config)) =
    Ok \<lparr>ss_chain = fc_chain config, ss_loader = Some loader, ss_store = store,
        ss_endpoint = SocketAddr 0 (sg_port s), ss_mod_signing_configs = configs,
        ss_admin_secret = dx_secret ctx (is_drawn st), ss_jwt_auth_fail_limit = sg_jwt_auth_fail_limit s,
        ss_jwt_auth_fail_timeout_seconds = sg_jwt_auth_fail_timeout_seconds s, ss_dirk = None\<rparr>"
proof -
  have "ce_var E SIGNER_ENDPOINT_ENV = Some (display_socket_addr (SocketAddr 0 (sg_port s)))"
    "ce_var E SIGNER_JWT_AUTH_FAIL_LIMIT_ENV = None" "ce_var E SIGNER_JWT_AUTH_FAIL_TIMEOUT_SECONDS_ENV = None"
    using dep endpoint_no_dollar [of 0 "sg_port s"]
    by (simp_all add: local_deployment_def signer_variables_def Let_def interpolates_def container_var_def
        del: display_socket_addr.simps)
  then show ?thesis
    using assms(4-8) local_deployment_jwts [OF dep]
    by (simp add: load_from_env_def signer_part_def load_signer_endpoint_def load_u32_override_def
        load_optional_env_var_def parses_address_def Let_def del: display_socket_addr.simps)
qed

lemma init_state_of_empty [simp]:
  "is_jwts (init_state_of config) = []" "is_envs (init_state_of config) = []" "is_drawn (init_state_of config) = 0"
  "is_services (init_state_of config) = []"
  by (simp_all add: init_state_of_def)

lemma generated_jwts:
  assumes "fc_modules (dx_config ctx) = Some ms" and "distinct (map sm_id (commit_modules ms))"
  shows "is_jwts (setup_modules ctx (init_state_of config)) =
    zip (map sm_id (commit_modules ms)) (map (dx_secret ctx) [0..<length (commit_modules ms)])"
  using setup_modules_jwts [OF assms(2), of "init_state_of config" ctx] assms(1) by (simp add: setup_modules_def)

lemma generated_drawn:
  "is_drawn (foldl (setup_module ctx) st ms) = is_drawn st + length (commit_modules ms)"
proof (induction ms arbitrary: st)
  case (Cons m ms)
  then show ?case
    by (cases "sm_kind m") (simp_all add: setup_commit_module setup_events_module)
qed simp

section \<open>The registry of a deployment\<close>

text \<open>Secrets that a random generator would give: no two alike, and made of characters that survive.\<close>

definition good_secrets :: "(nat \<Rightarrow> string) \<Rightarrow> bool" where
  "good_secrets secrets \<longleftrightarrow> inj secrets \<and> (\<forall>n. clean (secrets n))"

abbreviation deployed_jwts :: "(nat \<Rightarrow> string) \<Rightarrow> static_module_config list \<Rightarrow> (module_id \<times> string) list" where
  "deployed_jwts secrets ms \<equiv> zip (map sm_id ms) (map secrets [0..<length ms])"

lemma deployed_jwts_lookup:
  assumes "distinct (map sm_id ms)" and "i < length ms"
  shows "map_of (deployed_jwts secrets ms) (sm_id (ms ! i)) = Some (secrets i)"
  using map_of_zip_nth [of "map sm_id ms" "map secrets [0..<length ms]" i] assms by simp

lemma deployed_jwts_decode:
  assumes "distinct (map sm_id ms)" and "ms \<noteq> []" and "good_secrets secrets"
    and "\<And>m. m \<in> set ms \<Longrightarrow> clean (sm_id m)"
  shows "decode_string_to_map (format_comma_separated (deployed_jwts secrets ms)) = Ok (deployed_jwts secrets ms)"
proof (rule decode_formatted)
  show "clean k \<and> clean v" if "(k, v) \<in> set (deployed_jwts secrets ms)" for k v
    using set_zip_leftD [OF that] set_zip_rightD [OF that] assms(3,4) by (auto simp: good_secrets_def)
qed (use assms(1,2) in simp_all)

lemma deployed_modules_ok:
  assumes "distinct (map sm_id ms)" and "distinct (map sm_signing_id ms)" and "good_secrets secrets"
    and "\<And>m. m \<in> set ms \<Longrightarrow> clean (sm_id m) \<and> sm_signing_id m \<noteq> 0"
  shows "modules_ok (deployed_jwts secrets ms) ms"
proof -
  have look: "map_of (deployed_jwts secrets ms) (sm_id (ms ! i)) = Some (secrets i)" if "i < length ms" for i
    using deployed_jwts_lookup [OF assms(1) that] .
  have "map (\<lambda>m. the (map_of (deployed_jwts secrets ms) (sm_id m))) ms = map secrets [0..<length ms]"
    by (rule nth_equalityI) (simp_all add: look)
  then have "distinct (map (\<lambda>m. the (map_of (deployed_jwts secrets ms) (sm_id m))) ms)"
    using assms(3) by (auto simp: good_secrets_def distinct_map intro: inj_on_subset)
  moreover have "\<exists>s. map_of (deployed_jwts secrets ms) (sm_id m) = Some s \<and> s \<noteq> []" if "m \<in> set ms" for m
  proof -
    from that obtain i where "i < length ms" "m = ms ! i" by (auto simp: in_set_conv_nth)
    with look [of i] assms(3) show ?thesis by (simp add: good_secrets_def clean_def)
  qed
  ultimately show ?thesis using assms by (auto simp: modules_ok_def clean_def)
qed

section \<open>The secret of a module\<close>

lemma lower_upper_char: "lower_char (upper_char c) = lower_char c"
  by (auto simp: lower_char_def upper_char_def Let_def)

lemma upper_eq_lower: "to_uppercase x = to_uppercase y \<Longrightarrow> to_lowercase x = to_lowercase y"
  by (drule arg_cong [of _ _ "map lower_char"])
    (simp add: to_uppercase_def to_lowercase_def comp_def lower_upper_char del: map_eq_conv)

text \<open>The variable of a module can be referred to when its id has the characters of a name.\<close>

abbreviation jwt_name :: "static_module_config \<Rightarrow> string" where
  "jwt_name m \<equiv> ''CB_JWT_'' @ to_uppercase (sm_id m)"

lemma compose_name_jwt:
  assumes "list_all compose_char (sm_id m)"
  shows "compose_name (jwt_name m)" and "CHR ''$'' \<notin> set (sm_id m)"
proof -
  have "list_all compose_char ''CB_JWT_''" by code_simp
  with assms show "compose_name (jwt_name m)"
    by (simp add: compose_name_def to_uppercase_def list_all_iff compose_char_upper)
  have "\<not> compose_char CHR ''$''" by code_simp
  with assms show "CHR ''$'' \<notin> set (sm_id m)" by (auto simp: list_all_iff)
qed

lemma insert_all_lookup:
  "k \<notin> fst ` set es \<Longrightarrow> map_of (foldl (\<lambda>m (k, v). insert_env (k, SvString v) m) envs es) k = map_of envs k"
  by (induction es arbitrary: envs) (auto simp: case_prod_beta)

text \<open>The variables of a commit module that its own settings must leave alone.\<close>

definition module_variables :: "string set" where
  "module_variables = {MODULE_ID_ENV, CONFIG_ENV, MODULE_JWT_ENV, SIGNER_URL_ENV}"

definition keeps_variables :: "static_module_config \<Rightarrow> bool" where
  "keeps_variables m \<longleftrightarrow> (case sm_env m of Some es \<Rightarrow> fst ` set es \<inter> module_variables = {} | None \<Rightarrow> True)"

definition commit_variables :: "init_context \<Rightarrow> static_module_config \<Rightarrow> compose_service \<Rightarrow> bool" where
  "commit_variables ctx m service \<longleftrightarrow>
     (let vars = map_of (dv_environment service) in
      vars MODULE_ID_ENV = Some (SvString (sm_id m)) \<and> vars CONFIG_ENV = Some (SvString CONFIG_DEFAULT) \<and>
      vars MODULE_JWT_ENV = Some (SvString (''${'' @ jwt_name m @ ''}'')) \<and>
      vars SIGNER_URL_ENV = Some (SvString (dx_signer_server ctx)))"

lemma setup_commit_service:
  assumes "sm_kind m = Commit" and "context_ok ctx" and "keeps_variables m"
  shows "\<exists>service. is_services (setup_module ctx st m) = AList.update (module_cid m) service (is_services st) \<and>
    commit_variables ctx m service"
proof -
  define envs0 where "envs0 = hash_map_of [get_env_val MODULE_ID_ENV (sm_id m), get_env_val CONFIG_ENV CONFIG_DEFAULT,
    get_env_interp MODULE_JWT_ENV (jwt_name m), get_env_val SIGNER_URL_ENV (dx_signer_server ctx)]"
  define envs1 where "envs1 = (case sm_env m of
    Some es \<Rightarrow> foldl (\<lambda>m (k, v). insert_env (k, SvString v) m) envs0 es | None \<Rightarrow> envs0)"
  obtain ports envs3 st1 where e: "expose_metrics (dx_config ctx) (module_cid m) (\<lambda>p. p + 1)
      ([], insert_env_opt (dx_chain_spec_env ctx) envs1, st) = (ports, envs3, st1)"
    by (rule prod_cases3)
  have "map_of envs1 k = map_of envs0 k" if "k \<in> module_variables" for k
    using that assms(3) insert_all_lookup unfolding envs1_def keeps_variables_def
    by (cases "sm_env m") (simp, fastforce)
  moreover have "k \<notin> {CHAIN_SPEC_ENV, METRICS_PORT_ENV, LOGS_DIR_ENV}" if "k \<in> module_variables" for k
    using that by (auto simp: module_variables_def env_names)
  ultimately have env: "map_of (log_envs (dx_config ctx) envs3) k = map_of envs0 k" if "k \<in> module_variables" for k
    using that expose_metrics_env [OF e, of k] assms(2) by (simp add: log_envs_lookup chain_spec_lookup)
  let ?envs4 = "log_envs (dx_config ctx) envs3"
  have vars: "map_of ?envs4 MODULE_ID_ENV = Some (SvString (sm_id m))"
    "map_of ?envs4 CONFIG_ENV = Some (SvString CONFIG_DEFAULT)"
    "map_of ?envs4 MODULE_JWT_ENV = Some (SvString (''${'' @ jwt_name m @ ''}''))"
    "map_of ?envs4 SIGNER_URL_ENV = Some (SvString (dx_signer_server ctx))"
    by (subst env; simp add: module_variables_def envs0_def map_of_hash_map_of get_env_val_def get_env_interp_def env_names)+
  from expose_metrics_frame [OF e] show ?thesis
    unfolding setup_module_def assms(1) module_kind.case commit_module_service_def Let_def
      envs0_def [symmetric] envs1_def [symmetric] e prod.case
    by (intro exI conjI) (simp, simp only: commit_variables_def Let_def compose_service.simps vars simp_thms)
qed

lemma setup_module_services:
  "\<exists>service. is_services (setup_module ctx st m) = AList.update (module_cid m) service (is_services st)"
proof -
  obtain service st1 where s: "(case sm_kind m of Commit \<Rightarrow> commit_module_service ctx m st
      | Events \<Rightarrow> events_module_service ctx m st) = (service, st1)" by (rule prod.exhaust)
  then have "is_services st1 = is_services st"
    by (auto simp: commit_module_service_def events_module_service_def Let_def dest!: expose_metrics_frame
        split: module_kind.splits prod.splits)
  with s show ?thesis by (auto simp: setup_module_def)
qed

text \<open>Which secret a module gets: they are drawn in the order of the commit modules.\<close>

lemma setup_modules_secret:
  assumes "distinct (map (\<lambda>m. to_lowercase (sm_id m)) ms)" and "context_ok ctx"
    and "i < length ms" and "sm_kind (ms ! i) = Commit" and "keeps_variables (ms ! i)"
  shows "\<exists>service. map_of (is_services (foldl (setup_module ctx) st ms)) (module_cid (ms ! i)) = Some service \<and>
      commit_variables ctx (ms ! i) service \<and>
    map_of (is_envs (foldl (setup_module ctx) st ms)) (jwt_name (ms ! i)) =
      Some (dx_secret ctx (is_drawn st + length (commit_modules (take i ms))))"
  using assms
proof (induction ms arbitrary: i rule: rev_induct)
  case Nil
  then show ?case by simp
next
  case (snoc m ms)
  let ?st = "foldl (setup_module ctx) st ms"
  show ?case
  proof (cases "i < length ms")
    case True
    let ?m = "ms ! i"
    let ?low = "\<lambda>m. to_lowercase (sm_id m)"
    have "?low m \<notin> ?low ` set ms" using snoc.prems(1) by simp
    moreover have "?low ?m \<in> ?low ` set ms" by (rule imageI [OF nth_mem [OF True]])
    ultimately have other: "?low ?m \<noteq> ?low m" by metis
    then have "jwt_name ?m \<noteq> jwt_name m" using upper_eq_lower [of "sm_id ?m" "sm_id m"] by auto
    then have envs: "map_of (is_envs (setup_module ctx ?st m)) (jwt_name ?m) = map_of (is_envs ?st) (jwt_name ?m)"
      using setup_commit_module [of m ctx ?st] setup_events_module [of m ctx ?st]
      by (cases "sm_kind m") (simp_all add: update_conv')
    obtain service where "is_services (setup_module ctx ?st m) = AList.update (module_cid m) service (is_services ?st)"
      using setup_module_services by blast
    then have "map_of (is_services (setup_module ctx ?st m)) (module_cid ?m) = map_of (is_services ?st) (module_cid ?m)"
      using other by (simp add: update_conv' module_cid_def)
    with envs snoc.IH [of i] snoc.prems True show ?thesis by (simp add: nth_append)
  next
    case False
    with snoc.prems(3) have i: "i = length ms" by simp
    with snoc.prems setup_commit_service [of m ctx ?st] obtain service where
      "is_services (setup_module ctx ?st m) = AList.update (module_cid m) service (is_services ?st)"
      "commit_variables ctx m service" by auto
    with snoc.prems i setup_commit_module [of m ctx ?st] show ?thesis
      by (simp add: update_conv' generated_drawn)
  qed
qed

lemma signer_server_no_dollar:
  "fc_signer config = Some s \<Longrightarrow> sg_inner s = SignerLocal loader store \<Longrightarrow>
     CHR ''$'' \<notin> set (signer_server_of config)"
  by (simp add: signer_server_of_def)

text \<open>What a commit module of a deployment with a local signer reads in its container.\<close>

lemma deployed_module_variables:
  assumes "local_deployment (init_context_of config cp csp secrets) s
      (setup_modules (init_context_of config cp csp secrets) (init_state_of config)) out signer envs"
    and "fc_signer config = Some s" and "sg_inner s = SignerLocal loader store"
    and "fc_modules config = Some ms" and "i < length ms" and "sm_kind (ms ! i) = Commit"
    and "distinct (map (\<lambda>m. to_lowercase (sm_id m)) ms)"
    and "to_lowercase (sm_id (ms ! i)) \<notin> {''pbs'', ''signer''}" and "keeps_variables (ms ! i)"
    and "list_all compose_char (sm_id (ms ! i))"
  obtains module where "map_of (do_services out) (module_cid (ms ! i)) = Some module"
    and "\<And>interp. interpolates envs interp \<Longrightarrow>
      container_var interp module MODULE_ID_ENV = Some (sm_id (ms ! i)) \<and>
      container_var interp module CONFIG_ENV = Some CONFIG_DEFAULT \<and>
      container_var interp module SIGNER_URL_ENV = Some (signer_server_of config) \<and>
      container_var interp module MODULE_JWT_ENV = Some (secrets (length (commit_modules (take i ms))))"
proof -
  let ?ctx = "init_context_of config cp csp secrets" and ?m = "ms ! i"
  let ?st = "setup_modules ?ctx (init_state_of config)" and ?n = "length (commit_modules (take i ms))"
  have st: "?st = foldl (setup_module ?ctx) (init_state_of config) ms" by (simp add: setup_modules_def assms(4))
  from setup_modules_secret [OF assms(7) context_ok_init assms(5,6,9)] obtain module where
    module: "map_of (is_services ?st) (module_cid ?m) = Some module" "commit_variables ?ctx ?m module"
    and secret: "map_of (is_envs ?st) (jwt_name ?m) = Some (secrets ?n)" unfolding st by fastforce
  have "module_cid ?m \<notin> {''cb_signer'', ''cb_pbs''}" using assms(8) by (auto simp: module_cid_def)
  then have "map_of (do_services out) (module_cid ?m) = Some module"
    using assms(1) module(1) unfolding local_deployment_def by simp
  moreover have "jwt_name ?m \<notin> {JWTS_ENV, ADMIN_JWT_ENV}" by (simp add: env_names)
  then have name: "map_of envs (jwt_name ?m) = Some (secrets ?n)"
    using assms(1) secret unfolding local_deployment_def by simp
  have server: "dx_signer_server ?ctx = signer_server_of config" by (simp add: init_context_of_def)
  have "CHR ''$'' \<notin> set CONFIG_DEFAULT" by (simp add: CONFIG_DEFAULT_def)
  then have "container_var interp module MODULE_ID_ENV = Some (sm_id ?m) \<and>
      container_var interp module CONFIG_ENV = Some CONFIG_DEFAULT \<and>
      container_var interp module SIGNER_URL_ENV = Some (signer_server_of config) \<and>
      container_var interp module MODULE_JWT_ENV = Some (secrets ?n)" if I: "interpolates envs interp" for interp
  proof -
    have "interp (''${'' @ jwt_name ?m @ ''}'') = secrets ?n"
      by (rule interpolates_reference [OF I compose_name_jwt(1) [OF assms(10)] name])
    with \<open>CHR ''$'' \<notin> set CONFIG_DEFAULT\<close> I module(2) compose_name_jwt(2) [OF assms(10)] signer_server_no_dollar [OF assms(2,3)] server
    show ?thesis by (simp add: commit_variables_def container_var_def interpolates_def Let_def)
  qed
  ultimately show ?thesis by (rule that)
qed

section \<open>The token of a module\<close>

text \<open>The token that a client holds after a refresh is accepted by a signer that knows its secret.\<close>

lemma client_token_accepted:
  assumes "jwt_complete_over_time clock" and "clocks_agree clock epoch" and "(epoch + now) div 1000 + 300 < 2 ^ 64"
    and "client_at W clock url secret mid created now client"
    and "refresh_jwt W (clock now) now client = Ok client'"
    and "map_of (hp_jwts h) mid = Some cfg" and "ms_jwt_secret cfg = secret" and "\<not> rate_limited state t ip h"
  shows "\<exists>jwt v. sc_headers client' AUTHORIZATION = Some v \<and> hv_from_str W (''Bearer '' @ jwt) = Some v \<and>
    snd (jwt_auth (clock now) state t ip jwt h) = Ok mid"
proof -
  from refreshed_token [OF client_holds_token [OF assms(4)] assms(5)] obtain made jwt where
    made: "made \<le> now" "now - made \<le> 300000" "create_jwt (clock made) mid secret = Ok jwt"
    and headers: "auth_headers W jwt = Ok (sc_headers client')" by blast
  have "decode_jwt (clock now) jwt = Ok mid \<and> validate_jwt (clock now) jwt secret = Ok ()"
    by (rule token_valid_later [OF assms(1,2) made(1,2) assms(3) made(3)])
  then have "snd (jwt_auth (clock now) state t ip jwt h) = Ok mid"
    using assms(6,7) jwt_auth_not_limited [OF assms(8)] by (simp add: check_jwt_auth_Ok_iff)
  moreover from headers obtain v where "hv_from_str W (''Bearer '' @ jwt) = Some v" "sc_headers client' = [AUTHORIZATION \<mapsto> v]"
    by (auto simp: auth_headers_def split: option.splits)
  ultimately show ?thesis by auto
qed

lemma commit_module_client:
  assumes "load_commit_module_config W J now E toml = Ok started"
    and "ce_var E MODULE_ID_ENV = Some mid" and "ce_var E MODULE_JWT_ENV = Some secret"
  shows "\<exists>url. signer_client_new W J now url secret mid = Ok (cm_signer_client started)"
  using assms by (auto simp: load_commit_module_config_def load_env_var_def and_then_Ok_iff split: option.splits)

section \<open>When the command panics\<close>

lemma mux_mounts_Ok_iff:
  "(\<exists>acc'. mux_mounts E muxes acc = Ok acc') \<longleftrightarrow> (\<forall>mux\<in>set muxes. is_ok (loader_env E mux))"
proof (induction muxes arbitrary: acc)
  case (Cons mux muxes)
  then show ?case by (cases "loader_env E mux") auto
qed simp

lemma setup_pbs_Ok:
  assumes "\<And>muxes mux. fc_muxes (dx_config ctx) = Some muxes \<Longrightarrow> mux \<in> set muxes \<Longrightarrow> is_ok (loader_env E mux)"
  shows "\<exists>st'. setup_pbs E ctx st = Ok st'"
proof -
  let ?mounts = "mux_mounts E (case fc_muxes (dx_config ctx) of Some ms \<Rightarrow> ms | None \<Rightarrow> [])
      (hash_map_of [get_env_val CONFIG_ENV CONFIG_DEFAULT], [dx_config_volume ctx])"
  have "\<exists>acc. ?mounts = Ok acc"
    unfolding mux_mounts_Ok_iff using assms by (cases "fc_muxes (dx_config ctx)") auto
  then obtain acc where "?mounts = Ok acc" ..
  then show ?thesis unfolding setup_pbs_def Let_def by (simp add: case_prod_beta)
qed

definition signer_unsupported :: "cb_config \<Rightarrow> bool" where
  "signer_unsupported config \<longleftrightarrow>
     (case fc_signer config of
        None \<Rightarrow> True
      | Some s \<Rightarrow>
          (case sg_inner s of
             SignerLocal _ _ \<Rightarrow> False
           | SignerDirk _ _ _ _ _ store \<Rightarrow> (case store of Some (StoreERC2335 _ _) \<Rightarrow> True | _ \<Rightarrow> False)
           | SignerRemote _ \<Rightarrow> True))"

lemma setup_signer_panics_iff:
  "setup_signer ctx st = Panicked \<longleftrightarrow> needs_signer_module (dx_config ctx) \<and> signer_unsupported (dx_config ctx)"
  by (auto simp: setup_signer_def signer_unsupported_def setup_dirk_signer_def Let_def case_prod_beta
      split: option.splits signer_type.splits proxy_store.splits)

section \<open>A deployment\<close>

text \<open>The replacement for the examples, with the default values that follow a hyphen.\<close>

definition compose_interp :: "(string \<times> string) list \<Rightarrow> string \<Rightarrow> string" where
  "compose_interp envs s =
     (if take 2 s = ''${'' \<and> last s = CHR ''}''
      then
        (let body = butlast (drop 2 s); name = takeWhile compose_char body in
         case dropWhile compose_char body of
           [] \<Rightarrow> (case map_of envs name of Some v \<Rightarrow> v | None \<Rightarrow> [])
         | c # dflt \<Rightarrow>
             if c = CHR ''-'' then (case map_of envs name of Some v \<Rightarrow> v | None \<Rightarrow> dflt) else s)
      else s)"

lemma compose_interp_interpolates: "interpolates envs (compose_interp envs)"
proof -
  have "take 2 s \<noteq> ''${''" if "CHR ''$'' \<notin> set s" for s :: string
    using that in_set_takeD [of "CHR ''$''" 2 s] by auto
  moreover have "takeWhile compose_char k = k \<and> dropWhile compose_char k = []" if "compose_name k" for k
    using that by (simp add: compose_name_def list_all_iff)
  ultimately show ?thesis by (simp add: interpolates_def compose_interp_def butlast_append Let_def del: takeWhile_eq_all_conv dropWhile_eq_Nil_conv)
qed

text \<open>
  A module whose id has a hyphen does not get its secret: the part of the name after the hyphen is read as
  the default value of the part before it.
\<close>

lemma hyphenated_id_secret:
  assumes "sm_id m = ''DA-COMMIT''" and "map_of envs ''CB_JWT_DA'' = None"
  shows "compose_interp envs (''${'' @ jwt_name m @ ''}'') = ''COMMIT''"
proof -
  have body: "butlast (drop 2 (''${'' @ jwt_name m @ ''}'')) = ''CB_JWT_DA-COMMIT''"
    "take 2 (''${'' @ jwt_name m @ ''}'') = ''${''" "last (''${'' @ jwt_name m @ ''}'') = CHR ''}''"
    unfolding assms(1) by code_simp+
  have "takeWhile compose_char ''CB_JWT_DA-COMMIT'' = ''CB_JWT_DA''"
    "dropWhile compose_char ''CB_JWT_DA-COMMIT'' = ''-COMMIT''" by code_simp+
  with body assms(2) show ?thesis unfolding compose_interp_def body Let_def by simp
qed

definition demo_deploy_env :: "(string \<Rightarrow> string option) \<Rightarrow> config_env" where
  "demo_deploy_env vars = \<lparr>ce_var = vars, ce_read_file = (\<lambda>_. Some []),
     ce_parse_addr = (\<lambda>s. if s = display_socket_addr (SocketAddr 0 20000) then Some (SocketAddr 0 20000) else None),
     ce_parse_url = Some, ce_rpc_chain_id = (\<lambda>_. Ok 1),
     ce_http_get = (\<lambda>_. Err \<lparr>err_is_timeout = True, err_is_connect = False\<rparr>),
     ce_json_pubkeys = (\<lambda>_. None), ce_json_ssv = (\<lambda>_. None), ce_lido_total = (\<lambda>_ _. Ok 0),
     ce_lido_keys = (\<lambda>_ _ _ _. Ok [])\<rparr>"

definition demo_static_module :: "module_kind \<Rightarrow> string \<Rightarrow> b256 \<Rightarrow> static_module_config" where
  "demo_static_module kind mid signing_id = \<lparr>sm_id = mid, sm_docker_image = ''image'', sm_env = Some [(''RUST_LOG'', ''info'')],
     sm_env_file = None, sm_kind = kind, sm_signing_id = signing_id\<rparr>"

definition demo_deploy_signer :: "signer_type \<Rightarrow> signer_config" where
  "demo_deploy_signer inner = \<lparr>sg_host = 0, sg_port = 20000, sg_docker_image = ''signer'', sg_jwt_auth_fail_limit = 3,
     sg_jwt_auth_fail_timeout_seconds = 300, sg_inner = inner\<rparr>"

definition demo_deploy :: "signer_type \<Rightarrow> static_module_config list \<Rightarrow> cb_config" where
  "demo_deploy inner ms = \<lparr>fc_chain = Mainnet, fc_relays = [],
     fc_pbs = \<lparr>sp_docker_image = ''pbs'', sp_pbs_config = demo_pbs_config, sp_with_signer = False\<rparr>,
     fc_muxes = None, fc_modules = Some ms, fc_signer = Some (demo_deploy_signer inner),
     fc_metrics = Some \<lparr>mt_enabled = True, mt_host = 0, mt_start_port = 10000\<rparr>,
     fc_logs = \<lparr>lg_stdout = stdout_log_default, lg_file = file_log_default\<rparr>\<rparr>"

definition demo_secret :: "nat \<Rightarrow> string" where
  "demo_secret n = replicate (Suc n) CHR ''k''"

definition demo_init :: "signer_type \<Rightarrow> static_module_config list \<Rightarrow> (string, docker_output) result outcome" where
  "demo_init inner ms = handle_docker_init (demo_deploy_env (\<lambda>_. None)) (\<lambda>_. True) demo_secret (\<lambda>_. True)
     (Ok (demo_deploy inner ms)) (Some ''specs/devnet.yaml'') ''cb.toml'' ''out''"

lemma demo_deploy_valid: "config_validate (demo_deploy_env vars) (\<lambda>_. True) (demo_deploy inner ms) = Ok ()"
  by (simp add: config_validate_def demo_deploy_def demo_deploy_signer_def signer_config_validate_def
      pbs_config_validate_def demo_pbs_config_def ensure_def WEI_PER_ETH_def word_less_nat_alt)

lemma demo_deploy_fields [simp]:
  "fc_modules (demo_deploy inner ms) = Some ms" "fc_signer (demo_deploy inner ms) = Some (demo_deploy_signer inner)"
  "fc_muxes (demo_deploy inner ms) = None" "sg_inner (demo_deploy_signer inner) = inner"
  "sg_port (demo_deploy_signer inner) = 20000" "sm_id (demo_static_module kind mid n) = mid"
  "sm_kind (demo_static_module kind mid n) = kind" "sm_signing_id (demo_static_module kind mid n) = n"
  "fc_chain (demo_deploy inner ms) = Mainnet"
  by (simp_all add: demo_deploy_def demo_deploy_signer_def demo_static_module_def)

lemma demo_init_Ok:
  assumes "\<not> signer_unsupported (demo_deploy inner ms)"
  shows "\<exists>out. demo_init inner ms = Returned (Ok out)"
proof -
  let ?ctx = "init_context_of (demo_deploy inner ms) ''cb.toml'' (Some ''specs/devnet.yaml'') demo_secret"
  let ?E = "demo_deploy_env (\<lambda>_. None)"
  obtain st where st: "setup_pbs ?E ?ctx (setup_modules ?ctx (init_state_of (demo_deploy inner ms))) = Ok st"
    using setup_pbs_Ok [of ?ctx ?E] by auto
  obtain st' where "setup_signer ?ctx st = Returned st'"
    using setup_signer_panics_iff [of ?ctx st] assms by (cases "setup_signer ?ctx st") auto
  with st show ?thesis by (simp add: demo_init_def handle_docker_init_def demo_deploy_valid Let_def ensure_def)
qed

lemma demo_good_secrets: "good_secrets demo_secret"
  by (auto simp: good_secrets_def demo_secret_def clean_def inj_on_def is_whitespace_def list_all_iff Let_def
      dest: arg_cong [of _ _ length])

lemma demo_clean: "clean ''a''" "clean ''b''" "clean ''Mod''"
  by (simp_all add: clean_def is_whitespace_def)

definition demo_clock :: "nat \<Rightarrow> jwtlib" where
  "demo_clock t = \<lparr>jl_now = of_nat (t div 1000),
     jl_encode = (\<lambda>c s. if c = \<lparr>jc_exp = 300, jc_module = ''m''\<rparr> \<and> s = ''k'' then Ok ''token'' else Err ''no''),
     jl_decode = (\<lambda>jwt s v. if jwt = ''token'' \<and> (s = ''k'' \<or> \<not> jv_check_signature v)
       then Ok \<lparr>jc_exp = 300, jc_module = ''m''\<rparr> else Err ''invalid''),
     jl_decode_admin = (\<lambda>_ _ _. Err ''invalid'')\<rparr>"

definition demo_client :: signer_client where
  "demo_client = \<lparr>sc_url = ''http://cb_signer:20000'', sc_headers = [AUTHORIZATION \<mapsto> ''Bearer token''],
     sc_last_jwt_refresh = 0, sc_module_id = ''m'', sc_jwt_secret = ''k''\<rparr>"

definition demo_registry :: signer_heap where
  "demo_registry = \<lparr>hp_managers = [], hp_jwts = [(''m'', \<lparr>ms_module_name = ''m'', ms_jwt_secret = ''k'', ms_signing_id = 4\<rparr>)],
     hp_admin_secret = ''a'', hp_jwt_auth_failures = [], hp_fs = \<lparr>fs_files = [], fs_dirs = []\<rparr>\<rparr>"

lemma demo_client_at: "client_at demo_web demo_clock ''http://cb_signer:20000'' ''k'' ''m'' 0 5000 demo_client"
proof (rule client_at.time_passes [OF client_at.created])
  show "signer_client_new demo_web (demo_clock 0) 0 ''http://cb_signer:20000'' ''k'' ''m'' = Ok demo_client"
    by (simp add: signer_client_new_def create_jwt_def demo_clock_def SIGNER_JWT_EXPIRATION_def auth_headers_def
        demo_web_def demo_client_def)
qed simp

lemma demo_clock_complete: "jwt_complete_over_time demo_clock"
  by (auto simp: jwt_complete_over_time_def demo_clock_def split: if_splits)

lemma demo_clock_agrees: "clocks_agree demo_clock 0"
  by (auto simp: clocks_agree_def demo_clock_def unat_of_nat)

end
