(* ===== verification/Deployment_Properties.thy ===== *)
theory Deployment_Properties
  imports Deployment
begin

text \<open>
  The properties of a deployment: the signer service finds its registry in the environment of its
  container, a module shares a secret with it, and the deployments whose signer does not start.
\<close>

section \<open>What a deployment is good for\<close>

text \<open>The registry that the local signer builds: one entry per module, in order.\<close>

abbreviation deployed_registry ::
  "(nat \<Rightarrow> string) \<Rightarrow> static_module_config list \<Rightarrow> (module_id \<times> module_signing_config) list" where
  "deployed_registry secrets ms \<equiv> map (\<lambda>i. (sm_id (ms ! i), \<lparr>ms_module_name = sm_id (ms ! i),
     ms_jwt_secret = secrets i, ms_signing_id = sm_signing_id (ms ! i)\<rparr>)) [0..<length ms]"

text \<open>The configuration that the local signer starts with.\<close>

abbreviation deployed_start ::
  "cb_config \<Rightarrow> signer_config \<Rightarrow> signer_loader \<Rightarrow> proxy_store option \<Rightarrow> (nat \<Rightarrow> string)
     \<Rightarrow> static_module_config list \<Rightarrow> start_signer_config" where
  "deployed_start config s loader store secrets ms \<equiv> \<lparr>ss_chain = fc_chain config, ss_loader = Some loader, ss_store = store,
             ss_endpoint = SocketAddr 0 (sg_port s), ss_mod_signing_configs = deployed_registry secrets ms,
             ss_admin_secret = secrets (length ms), ss_jwt_auth_fail_limit = sg_jwt_auth_fail_limit s,
             ss_jwt_auth_fail_timeout_seconds = sg_jwt_auth_fail_timeout_seconds s, ss_dirk = None\<rparr>"

lemma deployed_signer_config:
  assumes "handle_docker_init E dp secrets writes (Ok config) csp cp od = Returned (Ok out)"
    and "fc_signer config = Some s" and "sg_inner s = SignerLocal loader store"
    and "fc_modules config = Some ms" and "ms \<noteq> []"
    and "\<And>m. m \<in> set ms \<Longrightarrow> sm_kind m = Commit \<and> clean (sm_id m) \<and> sm_signing_id m \<noteq> 0"
    and "distinct (map sm_id ms)" and "distinct (map sm_signing_id ms)" and "good_secrets secrets"
  defines "ctx \<equiv> init_context_of config cp csp secrets"
  shows "\<exists>service envs. local_deployment ctx s (setup_modules ctx (init_state_of config)) out service envs \<and>
    (\<forall>interp E'. interpolates envs interp \<longrightarrow> ce_var E' = container_var interp service \<longrightarrow>
       parses_address E' (SocketAddr 0 (sg_port s)) \<longrightarrow>
       load_from_env E' (Ok (signer_part config)) = Ok (deployed_start config s loader store secrets ms))"
proof -
  let ?st = "setup_modules ctx (init_state_of config)"
  let ?jwts = "deployed_jwts secrets ms"
  have fields: "dx_config ctx = config" "dx_secret ctx = secrets" by (simp_all add: ctx_def)
  have all: "commit_modules ms = ms" using assms(6) by (simp add: filter_id_conv)
  have "needs_signer_module config"
    using assms(4-6) by (cases ms) (auto simp: needs_signer_module_def)
  from docker_init_local [OF assms(1) this assms(2,3)] obtain service envs where
    dep: "local_deployment ctx s ?st out service envs" unfolding ctx_def .
  have jwts: "is_jwts ?st = ?jwts"
    using generated_jwts [of ctx ms config] assms(4,7) all by (simp add: fields)
  have drawn: "is_drawn ?st = length ms"
    using generated_drawn [of ctx "init_state_of config" ms] assms(4) all by (simp add: setup_modules_def fields)
  have dec: "decode_string_to_map (format_comma_separated (is_jwts ?st)) = Ok ?jwts"
    unfolding jwts by (rule deployed_jwts_decode) (use assms in auto)
  have "modules_ok ?jwts ms" by (rule deployed_modules_ok) (use assms in auto)
  moreover have "map (signing_entry ?jwts) ms = deployed_registry secrets ms"
    by (rule nth_equalityI) (simp_all add: signing_entry_def deployed_jwts_lookup [OF assms(7)])
  ultimately have "load_module_signing_configs (fc_modules config) ?jwts = Ok (deployed_registry secrets ms)"
    unfolding load_module_signing_configs_Ok_iff assms(4) by metis
  from local_deployment_loads [OF dep _ _ _ assms(2,3) dec this]
  have "load_from_env E' (Ok (signer_part config)) = Ok (deployed_start config s loader store secrets ms)"
    if "interpolates envs interp" "ce_var E' = container_var interp service"
      "parses_address E' (SocketAddr 0 (sg_port s))" for interp E' using that by (simp add: drawn fields)
  with dep show ?thesis by blast
qed

text \<open>
  C35. Generating the files and starting the local signer from them fit together: for a configuration whose modules
  are all commit modules, with distinct ids and distinct non-zero signing ids, the signer service starts
  in its container with the configured key loader on all interfaces, with the administrator's secret and
  with one entry per module that has the module's own secret and signing id.
\<close>

theorem deployed_signer_starts:
  assumes "handle_docker_init E dp secrets writes (Ok config) csp cp od = Returned (Ok out)"
    and "fc_signer config = Some s" and "sg_inner s = SignerLocal loader store"
    and "fc_modules config = Some ms" and "ms \<noteq> []"
    and "\<And>m. m \<in> set ms \<Longrightarrow> sm_kind m = Commit \<and> clean (sm_id m) \<and> sm_signing_id m \<noteq> 0"
    and "distinct (map sm_id ms)" and "distinct (map sm_signing_id ms)" and "good_secrets secrets"
  shows "\<exists>service envs. map_of (do_services out) ''cb_signer'' = Some service \<and> do_env_file out = Some envs \<and>
    (\<forall>interp E'. interpolates envs interp \<longrightarrow> ce_var E' = container_var interp service \<longrightarrow>
       parses_address E' (SocketAddr 0 (sg_port s)) \<longrightarrow>
       load_from_env E' (Ok (signer_part config)) =
         Ok \<lparr>ss_chain = fc_chain config, ss_loader = Some loader, ss_store = store,
             ss_endpoint = SocketAddr 0 (sg_port s), ss_mod_signing_configs = deployed_registry secrets ms,
             ss_admin_secret = secrets (length ms), ss_jwt_auth_fail_limit = sg_jwt_auth_fail_limit s,
             ss_jwt_auth_fail_timeout_seconds = sg_jwt_auth_fail_timeout_seconds s, ss_dirk = None\<rparr>)"
proof -
  from deployed_signer_config [OF assms] obtain service envs where
    "local_deployment (init_context_of config cp csp secrets) s
      (setup_modules (init_context_of config cp csp secrets) (init_state_of config)) out service envs \<and>
    (\<forall>interp E'. interpolates envs interp \<longrightarrow> ce_var E' = container_var interp service \<longrightarrow>
       parses_address E' (SocketAddr 0 (sg_port s)) \<longrightarrow>
       load_from_env E' (Ok (signer_part config)) = Ok (deployed_start config s loader store secrets ms))" by blast
  then show ?thesis by (intro exI [of _ service] exI [of _ envs]) (simp add: local_deployment_def)
qed

theorem deployed_signer_starts_witness:
  "\<exists>out service envs E' start.
     demo_init (SignerLocal (KeysFile ''keys'') None) [demo_static_module Commit ''a'' 1, demo_static_module Commit ''b'' 2]
       = Returned (Ok out) \<and>
     map_of (do_services out) ''cb_signer'' = Some service \<and> do_env_file out = Some envs \<and>
     ce_var E' = container_var (compose_interp envs) service \<and>
     load_from_env E' (Ok (signer_part (demo_deploy (SignerLocal (KeysFile ''keys'') None)
       [demo_static_module Commit ''a'' 1, demo_static_module Commit ''b'' 2]))) = Ok start \<and>
     ss_admin_secret start = ''kkk'' \<and> ss_mod_signing_configs start =
       [(''a'', \<lparr>ms_module_name = ''a'', ms_jwt_secret = ''k'', ms_signing_id = 1\<rparr>),
        (''b'', \<lparr>ms_module_name = ''b'', ms_jwt_secret = ''kk'', ms_signing_id = 2\<rparr>)]"
proof -
  let ?inner = "SignerLocal (KeysFile ''keys'') None"
  let ?ms = "[demo_static_module Commit ''a'' 1, demo_static_module Commit ''b'' 2]"
  obtain out where out: "demo_init ?inner ?ms = Returned (Ok out)"
    using demo_init_Ok [of ?inner ?ms] by (auto simp: signer_unsupported_def)
  have "sm_kind m = Commit \<and> clean (sm_id m) \<and> sm_signing_id m \<noteq> 0" if "m \<in> set ?ms" for m
    using that by (auto simp: demo_clean)
  note deployed = deployed_signer_starts [OF out [unfolded demo_init_def] demo_deploy_fields(2,4,1) _ this _ _
      demo_good_secrets]
  from deployed obtain service envs where dep: "map_of (do_services out) ''cb_signer'' = Some service"
      "do_env_file out = Some envs"
    and start: "\<And>interp E'. interpolates envs interp \<Longrightarrow> ce_var E' = container_var interp service \<Longrightarrow>
       parses_address E' (SocketAddr 0 20000) \<Longrightarrow>
       \<exists>start. load_from_env E' (Ok (signer_part (demo_deploy ?inner ?ms))) = Ok start \<and>
         ss_admin_secret start = demo_secret 2 \<and>
         ss_mod_signing_configs start = map (\<lambda>i. (sm_id (?ms ! i), \<lparr>ms_module_name = sm_id (?ms ! i),
               ms_jwt_secret = demo_secret i, ms_signing_id = sm_signing_id (?ms ! i)\<rparr>)) [0..<length ?ms]"
    by (fastforce simp: numeral_2_eq_2)
  let ?E = "demo_deploy_env (container_var (compose_interp envs) service)"
  have E: "ce_var ?E = container_var (compose_interp envs) service" "parses_address ?E (SocketAddr 0 20000)"
    by (simp_all add: demo_deploy_env_def parses_address_def)
  from start [OF compose_interp_interpolates E] obtain st where
    "load_from_env ?E (Ok (signer_part (demo_deploy ?inner ?ms))) = Ok st" "ss_admin_secret st = ''kkk''"
    "ss_mod_signing_configs st = [(''a'', \<lparr>ms_module_name = ''a'', ms_jwt_secret = ''k'', ms_signing_id = 1\<rparr>),
        (''b'', \<lparr>ms_module_name = ''b'', ms_jwt_secret = ''kk'', ms_signing_id = 2\<rparr>)]"
    by (auto simp: demo_secret_def numeral_2_eq_2)
  with dep out E(1) show ?thesis
    by (intro exI [of _ out] exI [of _ service] exI [of _ envs] exI [of _ ?E] exI [of _ st]) simp
qed

lemma deployed_registry_lookup:
  assumes "distinct (map sm_id ms)" and "i < length ms"
  shows "map_of (deployed_registry secrets ms) (sm_id (ms ! i)) =
    Some \<lparr>ms_module_name = sm_id (ms ! i), ms_jwt_secret = secrets i, ms_signing_id = sm_signing_id (ms ! i)\<rparr>"
proof (rule map_of_is_SomeI)
  have "map fst (deployed_registry secrets ms) = map sm_id ms" by (rule nth_equalityI) simp_all
  then show "distinct (map fst (deployed_registry secrets ms))" using assms(1) by simp
qed (use assms(2) in auto)

lemma started_module_accepted:
  assumes "jwt_complete_over_time clock" and "clocks_agree clock epoch" and "(epoch + now) div 1000 + 300 < 2 ^ 64"
    and "t0 \<le> now" and "load_commit_module_config W (clock t0) t0 E toml = Ok started"
    and "ce_var E MODULE_ID_ENV = Some mid" and "ce_var E MODULE_JWT_ENV = Some secret"
    and "refresh_jwt W (clock now) now (cm_signer_client started) = Ok client'"
    and "map_of (hp_jwts h) mid = Some cfg" and "ms_jwt_secret cfg = secret" and "\<not> rate_limited state t ip h"
  shows "\<exists>jwt v. sc_headers client' AUTHORIZATION = Some v \<and> hv_from_str W (''Bearer '' @ jwt) = Some v \<and>
    snd (jwt_auth (clock now) state t ip jwt h) = Ok mid"
proof -
  from commit_module_client [OF assms(5-7)] obtain url where
    "signer_client_new W (clock t0) t0 url secret mid = Ok (cm_signer_client started)" by blast
  then have "client_at W clock url secret mid t0 now (cm_signer_client started)"
    using assms(4) by (blast intro: client_at.intros)
  from client_token_accepted [OF assms(1-3) this assms(8-11)] show ?thesis .
qed

text \<open>
  C17. A commit module of a deployment is served by its signer: with commit modules whose ids differ in more than
  the case of letters and are not the names of services, and for a module whose id consists of letters, digits
  and underscores (Docker compose reads other characters of the reference to its secret in another way, see
  \<open>hyphenated_id_secret\<close>), the local signer starts in its container, and if
  the module starts in its own container, the token that its client holds after a refresh at any later
  time is accepted for this module by a signer with the registry of the start.
\<close>

theorem deployed_module_authenticated:
  assumes "handle_docker_init E dp secrets writes (Ok config) csp cp od = Returned (Ok out)"
    and "fc_signer config = Some s" and "sg_inner s = SignerLocal loader store"
    and "fc_modules config = Some ms"
    and "\<forall>m\<in>set ms. sm_kind m = Commit \<and> clean (sm_id m) \<and> sm_signing_id m \<noteq> 0"
    and "distinct (map (\<lambda>m. to_lowercase (sm_id m)) ms)" and "distinct (map sm_signing_id ms)"
    and "good_secrets secrets" and "i < length ms" and "to_lowercase (sm_id (ms ! i)) \<notin> {''pbs'', ''signer''}"
    and "keeps_variables (ms ! i)" and "list_all compose_char (sm_id (ms ! i))"
    and "jwt_complete_over_time clock" and "clocks_agree clock epoch" and "(epoch + now) div 1000 + 300 < 2 ^ 64"
    and "t0 \<le> now"
  shows "\<exists>module signer envs. map_of (do_services out) (module_cid (ms ! i)) = Some module \<and>
    map_of (do_services out) ''cb_signer'' = Some signer \<and> do_env_file out = Some envs \<and>
    (\<forall>interp Em Es. interpolates envs interp \<longrightarrow> ce_var Em = container_var interp module \<longrightarrow>
       ce_var Es = container_var interp signer \<longrightarrow> parses_address Es (SocketAddr 0 (sg_port s)) \<longrightarrow>
       (\<exists>start. load_from_env Es (Ok (signer_part config)) = Ok start \<and>
          (\<forall>toml started client' h state t ip.
             load_commit_module_config W (clock t0) t0 Em toml = Ok started \<longrightarrow>
             refresh_jwt W (clock now) now (cm_signer_client started) = Ok client' \<longrightarrow>
             hp_jwts h = ss_mod_signing_configs start \<longrightarrow> \<not> rate_limited state t ip h \<longrightarrow>
             (\<exists>jwt v. sc_headers client' AUTHORIZATION = Some v \<and> hv_from_str W (''Bearer '' @ jwt) = Some v \<and>
                snd (jwt_auth (clock now) state t ip jwt h) = Ok (sm_id (ms ! i))))))"
proof -
  let ?ctx = "init_context_of config cp csp secrets" and ?m = "ms ! i"
  have m: "?m \<in> set ms" "ms \<noteq> []" using assms(9) by auto
  have ids: "distinct (map sm_id ms)" using assms(6) by (auto simp: distinct_map inj_on_def)
  from deployed_signer_config [OF assms(1-4) m(2) bspec [OF assms(5)] ids assms(7,8)] obtain signer envs where
    dep: "local_deployment ?ctx s (setup_modules ?ctx (init_state_of config)) out signer envs"
    and start: "\<forall>interp E'. interpolates envs interp \<longrightarrow> ce_var E' = container_var interp signer \<longrightarrow>
       parses_address E' (SocketAddr 0 (sg_port s)) \<longrightarrow>
       load_from_env E' (Ok (signer_part config)) = Ok (deployed_start config s loader store secrets ms)" by blast
  have "commit_modules (take i ms) = take i ms" using assms(5) by (auto simp: filter_id_conv dest: in_set_takeD)
  then have n: "length (commit_modules (take i ms)) = i" using assms(9) by simp
  have kind: "sm_kind ?m = Commit" using assms(5) m(1) by blast
  from deployed_module_variables [OF dep assms(2-4,9) kind assms(6,10-12), unfolded n] obtain module where
    module: "map_of (do_services out) (module_cid ?m) = Some module"
    and vars: "\<And>interp. interpolates envs interp \<Longrightarrow> container_var interp module MODULE_ID_ENV = Some (sm_id ?m) \<and>
      container_var interp module MODULE_JWT_ENV = Some (secrets i)" by metis
  show ?thesis
  proof (rule exI [of _ module], rule exI [of _ signer], rule exI [of _ envs], intro conjI allI impI)
    show "map_of (do_services out) (module_cid ?m) = Some module" by (rule module)
    show "map_of (do_services out) ''cb_signer'' = Some signer" "do_env_file out = Some envs"
      using dep by (simp_all add: local_deployment_def)
    fix interp and Em Es :: config_env
    assume I: "interpolates envs interp" "ce_var Em = container_var interp module"
      and "ce_var Es = container_var interp signer" "parses_address Es (SocketAddr 0 (sg_port s))"
    with start have "load_from_env Es (Ok (signer_part config)) = Ok (deployed_start config s loader store secrets ms)" by blast
    moreover have "\<exists>jwt v. sc_headers client' AUTHORIZATION = Some v \<and> hv_from_str W (''Bearer '' @ jwt) = Some v \<and>
        snd (jwt_auth (clock now) state t ip jwt h) = Ok (sm_id ?m)"
      if "load_commit_module_config W (clock t0) t0 Em toml = Ok started"
        "refresh_jwt W (clock now) now (cm_signer_client started) = Ok client'"
        "hp_jwts h = deployed_registry secrets ms" "\<not> rate_limited state t ip h" for toml started client' h state t ip
      by (rule started_module_accepted [OF assms(13-16) that(1) _ _ that(2) _ _ that(4)])
        (use vars [OF I(1)] I(2) that(3) deployed_registry_lookup [OF ids assms(9), of secrets] in simp_all)
    ultimately show "\<exists>start. load_from_env Es (Ok (signer_part config)) = Ok start \<and>
          (\<forall>toml started client' h state t ip.
             load_commit_module_config W (clock t0) t0 Em toml = Ok started \<longrightarrow>
             refresh_jwt W (clock now) now (cm_signer_client started) = Ok client' \<longrightarrow>
             hp_jwts h = ss_mod_signing_configs start \<longrightarrow> \<not> rate_limited state t ip h \<longrightarrow>
             (\<exists>jwt v. sc_headers client' AUTHORIZATION = Some v \<and> hv_from_str W (''Bearer '' @ jwt) = Some v \<and>
                snd (jwt_auth (clock now) state t ip jwt h) = Ok (sm_id ?m)))"
      by (intro exI [of _ "deployed_start config s loader store secrets ms"] conjI allI impI) (assumption, simp)
  qed
qed

definition demo_toml :: "string \<Rightarrow> (string, unit stub_config) result" where
  "demo_toml _ = Ok \<lparr>sc_chain = Mainnet, sc_modules = [Target (demo_static_module Commit ''m'' 1) ()]\<rparr>"

lemma demo_module_starts:
  assumes "vars MODULE_ID_ENV = Some ''m''" and "vars CONFIG_ENV = Some CONFIG_DEFAULT"
    and "vars SIGNER_URL_ENV = Some url" and "vars MODULE_JWT_ENV = Some ''k''"
  shows "\<exists>started. load_commit_module_config demo_web (demo_clock 0) 0 (demo_deploy_env vars) demo_toml = Ok started \<and>
    refresh_jwt demo_web (demo_clock 5000) 5000 (cm_signer_client started) = Ok (cm_signer_client started)"
  using assms
  by (simp add: load_commit_module_config_def load_env_var_def demo_deploy_env_def load_file_from_env_def load_from_file_def
      demo_toml_def find_module_def map_filter_simps ensure_def signer_client_new_def create_jwt_def demo_clock_def
      SIGNER_JWT_EXPIRATION_def auth_headers_def demo_web_def refresh_jwt_def)

lemma demo_module_fields:
  fixes m defines "m \<equiv> demo_static_module Commit ''m'' 1"
  shows "to_lowercase (sm_id ([m] ! 0)) \<notin> {''pbs'', ''signer''}" and "keeps_variables ([m] ! 0)"
    and "list_all compose_char (sm_id ([m] ! 0))" and "module_cid m = ''cb_m''" and "sm_kind ([m] ! 0) = Commit"
proof -
  have low: "lower_char CHR ''m'' = CHR ''m''" by code_simp
  show "to_lowercase (sm_id ([m] ! 0)) \<notin> {''pbs'', ''signer''}" "keeps_variables ([m] ! 0)"
    "list_all compose_char (sm_id ([m] ! 0))" "module_cid m = ''cb_m''" "sm_kind ([m] ! 0) = Commit"
    by (simp_all add: m_def to_lowercase_def low compose_char_def is_alphanumeric_def keeps_variables_def demo_static_module_def module_variables_def
        module_cid_def env_names)
qed

lemma demo_module_container:
  assumes out: "demo_init (SignerLocal (KeysFile ''keys'') None) [demo_static_module Commit ''m'' 1] = Returned (Ok out)"
    "map_of (do_services out) ''cb_m'' = Some module" "do_env_file out = Some envs"
  shows "\<exists>started. load_commit_module_config demo_web (demo_clock 0) 0
      (demo_deploy_env (container_var (compose_interp envs) module)) demo_toml = Ok started \<and>
    refresh_jwt demo_web (demo_clock 5000) 5000 (cm_signer_client started) = Ok (cm_signer_client started)"
proof -
  let ?inner = "SignerLocal (KeysFile ''keys'') None" and ?m = "demo_static_module Commit ''m'' 1"
  let ?config = "demo_deploy ?inner [?m]"
  let ?ctx = "init_context_of ?config ''cb.toml'' (Some ''specs/devnet.yaml'') demo_secret"
  have needed: "needs_signer_module ?config" by (simp add: needs_signer_module_def)
  from docker_init_local [OF out(1) [unfolded demo_init_def] needed demo_deploy_fields(2,4)] obtain signer envs' where
    dep: "local_deployment ?ctx (demo_deploy_signer ?inner) (setup_modules ?ctx (init_state_of ?config)) out signer envs'" .
  then have envs: "envs' = envs" using out(3) by (simp add: local_deployment_def)
  have at: "0 < length [?m]" "distinct (map (\<lambda>m. to_lowercase (sm_id m)) [?m])" by simp_all
  from deployed_module_variables [OF dep [unfolded envs] demo_deploy_fields(2,4,1) at(1) demo_module_fields(5) at(2)
      demo_module_fields(1-3), unfolded nth_Cons_0 demo_module_fields(4)]
  obtain module' where module': "map_of (do_services out) ''cb_m'' = Some module'"
    and vars: "interpolates envs (compose_interp envs) \<Longrightarrow>
      container_var (compose_interp envs) module' MODULE_ID_ENV = Some (sm_id ?m) \<and>
      container_var (compose_interp envs) module' CONFIG_ENV = Some CONFIG_DEFAULT \<and>
      container_var (compose_interp envs) module' SIGNER_URL_ENV = Some (signer_server_of ?config) \<and>
      container_var (compose_interp envs) module' MODULE_JWT_ENV = Some (demo_secret (length (commit_modules (take 0 [?m]))))"
    by metis
  from vars [OF compose_interp_interpolates] module' out(2) show ?thesis
    by (intro demo_module_starts [where url = "signer_server_of ?config"]) (simp_all add: demo_secret_def)
qed

theorem deployed_module_authenticated_witness:
  "\<exists>out module signer envs start started jwt v.
     demo_init (SignerLocal (KeysFile ''keys'') None) [demo_static_module Commit ''m'' 1] = Returned (Ok out) \<and>
     map_of (do_services out) ''cb_m'' = Some module \<and> map_of (do_services out) ''cb_signer'' = Some signer \<and>
     do_env_file out = Some envs \<and>
     load_from_env (demo_deploy_env (container_var (compose_interp envs) signer))
       (Ok (signer_part (demo_deploy (SignerLocal (KeysFile ''keys'') None) [demo_static_module Commit ''m'' 1]))) = Ok start \<and>
     load_commit_module_config demo_web (demo_clock 0) 0 (demo_deploy_env (container_var (compose_interp envs) module))
       demo_toml = Ok started \<and>
     sc_headers (cm_signer_client started) AUTHORIZATION = Some v \<and> hv_from_str demo_web (''Bearer '' @ jwt) = Some v \<and>
     snd (jwt_auth (demo_clock 5000) \<lparr>sv_manager = 0, sv_jwt_auth_fail_limit = 3, sv_jwt_auth_fail_timeout = 10\<rparr> 0 7 jwt
       (demo_registry\<lparr>hp_jwts := ss_mod_signing_configs start\<rparr>)) = Ok ''m''"
proof -
  let ?inner = "SignerLocal (KeysFile ''keys'') None" and ?m = "demo_static_module Commit ''m'' 1"
  let ?config = "demo_deploy ?inner [?m]"
  obtain out where out: "demo_init ?inner [?m] = Returned (Ok out)"
    using demo_init_Ok [of ?inner "[?m]"] by (auto simp: signer_unsupported_def)
  have prems: "\<forall>m\<in>set [?m]. sm_kind m = Commit \<and> clean (sm_id m) \<and> sm_signing_id m \<noteq> 0"
    by (simp add: clean_def is_whitespace_def)
  have at: "0 < length [?m]" by simp
  note cid = demo_module_fields(4)
  have dist: "distinct (map (\<lambda>m. to_lowercase (sm_id m)) [?m])" "distinct (map sm_signing_id [?m])" by simp_all
  have late: "(0 + 5000) div 1000 + 300 < (2 :: nat) ^ 64" "0 \<le> (5000 :: nat)" by simp_all
  note authenticated = deployed_module_authenticated [OF out [unfolded demo_init_def] demo_deploy_fields(2,4,1) prems
      dist demo_good_secrets at demo_module_fields(1-3) demo_clock_complete demo_clock_agrees late, unfolded nth_Cons_0 cid demo_deploy_fields, where W = demo_web]
  from authenticated obtain module signer envs where
    dep: "map_of (do_services out) ''cb_m'' = Some module" "map_of (do_services out) ''cb_signer'' = Some signer"
      "do_env_file out = Some envs"
    and served: "\<And>Em Es. ce_var Em = container_var (compose_interp envs) module \<Longrightarrow>
       ce_var Es = container_var (compose_interp envs) signer \<Longrightarrow> parses_address Es (SocketAddr 0 20000) \<Longrightarrow>
       \<exists>start. load_from_env Es (Ok (signer_part ?config)) = Ok start \<and>
          (\<forall>toml started client' h state t ip.
             load_commit_module_config demo_web (demo_clock 0) 0 Em (toml :: string \<Rightarrow> (string, unit stub_config) result)
               = Ok started \<longrightarrow>
             refresh_jwt demo_web (demo_clock 5000) 5000 (cm_signer_client started) = Ok client' \<longrightarrow>
             hp_jwts h = ss_mod_signing_configs start \<longrightarrow> \<not> rate_limited state t ip h \<longrightarrow>
             (\<exists>jwt v. sc_headers client' AUTHORIZATION = Some v \<and> hv_from_str demo_web (''Bearer '' @ jwt) = Some v \<and>
                snd (jwt_auth (demo_clock 5000) state t ip jwt h) = Ok ''m''))"
    using compose_interp_interpolates by blast
  let ?Em = "demo_deploy_env (container_var (compose_interp envs) module)"
  let ?Es = "demo_deploy_env (container_var (compose_interp envs) signer)"
  have E: "ce_var ?Em = container_var (compose_interp envs) module" "ce_var ?Es = container_var (compose_interp envs) signer"
    "parses_address ?Es (SocketAddr 0 20000)" by (simp_all add: demo_deploy_env_def parses_address_def)
  from demo_module_container [OF out dep(1,3)] obtain started where
    started: "load_commit_module_config demo_web (demo_clock 0) 0 ?Em demo_toml = Ok started"
      "refresh_jwt demo_web (demo_clock 5000) 5000 (cm_signer_client started) = Ok (cm_signer_client started)" by auto
  from served [OF E] obtain start where st: "load_from_env ?Es (Ok (signer_part ?config)) = Ok start"
    and acc: "\<And>h state t ip. hp_jwts h = ss_mod_signing_configs start \<Longrightarrow> \<not> rate_limited state t ip h \<Longrightarrow>
       \<exists>jwt v. sc_headers (cm_signer_client started) AUTHORIZATION = Some v \<and> hv_from_str demo_web (''Bearer '' @ jwt) = Some v \<and>
          snd (jwt_auth (demo_clock 5000) state t ip jwt h) = Ok ''m''" using started by blast
  let ?h = "demo_registry\<lparr>hp_jwts := ss_mod_signing_configs start\<rparr>"
  have "hp_jwts ?h = ss_mod_signing_configs start"
    "\<not> rate_limited \<lparr>sv_manager = 0, sv_jwt_auth_fail_limit = 3, sv_jwt_auth_fail_timeout = 10\<rparr> 0 7 ?h"
    by (simp_all add: rate_limited_def failures_of_def demo_registry_def)
  from acc [OF this] out dep st started(1) show ?thesis by blast
qed

section \<open>Deployments whose signer does not start\<close>

lemma decode_empty: "\<exists>e. decode_string_to_map (format_comma_separated []) = Err e"
  by (simp add: decode_string_to_map_def format_comma_separated_def join_with_def trim_def decode_pair_def)

lemma Err_of_not_Ok: "(\<And>x. r \<noteq> Ok x) \<Longrightarrow> \<exists>e. r = Err e"
  by (cases r) auto

lemma setup_dirk_signer_env:
  assumes "context_ok ctx" and "setup_dirk_signer ctx s cert key sec ca store st = Returned st'"
  obtains service where "map_of (is_services st') ''cb_signer'' = Some service"
    and "map_of (dv_environment service) ADMIN_JWT_ENV = None"
proof -
  let ?envs = "hash_map_of [get_env_val CONFIG_ENV CONFIG_DEFAULT, get_env_same JWTS_ENV,
     get_env_val DIRK_CERT_ENV DIRK_CERT_DEFAULT, get_env_val DIRK_KEY_ENV DIRK_KEY_DEFAULT,
     get_env_val DIRK_DIR_SECRETS_ENV DIRK_DIR_SECRETS_DEFAULT]"
  obtain ports envs0 st0 where c: "signer_common_envs ctx s ?envs st = (ports, envs0, st0)" by (rule prod_cases3)
  have none: "map_of envs0 ADMIN_JWT_ENV = None"
    by (subst signer_common_envs_lookup [OF c assms(1)])
      (simp_all add: map_of_hash_map_of get_env_val_def env_names)
  have "\<exists>service. map_of (is_services st') ''cb_signer'' = Some service \<and>
      map_of (dv_environment service) ADMIN_JWT_ENV = None"
    using assms(2) none unfolding setup_dirk_signer_def c
    by (auto simp: Let_def env_names update_conv' signer_compose_service_def split: option.splits proxy_store.splits)
  with that show ?thesis by blast
qed

text \<open>
  C38. A module of kind Events keeps the local signer of the same deployment from starting: the generated list of
  secrets has entries for commit modules only, while the signer asks for the secret of every module.
\<close>

theorem events_module_blocks_signer:
  assumes "handle_docker_init E dp secrets writes (Ok config) csp cp od = Returned (Ok out)"
    and "fc_signer config = Some s" and "sg_inner s = SignerLocal loader store"
    and "needs_signer_module config"
    and "fc_modules config = Some ms" and "m \<in> set ms" and "sm_kind m = Events"
    and "distinct (map sm_id ms)" and "\<And>m. m \<in> set ms \<Longrightarrow> clean (sm_id m)" and "good_secrets secrets"
  shows "\<exists>service envs. map_of (do_services out) ''cb_signer'' = Some service \<and> do_env_file out = Some envs \<and>
    (\<forall>interp E'. interpolates envs interp \<longrightarrow> ce_var E' = container_var interp service \<longrightarrow>
       (\<exists>e. load_from_env E' (Ok (signer_part config)) = Err e))"
proof -
  let ?ctx = "init_context_of config cp csp secrets" and ?cs = "commit_modules ms"
  let ?st = "setup_modules ?ctx (init_state_of config)"
  from docker_init_local [OF assms(1,4,2,3)] obtain service envs where
    dep: "local_deployment ?ctx s ?st out service envs" .
  have ids: "distinct (map sm_id ?cs)" using assms(8) by (rule distinct_map_filter)
  have jwts: "is_jwts ?st = deployed_jwts secrets ?cs"
    using generated_jwts [of ?ctx ms config] ids assms(5) by simp
  have "sm_id m \<notin> sm_id ` set ?cs"
  proof
    assume "sm_id m \<in> sm_id ` set ?cs"
    then obtain m' where m': "m' \<in> set ms" "sm_kind m' = Commit" "sm_id m = sm_id m'" by auto
    have "inj_on sm_id (set ms)" using assms(8) by (simp add: distinct_map)
    from inj_onD [OF this m'(3) assms(6) m'(1)] m'(2) assms(7) show False by simp
  qed
  then have "map_of (deployed_jwts secrets ?cs) (sm_id m) = None"
    by (auto simp: map_of_eq_None_iff dest!: set_zip_leftD)
  with assms(6) have bad: "\<not> modules_ok (deployed_jwts secrets ?cs) ms" unfolding modules_ok_def by fastforce
  have "\<exists>e. load_from_env E' (Ok (signer_part config)) = Err e"
    if "interpolates envs interp" "ce_var E' = container_var interp service" for interp and E' :: config_env
  proof (cases "?cs = []")
    case True
    with decode_empty local_deployment_jwts [OF dep that] jwts show ?thesis
      by (auto simp: load_from_env_def)
  next
    case False
    then have "decode_string_to_map (format_comma_separated (is_jwts ?st)) = Ok (deployed_jwts secrets ?cs)"
      unfolding jwts by (rule deployed_jwts_decode [OF ids _ assms(10)]) (use assms(9) in simp)
    with local_deployment_jwts [OF dep that] bad assms(5) show ?thesis
      by (intro Err_of_not_Ok) (simp add: load_from_env_def signer_part_def and_then_Ok_iff
          load_module_signing_configs_Ok_iff)
  qed
  with dep show ?thesis by (auto simp: local_deployment_def)
qed

theorem events_module_blocks_signer_witness:
  "\<exists>out service envs E' e.
     demo_init (SignerLocal (KeysFile ''keys'') None) [demo_static_module Commit ''a'' 1, demo_static_module Events ''b'' 2]
       = Returned (Ok out) \<and>
     map_of (do_services out) ''cb_signer'' = Some service \<and> do_env_file out = Some envs \<and>
     ce_var E' = container_var (compose_interp envs) service \<and>
     load_from_env E' (Ok (signer_part (demo_deploy (SignerLocal (KeysFile ''keys'') None)
       [demo_static_module Commit ''a'' 1, demo_static_module Events ''b'' 2]))) = Err e"
proof -
  let ?inner = "SignerLocal (KeysFile ''keys'') None"
  let ?ms = "[demo_static_module Commit ''a'' 1, demo_static_module Events ''b'' 2]"
  obtain out where out: "demo_init ?inner ?ms = Returned (Ok out)"
    using demo_init_Ok [of ?inner ?ms] by (auto simp: signer_unsupported_def)
  have needed: "needs_signer_module (demo_deploy ?inner ?ms)" by (simp add: needs_signer_module_def)
  have ids: "clean (sm_id m)" if "m \<in> set ?ms" for m using that by (auto simp: demo_clean)
  have m: "demo_static_module Events ''b'' 2 \<in> set ?ms" "sm_kind (demo_static_module Events ''b'' 2) = Events"
    "distinct (map sm_id ?ms)" by simp_all
  from events_module_blocks_signer [OF out [unfolded demo_init_def] demo_deploy_fields(2,4) needed demo_deploy_fields(1) m
      ids demo_good_secrets]
  obtain service envs where dep: "map_of (do_services out) ''cb_signer'' = Some service" "do_env_file out = Some envs"
    and blocked: "\<And>interp E'. interpolates envs interp \<Longrightarrow> ce_var E' = container_var interp service \<Longrightarrow>
       \<exists>e. load_from_env E' (Ok (signer_part (demo_deploy ?inner ?ms))) = Err e" by auto
  let ?E = "demo_deploy_env (container_var (compose_interp envs) service)"
  have E: "ce_var ?E = container_var (compose_interp envs) service" by (simp add: demo_deploy_env_def)
  from blocked [OF compose_interp_interpolates E] dep out E show ?thesis by blast
qed

text \<open>
  A deployment with Dirk has no signer that starts: the generated files neither set nor pass on the secret of
  the administrator, without which the signer does not load its configuration.
\<close>

theorem dirk_deployment_has_no_admin_secret:
  assumes "handle_docker_init E dp secrets writes (Ok config) csp cp od = Returned (Ok out)"
    and "needs_signer_module config" and "fc_signer config = Some s"
    and "sg_inner s = SignerDirk hosts cert key sec ca store"
  shows "\<exists>service. map_of (do_services out) ''cb_signer'' = Some service \<and>
    (\<forall>interp E'. ce_var E' = container_var interp service \<longrightarrow>
       load_from_env E' (Ok (signer_part config)) = Err (ADMIN_JWT_ENV @ '' is not set''))"
proof -
  let ?ctx = "init_context_of config cp csp secrets"
  from docker_init_Ok [OF assms(1)] obtain st st' where
    st': "setup_signer ?ctx st = Returned st'" and out: "do_services out = is_services st'"
    by blast
  have "setup_dirk_signer ?ctx s cert key sec ca store st = Returned st'"
    using st' assms(2-4) by (simp add: setup_signer_def)
  from setup_dirk_signer_env [OF context_ok_init this] obtain service where
    "map_of (is_services st') ''cb_signer'' = Some service" "map_of (dv_environment service) ADMIN_JWT_ENV = None" .
  then show ?thesis
    by (auto simp: out load_from_env_def load_jwt_secrets_def load_env_var_def container_var_def)
qed

theorem dirk_deployment_has_no_admin_secret_witness:
  "\<exists>out service. demo_init (SignerDirk [] ''c'' ''k'' ''s'' None None) [demo_static_module Commit ''a'' 1] = Returned (Ok out) \<and>
     map_of (do_services out) ''cb_signer'' = Some service \<and>
     load_from_env (demo_deploy_env (container_var id service))
       (Ok (signer_part (demo_deploy (SignerDirk [] ''c'' ''k'' ''s'' None None) [demo_static_module Commit ''a'' 1]))) =
       Err ''CB_SIGNER_ADMIN_JWT is not set''"
proof -
  let ?inner = "SignerDirk [] ''c'' ''k'' ''s'' None None" and ?ms = "[demo_static_module Commit ''a'' 1]"
  obtain out where out: "demo_init ?inner ?ms = Returned (Ok out)"
    using demo_init_Ok [of ?inner ?ms] by (auto simp: signer_unsupported_def)
  have needed: "needs_signer_module (demo_deploy ?inner ?ms)" by (simp add: needs_signer_module_def)
  from dirk_deployment_has_no_admin_secret [OF out [unfolded demo_init_def] needed demo_deploy_fields(2,4)]
  obtain service where "map_of (do_services out) ''cb_signer'' = Some service"
    and "\<And>interp E'. ce_var E' = container_var interp service \<Longrightarrow>
      load_from_env E' (Ok (signer_part (demo_deploy ?inner ?ms))) = Err (ADMIN_JWT_ENV @ '' is not set'')" by auto
  moreover have "ce_var (demo_deploy_env (container_var id service)) = container_var id service"
    by (simp add: demo_deploy_env_def)
  ultimately show ?thesis using out by (intro exI [of _ out] exI [of _ service]) (simp add: ADMIN_JWT_ENV_def)
qed

text \<open>
  On a valid configuration whose key files can be loaded, generating the files panics exactly if a signer is
  needed and none is configured, or a remote one, or Dirk with an ERC-2335 store.
\<close>

theorem docker_init_panics_iff:
  assumes "config_validate E dp config = Ok ()"
    and "\<And>muxes mux. fc_muxes config = Some muxes \<Longrightarrow> mux \<in> set muxes \<Longrightarrow> is_ok (loader_env E mux)"
  shows "handle_docker_init E dp secrets writes (Ok config) csp cp od = Panicked \<longleftrightarrow>
    needs_signer_module config \<and> signer_unsupported config"
proof -
  let ?ctx = "init_context_of config cp csp secrets"
  obtain st where "setup_pbs E ?ctx (setup_modules ?ctx (init_state_of config)) = Ok st"
    using setup_pbs_Ok [of ?ctx E] assms(2) by (metis dx_config_init)
  with assms(1) setup_signer_panics_iff [of ?ctx st] show ?thesis
    by (auto simp: handle_docker_init_def Let_def split: outcome.splits)
qed

theorem docker_init_panics_iff_witness:
  "demo_init (SignerRemote ''http://signer'') [demo_static_module Commit ''a'' 1] = Panicked \<and>
   demo_init (SignerRemote ''http://signer'') [demo_static_module Events ''a'' 1] \<noteq> Panicked"
  unfolding demo_init_def
  by (subst (1 2) docker_init_panics_iff [OF demo_deploy_valid])
    (simp_all add: needs_signer_module_def signer_unsupported_def, simp add: demo_deploy_def)

section \<open>The client of the signer\<close>

text \<open>
  C34. A request of a signer client is authenticated: at any time after its creation, when the token could be
  refreshed, the request for a signature is sent with a bearer token that the signer accepts for the
  client's module, provided it knows the module under the same secret and the caller is not rate limited.
\<close>

theorem client_requests_accepted:
  assumes "jwt_complete_over_time clock" and "clocks_agree clock epoch" and "(epoch + now) div 1000 + 300 < 2 ^ 64"
    and "client_at W clock url secret mid created now client"
    and "refresh_jwt W (clock now) now client = Ok client'"
    and "map_of (hp_jwts h) mid = Some cfg" and "ms_jwt_secret cfg = secret" and "\<not> rate_limited state t ip h"
  shows "\<exists>jwt v. client_request_signature W (clock now) now http decode request client =
      (client', call_signer W http client' POST REQUEST_SIGNATURE_PATH (JsonSignRequest request) decode) \<and>
    sc_headers client' AUTHORIZATION = Some v \<and> hv_from_str W (''Bearer '' @ jwt) = Some v \<and>
    snd (jwt_auth (clock now) state t ip jwt h) = Ok mid"
  using client_token_accepted [OF assms] assms(5)
  by (auto simp: client_request_signature_def with_refresh_def)

theorem client_requests_accepted_witness:
  "\<exists>jwt v. client_request_signature demo_web (demo_clock 5000) 5000 (\<lambda>_. Ok (200, Ok [1])) Ok
        (SignProxyBls \<lparr>spr_proxy = 2, spr_object_root = 1\<rparr>) demo_client = (demo_client, Ok [1]) \<and>
      sc_headers demo_client AUTHORIZATION = Some v \<and> hv_from_str demo_web (''Bearer '' @ jwt) = Some v \<and>
      snd (jwt_auth (demo_clock 5000) \<lparr>sv_manager = 0, sv_jwt_auth_fail_limit = 3, sv_jwt_auth_fail_timeout = 10\<rparr> 0 7 jwt
        demo_registry) = Ok ''m''"
proof -
  have fresh: "refresh_jwt demo_web (demo_clock 5000) 5000 demo_client = Ok demo_client"
    by (simp add: refresh_jwt_def demo_client_def SIGNER_JWT_EXPIRATION_def)
  have registered: "map_of (hp_jwts demo_registry) ''m'' =
      Some \<lparr>ms_module_name = ''m'', ms_jwt_secret = ''k'', ms_signing_id = 4\<rparr>"
    "ms_jwt_secret \<lparr>ms_module_name = ''m'', ms_jwt_secret = ''k'', ms_signing_id = 4\<rparr> = ''k''"
    "\<not> rate_limited \<lparr>sv_manager = 0, sv_jwt_auth_fail_limit = 3, sv_jwt_auth_fail_timeout = 10\<rparr> 0 7 demo_registry"
    by (simp_all add: demo_registry_def rate_limited_def failures_of_def)
  have late: "(0 + 5000) div 1000 + 300 < (2 :: nat) ^ 64" by simp
  have sent: "call_signer demo_web (\<lambda>_. Ok (200, Ok [1])) demo_client POST REQUEST_SIGNATURE_PATH body Ok = Ok [1]" for body
    by (simp add: call_signer_def demo_web_def is_success_def)
  from client_requests_accepted [OF demo_clock_complete demo_clock_agrees late demo_client_at fresh registered,
      where http = "\<lambda>_. Ok (200, Ok [1])" and decode = Ok]
  show ?thesis unfolding sent by blast
qed

end
