(* ===== verification/Events.thy ===== *)
theory Events
  imports Deployment
begin

text \<open>
  The delivery of builder events: the tasks that the publisher of the PBS module spawns, the server of an
  event module (\<open>crates/common/src/pbs/event.rs\<close>), and the example \<open>examples/builder_log\<close>. What a
  processor does with an event is a list of results. The properties follow an event from the publisher
  to the processors, in a network of servers that are found by the name of their host.
\<close>

section \<open>The server of an event module\<close>

text \<open>The body of a request as the JSON extractor sees it.\<close>

datatype event_body = JsonEvent builder_event | JsonSyntaxError | JsonDataError | NotJson

record 'p builder_event_client =
  ec_port :: u16
  ec_processor :: 'p

definition builder_event_client_new :: "u16 \<Rightarrow> 'p \<Rightarrow> 'p builder_event_client" where
  "builder_event_client_new port processor = \<lparr>ec_port = port, ec_processor = processor\<rparr>"

definition handle_builder_event ::
  "('p \<Rightarrow> builder_event \<Rightarrow> 'o list) \<Rightarrow> 'p \<Rightarrow> builder_event \<Rightarrow> 'o list \<times> u16" where
  "handle_builder_event on_builder_api_event processor event = (on_builder_api_event processor event, 200)"

text \<open>The router of the server, with the replies of the extractor to bodies that it rejects.\<close>

definition event_router ::
  "('p \<Rightarrow> builder_event \<Rightarrow> 'o list) \<Rightarrow> 'p builder_event_client \<Rightarrow> http_method \<Rightarrow> string \<Rightarrow> event_body
     \<Rightarrow> 'o list \<times> u16" where
  "event_router on_event client method path body =
     (if path \<noteq> BUILDER_EVENTS_PATH then ([], 404)
      else if method \<noteq> POST then ([], 405)
      else
        (case body of
           JsonEvent event \<Rightarrow> handle_builder_event on_event (ec_processor client) event
         | JsonSyntaxError \<Rightarrow> ([], 400)
         | JsonDataError \<Rightarrow> ([], 422)
         | NotJson \<Rightarrow> ([], 415)))"

text \<open>\<open>binds\<close> and \<open>served\<close> are the outcomes of binding the address and of serving until the end.\<close>

definition event_client_run ::
  "(socket_addr \<Rightarrow> (string, unit) result) \<Rightarrow> (string, unit) result \<Rightarrow> 'p builder_event_client
     \<Rightarrow> (string, unit) result" where
  "event_client_run binds served client =
     and_then (binds (SocketAddr 0 (ec_port client))) (\<lambda>_.
     and_then served (\<lambda>_. Err ''Builder events stopped''))"

section \<open>The tasks of the publisher\<close>

text \<open>
  \<open>post\<close> is the outcome of a POST request, the status code if there is a response. A task that fails, or
  whose response has an error code, leaves a line in the log.
\<close>

definition is_error_status :: "u16 \<Rightarrow> bool" where
  "is_error_status code \<longleftrightarrow> 400 \<le> code \<and> code < 600"

definition publish_failed :: "(string \<Rightarrow> builder_event \<Rightarrow> (string, u16) result) \<Rightarrow> string \<Rightarrow> builder_event \<Rightarrow> bool" where
  "publish_failed post endpoint event =
     (case post endpoint event of Inl _ \<Rightarrow> True | Inr code \<Rightarrow> is_error_status code)"

definition publish_log ::
  "(string \<Rightarrow> builder_event \<Rightarrow> (string, u16) result) \<Rightarrow> effect list \<Rightarrow> string list" where
  "publish_log post effs =
     List.map_filter (\<lambda>eff. case eff of
         PublishTo endpoint event \<Rightarrow>
           if publish_failed post endpoint event then Some ''Failed to publish event'' else None
       | _ \<Rightarrow> None) effs"

section \<open>The log of builder events\<close>

text \<open>\<open>LogProcessor\<close> has no state.\<close>

definition log_processor :: "unit \<Rightarrow> builder_event \<Rightarrow> (string \<times> builder_event) list" where
  "log_processor self event = [(''Received builder event'', event)]"

text \<open>\<open>main\<close>: the service with its log lines for an error; the process ends without one in both cases.\<close>

definition builder_log_main ::
  "config_env \<Rightarrow> (string \<Rightarrow> (string, unit stub_config) result) \<Rightarrow> (string, logs_settings) result
     \<Rightarrow> (socket_addr \<Rightarrow> (string, unit) result) \<Rightarrow> (string, unit) result
     \<Rightarrow> string list \<times> (string, unit) result" where
  "builder_log_main E toml logs binds served =
     (case load_builder_module_config E toml of
        Inr config \<Rightarrow>
          (case logs of
             Inl e \<Rightarrow> ([], Err e)
           | Inr _ \<Rightarrow>
               (case event_client_run binds served (builder_event_client_new (bm_server_port config) ()) of
                  Inl _ \<Rightarrow> ([''Service failed''], Ok ())
                | Inr _ \<Rightarrow> ([], Ok ())))
      | Inl _ \<Rightarrow> ([''Failed to load module config''], Ok ()))"

section \<open>A network of event servers\<close>

text \<open>The host, port and path of an \<open>http\<close> URL, as far as the generated URLs need it.\<close>

definition url_parts :: "string \<Rightarrow> (string \<times> u16 \<times> string) option" where
  "url_parts url =
     (if take 7 url \<noteq> ''http://'' then None
      else
        (let rest = drop 7 url;
             authority = takeWhile (\<lambda>c. c \<noteq> CHR ''/'') rest;
             path = dropWhile (\<lambda>c. c \<noteq> CHR ''/'') rest
         in
         (case split_char CHR '':'' authority of
            [host] \<Rightarrow> Some (host, 80, path)
          | [host, port] \<Rightarrow> (case parse_u16 port of Inr p \<Rightarrow> Some (host, p, path) | Inl _ \<Rightarrow> None)
          | _ \<Rightarrow> None)))"

text \<open>A POST of an event: what the processor of the addressed server does and the status, if one listens there.\<close>

definition post_event ::
  "('p \<Rightarrow> builder_event \<Rightarrow> 'o list) \<Rightarrow> (string \<rightharpoonup> 'p builder_event_client) \<Rightarrow> string \<Rightarrow> builder_event
     \<Rightarrow> ('o list \<times> u16) option" where
  "post_event on_event servers endpoint event =
     Option.bind (url_parts endpoint) (\<lambda>(host, port, path).
     Option.bind (servers host) (\<lambda>client.
       if ec_port client = port then Some (event_router on_event client POST path (JsonEvent event)) else None))"

definition post_status ::
  "('p \<Rightarrow> builder_event \<Rightarrow> 'o list) \<Rightarrow> (string \<rightharpoonup> 'p builder_event_client) \<Rightarrow> string \<Rightarrow> builder_event
     \<Rightarrow> (string, u16) result" where
  "post_status on_event servers endpoint event =
     (case post_event on_event servers endpoint event of
        None \<Rightarrow> Err ''connection refused''
      | Some (_, code) \<Rightarrow> Ok code)"

section \<open>Properties\<close>

text \<open>An event reaches the processor by a POST with an event to the path of events, and by nothing else.\<close>

lemma event_router_delivers_iff:
  assumes "\<And>p e. on_event p e \<noteq> []"
  shows "fst (event_router on_event client method path body) \<noteq> [] \<longleftrightarrow>
    path = BUILDER_EVENTS_PATH \<and> method = POST \<and> (\<exists>e. body = JsonEvent e)"
  using assms by (auto simp: event_router_def handle_builder_event_def split: event_body.splits)

lemma event_client_never_ok: "\<not> is_ok (event_client_run binds served client)"
  by (auto simp: event_client_run_def is_ok_def and_then_def split: sum.splits)

lemma takeWhile_host: "c \<notin> set h \<Longrightarrow> takeWhile (\<lambda>x. x \<noteq> c) (h @ c # r) = h"
  by (induction h) auto

lemma dropWhile_host: "c \<notin> set h \<Longrightarrow> dropWhile (\<lambda>x. x \<noteq> c) (h @ c # r) = c # r"
  by (induction h) auto

lemma url_parts_generated:
  assumes "CHR ''/'' \<notin> set (host @ port)" and "CHR '':'' \<notin> set (host @ port)" and "parse_u16 port = Ok p"
  shows "url_parts (''http://'' @ host @ '':'' @ port @ CHR ''/'' # path) = Some (host, p, CHR ''/'' # path)"
proof -
  let ?a = "host @ '':'' @ port"
  have slash: "CHR ''/'' \<notin> set ?a" using assms(1) by auto
  have rest: "drop 7 (''http://'' @ host @ '':'' @ port @ CHR ''/'' # path) = ?a @ CHR ''/'' # path" by simp
  have split: "split_char CHR '':'' ?a = [host, port]"
    using assms(2) by (simp add: split_char_append split_char_single)
  show ?thesis
    unfolding url_parts_def rest Let_def takeWhile_host [OF slash] dropWhile_host [OF slash] split
    using assms(3) by simp
qed

lemma post_event_generated:
  assumes "servers host = Some client" and "CHR ''/'' \<notin> set (host @ port)" and "CHR '':'' \<notin> set (host @ port)"
    and "parse_u16 port = Ok (ec_port client)"
  shows "post_event on_event servers (''http://'' @ host @ '':'' @ port @ BUILDER_EVENTS_PATH) event =
    Some (on_event (ec_processor client) event, 200)"
  using assms url_parts_generated [of host port "ec_port client" "tl BUILDER_EVENTS_PATH"]
  by (simp add: post_event_def event_router_def handle_builder_event_def BUILDER_EVENTS_PATH_def)

end
