(* ===== verification/Events_Properties.thy ===== *)
theory Events_Properties
  imports Events
begin

text \<open>
  The events of the PBS module in a generated deployment: the publisher finds the event modules in the
  environment of its container, and each of them receives every event. A PBS module that asks for the
  signer finds nothing of it in that environment.
\<close>

section \<open>The event modules of a deployment\<close>

abbreviation event_modules :: "static_module_config list \<Rightarrow> static_module_config list" where
  "event_modules ms \<equiv> filter (\<lambda>m. sm_kind m = Events) ms"

definition events_url :: "static_module_config \<Rightarrow> string" where
  "events_url m = ''http://'' @ module_cid m @ '':'' @ decimal (unat builder_events_port)"

lemma setup_module_builder_events:
  "is_builder_events (setup_module ctx st m) =
     (if sm_kind m = Events then is_builder_events st @ [events_url m] else is_builder_events st)"
  by (cases "sm_kind m")
    (auto simp: setup_module_def commit_module_service_def events_module_service_def Let_def events_url_def
      dest!: expose_metrics_frame split: prod.splits)

lemma setup_modules_builder_events:
  "is_builder_events (foldl (setup_module ctx) st ms) = is_builder_events st @ map events_url (event_modules ms)"
  by (induction ms arbitrary: st) (simp_all add: setup_module_builder_events)

definition events_variables :: "static_module_config \<Rightarrow> compose_service \<Rightarrow> bool" where
  "events_variables m service \<longleftrightarrow>
     (let vars = map_of (dv_environment service) in
      vars MODULE_ID_ENV = Some (SvString (sm_id m)) \<and> vars CONFIG_ENV = Some (SvString CONFIG_DEFAULT) \<and>
      vars BUILDER_PORT_ENV = Some (SvUnsigned builder_events_port)) \<and>
     dv_container_name service = module_cid m \<and> dv_networks service = []"

lemma setup_events_service:
  assumes "sm_kind m = Events" and "context_ok ctx"
  shows "\<exists>service. is_services (setup_module ctx st m) = AList.update (module_cid m) service (is_services st) \<and>
    events_variables m service"
proof -
  define envs0 where "envs0 = hash_map_of [get_env_val MODULE_ID_ENV (sm_id m),
    get_env_val CONFIG_ENV CONFIG_DEFAULT, get_env_uval BUILDER_PORT_ENV builder_events_port]"
  let ?st0 = "st\<lparr>is_builder_events := is_builder_events st @
     [''http://'' @ module_cid m @ '':'' @ decimal (unat builder_events_port)]\<rparr>"
  obtain ports envs2 st1 where e: "expose_metrics (dx_config ctx) (module_cid m) (\<lambda>p. p + 1)
      ([], insert_env_opt (dx_chain_spec_env ctx) envs0, ?st0) = (ports, envs2, st1)"
    by (rule prod_cases3)
  have env: "map_of (log_envs (dx_config ctx) envs2) k = map_of envs0 k"
    if "k \<notin> {CHAIN_SPEC_ENV, METRICS_PORT_ENV, LOGS_DIR_ENV}" for k
    using that expose_metrics_env [OF e, of k] assms(2) by (simp add: log_envs_lookup chain_spec_lookup)
  let ?envs3 = "log_envs (dx_config ctx) envs2"
  have vars: "map_of ?envs3 MODULE_ID_ENV = Some (SvString (sm_id m))"
    "map_of ?envs3 CONFIG_ENV = Some (SvString CONFIG_DEFAULT)"
    "map_of ?envs3 BUILDER_PORT_ENV = Some (SvUnsigned builder_events_port)"
    by (subst env; simp add: envs0_def map_of_hash_map_of get_env_val_def get_env_uval_def env_names)+
  from expose_metrics_frame [OF e] show ?thesis
    unfolding setup_module_def assms(1) module_kind.case events_module_service_def Let_def
      envs0_def [symmetric] e prod.case
    by (intro exI conjI) (simp, simp only: events_variables_def Let_def compose_service.simps vars simp_thms)
qed

lemma setup_modules_event_service:
  assumes "distinct (map (\<lambda>m. to_lowercase (sm_id m)) ms)" and "context_ok ctx"
    and "m \<in> set ms" and "sm_kind m = Events"
  shows "\<exists>service. map_of (is_services (foldl (setup_module ctx) st ms)) (module_cid m) = Some service \<and>
    events_variables m service"
  using assms
proof (induction ms rule: rev_induct)
  case Nil
  then show ?case by simp
next
  case (snoc x ms)
  let ?st = "foldl (setup_module ctx) st ms"
  show ?case
  proof (cases "m = x")
    case True
    with setup_events_service [OF _ snoc.prems(2), of m ?st] snoc.prems(4) show ?thesis
      by (auto simp: update_conv')
  next
    case False
    with snoc.prems have "m \<in> set ms" by simp
    moreover from imageI [OF this, of "\<lambda>m. to_lowercase (sm_id m)"] snoc.prems(1)
    have "module_cid m \<noteq> module_cid x" by (auto simp: module_cid_def)
    ultimately show ?thesis
      using snoc.IH snoc.prems setup_module_services [of ctx ?st x] by (auto simp: update_conv')
  qed
qed

section \<open>The container of the PBS module\<close>

lemma mux_mounts_lookup:
  assumes "mux_mounts E muxes acc = Ok (envs, volumes)" and "\<And>mux_id. k \<noteq> get_mux_env mux_id"
  shows "map_of envs k = map_of (fst acc) k"
  using assms
proof (induction muxes arbitrary: acc)
  case (Cons mux muxes)
  from Cons.prems(1) obtain l where l: "loader_env E mux = Ok l" by (cases "loader_env E mux") auto
  have fresh: "k \<noteq> name" if "l = Some (name, a, b)" for name a b
    using l that Cons.prems(2)
    by (auto simp: loader_env_def and_then_Ok_iff split: option.splits mux_keys_loader.splits)
  show ?case
  proof (cases l)
    case None
    with Cons l show ?thesis by simp
  next
    case (Some m)
    obtain name a b where m: "m = (name, a, b)" by (rule prod_cases3)
    with Cons.IH [OF _ Cons.prems(2)] Cons.prems(1) l Some fresh show ?thesis by fastforce
  qed
qed simp

lemma setup_pbs_env:
  assumes "setup_pbs E ctx st = Ok st'" and "context_ok ctx"
    and "k \<notin> {CHAIN_SPEC_ENV, METRICS_PORT_ENV, LOGS_DIR_ENV, PBS_ENDPOINT_ENV, CONFIG_ENV}"
    and "\<And>mux_id. k \<noteq> get_mux_env mux_id"
  shows "\<exists>service. map_of (is_services st') ''cb_pbs'' = Some service \<and> dv_networks service = [] \<and>
    map_of (dv_environment service) k =
      (if k = BUILDER_URLS_ENV \<and> is_builder_events st \<noteq> []
       then Some (SvString (join_with '','' (is_builder_events st))) else None)"
proof -
  let ?pbs = "sp_pbs_config (fc_pbs (dx_config ctx))"
  let ?st0 = "st\<lparr>is_warnings := is_warnings st @ [exposed_warning ''cb_pbs'' (pc_port ?pbs)]\<rparr>"
  let ?mounts = "mux_mounts E (case fc_muxes (dx_config ctx) of Some ms \<Rightarrow> ms | None \<Rightarrow> [])
      (hash_map_of [get_env_val CONFIG_ENV CONFIG_DEFAULT], [dx_config_volume ctx])"
  obtain envs0 volumes where mounts: "?mounts = Ok (envs0, volumes)"
  proof (cases ?mounts)
    case (Inl e)
    with assms(1) show ?thesis unfolding setup_pbs_def Let_def by simp
  next
    case (Inr m)
    with that show ?thesis by (cases m) simp
  qed
  let ?port = "decimal (unat (pc_port ?pbs))"
  let ?ports0 = "[display_socket_addr (SocketAddr (pc_host ?pbs) (pc_port ?pbs)) @ '':'' @ ?port]"
  obtain ports envs2 st1 where
    e: "expose_metrics (dx_config ctx) ''cb_pbs'' (\<lambda>p. p + 1)
      (?ports0, insert_env_opt (dx_chain_spec_env ctx) envs0, ?st0) = (ports, envs2, st1)"
    by (rule prod_cases3)
  have "map_of envs0 k = None"
    using mux_mounts_lookup [OF mounts assms(4)] assms(3) by (simp add: map_of_hash_map_of get_env_val_def)
  then have base: "map_of (log_envs (dx_config ctx) envs2) k = None"
    using expose_metrics_env [OF e, of k] assms(2,3) by (simp add: log_envs_lookup chain_spec_lookup)
  have events: "is_builder_events st1 = is_builder_events st" using expose_metrics_frame [OF e] by simp
  from assms(1) show ?thesis
    unfolding setup_pbs_def Let_def mounts and_then_simps prod.case e sum.inject events
    by (elim subst) (use base assms(3) in \<open>auto simp: update_conv'\<close>)
qed

section \<open>From the publisher to the processors\<close>

text \<open>Names that are found in the network of the containers and survive in a list of URLs.\<close>

definition host_name :: "string \<Rightarrow> bool" where
  "host_name s \<longleftrightarrow> list_all (\<lambda>c. is_alphanumeric c \<or> c = CHR ''_'' \<or> c = CHR ''-'') s"

lemma host_name_chars:
  assumes "host_name s"
  shows "CHR ''/'' \<notin> set s" "CHR '':'' \<notin> set s" "CHR '','' \<notin> set s" "CHR ''$'' \<notin> set s"
  using assms by (auto simp: host_name_def list_all_iff is_alphanumeric_def)

text \<open>The URL library: a generated URL parses, and joining the path of the events appends it.\<close>

definition resolves_events :: "weblib \<Rightarrow> config_env \<Rightarrow> string \<Rightarrow> bool" where
  "resolves_events W E url \<longleftrightarrow>
     (\<exists>u. ce_parse_url E url = Some u \<and> url_join W u BUILDER_EVENTS_PATH = Ok (url @ BUILDER_EVENTS_PATH))"

lemma parse_events_port: "parse_u16 (decimal (unat builder_events_port)) = Ok 30000"
  using parse_u16_decimal [of 30000] by (simp add: builder_events_port_def)

lemma events_url_ends:
  "events_url m \<noteq> []" "\<not> is_whitespace (hd (events_url m))" "\<not> is_whitespace (last (events_url m))"
  by (simp_all add: events_url_def decimal_ends) (simp add: is_whitespace_def)

lemma events_url_comma: "host_name (module_cid m) \<Longrightarrow> CHR '','' \<notin> set (events_url m)"
  by (auto simp: events_url_def dest: host_name_chars)

lemma join_with_chars: "c \<in> set (join_with sep ps) \<Longrightarrow> c \<in> set sep \<or> (\<exists>p\<in>set ps. c \<in> set p)"
proof (induction ps)
  case Nil
  then show ?case by (simp add: join_with_def)
next
  case (Cons p ps)
  show ?case
  proof (cases ps)
    case Nil
    with Cons.prems show ?thesis by (simp add: join_with_def)
  next
    case (Cons q qs)
    with Cons.IH Cons.prems show ?thesis by (auto simp: join_with_Cons)
  qed
qed

lemma joined_urls_no_dollar:
  assumes "\<And>m. m \<in> set ms \<Longrightarrow> host_name (module_cid m)"
  shows "CHR ''$'' \<notin> set (join_with '','' (map events_url ms))"
  using assms host_name_chars(4)
  by (auto simp: events_url_def dest!: join_with_chars)

lemma publisher_of_urls:
  assumes "ms \<noteq> []" and "load_optional_env_var E BUILDER_URLS_ENV = Some (join_with '','' (map events_url ms))"
    and "\<And>m. m \<in> set ms \<Longrightarrow> host_name (module_cid m) \<and> resolves_events W E (events_url m)"
    and "client_builds W Map.empty"
  shows "publisher_new_from_env W E = Ok (Some (map (\<lambda>m. events_url m @ BUILDER_EVENTS_PATH) ms))"
proof -
  let ?urls = "map events_url ms"
  have trimmed: "trim (join_with '','' ?urls) = join_with '','' ?urls"
    using assms(1) events_url_ends by (intro trim_join) auto
  have split: "split_char CHR '','' (join_with '','' ?urls) = ?urls"
    using assms(1,3) events_url_comma by (intro split_join) auto
  have "map (\<lambda>base. case ce_parse_url E (trim base) of None \<Rightarrow> Err ''invalid url''
      | Some url \<Rightarrow> url_join W url BUILDER_EVENTS_PATH) ?urls =
    map Ok (map (\<lambda>m. events_url m @ BUILDER_EVENTS_PATH) ms)"
    using assms(3) events_url_ends by (fastforce simp: resolves_events_def trim_id)
  then show ?thesis
    unfolding publisher_new_from_env_def assms(2) option.case trimmed split
    by (simp only: collect_results_map_Ok and_then_simps assms(4) if_True)
qed

text \<open>
  An event module runs on the host that is named like its container, with the settings that it loads
  there; \<open>p\<close> is its processor.
\<close>

definition runs_event_module ::
  "(string \<Rightarrow> string) \<Rightarrow> docker_output \<Rightarrow> (string \<Rightarrow> (string, 'x stub_config) result)
     \<Rightarrow> (string \<rightharpoonup> 'p builder_event_client) \<Rightarrow> 'p \<Rightarrow> static_module_config \<Rightarrow> bool" where
  "runs_event_module interp out toml servers p m \<longleftrightarrow>
     (\<exists>service E cfg. map_of (do_services out) (module_cid m) = Some service \<and>
        ce_var E = container_var interp service \<and> load_builder_module_config E toml = Ok cfg \<and>
        servers (dv_container_name service) = Some (builder_event_client_new (bm_server_port cfg) p))"

lemma event_module_port:
  assumes "events_variables m service" and "ce_var E = container_var interp service"
    and "load_builder_module_config E toml = Ok cfg"
  shows "bm_server_port cfg = 30000"
proof -
  have "ce_var E BUILDER_PORT_ENV = Some (decimal (unat builder_events_port))"
    using assms(1,2) by (simp add: events_variables_def Let_def container_var_def)
  with assms(3) show ?thesis
    by (auto simp: load_builder_module_config_def and_then_Ok_iff load_env_var_def parse_events_port)
qed

lemma running_module_receives:
  assumes "events_variables m service" and "map_of (do_services out) (module_cid m) = Some service"
    and "host_name (module_cid m)" and "runs_event_module interp out toml servers p m"
  shows "post_event on_event servers (events_url m @ BUILDER_EVENTS_PATH) event = Some (on_event p event, 200)"
proof -
  from assms(4) obtain E cfg where E: "ce_var E = container_var interp service"
    and cfg: "load_builder_module_config E toml = Ok cfg"
    and server: "servers (dv_container_name service) = Some (builder_event_client_new (bm_server_port cfg) p)"
    unfolding runs_event_module_def assms(2) by auto
  have name: "dv_container_name service = module_cid m" using assms(1) by (simp add: events_variables_def)
  have "parse_u16 (decimal (unat builder_events_port)) = Ok (ec_port (builder_event_client_new (bm_server_port cfg) p))"
    unfolding parse_events_port event_module_port [OF assms(1) E cfg] by (simp add: builder_event_client_new_def)
  from post_event_generated [OF _ _ _ this, of servers "module_cid m" on_event event] server [unfolded name]
    host_name_chars [OF assms(3)]
  show ?thesis by (simp add: events_url_def builder_event_client_new_def)
qed

lemma setup_events_deployment:
  assumes "handle_docker_init E dp secrets writes (Ok config) csp cp od = Returned (Ok out)"
    and "fc_modules config = Some ms" and "distinct (map (\<lambda>m. to_lowercase (sm_id m)) ms)"
    and "\<forall>m\<in>set ms. host_name (module_cid m) \<and> module_cid m \<notin> {''cb_pbs'', ''cb_signer''}"
  shows "\<exists>pbs. map_of (do_services out) ''cb_pbs'' = Some pbs \<and> dv_networks pbs = [] \<and>
    map_of (dv_environment pbs) BUILDER_URLS_ENV =
      (if event_modules ms = [] then None else Some (SvString (join_with '','' (map events_url (event_modules ms))))) \<and>
    (\<forall>m\<in>set (event_modules ms). \<exists>service. map_of (do_services out) (module_cid m) = Some service \<and>
       events_variables m service)"
proof -
  let ?ctx = "init_context_of config cp csp secrets"
  let ?st0 = "setup_modules ?ctx (init_state_of config)"
  from docker_init_Ok [OF assms(1)] obtain st st' where
    st: "setup_pbs E ?ctx ?st0 = Ok st" and st': "setup_signer ?ctx st = Returned st'"
    and out: "do_services out = is_services st'" by metis
  have mods: "?st0 = foldl (setup_module ?ctx) (init_state_of config) ms"
    using assms(2) by (simp add: setup_modules_def)
  have events: "is_builder_events ?st0 = map events_url (event_modules ms)"
    unfolding mods setup_modules_builder_events by (simp add: init_state_of_def)
  have "BUILDER_URLS_ENV \<notin> {CHAIN_SPEC_ENV, METRICS_PORT_ENV, LOGS_DIR_ENV, PBS_ENDPOINT_ENV, CONFIG_ENV}"
    by (simp add: env_names BUILDER_URLS_ENV_def PBS_ENDPOINT_ENV_def)
  moreover have "BUILDER_URLS_ENV \<noteq> get_mux_env mux_id" for mux_id
    by (simp add: BUILDER_URLS_ENV_def get_mux_env_def MUX_PATH_ENV_def)
  ultimately obtain pbs where pbs: "map_of (is_services st) ''cb_pbs'' = Some pbs" "dv_networks pbs = []"
    "map_of (dv_environment pbs) BUILDER_URLS_ENV =
      (if event_modules ms = [] then None else Some (SvString (join_with '','' (map events_url (event_modules ms)))))"
    using setup_pbs_env [OF st context_ok_init, of BUILDER_URLS_ENV] unfolding events by (auto split: if_splits)
  have "\<exists>service. map_of (do_services out) (module_cid m) = Some service \<and> events_variables m service"
    if "m \<in> set (event_modules ms)" for m
  proof -
    have m: "m \<in> set ms" "sm_kind m = Events" using that by auto
    from setup_modules_event_service [OF assms(3) context_ok_init m]
    obtain service where s: "map_of (is_services ?st0) (module_cid m) = Some service" "events_variables m service"
      unfolding mods by blast
    have "map_of (is_services st') (module_cid m) = map_of (is_services ?st0) (module_cid m)"
      using setup_signer_services [OF st', of "module_cid m"] setup_pbs_frame [OF st] assms(4) m(1)
      by (auto simp: update_conv')
    with s show ?thesis by (simp add: out)
  qed
  with pbs setup_signer_services [OF st', of "''cb_pbs''"] out show ?thesis by auto
qed

text \<open>
  C22. Every event that the PBS module of a generated deployment publishes reaches the processor of every
  event module exactly once, and no task fails: the publisher that the PBS module loads from the
  environment of its container has one endpoint per event module, which is where the module listens
  with the port from the environment of its own container. The containers share their networks.
\<close>

theorem deployed_events_delivered:
  assumes "handle_docker_init E dp secrets writes (Ok config) csp cp od = Returned (Ok out)"
    and "fc_modules config = Some ms" and "distinct (map (\<lambda>m. to_lowercase (sm_id m)) ms)"
    and "\<forall>m\<in>set ms. host_name (module_cid m) \<and> module_cid m \<notin> {''cb_pbs'', ''cb_signer''}"
    and "map_of (do_services out) ''cb_pbs'' = Some pbs"
    and "interpolates envs interp" and "ce_var E' = container_var interp pbs" and "client_builds W Map.empty"
    and "\<forall>m\<in>set (event_modules ms). resolves_events W E' (events_url m) \<and>
           runs_event_module interp out toml servers (proc m) m"
  shows "\<exists>publisher. publisher_new_from_env W E' = Ok publisher \<and>
    (\<forall>m\<in>set (event_modules ms). \<exists>service. map_of (do_services out) (module_cid m) = Some service \<and>
       dv_networks service = dv_networks pbs) \<and>
    (\<forall>(st :: 'd pbs_state) event. pm_event_publisher (st_config st) = publisher \<longrightarrow>
       map (\<lambda>eff. case eff of PublishTo endpoint e \<Rightarrow> post_event on_event servers endpoint e | _ \<Rightarrow> None)
           (publish_event st event) =
         map (\<lambda>m. Some (on_event (proc m) event, 200)) (event_modules ms) \<and>
       publish_log (post_status on_event servers) (publish_event st event) = [])"
proof -
  from setup_events_deployment [OF assms(1-4)] assms(5) have
    pbs: "dv_networks pbs = []" "map_of (dv_environment pbs) BUILDER_URLS_ENV =
      (if event_modules ms = [] then None else Some (SvString (join_with '','' (map events_url (event_modules ms)))))"
    and mods: "\<forall>m\<in>set (event_modules ms). \<exists>service. map_of (do_services out) (module_cid m) = Some service \<and>
       events_variables m service" by auto
  let ?url = "\<lambda>m. events_url m @ BUILDER_EVENTS_PATH"
  let ?pub = "if event_modules ms = [] then None else Some (map ?url (event_modules ms))"
  have "CHR ''$'' \<notin> set (join_with '','' (map events_url (event_modules ms)))"
    using assms(4) by (intro joined_urls_no_dollar) auto
  then have var: "load_optional_env_var E' BUILDER_URLS_ENV = (if event_modules ms = [] then None
      else Some (join_with '','' (map events_url (event_modules ms))))"
    using assms(6) by (simp add: load_optional_env_var_def assms(7) container_var_def pbs(2) interpolates_def)
  have loaded: "publisher_new_from_env W E' = Ok ?pub"
  proof (cases "event_modules ms = []")
    case True
    with var show ?thesis by (simp add: publisher_new_from_env_def)
  next
    case False
    with publisher_of_urls [of "event_modules ms" E' W] var assms(4,8,9) show ?thesis by auto
  qed
  have receives: "post_event on_event servers (?url m) event = Some (on_event (proc m) event, 200)"
    if "m \<in> set (event_modules ms)" for m event
  proof -
    from mods that obtain service where "events_variables m service"
      "map_of (do_services out) (module_cid m) = Some service" by blast
    moreover have "host_name (module_cid m)" "runs_event_module interp out toml servers (proc m) m"
      using that assms(4,9) by auto
    ultimately show ?thesis by (rule running_module_receives)
  qed
  have tasks: "publish_event st event = map (\<lambda>m. PublishTo (?url m) event) (event_modules ms)"
    if "pm_event_publisher (st_config st) = ?pub" for st :: "'d pbs_state" and event
    using that by (auto simp: publish_event_def publish_def)
  have "publish_log (post_status on_event servers) (map (\<lambda>m. PublishTo (?url m) event) (event_modules ms)) = []" for event
    using receives by (auto simp: publish_log_def map_filter_def publish_failed_def post_status_def is_error_status_def)
  with loaded mods pbs receives tasks show ?thesis
    by (intro exI [of _ ?pub]) (auto simp: events_variables_def comp_def)
qed

definition demo_events_toml :: "string \<Rightarrow> (string, unit stub_config) result" where
  "demo_events_toml _ = Ok \<lparr>sc_chain = Mainnet, sc_modules = [Target (demo_static_module Events ''b'' 1) ()]\<rparr>"

lemma demo_event_module_starts:
  assumes "events_variables (demo_static_module Events ''b'' 1) service"
  shows "\<exists>cfg. load_builder_module_config (demo_deploy_env (container_var (compose_interp []) service)) demo_events_toml = Ok cfg"
  using assms
  by (auto simp: load_builder_module_config_def events_variables_def Let_def demo_deploy_env_def load_env_var_def
      container_var_def compose_interp_def CONFIG_DEFAULT_def parse_events_port load_file_from_env_def load_from_file_def
      demo_events_toml_def find_module_def map_filter_simps ensure_def)

theorem deployed_events_delivered_witness:
  "\<exists>out pbs publisher servers. demo_init (SignerLocal (KeysFile ''keys'') None) [demo_static_module Events ''b'' 1] = Returned (Ok out) \<and>
     map_of (do_services out) ''cb_pbs'' = Some pbs \<and>
     publisher_new_from_env demo_web (demo_deploy_env (container_var (compose_interp []) pbs)) = Ok publisher \<and>
     (\<forall>st :: unit pbs_state. pm_event_publisher (st_config st) = publisher \<longrightarrow>
       map (\<lambda>eff. case eff of PublishTo endpoint e \<Rightarrow> post_event log_processor servers endpoint e | _ \<Rightarrow> None)
         (publish_event st GetStatusEvent) = [Some ([(''Received builder event'', GetStatusEvent)], 200)])"
proof -
  let ?inner = "SignerLocal (KeysFile ''keys'') None" and ?m = "demo_static_module Events ''b'' 1"
  let ?vars = "container_var (compose_interp [])"
  obtain out where out: "demo_init ?inner [?m] = Returned (Ok out)"
    using demo_init_Ok [of ?inner "[?m]"] by (auto simp: signer_unsupported_def)
  have cid: "module_cid ?m = ''cb_b''"
    unfolding module_cid_def demo_deploy_fields to_lowercase_def by code_simp
  have distinct: "distinct (map (\<lambda>m. to_lowercase (sm_id m)) [?m])" by simp
  have hosts: "\<forall>m\<in>set [?m]. host_name (module_cid m) \<and> module_cid m \<notin> {''cb_pbs'', ''cb_signer''}"
    by (simp add: cid host_name_def is_alphanumeric_def)
  note init = out [unfolded demo_init_def]
  from setup_events_deployment [OF init demo_deploy_fields(1) distinct hosts] obtain pbs service where
    pbs: "map_of (do_services out) ''cb_pbs'' = Some pbs"
    and service: "map_of (do_services out) (module_cid ?m) = Some service" "events_variables ?m service" by auto
  from demo_event_module_starts [OF service(2)] obtain cfg where
    cfg: "load_builder_module_config (demo_deploy_env (?vars service)) demo_events_toml = Ok cfg" ..
  let ?servers = "[dv_container_name service \<mapsto> builder_event_client_new (bm_server_port cfg) ()]"
  have "runs_event_module (compose_interp []) out demo_events_toml ?servers () ?m"
    unfolding runs_event_module_def using service(1) cfg
    by (intro exI [of _ service] exI [of _ "demo_deploy_env (?vars service)"] exI [of _ cfg])
      (simp add: demo_deploy_env_def)
  moreover have "resolves_events demo_web (demo_deploy_env (?vars pbs)) (events_url ?m)"
    by (simp add: resolves_events_def demo_web_def demo_deploy_env_def)
  ultimately have runs: "\<forall>m\<in>set (event_modules [?m]). resolves_events demo_web (demo_deploy_env (?vars pbs)) (events_url m) \<and>
      runs_event_module (compose_interp []) out demo_events_toml ?servers ((\<lambda>_. ()) m) m" by simp
  have env: "ce_var (demo_deploy_env (?vars pbs)) = ?vars pbs" "client_builds demo_web Map.empty"
    by (simp_all add: demo_deploy_env_def demo_web_def)
  from deployed_events_delivered [where on_event = log_processor, OF init demo_deploy_fields(1) distinct hosts pbs
      compose_interp_interpolates env runs]
  obtain publisher where "publisher_new_from_env demo_web (demo_deploy_env (?vars pbs)) = Ok publisher"
    "\<And>(st :: unit pbs_state) event. pm_event_publisher (st_config st) = publisher \<Longrightarrow>
       map (\<lambda>eff. case eff of PublishTo endpoint e \<Rightarrow> post_event log_processor ?servers endpoint e | _ \<Rightarrow> None)
           (publish_event st event) = map (\<lambda>m. Some (log_processor () event, 200)) (event_modules [?m])" by blast
  with out pbs show ?thesis
    by (intro exI [of _ out] exI [of _ pbs] exI [of _ publisher] exI [of _ ?servers]) (simp add: log_processor_def)
qed

section \<open>A PBS module with a signer\<close>

lemma pbs_container_has_no_token:
  assumes "handle_docker_init E dp secrets writes (Ok config) csp cp od = Returned (Ok out)"
  shows "\<exists>pbs. map_of (do_services out) ''cb_pbs'' = Some pbs \<and> map_of (dv_environment pbs) MODULE_JWT_ENV = None"
proof -
  let ?ctx = "init_context_of config cp csp secrets"
  from docker_init_Ok [OF assms(1)] obtain st st' where
    st: "setup_pbs E ?ctx (setup_modules ?ctx (init_state_of config)) = Ok st"
    and st': "setup_signer ?ctx st = Returned st'" and out: "do_services out = is_services st'" by metis
  have "MODULE_JWT_ENV \<noteq> get_mux_env mux_id" for mux_id
    by (simp add: MODULE_JWT_ENV_def get_mux_env_def MUX_PATH_ENV_def)
  from setup_pbs_env [OF st context_ok_init _ this] obtain pbs where
    "map_of (is_services st) ''cb_pbs'' = Some pbs" "map_of (dv_environment pbs) MODULE_JWT_ENV = None"
    by (auto simp: env_names PBS_ENDPOINT_ENV_def BUILDER_URLS_ENV_def split: if_splits)
  with setup_signer_services [OF st', of "''cb_pbs''"] out show ?thesis by auto
qed

text \<open>
  A custom PBS module that is configured with a signer does not start in its generated container:
  neither the token secret nor the address of the signer is passed on to it, so that it cannot load
  its configuration, whatever else is in its environment.
\<close>

theorem deployed_pbs_has_no_signer:
  assumes "handle_docker_init E dp secrets writes (Ok config) csp cp od = Returned (Ok out)"
    and "sp_with_signer (fc_pbs config)" and "map_of (do_services out) ''cb_pbs'' = Some pbs"
    and "ce_var E' = container_var interp pbs"
  shows "load_pbs_custom_config W E' (Ok (pbs_part config, extra)) \<noteq> Some (Ok started)"
proof -
  from pbs_container_has_no_token [OF assms(1)] assms(3)
  have "map_of (dv_environment pbs) MODULE_JWT_ENV = None" by auto
  then have "load_custom_signer_client E' (cb_with_signer (pbs_part config)) = Err (MODULE_JWT_ENV @ '' is not set'')"
    using assms(2,4) by (simp add: load_custom_signer_client_def pbs_part_def load_env_var_def container_var_def)
  then show ?thesis
    by (auto simp: load_pbs_custom_config_def and_then_Ok_iff split: sum.splits prod.splits)
qed

theorem deployed_pbs_has_no_signer_witness:
  "\<exists>config out pbs. sp_with_signer (fc_pbs config) \<and>
     handle_docker_init (demo_deploy_env (\<lambda>_. None)) (\<lambda>_. True) demo_secret (\<lambda>_. True) (Ok config) None ''cb.toml'' ''out'' =
       Returned (Ok out) \<and> map_of (do_services out) ''cb_pbs'' = Some pbs \<and>
     (\<nexists>started. load_pbs_custom_config demo_web (demo_deploy_env (container_var id pbs)) (Ok (pbs_part config, ())) =
       Some (Ok started))"
proof -
  define base where "base = demo_deploy (SignerLocal (KeysFile ''keys'') None) []"
  define config where "config = base\<lparr>fc_pbs := (fc_pbs base)\<lparr>sp_with_signer := True\<rparr>\<rparr>"
  let ?ctx = "init_context_of config ''cb.toml'' None demo_secret" and ?E = "demo_deploy_env (\<lambda>_. None)"
  let ?init = "handle_docker_init ?E (\<lambda>_. True) demo_secret (\<lambda>_. True) (Ok config) None ''cb.toml'' ''out''"
  have valid: "config_validate ?E (\<lambda>_. True) config = Ok ()"
    using demo_deploy_valid by (simp add: config_def base_def config_validate_def)
  have fields: "fc_muxes config = None" "sp_with_signer (fc_pbs config)" "\<not> signer_unsupported config"
    by (simp_all add: config_def base_def signer_unsupported_def)
  obtain st where st: "setup_pbs ?E ?ctx (setup_modules ?ctx (init_state_of config)) = Ok st"
    using setup_pbs_Ok [of ?ctx ?E] fields(1) by auto
  obtain st' where "setup_signer ?ctx st = Returned st'"
    using setup_signer_panics_iff [of ?ctx st] fields(3) by (cases "setup_signer ?ctx st") auto
  with st obtain out where out: "?init = Returned (Ok out)"
    by (simp add: handle_docker_init_def valid Let_def ensure_def)
  from pbs_container_has_no_token [OF out] obtain pbs where pbs: "map_of (do_services out) ''cb_pbs'' = Some pbs" by blast
  have "ce_var (demo_deploy_env (container_var id pbs)) = container_var id pbs" by (simp add: demo_deploy_env_def)
  from deployed_pbs_has_no_signer [OF out fields(2) pbs this, where W = demo_web and extra = "()"] out fields(2) pbs
  show ?thesis by (intro exI [of _ config] exI [of _ out] exI [of _ pbs]) simp
qed

end
