(* ===== verification/Builder_Api.thy ===== *)
theory Builder_Api
  imports Routes
begin

text \<open>
  The extension point of the PBS module: the trait \<open>BuilderApi\<close> with its default methods
  (\<open>crates/pbs/src/api.rs\<close>), the handlers that are generic over it, and the example
  \<open>examples/status_api\<close>, which counts status requests in a cell that all clones of its state share.

  A value of the trait is a record of its methods. Methods may use a world of shared cells of type \<open>'w\<close>,
  which the default methods leave alone. The methods for headers, registrations and blocks are not
  overridden by any implementation in the repository, their handlers are in theory Routes.
\<close>

section \<open>The trait\<close>

type_synonym ('w, 'd) status_method =
  "weblib \<Rightarrow> (nat \<Rightarrow> http) \<Rightarrow> nat list \<Rightarrow> header_map \<Rightarrow> 'd pbs_state \<Rightarrow> 'w
     \<Rightarrow> 'w \<times> (string + pbs_error, unit) result outcome run"

type_synonym ('c, 'd) reload_method =
  "weblib \<Rightarrow> config_env \<Rightarrow> (string, 'c) result \<Rightarrow> 'd pbs_state \<Rightarrow> (string, 'd pbs_state) result option"

record ('w, 'c, 'd) builder_api =
  ba_extra_routes :: "route list option"
  ba_get_status :: "('w, 'd) status_method"
  ba_reload :: "('c, 'd) reload_method"

definition default_get_status :: "('w, 'd) status_method" where
  "default_get_status W http order req_headers state w = (w, get_status W http order req_headers state)"

text \<open>What the default \<open>reload\<close> reads: the configuration and the outcome of validating its signer section.\<close>

definition default_reload :: "(commit_boost_config \<times> (string, unit) result, 'd) reload_method" where
  "default_reload W E loaded state =
     (case loaded of
        Inl e \<Rightarrow> reload W E (Err e) (Ok ()) state
      | Inr (config, signer_valid) \<Rightarrow> reload W E (Ok config) signer_valid state)"

definition default_builder_api :: "(unit, commit_boost_config \<times> (string, unit) result, unit) builder_api" where
  "default_builder_api =
     \<lparr>ba_extra_routes = None, ba_get_status = default_get_status, ba_reload = default_reload\<rparr>"

section \<open>Generic handlers\<close>

definition api_get_status ::
  "('w, 'c, 'd) builder_api \<Rightarrow> weblib \<Rightarrow> (nat \<Rightarrow> http) \<Rightarrow> nat list \<Rightarrow> 'd pbs_state \<Rightarrow> header_map \<Rightarrow> 'w
     \<Rightarrow> 'w \<times> reply outcome run" where
  "api_get_status A W http order state req_headers w =
     (let (w', effs, out) = ba_get_status A W http order req_headers state w;
          request = publish_event state GetStatusEvent
      in
      (w',
       case out of
         Panicked \<Rightarrow> (request @ effs, Panicked)
       | Returned res \<Rightarrow>
           (let answer =
              (case res of
                 Inr _ \<Rightarrow>
                   (publish_event state GetStatusResponse @ [BEACON_NODE_STATUS ''200'' STATUS_ENDPOINT_TAG],
                    \<lparr>rp_status = 200, rp_body = EmptyBody\<rparr>)
               | Inl _ \<Rightarrow> fail_with NoResponse STATUS_ENDPOINT_TAG)
            in (request @ effs @ fst answer, Returned (snd answer)))))"

definition api_reload ::
  "('w, 'c, 'd) builder_api \<Rightarrow> weblib \<Rightarrow> config_env \<Rightarrow> (string, 'c) result \<Rightarrow> 'd pbs_state
     \<Rightarrow> (effect list \<times> reply \<times> 'd pbs_state option) option" where
  "api_reload A W E loaded prev_state =
     map_option (\<lambda>res.
       case res of
         Inr new_state \<Rightarrow>
           (publish_event prev_state ReloadEvent @ publish_event prev_state ReloadResponse @
              [BEACON_NODE_STATUS ''200'' RELOAD_ENDPOINT_TAG],
            \<lparr>rp_status = 200, rp_body = TextBody ''OK''\<rparr>, Some new_state)
       | Inl err \<Rightarrow>
           (publish_event prev_state ReloadEvent @ fst (fail_with Internal RELOAD_ENDPOINT_TAG),
            snd (fail_with Internal RELOAD_ENDPOINT_TAG), None))
       (ba_reload A W E loaded prev_state)"

definition api_router :: "('w, 'c, 'd) builder_api \<Rightarrow> route list" where
  "api_router A = create_app_router (ba_extra_routes A)"

text \<open>On the default implementation these are the handlers of theory Routes.\<close>

lemma api_get_status_default:
  "api_get_status default_builder_api W http order state hs w = (w, handle_get_status W http order state hs)"
  by (simp add: api_get_status_def default_builder_api_def default_get_status_def handle_get_status_def
      Let_def case_prod_beta split: outcome.split)

lemma api_reload_default:
  "api_reload default_builder_api W E (Ok (config, sv)) state = handle_reload W E (Ok config) sv state"
  by (simp add: api_reload_def default_builder_api_def default_reload_def handle_reload_def)

section \<open>A service that is generic over the trait\<close>

record ('w, 'd) api_service =
  as_state :: "'d pbs_state"
  as_inflight :: "(handler \<times> 'd pbs_state) list"
  as_world :: 'w

text \<open>
  Requests start on a clone of the state. The label of a step is the snapshot of a status request that
  ran, if the step is one. A reload that fails only removes its request.
\<close>

inductive api_step ::
  "('w, 'c, 'd) builder_api \<Rightarrow> weblib \<Rightarrow> ('w, 'd) api_service \<Rightarrow> 'd pbs_state list \<Rightarrow> ('w, 'd) api_service \<Rightarrow> bool"
  for A W where
  arrive: "api_step A W s [] (s\<lparr>as_inflight := (h, as_state s) # as_inflight s\<rparr>)"
| respond: "(h, snap) \<in> set (as_inflight s) \<Longrightarrow> h \<notin> {HandleReload, HandleGetStatus} \<Longrightarrow>
    api_step A W s [] (s\<lparr>as_inflight := remove1 (h, snap) (as_inflight s)\<rparr>)"
| status: "(HandleGetStatus, snap) \<in> set (as_inflight s) \<Longrightarrow>
    api_get_status A W http order snap hs (as_world s) = (w', run) \<Longrightarrow>
    api_step A W s [snap]
      (s\<lparr>as_inflight := remove1 (HandleGetStatus, snap) (as_inflight s), as_world := w'\<rparr>)"
| reloaded: "(HandleReload, snap) \<in> set (as_inflight s) \<Longrightarrow>
    api_reload A W E loaded snap = Some (effs, answer, new) \<Longrightarrow>
    api_step A W s []
      (s\<lparr>as_state := (case new of Some st \<Rightarrow> st | None \<Rightarrow> as_state s),
         as_inflight := remove1 (HandleReload, snap) (as_inflight s)\<rparr>)"

inductive_cases api_stepE: "api_step A W s l s'"

text \<open>The states that a service reaches, with the snapshots of the status requests that ran so far.\<close>

inductive api_reachable ::
  "('w, 'c, 'd) builder_api \<Rightarrow> weblib \<Rightarrow> ('w, 'd) api_service \<Rightarrow> 'd pbs_state list \<Rightarrow> ('w, 'd) api_service \<Rightarrow> bool"
  for A W s0 where
  start: "api_reachable A W s0 [] s0"
| step: "api_reachable A W s0 hist s \<Longrightarrow> api_step A W s l s' \<Longrightarrow> api_reachable A W s0 (hist @ l) s'"

subsection \<open>The contract of an implementation\<close>

text \<open>
  \<open>ok\<close> is what the implementation promises of every state, \<open>spec\<close> what a status request does to the world,
  from a state that is \<open>ok\<close>.
\<close>

locale builder_api_contract =
  fixes A :: "('w, 'c, 'd) builder_api" and ok :: "'d pbs_state \<Rightarrow> bool" and spec :: "'d pbs_state \<Rightarrow> 'w \<Rightarrow> 'w"
  assumes reload_ok: "ok state \<Longrightarrow> ba_reload A W E loaded state = Some (Ok new) \<Longrightarrow> ok new"
    and status_world: "ok state \<Longrightarrow> fst (ba_get_status A W http order hs state w) = spec state w"
begin

definition service_ok :: "('w, 'd) api_service \<Rightarrow> bool" where
  "service_ok s \<longleftrightarrow> (\<forall>st\<in>insert (as_state s) (snd ` set (as_inflight s)). ok st)"

lemma api_reload_ok:
  assumes "ok snap" and "api_reload A W E loaded snap = Some (effs, answer, Some new)"
  shows "ok new"
proof -
  from assms(2) obtain res where res: "ba_reload A W E loaded snap = Some res" by (auto simp: api_reload_def)
  with assms(2) have "res = Ok new" by (cases res) (auto simp: api_reload_def)
  with res assms(1) reload_ok show ?thesis by blast
qed

lemma api_get_status_world:
  assumes "ok snap" and "api_get_status A W http order snap hs w = (w', run)"
  shows "w' = spec snap w"
  using assms(2) status_world [OF assms(1), of W http order hs w]
  by (auto simp: api_get_status_def Let_def split: prod.splits)

lemma service_ok_step:
  assumes "service_ok s" and "api_step A W s l s'"
  shows "service_ok s' \<and> (\<forall>st\<in>set l. ok st) \<and> as_world s' = fold spec l (as_world s)"
  using assms(2)
proof (cases rule: api_step.cases)
  case (status snap http order hs w' run)
  then have "ok snap" using assms(1) by (force simp: service_ok_def)
  from api_get_status_world [OF this status(4)] this assms(1) show ?thesis
    by (auto simp: status(1,2) service_ok_def dest!: set_remove1_subset [THEN subsetD])
next
  case (reloaded snap E loaded effs answer new)
  then have "ok snap" using assms(1) by (force simp: service_ok_def)
  with reloaded(4) api_reload_ok have "new = Some st \<Longrightarrow> ok st" for st by blast
  with assms(1) show ?thesis
    by (auto simp: reloaded(1,2) service_ok_def split: option.split dest!: set_remove1_subset [THEN subsetD])
qed (use assms(1) in \<open>auto simp: service_ok_def dest!: set_remove1_subset [THEN subsetD]\<close>)

lemma reachable_world:
  assumes "api_reachable A W s0 hist s" and "service_ok s0"
  shows "service_ok s \<and> (\<forall>st\<in>set hist. ok st) \<and> as_world s = fold spec hist (as_world s0)"
  using assms
proof (induction rule: api_reachable.induct)
  case start
  then show ?case by simp
next
  case (step hist s l s')
  with service_ok_step [of s W l s'] show ?case by auto
qed

end

interpretation default_api: builder_api_contract default_builder_api "\<lambda>st. pbs_module_wf (st_config st)" "\<lambda>st w. w"
proof unfold_locales
  show "pbs_module_wf (st_config new)"
    if "ba_reload default_builder_api W E loaded state = Some (Ok new)" for W E loaded state new
  proof -
    from that obtain config sv where "reload W E config sv state = Some (Ok new)"
      by (auto simp: default_builder_api_def default_reload_def split: sum.splits prod.splits)
    from reload_Ok [OF this] show ?thesis by simp
  qed
qed (simp add: default_builder_api_def default_get_status_def)

section \<open>The status API example\<close>

text \<open>
  The state has an amount and a counter that its clones share: \<open>my_counter\<close> is the index of a cell in a list
  of cells of type \<open>AtomicU64\<close>. The configuration of a reload carries the new amount.
\<close>

record my_builder_state =
  my_inc_amount :: u64
  my_counter :: nat

definition my_from_config :: "u64 \<Rightarrow> u64 list \<Rightarrow> u64 list \<times> my_builder_state" where
  "my_from_config inc_amount cells = (cells @ [0], \<lparr>my_inc_amount = inc_amount, my_counter = length cells\<rparr>)"

definition my_inc :: "my_builder_state \<Rightarrow> u64 list \<Rightarrow> u64 list" where
  "my_inc self cells = cells[my_counter self := cells ! my_counter self + my_inc_amount self]"

definition my_get :: "my_builder_state \<Rightarrow> u64 list \<Rightarrow> u64" where
  "my_get self cells = cells ! my_counter self"

text \<open>The world of the example: the cells, and the Prometheus counter \<open>CHECK_RECEIVED_COUNTER\<close>.\<close>

type_synonym my_world = "u64 list \<times> u64"

definition my_get_status :: "(my_world, my_builder_state) status_method" where
  "my_get_status W http order req_headers state w =
     (case w of (cells, checks) \<Rightarrow>
        ((my_inc (st_data state) cells, checks + 1), get_status W http order req_headers state))"

definition my_reload :: "(commit_boost_config \<times> u64, my_builder_state) reload_method" where
  "my_reload W E loaded state =
     map_option (\<lambda>res. and_then res (\<lambda>(pbs_config, inc_amount).
         Ok (with_data (pbs_state_new pbs_config) ((st_data state)\<lparr>my_inc_amount := inc_amount\<rparr>))))
       (load_pbs_custom_config W E loaded)"

definition my_extra_routes :: "route list option" where
  "my_extra_routes =
     Some [\<lparr>rt_method = GET, rt_path = ''/check'', rt_handler = HandleExtra ''handle_check'',
            rt_body_limit = DEFAULT_BODY_LIMIT\<rparr>]"

definition my_builder_api :: "(my_world, commit_boost_config \<times> u64, my_builder_state) builder_api" where
  "my_builder_api =
     \<lparr>ba_extra_routes = my_extra_routes, ba_get_status = my_get_status, ba_reload = my_reload\<rparr>"

definition handle_check :: "my_builder_state pbs_state \<Rightarrow> my_world \<Rightarrow> reply" where
  "handle_check state w =
     \<lparr>rp_status = 200,
      rp_body = TextBody (''Received '' @ decimal (unat (my_get (st_data state) (fst w))) @ '' status requests!'')\<rparr>"

text \<open>What \<open>main\<close> starts the service with, before any cell is allocated.\<close>

definition my_start :: "pbs_module_config \<Rightarrow> u64 \<Rightarrow> (my_world, my_builder_state) api_service" where
  "my_start pbs_config inc_amount =
     (let (cells, custom_state) = my_from_config inc_amount [] in
      \<lparr>as_state = with_data (pbs_state_new pbs_config) custom_state, as_inflight = [], as_world = (cells, 0)\<rparr>)"

text \<open>Every state has the one counter; an increment is that of the snapshot.\<close>

interpretation my_api: builder_api_contract my_builder_api "\<lambda>st. my_counter (st_data st) = 0"
  "\<lambda>st (cells, checks). (my_inc (st_data st) cells, checks + 1)"
  by unfold_locales
    (auto simp: my_builder_api_def my_reload_def my_get_status_def and_then_Ok_iff with_data_def split: prod.split)

lemma my_incs_sum:
  assumes "\<forall>st\<in>set hist. my_counter (st_data st) = 0"
  shows "fold (\<lambda>st (cells, checks). (my_inc (st_data st) cells, checks + 1)) hist ([c], n) =
    ([c + sum_list (map (\<lambda>st. my_inc_amount (st_data st)) hist)], n + of_nat (length hist))"
  using assms by (induction hist arbitrary: c n) (auto simp: my_inc_def ac_simps)

end
