(* ===== verification/Metrics.thy ===== *)
theory Metrics
  imports Deployment
begin

text \<open>
  The metrics server of a module (\<open>crates/metrics/src/provider.rs\<close>), the request counter of the signer
  service (\<open>crates/signer/src/metrics.rs\<close> and the logging layer of \<open>service.rs\<close>), and the ports for
  metrics that a generated deployment gives its containers. The Prometheus library is the parameter
  \<open>promlib\<close> over an abstract type of registries.
\<close>

section \<open>The metrics server\<close>

record 'r promlib =
  pl_register_info :: "(string \<times> string) list \<Rightarrow> 'r \<Rightarrow> (string, 'r) result"
  pl_encode :: "'r \<Rightarrow> (string, bytes) result"
  pl_format_type :: string
  pl_header_ok :: "string \<Rightarrow> bool"

record 'r metrics_provider =
  mp_network :: chain
  mp_server_port :: u16
  mp_registry :: 'r

definition metrics_provider_new :: "chain \<Rightarrow> u16 \<Rightarrow> 'r \<Rightarrow> 'r metrics_provider" where
  "metrics_provider_new network config registry =
     \<lparr>mp_network = network, mp_server_port = config, mp_registry = registry\<rparr>"

definition from_registry :: "config_env \<Rightarrow> chain \<Rightarrow> 'r \<Rightarrow> (string, 'r metrics_provider option) result" where
  "from_registry E network registry =
     and_then (metrics_load_from_env E) (\<lambda>config.
       Ok (map_option (\<lambda>c. metrics_provider_new network c registry) config))"

text \<open>What \<open>load_and_run\<close> leaves: a task that runs the provider, or a warning.\<close>

datatype 'r metrics_task = SpawnedProvider "'r metrics_provider" | NoMetricsServer

definition load_and_run :: "config_env \<Rightarrow> chain \<Rightarrow> 'r \<Rightarrow> (string, 'r metrics_task) result" where
  "load_and_run E network registry =
     and_then (from_registry E network registry) (\<lambda>maybe_provider.
       Ok (case maybe_provider of Some provider \<Rightarrow> SpawnedProvider provider | None \<Rightarrow> NoMetricsServer))"

definition info_labels :: "string \<Rightarrow> string \<Rightarrow> chain \<Rightarrow> (string \<times> string) list" where
  "info_labels version commit network =
     [(''version'', version), (''commit'', commit), (''network'', display_chain network)]"

text \<open>
  \<open>run\<close>: the gauge of the build is registered before the address is bound; a registry that refuses it
  makes the task panic. \<open>binds\<close> and \<open>served\<close> are the outcomes of binding and of serving until the end.
\<close>

definition metrics_run ::
  "'r promlib \<Rightarrow> string \<Rightarrow> string \<Rightarrow> (socket_addr \<Rightarrow> (string, unit) result) \<Rightarrow> (string, unit) result
     \<Rightarrow> 'r metrics_provider \<Rightarrow> (string, unit) result outcome" where
  "metrics_run P version commit binds served provider =
     (case pl_register_info P (info_labels version commit (mp_network provider)) (mp_registry provider) of
        Inl _ \<Rightarrow> Panicked
      | Inr _ \<Rightarrow>
          Returned
            (and_then (binds (SocketAddr 0 (mp_server_port provider))) (\<lambda>_.
             and_then served (\<lambda>_. Err ''Metrics server stopped''))))"

datatype metrics_error = FailedEncoding string | FailedBody

record metrics_reply =
  mr_status :: u16
  mr_content_type :: "string option"
  mr_body :: bytes

definition prepare_metrics :: "'r promlib \<Rightarrow> 'r \<Rightarrow> (metrics_error, metrics_reply) result" where
  "prepare_metrics P registry =
     and_then (map_err FailedEncoding (pl_encode P registry)) (\<lambda>buffer.
       if pl_header_ok P (pl_format_type P)
       then Ok \<lparr>mr_status = 200, mr_content_type = Some (pl_format_type P), mr_body = buffer\<rparr>
       else Err FailedBody)"

definition handle_metrics :: "'r promlib \<Rightarrow> 'r \<Rightarrow> metrics_reply" where
  "handle_metrics P registry =
     (case prepare_metrics P registry of
        Inr response \<Rightarrow> response
      | Inl _ \<Rightarrow> \<lparr>mr_status = 500, mr_content_type = None, mr_body = []\<rparr>)"

text \<open>The router of the server, on the registry that \<open>run\<close> registered the gauge with.\<close>

definition metrics_router :: "'r promlib \<Rightarrow> 'r \<Rightarrow> http_method \<Rightarrow> string \<Rightarrow> metrics_reply" where
  "metrics_router P registry method path =
     (if path \<notin> {''/metrics'', ''/status''} then \<lparr>mr_status = 404, mr_content_type = None, mr_body = []\<rparr>
      else if method \<noteq> GET then \<lparr>mr_status = 405, mr_content_type = None, mr_body = []\<rparr>
      else if path = ''/metrics'' then handle_metrics P registry
      else \<lparr>mr_status = 200, mr_content_type = None, mr_body = []\<rparr>)"

lemma metrics_router_total:
  "mr_status (metrics_router P registry GET ''/metrics'') \<in> {200, 500} \<and>
   (mr_status (metrics_router P registry GET ''/metrics'') = 200 \<longleftrightarrow> is_ok (prepare_metrics P registry))"
  by (auto simp: metrics_router_def handle_metrics_def prepare_metrics_def and_then_Ok_iff is_ok_def
      and_then_def map_err_def split: sum.splits if_splits)

section \<open>The request counter of the signer\<close>

definition GET_PUBKEYS_ENDPOINT_TAG :: string where
  "GET_PUBKEYS_ENDPOINT_TAG = ''get_pubkeys''"

definition GENERATE_PROXY_KEY_ENDPOINT_TAG :: string where
  "GENERATE_PROXY_KEY_ENDPOINT_TAG = ''generate_proxy_key''"

definition REQUEST_SIGNATURE_ENDPOINT_TAG :: string where
  "REQUEST_SIGNATURE_ENDPOINT_TAG = ''request_signature''"

definition uri_to_tag :: "string \<Rightarrow> string" where
  "uri_to_tag path =
     (if path = GET_PUBKEYS_PATH then GET_PUBKEYS_ENDPOINT_TAG
      else if path = GENERATE_PROXY_KEY_PATH then GENERATE_PROXY_KEY_ENDPOINT_TAG
      else if path = REQUEST_SIGNATURE_PATH then REQUEST_SIGNATURE_ENDPOINT_TAG
      else ''unknown endpoint'')"

text \<open>The paths of the signer service; all but the status route are behind the logging layer.\<close>

fun signer_route_path :: "signer_route \<Rightarrow> string" where
  "signer_route_path (RequestSignature _) = REQUEST_SIGNATURE_PATH"
| "signer_route_path GetPubkeys = GET_PUBKEYS_PATH"
| "signer_route_path (GenerateProxy _) = GENERATE_PROXY_KEY_PATH"
| "signer_route_path (Reload _) = ''/reload''"
| "signer_route_path (RevokeModule _) = ''/revoke_jwt''"
| "signer_route_path SignerStatus = ''/status''"

text \<open>\<open>log_request\<close>: the increments of \<open>signer_status_code_total\<close> that a request causes.\<close>

definition log_request ::
  "signer_route \<Rightarrow> (signer_module_error, signer_reply) result outcome \<Rightarrow> (string \<times> string) list" where
  "log_request route response =
     (case route of
        SignerStatus \<Rightarrow> []
      | _ \<Rightarrow>
          (case response of
             Panicked \<Rightarrow> []
           | Returned r \<Rightarrow> [(status_as_str (auth_status r), uri_to_tag (signer_route_path route))]))"

section \<open>The ports of a deployment\<close>

definition exposes :: "metrics_config \<Rightarrow> u16 \<Rightarrow> compose_service \<Rightarrow> bool" where
  "exposes m port service \<longleftrightarrow>
     map_of (dv_environment service) METRICS_PORT_ENV = Some (SvUnsigned (ucast port)) \<and>
     display_socket_addr (SocketAddr (mt_host m) port) @ '':'' @ decimal (unat port) \<in> set (dv_ports service)"

abbreviation metrics_target :: "metrics_config \<Rightarrow> u16 \<Rightarrow> string" where
  "metrics_target m port \<equiv> display_socket_addr (SocketAddr (mt_host m) port)"

lemma expose_metrics_enabled:
  assumes "fc_metrics config = Some m" and "mt_enabled m"
  shows "expose_metrics config cid np (ports, envs, st) =
    (ports @ [metrics_target m (is_metrics_port st) @ '':'' @ decimal (unat (is_metrics_port st))],
     insert_env (get_env_uval METRICS_PORT_ENV (ucast (is_metrics_port st))) envs,
     st\<lparr>is_warnings := is_warnings st @ [exposed_warning cid (is_metrics_port st)],
        is_targets := is_targets st @ [metrics_target m (is_metrics_port st)],
        is_metrics_port := np (is_metrics_port st)\<rparr>)"
  unfolding expose_metrics_def prod.case assms(1) option.case using assms(2) by (simp only: if_True Let_def)

lemma log_envs_metrics: "map_of (log_envs config envs) METRICS_PORT_ENV = map_of envs METRICS_PORT_ENV"
  by (rule log_envs_lookup) (simp add: env_names)

lemma snd_get_env_uval [simp]: "snd (get_env_uval k n) = SvUnsigned n"
  by (simp add: get_env_uval_def)

lemma setup_module_metrics:
  assumes "fc_metrics (dx_config ctx) = Some m" and "mt_enabled m"
  shows "is_metrics_port (setup_module ctx st x) = is_metrics_port st + 1 \<and>
    is_targets (setup_module ctx st x) = is_targets st @ [metrics_target m (is_metrics_port st)] \<and>
    (\<exists>service. is_services (setup_module ctx st x) = AList.update (module_cid x) service (is_services st) \<and>
       exposes m (is_metrics_port st) service)"
  by (cases "sm_kind x")
    (auto simp: setup_module_def commit_module_service_def events_module_service_def Let_def
      expose_metrics_enabled [OF assms] exposes_def log_envs_metrics simp del: display_socket_addr.simps)

lemma setup_modules_metrics:
  assumes "fc_metrics (dx_config ctx) = Some m" and "mt_enabled m"
  shows "is_metrics_port (foldl (setup_module ctx) st ms) = is_metrics_port st + of_nat (length ms) \<and>
    is_targets (foldl (setup_module ctx) st ms) =
      is_targets st @ map (\<lambda>i. metrics_target m (is_metrics_port st + of_nat i)) [0..<length ms]"
proof (induction ms rule: rev_induct)
  case Nil
  then show ?case by simp
next
  case (snoc x ms)
  then show ?case
    using setup_module_metrics [OF assms, of "foldl (setup_module ctx) st ms" x]
    by (simp add: ac_simps del: display_socket_addr.simps)
qed

lemma setup_modules_expose:
  assumes "fc_metrics (dx_config ctx) = Some m" and "mt_enabled m"
    and "distinct (map module_cid ms)" and "i < length ms"
  shows "\<exists>service. map_of (is_services (foldl (setup_module ctx) st ms)) (module_cid (ms ! i)) = Some service \<and>
    exposes m (is_metrics_port st + of_nat i) service"
  using assms(3,4)
proof (induction ms rule: rev_induct)
  case Nil
  then show ?case by simp
next
  case (snoc x ms)
  let ?st = "foldl (setup_module ctx) st ms"
  obtain service where s: "is_services (setup_module ctx ?st x) = AList.update (module_cid x) service (is_services ?st)"
    "exposes m (is_metrics_port st + of_nat (length ms)) service"
    using setup_module_metrics [OF assms(1,2), of ?st x] setup_modules_metrics [OF assms(1,2), of st ms] by auto
  show ?case
  proof (cases "i < length ms")
    case True
    then have "module_cid (ms ! i) \<in> set (map module_cid ms)" by simp
    with snoc.prems(1) have "module_cid (ms ! i) \<noteq> module_cid x" by auto
    with snoc True s show ?thesis by (auto simp: nth_append update_conv')
  next
    case False
    with snoc.prems(2) have "i = length ms" by simp
    with s show ?thesis by (simp add: update_conv')
  qed
qed

lemma setup_pbs_metrics:
  assumes "setup_pbs E ctx st = Ok st'" and m: "fc_metrics (dx_config ctx) = Some m" "mt_enabled m"
  shows "is_metrics_port st' = is_metrics_port st + 1 \<and>
    is_targets st' = is_targets st @ [metrics_target m (is_metrics_port st)] \<and>
    (\<exists>service. map_of (is_services st') ''cb_pbs'' = Some service \<and> exposes m (is_metrics_port st) service)"
proof -
  let ?mounts = "mux_mounts E (case fc_muxes (dx_config ctx) of Some ms \<Rightarrow> ms | None \<Rightarrow> [])
      (hash_map_of [get_env_val CONFIG_ENV CONFIG_DEFAULT], [dx_config_volume ctx])"
  obtain envs0 volumes where mounts: "?mounts = Ok (envs0, volumes)"
  proof (cases ?mounts)
    case (Inl e)
    with assms(1) show ?thesis unfolding setup_pbs_def Let_def by simp
  next
    case (Inr mnt)
    with that show ?thesis by (cases mnt) simp
  qed
  have other: "METRICS_PORT_ENV \<noteq> BUILDER_URLS_ENV" "METRICS_PORT_ENV \<noteq> PBS_ENDPOINT_ENV"
    by (simp_all add: env_names BUILDER_URLS_ENV_def PBS_ENDPOINT_ENV_def)
  from assms(1) show ?thesis
    unfolding setup_pbs_def Let_def mounts and_then_simps prod.case expose_metrics_enabled [OF m] sum.inject
    by (elim subst) (use other in \<open>auto simp: update_conv' exposes_def log_envs_metrics simp del: display_socket_addr.simps\<close>)
qed

lemma signer_common_envs_metrics:
  assumes "signer_common_envs ctx s envs st = (ports, envs', st')"
    and m: "fc_metrics (dx_config ctx) = Some m" "mt_enabled m"
  shows "map_of envs' METRICS_PORT_ENV = Some (SvUnsigned (ucast (is_metrics_port st))) \<and>
    metrics_target m (is_metrics_port st) @ '':'' @ decimal (unat (is_metrics_port st)) \<in> set ports \<and>
    is_targets st' = is_targets st @ [metrics_target m (is_metrics_port st)]"
  using assms(1)
  by (auto simp: signer_common_envs_def Let_def expose_metrics_enabled [OF m] log_envs_metrics
      simp del: display_socket_addr.simps)

lemma setup_signer_metrics:
  assumes "setup_signer ctx st = Returned st'" and "needs_signer_module (dx_config ctx)"
    and m: "fc_metrics (dx_config ctx) = Some m" "mt_enabled m"
  shows "is_targets st' = is_targets st @ [metrics_target m (is_metrics_port st)] \<and>
    (\<exists>service. map_of (is_services st') ''cb_signer'' = Some service \<and> exposes m (is_metrics_port st) service)"
proof -
  let ?goal = "\<lambda>st'. is_targets st' = is_targets st @ [metrics_target m (is_metrics_port st)] \<and>
    (\<exists>service. map_of (is_services st') ''cb_signer'' = Some service \<and> exposes m (is_metrics_port st) service)"
  have loc: "?goal (setup_local_signer ctx s loader store st)" for s loader store
  proof -
    let ?envs = "hash_map_of [get_env_val CONFIG_ENV CONFIG_DEFAULT, get_env_same JWTS_ENV, get_env_same ADMIN_JWT_ENV]"
    obtain ports envs0 st0 where c: "signer_common_envs ctx s ?envs st = (ports, envs0, st0)" by (rule prod_cases3)
    have "map_of (fold insert_env (snd (local_store_mounts store))
        (fold insert_env (snd (local_loader_mounts loader)) envs0)) METRICS_PORT_ENV = map_of envs0 METRICS_PORT_ENV"
      by (rule mounts_lookup) (simp add: env_names)
    with signer_common_envs_metrics [OF c m] show ?thesis
      unfolding setup_local_signer_def c Let_def
      by (simp add: case_prod_beta update_conv' exposes_def signer_compose_service_def del: display_socket_addr.simps)
  qed
  have dirk: "?goal st'" if "setup_dirk_signer ctx s cert key sec ca store st = Returned st'"
    for s cert key sec ca store
  proof -
    let ?envs = "hash_map_of [get_env_val CONFIG_ENV CONFIG_DEFAULT, get_env_same JWTS_ENV,
       get_env_val DIRK_CERT_ENV DIRK_CERT_DEFAULT, get_env_val DIRK_KEY_ENV DIRK_KEY_DEFAULT,
       get_env_val DIRK_DIR_SECRETS_ENV DIRK_DIR_SECRETS_DEFAULT]"
    obtain ports envs0 st0 where c: "signer_common_envs ctx s ?envs st = (ports, envs0, st0)" by (rule prod_cases3)
    have other: "METRICS_PORT_ENV \<noteq> DIRK_CA_CERT_ENV" "METRICS_PORT_ENV \<noteq> PROXY_DIR_ENV" by (simp_all add: env_names)
    from that signer_common_envs_metrics [OF c m] other show ?thesis
      unfolding setup_dirk_signer_def c Let_def
      by (auto simp: update_conv' exposes_def signer_compose_service_def simp del: display_socket_addr.simps
          split: option.splits proxy_store.splits)
  qed
  from assms(1,2) loc dirk show ?thesis
    by (auto simp: setup_signer_def simp del: display_socket_addr.simps split: option.splits signer_type.splits)
qed

text \<open>What a container with an exposed port loads.\<close>

lemma exposes_loads:
  assumes "exposes m port service" and "ce_var E = container_var interp service"
  shows "from_registry E network registry = Ok (Some (metrics_provider_new network port registry))"
proof -
  have "unat (ucast port :: u64) = unat port" by transfer (simp add: min_def)
  with assms show ?thesis
    by (simp add: from_registry_def metrics_load_from_env_def load_optional_env_var_def exposes_def container_var_def)
qed

lemma metrics_target_inj: "metrics_target m p = metrics_target m q \<Longrightarrow> p = q"
proof -
  assume "metrics_target m p = metrics_target m q"
  then have "decimal (unat p) = decimal (unat q)" by simp
  then have "digits_value (decimal (unat p)) = digits_value (decimal (unat q))" by simp
  then show "p = q" by (simp add: decimal_value unsigned_word_eqI)
qed

text \<open>The names of the containers, in the order in which they get their ports.\<close>

definition container_names :: "cb_config \<Rightarrow> static_module_config list \<Rightarrow> string list" where
  "container_names config ms =
     map module_cid ms @ [''cb_pbs''] @ (if needs_signer_module config then [''cb_signer''] else [])"

text \<open>The states of the generator between its parts, with the port that comes next.\<close>

lemma metrics_stages:
  assumes "handle_docker_init E dp secrets writes (Ok config) csp cp od = Returned (Ok out)"
    and "fc_modules config = Some ms" and m: "fc_metrics config = Some m" "mt_enabled m"
  defines "ctx \<equiv> init_context_of config cp csp secrets"
  defines "target \<equiv> \<lambda>i. metrics_target m (mt_start_port m + of_nat i)"
  obtains st0 st st' where "st0 = foldl (setup_module ctx) (init_state_of config) ms"
    and "setup_pbs E ctx st0 = Ok st" and "setup_signer ctx st = Returned st'"
    and "do_services out = is_services st'" and "do_targets out = is_targets st'"
    and "is_targets st = map target [0..<Suc (length ms)]"
    and "is_metrics_port st = mt_start_port m + of_nat (Suc (length ms))"
    and "\<exists>service. map_of (is_services st) ''cb_pbs'' = Some service \<and>
           exposes m (mt_start_port m + of_nat (length ms)) service"
proof -
  let ?st0 = "foldl (setup_module ctx) (init_state_of config) ms"
  have ctx: "fc_metrics (dx_config ctx) = Some m" "mt_enabled m" using m by (simp_all add: ctx_def)
  have mods: "setup_modules ctx (init_state_of config) = ?st0" using assms(2) by (simp add: ctx_def setup_modules_def)
  from docker_init_Ok [OF assms(1)] obtain st st' where
    "setup_pbs E ctx (setup_modules ctx (init_state_of config)) = Ok st"
    and st: "setup_signer ctx st = Returned st'" "do_services out = is_services st'" "do_targets out = is_targets st'"
    unfolding ctx_def by metis
  note st = this(1) [unfolded mods] st
  have "is_metrics_port (init_state_of config) = mt_start_port m" "is_targets (init_state_of config) = []"
    using m(1) by (simp_all add: init_state_of_def)
  with setup_modules_metrics [OF ctx, of "init_state_of config" ms]
  have st0: "is_metrics_port ?st0 = mt_start_port m + of_nat (length ms)" "is_targets ?st0 = map target [0..<length ms]"
    by (simp_all only: target_def append_Nil)
  show ?thesis
    by (rule that [OF refl st])
      (use setup_pbs_metrics [OF st(1) ctx, unfolded st0] in
        \<open>simp_all add: target_def ac_simps del: display_socket_addr.simps\<close>)
qed

lemma deployed_targets:
  assumes "handle_docker_init E dp secrets writes (Ok config) csp cp od = Returned (Ok out)"
    and "fc_modules config = Some ms" and "fc_metrics config = Some m" and "mt_enabled m"
  shows "do_targets out =
    map (\<lambda>i. metrics_target m (mt_start_port m + of_nat i)) [0..<length (container_names config ms)]"
proof -
  from assms(3) have m: "fc_metrics (dx_config (init_context_of config cp csp secrets)) = Some m" by simp
  from metrics_stages [OF assms] obtain st st' where
    st: "setup_signer (init_context_of config cp csp secrets) st = Returned st'" "do_targets out = is_targets st'"
      "is_targets st = map (\<lambda>i. metrics_target m (mt_start_port m + of_nat i)) [0..<Suc (length ms)]"
      "is_metrics_port st = mt_start_port m + of_nat (Suc (length ms))" by metis
  show ?thesis
  proof (cases "needs_signer_module config")
    case True
    with setup_signer_metrics [OF st(1) _ m assms(4)] st(2-4) show ?thesis
      by (simp add: container_names_def del: display_socket_addr.simps)
  next
    case False
    with st(1) have "st' = st" by (simp add: setup_signer_def)
    with False st(2,3) show ?thesis by (simp add: container_names_def del: display_socket_addr.simps)
  qed
qed

lemma deployed_exposes:
  assumes init: "handle_docker_init E dp secrets writes (Ok config) csp cp od = Returned (Ok out)"
    and "fc_modules config = Some ms" and "fc_metrics config = Some m" and "mt_enabled m"
    and "distinct (map module_cid ms @ [''cb_pbs'', ''cb_signer''])" and "i < length (container_names config ms)"
  shows "\<exists>service. map_of (do_services out) (container_names config ms ! i) = Some service \<and>
    exposes m (mt_start_port m + of_nat i) service"
proof -
  let ?ctx = "init_context_of config cp csp secrets"
  have m: "fc_metrics (dx_config ?ctx) = Some m" "mt_enabled m" using assms(3,4) by simp_all
  from metrics_stages [OF assms(1-4)] obtain st0 st st' where
    st: "st0 = foldl (setup_module ?ctx) (init_state_of config) ms" "setup_pbs E ?ctx st0 = Ok st"
      "setup_signer ?ctx st = Returned st'" "do_services out = is_services st'"
      "is_metrics_port st = mt_start_port m + of_nat (Suc (length ms))"
      "\<exists>service. map_of (is_services st) ''cb_pbs'' = Some service \<and>
         exposes m (mt_start_port m + of_nat (length ms)) service" by metis
  consider "i < length ms" | "i = length ms" | "i = Suc (length ms)" "needs_signer_module config"
    using assms(6) by (simp add: container_names_def split: if_splits) linarith+
  then show ?thesis
  proof cases
    case 1
    then have "module_cid (ms ! i) \<in> set (map module_cid ms)" by simp
    moreover have "''cb_pbs'' \<notin> set (map module_cid ms)" "''cb_signer'' \<notin> set (map module_cid ms)"
      using assms(5) by simp_all
    ultimately have "module_cid (ms ! i) \<noteq> ''cb_pbs''" "module_cid (ms ! i) \<noteq> ''cb_signer''" by metis+
    then have "map_of (do_services out) (module_cid (ms ! i)) = map_of (is_services st0) (module_cid (ms ! i))"
      using setup_signer_services [OF st(3), of "module_cid (ms ! i)"] setup_pbs_frame [OF st(2)]
      by (auto simp: st(4) update_conv')
    moreover have "distinct (map module_cid ms)" "is_metrics_port (init_state_of config) = mt_start_port m"
      using assms(3,5) by (simp_all add: init_state_of_def)
    ultimately show ?thesis
      using setup_modules_expose [OF m _ 1, of "init_state_of config"] 1
      by (simp add: container_names_def nth_append st(1))
  next
    case 2
    with st(4,6) setup_signer_services [OF st(3), of "''cb_pbs''"] show ?thesis
      by (auto simp: container_names_def nth_append)
  next
    case 3
    with setup_signer_metrics [OF st(3) _ m] st(4,5) show ?thesis
      by (auto simp: container_names_def nth_append)
  qed
qed

lemma metrics_port_range:
  assumes "unat (start :: u16) + length ms + 1 < 2 ^ 16" and "i < length (container_names config ms)"
  shows "unat (start + of_nat i) = unat start + i"
proof -
  have "i \<le> Suc (length ms)" using assms(2) by (simp add: container_names_def split: if_splits)
  with assms(1) have "unat start + i < 2 ^ 16" "i < 2 ^ 16" by linarith+
  then show ?thesis by (simp add: unat_word_ariths(1) unat_of_nat)
qed

text \<open>
  C31. If the ports for metrics do not run past 65535, every container of a generated deployment gets one
  of its own: the module in it loads exactly that port from its environment, under it the scraper
  finds it on the host, and no two containers share a target.
\<close>

theorem deployed_metrics_ports:
  assumes "handle_docker_init E dp secrets writes (Ok config) csp cp od = Returned (Ok out)"
    and "fc_modules config = Some ms" and "fc_metrics config = Some m" and "mt_enabled m"
    and "distinct (map module_cid ms @ [''cb_pbs'', ''cb_signer''])"
    and "unat (mt_start_port m) + length ms + 1 < 2 ^ 16"
  shows "distinct (do_targets out) \<and> length (do_targets out) = length (container_names config ms) \<and>
    (\<forall>i<length (container_names config ms). \<exists>service port.
       map_of (do_services out) (container_names config ms ! i) = Some service \<and>
       unat port = unat (mt_start_port m) + i \<and>
       do_targets out ! i = display_socket_addr (SocketAddr (mt_host m) port) \<and>
       (\<forall>interp E' network (registry :: 'r). ce_var E' = container_var interp service \<longrightarrow>
          from_registry E' network registry = Ok (Some (metrics_provider_new network port registry))))"
proof -
  let ?names = "container_names config ms" and ?port = "\<lambda>i. mt_start_port m + of_nat i"
  note targets = deployed_targets [OF assms(1-4)] and ports = metrics_port_range [OF assms(6), where config = config]
  have "i = j" if "i < length ?names" "j < length ?names" "metrics_target m (?port i) = metrics_target m (?port j)" for i j
  proof -
    from metrics_target_inj [OF that(3)] have "unat (?port i) = unat (?port j)" by (rule arg_cong)
    then show ?thesis by (simp only: ports that(1,2) add_left_cancel)
  qed
  then have "inj_on (\<lambda>i. metrics_target m (?port i)) {0..<length ?names}" by (intro inj_onI) simp
  then have distinct: "distinct (do_targets out)"
    by (simp add: targets distinct_map del: display_socket_addr.simps)
  show ?thesis
  proof (intro conjI allI impI distinct)
    show "length (do_targets out) = length ?names" by (simp add: targets)
    fix i assume i: "i < length ?names"
    from deployed_exposes [OF assms(1-5) i] obtain service where
      service: "map_of (do_services out) (?names ! i) = Some service" "exposes m (?port i) service" by blast
    have "do_targets out ! i = metrics_target m (?port i)"
      using i by (simp add: targets del: display_socket_addr.simps)
    with service(1) ports [OF i]
    show "\<exists>service port. map_of (do_services out) (?names ! i) = Some service \<and>
        unat port = unat (mt_start_port m) + i \<and> do_targets out ! i = metrics_target m port \<and>
        (\<forall>interp E' network (registry :: 'r). ce_var E' = container_var interp service \<longrightarrow>
          from_registry E' network registry = Ok (Some (metrics_provider_new network port registry)))"
      by (intro exI [of _ service] exI [of _ "?port i"] conjI allI impI)
        (assumption+, rule exposes_loads [OF service(2)])
  qed
qed

theorem deployed_metrics_ports_witness:
  "\<exists>out service E'. demo_init (SignerLocal (KeysFile ''keys'') None) [demo_static_module Commit ''b'' 1] = Returned (Ok out) \<and>
     distinct (do_targets out) \<and> length (do_targets out) = 3 \<and>
     map_of (do_services out) ''cb_signer'' = Some service \<and> ce_var E' = container_var id service \<and>
     (\<exists>port. unat port = 10002 \<and>
       from_registry E' Mainnet () = Ok (Some (metrics_provider_new Mainnet port ())))"
proof -
  let ?inner = "SignerLocal (KeysFile ''keys'') None" and ?m = "demo_static_module Commit ''b'' 1"
  let ?config = "demo_deploy ?inner [?m]"
  obtain out where out: "demo_init ?inner [?m] = Returned (Ok out)"
    using demo_init_Ok [of ?inner "[?m]"] by (auto simp: signer_unsupported_def)
  have cid: "module_cid ?m = ''cb_b''"
    unfolding module_cid_def demo_deploy_fields to_lowercase_def by code_simp
  have distinct: "distinct (map module_cid [?m] @ [''cb_pbs'', ''cb_signer''])" by (simp add: cid)
  let ?mt = "\<lparr>mt_enabled = True, mt_host = 0, mt_start_port = 10000\<rparr>"
  have metrics: "fc_metrics ?config = Some ?mt" "mt_enabled ?mt" by (simp_all add: demo_deploy_def)
  have small: "unat (mt_start_port ?mt) + length [?m] + 1 < 2 ^ 16" by simp
  have names: "container_names ?config [?m] = [''cb_b'', ''cb_pbs'', ''cb_signer'']"
    by (simp add: container_names_def cid needs_signer_module_def)
  note ports = deployed_metrics_ports [where 'r = unit, OF out [unfolded demo_init_def] demo_deploy_fields(1) metrics distinct small]
  have targets: "distinct (do_targets out)" "length (do_targets out) = 3"
    using ports [THEN conjunct1] ports [THEN conjunct2, THEN conjunct1] by (simp_all add: names)
  have "2 < length (container_names ?config [?m])" by (simp add: names)
  note ports [THEN conjunct2, THEN conjunct2, THEN spec, THEN mp, OF this]
  then obtain service port where service: "map_of (do_services out) ''cb_signer'' = Some service"
    and port: "unat port = 10002"
    and loads: "\<And>interp E' network registry. ce_var E' = container_var interp service \<Longrightarrow>
       from_registry E' network registry = Ok (Some (metrics_provider_new network port (registry :: unit)))"
    by (auto simp: names)
  have E: "ce_var (demo_deploy_env (container_var id service)) = container_var id service" by (simp add: demo_deploy_env_def)
  from loads [OF E] out targets service port E show ?thesis by blast
qed

end
