(* ===== verification/Launch.thy ===== *)
theory Launch
  imports Builder_Api Metrics Events
begin

text \<open>
  How the programs start: the logs (\<open>initialize_tracing_log\<close> in \<open>crates/common/src/utils.rs\<close>),
  \<open>PbsService::run\<close> (\<open>crates/pbs/src/service.rs\<close>), \<open>SigningService::run\<close> (\<open>crates/signer/src/service.rs\<close>), the
  three programs under \<open>bin/\<close>, the command line (\<open>crates/cli/src/lib.rs\<close>) and the main function of the
  example \<open>status_api\<close>. Binding an address, serving until the end and the signals of the process are
  parameters.
\<close>

section \<open>Logs\<close>

text \<open>A layer of the subscriber: its target, format, and filter.\<close>

record log_layer =
  ll_target :: "string option"
  ll_ansi :: bool
  ll_json :: bool
  ll_filter :: string
  ll_max_files :: "nat option"

text \<open>
  \<open>format_crates_filter\<close>; the text is parsed by the library, and a text that does not parse makes the
  process panic.
\<close>

definition crates_filter :: "string \<Rightarrow> string \<Rightarrow> string" where
  "crates_filter default_level crates_level =
     default_level @ '',cb_signer='' @ crates_level @ '',cb_pbs='' @ crates_level @
     '',cb_common='' @ crates_level @ '',cb_metrics='' @ crates_level"

definition format_crates_filter :: "(string \<Rightarrow> bool) \<Rightarrow> string \<Rightarrow> string \<Rightarrow> string outcome" where
  "format_crates_filter parses default_level crates_level =
     (if parses (crates_filter default_level crates_level)
      then Returned (crates_filter default_level crates_level) else Panicked)"

text \<open>
  The layers in their order. \<open>dir_ok\<close> tells whether the rolling files can be made in a directory: if not,
  the process panics. A layer for a file names the prefix of its files and the directory.
\<close>

definition stdout_layers :: "(string \<Rightarrow> bool) \<Rightarrow> stdout_log_settings \<Rightarrow> log_layer list outcome" where
  "stdout_layers parses config =
     (if so_enabled config then
        (case format_crates_filter parses ''INFO'' (so_level config) of
           Panicked \<Rightarrow> Panicked
         | Returned flt \<Rightarrow>
             Returned [\<lparr>ll_target = None, ll_ansi = so_color config, ll_json = so_use_json config,
                        ll_filter = flt, ll_max_files = None\<rparr>])
      else Returned [])"

definition file_layers ::
  "(string \<Rightarrow> bool) \<Rightarrow> (string \<Rightarrow> bool) \<Rightarrow> string \<Rightarrow> file_log_settings \<Rightarrow> log_layer list outcome" where
  "file_layers parses dir_ok mid config =
     (if fl_enabled config then
        (if \<not> dir_ok (fl_dir_path config) then Panicked
         else
           (case format_crates_filter parses ''INFO'' (fl_level config) of
              Panicked \<Rightarrow> Panicked
            | Returned flt \<Rightarrow>
                Returned [\<lparr>ll_target = Some (path_push (fl_dir_path config) (to_lowercase mid)), ll_ansi = False,
                           ll_json = fl_use_json config, ll_filter = flt, ll_max_files = fl_max_files config\<rparr>]))
      else Returned [])"

definition initialize_tracing_log ::
  "(string \<Rightarrow> bool) \<Rightarrow> (string \<Rightarrow> bool) \<Rightarrow> string \<Rightarrow> logs_settings \<Rightarrow> log_layer list outcome" where
  "initialize_tracing_log parses dir_ok mid settings =
     (case stdout_layers parses (lg_stdout settings) of
        Panicked \<Rightarrow> Panicked
      | Returned out \<Rightarrow>
          (case file_layers parses dir_ok mid (lg_file settings) of
             Panicked \<Rightarrow> Panicked
           | Returned files \<Rightarrow> Returned (out @ files)))"

lemma initialize_tracing_log_panics_iff:
  "initialize_tracing_log parses dir_ok mid settings = Panicked \<longleftrightarrow>
     so_enabled (lg_stdout settings) \<and> \<not> parses (crates_filter ''INFO'' (so_level (lg_stdout settings))) \<or>
     fl_enabled (lg_file settings) \<and>
       (\<not> dir_ok (fl_dir_path (lg_file settings)) \<or>
        \<not> parses (crates_filter ''INFO'' (fl_level (lg_file settings))))"
  by (auto simp: initialize_tracing_log_def stdout_layers_def file_layers_def format_crates_filter_def
      split: outcome.split)

section \<open>The PBS service\<close>

text \<open>
  The reply to the request that a service sends to its own status route: a handler that panics closes the
  connection.
\<close>

definition own_status :: "reply outcome \<Rightarrow> (string, u16) result" where
  "own_status r = (case r of Panicked \<Rightarrow> Err ''connection closed'' | Returned rep \<Rightarrow> Ok (rp_status rep))"

text \<open>\<open>PbsService::run\<close>; \<open>url_parses\<close> is the outcome of parsing the URL of the own status route.\<close>

definition pbs_service_run ::
  "('w, 'c, 'd) builder_api \<Rightarrow> weblib \<Rightarrow> (nat \<Rightarrow> http) \<Rightarrow> nat list \<Rightarrow> (socket_addr \<Rightarrow> (string, unit) result)
     \<Rightarrow> (string \<Rightarrow> bool) \<Rightarrow> (string, unit) result \<Rightarrow> 'd pbs_state \<Rightarrow> 'w \<Rightarrow> 'w \<times> (string, unit) result" where
  "pbs_service_run A W http order binds url_parses served state w =
     (let addr = pm_endpoint (st_config state) in
      case binds addr of
        Inl e \<Rightarrow> (w, Err e)
      | Inr _ \<Rightarrow>
          (if \<not> url_parses (''http://'' @ display_socket_addr addr @ BUILDER_V1_API_PATH @ GET_STATUS_PATH)
           then (w, Err ''invalid url'')
           else
             (case api_get_status A W http order state Map.empty w of
                (w', _, out) \<Rightarrow>
                  (w', and_then (own_status out) (\<lambda>code.
                         if is_success code then map_err (\<lambda>_. ''PBS server exited'') served
                         else Err ''PBS server failed to start. Are the relays properly configured?'')))))"

definition pbs_init_metrics :: "config_env \<Rightarrow> chain \<Rightarrow> 'r \<Rightarrow> (string, 'r metrics_task) result" where
  "pbs_init_metrics E network registry = load_and_run E network registry"

text \<open>\<open>register_metric\<close>: a registry that refuses the collector makes the process panic.\<close>

definition register_metric :: "('r \<Rightarrow> (string, 'r) result) \<Rightarrow> 'r \<Rightarrow> 'r outcome" where
  "register_metric register registry =
     (case register registry of Inl _ \<Rightarrow> Panicked | Inr registry' \<Rightarrow> Returned registry')"

section \<open>The programs\<close>

text \<open>What ends a program: its server, with a result, or a signal.\<close>

datatype 'a first_to_end = ServerEnded 'a | SignalReceived

text \<open>
  The program \<open>bin/pbs.rs\<close>: the lines that it prints and its result. The result of setting up the logs is
  dropped, unlike the panic of a bad filter.
\<close>

definition stopped :: "string \<Rightarrow> (string, unit) result first_to_end \<Rightarrow> string list" where
  "stopped what ended =
     (case ended of
        ServerEnded (Inl err) \<Rightarrow> [what @ '' unexpectedly stopped: '' @ err]
      | ServerEnded (Inr _) \<Rightarrow> []
      | SignalReceived \<Rightarrow> [])"

definition pbs_main ::
  "weblib \<Rightarrow> config_env \<Rightarrow> (string \<Rightarrow> bool) \<Rightarrow> (string \<Rightarrow> bool) \<Rightarrow> (string, cb_config) result
     \<Rightarrow> (string, unit) result \<Rightarrow> 'r \<Rightarrow> (unit pbs_state \<Rightarrow> (string, unit) result first_to_end)
     \<Rightarrow> (string list \<times> (string, unit) result) outcome option" where
  "pbs_main W E parses dir_ok loaded signer_valid registry run =
     (case logs_from_env_config E loaded of
        Inl e \<Rightarrow> Some (Returned ([], Err e))
      | Inr settings \<Rightarrow>
          (case initialize_tracing_log parses dir_ok PBS_MODULE_NAME settings of
             Panicked \<Rightarrow> Some Panicked
           | Returned _ \<Rightarrow>
               map_option (\<lambda>config.
                 Returned
                   (case and_then config (\<lambda>c. and_then (pbs_init_metrics E (pm_chain c) registry) (\<lambda>_. Ok c)) of
                      Inl e \<Rightarrow> ([], Err e)
                    | Inr c \<Rightarrow> (stopped ''PBS service'' (run (pbs_state_new c)), Ok ())))
                 (load_pbs_config W E (map_sum id pbs_part loaded) signer_valid)))"

text \<open>\<open>SigningService::run\<close>: without modules it ends at once, otherwise it serves what it started with.\<close>

definition signing_service_run ::
  "crypto \<Rightarrow> storelib \<Rightarrow> keylib \<Rightarrow> dirknet \<Rightarrow> config_env \<Rightarrow> filesystem \<Rightarrow> 'r
     \<Rightarrow> (socket_addr \<Rightarrow> (string, unit) result) \<Rightarrow> (signer_heap \<Rightarrow> signing_state \<Rightarrow> (string, unit) result)
     \<Rightarrow> start_signer_config \<Rightarrow> (string, unit) result outcome" where
  "signing_service_run C L K N E fs registry binds serve_until config =
     (case signing_service_start C L K N E fs config of
        Panicked \<Rightarrow> Panicked
      | Returned (Inl e) \<Rightarrow> Returned (Err e)
      | Returned (Inr None) \<Rightarrow> Returned (Ok ())
      | Returned (Inr (Some (h, state))) \<Rightarrow>
          Returned
            (and_then (load_and_run E (ss_chain config) registry) (\<lambda>_.
             and_then (binds (ss_endpoint config)) (\<lambda>_.
               map_err (\<lambda>_. ''signer server exited'') (serve_until h state)))))"

definition signer_main ::
  "config_env \<Rightarrow> (string \<Rightarrow> bool) \<Rightarrow> (string \<Rightarrow> bool)
     \<Rightarrow> (string, cb_config) result
     \<Rightarrow> (start_signer_config \<Rightarrow> (string, unit) result first_to_end)
     \<Rightarrow> (string list \<times> (string, unit) result) outcome" where
  "signer_main E parses dir_ok loaded run =
     (case logs_from_env_config E loaded of
        Inl e \<Rightarrow> Returned ([], Err e)
      | Inr settings \<Rightarrow>
          (case initialize_tracing_log parses dir_ok SIGNER_MODULE_NAME settings of
             Panicked \<Rightarrow> Panicked
           | Returned _ \<Rightarrow>
               Returned
                 (case load_from_env E (map_sum id signer_part loaded) of
                    Inl e \<Rightarrow> ([], Err e)
                  | Inr config \<Rightarrow> (stopped ''signing server'' (run config), Ok ()))))"

text \<open>The command line: one command, after the logo.\<close>

datatype cli_command = Init string string

definition cli_run ::
  "config_env \<Rightarrow> (string \<Rightarrow> bool) \<Rightarrow> (nat \<Rightarrow> string) \<Rightarrow> (string \<Rightarrow> bool) \<Rightarrow> (string \<Rightarrow> (string, cb_config) result)
     \<Rightarrow> (string \<Rightarrow> (string, chain_loader) result) \<Rightarrow> cli_command \<Rightarrow> (string, docker_output) result outcome" where
  "cli_run E docker_parses secrets writes toml chain_toml cmd =
     (case cmd of
        Init config_path output_path \<Rightarrow>
          docker_init_command E docker_parses secrets writes toml chain_toml config_path output_path)"

text \<open>The main function of the example \<open>status_api\<close>; here an error in setting up the logs is passed on.\<close>

definition status_api_main ::
  "weblib \<Rightarrow> config_env \<Rightarrow> (string \<Rightarrow> bool) \<Rightarrow> (string \<Rightarrow> bool) \<Rightarrow> (string, cb_config) result
     \<Rightarrow> (string, commit_boost_config \<times> u64) result
     \<Rightarrow> ('r \<Rightarrow> (string, 'r) result) \<Rightarrow> 'r \<Rightarrow> (my_builder_state pbs_state \<Rightarrow> my_world \<Rightarrow> (string, unit) result)
     \<Rightarrow> (string, unit) result outcome option" where
  "status_api_main W E parses dir_ok loaded custom register registry run =
     map_option (\<lambda>res.
       case res of
         Inl e \<Rightarrow> Returned (Err e)
       | Inr (pbs_config, extra) \<Rightarrow>
           (case logs_from_env_config E loaded of
              Inl e \<Rightarrow> Returned (Err e)
            | Inr settings \<Rightarrow>
                (case initialize_tracing_log parses dir_ok PBS_MODULE_NAME settings of
                   Panicked \<Rightarrow> Panicked
                 | Returned _ \<Rightarrow>
                     (let (cells, custom_state) = my_from_config extra [] in
                      case register_metric register registry of
                        Panicked \<Rightarrow> Panicked
                      | Returned registry' \<Rightarrow>
                          Returned
                            (and_then (pbs_init_metrics E (pm_chain pbs_config) registry') (\<lambda>_.
                               run (with_data (pbs_state_new pbs_config) custom_state) (cells, 0)))))))
       (load_pbs_custom_config W E custom)"

section \<open>Properties\<close>

text \<open>
  With the default implementation the server stays up exactly if the address can be bound and the status
  request succeeds.
\<close>

lemma pbs_service_run_default:
  "snd (pbs_service_run default_builder_api W http order binds url_parses served state w) =
     and_then (binds (pm_endpoint (st_config state))) (\<lambda>_.
       if \<not> url_parses (''http://'' @ display_socket_addr (pm_endpoint (st_config state)) @
               BUILDER_V1_API_PATH @ GET_STATUS_PATH)
       then Err ''invalid url''
       else and_then (own_status (snd (handle_get_status W http order state Map.empty))) (\<lambda>code.
              if is_success code then map_err (\<lambda>_. ''PBS server exited'') served
              else Err ''PBS server failed to start. Are the relays properly configured?''))"
  by (simp add: pbs_service_run_def Let_def api_get_status_default case_prod_beta and_then_def split: sum.split)

lemma own_status_handle:
  "own_status (snd (handle_get_status W http order state hs)) =
     (case snd (get_status W http order hs state) of
        Panicked \<Rightarrow> Err ''connection closed''
      | Returned (Inr _) \<Rightarrow> Ok 200
      | Returned (Inl _) \<Rightarrow> Ok 502)"
  by (auto simp: own_status_def handle_get_status_def Let_def fail_with_def client_error_reply_def
      split: outcome.splits sum.splits prod.splits)

end
