(* ===== verification/Launch_Properties.thy ===== *)
theory Launch_Properties
  imports Launch Service_Properties
begin

text \<open>
  Properties of extensions of the PBS module and of its start: the counter of the status API example, a
  reload that leaves an extension without relays, and when the service comes up.
\<close>

section \<open>The status API example\<close>

text \<open>Its extra route does not collide with the routes of the module.\<close>

lemma my_router_distinct: "distinct (map (\<lambda>r. (rt_method r, rt_path r)) (api_router my_builder_api))"
  by (simp add: api_router_def my_builder_api_def my_extra_routes_def create_app_router_def Let_def nest_def
      v1_builder_routes_def v2_builder_routes_def GET_HEADER_PATH_def GET_STATUS_PATH_def REGISTER_VALIDATOR_PATH_def
      SUBMIT_BLOCK_PATH_def RELOAD_PATH_def BUILDER_V1_API_PATH_def BUILDER_V2_API_PATH_def)

text \<open>
  C30. The check route of the status API example never loses a count: through any interleaving of requests
  and reloads, in every snapshot that a request works on, it reports the sum, modulo 2 to the 64, of the
  amounts of the snapshots on which status requests ran, and the counter of the metrics is the number of
  those requests. A reload changes the amount of later requests and keeps the count.
\<close>

theorem status_api_counts:
  assumes "api_reachable my_builder_api W (my_start config inc_amount) hist s" and "(h, snap) \<in> set (as_inflight s)"
  shows "handle_check snap (as_world s) =
    \<lparr>rp_status = 200, rp_body = TextBody (''Received '' @
       decimal (unat (sum_list (map (\<lambda>st. my_inc_amount (st_data st)) hist))) @ '' status requests!'')\<rparr> \<and>
    snd (as_world s) = of_nat (length hist)"
proof -
  let ?s0 = "my_start config inc_amount"
  have start: "my_api.service_ok ?s0" "as_world ?s0 = ([0], 0)"
    by (simp_all add: my_api.service_ok_def my_start_def my_from_config_def with_data_def)
  note r = my_api.reachable_world [OF assms(1) start(1)]
  have "as_world s = ([sum_list (map (\<lambda>st. my_inc_amount (st_data st)) hist)], of_nat (length hist))"
    using r my_incs_sum [of hist 0 0] by (simp add: start(2))
  moreover have "my_counter (st_data snap) = 0" using r assms(2) by (force simp: my_api.service_ok_def)
  ultimately show ?thesis by (simp add: handle_check_def my_get_def)
qed

theorem status_api_counts_witness:
  "\<exists>hist s snap. api_reachable my_builder_api demo_web (my_start (demo_module demo_pbs_config []) 2) hist s \<and> length hist = 1 \<and>
     (HandleExtra ''handle_check'', snap) \<in> set (as_inflight s) \<and>
     rp_body (handle_check snap (as_world s)) = TextBody (''Received '' @ decimal 2 @ '' status requests!'')"
proof -
  let ?s0 = "my_start (demo_module demo_pbs_config []) 2"
  let ?st = "as_state ?s0"
  let ?s1 = "?s0\<lparr>as_inflight := (HandleGetStatus, ?st) # as_inflight ?s0\<rparr>"
  obtain w' run where run: "api_get_status my_builder_api demo_web (\<lambda>_. refused) [] ?st Map.empty (as_world ?s1) = (w', run)"
    by (rule prod.exhaust)
  let ?s2 = "?s1\<lparr>as_inflight := remove1 (HandleGetStatus, ?st) (as_inflight ?s1), as_world := w'\<rparr>"
  let ?s3 = "?s2\<lparr>as_inflight := (HandleExtra ''handle_check'', as_state ?s2) # as_inflight ?s2\<rparr>"
  have 1: "api_step my_builder_api demo_web ?s0 [] ?s1" by (rule api_step.arrive)
  have 2: "api_step my_builder_api demo_web ?s1 [?st] ?s2" using run by (intro api_step.status) simp_all
  have 3: "api_step my_builder_api demo_web ?s2 [] ?s3" by (rule api_step.arrive)
  have reach: "api_reachable my_builder_api demo_web ?s0 [?st] ?s3"
    using api_reachable.step [OF api_reachable.step [OF api_reachable.step [OF api_reachable.start 1] 2] 3] by simp
  have inflight: "(HandleExtra ''handle_check'', as_state ?s2) \<in> set (as_inflight ?s3)" by simp
  have "sum_list (map (\<lambda>st. my_inc_amount (st_data st)) [?st]) = 2"
    by (simp add: my_start_def my_from_config_def with_data_def)
  with status_api_counts [OF reach inflight] have
    "rp_body (handle_check (as_state ?s2) (as_world ?s3)) = TextBody (''Received '' @ decimal 2 @ '' status requests!'')"
    by simp
  with reach inflight show ?thesis
    by (intro exI [of _ "[?st]"] exI [of _ ?s3] exI [of _ "as_state ?s2"]) simp
qed

section \<open>An extension without relays\<close>

lemma get_status_no_relays:
  assumes "pc_relay_check (st_pbs_config st)" and "all_relays st = []" and "get_user_agent_with_version W hs = Ok ua"
  shows "get_status W http order hs st = ([], Panicked)"
  using assms by (simp add: get_status_def race_def)

text \<open>
  A reload of the status API example accepts a configuration without relays, which the module itself
  rejects: afterwards, with the relay check on, every status request makes its handler panic.
\<close>

theorem custom_reload_without_relays:
  assumes "pbs_config_validate E (cb_pbs_config config) (cb_chain config) = Ok ()"
    and "load_endpoint E (cb_pbs_config config) = Ok endpoint" and "publisher_new_from_env W E = Ok publisher"
    and "\<not> cb_with_signer config" and "cb_muxes config = None" and "cb_relays config = []"
    and "pc_relay_check (cb_pbs_config config)" and "get_user_agent_with_version W hs = Ok ua"
  shows "(\<exists>new. ba_reload my_builder_api W E (Ok (config, amount)) st = Some (Ok new) \<and>
      (\<forall>http order w. snd (snd (api_get_status my_builder_api W http order new hs w)) = Panicked)) \<and>
    (\<exists>e. load_pbs_config W E (Ok config) (Ok ()) = Some (Err e))"
proof -
  define new where "new = with_data (pbs_state_new \<lparr>pm_chain = cb_chain config, pm_endpoint = endpoint,
    pm_pbs_config = cb_pbs_config config, pm_relays = [], pm_all_relays = [], pm_signer_client = None,
    pm_event_publisher = publisher, pm_muxes = None\<rparr>) ((st_data st)\<lparr>my_inc_amount := amount\<rparr>)"
  have "ba_reload my_builder_api W E (Ok (config, amount)) st = Some (Ok new)"
    using assms(1-6)
    by (simp add: my_builder_api_def my_reload_def load_pbs_custom_config_def load_muxes_def
        load_custom_signer_client_def assemble_all_relays_def all_relays_map_def new_def)
  moreover have "get_status W http order hs new = ([], Panicked)" for http order
    using assms(7,8)
    by (intro get_status_no_relays)
      (simp_all add: new_def with_data_def pbs_state_new_def st_pbs_config_def all_relays_def)
  then have "snd (snd (api_get_status my_builder_api W http order new hs w)) = Panicked" for http order w
    by (simp add: api_get_status_def my_builder_api_def my_get_status_def case_prod_beta)
  moreover have "\<exists>e. load_pbs_config W E (Ok config) (Ok ()) = Some (Err e)"
    using assms(1,6) by (simp add: load_pbs_config_def ensure_def)
  ultimately show ?thesis by blast
qed

theorem custom_reload_without_relays_witness:
  "\<exists>new. ba_reload my_builder_api demo_web demo_env
       (Ok (demo_config\<lparr>cb_relays := [], cb_pbs_config := demo_pbs_config\<lparr>pc_relay_check := True\<rparr>\<rparr>, 1))
       (with_data (demo_state demo_pbs_config []) \<lparr>my_inc_amount = 1, my_counter = 0\<rparr>) = Some (Ok new) \<and>
     snd (snd (api_get_status my_builder_api demo_web (\<lambda>_. refused) [] new Map.empty ([0], 0))) = Panicked"
proof -
  let ?config = "demo_config\<lparr>cb_relays := [], cb_pbs_config := demo_pbs_config\<lparr>pc_relay_check := True\<rparr>\<rparr>"
  obtain ua where ua: "get_user_agent_with_version demo_web Map.empty = Ok ua" using demo_user_agent by blast
  have valid: "pbs_config_validate demo_env (cb_pbs_config ?config) (cb_chain ?config) = Ok ()"
    by (simp add: demo_config_def pbs_config_validate_def demo_pbs_config_def ensure_def WEI_PER_ETH_def word_less_nat_alt)
  have fields: "load_endpoint demo_env (cb_pbs_config ?config) = Ok (SocketAddr (pc_host demo_pbs_config) (pc_port demo_pbs_config))"
    "publisher_new_from_env demo_web demo_env = Ok None"
    "\<not> cb_with_signer ?config" "cb_muxes ?config = None" "cb_relays ?config = []" "pc_relay_check (cb_pbs_config ?config)"
    by (simp_all add: load_endpoint_def demo_env_def load_optional_env_var_def publisher_new_from_env_def demo_config_def)
  from custom_reload_without_relays [OF valid fields ua, of 1 "with_data (demo_state demo_pbs_config [])
      \<lparr>my_inc_amount = 1, my_counter = 0\<rparr>"]
  show ?thesis by blast
qed

section \<open>The start of the PBS service\<close>

lemma load_pbs_config_keeps:
  assumes "load_pbs_config W E (Ok config) signer_valid = Some (Ok pm)"
  shows "pm_pbs_config pm = cb_pbs_config config"
  using assms by (auto simp: load_pbs_config_def and_then_Ok_iff split: sum.splits)

lemma get_status_returns:
  assumes "all_relays st \<noteq> []" and "set order = {..<length (all_relays st)}"
  shows "snd (get_status W http order hs st) \<noteq> Panicked"
proof (cases "get_user_agent_with_version W hs")
  case (Inl e)
  then show ?thesis by (simp add: get_status_def)
next
  case (Inr ua)
  define runs where "runs = map (\<lambda>(i, relay). send_relay_check W (http i) relay [USER_AGENT \<mapsto> ua])
    (enumerate 0 (all_relays st))"
  have "0 \<in> set order" using assms by auto
  then have "0 \<in> set (filter (\<lambda>i. i < length runs) order)" using assms(1) by (simp add: runs_def)
  then have "map (\<lambda>i. runs ! i) (filter (\<lambda>i. i < length runs) order) \<noteq> []"
    unfolding map_is_Nil_conv by (metis empty_iff empty_set)
  with race_None_iff have "snd (race (map (\<lambda>i. runs ! i) (filter (\<lambda>i. i < length runs) order))) \<noteq> None" by blast
  with get_status_unfold [OF Inr _ runs_def] show ?thesis
    by (cases "pc_relay_check (st_pbs_config st)") (auto simp: get_status_def split: option.splits sum.splits)
qed

text \<open>
  C25. The PBS service, started on a configuration that the loader accepts and whose address can be bound, serves
  until its server ends exactly if the relay check is off or some relay answers its status request with
  success; otherwise it gives up with an error about the relays.
\<close>

theorem pbs_starts_iff:
  assumes "load_pbs_config W E loaded signer_valid = Some (Ok config)" and "state = pbs_state_new config"
    and "binds (pm_endpoint config) = Ok ()"
    and "url_parses (''http://'' @ display_socket_addr (pm_endpoint config) @ BUILDER_V1_API_PATH @ GET_STATUS_PATH)"
    and "get_user_agent_with_version W Map.empty = Ok ua" and "set order = {..<length (pm_all_relays config)}"
  shows "snd (pbs_service_run default_builder_api W http order binds url_parses served state ()) =
    (if \<not> pc_relay_check (pm_pbs_config config) \<or>
        (\<exists>i<length (pm_all_relays config). \<exists>url res. get_status_url W (pm_all_relays config ! i) = Ok url \<and>
           is_success (resp_status res) \<and>
           snd (http i \<lparr>rq_method = GET, rq_url = url, rq_timeout_ms = 30000,
                        rq_headers = [USER_AGENT \<mapsto> ua], rq_body = NoBody\<rparr>) = Ok res)
     then map_err (\<lambda>_. ''PBS server exited'') served
     else Err ''PBS server failed to start. Are the relays properly configured?'')"
proof -
  have fields: "all_relays state = pm_all_relays config" "st_pbs_config state = pm_pbs_config config"
    "st_config state = config"
    by (simp_all add: assms(2) pbs_state_new_def all_relays_def st_pbs_config_def)
  have "all_relays state \<noteq> []"
    using load_pbs_config_wf [OF assms(1)] by (auto simp: pbs_module_wf_def fields)
  then obtain res where res: "snd (get_status W http order Map.empty state) = Returned res"
    using get_status_returns [of state order W http Map.empty] assms(6) fields(1)
    by (cases "snd (get_status W http order Map.empty state)") auto
  note spec = get_status_spec [OF assms(5), of order state http, unfolded fields, OF assms(6), THEN conjunct1]
  show ?thesis
    unfolding pbs_service_run_default own_status_handle res spec [symmetric]
    using assms(3,4)
    by (cases res) (simp_all add: fields is_success_def del: display_socket_addr.simps)
qed

theorem pbs_starts_iff_witness:
  "\<exists>config. load_pbs_config demo_web demo_env (Ok demo_config) (Ok ()) = Some (Ok config) \<and>
     snd (pbs_service_run default_builder_api demo_web (\<lambda>_. refused) [0] (\<lambda>_. Ok ()) (\<lambda>_. True) (Ok ())
       (pbs_state_new config) ()) = Err ''PBS server failed to start. Are the relays properly configured?''"
proof -
  obtain config where config: "load_pbs_config demo_web demo_env (Ok demo_config) (Ok ()) = Some (Ok config)"
    and one: "length (pm_all_relays config) = 1" using demo_load by blast
  have check: "pm_pbs_config config = demo_pbs_config"
    using load_pbs_config_keeps [OF config] by (simp add: demo_config_def)
  obtain ua where ua: "get_user_agent_with_version demo_web Map.empty = Ok ua" using demo_user_agent by blast
  have order: "set [0] = {..<length (pm_all_relays config)}" using one by auto
  have "pc_relay_check (pm_pbs_config config)" by (simp add: check demo_pbs_config_def)
  with pbs_starts_iff [where binds = "\<lambda>_. Ok ()" and url_parses = "\<lambda>_. True" and http = "\<lambda>_. refused" and served = "Ok ()",
      OF config refl refl TrueI ua order] config
  show ?thesis by (intro exI [of _ config]) (simp add: refused_def)
qed

end
