(* ===== verification/Threshold.thy ===== *)
theory Threshold
  imports Dirk
begin

text \<open>
  Recovery of a threshold signature from partial signatures (\<open>aggregate_partial_signatures\<close> in
  \<open>crates/signer/src/manager/dirk.rs\<close>): the weights that the code computes are those of Lagrange's
  interpolation at zero, so that the shares of a key that was split with a polynomial of degree
  below the number of shares give back the signature of the key.
\<close>

section \<open>Interpolation at zero\<close>

definition weight :: "'a::field set \<Rightarrow> 'a \<Rightarrow> 'a" where
  "weight A x = (\<Prod>k\<in>A - {x}. k / (k - x))"

lemma weight_remove:
  assumes "finite A" and "y \<in> A" and "x \<in> A - {y}"
  shows "weight A x * (x - y) = - y * weight (A - {y}) x"
proof -
  have "A - {x} = insert y (A - {y} - {x})" and "y \<notin> A - {y} - {x}" using assms by auto
  then have "weight A x = y / (y - x) * weight (A - {y}) x"
    unfolding weight_def using assms(1) by simp
  moreover have "y - x \<noteq> 0" using assms(3) by auto
  ultimately show ?thesis by (simp add: field_simps)
qed

lemma sum_weight_remove:
  assumes "finite A" and "y \<in> A"
  shows "(\<Sum>x\<in>A. weight A x * ((x - y) * g x)) = - y * (\<Sum>x\<in>A - {y}. weight (A - {y}) x * g x)"
proof -
  have "(\<Sum>x\<in>A. weight A x * ((x - y) * g x)) = (\<Sum>x\<in>A - {y}. weight A x * ((x - y) * g x))"
    using assms by (simp add: sum.remove)
  also have "\<dots> = (\<Sum>x\<in>A - {y}. - y * (weight (A - {y}) x * g x))"
  proof (rule sum.cong)
    fix x
    assume "x \<in> A - {y}"
    from weight_remove [OF assms this] show "weight A x * ((x - y) * g x) = - y * (weight (A - {y}) x * g x)"
      by (metis mult.assoc)
  qed simp
  finally show ?thesis by (simp add: sum_distrib_left sum_negf)
qed

lemma sum_weights: "finite A \<Longrightarrow> A \<noteq> {} \<Longrightarrow> (\<Sum>x\<in>A. weight A x) = 1"
proof (induction "card A" arbitrary: A rule: less_induct)
  case less
  then obtain y where y: "y \<in> A" by blast
  show ?case
  proof (cases "A = {y}")
    case True
    then show ?thesis by (simp add: weight_def)
  next
    case False
    then obtain z where z: "z \<in> A" "z \<noteq> y" using y by blast
    have part: "(\<Sum>x\<in>A. weight A x * (x - u)) = - u" if "u \<in> A" "A \<noteq> {u}" for u
    proof -
      have "card (A - {u}) < card A" using less.prems that by (intro psubset_card_mono) auto
      moreover have "finite (A - {u})" "A - {u} \<noteq> {}" using less.prems that by auto
      ultimately have "(\<Sum>x\<in>A - {u}. weight (A - {u}) x) = 1" by (rule less.hyps)
      with sum_weight_remove [OF less.prems(1) that(1), of "\<lambda>_. 1"] show ?thesis by simp
    qed
    have "(z - y) * (\<Sum>x\<in>A. weight A x) =
        (\<Sum>x\<in>A. weight A x * (x - y)) - (\<Sum>x\<in>A. weight A x * (x - z))"
      by (simp add: sum_distrib_left algebra_simps flip: sum_subtractf)
    also have "\<dots> = z - y" using part [OF y False] part [of z] y z by fastforce
    finally show ?thesis using z by simp
  qed
qed

text \<open>A polynomial with the coefficients of a list, lowest degree first.\<close>

fun horner :: "'a::comm_ring_1 list \<Rightarrow> 'a \<Rightarrow> 'a" where
  "horner [] x = 0"
| "horner (c # cs) x = c + x * horner cs x"

text \<open>Division by \<open>x - y\<close>.\<close>

fun quotient :: "'a::comm_ring_1 list \<Rightarrow> 'a \<Rightarrow> 'a list" where
  "quotient [] y = []"
| "quotient (c # cs) y = (if cs = [] then [] else horner cs y # quotient cs y)"

lemma horner_quotient: "horner cs x = horner cs y + (x - y) * horner (quotient cs y) x"
proof (induction cs)
  case Nil
  then show ?case by simp
next
  case (Cons c cs)
  show ?case
  proof (cases "cs = []")
    case True
    then show ?thesis by simp
  next
    case False
    have "x * horner cs x - y * horner cs y = (x - y) * horner cs y + x * (horner cs x - horner cs y)"
      by (simp add: algebra_simps)
    also have "horner cs x - horner cs y = (x - y) * horner (quotient cs y) x"
      using Cons.IH by (simp add: algebra_simps)
    finally have "x * horner cs x = y * horner cs y + (x - y) * (horner cs y + x * horner (quotient cs y) x)"
      by (simp add: algebra_simps)
    with False show ?thesis by (simp add: algebra_simps)
  qed
qed

lemma length_quotient: "length (quotient cs y) = length cs - 1"
  by (induction cs) auto

lemma interpolation_at_zero:
  "finite A \<Longrightarrow> length cs \<le> card A \<Longrightarrow> A \<noteq> {} \<Longrightarrow> (\<Sum>x\<in>A. weight A x * horner cs x) = horner cs 0"
proof (induction "card A" arbitrary: A cs rule: less_induct)
  case less
  then obtain y where y: "y \<in> A" by blast
  let ?q = "quotient cs y"
  have smaller: "(\<Sum>x\<in>A - {y}. weight (A - {y}) x * horner ?q x) = horner ?q 0"
  proof (cases "A = {y}")
    case True
    then have "?q = []" using less.prems(2) length_quotient [of cs y] by simp
    with True show ?thesis by simp
  next
    case False
    have "card (A - {y}) < card A" "card (A - {y}) = card A - 1"
      using less.prems y by (simp_all add: card_gt_0_iff)
    with False y less show ?thesis by (simp add: length_quotient subset_singleton_iff)
  qed
  have "(\<Sum>x\<in>A. weight A x * horner cs x) =
      horner cs y * (\<Sum>x\<in>A. weight A x) + (\<Sum>x\<in>A. weight A x * ((x - y) * horner ?q x))"
    by (subst horner_quotient [of cs _ y]) (simp add: sum_distrib_left algebra_simps flip: sum.distrib)
  also have "\<dots> = horner cs y + (0 - y) * horner ?q 0"
    using sum_weights [OF less.prems(1,3)] sum_weight_remove [OF less.prems(1) y, of "horner ?q"] smaller by simp
  also have "\<dots> = horner cs 0" by (rule horner_quotient [symmetric])
  finally show ?case .
qed

section \<open>The code's weights\<close>

lemma foldl_times: "foldl (\<lambda>acc k. acc * f k) a xs = a * (\<Prod>k\<leftarrow>xs. f k)" for a :: "'a::comm_monoid_mult"
  by (induction xs arbitrary: a) (simp_all add: mult.assoc)

lemma lagrange_coeff_weight:
  assumes "distinct ids" and "inj_on (scalar :: u32 \<Rightarrow> 's::field) (set ids)" and "pid \<in> set ids"
  shows "lagrange_coeff ids pid = Some (weight (scalar ` set ids) (scalar pid) :: 's)"
proof -
  let ?others = "filter (\<lambda>other_id. other_id \<noteq> pid) ids"
  have others: "set ?others = set ids - {pid}" by auto
  have dist: "distinct ?others" using assms(1) by simp
  have num: "foldl (\<lambda>acc k. acc * scalar k) 1 ?others = (\<Prod>k\<in>set ids - {pid}. scalar k :: 's)"
    unfolding foldl_times using prod.distinct_set_conv_list [OF dist, of "scalar :: u32 \<Rightarrow> 's"] unfolding others by simp
  have den: "foldl (\<lambda>acc k. acc * (scalar k - scalar pid)) 1 ?others = (\<Prod>k\<in>set ids - {pid}. scalar k - scalar pid :: 's)"
    unfolding foldl_times using prod.distinct_set_conv_list [OF dist, of "\<lambda>k. scalar k - scalar pid :: 's"] unfolding others by simp
  have "scalar k \<noteq> (scalar pid :: 's)" if "k \<in> set ids - {pid}" for k
    using that assms(2,3) by (auto dest: inj_onD)
  then have nz: "(\<Prod>k\<in>set ids - {pid}. scalar k - scalar pid :: 's) \<noteq> 0" by simp
  have "scalar ` set ids - {scalar pid} = (scalar ` (set ids - {pid}) :: 's set)"
    using assms(2,3) by (auto dest: inj_onD)
  moreover have "inj_on (scalar :: u32 \<Rightarrow> 's) (set ids - {pid})" using assms(2) by (rule inj_on_subset) auto
  ultimately have "weight (scalar ` set ids) (scalar pid) = (\<Prod>k\<in>set ids - {pid}. scalar k / (scalar k - scalar pid) :: 's)"
    unfolding weight_def by (simp add: prod.reindex)
  with nz show ?thesis
    unfolding lagrange_coeff_def Let_def num den by (simp add: prod_dividef flip: divide_inverse)
qed

section \<open>Recovering a signature\<close>

text \<open>What the group of signatures promises: scalars act on it as on a vector space.\<close>

definition scales :: "('s::field, 'g::ab_group_add) siggroup \<Rightarrow> bool" where
  "scales G \<longleftrightarrow>
     (\<forall>a b p. sg_scale G (a + b) p = sg_scale G a p + sg_scale G b p) \<and>
     (\<forall>a b p. sg_scale G (a * b) p = sg_scale G a (sg_scale G b p))"

lemma scales_zero: "scales G \<Longrightarrow> sg_scale G 0 p = 0"
  by (metis add_0 add_cancel_left_left scales_def)

lemma scales_sum:
  assumes "scales G" and "finite A"
  shows "sg_scale G (\<Sum>x\<in>A. f x) p = (\<Sum>x\<in>A. sg_scale G (f x) p)"
  using assms(2)
proof (induction A rule: finite_induct)
  case empty
  then show ?case using scales_zero [OF assms(1)] by simp
next
  case (insert x A)
  then show ?case using assms(1) by (simp add: scales_def)
qed

lemma interpolate_sum:
  assumes "\<And>pid point. (pid, point) \<in> set shares \<Longrightarrow> lagrange_coeff ids pid = Some (c pid)"
  shows "interpolate G ids acc shares = Ok (acc + (\<Sum>(pid, point)\<leftarrow>shares. sg_scale G (c pid) point))"
  using assms
proof (induction shares arbitrary: acc)
  case Nil
  then show ?case by simp
next
  case (Cons s shares)
  obtain pid point where s: "s = (pid, point)" by fastforce
  with Cons.prems [of pid point] have "lagrange_coeff ids pid = Some (c pid)" by simp
  moreover have "interpolate G ids (acc + sg_scale G (c pid) point) shares =
      Ok (acc + sg_scale G (c pid) point + (\<Sum>(pid, point)\<leftarrow>shares. sg_scale G (c pid) point))"
    using Cons.prems by (intro Cons.IH) auto
  ultimately show ?case by (simp add: s add.assoc)
qed

lemma deserialize_shares_distinct:
  assumes "distinct (map fst shares @ map snd partials)"
    and "\<And>sig pid. (sig, pid) \<in> set partials \<Longrightarrow> sg_from_compressed G sig = Some (pt pid)"
  shows "deserialize_shares G shares partials = Ok (shares @ map (\<lambda>(sig, pid). (pid, pt pid)) partials)"
  using assms
proof (induction partials arbitrary: shares)
  case Nil
  then show ?case by simp
next
  case (Cons sp partials)
  obtain sig pid where sp: "sp = (sig, pid)" by fastforce
  have "pid \<notin> fst ` set shares" using Cons.prems(1) sp by auto
  then have "AList.update pid (pt pid) shares = shares @ [(pid, pt pid)]" by (rule update_fresh)
  moreover have "sg_from_compressed G sig = Some (pt pid)" using Cons.prems(2) sp by simp
  moreover have "deserialize_shares G (shares @ [(pid, pt pid)]) partials =
      Ok ((shares @ [(pid, pt pid)]) @ map (\<lambda>(sig, pid). (pid, pt pid)) partials)"
    using Cons.prems sp by (intro Cons.IH) auto
  ultimately show ?case by (simp add: sp)
qed

lemma aggregate_recovers:
  fixes G :: "('s::field, 'g::ab_group_add) siggroup"
  assumes "scales G" and "distinct (map snd partials)" and "partials \<noteq> []"
    and "inj_on (scalar :: u32 \<Rightarrow> 's) (snd ` set partials)"
    and "\<And>sig pid. (sig, pid) \<in> set partials \<Longrightarrow>
      sg_from_compressed G sig = Some (sg_scale G (horner key (scalar pid)) base)"
    and "length key \<le> length partials"
  shows "aggregate_partial_signatures G partials = Ok (sg_to_compressed G (sg_scale G (horner key 0) base))"
proof -
  let ?pt = "\<lambda>pid. sg_scale G (horner key (scalar pid)) base"
  let ?ids = "map snd partials"
  let ?A = "scalar ` set ?ids :: 's set"
  let ?shares = "map (\<lambda>(sig, pid). (pid, ?pt pid)) partials"
  have ids: "map fst ?shares = ?ids" by (simp add: split_def comp_def)
  have des: "deserialize_shares G [] partials = Ok ?shares"
    using deserialize_shares_distinct [of "[]" partials G ?pt] assms(2,5) by simp
  have inj: "inj_on (scalar :: u32 \<Rightarrow> 's) (set ?ids)" using assms(4) by simp
  have "interpolate G ?ids 0 ?shares =
      Ok (0 + (\<Sum>(pid, point)\<leftarrow>?shares. sg_scale G (weight ?A (scalar pid)) point))"
  proof (rule interpolate_sum)
    fix pid point
    assume "(pid, point) \<in> set ?shares"
    then have "pid \<in> set ?ids" by force
    with lagrange_coeff_weight [OF assms(2) inj] show "lagrange_coeff ?ids pid = Some (weight ?A (scalar pid))" .
  qed
  also have "(\<Sum>(pid, point)\<leftarrow>?shares. sg_scale G (weight ?A (scalar pid)) point) =
      (\<Sum>pid\<leftarrow>?ids. sg_scale G (weight ?A (scalar pid) * horner key (scalar pid)) base)"
    using assms(1) by (simp add: split_def comp_def scales_def)
  also have "\<dots> = (\<Sum>pid\<in>set ?ids. sg_scale G (weight ?A (scalar pid) * horner key (scalar pid)) base)"
    by (rule sum.distinct_set_conv_list [OF assms(2), symmetric])
  also have "\<dots> = (\<Sum>x\<in>?A. sg_scale G (weight ?A x * horner key x) base)"
    by (simp only: sum.reindex [OF inj] comp_def)
  also have "\<dots> = sg_scale G (\<Sum>x\<in>?A. weight ?A x * horner key x) base"
    by (simp add: scales_sum [OF assms(1)])
  also have "(\<Sum>x\<in>?A. weight ?A x * horner key x) = horner key 0"
  proof (rule interpolation_at_zero)
    have "card ?A = length partials"
      using card_image [OF inj] distinct_card [OF assms(2)] by simp
    with assms(6) show "length key \<le> card ?A" by simp
  qed (use assms(3) in simp_all)
  finally show ?thesis unfolding aggregate_partial_signatures_def des and_then_simps ids by simp
qed

end
