(* ===== verification/Signer_Properties.thy ===== *)
theory Signer_Properties
  imports Complex_Main Instances Threshold
begin

text \<open>
  The properties of the signer module: authentication and its rate limit, the signatures it serves,
  its managers, its key store, and threshold signatures.
\<close>

section \<open>Authentication\<close>

text \<open>
  C9. Wrong tokens are cut off: of the attempts of a client with no earlier failure, all with wrong tokens
  and within the window after the first, the first \<open>max 1 limit\<close> are answered with 401 and every
  later one with 429, without looking at the token.
\<close>

theorem wrong_tokens_limited:
  assumes "failures_of h ip = None" and "xs = (t0, jwt0) # ys"
    and "\<forall>(t, jwt)\<in>set xs. wrong_token J h jwt \<and> t \<le> t0 + sv_jwt_auth_fail_timeout state \<and> t0 \<le> t"
    and "n = max 1 (unat (sv_jwt_auth_fail_limit state))"
  shows "map auth_status (jwt_attempts J state ip xs h) =
    replicate (min n (length xs)) 401 @ replicate (length xs - n) 429"
  by (rule jwt_attempts_bad_tokens [OF assms])

definition demo_jwt :: jwtlib where
  "demo_jwt = \<lparr>jl_now = 1000,
     jl_encode = (\<lambda>c s. if c = \<lparr>jc_exp = 1300, jc_module = ''m''\<rparr> \<and> s = ''k'' then Ok ''token'' else Err ''no''),
     jl_decode = (\<lambda>jwt s v. if jwt = ''token'' \<and> (s = ''k'' \<or> \<not> jv_check_signature v)
                            then Ok \<lparr>jc_exp = 1300, jc_module = ''m''\<rparr> else Err ''invalid''),
     jl_decode_admin = (\<lambda>jwt s v. if jwt = s then Ok \<lparr>ja_exp = 1300, ja_admin = True\<rparr> else Err ''invalid'')\<rparr>"

definition demo_local :: local_manager where
  "demo_local = add_consensus_signer demo_crypto (BlsLocal 9) \<lparr>lm_chain = Mainnet, lm_proxy_store = None,
     lm_consensus_signers = [], lm_proxy_signers = proxy_signers_default, lm_proxy_pubkeys_bls = [],
     lm_proxy_addresses_ecdsa = []\<rparr>"

definition demo_heap :: signer_heap where
  "demo_heap = \<lparr>hp_managers = [ManagerLocal demo_local],
     hp_jwts = [(''m'', \<lparr>ms_module_name = ''m'', ms_jwt_secret = ''k'', ms_signing_id = 4\<rparr>)],
     hp_admin_secret = ''a'', hp_jwt_auth_failures = [], hp_fs = \<lparr>fs_files = [], fs_dirs = []\<rparr>\<rparr>"

definition demo_signing_state :: signing_state where
  "demo_signing_state = \<lparr>sv_manager = 0, sv_jwt_auth_fail_limit = 3, sv_jwt_auth_fail_timeout = 300000\<rparr>"

lemma demo_wrong_token: "jwt \<noteq> ''token'' \<Longrightarrow> wrong_token demo_jwt h jwt"
  by (simp add: wrong_token_def check_jwt_auth_def decode_jwt_def demo_jwt_def)

theorem wrong_tokens_limited_witness:
  "map auth_status (jwt_attempts demo_jwt demo_signing_state 7
     [(0, ''a''), (1, ''b''), (2, ''c''), (3, ''d''), (4, ''e'')] demo_heap) = [401, 401, 401, 429, 429]"
proof -
  let ?xs = "[(0, ''a''), (1, ''b''), (2, ''c''), (3, ''d''), (4, ''e'')] :: (nat \<times> string) list"
  have fresh: "failures_of demo_heap 7 = None" by (simp add: failures_of_def demo_heap_def)
  have wrong: "\<forall>(t, jwt)\<in>set ?xs. wrong_token demo_jwt demo_heap jwt \<and>
      t \<le> 0 + sv_jwt_auth_fail_timeout demo_signing_state \<and> 0 \<le> t"
    by (simp add: demo_wrong_token demo_signing_state_def)
  have limit: "3 = max 1 (unat (sv_jwt_auth_fail_limit demo_signing_state))"
    by (simp add: demo_signing_state_def)
  from wrong_tokens_limited [OF fresh refl wrong limit] show ?thesis by (simp add: numeral_eq_Suc)
qed

text \<open>The attempts of several clients, one after the other.\<close>

definition attempts_of_clients ::
  "jwtlib \<Rightarrow> signing_state \<Rightarrow> (ip_addr \<times> nat \<times> string) list \<Rightarrow> signer_heap \<Rightarrow> signer_heap" where
  "attempts_of_clients J state = fold (\<lambda>(ip, now, jwt) h. fst (jwt_auth J state now ip jwt h))"

lemma attempts_of_others:
  "ip \<notin> fst ` set xs \<Longrightarrow>
     failures_of (attempts_of_clients J state xs h) ip = failures_of h ip \<and>
     hp_jwts (attempts_of_clients J state xs h) = hp_jwts h"
proof (induction xs arbitrary: h)
  case Nil
  then show ?case by (simp add: attempts_of_clients_def)
next
  case (Cons x xs)
  obtain ip' now jwt where x: "x = (ip', now, jwt)" by (cases x)
  with Cons.prems have "ip' \<noteq> ip" by auto
  from jwt_auth_other_client [OF this] jwt_auth_jwts [of J state now ip' jwt h] Cons x show ?case
    by (simp add: attempts_of_clients_def)
qed

text \<open>
  An honest client is served: a fresh token made with the registered secret of a module is accepted
  whatever attempts other clients made before, provided the client itself had no failure.
\<close>

theorem honest_client_served:
  assumes "jwt_complete J" and "create_jwt J mid (ms_jwt_secret cfg) = Ok jwt"
    and "jl_now J \<le> jl_now J + SIGNER_JWT_EXPIRATION"
    and "map_of (hp_jwts h) mid = Some cfg"
    and "failures_of h ip = None" and "ip \<notin> fst ` set xs"
  shows "snd (jwt_auth J state now ip jwt (attempts_of_clients J state xs h)) = Ok mid"
proof -
  let ?h = "attempts_of_clients J state xs h"
  from attempts_of_others [OF assms(6)] assms(4,5)
  have kept: "failures_of ?h ip = None" "map_of (hp_jwts ?h) mid = Some cfg" by simp_all
  then have "\<not> rate_limited state now ip ?h" by (simp add: rate_limited_def)
  moreover have "check_jwt_auth J jwt ?h = Ok mid"
    using create_jwt_validates [OF assms(1-3)] kept(2) by (simp add: check_jwt_auth_Ok_iff)
  ultimately show ?thesis by (simp add: jwt_auth_not_limited)
qed

theorem honest_client_served_witness:
  "snd (jwt_auth demo_jwt demo_signing_state 9 7 ''token''
     (attempts_of_clients demo_jwt demo_signing_state [(8, 1, ''x''), (8, 2, ''y'')] demo_heap)) = Ok ''m''"
proof -
  have "jwt_complete demo_jwt" by (auto simp: jwt_complete_def demo_jwt_def split: if_splits)
  moreover have "create_jwt demo_jwt ''m'' (ms_jwt_secret \<lparr>ms_module_name = ''m'', ms_jwt_secret = ''k'', ms_signing_id = 4\<rparr>)
      = Ok ''token''"
    by (simp add: create_jwt_def demo_jwt_def SIGNER_JWT_EXPIRATION_def)
  ultimately show ?thesis
    by (rule honest_client_served) (simp_all add: demo_jwt_def SIGNER_JWT_EXPIRATION_def demo_heap_def failures_of_def)
qed

section \<open>Serving\<close>

text \<open>
  C3. Every consensus signature that a running service returns, whatever requests, reloads and revocations came
  before, was asked for with a valid token of a module that was registered when the service started. With local
  keys, it is made with a key loaded at the start and verifies under that key, on the configured chain, for the
  signing id that the module had at the start. With Dirk, it is what the servers of an account loaded at the start
  for the requested key answered to the request for that signing id; the service does not verify it.
\<close>

theorem served_signature_safe:
  assumes "bls_complete C" and "signing_service_start C L K N E fs config = Returned (Ok (Some (h0, state)))"
    and "signer_reachable C N G L K state h0 h"
    and "ca_route ca = RequestSignature (SignConsensus r)"
    and "serve C N G L K state ca h = (h', Returned (Ok reply))"
  shows "\<exists>mid cfg0 cfg sig. reply = BlsSignatureReply sig \<and>
    decode_jwt (ca_jwt ca) (ca_token ca) = Ok mid \<and> map_of (ss_mod_signing_configs config) mid = Some cfg0 \<and>
    map_of (hp_jwts h) mid = Some cfg \<and> validate_jwt (ca_jwt ca) (ca_token ca) (ms_jwt_secret cfg) = Ok () \<and>
    (case active_manager state h0 of
       ManagerLocal m0 \<Rightarrow> has_consensus m0 (scr_pubkey r) \<and>
         verify_signed_message C (ss_chain config) (scr_pubkey r) (scr_object_root r) sig (Some (ms_signing_id cfg0))
           COMMIT_BOOST_DOMAIN = Ok ()
     | ManagerDirk m0 \<Rightarrow> \<exists>account. map_of (dm_consensus_accounts m0) (scr_pubkey r) = Some account \<and>
         request_account_signature C N G (ca_arrival ca) m0 account (scr_object_root r) (Some (ms_signing_id cfg0)) = Ok sig)"
proof -
  note start = signing_service_start_keyed [OF assms(2)]
  from assms(4,5) obtain h1 mid where auth: "jwt_auth (ca_jwt ca) state (ca_now ca) (ca_ip ca) (ca_token ca) h = (h1, Ok mid)"
    and signed: "handle_request_signature C N G (ca_arrival ca) state mid (SignConsensus r) h1 = Ok reply"
    by (auto simp: serve.simps with_jwt_auth_def split: prod.splits sum.splits)
  have h1: "active_manager state h1 = active_manager state h" "hp_jwts h1 = hp_jwts h"
    using jwt_auth_frame [OF auth] by (simp_all add: active_manager_def)
  from jwt_auth_Ok [OF auth] obtain cfg where token: "decode_jwt (ca_jwt ca) (ca_token ca) = Ok mid"
    "map_of (hp_jwts h) mid = Some cfg" "validate_jwt (ca_jwt ca) (ca_token ca) (ms_jwt_secret cfg) = Ok ()"
    by (auto simp: check_jwt_auth_Ok_iff)
  from signer_reachable_registry [OF assms(3)] token(2) start(3) obtain cfg0 where
    cfg0: "map_of (ss_mod_signing_configs config) mid = Some cfg0" "ms_signing_id cfg = ms_signing_id cfg0"
    unfolding registry_from_def by metis
  have kept: "manager_kept C state h0 h" by (rule signer_reachable_manager [OF assms(3) start(1)])
  then have keyed: "manager_keyed C (active_manager state h)" "manager_from (active_manager state h0) (active_manager state h)"
    using start(2) by (simp_all add: manager_kept_def)
  note served = handle_request_consensus [OF signed, unfolded h1, OF token(2), unfolded cfg0(2)]
  show ?thesis
  proof (cases "active_manager state h0")
    case (ManagerLocal m0)
    with keyed obtain m where m: "active_manager state h = ManagerLocal m" "lm_chain m = lm_chain m0"
      "lm_consensus_signers m = lm_consensus_signers m0" "local_keyed C m" by (cases "active_manager state h") auto
    from served m(1) obtain sig where "reply = BlsSignatureReply sig"
      and sig: "sign_consensus C m (scr_pubkey r) (scr_object_root r) (Some (ms_signing_id cfg0)) = Ok sig" by auto
    moreover have "has_consensus m0 (scr_pubkey r)" if "has_consensus m (scr_pubkey r)"
      using that m(3) by (simp add: has_consensus_def)
    ultimately show ?thesis
      using sign_consensus_verifies [OF assms(1) m(4) sig] token cfg0 m(2) start(5) ManagerLocal by auto
  next
    case (ManagerDirk m0)
    with keyed(2) obtain m where m: "active_manager state h = ManagerDirk m" "dm_chain m = dm_chain m0"
      "dm_consensus_accounts m = dm_consensus_accounts m0" by (cases "active_manager state h") auto
    from served m obtain sig account where "reply = BlsSignatureReply sig"
      "map_of (dm_consensus_accounts m0) (scr_pubkey r) = Some account"
      "request_account_signature C N G (ca_arrival ca) m account (scr_object_root r) (Some (ms_signing_id cfg0)) = Ok sig"
      by (auto simp: request_consensus_signature_def split: option.splits)
    then show ?thesis
      using token cfg0 request_account_signature_chain [OF m(2), of C N G "ca_arrival ca"] ManagerDirk by auto
  qed
qed

definition demo_delegation :: signed_proxy_delegation_bls where
  "demo_delegation = \<lparr>sd_message = \<lparr>pd_delegator = 9, pd_proxy = 6\<rparr>, sd_signature = 0\<rparr>"

definition demo_store :: storelib where
  "demo_store = \<lparr>sl_write = (\<lambda>_. WriteDone), sl_readable = (\<lambda>_. True), sl_kd_bls_to_json = (\<lambda>_ _. ''json''),
     sl_kd_bls_from_json = (\<lambda>_. Ok (secret_bytes 6, demo_delegation)), sl_kd_ecdsa_to_json = (\<lambda>_ _. []),
     sl_kd_ecdsa_from_json = (\<lambda>_. Err []), sl_delegation_to_json = (\<lambda>_. []), sl_encrypt = (\<lambda>_ _ _. Err []),
     sl_keystore_to_json = (\<lambda>_. []), sl_keystore_from_json = (\<lambda>_. Err []), sl_decrypt = (\<lambda>_ _. Err []),
     sl_decrypt_keypair = (\<lambda>_ _. Err []), sl_address_to_string = (\<lambda>_. []), sl_parse_signature = (\<lambda>_. Err []),
     sl_parse_pubkey = (\<lambda>_. None)\<rparr>"

definition demo_keys :: keylib where
  "demo_keys = \<lparr>kl_json = (\<lambda>_. Err []), kl_json_slice = (\<lambda>_. Err []), kl_json_strings = (\<lambda>_. Err []),
     kl_json_bytes = (\<lambda>_. None), kl_base64_decode = (\<lambda>_. None), kl_hex_decode = (\<lambda>_. Err []),
     kl_pubkey_from_hex = (\<lambda>_. None), kl_nfkd_bytes = (\<lambda>_. []), kl_pbkdf2 = (\<lambda>_ _ _. Err []),
     kl_ctr_accepts = (\<lambda>_ _. False), kl_ctr_apply = (\<lambda>_ _ _. Err [])\<rparr>"

definition demo_reload_env :: config_env where
  "demo_reload_env = \<lparr>ce_var = [ADMIN_JWT_ENV \<mapsto> ''a'', JWTS_ENV \<mapsto> ''m=k''], ce_read_file = (\<lambda>_. Some ''pem''),
     ce_parse_addr = (\<lambda>_. None), ce_parse_url = Some, ce_rpc_chain_id = (\<lambda>_. Ok 1),
     ce_http_get = (\<lambda>_. Err \<lparr>err_is_timeout = False, err_is_connect = True\<rparr>), ce_json_pubkeys = (\<lambda>_. None),
     ce_json_ssv = (\<lambda>_. None), ce_lido_total = (\<lambda>_ _. Ok 0), ce_lido_keys = (\<lambda>_ _ _ _. Ok [])\<rparr>"

definition demo_net :: dirknet where
  "demo_net = \<lparr>dn_connect = (\<lambda>_. Err ''no''), dn_list_accounts = (\<lambda>_ _. Err ''no''), dn_sign = (\<lambda>_ _. Err ''no''),
     dn_generate = (\<lambda>_ _. Err ''no''), dn_unlock = (\<lambda>_ _ _. Err ''no''), dn_url_host = (\<lambda>_. None),
     dn_uuid_parses = (\<lambda>_. True)\<rparr>"

definition demo_group :: "(rat, rat) siggroup" where
  "demo_group = \<lparr>sg_scale = (*), sg_from_compressed = (\<lambda>s. Some (of_nat (unat s))),
     sg_to_compressed = (\<lambda>p. word_of_int \<lfloor>p\<rfloor>)\<rparr>"

definition demo_call :: "string \<Rightarrow> signer_route \<Rightarrow> signer_call" where
  "demo_call token route = \<lparr>ca_now = 5, ca_ip = 7, ca_token = token, ca_route = route,
     ca_fresh = \<lparr>fr_bls_secret = 1, fr_ecdsa_secret = 2, fr_password = ''p'', fr_seed = 3, fr_uuid = ''u''\<rparr>,
     ca_jwt = demo_jwt, ca_env = demo_reload_env, ca_config = Err ''no config'', ca_arrival = (\<lambda>_. 0)\<rparr>"

lemma demo_local_wf: "local_wf demo_crypto demo_local"
  unfolding demo_local_def
  by (intro local_wf_add_consensus local_wf_new [where L = undefined and fs = undefined and chain = Mainnet])
    (simp add: local_manager_new_def)

text \<open>A service started on a file with one key.\<close>

definition demo_start_keys :: keylib where
  "demo_start_keys = demo_keys\<lparr>kl_json_strings := (\<lambda>_. Ok [''0x09'']), kl_hex_decode := (\<lambda>_. Ok (replicate 31 0 @ [9]))\<rparr>"

definition demo_start_fs :: filesystem where
  "demo_start_fs = \<lparr>fs_files = [(path_of ''/keys.json'', ''[]'')], fs_dirs = []\<rparr>"

definition demo_start_config :: start_signer_config where
  "demo_start_config = \<lparr>ss_chain = Mainnet, ss_loader = Some (KeysFile ''/keys.json''), ss_store = None,
     ss_endpoint = SocketAddr 0 20000,
     ss_mod_signing_configs = [(''m'', \<lparr>ms_module_name = ''m'', ms_jwt_secret = ''k'', ms_signing_id = 4\<rparr>)],
     ss_admin_secret = ''a'', ss_jwt_auth_fail_limit = 3, ss_jwt_auth_fail_timeout_seconds = 300, ss_dirk = None\<rparr>"

lemma demo_started_with:
  assumes "configs \<noteq> []"
  shows "signing_service_start demo_crypto demo_store demo_start_keys demo_net demo_reload_env demo_start_fs
      (demo_start_config\<lparr>ss_mod_signing_configs := configs\<rparr>) =
    Returned (Ok (Some (demo_heap\<lparr>hp_jwts := configs, hp_fs := demo_start_fs\<rparr>, demo_signing_state)))"
proof -
  have "ce_var demo_reload_env SIGNER_KEYS_ENV = None"
    by (simp add: demo_reload_env_def SIGNER_KEYS_ENV_def ADMIN_JWT_ENV_def JWTS_ENV_def)
  moreover have "be_nat (replicate 31 0 @ [9]) = 9" by code_simp
  ultimately have keys: "load_keys demo_crypto demo_store demo_start_keys demo_reload_env demo_start_fs (KeysFile ''/keys.json'') =
      Returned (Ok [BlsLocal 9])"
    by (simp add: load_keys_def path_override_def load_keys_file_def read_file_def demo_start_fs_def demo_start_keys_def
        demo_store_def deserialize_file_key_def new_signer_def bls_signer_new_from_bytes_def demo_crypto_def
        load_env_var_def)
  with assms show ?thesis
    by (simp add: signing_service_start_def start_manager_def demo_start_config_def local_manager_new_def Let_def
        demo_heap_def demo_signing_state_def demo_local_def)
qed

lemma demo_started:
  "signing_service_start demo_crypto demo_store demo_start_keys demo_net demo_reload_env demo_start_fs demo_start_config =
     Returned (Ok (Some (demo_heap\<lparr>hp_fs := demo_start_fs\<rparr>, demo_signing_state)))"
  using demo_started_with [of "ss_mod_signing_configs demo_start_config"] by (simp add: demo_start_config_def demo_heap_def)

theorem served_signature_safe_witness:
  "\<exists>h0 state sig. signing_service_start demo_crypto demo_store demo_start_keys demo_net demo_reload_env demo_start_fs
       demo_start_config = Returned (Ok (Some (h0, state))) \<and>
     serve demo_crypto demo_net demo_group demo_store demo_start_keys state
       (demo_call ''token'' (RequestSignature (SignConsensus \<lparr>scr_pubkey = 9, scr_object_root = 3\<rparr>))) h0 =
       (h0, Returned (Ok (BlsSignatureReply sig))) \<and>
     verify_signed_message demo_crypto Mainnet 9 3 sig (Some 4) COMMIT_BOOST_DOMAIN = Ok ()"
proof -
  let ?r = "\<lparr>scr_pubkey = 9, scr_object_root = 3\<rparr>" and ?h = "demo_heap\<lparr>hp_fs := demo_start_fs\<rparr>"
  let ?ca = "demo_call ''token'' (RequestSignature (SignConsensus ?r))"
  have auth: "jwt_auth demo_jwt demo_signing_state 5 7 ''token'' ?h = (?h, Ok ''m'')"
    by (simp add: jwt_auth_def check_jwt_rate_limit_def check_jwt_auth_def decode_jwt_def validate_jwt_def
        demo_jwt_def demo_heap_def jwt_validation_default_def)
  have signed: "\<exists>sig. sign_consensus demo_crypto demo_local 9 3 (Some 4) = Ok sig"
    by (simp add: sign_consensus_def demo_local_def add_consensus_signer_def demo_crypto_def)
  obtain reply where run: "serve demo_crypto demo_net demo_group demo_store demo_start_keys demo_signing_state ?ca ?h =
      (?h, Returned (Ok reply))"
    using auth signed
    by (auto simp: serve.simps demo_call_def with_jwt_auth_def handle_request_signature_def demo_heap_def
        demo_signing_state_def)
  have active: "active_manager demo_signing_state ?h = ManagerLocal demo_local"
    by (simp add: active_manager_def demo_signing_state_def demo_heap_def)
  from served_signature_safe [OF demo_bls_complete demo_started signer_reachable.start _ run, of ?r]
  have "\<exists>sig. reply = BlsSignatureReply sig \<and>
      verify_signed_message demo_crypto Mainnet 9 3 sig (Some 4) COMMIT_BOOST_DOMAIN = Ok ()"
    by (auto simp: demo_call_def active demo_start_config_def split: if_splits)
  with run demo_started show ?thesis by blast
qed

text \<open>
  C19. A revoked module stays out: after a successful revocation no later request, not even a reload, with new
  secrets or without, makes the service accept a token for that module again. The documentation of the reload
  (\<open>docs/docs/get_started/configuration.md\<close>) says that a reload reverts revocations; the code keeps the registry.
\<close>

theorem revoked_module_stays_out:
  assumes "serve C N G L K state ca h = (h1, Returned (Ok StatusOk))" and "ca_route ca = RevokeModule mid"
    and "signer_reachable C N G L K state h1 h2"
  shows "snd (jwt_auth J state now ip jwt h2) \<noteq> Ok mid"
proof
  assume accepted: "snd (jwt_auth J state now ip jwt h2) = Ok mid"
  have "map_of (hp_jwts h1) mid = None"
    using assms(1,2)
    by (auto simp: serve.simps handle_revoke_module_def delete_conv' split: sum.splits option.splits)
  with signer_reachable_registry [OF assms(3)] have "map_of (hp_jwts h2) mid = None"
    unfolding registry_from_def by (metis not_None_eq)
  moreover obtain h3 where "jwt_auth J state now ip jwt h2 = (h3, Ok mid)"
    using accepted by (metis prod.collapse)
  ultimately show False using jwt_auth_Ok by (fastforce simp: check_jwt_auth_Ok_iff)
qed

theorem revoked_module_stays_out_witness:
  "\<exists>h1. serve demo_crypto demo_net demo_group demo_store demo_keys demo_signing_state (demo_call ''a'' (RevokeModule ''m'')) demo_heap =
     (h1, Returned (Ok StatusOk)) \<and> snd (jwt_auth demo_jwt demo_signing_state 5 7 ''token'' h1) \<noteq> Ok ''m''"
proof -
  let ?ca = "demo_call ''a'' (RevokeModule ''m'')"
  obtain h1 where run: "serve demo_crypto demo_net demo_group demo_store demo_keys demo_signing_state ?ca demo_heap =
      (h1, Returned (Ok StatusOk))"
    by (auto simp: serve.simps demo_call_def handle_revoke_module_def admin_auth_def validate_admin_jwt_def demo_jwt_def
        demo_heap_def)
  have route: "ca_route ?ca = RevokeModule ''m''" by (simp add: demo_call_def)
  from revoked_module_stays_out [OF run route signer_reachable.start] run show ?thesis by blast
qed

text \<open>
  C37. A reload of the signer replaces secrets but never the manager that requests use: the new manager is
  assigned to the request's own copy of the state, so that later requests are still served with the
  keys loaded at the start.
\<close>

theorem reload_keeps_manager:
  assumes "serve C N G L K state ca h = (h', r)" and "ca_route ca = Reload request"
    and "sv_manager state < length (hp_managers h)"
  shows "active_manager state h' = active_manager state h"
proof -
  from assms(1,2) obtain st where "h' = h \<or>
      signer_handle_reload C L K N (ca_env ca) (ca_config ca) request state h = (h', r, st)"
    by (auto simp: serve.simps split: sum.splits prod.splits)
  with signer_handle_reload_managers assms(3) show ?thesis
    unfolding active_manager_def by (metis nth_append)
qed

definition demo_reload_config :: signer_file_config where
  "demo_reload_config = \<lparr>sf_chain = Hoodi,
     sf_modules = Some [\<lparr>sm_id = ''m'', sm_docker_image = ''i'', sm_env = None, sm_env_file = None, sm_kind = Commit,
                         sm_signing_id = 4\<rparr>],
     sf_signer = Some \<lparr>sg_host = 0, sg_port = 20000, sg_docker_image = ''i'', sg_jwt_auth_fail_limit = 3,
       sg_jwt_auth_fail_timeout_seconds = 300, sg_inner = SignerDirk [] ''c'' ''k'' ''s'' None None\<rparr>\<rparr>"

definition demo_reload_call :: signer_call where
  "demo_reload_call = (demo_call ''a'' (Reload \<lparr>rr_jwt_secrets = Some [(''m'', ''new'')], rr_admin_secret = None\<rparr>))
     \<lparr>ca_env := demo_reload_env, ca_config := Ok demo_reload_config\<rparr>"

lemma demo_secrets: "load_jwt_secrets demo_reload_env = Ok (''a'', [(''m'', ''k'')])"
  by (simp add: load_jwt_secrets_def load_env_var_def demo_reload_env_def ADMIN_JWT_ENV_def JWTS_ENV_def
      decode_string_to_map_def decode_pair_def hash_map_of_def trim_def is_whitespace_def)

lemma demo_reload_vars:
  "load_optional_env_var demo_reload_env SIGNER_ENDPOINT_ENV = None"
  "load_optional_env_var demo_reload_env SIGNER_JWT_AUTH_FAIL_LIMIT_ENV = None"
  "load_optional_env_var demo_reload_env SIGNER_JWT_AUTH_FAIL_TIMEOUT_SECONDS_ENV = None"
  "\<exists>e. load_env_var demo_reload_env DIRK_CA_CERT_ENV = Err e"
  "read_to_string demo_reload_env p = Ok ''pem''"
  by (simp_all add: load_optional_env_var_def load_env_var_def read_to_string_def demo_reload_env_def ADMIN_JWT_ENV_def
      JWTS_ENV_def SIGNER_ENDPOINT_ENV_def SIGNER_JWT_AUTH_FAIL_LIMIT_ENV_def
      SIGNER_JWT_AUTH_FAIL_TIMEOUT_SECONDS_ENV_def DIRK_CA_CERT_ENV_def)

lemma demo_reload_modules: "\<exists>configs. load_module_signing_configs (sf_modules demo_reload_config) [(''m'', ''k'')] = Ok configs"
  by (simp add: load_module_signing_configs_Ok_iff modules_ok_def demo_reload_config_def)

lemma demo_reload_loads: "\<exists>config dirk. load_from_env demo_reload_env (Ok demo_reload_config) = Ok config \<and>
    ss_store config = None \<and> ss_dirk config = Some dirk"
proof -
  obtain configs where "load_module_signing_configs (sf_modules demo_reload_config) [(''m'', ''k'')] = Ok configs"
    using demo_reload_modules by blast
  moreover obtain e where "load_env_var demo_reload_env DIRK_CA_CERT_ENV = Err e" using demo_reload_vars(4) by blast
  moreover obtain c where "sf_signer demo_reload_config = Some c" "sg_inner c = SignerDirk [] ''c'' ''k'' ''s'' None None"
    by (simp add: demo_reload_config_def)
  ultimately show ?thesis
    by (simp add: load_from_env_def demo_secrets load_signer_endpoint_def load_u32_override_def load_dirk_config_def
        demo_reload_vars Let_def)
qed

theorem reload_keeps_manager_witness:
  "\<exists>h' new. serve demo_crypto demo_net demo_group demo_store demo_keys demo_signing_state demo_reload_call demo_heap =
     (h', Returned (Ok StatusOk)) \<and> hp_managers h' = [ManagerLocal demo_local, ManagerDirk new] \<and>
     active_manager demo_signing_state h' = ManagerLocal demo_local"
proof -
  let ?req = "\<lparr>rr_jwt_secrets = Some [(''m'', ''new'')], rr_admin_secret = None\<rparr>"
  let ?serve = "serve demo_crypto demo_net demo_group demo_store demo_keys demo_signing_state demo_reload_call demo_heap"
  obtain config dirk where config: "load_from_env demo_reload_env (Ok demo_reload_config) = Ok config"
    "ss_store config = None" "ss_dirk config = Some dirk"
    using demo_reload_loads by blast
  have call: "ca_route demo_reload_call = Reload ?req" "ca_env demo_reload_call = demo_reload_env"
    "ca_config demo_reload_call = Ok demo_reload_config" "ca_token demo_reload_call = ''a''" "ca_jwt demo_reload_call = demo_jwt"
    by (simp_all add: demo_reload_call_def demo_call_def)
  have auth: "admin_auth demo_jwt ''a'' demo_heap = Ok ()"
    by (simp add: admin_auth_def validate_admin_jwt_def demo_jwt_def demo_heap_def)
  have jwts: "\<exists>jwts. reload_jwts (hp_jwts demo_heap) [] [(''m'', ''new'')] = Ok jwts" by (simp add: demo_heap_def)
  have managers: "hp_managers demo_heap = [ManagerLocal demo_local]" "sv_manager demo_signing_state = 0"
    by (simp_all add: demo_heap_def demo_signing_state_def)
  have "start_manager demo_crypto demo_store demo_keys demo_net demo_reload_env fs config =
      Returned (Ok (ManagerDirk (dirk_manager_new demo_net (ss_chain config) dirk)))" for fs
    by (simp add: start_manager_def config Let_def)
  then obtain h' new where run: "?serve = (h', Returned (Ok StatusOk))"
    and new: "hp_managers h' = [ManagerLocal demo_local, ManagerDirk new]"
    using jwts by (auto simp: serve.simps call auth signer_handle_reload_def config Let_def managers)
  have "sv_manager demo_signing_state < length (hp_managers demo_heap)" by (simp add: managers)
  from reload_keeps_manager [OF run call(1) this] run new show ?thesis
    by (auto simp: active_manager_def managers)
qed

text \<open>
  A reload that fails to make the new manager has replaced the secrets of the request already, although the
  documentation says that the previous configuration is kept.
\<close>

lemma failed_reload_replaces_secrets:
  assumes "load_from_env E loaded = Ok config" and "rr_jwt_secrets request = Some secrets"
    and "reload_jwts (hp_jwts h) [] secrets = Ok jwts" and "rr_admin_secret request = Some admin"
    and "start_manager C L K N E (hp_fs h) config = Returned (Err e)"
  shows "signer_handle_reload C L K N E loaded request state h =
    (h\<lparr>hp_jwts := jwts, hp_admin_secret := admin\<rparr>, Returned (Err (InternalError ''failed to reload config'')), state)"
  using assms by (simp add: signer_handle_reload_def Let_def)

section \<open>The local manager\<close>

text \<open>
  C20. Asking the local manager for the keys of a module, in every state that a start with any proxy store, additions
  of consensus keys and generations of proxies (with whatever outcome of the writes) can reach: if the delegators of
  the module's proxies are all consensus keys of the manager, the answer has one entry per consensus key, with exactly
  the proxies of the module that it delegated to, in the order in which they were added; otherwise, which takes a
  proxy loaded from the store whose consensus key was not loaded, the request fails for an unknown consensus key.
  Without a store this cannot happen, and the full invariant holds: keys are stored under themselves and every
  delegation is valid.
\<close>

theorem local_pubkeys_spec:
  assumes "local_reachable C L store m fs" and "bls_complete C"
  shows "(proxies_delegated m mid \<longrightarrow> get_consensus_proxy_maps m mid = Ok (map (\<lambda>k.
        \<lparr>cpm_consensus = k,
         cpm_proxy_bls = filter (\<lambda>b. delegator_bls m b = Some k) (listed_bls m mid),
         cpm_proxy_ecdsa = filter (\<lambda>a. delegator_ecdsa m a = Some k) (listed_ecdsa m mid)\<rparr>)
      (consensus_pubkeys m))) \<and>
    (\<not> proxies_delegated m mid \<longrightarrow> (\<exists>k. get_consensus_proxy_maps m mid = Err (UnknownConsensusSigner k))) \<and>
    (store = None \<longrightarrow> local_wf C m \<and> proxies_delegated m mid)"
proof -
  have keyed: "local_keyed C m" by (rule local_reachable_keyed [OF assms(1)])
  then have "distinct (consensus_pubkeys m)" by (simp add: local_keyed_def)
  moreover have "local_wf C m \<and> proxies_delegated m mid" if "store = None"
    using local_reachable_wf [OF assms(1) [unfolded that] assms(2)] local_wf_delegated by blast
  ultimately show ?thesis
    using get_consensus_proxy_maps_spec [of m mid] undelegated_proxy_maps [OF keyed, of mid]
    by (simp add: proxies_delegated_def)
qed

lemma demo_local_keys:
  "consensus_pubkeys demo_local = [9]" "listed_bls demo_local mid = []" "listed_ecdsa demo_local mid = []"
  by (simp_all add: demo_local_def consensus_pubkeys_def add_consensus_signer_def demo_crypto_def listed_bls_def
      listed_ecdsa_def keys_of_module_def)

theorem local_pubkeys_spec_witness:
  "\<exists>m' fs' d. create_proxy_bls demo_crypto demo_store 6 ''p'' 1 ''m'' 9 demo_local \<lparr>fs_files = [], fs_dirs = []\<rparr> = (m', fs', Ok d) \<and>
     get_consensus_proxy_maps m' ''m'' = Ok [\<lparr>cpm_consensus = 9, cpm_proxy_bls = [6], cpm_proxy_ecdsa = []\<rparr>]"
proof -
  have "local_reachable demo_crypto demo_store None demo_local \<lparr>fs_files = [], fs_dirs = []\<rparr>"
    unfolding demo_local_def
    by (intro local_reachable.consensus local_reachable.fresh [where chain = Mainnet]) (simp add: local_manager_new_def)
  moreover obtain m' d where run: "create_proxy_bls demo_crypto demo_store 6 ''p'' 1 ''m'' 9 demo_local \<lparr>fs_files = [], fs_dirs = []\<rparr> = (m', \<lparr>fs_files = [], fs_dirs = []\<rparr>, Ok d)"
    by (simp add: create_proxy_bls_def sign_consensus_def demo_local_def add_consensus_signer_def demo_crypto_def Let_def
        add_proxy_signer_bls_def)
  moreover have "demo_store = demo_store\<lparr>sl_write := (\<lambda>_. WriteDone)\<rparr>" by (simp add: demo_store_def)
  ultimately have "local_reachable demo_crypto demo_store None m' \<lparr>fs_files = [], fs_dirs = []\<rparr>"
    using local_reachable.bls_proxy by metis
  from local_pubkeys_spec [OF this demo_bls_complete, of "''m''"]
  have spec: "get_consensus_proxy_maps m' ''m'' = Ok (map (\<lambda>k.
      \<lparr>cpm_consensus = k,
       cpm_proxy_bls = filter (\<lambda>b. delegator_bls m' b = Some k) (listed_bls m' ''m''),
       cpm_proxy_ecdsa = filter (\<lambda>a. delegator_ecdsa m' a = Some k) (listed_ecdsa m' ''m'')\<rparr>)
    (consensus_pubkeys m'))" by blast
  obtain p where p: "m' = insert_proxy_bls demo_crypto p ''m'' demo_local" "bp_signer p = BlsLocal 6"
    "pd_delegator (sd_message (bp_delegation p)) = 9"
    using create_proxy_bls_Ok [OF demo_bls_complete demo_local_wf run] by blast
  have key: "blst_sk_to_pk demo_crypto 6 = 6" by (simp add: demo_crypto_def)
  have "consensus_pubkeys m' = [9]" "listed_ecdsa m' ''m'' = []" "listed_bls m' ''m'' = [6]" "delegator_bls m' 6 = Some 9"
    by (simp_all add: p demo_local_keys delegator_bls_def bls.lookup_add bls.listed_add key)
  with spec run show ?thesis by simp
qed

section \<open>Threshold signatures\<close>

text \<open>
  C33. A distributed account signs only with a quorum: a signature of a Dirk manager, whatever the servers answered
  when it was loaded and since, is the aggregate of at least the threshold and no more than needed, from as many
  different participants of the account, each a well-formed answer of that participant to the request for this
  root in the commit-boost domain.
\<close>

theorem dirk_quorum:
  assumes "dirk_reachable C G chain config m" and "map_of (dm_consensus_accounts m) pubkey = Some (Distributed a)"
    and "request_consensus_signature C N G arrival m pubkey object_root sid = Ok sig"
  shows "\<exists>partials. aggregate_partial_signatures G partials = Ok sig \<and>
    unat (da_threshold a) \<le> length partials \<and> length partials \<le> max 1 (unat (da_threshold a)) \<and>
    distinct (map snd partials) \<and>
    (\<forall>(s, pid)\<in>set partials. \<exists>channel bs. (pid, channel) \<in> set (da_participants a) \<and>
       signature_try_from bs = Some s \<and>
       dn_sign N channel \<lparr>ds_data = dirk_sign_data C object_root sid,
         ds_domain = compute_domain C (dm_chain m) COMMIT_BOOST_DOMAIN,
         ds_id = IdAccount (da_name a)\<rparr> = Ok (True, bs))"
proof -
  have "request_distributed_signature C N G arrival m a object_root sid = Ok sig"
    using assms(2,3) by (simp add: request_consensus_signature_def request_account_signature_def)
  moreover have "distinct (map fst (da_participants a))"
    by (rule dirk_wf_participants [OF dirk_reachable_wf [OF assms(1)] assms(2)])
  ultimately show ?thesis by (rule request_distributed_signature_Ok)
qed

text \<open>Three servers that each list the account; the first denies to sign.\<close>

definition demo_dirk_net :: dirknet where
  "demo_dirk_net = demo_net\<lparr>
     dn_connect := (\<lambda>host. Ok (if dh_url host = ''a'' then 0 else if dh_url host = ''b'' then 1 else 2)),
     dn_list_accounts := (\<lambda>_ _. Ok \<lparr>la_succeeded = True, la_accounts = [],
       la_distributed_accounts = [\<lparr>pd_name = ''w/a'', pd_composite_public_key = replicate 48 0,
         pd_participants = [\<lparr>pe_id = 1, pe_name = ''a''\<rparr>, \<lparr>pe_id = 2, pe_name = ''b''\<rparr>, \<lparr>pe_id = 3, pe_name = ''c''\<rparr>],
         pd_signing_threshold = 2\<rparr>]\<rparr>),
     dn_url_host := Some, dn_sign := (\<lambda>c _. Ok (c \<noteq> 0, replicate 96 0))\<rparr>"

definition demo_dirk_config :: dirk_config where
  "demo_dirk_config = \<lparr>dk_hosts = map (\<lambda>url. \<lparr>dh_server_name = None, dh_url = url, dh_wallets = [''w'']\<rparr>) [''a'', ''b'', ''c''],
     dk_client_cert = ([], []), dk_secrets_path = [], dk_cert_auth = None\<rparr>"

lemma demo_dirk_accounts:
  "dm_consensus_accounts (dirk_manager_new demo_dirk_net Mainnet demo_dirk_config) =
     [(0, Distributed \<lparr>da_composite_public_key = 0, da_participants = [(1, 0), (2, 1), (3, 2)], da_threshold = 2,
        da_name = ''w/a''\<rparr>)]"
proof -
  have "be_nat (replicate 48 0) = 0" by code_simp
  then show ?thesis
    by (simp add: dirk_manager_new_def demo_dirk_config_def demo_dirk_net_def load_host_def load_distributed_accounts_def
        load_distributed_account_def name_matches_proxy_def pubkey_try_from_def BLS_PK_LEN_def)
qed

theorem dirk_quorum_witness:
  "\<exists>sig partials. request_consensus_signature demo_crypto demo_dirk_net demo_group (\<lambda>_. 0)
       (dirk_manager_new demo_dirk_net Mainnet demo_dirk_config) 0 3 None = Ok sig \<and>
     aggregate_partial_signatures demo_group partials = Ok sig \<and> length partials = 2 \<and> distinct (map snd partials)"
proof -
  let ?m = "dirk_manager_new demo_dirk_net Mainnet demo_dirk_config"
  let ?a = "\<lparr>da_composite_public_key = 0, da_participants = [(1, 0), (2, 1), (3, 2)], da_threshold = 2, da_name = ''w/a''\<rparr>"
  have account: "map_of (dm_consensus_accounts ?m) 0 = Some (Distributed ?a)" by (simp add: demo_dirk_accounts)
  obtain sig where "request_distributed_signature demo_crypto demo_dirk_net demo_group (\<lambda>_. 0) ?m ?a 3 None = Ok sig"
    by (simp add: request_distributed_signature_def Let_def signature_try_from_def aggregate_partial_signatures_def
        demo_dirk_net_def demo_group_def lagrange_coeff_def scalar_def)
  with account have run: "request_consensus_signature demo_crypto demo_dirk_net demo_group (\<lambda>_. 0) ?m 0 3 None = Ok sig"
    by (simp add: request_consensus_signature_def request_account_signature_def)
  from dirk_quorum [OF dirk_reachable.dirk_loaded account run] obtain partials where
    "aggregate_partial_signatures demo_group partials = Ok sig" "unat (da_threshold ?a) \<le> length partials"
    "length partials \<le> max 1 (unat (da_threshold ?a))" "distinct (map snd partials)" by blast
  with run show ?thesis by (intro exI [of _ sig] exI [of _ partials]) simp
qed

text \<open>
  Recovery: if a key is shared with a polynomial (its coefficients are \<open>key\<close>, the key itself is the value
  at zero) of degree below the number of partial signatures, and each of them is the message point
  times the share of its participant, the aggregate is the message point times the key, that is,
  the signature of the undivided key.
\<close>

theorem threshold_signature_recovers:
  fixes G :: "('s::field, 'g::ab_group_add) siggroup"
  assumes "scales G" and "distinct (map snd partials)" and "partials \<noteq> []"
    and "inj_on (scalar :: u32 \<Rightarrow> 's) (snd ` set partials)"
    and "\<And>sig pid. (sig, pid) \<in> set partials \<Longrightarrow>
      sg_from_compressed G sig = Some (sg_scale G (horner key (scalar pid)) base)"
    and "length key \<le> length partials"
  shows "aggregate_partial_signatures G partials = Ok (sg_to_compressed G (sg_scale G (horner key 0) base))"
  by (rule aggregate_recovers [OF assms])

theorem threshold_signature_recovers_witness:
  "aggregate_partial_signatures demo_group [(7, 1), (11, 3)] = Ok 5"
proof -
  have "scales demo_group" by (simp add: scales_def demo_group_def algebra_simps)
  moreover have "inj_on (scalar :: u32 \<Rightarrow> rat) (snd ` set [(7 :: bls_signature, 1), (11, 3)])"
    by (auto simp: inj_on_def scalar_def)
  moreover have "sg_from_compressed demo_group sig = Some (sg_scale demo_group (horner [5, 2] (scalar pid)) 1)"
    if "(sig, pid) \<in> set [(7, 1), (11, 3)]" for sig pid
    using that by (auto simp: demo_group_def scalar_def)
  ultimately have "aggregate_partial_signatures demo_group [(7, 1), (11, 3)] =
      Ok (sg_to_compressed demo_group (sg_scale demo_group (horner [5, 2] 0) 1))"
    by (intro threshold_signature_recovers) auto
  then show ?thesis by (simp add: demo_group_def)
qed

end
