(* ===== verification/Wire.thy ===== *)
theory Wire
  imports Key_Loader Signer_Client
begin

text \<open>
  Values on the wire: how requests, delegations, signatures and KZG values are built, shown, serialized and
  read back (\<open>crates/common/src/commit/request.rs\<close>, \<open>pbs/types/kzg.rs\<close>, \<open>signer/schemes/ecdsa.rs\<close>), and
  two decoders of the configuration (\<open>config/pbs.rs\<close>, \<open>utils.rs\<close>). The text forms of keys, hashes and
  signatures come from other crates.
\<close>

section \<open>Requests\<close>

definition sign_consensus_request_new :: "bls_public_key \<Rightarrow> b256 \<Rightarrow> sign_consensus_request" where
  "sign_consensus_request_new pubkey object_root = \<lparr>scr_pubkey = pubkey, scr_object_root = object_root\<rparr>"

definition sign_consensus_request_builder :: "bls_public_key \<Rightarrow> sign_consensus_request" where
  "sign_consensus_request_builder pubkey = sign_consensus_request_new pubkey 0"

definition consensus_with_root :: "sign_consensus_request \<Rightarrow> b256 \<Rightarrow> sign_consensus_request" where
  "consensus_with_root self object_root = self\<lparr>scr_object_root := object_root\<rparr>"

text \<open>\<open>with_msg\<close>: \<open>tree_hash_root\<close> is that of the message's type.\<close>

definition consensus_with_msg :: "('m \<Rightarrow> b256) \<Rightarrow> sign_consensus_request \<Rightarrow> 'm \<Rightarrow> sign_consensus_request" where
  "consensus_with_msg tree_hash_root self msg = consensus_with_root self (tree_hash_root msg)"

definition sign_proxy_request_new :: "'p \<Rightarrow> b256 \<Rightarrow> 'p sign_proxy_request" where
  "sign_proxy_request_new proxy object_root = \<lparr>spr_proxy = proxy, spr_object_root = object_root\<rparr>"

definition sign_proxy_request_builder :: "'p \<Rightarrow> 'p sign_proxy_request" where
  "sign_proxy_request_builder proxy = sign_proxy_request_new proxy 0"

definition proxy_with_root :: "'p sign_proxy_request \<Rightarrow> b256 \<Rightarrow> 'p sign_proxy_request" where
  "proxy_with_root self object_root = self\<lparr>spr_object_root := object_root\<rparr>"

definition proxy_with_msg :: "('m \<Rightarrow> b256) \<Rightarrow> 'p sign_proxy_request \<Rightarrow> 'm \<Rightarrow> 'p sign_proxy_request" where
  "proxy_with_msg tree_hash_root self msg = proxy_with_root self (tree_hash_root msg)"

definition generate_proxy_request_new :: "bls_public_key \<Rightarrow> encryption_scheme \<Rightarrow> generate_proxy_request" where
  "generate_proxy_request_new consensus_pubkey scheme =
     \<lparr>gpr_consensus_pubkey = consensus_pubkey, gpr_scheme = scheme\<rparr>"

section \<open>Text forms\<close>

text \<open>The text forms of the other crates.\<close>

record text_forms =
  tx_pubkey :: "bls_public_key \<Rightarrow> string"
  tx_address :: "address \<Rightarrow> string"
  tx_bls_signature :: "bls_signature \<Rightarrow> string"
  tx_ecdsa_signature :: "ecdsa_signature \<Rightarrow> string"
  tx_parse_ecdsa_signature :: "string \<Rightarrow> (string, ecdsa_signature) result"
  tx_root :: "b256 \<Rightarrow> string"

definition newline :: string where
  "newline = [CHR 0x0A]"

definition display_delegation :: "text_forms \<Rightarrow> ('p \<Rightarrow> string) \<Rightarrow> 'p proxy_delegation \<Rightarrow> string" where
  "display_delegation T show_proxy d =
     ''Delegator: '' @ tx_pubkey T (pd_delegator d) @ newline @ ''Proxy: '' @ show_proxy (pd_proxy d)"

definition display_signed_delegation ::
  "text_forms \<Rightarrow> ('p \<Rightarrow> string) \<Rightarrow> 'p signed_proxy_delegation \<Rightarrow> string" where
  "display_signed_delegation T show_proxy d =
     display_delegation T show_proxy (sd_message d) @ newline @ ''Signature: '' @ tx_bls_signature T (sd_signature d)"

fun display_sign_request :: "text_forms \<Rightarrow> sign_request \<Rightarrow> string" where
  "display_sign_request T (SignConsensus req) =
     ''Consensus(pubkey: '' @ tx_pubkey T (scr_pubkey req) @ '', object_root: '' @ tx_root T (scr_object_root req) @ '')''"
| "display_sign_request T (SignProxyBls req) =
     ''BLS(proxy: '' @ tx_pubkey T (spr_proxy req) @ '', object_root: '' @ tx_root T (spr_object_root req) @ '')''"
| "display_sign_request T (SignProxyEcdsa req) =
     ''ECDSA(proxy: '' @ tx_address T (spr_proxy req) @ '', object_root: '' @ tx_root T (spr_object_root req) @ '')''"

section \<open>JSON forms\<close>

definition json_string :: "json \<Rightarrow> (string, string) result" where
  "json_string v = (case v of JString s \<Rightarrow> Ok s | _ \<Rightarrow> Err ''invalid type, expected a string'')"

definition serialize_ecdsa_signature :: "text_forms \<Rightarrow> ecdsa_signature \<Rightarrow> json" where
  "serialize_ecdsa_signature T sig = JString (tx_ecdsa_signature T sig)"

definition deserialize_ecdsa_signature :: "text_forms \<Rightarrow> json \<Rightarrow> (string, ecdsa_signature) result" where
  "deserialize_ecdsa_signature T v = and_then (json_string v) (tx_parse_ecdsa_signature T)"

definition serialize_kzg_commitment :: "(bytes \<Rightarrow> string) \<Rightarrow> kzg_commitment \<Rightarrow> json" where
  "serialize_kzg_commitment encode c = JString (display_kzg_commitment encode c)"

definition deserialize_kzg_commitment ::
  "(string \<Rightarrow> (string, bytes) result) \<Rightarrow> json \<Rightarrow> (string, kzg_commitment) result" where
  "deserialize_kzg_commitment decode v = and_then (json_string v) (kzg_commitment_from_str decode)"

definition serialize_kzg_proof :: "(bytes \<Rightarrow> string) \<Rightarrow> kzg_proof \<Rightarrow> json" where
  "serialize_kzg_proof encode p = JString (display_kzg_proof encode p)"

definition deserialize_kzg_proof ::
  "(string \<Rightarrow> (string, bytes) result) \<Rightarrow> json \<Rightarrow> (string, kzg_proof) result" where
  "deserialize_kzg_proof decode v = and_then (json_string v) (kzg_proof_from_str decode)"

text \<open>
  \<open>empty_string_as_none\<close>: an empty string, a string with a number, or a number that fits \<open>usize\<close>.
\<close>

definition empty_string_as_none :: "(string \<Rightarrow> u64 option) \<Rightarrow> json \<Rightarrow> (string, u64 option) result" where
  "empty_string_as_none parse_usize v =
     (case v of
        JString s \<Rightarrow>
          (if s = [] then Ok None
           else (case parse_usize s of
                   Some n \<Rightarrow> Ok (Some n)
                 | None \<Rightarrow> Err ''Expected empty string or number''))
      | JInt i \<Rightarrow> (if 0 \<le> i \<and> i < 2 ^ 64 then Ok (Some (word_of_int i)) else Err ''no variant matched'')
      | _ \<Rightarrow> Err ''no variant matched'')"

text \<open>\<open>as_eth_str\<close>: \<open>format_ether\<close>, \<open>parse_ether\<close> and the conversion of floating point numbers are given.\<close>

definition serialize_eth_str :: "(u256 \<Rightarrow> string) \<Rightarrow> u256 \<Rightarrow> json" where
  "serialize_eth_str format_ether wei = JString (format_ether wei)"

definition deserialize_eth_str ::
  "(string \<Rightarrow> u256 option) \<Rightarrow> (json \<Rightarrow> u256) \<Rightarrow> json \<Rightarrow> (string, u256) result" where
  "deserialize_eth_str parse_ether eth_to_wei v =
     (case v of
        JString s \<Rightarrow> (case parse_ether s of Some wei \<Rightarrow> Ok wei | None \<Rightarrow> Err ''invalid eth amount'')
      | JInt _ \<Rightarrow> Ok (eth_to_wei v)
      | JFloat _ \<Rightarrow> Ok (eth_to_wei v)
      | _ \<Rightarrow> Err ''no variant matched'')"

text \<open>
  \<open>quoted_variable_list_u64\<close>: how \<open>serde_utils\<close> writes one quoted integer and reads a sequence of them is given; the
  capacity of the list is that of its type.
\<close>

definition serialize_quoted_list :: "(u64 \<Rightarrow> json) \<Rightarrow> u64 list \<Rightarrow> json" where
  "serialize_quoted_list quoted value = JArray (map quoted value)"

definition deserialize_quoted_list :: "(json \<Rightarrow> (string, u64 list) result) \<Rightarrow> nat \<Rightarrow> json \<Rightarrow> (string, u64 list) result" where
  "deserialize_quoted_list visit capacity v =
     and_then (visit v) (\<lambda>vec. if length vec \<le> capacity then Ok vec else Err ''invalid length'')"

section \<open>Signing of messages\<close>

definition bls_signer_sign_msg ::
  "crypto \<Rightarrow> ('m \<Rightarrow> b256) \<Rightarrow> bls_signer \<Rightarrow> chain \<Rightarrow> 'm \<Rightarrow> b256 option \<Rightarrow> bls_signature" where
  "bls_signer_sign_msg C tree_hash_root s chain msg module_signing_id =
     bls_signer_sign C s chain (tree_hash_root msg) module_signing_id"

definition ecdsa_signer_sign_msg ::
  "crypto \<Rightarrow> ('m \<Rightarrow> b256) \<Rightarrow> ecdsa_signer \<Rightarrow> chain \<Rightarrow> 'm \<Rightarrow> b256 option \<Rightarrow> (string, ecdsa_signature) result" where
  "ecdsa_signer_sign_msg C tree_hash_root s chain msg module_signing_id =
     ecdsa_signer_sign C s chain (tree_hash_root msg) module_signing_id"

section \<open>Properties\<close>

text \<open>A list that fits its type is read back as it was written, and no longer one is accepted.\<close>

lemma quoted_list_roundtrip:
  assumes "\<And>xs. visit (JArray (map quoted xs)) = Ok xs"
  shows "deserialize_quoted_list visit capacity (serialize_quoted_list quoted value) = Ok value \<longleftrightarrow> length value \<le> capacity"
  using assms by (simp add: deserialize_quoted_list_def serialize_quoted_list_def)

lemma deserialize_quoted_list_bounded:
  "deserialize_quoted_list visit capacity v = Ok value \<Longrightarrow> length value \<le> capacity"
  by (auto simp: deserialize_quoted_list_def and_then_Ok_iff split: if_splits)

text \<open>Hex of the libraries: encoding puts a prefix in front, and decoding what follows it gives the bytes back.\<close>

definition hex_inverse :: "(bytes \<Rightarrow> string) \<Rightarrow> (string \<Rightarrow> (string, bytes) result) \<Rightarrow> bool" where
  "hex_inverse encode decode \<longleftrightarrow> (\<forall>bs. \<exists>digits. encode bs = ''0x'' @ digits \<and> decode digits = Ok bs)"

text \<open>
  C26. KZG commitments and proofs are typed by their length: whatever is read from the wire has 48 bytes, and a
  commitment or proof is what its serialized form is read as exactly if it has 48 bytes.
\<close>

theorem kzg_wire_typed:
  assumes "hex_inverse encode decode"
  shows "(deserialize_kzg_commitment decode (serialize_kzg_commitment encode c) = Ok c \<longleftrightarrow> wf_kzg_commitment c) \<and>
    (deserialize_kzg_proof decode (serialize_kzg_proof encode p) = Ok p \<longleftrightarrow> wf_kzg_proof p) \<and>
    (\<forall>v c'. deserialize_kzg_commitment decode v = Ok c' \<longrightarrow> wf_kzg_commitment c') \<and>
    (\<forall>v p'. deserialize_kzg_proof decode v = Ok p' \<longrightarrow> wf_kzg_proof p')"
proof -
  have c: "deserialize_kzg_commitment decode (serialize_kzg_commitment encode (KzgCommitment bs)) =
      (if length bs = BYTES_PER_COMMITMENT then Ok (KzgCommitment bs)
       else Err (invalid_byte_length (length bs) BYTES_PER_COMMITMENT))" for bs
  proof -
    from assms obtain digits where "encode bs = ''0x'' @ digits" "decode digits = Ok bs"
      unfolding hex_inverse_def by blast
    then show ?thesis
      by (simp add: deserialize_kzg_commitment_def serialize_kzg_commitment_def json_string_def
          kzg_commitment_from_str_def strip_prefix_def)
  qed
  have p: "deserialize_kzg_proof decode (serialize_kzg_proof encode (KzgProof bs)) =
      (if length bs = BYTES_PER_PROOF then Ok (KzgProof bs)
       else Err (invalid_byte_length (length bs) BYTES_PER_PROOF))" for bs
  proof -
    from assms obtain digits where "encode bs = ''0x'' @ digits" "decode digits = Ok bs"
      unfolding hex_inverse_def by blast
    then show ?thesis
      by (simp add: deserialize_kzg_proof_def serialize_kzg_proof_def json_string_def kzg_proof_from_str_def
          strip_prefix_def)
  qed
  have "deserialize_kzg_commitment decode (serialize_kzg_commitment encode c) = Ok c \<longleftrightarrow> wf_kzg_commitment c"
    by (cases c) (simp add: c)
  moreover have "deserialize_kzg_proof decode (serialize_kzg_proof encode p) = Ok p \<longleftrightarrow> wf_kzg_proof p"
    by (cases p) (simp add: p)
  moreover have "wf_kzg_commitment c'" if "deserialize_kzg_commitment decode v = Ok c'" for v c'
    using that kzg_commitment_from_str_wf by (auto simp: deserialize_kzg_commitment_def and_then_Ok_iff)
  moreover have "wf_kzg_proof p'" if "deserialize_kzg_proof decode v = Ok p'" for v p'
    using that kzg_proof_from_str_wf by (auto simp: deserialize_kzg_proof_def and_then_Ok_iff)
  ultimately show ?thesis by blast
qed

definition demo_hex_encode :: "bytes \<Rightarrow> string" where
  "demo_hex_encode bs = ''0x'' @ map (\<lambda>b. char_of (unat b)) bs"

definition demo_hex_decode :: "string \<Rightarrow> (string, bytes) result" where
  "demo_hex_decode s = Ok (map (\<lambda>c. word_of_nat (of_char c)) s)"

theorem kzg_wire_typed_witness:
  "deserialize_kzg_proof demo_hex_decode (serialize_kzg_proof demo_hex_encode (KzgProof (replicate 48 7))) =
     Ok (KzgProof (replicate 48 7)) \<and>
   deserialize_kzg_proof demo_hex_decode (serialize_kzg_proof demo_hex_encode (KzgProof [7])) \<noteq> Ok (KzgProof [7])"
proof -
  have byte: "unat (b :: u8) mod 256 = unat b" for b using unsigned_less [of b, where 'a = nat] by simp
  have "hex_inverse demo_hex_encode demo_hex_decode"
    unfolding hex_inverse_def demo_hex_encode_def demo_hex_decode_def by (auto simp: byte comp_def intro!: map_idI)
  from kzg_wire_typed [OF this] show ?thesis by (simp add: BYTES_PER_PROOF_def)
qed

subsection \<open>Prysm wallets\<close>

text \<open>The value that a wallet with these keys is written as, with their base64 forms.\<close>

definition wallet_json :: "(bytes \<Rightarrow> string) \<Rightarrow> bytes list \<Rightarrow> bytes list \<Rightarrow> json" where
  "wallet_json base64 secrets pubkeys =
     JObject [(''private_keys'', JArray (map (\<lambda>b. JString (base64 b)) secrets)),
              (''public_keys'', JArray (map (\<lambda>b. JString (base64 b)) pubkeys))]"

lemma base64_list_decode_encoded:
  assumes "\<And>b. kl_base64_decode K (base64 b) = Some b"
  shows "base64_list_decode K (JArray (map (\<lambda>b. JString (base64 b)) bs)) = Ok bs"
proof -
  have "json_strings (JArray (map (\<lambda>b. JString (base64 b)) bs)) = Ok (map base64 bs)"
    using collect_results_map_Ok [of "map base64 bs"] by (simp add: comp_def)
  moreover have "map (\<lambda>s. typed ''base64 string'' (kl_base64_decode K s)) (map base64 bs) = map Ok bs"
    using assms by (simp add: typed_def)
  ultimately show ?thesis unfolding base64_list_decode_def by (simp only: and_then_simps collect_results_map_Ok)
qed

end
