(* ===== verification/Store_Recovery.thy ===== *)
theory Store_Recovery
  imports Local_Manager
begin

text \<open>
  The store of proxy keys as an implementation of the manager's memory: what is on disk after any sequence
  of operations is what a restarted manager has in memory. The loader is characterised once for both kinds
  of keys, in the locale \<open>store_half\<close>; the relation between a manager and the files is \<open>agrees\<close>.
\<close>

section \<open>What the loader builds\<close>

text \<open>
  One kind of keys while a store is loaded: a step for a module adds the proxies \<open>ps\<close> of that module, and
  whatever else it does is not seen by \<open>lookup\<close> and \<open>listed\<close>.
\<close>

locale store_half = proxy_registry add key_of lookup listed
  for add :: "'proxy \<Rightarrow> module_id \<Rightarrow> 's \<Rightarrow> 's" and key_of :: "'proxy \<Rightarrow> 'key"
    and lookup :: "'s \<Rightarrow> 'key \<Rightarrow> 'proxy option" and listed :: "'s \<Rightarrow> module_id \<Rightarrow> 'key list" +
  fixes step :: "module_id \<Rightarrow> 's \<Rightarrow> (string, 's) result" and ps :: "module_id \<Rightarrow> 'proxy list"
  assumes step_lookup: "step mid st = Ok st' \<Longrightarrow> lookup st' = lookup (fold (\<lambda>p. add p mid) (ps mid) st)"
    and step_listed: "step mid st = Ok st' \<Longrightarrow> listed st' = listed (fold (\<lambda>p. add p mid) (ps mid) st)"
begin

lemma fold_listed:
  "listed (fold (\<lambda>p. add p mid) xs st) mid' =
     (if mid' = mid then listed st mid @ map key_of xs else listed st mid')"
  by (induction xs arbitrary: st) (simp_all add: listed_add)

lemma fold_lookup:
  "lookup (fold (\<lambda>p. add p mid) xs st) k = Some p \<Longrightarrow> lookup st k = Some p \<or> p \<in> set xs \<and> key_of p = k"
proof (induction xs arbitrary: st)
  case (Cons x xs)
  from Cons.IH [of "add x mid st"] Cons.prems show ?case by (auto simp: lookup_add split: if_splits)
qed simp

lemma fold_lookup_None:
  "lookup (fold (\<lambda>p. add p mid) xs st) k = None \<Longrightarrow> lookup st k = None \<and> (\<forall>p\<in>set xs. key_of p \<noteq> k)"
proof (induction xs arbitrary: st)
  case (Cons x xs)
  from Cons.IH [of "add x mid st"] Cons.prems show ?case by (auto simp: lookup_add split: if_splits)
qed simp

lemma loaded_listed:
  assumes "try_fold step mids st = Ok st'"
  shows "set (listed st' mid) = set (listed st mid) \<union> (if mid \<in> set mids then key_of ` set (ps mid) else {})"
  using assms
proof (induction mids arbitrary: st)
  case (Cons x mids)
  then obtain s where s: "step x st = Ok s" "try_fold step mids s = Ok st'" by (auto simp: and_then_Ok_iff)
  from Cons.IH [OF s(2)] show ?case by (auto simp: step_listed [OF s(1)] fold_listed)
qed simp

lemma loaded_lookup:
  assumes "try_fold step mids st = Ok st'" and "lookup st' k = Some p"
  shows "lookup st k = Some p \<or> (\<exists>mid\<in>set mids. p \<in> set (ps mid) \<and> key_of p = k)"
  using assms
proof (induction mids arbitrary: st)
  case (Cons x mids)
  then obtain s where s: "step x st = Ok s" "try_fold step mids s = Ok st'" by (auto simp: and_then_Ok_iff)
  from Cons.IH [OF s(2) Cons.prems(2)] show ?case
    using fold_lookup [of x "ps x" st k p] by (auto simp: step_lookup [OF s(1)])
qed simp

lemma loaded_lookup_None:
  assumes "try_fold step mids st = Ok st'" and "lookup st' k = None"
  shows "lookup st k = None \<and> (\<forall>mid\<in>set mids. \<forall>p\<in>set (ps mid). key_of p \<noteq> k)"
  using assms
proof (induction mids arbitrary: st)
  case (Cons x mids)
  then obtain s where s: "step x st = Ok s" "try_fold step mids s = Ok st'" by (auto simp: and_then_Ok_iff)
  from Cons.IH [OF s(2) Cons.prems(2)] show ?case
    using fold_lookup_None [of x "ps x" st k] by (auto simp: step_lookup [OF s(1)])
qed simp

end

section \<open>Agreement of a manager with the files\<close>

text \<open>
  \<open>present\<close> and \<open>read\<close> are the files of one kind and what they decode to, by module and name; \<open>lookup\<close> and
  \<open>listed\<close> are what is in memory.
\<close>

definition agrees ::
  "(module_id \<Rightarrow> string \<Rightarrow> bool) \<Rightarrow> (module_id \<Rightarrow> string \<Rightarrow> (string, 'p) result) \<Rightarrow> ('p \<Rightarrow> 'k) \<Rightarrow> ('k \<Rightarrow> string)
     \<Rightarrow> ('k \<Rightarrow> 'p option) \<Rightarrow> (module_id \<Rightarrow> 'k set) \<Rightarrow> bool" where
  "agrees present read key_of name_of lookup listed \<longleftrightarrow>
     (\<forall>mid name. present mid name \<longrightarrow>
        (\<exists>q. read mid name = Ok q \<and> name = name_of (key_of q) \<and> key_of q \<in> listed mid \<and>
           lookup (key_of q) = Some q)) \<and>
     (\<forall>mid k. k \<in> listed mid \<longrightarrow> present mid (name_of k)) \<and>
     (\<forall>k q. lookup k = Some q \<longrightarrow> (\<exists>mid. k \<in> listed mid))"

lemma agrees_file:
  assumes "agrees present read key_of name_of lookup listed" and "inj name_of" and "k \<in> listed mid"
  obtains q where "read mid (name_of k) = Ok q" "key_of q = k" "lookup k = Some q" "present mid (name_of k)"
proof -
  have p: "present mid (name_of k)" using assms(1,3) by (simp add: agrees_def)
  then obtain q where q: "read mid (name_of k) = Ok q" "name_of k = name_of (key_of q)" "lookup (key_of q) = Some q"
    using assms(1) unfolding agrees_def by blast
  from injD [OF assms(2) q(2)] q p show ?thesis by (intro that) simp_all
qed

lemma agrees_add:
  assumes "agrees present read key_of name_of lookup listed" and "inj name_of" and "lookup (key_of p) = None"
    and "\<And>m n. present' m n \<longleftrightarrow> m = mid \<and> n = name_of (key_of p) \<or> present m n"
    and "read' mid (name_of (key_of p)) = Ok p"
    and "\<And>m n. \<not> (m = mid \<and> n = name_of (key_of p)) \<Longrightarrow> read' m n = read m n"
  shows "agrees present' read' key_of name_of (lookup(key_of p \<mapsto> p))
    (\<lambda>m. if m = mid then insert (key_of p) (listed m) else listed m)"
proof -
  have fresh: "key_of p \<notin> listed m" for m
    using agrees_file [OF assms(1,2), of "key_of p" m] assms(3) by auto
  have old: "\<exists>q. read m n = Ok q \<and> n = name_of (key_of q) \<and> key_of q \<in> listed m \<and> lookup (key_of q) = Some q"
    if "present m n" for m n
    using assms(1) that by (simp add: agrees_def)
  show ?thesis
    unfolding agrees_def
  proof (intro conjI allI impI)
    fix m n assume "present' m n"
    then consider "m = mid" "n = name_of (key_of p)" | "\<not> (m = mid \<and> n = name_of (key_of p))" "present m n"
      unfolding assms(4) by blast
    then show "\<exists>q. read' m n = Ok q \<and> n = name_of (key_of q) \<and>
        key_of q \<in> (if m = mid then insert (key_of p) (listed m) else listed m) \<and> (lookup(key_of p \<mapsto> p)) (key_of q) = Some q"
    proof cases
      case 1
      with assms(5) show ?thesis by auto
    next
      case 2
      from old [OF 2(2)] obtain q where q: "read m n = Ok q" "n = name_of (key_of q)" "key_of q \<in> listed m"
        "lookup (key_of q) = Some q" by blast
      with assms(6) [OF 2(1)] fresh [of m] show ?thesis by auto
    qed
  next
    fix m k assume k: "k \<in> (if m = mid then insert (key_of p) (listed m) else listed m)"
    moreover have "k' \<in> listed m \<Longrightarrow> present m (name_of k')" for k' using assms(1) by (simp add: agrees_def)
    ultimately show "present' m (name_of k)" by (auto simp: assms(4) split: if_splits)
  next
    fix k q assume "(lookup(key_of p \<mapsto> p)) k = Some q"
    then show "\<exists>m. k \<in> (if m = mid then insert (key_of p) (listed m) else listed m)"
      using assms(1) unfolding agrees_def by (auto split: if_splits)
  qed
qed

lemma agrees_cong:
  assumes "agrees present read key_of name_of lookup listed"
    and "\<And>m n. present' m n = present m n" and "\<And>m n. read' m n = read m n"
  shows "agrees present' read' key_of name_of lookup listed"
proof -
  have "present' = present" "read' = read" using assms(2,3) by (simp_all add: fun_eq_iff)
  with assms(1) show ?thesis by simp
qed

section \<open>The two kinds of keys\<close>

definition dir_reads :: "filesystem \<Rightarrow> (path \<Rightarrow> (string, 'a) result) \<Rightarrow> path \<Rightarrow> 'a list" where
  "dir_reads fs read dir =
     map (\<lambda>name. projr (read (entry_path dir name))) (filter (\<lambda>name. is_file fs (entry_path dir name)) (dir_entries fs dir))"

lemma load_dir_files_reads:
  assumes "load_dir_files fs read ins dir st = Ok st'"
  shows "st' = fold ins (dir_reads fs read dir) st"
proof -
  have step: "try_fold (\<lambda>name st. if is_file fs (entry_path dir name)
        then and_then (read (entry_path dir name)) (\<lambda>x. Ok (ins x st)) else Ok st) names s = Ok s' \<Longrightarrow>
      s' = fold ins (map (\<lambda>name. projr (read (entry_path dir name)))
        (filter (\<lambda>name. is_file fs (entry_path dir name)) names)) s" for names s s'
    by (induction names arbitrary: s) (auto simp: and_then_Ok_iff split: if_splits)
  show ?thesis
  proof (cases "is_dir fs dir")
    case True
    with assms have "try_fold (\<lambda>name st. if is_file fs (entry_path dir name)
        then and_then (read (entry_path dir name)) (\<lambda>x. Ok (ins x st)) else Ok st) (dir_entries fs dir) st = Ok st'"
      by (simp add: load_dir_files_def)
    from step [OF this] show ?thesis by (simp add: dir_reads_def)
  next
    case False
    then have "dir_entries fs dir = []" by (simp add: is_dir_def)
    with False assms show ?thesis by (simp add: load_dir_files_def dir_reads_def)
  qed
qed

lemma set_dir_reads:
  assumes "\<And>name. is_file fs (entry_path dir name) \<Longrightarrow> name \<in> set (dir_entries fs dir)"
    and "\<And>name. is_file fs (entry_path dir name) \<Longrightarrow> is_ok (read (entry_path dir name))"
  shows "set (dir_reads fs read dir) = {q. \<exists>name. is_file fs (entry_path dir name) \<and> read (entry_path dir name) = Ok q}"
proof -
  have "projr (read (entry_path dir name)) = q \<longleftrightarrow> read (entry_path dir name) = Ok q"
    if "is_file fs (entry_path dir name)" for name q
    using assms(2) [OF that] by (cases "read (entry_path dir name)") auto
  with assms(1) show ?thesis by (auto simp: dir_reads_def image_iff) metis
qed

definition loaded_bls :: "loaded_proxies \<Rightarrow> bls_public_key \<Rightarrow> bls_proxy_signer option" where
  "loaded_bls = (\<lambda>(signers, _, _). map_of (px_bls_signers signers))"

definition loaded_listed_bls :: "loaded_proxies \<Rightarrow> module_id \<Rightarrow> bls_public_key list" where
  "loaded_listed_bls = (\<lambda>(_, bls_map, _) mid. keys_of_module mid bls_map)"

definition loaded_ecdsa :: "loaded_proxies \<Rightarrow> address \<Rightarrow> ecdsa_proxy_signer option" where
  "loaded_ecdsa = (\<lambda>(signers, _, _). map_of (px_ecdsa_signers signers))"

definition loaded_listed_ecdsa :: "loaded_proxies \<Rightarrow> module_id \<Rightarrow> address list" where
  "loaded_listed_ecdsa = (\<lambda>(_, _, ecdsa_map) mid. keys_of_module mid ecdsa_map)"

definition bls_dir :: "path \<Rightarrow> module_id \<Rightarrow> path" where
  "bls_dir base mid = path_join (entry_path base mid) ''bls''"

definition ecdsa_dir :: "path \<Rightarrow> module_id \<Rightarrow> path" where
  "ecdsa_dir base mid = path_join (entry_path base mid) ''ecdsa''"

lemma insert_loaded_frame:
  "loaded_bls (fold (insert_ecdsa_proxy C mid) es st) = loaded_bls st"
  "loaded_listed_bls (fold (insert_ecdsa_proxy C mid) es st) = loaded_listed_bls st"
  "loaded_ecdsa (fold (insert_bls_proxy C mid) bs st) = loaded_ecdsa st"
  "loaded_listed_ecdsa (fold (insert_bls_proxy C mid) bs st) = loaded_listed_ecdsa st"
proof -
  have "loaded_bls (insert_ecdsa_proxy C mid e st) = loaded_bls st"
    "loaded_listed_bls (insert_ecdsa_proxy C mid e st) = loaded_listed_bls st" for e st
    by (cases st; simp add: loaded_bls_def loaded_listed_bls_def insert_ecdsa_proxy_def Let_def)+
  then show "loaded_bls (fold (insert_ecdsa_proxy C mid) es st) = loaded_bls st"
    "loaded_listed_bls (fold (insert_ecdsa_proxy C mid) es st) = loaded_listed_bls st"
    by (induction es arbitrary: st; simp)+
  have "loaded_ecdsa (insert_bls_proxy C mid b st) = loaded_ecdsa st"
    "loaded_listed_ecdsa (insert_bls_proxy C mid b st) = loaded_listed_ecdsa st" for b st
    by (cases st; simp add: loaded_ecdsa_def loaded_listed_ecdsa_def insert_bls_proxy_def Let_def)+
  then show "loaded_ecdsa (fold (insert_bls_proxy C mid) bs st) = loaded_ecdsa st"
    "loaded_listed_ecdsa (fold (insert_bls_proxy C mid) bs st) = loaded_listed_ecdsa st"
    by (induction bs arbitrary: st; simp)+
qed

text \<open>Without the directory of the module there are no files in it.\<close>

lemma no_module_dir:
  assumes "\<not> is_dir fs (entry_path base mid)"
  shows "dir_reads fs read (bls_dir base mid) = []" and "dir_reads fs read' (ecdsa_dir base mid) = []"
  using assms key_file_reached(3) [of fs base mid Bls] key_file_reached(3) [of fs base mid Ecdsa]
  by (auto simp: dir_reads_def filter_empty_conv bls_dir_def ecdsa_dir_def key_file_entry)

lemma load_module_dir_reads:
  assumes "load_module_dir C L fs base mid st = Ok st'"
  shows "st' = fold (insert_ecdsa_proxy C mid) (dir_reads fs (read_ecdsa_proxy C L fs) (ecdsa_dir base mid))
    (fold (insert_bls_proxy C mid) (dir_reads fs (read_bls_proxy C L fs) (bls_dir base mid)) st)"
proof (cases "is_dir fs (entry_path base mid)")
  case True
  with assms obtain s where s: "load_dir_files fs (read_bls_proxy C L fs) (insert_bls_proxy C mid) (bls_dir base mid) st = Ok s"
    "load_dir_files fs (read_ecdsa_proxy C L fs) (insert_ecdsa_proxy C mid) (ecdsa_dir base mid) s = Ok st'"
    by (auto simp: load_module_dir_def Let_def and_then_Ok_iff bls_dir_def ecdsa_dir_def)
  from load_dir_files_reads [OF s(1)] load_dir_files_reads [OF s(2)] show ?thesis by simp
next
  case False
  with assms show ?thesis by (simp add: load_module_dir_def no_module_dir [OF False])
qed

interpretation bls_store: store_half "\<lambda>p mid. insert_bls_proxy C mid p" "\<lambda>p. bls_signer_pubkey C (bp_signer p)"
  loaded_bls loaded_listed_bls "load_module_dir C L fs base" "\<lambda>mid. dir_reads fs (read_bls_proxy C L fs) (bls_dir base mid)"
  for C L fs base
proof unfold_locales
  show "loaded_bls (insert_bls_proxy C mid p st) k =
      (if k = bls_signer_pubkey C (bp_signer p) then Some p else loaded_bls st k)" for p mid st k
    by (cases st) (simp add: loaded_bls_def insert_bls_proxy_def Let_def update_conv')
  show "loaded_listed_bls (insert_bls_proxy C mid p st) mid' =
      (if mid' = mid then loaded_listed_bls st mid @ [bls_signer_pubkey C (bp_signer p)] else loaded_listed_bls st mid')"
    for p mid st mid'
    by (cases st) (simp add: loaded_listed_bls_def insert_bls_proxy_def Let_def keys_of_module_push)
qed (use load_module_dir_reads insert_loaded_frame(1,2) in \<open>metis\<close>)+

interpretation ecdsa_store: store_half "\<lambda>p mid. insert_ecdsa_proxy C mid p" "\<lambda>p. ecdsa_signer_address C (ep_signer p)"
  loaded_ecdsa loaded_listed_ecdsa "load_module_dir C L fs base" "\<lambda>mid. dir_reads fs (read_ecdsa_proxy C L fs) (ecdsa_dir base mid)"
  for C L fs base
proof unfold_locales
  show "loaded_ecdsa (insert_ecdsa_proxy C mid p st) k =
      (if k = ecdsa_signer_address C (ep_signer p) then Some p else loaded_ecdsa st k)" for p mid st k
    by (cases st) (simp add: loaded_ecdsa_def insert_ecdsa_proxy_def Let_def update_conv')
  show "loaded_listed_ecdsa (insert_ecdsa_proxy C mid p st) mid' =
      (if mid' = mid then loaded_listed_ecdsa st mid @ [ecdsa_signer_address C (ep_signer p)] else loaded_listed_ecdsa st mid')"
    for p mid st mid'
    by (cases st) (simp add: loaded_listed_ecdsa_def insert_ecdsa_proxy_def Let_def keys_of_module_push)
next
  fix mid st st'
  assume "load_module_dir C L fs base mid st = Ok st'"
  note st' = load_module_dir_reads [OF this]
  let ?add = "\<lambda>p. insert_ecdsa_proxy C mid p" and ?es = "dir_reads fs (read_ecdsa_proxy C L fs) (ecdsa_dir base mid)"
  have "loaded_ecdsa (fold ?add es s) = loaded_ecdsa (fold ?add es s') \<and>
      loaded_listed_ecdsa (fold ?add es s) = loaded_listed_ecdsa (fold ?add es s')"
    if "loaded_ecdsa s = loaded_ecdsa s'" "loaded_listed_ecdsa s = loaded_listed_ecdsa s'" for es s s'
    using that
  proof (induction es arbitrary: s s')
    case (Cons e es)
    have "loaded_ecdsa (?add e s) = loaded_ecdsa (?add e s')" "loaded_listed_ecdsa (?add e s) = loaded_listed_ecdsa (?add e s')"
      using Cons.prems
      by (cases s; cases s'; simp add: loaded_ecdsa_def loaded_listed_ecdsa_def insert_ecdsa_proxy_def Let_def fun_eq_iff
          update_conv' keys_of_module_push)+
    from Cons.IH [OF this] show ?case by simp
  qed simp
  from this [OF insert_loaded_frame(3,4)] st'
  show "loaded_ecdsa st' = loaded_ecdsa (fold (\<lambda>p. insert_ecdsa_proxy C mid p) ?es st)"
    "loaded_listed_ecdsa st' = loaded_listed_ecdsa (fold (\<lambda>p. insert_ecdsa_proxy C mid p) ?es st)"
    by simp_all
qed

section \<open>Restart\<close>

text \<open>The files of the store and the memory of a manager, for both kinds of keys.\<close>

definition store_agrees :: "crypto \<Rightarrow> storelib \<Rightarrow> path \<Rightarrow> filesystem \<Rightarrow> local_manager \<Rightarrow> bool" where
  "store_agrees C L base fs m \<longleftrightarrow>
     agrees (\<lambda>mid name. is_file fs (key_file base mid Bls name))
       (\<lambda>mid name. read_bls_proxy C L fs (key_file base mid Bls name))
       (\<lambda>p. bls_signer_pubkey C (bp_signer p)) (display_fixed_bytes 48) (lookup_proxy_bls m) (\<lambda>mid. set (listed_bls m mid)) \<and>
     agrees (\<lambda>mid name. is_file fs (key_file base mid Ecdsa name))
       (\<lambda>mid name. read_ecdsa_proxy C L fs (key_file base mid Ecdsa name))
       (\<lambda>p. ecdsa_signer_address C (ep_signer p)) (sl_address_to_string L) (lookup_proxy_ecdsa m)
       (\<lambda>mid. set (listed_ecdsa m mid))"

lemma agrees_ok:
  "agrees present read key_of name_of lookup listed \<Longrightarrow> present mid name \<Longrightarrow> is_ok (read mid name)"
  unfolding agrees_def by (metis is_ok_simps(2))

lemma agrees_loaded:
  assumes ag: "agrees present read key_of name_of lookup listed" and inj: "inj name_of"
    and ps: "\<And>mid. ps mid = {q. \<exists>name. present mid name \<and> read mid name = Ok q}"
    and sound: "\<And>k q. loaded k = Some q \<Longrightarrow> \<exists>mid\<in>mids. q \<in> ps mid \<and> key_of q = k"
    and complete: "\<And>k mid q. loaded k = None \<Longrightarrow> mid \<in> mids \<Longrightarrow> q \<in> ps mid \<Longrightarrow> key_of q \<noteq> k"
    and mids: "\<And>mid name. present mid name \<Longrightarrow> mid \<in> mids"
    and keys: "\<And>mid. loaded_listed mid = (if mid \<in> mids then key_of ` ps mid else {})"
  shows "loaded = lookup \<and> loaded_listed = listed"
proof -
  have stored: "lookup (key_of q) = Some q \<and> key_of q \<in> listed mid" if "q \<in> ps mid" for q mid
    using ag that unfolding agrees_def ps by fastforce
  have on_disk: "\<exists>q\<in>ps mid. key_of q = k \<and> lookup k = Some q \<and> mid \<in> mids" if "k \<in> listed mid" for k mid
  proof -
    from agrees_file [OF ag inj that] obtain q where "read mid (name_of k) = Ok q" "key_of q = k" "lookup k = Some q"
      "present mid (name_of k)" by blast
    with mids show ?thesis by (auto simp: ps)
  qed
  have "loaded_listed = listed"
  proof (intro ext set_eqI iffI)
    fix mid k assume "k \<in> loaded_listed mid"
    with stored show "k \<in> listed mid" by (auto simp: keys split: if_splits)
  next
    fix mid k assume "k \<in> listed mid"
    from on_disk [OF this] show "k \<in> loaded_listed mid" by (auto simp: keys)
  qed
  moreover have "loaded = lookup"
  proof
    fix k
    show "loaded k = lookup k"
    proof (cases "lookup k")
      case None
      with sound stored show ?thesis by (cases "loaded k") fastforce+
    next
      case (Some q)
      then obtain mid where "k \<in> listed mid" using ag unfolding agrees_def by blast
      from on_disk [OF this] complete Some obtain q' where "loaded k = Some q'" by fastforce
      with sound stored Some show ?thesis by fastforce
    qed
  qed
  ultimately show ?thesis by simp
qed

lemma inj_display_fixed_bytes:
  assumes "LENGTH('a) = 8 * k"
  shows "inj (display_fixed_bytes k :: 'a::len word \<Rightarrow> string)"
proof (rule injI)
  fix a b :: "'a word"
  have "(16 :: nat) ^ (2 * k) = 2 ^ LENGTH('a)" using power_mult [of "16 :: nat" 2 k] power_mult [of "2 :: nat" 8 k] assms by simp
  then have bound: "unat w < 16 ^ (2 * k)" for w :: "'a word" using unsigned_less [of w, where 'a = nat] by simp
  assume "display_fixed_bytes k a = display_fixed_bytes k b"
  then have "hex_digits (2 * k) (unat a) = hex_digits (2 * k) (unat b)" by (simp add: display_fixed_bytes_def)
  from hex_digits_inj [OF this bound bound] show "a = b" by (rule unsigned_word_eqI)
qed

lemma inj_display_pubkey: "inj (display_fixed_bytes 48 :: bls_public_key \<Rightarrow> string)"
  by (rule inj_display_fixed_bytes) simp

lemma loaded_default:
  "loaded_bls (proxy_signers_default, [], []) k = None" "loaded_listed_bls (proxy_signers_default, [], []) mid = []"
  "loaded_ecdsa (proxy_signers_default, [], []) a = None" "loaded_listed_ecdsa (proxy_signers_default, [], []) mid = []"
  by (simp_all add: loaded_bls_def loaded_listed_bls_def loaded_ecdsa_def loaded_listed_ecdsa_def proxy_signers_default_def
      keys_of_module_def)

lemma scheme_reads:
  assumes "store_decodes C L fs base"
  shows "set (dir_reads fs (read_bls_proxy C L fs) (bls_dir base mid)) =
      {q. \<exists>name. is_file fs (key_file base mid Bls name) \<and> read_bls_proxy C L fs (key_file base mid Bls name) = Ok q}"
    and "set (dir_reads fs (read_ecdsa_proxy C L fs) (ecdsa_dir base mid)) =
      {q. \<exists>name. is_file fs (key_file base mid Ecdsa name) \<and> read_ecdsa_proxy C L fs (key_file base mid Ecdsa name) = Ok q}"
  unfolding bls_dir_def ecdsa_dir_def
  by (subst set_dir_reads; simp only: key_file_entry;
      use is_file_entry [OF _ key_file_children(4)] is_file_entry [OF _ key_file_children(5)] assms in
        \<open>auto simp: store_decodes_def\<close>)+

lemma load_agreeing_bls:
  assumes "try_fold (load_module_dir C L fs base) (dir_entries fs base) (proxy_signers_default, [], []) = Ok st"
    and "store_agrees C L base fs m" and "store_decodes C L fs base"
  shows "loaded_bls st = lookup_proxy_bls m \<and>
    (\<lambda>mid. set (loaded_listed_bls st mid)) = (\<lambda>mid. set (listed_bls m mid))"
proof (rule agrees_loaded [OF assms(2) [unfolded store_agrees_def, THEN conjunct1] inj_display_pubkey
      scheme_reads(1) [OF assms(3)], where mids = "set (dir_entries fs base)"])
  show "\<exists>mid\<in>set (dir_entries fs base). q \<in> set (dir_reads fs (read_bls_proxy C L fs) (bls_dir base mid)) \<and>
      bls_signer_pubkey C (bp_signer q) = k" if "loaded_bls st k = Some q" for k q
    using bls_store.loaded_lookup [OF assms(1) that] by (simp add: loaded_default)
  show "bls_signer_pubkey C (bp_signer q) \<noteq> k" if "loaded_bls st k = None" "mid \<in> set (dir_entries fs base)"
    "q \<in> set (dir_reads fs (read_bls_proxy C L fs) (bls_dir base mid))" for k mid q
    using bls_store.loaded_lookup_None [OF assms(1) that(1)] that(2,3) by blast
  show "mid \<in> set (dir_entries fs base)" if "is_file fs (key_file base mid Bls name)" for mid name
    using that by (rule key_file_reached(1))
  show "set (loaded_listed_bls st mid) = (if mid \<in> set (dir_entries fs base)
      then (\<lambda>p. bls_signer_pubkey C (bp_signer p)) ` set (dir_reads fs (read_bls_proxy C L fs) (bls_dir base mid)) else {})" for mid
    using bls_store.loaded_listed [OF assms(1), of mid] by (simp add: loaded_default)
qed

lemma load_agreeing_ecdsa:
  assumes "try_fold (load_module_dir C L fs base) (dir_entries fs base) (proxy_signers_default, [], []) = Ok st"
    and "store_agrees C L base fs m" and "store_decodes C L fs base" and "inj (sl_address_to_string L)"
  shows "loaded_ecdsa st = lookup_proxy_ecdsa m \<and>
    (\<lambda>mid. set (loaded_listed_ecdsa st mid)) = (\<lambda>mid. set (listed_ecdsa m mid))"
proof (rule agrees_loaded [OF assms(2) [unfolded store_agrees_def, THEN conjunct2] assms(4)
      scheme_reads(2) [OF assms(3)], where mids = "set (dir_entries fs base)"])
  show "\<exists>mid\<in>set (dir_entries fs base). q \<in> set (dir_reads fs (read_ecdsa_proxy C L fs) (ecdsa_dir base mid)) \<and>
      ecdsa_signer_address C (ep_signer q) = k" if "loaded_ecdsa st k = Some q" for k q
    using ecdsa_store.loaded_lookup [OF assms(1) that] by (simp add: loaded_default)
  show "ecdsa_signer_address C (ep_signer q) \<noteq> k" if "loaded_ecdsa st k = None" "mid \<in> set (dir_entries fs base)"
    "q \<in> set (dir_reads fs (read_ecdsa_proxy C L fs) (ecdsa_dir base mid))" for k mid q
    using ecdsa_store.loaded_lookup_None [OF assms(1) that(1)] that(2,3) by blast
  show "mid \<in> set (dir_entries fs base)" if "is_file fs (key_file base mid Ecdsa name)" for mid name
    using that by (rule key_file_reached(1))
  show "set (loaded_listed_ecdsa st mid) = (if mid \<in> set (dir_entries fs base)
      then (\<lambda>p. ecdsa_signer_address C (ep_signer p)) ` set (dir_reads fs (read_ecdsa_proxy C L fs) (ecdsa_dir base mid)) else {})" for mid
    using ecdsa_store.loaded_listed [OF assms(1), of mid] by (simp add: loaded_default)
qed

lemma load_agreeing_store:
  assumes "store_agrees C L (path_of dir) fs m" and "is_dir fs (path_of dir)" and "inj (sl_address_to_string L)"
  shows "\<exists>st. load_proxies C L (StoreFile dir) fs = Ok st \<and>
    loaded_bls st = lookup_proxy_bls m \<and> (\<lambda>mid. set (loaded_listed_bls st mid)) = (\<lambda>mid. set (listed_bls m mid)) \<and>
    loaded_ecdsa st = lookup_proxy_ecdsa m \<and>
    (\<lambda>mid. set (loaded_listed_ecdsa st mid)) = (\<lambda>mid. set (listed_ecdsa m mid))"
proof -
  have decodes: "store_decodes C L fs (path_of dir)"
    using agrees_ok [OF assms(1) [unfolded store_agrees_def, THEN conjunct1]]
      agrees_ok [OF assms(1) [unfolded store_agrees_def, THEN conjunct2]] by (simp add: store_decodes_def)
  with assms(2) obtain st where st: "load_file_store C L fs (path_of dir) = Ok st"
    using load_file_store_is_ok [of C L fs "path_of dir"] by (cases "load_file_store C L fs (path_of dir)") auto
  then have "try_fold (load_module_dir C L fs (path_of dir)) (dir_entries fs (path_of dir)) (proxy_signers_default, [], []) = Ok st"
    using assms(2) by (simp add: load_file_store_def)
  from load_agreeing_bls [OF this assms(1) decodes] load_agreeing_ecdsa [OF this assms(1) decodes assms(3)] st
  show ?thesis by auto
qed


section \<open>The life of a store\<close>

text \<open>
  What is relied on of the libraries: the JSON codecs of keys with delegations round-trip, files that exist
  can be read, and the display form of an address is one path component and tells addresses apart.
\<close>

definition store_codec :: "storelib \<Rightarrow> bool" where
  "store_codec L \<longleftrightarrow>
     (\<forall>secret d. sl_kd_bls_from_json L (sl_kd_bls_to_json L secret d) = Ok (secret, d)) \<and>
     (\<forall>secret d. sl_kd_ecdsa_from_json L (sl_kd_ecdsa_to_json L secret d) = Ok (secret, d)) \<and>
     (\<forall>p. sl_readable L p) \<and> inj (sl_address_to_string L) \<and> (\<forall>a. plain_name (sl_address_to_string L a))"

text \<open>
  A plain file store over its life: it starts empty; consensus keys are added; proxies are generated, with
  whatever result, for random keys that are valid and not in use; the process is restarted on the same
  directory. Each generation meets its own outcome \<open>w\<close> of the write: it may succeed or fail to open the file,
  but no write is cut short after the file was opened (\<open>cut_write_blocks_restart\<close> below is about those).
\<close>

definition never_cut :: "(path \<Rightarrow> write_outcome) \<Rightarrow> bool" where
  "never_cut w \<longleftrightarrow> (\<forall>p n. w p \<noteq> WriteCut n)"

inductive proxy_run :: "crypto \<Rightarrow> storelib \<Rightarrow> string \<Rightarrow> chain \<Rightarrow> local_manager \<Rightarrow> filesystem \<Rightarrow> bool"
  for C L dir chain where
  start: "is_dir fs (path_of dir) \<Longrightarrow> (\<And>mid scheme name. \<not> is_file fs (key_file (path_of dir) mid scheme name)) \<Longrightarrow>
    local_manager_new C L fs chain (Some (StoreFile dir)) = Ok m \<Longrightarrow> proxy_run C L dir chain m fs"
| consensus: "proxy_run C L dir chain m fs \<Longrightarrow> proxy_run C L dir chain (add_consensus_signer C s m) fs"
| bls_proxy: "proxy_run C L dir chain m fs \<Longrightarrow> plain_name mid \<Longrightarrow>
    bls_signer_new_from_bytes C (secret_bytes sk) = Ok (BlsLocal sk) \<Longrightarrow>
    lookup_proxy_bls m (bls_signer_pubkey C (BlsLocal sk)) = None \<Longrightarrow>
    never_cut w \<Longrightarrow> create_proxy_bls C (L\<lparr>sl_write := w\<rparr>) sk pw seed mid delegator m fs = (m', fs', r) \<Longrightarrow>
    proxy_run C L dir chain m' fs'"
| ecdsa_proxy: "proxy_run C L dir chain m fs \<Longrightarrow> plain_name mid \<Longrightarrow>
    ecdsa_signer_new_from_bytes C (secret_bytes sk') = Ok (EcdsaLocal sk') \<Longrightarrow>
    lookup_proxy_ecdsa m (ecdsa_signer_address C (EcdsaLocal sk')) = None \<Longrightarrow>
    never_cut w \<Longrightarrow> create_proxy_ecdsa C (L\<lparr>sl_write := w\<rparr>) sk' pw seed mid delegator m fs = (m', fs', r') \<Longrightarrow>
    proxy_run C L dir chain m' fs'"
| restart: "proxy_run C L dir chain m fs \<Longrightarrow>
    local_manager_new C L fs chain (Some (StoreFile dir)) = Ok m' \<Longrightarrow> proxy_run C L dir chain m' fs"

lemma store_proxy_ecdsa_path:
  assumes "plain_name mid" and "plain_name (sl_address_to_string L (ecdsa_signer_address C (ep_signer proxy)))"
  shows "store_proxy_ecdsa C L (StoreFile dir) mid proxy pw seed fs =
    write_file L (key_file (path_of dir) mid Ecdsa (sl_address_to_string L (ecdsa_signer_address C (ep_signer proxy))))
      (sl_kd_ecdsa_to_json L (secret_bytes (ecdsa_signer_secret (ep_signer proxy))) (ep_delegation proxy)) fs"
  using assms
  by (cases "path_of dir") (simp add: store_proxy_ecdsa_def Let_def path_join_plain del: path_join.simps)

lemma read_proxy_write:
  assumes "fs' = fs\<lparr>fs_files := AList.update p content (fs_files fs)\<rparr>" and "q \<noteq> p"
  shows "read_bls_proxy C L fs' q = read_bls_proxy C L fs q" and "read_ecdsa_proxy C L fs' q = read_ecdsa_proxy C L fs q"
  using assms(2) by (simp_all add: read_bls_proxy_def read_ecdsa_proxy_def read_file_write [OF assms(1)])

lemma store_agrees_insert_bls:
  assumes ag: "store_agrees C L base fs m" and codec: "store_codec L"
    and key: "bls_signer_new_from_bytes C (secret_bytes (bls_signer_secret (bp_signer p))) = Ok (bp_signer p)"
    and fresh: "lookup_proxy_bls m (bls_signer_pubkey C (bp_signer p)) = None"
    and fs': "fs' = fs\<lparr>fs_files := AList.update
        (key_file base mid Bls (display_fixed_bytes 48 (bls_signer_pubkey C (bp_signer p))))
        (sl_kd_bls_to_json L (secret_bytes (bls_signer_secret (bp_signer p))) (bp_delegation p)) (fs_files fs)\<rparr>"
  shows "store_agrees C L base fs' (insert_proxy_bls C p mid m)"
proof -
  let ?k = "bls_signer_pubkey C (bp_signer p)"
  have lookup: "lookup_proxy_bls (insert_proxy_bls C p mid m) = (lookup_proxy_bls m)(?k \<mapsto> p)"
    by (simp add: fun_eq_iff bls.lookup_add)
  have listed: "(\<lambda>m'. set (listed_bls (insert_proxy_bls C p mid m) m')) =
      (\<lambda>m'. if m' = mid then insert ?k (set (listed_bls m m')) else set (listed_bls m m'))"
    by (simp add: fun_eq_iff bls.listed_add)
  show ?thesis
    unfolding store_agrees_def lookup listed insert_proxy_frame
  proof (intro conjI)
    show "agrees (\<lambda>mid name. is_file fs' (key_file base mid Bls name))
        (\<lambda>mid name. read_bls_proxy C L fs' (key_file base mid Bls name))
        (\<lambda>p. bls_signer_pubkey C (bp_signer p)) (display_fixed_bytes 48) ((lookup_proxy_bls m)(?k \<mapsto> p))
        (\<lambda>m'. if m' = mid then insert ?k (set (listed_bls m m')) else set (listed_bls m m'))"
    proof (rule agrees_add [OF ag [unfolded store_agrees_def, THEN conjunct1] inj_display_pubkey fresh])
      show "read_bls_proxy C L fs' (key_file base mid Bls (display_fixed_bytes 48 ?k)) = Ok p"
        using codec key by (simp add: read_bls_proxy_def read_file_write [OF fs'] store_codec_def)
    qed (auto simp: is_file_write [OF fs'] key_file_inj read_proxy_write [OF fs'])
    show "agrees (\<lambda>mid name. is_file fs' (key_file base mid Ecdsa name))
        (\<lambda>mid name. read_ecdsa_proxy C L fs' (key_file base mid Ecdsa name))
        (\<lambda>p. ecdsa_signer_address C (ep_signer p)) (sl_address_to_string L) (lookup_proxy_ecdsa m)
        (\<lambda>mid. set (listed_ecdsa m mid))"
      by (rule agrees_cong [OF ag [unfolded store_agrees_def, THEN conjunct2]])
        (simp_all add: is_file_write [OF fs'] key_file_inj read_proxy_write [OF fs'])
  qed
qed

lemma store_agrees_insert_ecdsa:
  assumes ag: "store_agrees C L base fs m" and codec: "store_codec L"
    and key: "ecdsa_signer_new_from_bytes C (secret_bytes (ecdsa_signer_secret (ep_signer p))) = Ok (ep_signer p)"
    and fresh: "lookup_proxy_ecdsa m (ecdsa_signer_address C (ep_signer p)) = None"
    and fs': "fs' = fs\<lparr>fs_files := AList.update
        (key_file base mid Ecdsa (sl_address_to_string L (ecdsa_signer_address C (ep_signer p))))
        (sl_kd_ecdsa_to_json L (secret_bytes (ecdsa_signer_secret (ep_signer p))) (ep_delegation p)) (fs_files fs)\<rparr>"
  shows "store_agrees C L base fs' (insert_proxy_ecdsa C p mid m)"
proof -
  let ?k = "ecdsa_signer_address C (ep_signer p)"
  have inj: "inj (sl_address_to_string L)" using codec by (simp add: store_codec_def)
  have lookup: "lookup_proxy_ecdsa (insert_proxy_ecdsa C p mid m) = (lookup_proxy_ecdsa m)(?k \<mapsto> p)"
    by (simp add: fun_eq_iff ecdsa.lookup_add)
  have listed: "(\<lambda>m'. set (listed_ecdsa (insert_proxy_ecdsa C p mid m) m')) =
      (\<lambda>m'. if m' = mid then insert ?k (set (listed_ecdsa m m')) else set (listed_ecdsa m m'))"
    by (simp add: fun_eq_iff ecdsa.listed_add)
  show ?thesis
    unfolding store_agrees_def lookup listed insert_proxy_frame
  proof (intro conjI)
    show "agrees (\<lambda>mid name. is_file fs' (key_file base mid Ecdsa name))
        (\<lambda>mid name. read_ecdsa_proxy C L fs' (key_file base mid Ecdsa name))
        (\<lambda>p. ecdsa_signer_address C (ep_signer p)) (sl_address_to_string L) ((lookup_proxy_ecdsa m)(?k \<mapsto> p))
        (\<lambda>m'. if m' = mid then insert ?k (set (listed_ecdsa m m')) else set (listed_ecdsa m m'))"
    proof (rule agrees_add [OF ag [unfolded store_agrees_def, THEN conjunct2] inj fresh])
      show "read_ecdsa_proxy C L fs' (key_file base mid Ecdsa (sl_address_to_string L ?k)) = Ok p"
        using codec key by (simp add: read_ecdsa_proxy_def read_file_write [OF fs'] store_codec_def)
    qed (auto simp: is_file_write [OF fs'] key_file_inj read_proxy_write [OF fs'] dest: injD [OF inj])
    show "agrees (\<lambda>mid name. is_file fs' (key_file base mid Bls name))
        (\<lambda>mid name. read_bls_proxy C L fs' (key_file base mid Bls name))
        (\<lambda>p. bls_signer_pubkey C (bp_signer p)) (display_fixed_bytes 48) (lookup_proxy_bls m)
        (\<lambda>mid. set (listed_bls m mid))"
      by (rule agrees_cong [OF ag [unfolded store_agrees_def, THEN conjunct1]])
        (simp_all add: is_file_write [OF fs'] key_file_inj read_proxy_write [OF fs'])
  qed
qed

text \<open>Generating a proxy writes its file and adds it, or does neither, up to directories that were made.\<close>

lemma create_proxy_bls_stored:
  assumes "lm_proxy_store m = Some (StoreFile dir)" and "plain_name mid" and "never_cut w"
    and "create_proxy_bls C (L\<lparr>sl_write := w\<rparr>) sk pw seed mid delegator m fs = (m', fs', r)"
  shows "m' = m \<and> (\<exists>made. fs' = fs\<lparr>fs_dirs := made @ fs_dirs fs\<rparr>) \<or>
    (\<exists>p. bp_signer p = BlsLocal sk \<and> m' = insert_proxy_bls C p mid m \<and>
    fs' = fs\<lparr>fs_files := AList.update
        (key_file (path_of dir) mid Bls (display_fixed_bytes 48 (bls_signer_pubkey C (bp_signer p))))
        (sl_kd_bls_to_json L (secret_bytes (bls_signer_secret (bp_signer p))) (bp_delegation p)) (fs_files fs)\<rparr>)"
proof -
  have none: "\<exists>made. fs = fs\<lparr>fs_dirs := made @ fs_dirs fs\<rparr>" by (rule exI [of _ "[]"]) simp
  note run = create_proxy_bls_def add_proxy_signer_bls_def store_proxy_bls_path [OF assms(2)] Let_def
  show ?thesis
  proof (cases r)
    case (Inl e)
    with none assms(1,3,4) have "m' = m \<and> (\<exists>made. fs' = fs\<lparr>fs_dirs := made @ fs_dirs fs\<rparr>)"
      by (auto simp: run write_file_def never_cut_def split: sum.splits if_splits write_outcome.splits prod.splits)
    then show ?thesis ..
  next
    case (Inr d)
    with assms(1,4) show ?thesis
      by (intro disjI2 exI [of _ "\<lparr>bp_signer = BlsLocal sk, bp_delegation = d\<rparr>"])
        (auto simp: run write_file_Ok split: sum.splits if_splits prod.splits)
  qed
qed

lemma create_proxy_ecdsa_stored:
  assumes "lm_proxy_store m = Some (StoreFile dir)" and "plain_name mid" and "store_codec L" and "never_cut w"
    and "create_proxy_ecdsa C (L\<lparr>sl_write := w\<rparr>) sk pw seed mid delegator m fs = (m', fs', r)"
  shows "m' = m \<and> (\<exists>made. fs' = fs\<lparr>fs_dirs := made @ fs_dirs fs\<rparr>) \<or>
    (\<exists>p. ep_signer p = EcdsaLocal sk \<and> m' = insert_proxy_ecdsa C p mid m \<and>
    fs' = fs\<lparr>fs_files := AList.update
        (key_file (path_of dir) mid Ecdsa (sl_address_to_string L (ecdsa_signer_address C (ep_signer p))))
        (sl_kd_ecdsa_to_json L (secret_bytes (ecdsa_signer_secret (ep_signer p))) (ep_delegation p)) (fs_files fs)\<rparr>)"
proof -
  have none: "\<exists>made. fs = fs\<lparr>fs_dirs := made @ fs_dirs fs\<rparr>" by (rule exI [of _ "[]"]) simp
  have plain: "plain_name (sl_address_to_string (L\<lparr>sl_write := w\<rparr>) a)" for a using assms(3) by (simp add: store_codec_def)
  note run = create_proxy_ecdsa_def add_proxy_signer_ecdsa_def store_proxy_ecdsa_path [OF assms(2) plain] Let_def
  show ?thesis
  proof (cases r)
    case (Inl e)
    with none assms(1,4,5) have "m' = m \<and> (\<exists>made. fs' = fs\<lparr>fs_dirs := made @ fs_dirs fs\<rparr>)"
      by (auto simp: run write_file_def never_cut_def split: sum.splits if_splits write_outcome.splits prod.splits)
    then show ?thesis ..
  next
    case (Inr d)
    with assms(1,5) show ?thesis
      by (intro disjI2 exI [of _ "\<lparr>ep_signer = EcdsaLocal sk, ep_delegation = d\<rparr>"])
        (auto simp: run write_file_Ok split: sum.splits if_splits prod.splits)
  qed
qed

text \<open>Directories that were made for nothing do not matter.\<close>

lemma store_agrees_dirs: "store_agrees C L base (fs\<lparr>fs_dirs := ds\<rparr>) m \<longleftrightarrow> store_agrees C L base fs m"
  by (simp add: store_agrees_def is_file_def read_bls_proxy_def read_ecdsa_proxy_def read_file_def)

lemma is_dir_made: "is_dir fs d \<Longrightarrow> is_dir (fs\<lparr>fs_dirs := made @ fs_dirs fs\<rparr>) d"
  by (auto simp: is_dir_def dir_entries_def map_filter_def)

lemma is_dir_write:
  assumes "fs' = fs\<lparr>fs_files := AList.update p content (fs_files fs)\<rparr>" and "is_dir fs d"
  shows "is_dir fs' d"
  using assms(2) dir_entries_write [OF assms(1), of d] by (auto simp: is_dir_def assms(1))

text \<open>What is in memory after a start from an agreeing store.\<close>

lemma new_agrees:
  assumes "store_agrees C L (path_of dir) fs m" and "is_dir fs (path_of dir)" and "store_codec L"
  shows "\<exists>m'. local_manager_new C L fs chain (Some (StoreFile dir)) = Ok m' \<and>
    lookup_proxy_bls m' = lookup_proxy_bls m \<and> lookup_proxy_ecdsa m' = lookup_proxy_ecdsa m \<and>
    (\<lambda>mid. set (listed_bls m' mid)) = (\<lambda>mid. set (listed_bls m mid)) \<and>
    (\<lambda>mid. set (listed_ecdsa m' mid)) = (\<lambda>mid. set (listed_ecdsa m mid)) \<and>
    lm_chain m' = chain \<and> lm_proxy_store m' = Some (StoreFile dir)"
proof -
  have "inj (sl_address_to_string L)" using assms(3) by (simp add: store_codec_def)
  from load_agreeing_store [OF assms(1,2) this] obtain st where st: "load_proxies C L (StoreFile dir) fs = Ok st"
    "loaded_bls st = lookup_proxy_bls m" "(\<lambda>mid. set (loaded_listed_bls st mid)) = (\<lambda>mid. set (listed_bls m mid))"
    "loaded_ecdsa st = lookup_proxy_ecdsa m"
    "(\<lambda>mid. set (loaded_listed_ecdsa st mid)) = (\<lambda>mid. set (listed_ecdsa m mid))" by blast
  obtain a b c where abc: "st = (a, b, c)" by (cases st)
  let ?m = "\<lparr>lm_chain = chain, lm_proxy_store = Some (StoreFile dir), lm_consensus_signers = [],
    lm_proxy_signers = a, lm_proxy_pubkeys_bls = b, lm_proxy_addresses_ecdsa = c\<rparr>"
  have "local_manager_new C L fs chain (Some (StoreFile dir)) = Ok ?m"
    using st(1) by (simp add: local_manager_new_def abc)
  moreover have "lookup_proxy_bls ?m = loaded_bls st" "lookup_proxy_ecdsa ?m = loaded_ecdsa st"
    "listed_bls ?m = loaded_listed_bls st" "listed_ecdsa ?m = loaded_listed_ecdsa st"
    by (simp_all add: abc lookup_proxy_bls_def lookup_proxy_ecdsa_def loaded_bls_def loaded_ecdsa_def fun_eq_iff
        listed_bls_def listed_ecdsa_def loaded_listed_bls_def loaded_listed_ecdsa_def)
  ultimately show ?thesis using st(2-) by (intro exI [of _ ?m]) simp
qed

lemma store_agrees_memory:
  assumes "store_agrees C L base fs m" and "lookup_proxy_bls m' = lookup_proxy_bls m"
    and "lookup_proxy_ecdsa m' = lookup_proxy_ecdsa m"
    and "(\<lambda>mid. set (listed_bls m' mid)) = (\<lambda>mid. set (listed_bls m mid))"
    and "(\<lambda>mid. set (listed_ecdsa m' mid)) = (\<lambda>mid. set (listed_ecdsa m mid))"
  shows "store_agrees C L base fs m'"
  using assms(1) unfolding store_agrees_def assms(2-) .

lemma empty_store_agrees:
  assumes "\<And>mid scheme name. \<not> is_file fs (key_file base mid scheme name)"
  shows "store_agrees C L base fs \<lparr>lm_chain = chain, lm_proxy_store = store, lm_consensus_signers = [],
    lm_proxy_signers = proxy_signers_default, lm_proxy_pubkeys_bls = [], lm_proxy_addresses_ecdsa = []\<rparr>"
  using assms by (simp add: store_agrees_def agrees_def lookup_proxy_bls_def lookup_proxy_ecdsa_def listed_bls_def
      listed_ecdsa_def keys_of_module_def proxy_signers_default_def)

lemma new_store_agrees:
  assumes "store_agrees C L (path_of dir) fs m" and "is_dir fs (path_of dir)" and "store_codec L"
    and "local_manager_new C L fs chain (Some (StoreFile dir)) = Ok m'"
  shows "store_agrees C L (path_of dir) fs m'" and "lm_chain m' = chain" and "lm_proxy_store m' = Some (StoreFile dir)"
proof -
  from new_agrees [OF assms(1-3), of chain] assms(4) have same: "lookup_proxy_bls m' = lookup_proxy_bls m"
    "lookup_proxy_ecdsa m' = lookup_proxy_ecdsa m" "(\<lambda>mid. set (listed_bls m' mid)) = (\<lambda>mid. set (listed_bls m mid))"
    "(\<lambda>mid. set (listed_ecdsa m' mid)) = (\<lambda>mid. set (listed_ecdsa m mid))"
    and "lm_chain m' = chain" "lm_proxy_store m' = Some (StoreFile dir)" by auto
  then show "lm_chain m' = chain" "lm_proxy_store m' = Some (StoreFile dir)" by simp_all
  show "store_agrees C L (path_of dir) fs m'" by (rule store_agrees_memory [OF assms(1) same])
qed

lemma proxy_run_agrees:
  assumes "proxy_run C L dir chain m fs" and "store_codec L"
  shows "store_agrees C L (path_of dir) fs m \<and> is_dir fs (path_of dir) \<and>
    lm_proxy_store m = Some (StoreFile dir) \<and> lm_chain m = chain"
  using assms(1)
proof (induction rule: proxy_run.induct)
  case (start fs m)
  from new_store_agrees [OF empty_store_agrees [OF start(2)] start(1) assms(2) start(3)] start(1)
  show ?case by simp
next
  case (consensus m fs s)
  have "store_agrees C L (path_of dir) fs (add_consensus_signer C s m)"
    by (rule store_agrees_memory [OF consensus.IH [THEN conjunct1]]) simp_all
  with consensus show ?case by (simp add: add_consensus_signer_def)
next
  case (bls_proxy m fs mid sk w pw seed delegator m' fs' r)
  from create_proxy_bls_stored [OF _ bls_proxy.hyps(2,5,6)] bls_proxy.IH
  consider made where "m' = m" "fs' = fs\<lparr>fs_dirs := made @ fs_dirs fs\<rparr>" |
    p where "bp_signer p = BlsLocal sk" "m' = insert_proxy_bls C p mid m" "fs' = fs\<lparr>fs_files := AList.update
        (key_file (path_of dir) mid Bls (display_fixed_bytes 48 (bls_signer_pubkey C (bp_signer p))))
        (sl_kd_bls_to_json L (secret_bytes (bls_signer_secret (bp_signer p))) (bp_delegation p)) (fs_files fs)\<rparr>"
    by blast
  then show ?case
  proof cases
    case 1
    with bls_proxy.IH show ?thesis by (simp add: store_agrees_dirs is_dir_made)
  next
    case 2
    from store_agrees_insert_bls [OF _ assms(2) _ _ 2(3)] is_dir_write [OF 2(3)] bls_proxy.IH bls_proxy.hyps(3,4) 2(1)
    show ?thesis unfolding 2(2) by (simp add: insert_proxy_bls_def Let_def)
  qed
next
  case (ecdsa_proxy m fs mid sk' w pw seed delegator m' fs' r')
  from create_proxy_ecdsa_stored [OF _ ecdsa_proxy.hyps(2) assms(2) ecdsa_proxy.hyps(5,6)] ecdsa_proxy.IH
  consider made where "m' = m" "fs' = fs\<lparr>fs_dirs := made @ fs_dirs fs\<rparr>" |
    p where "ep_signer p = EcdsaLocal sk'" "m' = insert_proxy_ecdsa C p mid m" "fs' = fs\<lparr>fs_files := AList.update
        (key_file (path_of dir) mid Ecdsa (sl_address_to_string L (ecdsa_signer_address C (ep_signer p))))
        (sl_kd_ecdsa_to_json L (secret_bytes (ecdsa_signer_secret (ep_signer p))) (ep_delegation p)) (fs_files fs)\<rparr>"
    by blast
  then show ?case
  proof cases
    case 1
    with ecdsa_proxy.IH show ?thesis by (simp add: store_agrees_dirs is_dir_made)
  next
    case 2
    from store_agrees_insert_ecdsa [OF _ assms(2) _ _ 2(3)] is_dir_write [OF 2(3)] ecdsa_proxy.IH ecdsa_proxy.hyps(3,4) 2(1)
    show ?thesis unfolding 2(2) by (simp add: insert_proxy_ecdsa_def Let_def)
  qed
next
  case (restart m fs m')
  from new_store_agrees [OF _ _ assms(2) restart.hyps(2)] restart.IH show ?case by blast
qed

section \<open>Writes that are cut short\<close>

text \<open>
  A write that fails after the file was opened leaves a file with a part of the content. The caller gets an error
  and the manager keeps nothing of the proxy, but the next start fails: the store has a file that does not decode.
\<close>

theorem cut_write_blocks_restart:
  assumes "lm_proxy_store m = Some (StoreFile dir)" and "plain_name mid"
    and "sign_consensus C m delegator (delegation_root_bls C \<lparr>pd_delegator = delegator, pd_proxy = blst_sk_to_pk C sk\<rparr>)
      None = Ok sig"
    and "sl_write L (key_file (path_of dir) mid Bls (display_fixed_bytes 48 (blst_sk_to_pk C sk))) = WriteCut n"
    and "\<And>d. \<not> is_ok (sl_kd_bls_from_json L (take n (sl_kd_bls_to_json L (secret_bytes sk) d)))"
    and "create_proxy_bls C L sk pw seed mid delegator m fs = (m', fs', r)"
  shows "m' = m \<and> \<not> is_ok r \<and> \<not> is_ok (local_manager_new C L fs' chain (Some (StoreFile dir)))"
proof -
  let ?p = "key_file (path_of dir) mid Bls (display_fixed_bytes 48 (blst_sk_to_pk C sk))"
  let ?d = "\<lparr>sd_message = \<lparr>pd_delegator = delegator, pd_proxy = blst_sk_to_pk C sk\<rparr>, sd_signature = sig\<rparr>"
  have run: "m' = m" "\<not> is_ok r"
    and fs': "fs' = fs\<lparr>fs_files := AList.update ?p (take n (sl_kd_bls_to_json L (secret_bytes sk) ?d)) (fs_files fs)\<rparr>"
    using assms(1,3,4,6)
    by (auto simp: create_proxy_bls_def add_proxy_signer_bls_def store_proxy_bls_path [OF assms(2)] write_file_def Let_def)
  have "\<not> is_ok (read_bls_proxy C L fs' ?p)"
    using assms(5) [of ?d]
    by (cases "sl_kd_bls_from_json L (take n (sl_kd_bls_to_json L (secret_bytes sk) ?d))")
      (auto simp: read_bls_proxy_def read_file_write [OF fs'] split: if_splits)
  moreover have "is_file fs' ?p" by (simp add: is_file_write [OF fs'])
  ultimately have "\<not> store_decodes C L fs' (path_of dir)" unfolding store_decodes_def by blast
  then have "\<not> is_ok (load_file_store C L fs' (path_of dir))" by (simp add: load_file_store_is_ok)
  then have "\<not> is_ok (local_manager_new C L fs' chain (Some (StoreFile dir)))"
    by (cases "load_file_store C L fs' (path_of dir)") (simp_all add: local_manager_new_def Let_def)
  with run show ?thesis by simp
qed

section \<open>Answers of the manager\<close>

lemma has_proxy_listed:
  "has_proxy_bls_for_module m k mid \<longleftrightarrow> k \<in> set (listed_bls m mid)"
  "has_proxy_ecdsa_for_module m a mid \<longleftrightarrow> a \<in> set (listed_ecdsa m mid)"
  by (simp_all add: has_proxy_bls_for_module_def has_proxy_ecdsa_for_module_def listed_bls_def listed_ecdsa_def
      keys_of_module_def split: option.split)

text \<open>The bytes of a word determine it.\<close>

lemma be_nat_fixed_bytes_mod: "be_nat (fixed_bytes k w) = unat w mod 256 ^ k"
proof (induction k arbitrary: w)
  case 0
  then show ?case by (simp add: be_nat_def fixed_bytes_def)
next
  case (Suc k)
  have "8 * (k - i) = 8 + 8 * (k - 1 - i)" if "i < k" for i using that by simp
  then have "fixed_bytes (Suc k) w = fixed_bytes k (drop_bit 8 w) @ [ucast w]"
    by (simp add: fixed_bytes_def add.commute)
  then have split: "be_nat (fixed_bytes (Suc k) w) = be_nat (fixed_bytes k (drop_bit 8 w)) * 256 + unat (ucast w :: u8)"
    by (simp add: be_nat_def)
  have drop: "unat (drop_bit 8 w) = unat w div 256"
    using drop_bit_eq_div [of 8 "unat w"]
    by (simp only: unsigned_drop_bit_eq take_bit_nat_eq_self [OF unsigned_less]) simp
  have "be_nat (fixed_bytes (Suc k) w) = (unat w div 256 mod 256 ^ k) * 256 + unat w mod 256"
    unfolding split Suc.IH drop by (simp add: unsigned_ucast_eq take_bit_eq_mod)
  also have "\<dots> = unat w mod 256 ^ Suc k"
    by (simp add: mod_mult2_eq)
  finally show ?case .
qed

lemma be_nat_fixed_bytes:
  fixes w :: "'a::len word"
  assumes "LENGTH('a) = 8 * k"
  shows "word_of_nat (be_nat (fixed_bytes k w)) = w"
proof -
  have "(256 :: nat) ^ k = 2 ^ LENGTH('a)" using assms power_mult [of "2 :: nat" 8 k] by simp
  then show ?thesis using unsigned_less [of w, where 'a = nat] by (simp add: be_nat_fixed_bytes_mod)
qed

end
