(* ===== verification/Store_Properties.thy ===== *)
theory Store_Properties
  imports Signer_Properties Wire Store_Recovery
begin

text \<open>
  Properties of what the signer keeps on disk: wallets of other clients, and proxy keys, which survive a
  restart.
\<close>

section \<open>Prysm wallets\<close>

text \<open>
  A wallet as Prysm writes it, after EIP-2335: the password without control characters gives the key with PBKDF2,
  the first half of which encrypts the JSON of the keys with AES-CTR; the file names the parameters in hex.
\<close>

definition ascii :: "string \<Rightarrow> bool" where
  "ascii = list_all (\<lambda>ch. (of_char ch :: nat) < 128)"

definition eip2335_password :: "string \<Rightarrow> bytes" where
  "eip2335_password password =
     map (\<lambda>ch. word_of_nat (of_char ch)) (filter (\<lambda>ch. 32 \<le> (of_char ch :: nat) \<and> of_char ch \<noteq> (127 :: nat)) password)"

definition prysm_encrypt :: "keylib \<Rightarrow> string \<Rightarrow> bytes \<Rightarrow> u32 \<Rightarrow> bytes \<Rightarrow> bytes \<Rightarrow> (string, bytes) result" where
  "prysm_encrypt K password salt c iv wallet =
     and_then (kl_pbkdf2 K (eip2335_password password) salt c) (\<lambda>key. kl_ctr_apply K (take 16 key) iv wallet)"

definition prysm_json :: "(bytes \<Rightarrow> string) \<Rightarrow> bytes \<Rightarrow> bytes \<Rightarrow> u32 \<Rightarrow> bytes \<Rightarrow> bytes \<Rightarrow> string \<Rightarrow> json" where
  "prysm_json hex message salt c iv checksum uuid =
     JObject
       [(''crypto'', JObject
          [(''kdf'', JObject
             [(''function'', JString ''pbkdf2''),
              (''params'', JObject
                 [(''dklen'', JInt 32), (''c'', JInt (uint c)), (''prf'', JString ''hmac-sha256''),
                  (''salt'', JString (hex salt))]),
              (''message'', JString [])]),
           (''checksum'', JObject
             [(''function'', JString ''sha256''), (''params'', JObject []), (''message'', JString (hex checksum))]),
           (''cipher'', JObject
             [(''function'', JString ''aes-128-ctr''), (''params'', JObject [(''iv'', JString (hex iv))]),
              (''message'', JString (hex message))])]),
        (''uuid'', JString uuid), (''version'', JInt 4), (''name'', JString ''keystore'')]"

text \<open>
  What is relied on of the libraries: hex and base64 texts decode to their bytes, ASCII text is its own
  normal form, PBKDF2 fills the 32 bytes it is asked for, and AES-128-CTR takes 16 bytes each of key and
  nonce and undoes itself.
\<close>

definition prysm_codec :: "keylib \<Rightarrow> (bytes \<Rightarrow> string) \<Rightarrow> (bytes \<Rightarrow> string) \<Rightarrow> bool" where
  "prysm_codec K hex base64 \<longleftrightarrow>
     (\<forall>b. kl_json_bytes K (JString (hex b)) = Some b) \<and> (\<forall>b. kl_base64_decode K (base64 b) = Some b) \<and>
     (\<forall>s. ascii s \<longrightarrow> kl_nfkd_bytes K s = map (\<lambda>ch. word_of_nat (of_char ch)) s) \<and>
     (\<forall>p s c key. kl_pbkdf2 K p s c = Ok key \<longrightarrow> length key = 32) \<and>
     (\<forall>key iv. length key = 16 \<longrightarrow> length iv = 16 \<longrightarrow> kl_ctr_accepts K key iv) \<and>
     (\<forall>key iv x y. kl_ctr_apply K key iv x = Ok y \<longrightarrow> kl_ctr_apply K key iv y = Ok x)"

lemma prysm_codecD:
  assumes "prysm_codec K hex base64"
  shows "kl_json_bytes K (JString (hex b)) = Some b" and "kl_base64_decode K (base64 b) = Some b"
    and "ascii s \<Longrightarrow> kl_nfkd_bytes K s = map (\<lambda>ch. word_of_nat (of_char ch)) s"
    and "kl_pbkdf2 K p salt c = Ok key \<Longrightarrow> length key = 32"
    and "length key' = 16 \<Longrightarrow> length iv = 16 \<Longrightarrow> kl_ctr_accepts K key' iv"
    and "kl_ctr_apply K key' iv x = Ok y \<Longrightarrow> kl_ctr_apply K key' iv y = Ok x"
  using assms unfolding prysm_codec_def by blast+

lemma normalize_ascii:
  assumes "prysm_codec K hex base64" and "ascii password"
  shows "normalize_password K password = eip2335_password password"
proof -
  have char: "0x1F < (word_of_nat (of_char ch) :: u8) \<and> (word_of_nat (of_char ch) :: u8) < 0x7F \<or>
      0x9F < (word_of_nat (of_char ch) :: u8) \<longleftrightarrow> 32 \<le> (of_char ch :: nat) \<and> of_char ch \<noteq> (127 :: nat)"
    if "ch \<in> set password" for ch
  proof -
    have "(of_char ch :: nat) < 128" using assms(2) that by (simp add: ascii_def list_all_iff)
    then show ?thesis by (auto simp: word_less_nat_alt unat_of_nat)
  qed
  have "kl_nfkd_bytes K password = map (\<lambda>ch. word_of_nat (of_char ch)) password"
    by (rule prysm_codecD(3) [OF assms])
  then show ?thesis
    using char unfolding normalize_password_def eip2335_password_def by (simp add: filter_map comp_def cong: filter_cong)
qed

lemma deserialize_prysm_json:
  assumes "prysm_codec K hex base64"
  shows "deserialize_prysm_keystore K (prysm_json hex message salt c iv checksum uuid) =
    Ok \<lparr>pk_message = message, pk_salt = salt, pk_c = c, pk_iv = iv\<rparr>"
proof -
  have "0 \<le> uint c" "uint c < 2 ^ 32" using uint_lt2p [of c] by simp_all
  then show ?thesis
    by (simp add: deserialize_prysm_keystore_def prysm_json_def json_field_def prysm_codecD(1) [OF assms] typed_def)
qed

text \<open>
  C32. Loading a Prysm wallet undoes its writing: if the accounts file is the keystore document that EIP-2335
  prescribes for a wallet with the given secrets, encrypted with an ASCII password that the password file holds
  (with or without control characters such as a final line break), then loading gives the signers of exactly
  those secrets, in their order, and fails if one of the secrets is not a valid key.
\<close>

theorem prysm_wallet_loads:
  assumes "prysm_codec K hex base64" and "ascii password" and "length iv = 16"
    and "kl_json_slice K wallet = Ok (wallet_json base64 secrets pubkeys)"
    and "prysm_encrypt K password salt c iv wallet = Ok message"
    and "read_file L fs accounts = Ok text" and "kl_json K text = Ok (prysm_json hex message salt c iv checksum uuid)"
    and "read_file L fs password_file = Ok (password @ controls)"
    and "list_all (\<lambda>ch. (of_char ch :: nat) < 32) controls"
  shows "(\<forall>signers. map (new_signer C) secrets = map Ok signers \<longrightarrow>
      load_from_prysm_format C L K fs accounts password_file = Ok signers) \<and>
    (\<forall>secret\<in>set secrets. \<not> is_ok (new_signer C secret) \<longrightarrow>
      \<not> is_ok (load_from_prysm_format C L K fs accounts password_file))"
proof -
  have "ascii (password @ controls)" using assms(2,9) by (auto simp: ascii_def list_all_iff)
  then have "normalize_password K (password @ controls) = eip2335_password (password @ controls)"
    by (rule normalize_ascii [OF assms(1)])
  also have "filter (\<lambda>ch. 32 \<le> (of_char ch :: nat) \<and> of_char ch \<noteq> (127 :: nat)) controls = []"
    using assms(9) by (auto simp: list_all_iff filter_empty_conv)
  then have "eip2335_password (password @ controls) = eip2335_password password" by (simp add: eip2335_password_def)
  finally have password: "normalize_password K (password @ controls) = eip2335_password password" .
  from assms(5) obtain key where key: "kl_pbkdf2 K (eip2335_password password) salt c = Ok key"
    "kl_ctr_apply K (take 16 key) iv wallet = Ok message" by (auto simp: prysm_encrypt_def and_then_Ok_iff)
  have "kl_ctr_apply K (take 16 key) iv message = Ok wallet" by (rule prysm_codecD(6) [OF assms(1) key(2)])
  moreover have "kl_ctr_accepts K (take 16 key) iv"
    by (rule prysm_codecD(5) [OF assms(1) _ assms(3)]) (simp add: prysm_codecD(4) [OF assms(1) key(1)])
  ultimately have "decrypt_prysm_keystore K (eip2335_password password)
      \<lparr>pk_message = message, pk_salt = salt, pk_c = c, pk_iv = iv\<rparr> = Ok wallet"
    using key(1) by (simp add: decrypt_prysm_keystore_def)
  moreover have "deserialize_prysm_decrypted K (wallet_json base64 secrets pubkeys) =
      Ok \<lparr>dk_private_keys = secrets, dk_public_keys = pubkeys\<rparr>"
    using base64_list_decode_encoded [of K base64, OF prysm_codecD(2) [OF assms(1)]]
    by (simp add: deserialize_prysm_decrypted_def wallet_json_def json_field_def)
  ultimately have load: "load_from_prysm_format C L K fs accounts password_file =
      map_err (\<lambda>_. ''failed to load signers'') (collect_results (map (new_signer C) secrets))"
    using assms(4,6-8) deserialize_prysm_json [OF assms(1), of message salt c iv checksum uuid] password
    by (simp add: load_from_prysm_format_def)
  have "is_ok (new_signer C secret)" if "is_ok (collect_results (map (new_signer C) secrets))" "secret \<in> set secrets" for secret
  proof -
    from that(1) obtain signers where "map (new_signer C) secrets = map Ok signers"
      by (cases "collect_results (map (new_signer C) secrets)") (auto simp: collect_results_Ok_iff)
    with that(2) show ?thesis by (metis (no_types, lifting) imageE image_eqI is_ok_simps(2) list.set_map)
  qed
  then show ?thesis unfolding load by (cases "collect_results (map (new_signer C) secrets)") auto
qed

text \<open>
  Other passwords are mangled: the filter that EIP-2335 prescribes for characters is applied to the bytes of
  their encoding, so that a combining accent (0xCC 0x81), say, loses its second byte.
\<close>

lemma accented_password_mangled:
  "kl_nfkd_bytes K password = [0x65, 0xCC, 0x81] \<Longrightarrow> normalize_password K password = [0x65, 0xCC]"
  by (simp add: normalize_password_def)

text \<open>An example in which bytes are written as the characters with their codes.\<close>

definition demo_text :: "bytes \<Rightarrow> string" where
  "demo_text bs = map (\<lambda>b. char_of (unat b)) bs"

definition demo_untext :: "string \<Rightarrow> bytes" where
  "demo_untext s = map (\<lambda>c. word_of_nat (of_char c)) s"

lemma demo_untext_text: "demo_untext (demo_text bs) = bs"
  using unsigned_less [of "_ :: u8", where 'a = nat] by (simp add: demo_untext_def demo_text_def comp_def)

definition demo_wallet_keys :: keylib where
  "demo_wallet_keys = demo_keys\<lparr>
     kl_json := (\<lambda>_. Ok (prysm_json demo_text [254, 253] [5] 2 (replicate 16 7) [] ''u'')),
     kl_json_slice := (\<lambda>_. Ok (wallet_json demo_text [[9]] [[1]])),
     kl_json_bytes := (\<lambda>v. case v of JString s \<Rightarrow> Some (demo_untext s) | _ \<Rightarrow> None),
     kl_base64_decode := (\<lambda>s. Some (demo_untext s)), kl_nfkd_bytes := demo_untext,
     kl_pbkdf2 := (\<lambda>p s c. Ok (take 32 (p @ s @ replicate 32 (ucast c)))), kl_ctr_accepts := (\<lambda>_ _. True),
     kl_ctr_apply := (\<lambda>_ _ x. Ok (map (\<lambda>b. 255 - b) x))\<rparr>"

lemma demo_wallet_codec: "prysm_codec demo_wallet_keys demo_text demo_text"
  by (auto simp: prysm_codec_def demo_wallet_keys_def comp_def demo_untext_text) (simp add: demo_untext_def)

theorem prysm_wallet_loads_witness:
  "load_from_prysm_format demo_crypto demo_store demo_wallet_keys
     \<lparr>fs_files = [(Path True [''a''], ''json''), (Path True [''p''], ''pw'' @ [CHR 0x0A])], fs_dirs = []\<rparr>
     (Path True [''a'']) (Path True [''p'']) = Ok [BlsLocal 9]"
proof -
  let ?fs = "\<lparr>fs_files = [(Path True [''a''], ''json''), (Path True [''p''], ''pw'' @ [CHR 0x0A])], fs_dirs = []\<rparr>"
  have signers: "map (new_signer demo_crypto) [[9]] = map Ok [BlsLocal 9]"
    by (simp add: new_signer_def bls_signer_new_from_bytes_def demo_crypto_def be_nat_def)
  have "prysm_encrypt demo_wallet_keys ''pw'' [5] 2 (replicate 16 7) [1, 2] = Ok [254, 253]"
    by (simp add: prysm_encrypt_def demo_wallet_keys_def)
  moreover have "read_file demo_store ?fs (Path True [''a'']) = Ok ''json''"
    "read_file demo_store ?fs (Path True [''p'']) = Ok (''pw'' @ [CHR 0x0A])"
    by (simp_all add: read_file_def demo_store_def)
  moreover have "kl_json_slice demo_wallet_keys [1, 2] = Ok (wallet_json demo_text [[9]] [[1]])"
    "kl_json demo_wallet_keys ''json'' = Ok (prysm_json demo_text [254, 253] [5] 2 (replicate 16 7) [] ''u'')"
    by (simp_all add: demo_wallet_keys_def)
  ultimately have "\<forall>signers. map (new_signer demo_crypto) [[9]] = map Ok signers \<longrightarrow>
      load_from_prysm_format demo_crypto demo_store demo_wallet_keys ?fs (Path True [''a'']) (Path True [''p'']) = Ok signers"
    by (intro prysm_wallet_loads [where controls = "[CHR 0x0A]", OF demo_wallet_codec, THEN conjunct1]) (simp_all add: ascii_def)
  with signers show ?thesis by blast
qed

section \<open>Restarts\<close>

text \<open>
  C15. A restart keeps the proxy keys: after any sequence of starts, registrations of consensus keys and
  generations of proxies on a plain file store, successful or failed before the key file was opened, starting a
  manager on the same directory succeeds (a generation whose write fails half-way is excluded: see
  \<open>cut_write_blocks_restart\<close>), and it answers like the one in memory: which proxies a module has, their delegations, and every
  signature with them, for both kinds of keys.
\<close>

theorem restart_keeps_proxies:
  assumes "store_codec L" and "proxy_run C L dir chain m fs"
  shows "\<exists>m'. local_manager_new C L fs chain (Some (StoreFile dir)) = Ok m' \<and>
    (\<forall>k mid. has_proxy_bls_for_module m' k mid = has_proxy_bls_for_module m k mid) \<and>
    (\<forall>a mid. has_proxy_ecdsa_for_module m' a mid = has_proxy_ecdsa_for_module m a mid) \<and>
    (\<forall>k. get_delegation_bls m' k = get_delegation_bls m k) \<and>
    (\<forall>a. get_delegation_ecdsa m' a = get_delegation_ecdsa m a) \<and>
    (\<forall>k root sid. sign_proxy_bls C m' k root sid = sign_proxy_bls C m k root sid) \<and>
    (\<forall>a root sid. sign_proxy_ecdsa C m' a root sid = sign_proxy_ecdsa C m a root sid)"
proof -
  from proxy_run_agrees [OF assms(2,1)] new_agrees [OF _ _ assms(1), of C dir fs m chain]
  obtain m' where m': "local_manager_new C L fs chain (Some (StoreFile dir)) = Ok m'"
    and same: "lookup_proxy_bls m' = lookup_proxy_bls m" "lookup_proxy_ecdsa m' = lookup_proxy_ecdsa m"
      "lm_chain m' = lm_chain m"
    and keys: "(\<lambda>mid. set (listed_bls m' mid)) = (\<lambda>mid. set (listed_bls m mid))"
      "(\<lambda>mid. set (listed_ecdsa m' mid)) = (\<lambda>mid. set (listed_ecdsa m mid))" by auto
  have "has_proxy_bls_for_module m' k mid = has_proxy_bls_for_module m k mid"
    "has_proxy_ecdsa_for_module m' a mid = has_proxy_ecdsa_for_module m a mid" for k a mid
    using fun_cong [OF keys(1), of mid] fun_cong [OF keys(2), of mid] by (simp_all only: has_proxy_listed)
  with m' same show ?thesis
    by (intro exI [of _ m']) (simp add: get_delegation_bls_def get_delegation_ecdsa_def sign_proxy_bls_def
        sign_proxy_ecdsa_def flip: lookup_proxy_bls_def lookup_proxy_ecdsa_def split: option.split)
qed

text \<open>A codec for the example: the bytes of the delegation, then those of the secret.\<close>

definition demo_encode :: "nat \<Rightarrow> bytes \<Rightarrow> 'a::len word signed_proxy_delegation \<Rightarrow> string" where
  "demo_encode n secret d = demo_text (fixed_bytes 48 (pd_delegator (sd_message d)) @
     fixed_bytes n (pd_proxy (sd_message d)) @ fixed_bytes 96 (sd_signature d) @ secret)"

definition demo_decode :: "nat \<Rightarrow> string \<Rightarrow> (string, bytes \<times> 'a::len word signed_proxy_delegation) result" where
  "demo_decode n s =
     (let bs = demo_untext s; num = (\<lambda>k i. be_nat (take k (drop i bs))) in
      Ok (drop (144 + n) bs, \<lparr>sd_message = \<lparr>pd_delegator = word_of_nat (num 48 0), pd_proxy = word_of_nat (num n 48)\<rparr>,
        sd_signature = word_of_nat (num 96 (48 + n))\<rparr>))"

definition demo_file_store :: storelib where
  "demo_file_store = demo_store\<lparr>sl_kd_bls_to_json := demo_encode 48, sl_kd_bls_from_json := demo_decode 48,
     sl_kd_ecdsa_to_json := demo_encode 20, sl_kd_ecdsa_from_json := demo_decode 20,
     sl_address_to_string := display_fixed_bytes 20\<rparr>"

lemma demo_decode_encode:
  fixes d :: "'a::len word signed_proxy_delegation"
  assumes "LENGTH('a) = 8 * n"
  shows "demo_decode n (demo_encode n secret d) = Ok (secret, d)"
proof -
  have n: "word_of_nat (be_nat (fixed_bytes n (w :: 'a word))) = w" for w
    by (rule be_nat_fixed_bytes [OF assms])
  have k: "word_of_nat (be_nat (fixed_bytes 48 (w :: bls_public_key))) = w"
    "word_of_nat (be_nat (fixed_bytes 96 (v :: bls_signature))) = v" for w v
    by (rule be_nat_fixed_bytes; simp)+
  have len: "length (fixed_bytes j w) = j" for j and w :: "'b::len word" by (simp add: fixed_bytes_def)
  show ?thesis by (simp add: demo_decode_def demo_encode_def demo_untext_text len n k)
qed

lemma demo_file_store_codec: "store_codec demo_file_store"
proof -
  have "inj (display_fixed_bytes 20 :: address \<Rightarrow> string)" by (rule inj_display_fixed_bytes) simp
  then show ?thesis
    by (simp add: store_codec_def demo_file_store_def demo_decode_encode plain_display demo_store_def)
qed

lemma demo_proxy_run:
  "\<exists>m fs. proxy_run demo_crypto demo_file_store ''/keys'' Mainnet m fs \<and> has_proxy_bls_for_module m 6 ''m''"
proof -
  let ?L = demo_file_store and ?fs = "\<lparr>fs_files = [], fs_dirs = [path_of ''/keys'']\<rparr>"
  define m0 where "m0 = \<lparr>lm_chain = Mainnet, lm_proxy_store = Some (StoreFile ''/keys''), lm_consensus_signers = [],
    lm_proxy_signers = proxy_signers_default, lm_proxy_pubkeys_bls = [], lm_proxy_addresses_ecdsa = []\<rparr>"
  have entries: "dir_entries ?fs (path_of ''/keys'') = []" by code_simp
  have new: "local_manager_new demo_crypto ?L ?fs Mainnet (Some (StoreFile ''/keys'')) = Ok m0"
    by (simp add: local_manager_new_def load_file_store_def is_dir_def entries m0_def)
  have run: "proxy_run demo_crypto ?L ''/keys'' Mainnet m0 ?fs"
    by (rule proxy_run.start [OF _ _ new]) (simp_all add: is_dir_def is_file_def)
  let ?m = "add_consensus_signer demo_crypto (BlsLocal 9) m0"
  let ?w = "\<lambda>_. WriteDone"
  obtain m' fs' r where create: "create_proxy_bls demo_crypto (?L\<lparr>sl_write := ?w\<rparr>) 6 ''p'' 1 ''m'' 9 ?m ?fs = (m', fs', r)"
    by (cases "create_proxy_bls demo_crypto (?L\<lparr>sl_write := ?w\<rparr>) 6 ''p'' 1 ''m'' 9 ?m ?fs")
  have "has_proxy_bls_for_module m' 6 ''m''"
    using create by (auto simp: create_proxy_bls_def add_proxy_signer_bls_def sign_consensus_def add_consensus_signer_def
        m0_def demo_crypto_def Let_def store_proxy_bls_def write_file_def demo_file_store_def demo_store_def
        insert_proxy_bls_def has_proxy_bls_for_module_def push_entry_def)
  moreover have "proxy_run demo_crypto ?L ''/keys'' Mainnet m' fs'"
  proof (rule proxy_run.bls_proxy [OF proxy_run.consensus [OF run] _ _ _ _ create])
    show "never_cut ?w" by (simp add: never_cut_def)
    show "plain_name ''m''" by (simp add: plain_name_def)
    show "bls_signer_new_from_bytes demo_crypto (secret_bytes 6) = Ok (BlsLocal 6)"
      by (simp add: bls_signer_new_from_bytes_def demo_crypto_def secret_bytes_def be_nat_fixed_bytes)
    show "lookup_proxy_bls ?m (bls_signer_pubkey demo_crypto (BlsLocal 6)) = None"
      by (simp add: m0_def lookup_proxy_bls_def proxy_signers_default_def add_consensus_signer_def)
  qed
  ultimately show ?thesis by blast
qed

theorem restart_keeps_proxies_witness:
  "\<exists>m fs m'. proxy_run demo_crypto demo_file_store ''/keys'' Mainnet m fs \<and>
     local_manager_new demo_crypto demo_file_store fs Mainnet (Some (StoreFile ''/keys'')) = Ok m' \<and>
     has_proxy_bls_for_module m' 6 ''m'' \<and> sign_proxy_bls demo_crypto m' 6 3 None = sign_proxy_bls demo_crypto m 6 3 None"
proof -
  from demo_proxy_run obtain m fs where run: "proxy_run demo_crypto demo_file_store ''/keys'' Mainnet m fs"
    and "has_proxy_bls_for_module m 6 ''m''" by blast
  with restart_keeps_proxies [OF demo_file_store_codec run] show ?thesis by blast
qed

end
