(* ===== verification/Da_Commit.thy ===== *)
theory Da_Commit
  imports Launch Wire
begin

text \<open>
  The example commit module \<open>examples/da_commit/src/main.rs\<close>: it asks the signer for keys, generates proxy
  keys and then, in a loop, has a datagram signed with each of its keys and checks the signatures.

  The module keeps a connection to a signer: its client, the number of calls made so far, and the world
  behind the network, of any type. The environment gives the time of every call, how the world answers a
  request at that call, and the decoders of the replies. What the contract of a signer gives the module is
  the locale \<open>commitment_signer\<close>.
\<close>

section \<open>State and environment\<close>

definition DA_COMMIT_SIGNING_ID :: b256 where
  "DA_COMMIT_SIGNING_ID = 0x6a33a23ef26a4836979edff86c493a69b26ccf0b4a16491a815a13787657431b"

record da_extra_config =
  da_sleep_secs :: u64
  da_use_ecdsa_keys :: bool

definition default_ecdsa :: bool where
  "default_ecdsa = True"

record 'w connection =
  cn_client :: signer_client
  cn_calls :: nat
  cn_world :: 'w

type_synonym client_response = "(reqwest_error, u16 \<times> (reqwest_error, bytes) result) result"

record 'w da_env =
  da_web :: weblib
  da_clock :: "nat \<Rightarrow> jwtlib"
  da_time :: "nat \<Rightarrow> nat"
  da_net :: "nat \<Rightarrow> 'w \<Rightarrow> client_request \<Rightarrow> 'w \<times> client_response"
  da_decode_keys :: "bytes \<Rightarrow> (string, consensus_proxy_map list) result"
  da_decode_bls_delegation :: "bytes \<Rightarrow> (string, signed_proxy_delegation_bls) result"
  da_decode_ecdsa_delegation :: "bytes \<Rightarrow> (string, signed_proxy_delegation_ecdsa) result"
  da_decode_bls_signature :: "bytes \<Rightarrow> (string, bls_signature) result"
  da_decode_ecdsa_signature :: "bytes \<Rightarrow> (string, ecdsa_signature) result"
  da_datagram_root :: "u64 \<Rightarrow> b256"

section \<open>Calls of the signer\<close>

text \<open>The request that a call of the client sends, if it gets so far.\<close>

definition sent_request ::
  "weblib \<Rightarrow> jwtlib \<Rightarrow> nat \<Rightarrow> signer_client \<Rightarrow> http_method \<Rightarrow> string \<Rightarrow> client_body \<Rightarrow> client_request option" where
  "sent_request W J now client meth path body =
     (case refresh_jwt W J now client of
        Inl _ \<Rightarrow> None
      | Inr c \<Rightarrow>
          (case url_join W (sc_url c) path of
             Inl _ \<Rightarrow> None
           | Inr url \<Rightarrow> Some \<lparr>cq_method = meth, cq_url = url, cq_headers = sc_headers c, cq_body = body\<rparr>))"

text \<open>A call over a connection: the client is replaced, and the world is the one after the request.\<close>

definition over ::
  "'w da_env \<Rightarrow> http_method \<Rightarrow> string \<Rightarrow> client_body
     \<Rightarrow> (weblib \<Rightarrow> jwtlib \<Rightarrow> nat \<Rightarrow> client_http \<Rightarrow> signer_client \<Rightarrow> signer_client \<times> (signer_client_error, 'a) result)
     \<Rightarrow> 'w connection \<Rightarrow> 'w connection \<times> (signer_client_error, 'a) result" where
  "over V meth path body call cn =
     (let i = cn_calls cn; now = da_time V i; J = da_clock V now; answer = da_net V i (cn_world cn);
          (client, r) = call (da_web V) J now (\<lambda>rq. snd (answer rq)) (cn_client cn)
      in
      (\<lparr>cn_client = client, cn_calls = Suc i,
        cn_world = (case sent_request (da_web V) J now (cn_client cn) meth path body of
                      Some rq \<Rightarrow> fst (answer rq) | None \<Rightarrow> cn_world cn)\<rparr>, r))"

definition da_get_pubkeys ::
  "'w da_env \<Rightarrow> 'w connection \<Rightarrow> 'w connection \<times> (signer_client_error, consensus_proxy_map list) result" where
  "da_get_pubkeys V =
     over V GET GET_PUBKEYS_PATH NoJson (\<lambda>W J now http. client_get_pubkeys W J now http (da_decode_keys V))"

definition da_generate_bls ::
  "'w da_env \<Rightarrow> bls_public_key \<Rightarrow> 'w connection
     \<Rightarrow> 'w connection \<times> (signer_client_error, signed_proxy_delegation_bls) result" where
  "da_generate_bls V pubkey =
     over V POST GENERATE_PROXY_KEY_PATH (JsonGenerateProxy (generate_proxy_request_new pubkey Bls))
       (\<lambda>W J now http. client_generate_proxy_key_bls W J now http (da_decode_bls_delegation V) pubkey)"

definition da_generate_ecdsa ::
  "'w da_env \<Rightarrow> bls_public_key \<Rightarrow> 'w connection
     \<Rightarrow> 'w connection \<times> (signer_client_error, signed_proxy_delegation_ecdsa) result" where
  "da_generate_ecdsa V pubkey =
     over V POST GENERATE_PROXY_KEY_PATH (JsonGenerateProxy (generate_proxy_request_new pubkey Ecdsa))
       (\<lambda>W J now http. client_generate_proxy_key_ecdsa W J now http (da_decode_ecdsa_delegation V) pubkey)"

definition da_sign_consensus ::
  "'w da_env \<Rightarrow> sign_consensus_request \<Rightarrow> 'w connection
     \<Rightarrow> 'w connection \<times> (signer_client_error, bls_signature) result" where
  "da_sign_consensus V request =
     over V POST REQUEST_SIGNATURE_PATH (JsonSignRequest (SignConsensus request))
       (\<lambda>W J now http. client_request_consensus_signature W J now http (da_decode_bls_signature V) request)"

definition da_sign_proxy_bls ::
  "'w da_env \<Rightarrow> bls_public_key sign_proxy_request \<Rightarrow> 'w connection
     \<Rightarrow> 'w connection \<times> (signer_client_error, bls_signature) result" where
  "da_sign_proxy_bls V request =
     over V POST REQUEST_SIGNATURE_PATH (JsonSignRequest (SignProxyBls request))
       (\<lambda>W J now http. client_request_proxy_signature_bls W J now http (da_decode_bls_signature V) request)"

definition da_sign_proxy_ecdsa ::
  "'w da_env \<Rightarrow> address sign_proxy_request \<Rightarrow> 'w connection
     \<Rightarrow> 'w connection \<times> (signer_client_error, ecdsa_signature) result" where
  "da_sign_proxy_ecdsa V request =
     over V POST REQUEST_SIGNATURE_PATH (JsonSignRequest (SignProxyEcdsa request))
       (\<lambda>W J now http. client_request_proxy_signature_ecdsa W J now http (da_decode_ecdsa_signature V) request)"

section \<open>The service\<close>

text \<open>
  The module's own state besides the connection: the counter \<open>SIG_RECEIVED_COUNTER\<close> and the outcomes of
  the checks that it logs, in order.
\<close>

record 'w da_state =
  ds_connection :: "'w connection"
  ds_sig_received :: u64
  ds_verified :: "bool list"

datatype da_error = DaClientError signer_client_error | NoKeyAvailable

text \<open>Steps of the service, and the \<open>?\<close> after a call.\<close>

definition da_bind ::
  "('s \<Rightarrow> 's \<times> ('e, 'a) result) \<Rightarrow> ('a \<Rightarrow> 's \<Rightarrow> 's \<times> ('e, 'b) result) \<Rightarrow> 's \<Rightarrow> 's \<times> ('e, 'b) result" where
  "da_bind m f s = (case m s of (s', Inl e) \<Rightarrow> (s', Err e) | (s', Inr a) \<Rightarrow> f a s')"

definition da_return :: "'a \<Rightarrow> 's \<Rightarrow> 's \<times> ('e, 'a) result" where
  "da_return a s = (s, Ok a)"

definition calls ::
  "('w connection \<Rightarrow> 'w connection \<times> (signer_client_error, 'a) result) \<Rightarrow> 'w da_state
     \<Rightarrow> 'w da_state \<times> (da_error, 'a) result" where
  "calls call s =
     (case call (ds_connection s) of (cn, r) \<Rightarrow> (s\<lparr>ds_connection := cn\<rparr>, map_err DaClientError r))"

definition log_check :: "('e, unit) result \<Rightarrow> 'w da_state \<Rightarrow> 'w da_state \<times> (da_error, unit) result" where
  "log_check res s = (s\<lparr>ds_verified := ds_verified s @ [is_ok res]\<rparr>, Ok ())"

definition count_signature :: "'w da_state \<Rightarrow> 'w da_state \<times> (da_error, unit) result" where
  "count_signature s = (s\<lparr>ds_sig_received := ds_sig_received s + 1\<rparr>, Ok ())"

definition send_request ::
  "crypto \<Rightarrow> 'w da_env \<Rightarrow> chain \<Rightarrow> u64 \<Rightarrow> bls_public_key \<Rightarrow> bls_public_key \<Rightarrow> address option
     \<Rightarrow> 'w da_state \<Rightarrow> 'w da_state \<times> (da_error, unit) result" where
  "send_request C V chain data pubkey proxy_bls proxy_ecdsa =
     (let root = da_datagram_root V; datagram_root = root data in
      da_bind (calls (da_sign_consensus V (consensus_with_msg root (sign_consensus_request_builder pubkey) data)))
        (\<lambda>signature.
      da_bind (log_check (verify_proposer_commitment_signature_bls C chain pubkey datagram_root signature
                            DA_COMMIT_SIGNING_ID)) (\<lambda>_.
      da_bind (calls (da_sign_proxy_bls V (proxy_with_msg root (sign_proxy_request_builder proxy_bls) data)))
        (\<lambda>proxy_signature_bls.
      da_bind (log_check (verify_proposer_commitment_signature_bls C chain proxy_bls datagram_root
                            proxy_signature_bls DA_COMMIT_SIGNING_ID)) (\<lambda>_.
      da_bind
        (case proxy_ecdsa of
           None \<Rightarrow> da_return ()
         | Some proxy_ecdsa \<Rightarrow>
             da_bind (calls (da_sign_proxy_ecdsa V (proxy_with_msg root (sign_proxy_request_builder proxy_ecdsa) data)))
               (\<lambda>proxy_signature_ecdsa.
                  log_check (verify_proposer_commitment_signature_ecdsa C chain proxy_ecdsa datagram_root
                               proxy_signature_ecdsa DA_COMMIT_SIGNING_ID))) (\<lambda>_.
        count_signature))))))"

text \<open>The part of \<open>run\<close> before its loop: the keys the module works with.\<close>

definition da_setup ::
  "'w da_env \<Rightarrow> bool \<Rightarrow> 'w da_state
     \<Rightarrow> 'w da_state \<times> (da_error, bls_public_key \<times> bls_public_key \<times> address option) result" where
  "da_setup V use_ecdsa_keys =
     da_bind (calls (da_get_pubkeys V)) (\<lambda>pubkeys.
       case pubkeys of
         [] \<Rightarrow> (\<lambda>s. (s, Err NoKeyAvailable))
       | first # _ \<Rightarrow>
           (let pubkey = cpm_consensus first in
            da_bind (calls (da_generate_bls V pubkey)) (\<lambda>proxy_delegation_bls.
            da_bind
              (if use_ecdsa_keys
               then da_bind (calls (da_generate_ecdsa V pubkey)) (\<lambda>proxy_delegation_ecdsa.
                      da_return (Some (pd_proxy (sd_message proxy_delegation_ecdsa))))
               else da_return None) (\<lambda>proxy_ecdsa.
              da_return (pubkey, pd_proxy (sd_message proxy_delegation_bls), proxy_ecdsa)))))"

text \<open>
  The loop ends only with an error: \<open>n\<close> bounds its rounds, and a result \<open>Ok\<close> means that the service still
  runs after \<open>n\<close> rounds.
\<close>

fun da_rounds ::
  "crypto \<Rightarrow> 'w da_env \<Rightarrow> chain \<Rightarrow> bls_public_key \<times> bls_public_key \<times> address option \<Rightarrow> nat \<Rightarrow> u64
     \<Rightarrow> 'w da_state \<Rightarrow> 'w da_state \<times> (da_error, unit) result" where
  "da_rounds C V chain keys 0 data = da_return ()"
| "da_rounds C V chain keys (Suc n) data =
     (case keys of (pubkey, proxy_bls, proxy_ecdsa) \<Rightarrow>
        da_bind (send_request C V chain data pubkey proxy_bls proxy_ecdsa) (\<lambda>_.
          da_rounds C V chain keys n (data + 1)))"

definition da_run ::
  "crypto \<Rightarrow> 'w da_env \<Rightarrow> chain \<Rightarrow> da_extra_config \<Rightarrow> nat \<Rightarrow> 'w da_state
     \<Rightarrow> 'w da_state \<times> (da_error, unit) result" where
  "da_run C V chain extra n =
     da_bind (da_setup V (da_use_ecdsa_keys extra)) (\<lambda>keys. da_rounds C V chain keys n 0)"

text \<open>
  \<open>main\<close>: the lines that the process prints for an error and its result. \<open>run\<close> is how the service ends.
\<close>

definition da_commit_main ::
  "weblib \<Rightarrow> jwtlib \<Rightarrow> nat \<Rightarrow> config_env \<Rightarrow> (string \<Rightarrow> bool) \<Rightarrow> (string \<Rightarrow> bool)
     \<Rightarrow> (string \<Rightarrow> (string, da_extra_config stub_config) result) \<Rightarrow> (string, cb_config) result
     \<Rightarrow> ('r \<Rightarrow> (string, 'r) result) \<Rightarrow> 'r \<Rightarrow> (da_extra_config start_commit_module_config \<Rightarrow> (da_error, unit) result)
     \<Rightarrow> (string list \<times> (string, unit) result) outcome" where
  "da_commit_main W J now E parses dir_ok toml loaded register registry run =
     (case register registry of
        Inl e \<Rightarrow> Returned ([], Err e)
      | Inr registry' \<Rightarrow>
          (case load_commit_module_config W J now E toml of
             Inl _ \<Rightarrow> Returned ([''Failed to load module config''], Ok ())
           | Inr config \<Rightarrow>
               (case logs_from_env_config E loaded of
                  Inl e \<Rightarrow> Returned ([], Err e)
                | Inr settings \<Rightarrow>
                    (case initialize_tracing_log parses dir_ok (cm_id config) settings of
                       Panicked \<Rightarrow> Panicked
                     | Returned _ \<Rightarrow>
                         Returned
                           (case load_and_run E (cm_chain config) registry' of
                              Inl e \<Rightarrow> ([], Err e)
                            | Inr _ \<Rightarrow>
                                (case run config of
                                   Inl _ \<Rightarrow> ([''Service failed''], Ok ())
                                 | Inr _ \<Rightarrow> ([], Ok ())))))))"

section \<open>The contract of a signer\<close>

text \<open>
  What the module relies on: over a connection that is \<open>ready\<close>, the signer lists its keys, makes proxies for
  a consensus key it has, and signs with every key it has, so that the signature verifies for the module's
  signing id; it does not lose keys, and the connection stays ready.
\<close>

locale commitment_signer =
  fixes C :: crypto and V :: "'w da_env" and chain :: chain
    and ready :: "'w connection \<Rightarrow> bool"
    and has_key :: "'w connection \<Rightarrow> bls_public_key \<Rightarrow> bool"
    and has_bls :: "'w connection \<Rightarrow> bls_public_key \<Rightarrow> bool"
    and has_ecdsa :: "'w connection \<Rightarrow> address \<Rightarrow> bool"
  assumes keys_listed: "ready cn \<Longrightarrow> has_key cn k \<Longrightarrow>
      \<exists>cn' first rest. da_get_pubkeys V cn = (cn', Ok (first # rest)) \<and> ready cn' \<and> has_key cn' (cpm_consensus first)"
    and bls_made: "ready cn \<Longrightarrow> has_key cn k \<Longrightarrow>
      \<exists>cn' d. da_generate_bls V k cn = (cn', Ok d) \<and> ready cn' \<and> has_key cn' k \<and> has_bls cn' (pd_proxy (sd_message d))"
    and ecdsa_made: "ready cn \<Longrightarrow> has_key cn k \<Longrightarrow> has_bls cn b \<Longrightarrow>
      \<exists>cn' d. da_generate_ecdsa V k cn = (cn', Ok d) \<and> ready cn' \<and> has_key cn' k \<and> has_bls cn' b \<and>
        has_ecdsa cn' (pd_proxy (sd_message d))"
    and consensus_signed: "ready cn \<Longrightarrow> has_key cn (scr_pubkey r) \<Longrightarrow>
      \<exists>cn' sig. da_sign_consensus V r cn = (cn', Ok sig) \<and> ready cn' \<and> has_key cn' = has_key cn \<and>
        has_bls cn' = has_bls cn \<and> has_ecdsa cn' = has_ecdsa cn \<and>
        verify_proposer_commitment_signature_bls C chain (scr_pubkey r) (scr_object_root r) sig DA_COMMIT_SIGNING_ID = Ok ()"
    and bls_signed: "ready cn \<Longrightarrow> has_bls cn (spr_proxy p) \<Longrightarrow>
      \<exists>cn' sig. da_sign_proxy_bls V p cn = (cn', Ok sig) \<and> ready cn' \<and> has_key cn' = has_key cn \<and>
        has_bls cn' = has_bls cn \<and> has_ecdsa cn' = has_ecdsa cn \<and>
        verify_proposer_commitment_signature_bls C chain (spr_proxy p) (spr_object_root p) sig DA_COMMIT_SIGNING_ID = Ok ()"
    and ecdsa_signed: "ready cn \<Longrightarrow> has_ecdsa cn (spr_proxy q) \<Longrightarrow>
      \<exists>cn' sig. da_sign_proxy_ecdsa V q cn = (cn', Ok sig) \<and> ready cn' \<and> has_key cn' = has_key cn \<and>
        has_bls cn' = has_bls cn \<and> has_ecdsa cn' = has_ecdsa cn \<and>
        verify_proposer_commitment_signature_ecdsa C chain (spr_proxy q) (spr_object_root q) sig DA_COMMIT_SIGNING_ID = Ok ()"
begin

definition works_with :: "'w connection \<Rightarrow> bls_public_key \<times> bls_public_key \<times> address option \<Rightarrow> bool" where
  "works_with cn keys \<longleftrightarrow>
     (case keys of (k, b, a) \<Rightarrow> ready cn \<and> has_key cn k \<and> has_bls cn b \<and> (\<forall>x. a = Some x \<longrightarrow> has_ecdsa cn x))"

text \<open>The signatures of one round: all that the module asks for, and each is checked with success.\<close>

definition checks_of :: "bls_public_key \<times> bls_public_key \<times> address option \<Rightarrow> nat" where
  "checks_of keys = (case keys of (_, _, a) \<Rightarrow> if a = None then 2 else 3)"

lemma setup_works:
  assumes "ready (ds_connection s)" and "has_key (ds_connection s) k"
  shows "\<exists>cn keys. da_setup V use_ecdsa s = (s\<lparr>ds_connection := cn\<rparr>, Ok keys) \<and> works_with cn keys \<and>
    checks_of keys = (if use_ecdsa then 3 else 2)"
proof -
  from keys_listed [OF assms] obtain cn1 first rest where 1: "da_get_pubkeys V (ds_connection s) = (cn1, Ok (first # rest))"
    "ready cn1" "has_key cn1 (cpm_consensus first)" by blast
  from bls_made [OF 1(2,3)] obtain cn2 d where 2: "da_generate_bls V (cpm_consensus first) cn1 = (cn2, Ok d)" "ready cn2"
    "has_key cn2 (cpm_consensus first)" "has_bls cn2 (pd_proxy (sd_message d))" by blast
  show ?thesis
  proof (cases use_ecdsa)
    case True
    from ecdsa_made [OF 2(2-4)] obtain cn3 e where "da_generate_ecdsa V (cpm_consensus first) cn2 = (cn3, Ok e)" "ready cn3"
      "has_key cn3 (cpm_consensus first)" "has_bls cn3 (pd_proxy (sd_message d))" "has_ecdsa cn3 (pd_proxy (sd_message e))" by blast
    with 1 2 True show ?thesis
      by (intro exI [of _ cn3]) (simp add: da_setup_def da_bind_def calls_def da_return_def works_with_def checks_of_def Let_def)
  next
    case False
    with 1 2 show ?thesis
      by (intro exI [of _ cn2]) (simp add: da_setup_def da_bind_def calls_def da_return_def works_with_def checks_of_def Let_def)
  qed
qed

lemma round_works:
  assumes "works_with (ds_connection s) keys" and "keys = (k, b, a)"
  shows "\<exists>cn. send_request C V chain data k b a s =
      (s\<lparr>ds_connection := cn, ds_sig_received := ds_sig_received s + 1,
         ds_verified := ds_verified s @ replicate (checks_of keys) True\<rparr>, Ok ()) \<and> works_with cn keys"
proof -
  let ?root = "da_datagram_root V"
  let ?r = "consensus_with_msg ?root (sign_consensus_request_builder k) data"
  let ?p = "proxy_with_msg ?root (sign_proxy_request_builder b) data"
  have fields: "scr_pubkey ?r = k" "scr_object_root ?r = ?root data" "spr_proxy ?p = b" "spr_object_root ?p = ?root data"
    by (simp_all add: consensus_with_msg_def consensus_with_root_def sign_consensus_request_builder_def
        sign_consensus_request_new_def proxy_with_msg_def proxy_with_root_def sign_proxy_request_builder_def
        sign_proxy_request_new_def)
  have start: "ready (ds_connection s)" "has_key (ds_connection s) k" "has_bls (ds_connection s) b"
    "\<And>x. a = Some x \<Longrightarrow> has_ecdsa (ds_connection s) x"
    using assms by (simp_all add: works_with_def)
  from consensus_signed [of "ds_connection s" ?r] start fields obtain c1 s1 where 1:
    "da_sign_consensus V ?r (ds_connection s) = (c1, Ok s1)" "ready c1" "has_key c1 = has_key (ds_connection s)"
    "has_bls c1 = has_bls (ds_connection s)" "has_ecdsa c1 = has_ecdsa (ds_connection s)"
    "verify_proposer_commitment_signature_bls C chain k (?root data) s1 DA_COMMIT_SIGNING_ID = Ok ()" by auto
  from bls_signed [of c1 ?p] 1 start fields obtain c2 s2 where 2:
    "da_sign_proxy_bls V ?p c1 = (c2, Ok s2)" "ready c2" "has_key c2 = has_key (ds_connection s)"
    "has_bls c2 = has_bls (ds_connection s)" "has_ecdsa c2 = has_ecdsa (ds_connection s)"
    "verify_proposer_commitment_signature_bls C chain b (?root data) s2 DA_COMMIT_SIGNING_ID = Ok ()" by auto
  show ?thesis
  proof (cases a)
    case None
    with 1 2 start assms(2) show ?thesis
      by (intro exI [of _ c2]) (simp add: send_request_def Let_def da_bind_def calls_def log_check_def da_return_def
          count_signature_def works_with_def checks_of_def numeral_2_eq_2)
  next
    case (Some x)
    let ?q = "proxy_with_msg ?root (sign_proxy_request_builder x) data"
    have q: "spr_proxy ?q = x" "spr_object_root ?q = ?root data"
      by (simp_all add: proxy_with_msg_def proxy_with_root_def sign_proxy_request_builder_def sign_proxy_request_new_def)
    from ecdsa_signed [of c2 ?q] 2 start(4) [OF Some] q obtain c3 s3 where 3:
      "da_sign_proxy_ecdsa V ?q c2 = (c3, Ok s3)" "ready c3" "has_key c3 = has_key (ds_connection s)"
      "has_bls c3 = has_bls (ds_connection s)" "has_ecdsa c3 = has_ecdsa (ds_connection s)"
      "verify_proposer_commitment_signature_ecdsa C chain x (?root data) s3 DA_COMMIT_SIGNING_ID = Ok ()" by auto
    with 1 2 start assms(2) Some show ?thesis
      by (intro exI [of _ c3]) (simp add: send_request_def Let_def da_bind_def calls_def log_check_def da_return_def
          count_signature_def works_with_def checks_of_def numeral_3_eq_3)
  qed
qed

lemma rounds_work:
  assumes "works_with (ds_connection s) keys"
  shows "\<exists>cn. da_rounds C V chain keys n data s =
      (s\<lparr>ds_connection := cn, ds_sig_received := ds_sig_received s + of_nat n,
         ds_verified := ds_verified s @ replicate (n * checks_of keys) True\<rparr>, Ok ()) \<and> works_with cn keys"
  using assms
proof (induction n arbitrary: data s)
  case 0
  then show ?case by (intro exI [of _ "ds_connection s"]) (simp add: da_return_def)
next
  case (Suc n)
  obtain k b a where keys: "keys = (k, b, a)" by (cases keys)
  from round_works [OF Suc.prems keys, of data] obtain cn where cn: "send_request C V chain data k b a s =
      (s\<lparr>ds_connection := cn, ds_sig_received := ds_sig_received s + 1,
         ds_verified := ds_verified s @ replicate (checks_of keys) True\<rparr>, Ok ())" "works_with cn keys" by blast
  from Suc.IH [of "s\<lparr>ds_connection := cn, ds_sig_received := ds_sig_received s + 1,
         ds_verified := ds_verified s @ replicate (checks_of keys) True\<rparr>" "data + 1"] cn
  obtain cn' where "da_rounds C V chain keys n (data + 1) (s\<lparr>ds_connection := cn, ds_sig_received := ds_sig_received s + 1,
         ds_verified := ds_verified s @ replicate (checks_of keys) True\<rparr>) =
      (s\<lparr>ds_connection := cn', ds_sig_received := ds_sig_received s + 1 + of_nat n,
         ds_verified := ds_verified s @ replicate (checks_of keys) True @ replicate (n * checks_of keys) True\<rparr>, Ok ())"
    "works_with cn' keys" by auto
  with cn keys show ?case
    by (intro exI [of _ cn']) (simp add: da_bind_def add.assoc replicate_add)
qed

lemma run_works:
  assumes "ready (ds_connection s)" and "has_key (ds_connection s) k"
  shows "\<exists>s'. da_run C V chain extra n s = (s', Ok ()) \<and> ds_sig_received s' = ds_sig_received s + of_nat n \<and>
    ds_verified s' = ds_verified s @ replicate (n * (if da_use_ecdsa_keys extra then 3 else 2)) True"
proof -
  from setup_works [OF assms, of "da_use_ecdsa_keys extra"] obtain cn keys where
    su: "da_setup V (da_use_ecdsa_keys extra) s = (s\<lparr>ds_connection := cn\<rparr>, Ok keys)" "works_with cn keys"
      "checks_of keys = (if da_use_ecdsa_keys extra then 3 else 2)" by blast
  from rounds_work [of "s\<lparr>ds_connection := cn\<rparr>" keys n 0] su(2) obtain cn' where
    "da_rounds C V chain keys n 0 (s\<lparr>ds_connection := cn\<rparr>) = (s\<lparr>ds_connection := cn',
       ds_sig_received := ds_sig_received s + of_nat n, ds_verified := ds_verified s @ replicate (n * checks_of keys) True\<rparr>, Ok ())"
    by auto
  with su show ?thesis by (simp add: da_run_def da_bind_def)
qed

end

end
