(* ===== verification/Da_Commit_Properties.thy ===== *)
theory Da_Commit_Properties
  imports Da_Commit Signer_Properties
begin

text \<open>
  The example commit module connected to a signer service with local keys: the service, behind its routes and
  its authentication, keeps the contract that the module relies on, so the module runs without an error and
  every signature it asks for verifies.
\<close>

section \<open>A signer service at the end of a connection\<close>

text \<open>
  The parameters of a running service, the URL that it listens at, what a request brings with it besides its
  token and route (clock, address of the peer, fresh randomness), and the encoders of its replies.
\<close>

record ('s, 'g) signer_end =
  se_crypto :: crypto
  se_dirk :: dirknet
  se_group :: "('s, 'g) siggroup"
  se_store :: storelib
  se_keys :: keylib
  se_state :: signing_state
  se_url :: string
  se_calls :: "nat \<Rightarrow> signer_call"
  se_encode :: "signer_reply \<Rightarrow> bytes"
  se_encode_error :: "signer_module_error \<Rightarrow> bytes"

definition route_of :: "string \<Rightarrow> client_request \<Rightarrow> signer_route option" where
  "route_of url rq =
     (if cq_url rq = url @ GET_PUBKEYS_PATH \<and> cq_method rq = GET then Some GetPubkeys
      else if cq_url rq = url @ REQUEST_SIGNATURE_PATH \<and> cq_method rq = POST then
        (case cq_body rq of JsonSignRequest r \<Rightarrow> Some (RequestSignature r) | _ \<Rightarrow> None)
      else if cq_url rq = url @ GENERATE_PROXY_KEY_PATH \<and> cq_method rq = POST then
        (case cq_body rq of JsonGenerateProxy r \<Rightarrow> Some (GenerateProxy r) | _ \<Rightarrow> None)
      else None)"

definition bearer_of :: "client_request \<Rightarrow> string option" where
  "bearer_of rq =
     (case cq_headers rq AUTHORIZATION of
        Some v \<Rightarrow> if take 7 v = ''Bearer '' then Some (drop 7 v) else None
      | None \<Rightarrow> None)"

definition answer_request ::
  "('s::field, 'g::ab_group_add) signer_end \<Rightarrow> nat \<Rightarrow> signer_heap \<Rightarrow> client_request \<Rightarrow> signer_heap \<times> client_response" where
  "answer_request S i h rq =
     (case (route_of (se_url S) rq, bearer_of rq) of
        (Some route, Some token) \<Rightarrow>
          (case serve (se_crypto S) (se_dirk S) (se_group S) (se_store S) (se_keys S) (se_state S)
                  ((se_calls S i)\<lparr>ca_token := token, ca_route := route\<rparr>) h of
             (h', Panicked) \<Rightarrow> (h', Err \<lparr>err_is_timeout = False, err_is_connect = False\<rparr>)
           | (h', Returned (Inr reply)) \<Rightarrow> (h', Ok (200, Ok (se_encode S reply)))
           | (h', Returned (Inl e)) \<Rightarrow> (h', Ok (signer_status e, Ok (se_encode_error S e))))
      | (None, _) \<Rightarrow> (h, Ok (404, Ok []))
      | (Some _, None) \<Rightarrow> (h, Ok (400, Ok [])))"

section \<open>When the module can rely on it\<close>

text \<open>
  What does not change: the libraries keep their promises, tokens can be made, proxies can be stored, the
  clocks agree, and the replies are decoded to what was encoded.
\<close>

definition codec_ok :: "('s, 'g) signer_end \<Rightarrow> 'w da_env \<Rightarrow> bool" where
  "codec_ok S V \<longleftrightarrow>
     (\<forall>ks. da_decode_keys V (se_encode S (PubkeysReply ks)) = Ok ks) \<and>
     (\<forall>d. da_decode_bls_delegation V (se_encode S (BlsDelegationReply d)) = Ok d) \<and>
     (\<forall>d. da_decode_ecdsa_delegation V (se_encode S (EcdsaDelegationReply d)) = Ok d) \<and>
     (\<forall>s. da_decode_bls_signature V (se_encode S (BlsSignatureReply s)) = Ok s) \<and>
     (\<forall>s. da_decode_ecdsa_signature V (se_encode S (EcdsaSignatureReply s)) = Ok s)"

definition store_works :: "storelib \<Rightarrow> bool" where
  "store_works L \<longleftrightarrow> (\<forall>p. sl_write L p = WriteDone) \<and> (\<forall>s pw n. is_ok (sl_encrypt L s pw n))"

definition web_works :: "weblib \<Rightarrow> (nat \<Rightarrow> jwtlib) \<Rightarrow> (nat \<Rightarrow> nat) \<Rightarrow> string \<Rightarrow> module_id \<Rightarrow> string \<Rightarrow> bool" where
  "web_works W clock call_time url mid secret \<longleftrightarrow>
     (\<forall>path\<in>{GET_PUBKEYS_PATH, REQUEST_SIGNATURE_PATH, GENERATE_PROXY_KEY_PATH}. url_join W url path = Ok (url @ path)) \<and>
     (\<forall>i. \<exists>jwt hs. create_jwt (clock (call_time i)) mid secret = Ok jwt \<and> auth_headers W jwt = Ok hs \<and> client_builds W hs) \<and>
     (\<forall>x v. hv_from_str W x = Some v \<longrightarrow> v = x)"

definition clocks_ok :: "('s, 'g) signer_end \<Rightarrow> 'w da_env \<Rightarrow> nat \<Rightarrow> ip_addr \<Rightarrow> bool" where
  "clocks_ok S V epoch ip \<longleftrightarrow>
     jwt_complete_over_time (da_clock V) \<and> clocks_agree (da_clock V) epoch \<and>
     (\<forall>i. da_time V i \<le> da_time V (Suc i) \<and> (epoch + da_time V i) div 1000 + 300 < 2 ^ 64 \<and>
        ca_jwt (se_calls S i) = da_clock V (da_time V i) \<and> ca_ip (se_calls S i) = ip)"

definition crypto_works :: "crypto \<Rightarrow> bool" where
  "crypto_works C \<longleftrightarrow> bls_complete C \<and> ecdsa_complete C \<and> (\<forall>sk msg. is_ok (ecdsa_sign_hash C sk msg))"

text \<open>The service: a well-formed local manager, and the module registered with its secret and signing id.\<close>

definition serves_module ::
  "('s, 'g) signer_end \<Rightarrow> chain \<Rightarrow> module_id \<Rightarrow> string \<Rightarrow> ip_addr \<Rightarrow> signer_heap \<Rightarrow> local_manager \<Rightarrow> bool" where
  "serves_module S chain mid secret ip h m \<longleftrightarrow>
     sv_manager (se_state S) < length (hp_managers h) \<and> active_manager (se_state S) h = ManagerLocal m \<and>
     local_wf (se_crypto S) m \<and> lm_chain m = chain \<and> failures_of h ip = None \<and>
     (\<exists>cfg. map_of (hp_jwts h) mid = Some cfg \<and> ms_jwt_secret cfg = secret \<and> ms_signing_id cfg = DA_COMMIT_SIGNING_ID)"

definition local_of :: "('s, 'g) signer_end \<Rightarrow> signer_heap connection \<Rightarrow> local_manager" where
  "local_of S cn = (case active_manager (se_state S) (cn_world cn) of ManagerLocal m \<Rightarrow> m)"

definition connected ::
  "('s::field, 'g::ab_group_add) signer_end \<Rightarrow> signer_heap da_env \<Rightarrow> chain \<Rightarrow> module_id \<Rightarrow> string \<Rightarrow> nat \<Rightarrow> nat
     \<Rightarrow> ip_addr \<Rightarrow> signer_heap connection \<Rightarrow> bool" where
  "connected S V chain mid secret epoch created ip cn \<longleftrightarrow>
     da_net V = answer_request S \<and> codec_ok S V \<and> store_works (se_store S) \<and> crypto_works (se_crypto S) \<and>
     web_works (da_web V) (da_clock V) (da_time V) (se_url S) mid secret \<and> clocks_ok S V epoch ip \<and>
     client_at (da_web V) (da_clock V) (se_url S) secret mid created (da_time V (cn_calls cn)) (cn_client cn) \<and>
     serves_module S chain mid secret ip (cn_world cn) (local_of S cn)"

section \<open>A call\<close>

lemma client_at_url: "client_at W clock url secret mid created now client \<Longrightarrow> sc_url client = url"
proof (induction rule: client_at.induct)
  case (created client)
  then show ?case by (auto simp: signer_client_new_def and_then_Ok_iff split: if_splits)
next
  case (refreshed now client client')
  with refresh_jwt_Ok [OF refreshed.hyps(2)] show ?case by auto
qed simp

lemma refresh_works:
  assumes "web_works W clock call_time url mid secret" and "client_at W clock url secret mid created now client"
    and "now = call_time i"
  shows "\<exists>client'. refresh_jwt W (clock now) now client = Ok client' \<and> sc_url client' = url \<and>
    client_at W clock url secret mid created now client'"
proof -
  from client_holds_token [OF assms(2)] have "sc_module_id client = mid" "sc_jwt_secret client = secret"
    by (simp_all add: holds_token_def)
  moreover from assms(1) obtain jwt hs where "create_jwt (clock now) mid secret = Ok jwt" "auth_headers W jwt = Ok hs"
    "client_builds W hs" unfolding web_works_def assms(3) by blast
  ultimately have "is_ok (refresh_jwt W (clock now) now client)" by (simp add: refresh_jwt_def)
  then obtain client' where c: "refresh_jwt W (clock now) now client = Ok client'"
    by (cases "refresh_jwt W (clock now) now client") simp_all
  moreover from client_at.refreshed [OF assms(2) c] have "client_at W clock url secret mid created now client'" .
  ultimately show ?thesis using client_at_url by blast
qed

text \<open>A request that the service answers for the module, whatever its token, is answered to the client.\<close>

lemma served:
  fixes S :: "('s::field, 'g::ab_group_add) signer_end" and cn :: "signer_heap connection"
  assumes "connected S V chain mid secret epoch created ip cn"
    and "\<And>hs. route_of (se_url S) \<lparr>cq_method = meth, cq_url = se_url S @ path, cq_headers = hs, cq_body = body\<rparr> = Some route"
    and "\<And>ca. ca_route ca = route \<Longrightarrow> ca_fresh ca = ca_fresh (se_calls S (cn_calls cn)) \<Longrightarrow>
           jwt_auth (ca_jwt ca) (se_state S) (ca_now ca) (ca_ip ca) (ca_token ca) (cn_world cn) = (cn_world cn, Ok mid) \<Longrightarrow>
           serve (se_crypto S) (se_dirk S) (se_group S) (se_store S) (se_keys S) (se_state S) ca (cn_world cn) =
             (h', Returned (Ok reply))"
    and "decode (se_encode S reply) = Ok x"
    and "path \<in> {GET_PUBKEYS_PATH, REQUEST_SIGNATURE_PATH, GENERATE_PROXY_KEY_PATH}"
  shows "\<exists>client. over V meth path body (\<lambda>W J now http c0.
        with_refresh W J now c0 (\<lambda>c. call_signer W http c meth path body decode)) cn =
      (\<lparr>cn_client = client, cn_calls = Suc (cn_calls cn), cn_world = h'\<rparr>, Ok x) \<and>
    client_at (da_web V) (da_clock V) (se_url S) secret mid created (da_time V (Suc (cn_calls cn))) client"
proof -
  define i where "i = cn_calls cn"
  let ?now = "da_time V i" and ?h = "cn_world cn"
  have c: "da_net V = answer_request S" "web_works (da_web V) (da_clock V) (da_time V) (se_url S) mid secret" "clocks_ok S V epoch ip"
    "client_at (da_web V) (da_clock V) (se_url S) secret mid created ?now (cn_client cn)"
    "serves_module S chain mid secret ip ?h (local_of S cn)"
    using assms(1) by (simp_all add: connected_def i_def)
  from refresh_works [OF c(2,4) refl] obtain client where client:
    "refresh_jwt (da_web V) (da_clock V ?now) ?now (cn_client cn) = Ok client" "sc_url client = se_url S"
    "client_at (da_web V) (da_clock V) (se_url S) secret mid created ?now client" by blast
  from c(5) obtain cfg where cfg: "map_of (hp_jwts ?h) mid = Some cfg" "ms_jwt_secret cfg = secret"
    and clean: "failures_of ?h ip = None" by (auto simp: serves_module_def)
  let ?ca = "se_calls S i"
  have times: "jwt_complete_over_time (da_clock V)" "clocks_agree (da_clock V) epoch" "(epoch + ?now) div 1000 + 300 < 2 ^ 64"
    "ca_jwt ?ca = da_clock V ?now" "ca_ip ?ca = ip" "?now \<le> da_time V (Suc i)"
    using c(3) by (simp_all add: clocks_ok_def)
  have limit: "\<not> rate_limited (se_state S) (ca_now ?ca) ip ?h" using clean by (simp add: rate_limited_def)
  from client_token_accepted [OF times(1-3) c(4) client(1) cfg limit] obtain jwt v where
    v: "sc_headers client AUTHORIZATION = Some v" "hv_from_str (da_web V) (''Bearer '' @ jwt) = Some v"
    and auth: "snd (jwt_auth (da_clock V ?now) (se_state S) (ca_now ?ca) ip jwt ?h) = Ok mid" by blast
  have "v = ''Bearer '' @ jwt" using c(2) v(2) by (simp add: web_works_def)
  then have bearer: "bearer_of \<lparr>cq_method = meth, cq_url = se_url S @ path, cq_headers = sc_headers client, cq_body = body\<rparr> = Some jwt"
    using v(1) by (simp add: bearer_of_def)
  have "jwt_auth (da_clock V ?now) (se_state S) (ca_now ?ca) ip jwt ?h = (?h, Ok mid)"
    using auth clean
    by (auto simp: jwt_auth_def check_jwt_rate_limit_def failures_of_def record_failure_def
        split: sum.splits signer_module_error.splits)
  then have "serve (se_crypto S) (se_dirk S) (se_group S) (se_store S) (se_keys S) (se_state S)
      (?ca\<lparr>ca_token := jwt, ca_route := route\<rparr>) ?h = (h', Returned (Ok reply))"
    by (intro assms(3)) (simp_all add: times i_def [symmetric])
  then have ans: "da_net V i ?h \<lparr>cq_method = meth, cq_url = se_url S @ path, cq_headers = sc_headers client, cq_body = body\<rparr> =
      (h', Ok (200, Ok (se_encode S reply)))"
    unfolding c(1) answer_request_def assms(2) bearer by simp
  have join: "url_join (da_web V) (sc_url client) path = Ok (se_url S @ path)" using c(2) client(2) assms(5) unfolding web_works_def by auto
  have "over V meth path body (\<lambda>W J now http c0. with_refresh W J now c0 (\<lambda>c. call_signer W http c meth path body decode)) cn =
      (\<lparr>cn_client = client, cn_calls = Suc i, cn_world = h'\<rparr>, Ok x)"
    using client(1) join ans assms(4)
    by (simp add: over_def i_def [symmetric] Let_def with_refresh_def call_signer_def sent_request_def is_success_def)
  moreover have "client_at (da_web V) (da_clock V) (se_url S) secret mid created (da_time V (Suc i)) client"
    by (rule client_at.time_passes [OF client(3) times(6)])
  ultimately show ?thesis unfolding i_def by blast
qed

section \<open>The service keeps the contract\<close>

text \<open>The connection after a request that was served.\<close>

lemma connected_next:
  assumes "connected S V chain mid secret epoch created ip cn"
    and "client_at (da_web V) (da_clock V) (se_url S) secret mid created (da_time V (Suc (cn_calls cn))) client"
    and "serves_module S chain mid secret ip h' m'"
  shows "connected S V chain mid secret epoch created ip \<lparr>cn_client = client, cn_calls = Suc (cn_calls cn), cn_world = h'\<rparr>"
    and "local_of S \<lparr>cn_client = client, cn_calls = Suc (cn_calls cn), cn_world = h'\<rparr> = m'"
proof -
  show "local_of S \<lparr>cn_client = client, cn_calls = Suc (cn_calls cn), cn_world = h'\<rparr> = m'"
    using assms(3) by (simp add: local_of_def serves_module_def)
  with assms show "connected S V chain mid secret epoch created ip \<lparr>cn_client = client, cn_calls = Suc (cn_calls cn), cn_world = h'\<rparr>"
    by (simp add: connected_def)
qed

lemma route_of_calls:
  "route_of url \<lparr>cq_method = GET, cq_url = url @ GET_PUBKEYS_PATH, cq_headers = hs, cq_body = b\<rparr> = Some GetPubkeys"
  "route_of url \<lparr>cq_method = POST, cq_url = url @ REQUEST_SIGNATURE_PATH, cq_headers = hs, cq_body = JsonSignRequest r\<rparr> =
     Some (RequestSignature r)"
  "route_of url \<lparr>cq_method = POST, cq_url = url @ GENERATE_PROXY_KEY_PATH, cq_headers = hs, cq_body = JsonGenerateProxy g\<rparr> =
     Some (GenerateProxy g)"
  by (simp_all add: route_of_def GET_PUBKEYS_PATH_def REQUEST_SIGNATURE_PATH_def GENERATE_PROXY_KEY_PATH_def)

lemma store_proxy_works:
  assumes "store_works L"
  shows "is_ok (snd (store_proxy_bls C L store mid p pw seed fs))" and "is_ok (snd (store_proxy_ecdsa C L store mid q pw seed fs))"
proof -
  have w: "\<exists>fs'. write_file L pa t fs = (fs', Ok ())" for pa t fs using assms by (simp add: store_works_def write_file_def)
  have erc: "is_ok (snd (store_erc2335_key L mid d a b sec kp sp scheme pw seed fs))" for mid and d :: "'p signed_proxy_delegation" and a b sec kp sp scheme pw seed fs
  proof -
    obtain c where "sl_encrypt L sec pw seed = Ok c"
      using assms by (cases "sl_encrypt L sec pw seed") (auto simp: store_works_def dest!: spec [of _ sec] spec [of _ pw] spec [of _ seed])
    with assms show ?thesis by (simp add: store_erc2335_key_def Let_def store_works_def write_file_def)
  qed
  show "is_ok (snd (store_proxy_bls C L store mid p pw seed fs))"
    using assms erc by (cases store) (simp_all add: store_proxy_bls_def Let_def store_works_def write_file_def)
  show "is_ok (snd (store_proxy_ecdsa C L store mid q pw seed fs))"
    using assms erc by (cases store) (simp_all add: store_proxy_ecdsa_def Let_def store_works_def write_file_def)
qed

lemma create_proxy_bls_works:
  assumes "store_works L" and "has_consensus m k"
  shows "\<exists>m' fs' d. create_proxy_bls C L sk pw seed mid k m fs = (m', fs', Ok d)"
proof -
  obtain sig where "sign_consensus C m k (delegation_root_bls C \<lparr>pd_delegator = k, pd_proxy = blst_sk_to_pk C sk\<rparr>) None = Ok sig"
    using assms(2) by (auto simp: has_consensus_def sign_consensus_def)
  moreover define p where "p = \<lparr>bp_signer = BlsLocal sk, bp_delegation =
    \<lparr>sd_message = \<lparr>pd_delegator = k, pd_proxy = blst_sk_to_pk C sk\<rparr>, sd_signature = sig\<rparr>\<rparr>"
  have "\<exists>m' fs' u. add_proxy_signer_bls C L pw seed p mid m fs = (m', fs', Ok u)"
    using store_proxy_works(1) [OF assms(1), of C "the (lm_proxy_store m)" mid p pw seed fs]
    by (cases "lm_proxy_store m"; cases "store_proxy_bls C L (the (lm_proxy_store m)) mid p pw seed fs")
      (auto simp: add_proxy_signer_bls_def split: sum.splits)
  then obtain m' fs' u where "add_proxy_signer_bls C L pw seed p mid m fs = (m', fs', Ok u)" by blast
  ultimately show ?thesis by (simp add: create_proxy_bls_def Let_def p_def)
qed

lemma create_proxy_ecdsa_works:
  assumes "store_works L" and "has_consensus m k"
  shows "\<exists>m' fs' d. create_proxy_ecdsa C L sk pw seed mid k m fs = (m', fs', Ok d)"
proof -
  obtain sig where "sign_consensus C m k (delegation_root_ecdsa C \<lparr>pd_delegator = k, pd_proxy = ecdsa_address C sk\<rparr>) None = Ok sig"
    using assms(2) by (auto simp: has_consensus_def sign_consensus_def)
  moreover define p where "p = \<lparr>ep_signer = EcdsaLocal sk, ep_delegation =
    \<lparr>sd_message = \<lparr>pd_delegator = k, pd_proxy = ecdsa_address C sk\<rparr>, sd_signature = sig\<rparr>\<rparr>"
  have "\<exists>m' fs' u. add_proxy_signer_ecdsa C L pw seed p mid m fs = (m', fs', Ok u)"
    using store_proxy_works(2) [OF assms(1), of C "the (lm_proxy_store m)" mid p pw seed fs]
    by (cases "lm_proxy_store m"; cases "store_proxy_ecdsa C L (the (lm_proxy_store m)) mid p pw seed fs")
      (auto simp: add_proxy_signer_ecdsa_def split: sum.splits)
  then obtain m' fs' u where "add_proxy_signer_ecdsa C L pw seed p mid m fs = (m', fs', Ok u)" by blast
  ultimately show ?thesis by (simp add: create_proxy_ecdsa_def Let_def p_def)
qed

text \<open>Requests for signatures change nothing.\<close>

lemma signature_served:
  fixes S :: "('s::field, 'g::ab_group_add) signer_end" and cn :: "signer_heap connection"
  assumes "connected S V chain mid secret epoch created ip cn"
    and "\<And>arrival. handle_request_signature (se_crypto S) (se_dirk S) (se_group S) arrival (se_state S) mid r (cn_world cn) = Ok reply"
    and "decode (se_encode S reply) = Ok x"
  shows "\<exists>cn'. over V POST REQUEST_SIGNATURE_PATH (JsonSignRequest r)
      (\<lambda>W J now http. client_request_signature W J now http decode r) cn = (cn', Ok x) \<and>
    connected S V chain mid secret epoch created ip cn' \<and> local_of S cn' = local_of S cn"
proof -
  have "serve (se_crypto S) (se_dirk S) (se_group S) (se_store S) (se_keys S) (se_state S) ca (cn_world cn) =
      (cn_world cn, Returned (Ok reply))"
    if "ca_route ca = RequestSignature r"
      "jwt_auth (ca_jwt ca) (se_state S) (ca_now ca) (ca_ip ca) (ca_token ca) (cn_world cn) = (cn_world cn, Ok mid)" for ca
    using that assms(2) by (simp add: serve.simps with_jwt_auth_def)
  then have "\<exists>client. over V POST REQUEST_SIGNATURE_PATH (JsonSignRequest r)
      (\<lambda>W J now http. client_request_signature W J now http decode r) cn =
      (\<lparr>cn_client = client, cn_calls = Suc (cn_calls cn), cn_world = cn_world cn\<rparr>, Ok x) \<and>
    client_at (da_web V) (da_clock V) (se_url S) secret mid created (da_time V (Suc (cn_calls cn))) client"
    unfolding client_request_signature_def
    by (intro served [where route = "RequestSignature r" and decode = decode and reply = reply, OF assms(1)])
      (simp_all add: route_of_calls assms(3))
  moreover have "serves_module S chain mid secret ip (cn_world cn) (local_of S cn)" using assms(1) by (simp add: connected_def)
  ultimately show ?thesis using connected_next [OF assms(1)] by blast
qed

lemma connectedD:
  assumes "connected S V chain mid secret epoch created ip cn"
  shows "crypto_works (se_crypto S)" and "codec_ok S V" and "store_works (se_store S)"
    and "active_manager (se_state S) (cn_world cn) = ManagerLocal (local_of S cn)"
    and "local_wf (se_crypto S) (local_of S cn)" and "lm_chain (local_of S cn) = chain"
    and "sv_manager (se_state S) < length (hp_managers (cn_world cn))"
    and "\<exists>cfg. map_of (hp_jwts (cn_world cn)) mid = Some cfg \<and> ms_signing_id cfg = DA_COMMIT_SIGNING_ID"
  using assms by (auto simp: connected_def serves_module_def)

lemma verify_bls_commitment:
  assumes "bls_complete C"
  shows "verify_proposer_commitment_signature_bls C chain (bls_signer_pubkey C s) r (bls_signer_sign C s chain r (Some sid)) sid = Ok ()"
  using verify_sign_message [OF assms]
  by (cases s) (simp add: verify_proposer_commitment_signature_bls_def sign_commit_boost_root_def
      compute_prop_commit_signing_root_def Let_def)

lemma verify_ecdsa_commitment:
  assumes "ecdsa_complete C" and "ecdsa_signer_sign C s chain r (Some sid) = Ok sig"
  shows "verify_proposer_commitment_signature_ecdsa C chain (ecdsa_signer_address C s) r sig sid = Ok ()"
  using assms by (cases s) (simp add: ecdsa_complete_def verify_proposer_commitment_signature_ecdsa_def
      verify_ecdsa_signature_def Let_def ensure_def)

lemma consensus_served:
  fixes S :: "('s::field, 'g::ab_group_add) signer_end" and cn :: "signer_heap connection"
  assumes "connected S V chain mid secret epoch created ip cn" and "has_consensus (local_of S cn) (scr_pubkey r)"
  shows "\<exists>cn' sig. da_sign_consensus V r cn = (cn', Ok sig) \<and> connected S V chain mid secret epoch created ip cn' \<and>
    local_of S cn' = local_of S cn \<and> verify_proposer_commitment_signature_bls (se_crypto S) chain (scr_pubkey r)
      (scr_object_root r) sig DA_COMMIT_SIGNING_ID = Ok ()"
proof -
  note d = connectedD [OF assms(1)]
  from assms(2) obtain s where s: "map_of (lm_consensus_signers (local_of S cn)) (scr_pubkey r) = Some s"
    by (auto simp: has_consensus_def)
  with d(5) have key: "bls_signer_pubkey (se_crypto S) s = scr_pubkey r" unfolding local_wf_def by blast
  let ?sig = "bls_signer_sign (se_crypto S) s chain (scr_object_root r) (Some DA_COMMIT_SIGNING_ID)"
  have "handle_request_signature (se_crypto S) (se_dirk S) (se_group S) arrival (se_state S) mid (SignConsensus r) (cn_world cn) =
      Ok (BlsSignatureReply ?sig)" for arrival
    using d(4,6,8) s by (auto simp: handle_request_signature_def active_manager_def sign_consensus_def Let_def)
  from signature_served [OF assms(1) this, of "da_decode_bls_signature V" ?sig] d(2)
  obtain cn' where "da_sign_consensus V r cn = (cn', Ok ?sig)" "connected S V chain mid secret epoch created ip cn'"
    "local_of S cn' = local_of S cn"
    by (auto simp: da_sign_consensus_def client_request_consensus_signature_def codec_ok_def)
  with verify_bls_commitment [of "se_crypto S" chain s] d(1) show ?thesis unfolding key crypto_works_def by blast
qed

lemma proxy_bls_served:
  fixes S :: "('s::field, 'g::ab_group_add) signer_end" and cn :: "signer_heap connection"
  assumes "connected S V chain mid secret epoch created ip cn" and "lookup_proxy_bls (local_of S cn) (spr_proxy r) \<noteq> None"
  shows "\<exists>cn' sig. da_sign_proxy_bls V r cn = (cn', Ok sig) \<and> connected S V chain mid secret epoch created ip cn' \<and>
    local_of S cn' = local_of S cn \<and> verify_proposer_commitment_signature_bls (se_crypto S) chain (spr_proxy r)
      (spr_object_root r) sig DA_COMMIT_SIGNING_ID = Ok ()"
proof -
  note d = connectedD [OF assms(1)]
  from assms(2) obtain p where p: "lookup_proxy_bls (local_of S cn) (spr_proxy r) = Some p" by auto
  with d(5) have key: "bls_signer_pubkey (se_crypto S) (bp_signer p) = spr_proxy r"
    unfolding local_wf_def bls_proxy_ok_def by blast
  let ?sig = "bls_signer_sign (se_crypto S) (bp_signer p) chain (spr_object_root r) (Some DA_COMMIT_SIGNING_ID)"
  have "handle_request_signature (se_crypto S) (se_dirk S) (se_group S) arrival (se_state S) mid (SignProxyBls r) (cn_world cn) =
      Ok (BlsSignatureReply ?sig)" for arrival
    using d(4,6,8) p by (auto simp: handle_request_signature_def active_manager_def sign_proxy_bls_def lookup_proxy_bls_def Let_def)
  from signature_served [OF assms(1) this, of "da_decode_bls_signature V" ?sig] d(2)
  obtain cn' where "da_sign_proxy_bls V r cn = (cn', Ok ?sig)" "connected S V chain mid secret epoch created ip cn'"
    "local_of S cn' = local_of S cn"
    by (auto simp: da_sign_proxy_bls_def client_request_proxy_signature_bls_def codec_ok_def)
  with verify_bls_commitment [of "se_crypto S" chain "bp_signer p"] d(1) show ?thesis unfolding key crypto_works_def by blast
qed

lemma proxy_ecdsa_served:
  fixes S :: "('s::field, 'g::ab_group_add) signer_end" and cn :: "signer_heap connection"
  assumes "connected S V chain mid secret epoch created ip cn" and "lookup_proxy_ecdsa (local_of S cn) (spr_proxy r) \<noteq> None"
  shows "\<exists>cn' sig. da_sign_proxy_ecdsa V r cn = (cn', Ok sig) \<and> connected S V chain mid secret epoch created ip cn' \<and>
    local_of S cn' = local_of S cn \<and> verify_proposer_commitment_signature_ecdsa (se_crypto S) chain (spr_proxy r)
      (spr_object_root r) sig DA_COMMIT_SIGNING_ID = Ok ()"
proof -
  note d = connectedD [OF assms(1)]
  from assms(2) obtain p where p: "lookup_proxy_ecdsa (local_of S cn) (spr_proxy r) = Some p" by auto
  with d(5) have key: "ecdsa_signer_address (se_crypto S) (ep_signer p) = spr_proxy r"
    unfolding local_wf_def ecdsa_proxy_ok_def by blast
  have "is_ok (ecdsa_signer_sign (se_crypto S) (ep_signer p) chain (spr_object_root r) (Some DA_COMMIT_SIGNING_ID))"
    using d(1) by (cases "ep_signer p") (simp add: crypto_works_def Let_def)
  then obtain sig where sig: "ecdsa_signer_sign (se_crypto S) (ep_signer p) chain (spr_object_root r) (Some DA_COMMIT_SIGNING_ID) = Ok sig"
    by (cases "ecdsa_signer_sign (se_crypto S) (ep_signer p) chain (spr_object_root r) (Some DA_COMMIT_SIGNING_ID)") simp_all
  have "handle_request_signature (se_crypto S) (se_dirk S) (se_group S) arrival (se_state S) mid (SignProxyEcdsa r) (cn_world cn) =
      Ok (EcdsaSignatureReply sig)" for arrival
    using d(4,6,8) p sig by (auto simp: handle_request_signature_def active_manager_def sign_proxy_ecdsa_def lookup_proxy_ecdsa_def Let_def)
  from signature_served [OF assms(1) this, of "da_decode_ecdsa_signature V" sig] d(2)
  obtain cn' where "da_sign_proxy_ecdsa V r cn = (cn', Ok sig)" "connected S V chain mid secret epoch created ip cn'"
    "local_of S cn' = local_of S cn"
    by (auto simp: da_sign_proxy_ecdsa_def client_request_proxy_signature_ecdsa_def codec_ok_def)
  with verify_ecdsa_commitment [OF _ sig] d(1) show ?thesis unfolding key crypto_works_def by blast
qed

lemma pubkeys_served:
  fixes S :: "('s::field, 'g::ab_group_add) signer_end" and cn :: "signer_heap connection"
  assumes "connected S V chain mid secret epoch created ip cn" and "has_consensus (local_of S cn) k"
  shows "\<exists>cn' first rest. da_get_pubkeys V cn = (cn', Ok (first # rest)) \<and> connected S V chain mid secret epoch created ip cn' \<and>
    has_consensus (local_of S cn') (cpm_consensus first)"
proof -
  note d = connectedD [OF assms(1)]
  let ?m = "local_of S cn"
  from local_wf_proxy_maps [OF d(5), of mid] obtain ks where maps: "get_consensus_proxy_maps ?m mid = Ok ks"
    "map cpm_consensus ks = consensus_pubkeys ?m" by (simp add: comp_def)
  from assms(2) have "k \<in> set (consensus_pubkeys ?m)" by (simp add: has_consensus_iff)
  with maps(2) [symmetric] obtain first rest where ks: "ks = first # rest" "cpm_consensus first \<in> set (consensus_pubkeys ?m)"
    by (cases ks) auto
  have "serve (se_crypto S) (se_dirk S) (se_group S) (se_store S) (se_keys S) (se_state S) ca (cn_world cn) =
      (cn_world cn, Returned (Ok (PubkeysReply ks)))"
    if "ca_route ca = GetPubkeys"
      "jwt_auth (ca_jwt ca) (se_state S) (ca_now ca) (ca_ip ca) (ca_token ca) (cn_world cn) = (cn_world cn, Ok mid)" for ca
    using that d(4) maps(1) by (simp add: serve.simps with_jwt_auth_def handle_get_pubkeys_def active_manager_def)
  then have "\<exists>client. da_get_pubkeys V cn =
      (\<lparr>cn_client = client, cn_calls = Suc (cn_calls cn), cn_world = cn_world cn\<rparr>, Ok ks) \<and>
    client_at (da_web V) (da_clock V) (se_url S) secret mid created (da_time V (Suc (cn_calls cn))) client"
    unfolding da_get_pubkeys_def client_get_pubkeys_def using d(2)
    by (intro served [where route = GetPubkeys and decode = "da_decode_keys V" and reply = "PubkeysReply ks", OF assms(1)])
      (simp_all add: route_of_calls codec_ok_def)
  then obtain client where get: "da_get_pubkeys V cn =
      (\<lparr>cn_client = client, cn_calls = Suc (cn_calls cn), cn_world = cn_world cn\<rparr>, Ok ks)"
    and at: "client_at (da_web V) (da_clock V) (se_url S) secret mid created (da_time V (Suc (cn_calls cn))) client" by blast
  have "serves_module S chain mid secret ip (cn_world cn) ?m" using assms(1) by (simp add: connected_def)
  from connected_next [OF assms(1) at this] get ks show ?thesis by (simp add: has_consensus_iff)
qed

text \<open>Generating a proxy: the manager with the new proxy is written back.\<close>

lemma serves_module_update:
  assumes "serves_module S chain mid secret ip h m" and "local_wf (se_crypto S) m'" and "lm_chain m' = lm_chain m"
  shows "serves_module S chain mid secret ip
    (h\<lparr>hp_managers := (hp_managers h)[sv_manager (se_state S) := ManagerLocal m'], hp_fs := fs\<rparr>) m'"
  using assms by (simp add: serves_module_def active_manager_def failures_of_def)

lemma generate_served:
  fixes S :: "('s::field, 'g::ab_group_add) signer_end" and cn :: "signer_heap connection"
  assumes "connected S V chain mid secret epoch created ip cn"
    and "\<And>arrival. handle_generate_proxy (se_crypto S) (se_dirk S) (se_group S) arrival (se_store S)
       (ca_fresh (se_calls S (cn_calls cn))) (se_state S) mid g (cn_world cn) =
      ((cn_world cn)\<lparr>hp_managers := (hp_managers (cn_world cn))[sv_manager (se_state S) := ManagerLocal m'], hp_fs := fs\<rparr>,
       Ok reply)"
    and "local_wf (se_crypto S) m'" and "lm_chain m' = lm_chain (local_of S cn)"
    and "decode (se_encode S reply) = Ok x"
  shows "\<exists>cn'. over V POST GENERATE_PROXY_KEY_PATH (JsonGenerateProxy g)
      (\<lambda>W J now http. client_generate_proxy_key W J now http decode g) cn = (cn', Ok x) \<and>
    connected S V chain mid secret epoch created ip cn' \<and> local_of S cn' = m'"
proof -
  let ?h' = "(cn_world cn)\<lparr>hp_managers := (hp_managers (cn_world cn))[sv_manager (se_state S) := ManagerLocal m'], hp_fs := fs\<rparr>"
  have "serve (se_crypto S) (se_dirk S) (se_group S) (se_store S) (se_keys S) (se_state S) ca (cn_world cn) =
      (?h', Returned (Ok reply))"
    if "ca_route ca = GenerateProxy g" "ca_fresh ca = ca_fresh (se_calls S (cn_calls cn))"
      "jwt_auth (ca_jwt ca) (se_state S) (ca_now ca) (ca_ip ca) (ca_token ca) (cn_world cn) = (cn_world cn, Ok mid)" for ca
    using that assms(2) by (simp add: serve.simps with_jwt_auth_def)
  then have "\<exists>client. over V POST GENERATE_PROXY_KEY_PATH (JsonGenerateProxy g)
      (\<lambda>W J now http. client_generate_proxy_key W J now http decode g) cn =
      (\<lparr>cn_client = client, cn_calls = Suc (cn_calls cn), cn_world = ?h'\<rparr>, Ok x) \<and>
    client_at (da_web V) (da_clock V) (se_url S) secret mid created (da_time V (Suc (cn_calls cn))) client"
    unfolding client_generate_proxy_key_def
    by (intro served [where route = "GenerateProxy g" and decode = decode and reply = reply, OF assms(1)])
      (simp_all add: route_of_calls assms(5))
  moreover have "serves_module S chain mid secret ip ?h' m'"
    using assms(1) by (intro serves_module_update [OF _ assms(3,4)]) (simp add: connected_def)
  ultimately show ?thesis using connected_next [OF assms(1)] by blast
qed

lemma proxy_bls_made:
  fixes S :: "('s::field, 'g::ab_group_add) signer_end" and cn :: "signer_heap connection"
  assumes "connected S V chain mid secret epoch created ip cn" and "has_consensus (local_of S cn) k"
  shows "\<exists>cn' d. da_generate_bls V k cn = (cn', Ok d) \<and> connected S V chain mid secret epoch created ip cn' \<and>
    has_consensus (local_of S cn') k \<and> lookup_proxy_bls (local_of S cn') (pd_proxy (sd_message d)) \<noteq> None"
proof -
  note d = connectedD [OF assms(1)]
  let ?m = "local_of S cn" and ?fr = "ca_fresh (se_calls S (cn_calls cn))" and ?g = "generate_proxy_request_new k Bls"
  have complete: "bls_complete (se_crypto S)" using d(1) by (simp add: crypto_works_def)
  from create_proxy_bls_works [OF d(3) assms(2), of "se_crypto S" "fr_bls_secret ?fr" "fr_password ?fr" "fr_seed ?fr" mid "hp_fs (cn_world cn)"]
  obtain m' fs' dl where create: "create_proxy_bls (se_crypto S) (se_store S) (fr_bls_secret ?fr) (fr_password ?fr) (fr_seed ?fr) mid k
      ?m (hp_fs (cn_world cn)) = (m', fs', Ok dl)" by blast
  from create_proxy_bls_Ok [OF complete d(5) create] obtain p where p: "m' = insert_proxy_bls (se_crypto S) p mid ?m"
    "bp_delegation p = dl" "bls_proxy_ok (se_crypto S) ?m (blst_sk_to_pk (se_crypto S) (fr_bls_secret ?fr)) p" by blast
  have wf: "local_wf (se_crypto S) m'" by (rule create_proxy_bls_wf [OF complete d(5) create])
  have "handle_generate_proxy (se_crypto S) (se_dirk S) (se_group S) arrival (se_store S) ?fr (se_state S) mid ?g (cn_world cn) =
      ((cn_world cn)\<lparr>hp_managers := (hp_managers (cn_world cn))[sv_manager (se_state S) := ManagerLocal m'], hp_fs := fs'\<rparr>,
       Ok (BlsDelegationReply dl))" for arrival
    using d(4) create by (simp add: handle_generate_proxy_def active_manager_def generate_proxy_request_new_def Let_def)
  from generate_served [OF assms(1) this wf, of "da_decode_bls_delegation V" dl] d(2) p(1)
  obtain cn' where "da_generate_bls V k cn = (cn', Ok dl)" "connected S V chain mid secret epoch created ip cn'" "local_of S cn' = m'"
    by (auto simp: da_generate_bls_def client_generate_proxy_key_bls_def codec_ok_def generate_proxy_request_new_def)
  moreover have "lookup_proxy_bls m' (pd_proxy (sd_message dl)) \<noteq> None"
    using p by (auto simp: bls.lookup_add bls_proxy_ok_def)
  ultimately show ?thesis using p(1) assms(2) by auto
qed

lemma proxy_ecdsa_made:
  fixes S :: "('s::field, 'g::ab_group_add) signer_end" and cn :: "signer_heap connection"
  assumes "connected S V chain mid secret epoch created ip cn" and "has_consensus (local_of S cn) k"
  shows "\<exists>cn' d. da_generate_ecdsa V k cn = (cn', Ok d) \<and> connected S V chain mid secret epoch created ip cn' \<and>
    has_consensus (local_of S cn') k \<and> lookup_proxy_bls (local_of S cn') = lookup_proxy_bls (local_of S cn) \<and>
    lookup_proxy_ecdsa (local_of S cn') (pd_proxy (sd_message d)) \<noteq> None"
proof -
  note d = connectedD [OF assms(1)]
  let ?m = "local_of S cn" and ?fr = "ca_fresh (se_calls S (cn_calls cn))" and ?g = "generate_proxy_request_new k Ecdsa"
  have complete: "bls_complete (se_crypto S)" using d(1) by (simp add: crypto_works_def)
  from create_proxy_ecdsa_works [OF d(3) assms(2), of "se_crypto S" "fr_ecdsa_secret ?fr" "fr_password ?fr" "fr_seed ?fr" mid "hp_fs (cn_world cn)"]
  obtain m' fs' dl where create: "create_proxy_ecdsa (se_crypto S) (se_store S) (fr_ecdsa_secret ?fr) (fr_password ?fr) (fr_seed ?fr) mid k
      ?m (hp_fs (cn_world cn)) = (m', fs', Ok dl)" by blast
  from create_proxy_ecdsa_Ok [OF complete d(5) create] obtain p where p: "m' = insert_proxy_ecdsa (se_crypto S) p mid ?m"
    "ep_delegation p = dl" "ecdsa_proxy_ok (se_crypto S) ?m (ecdsa_address (se_crypto S) (fr_ecdsa_secret ?fr)) p" by blast
  have wf: "local_wf (se_crypto S) m'" by (rule create_proxy_ecdsa_wf [OF complete d(5) create])
  have "handle_generate_proxy (se_crypto S) (se_dirk S) (se_group S) arrival (se_store S) ?fr (se_state S) mid ?g (cn_world cn) =
      ((cn_world cn)\<lparr>hp_managers := (hp_managers (cn_world cn))[sv_manager (se_state S) := ManagerLocal m'], hp_fs := fs'\<rparr>,
       Ok (EcdsaDelegationReply dl))" for arrival
    using d(4) create by (simp add: handle_generate_proxy_def active_manager_def generate_proxy_request_new_def Let_def)
  from generate_served [OF assms(1) this wf, of "da_decode_ecdsa_delegation V" dl] d(2) p(1)
  obtain cn' where "da_generate_ecdsa V k cn = (cn', Ok dl)" "connected S V chain mid secret epoch created ip cn'" "local_of S cn' = m'"
    by (auto simp: da_generate_ecdsa_def client_generate_proxy_key_ecdsa_def codec_ok_def generate_proxy_request_new_def)
  moreover have "lookup_proxy_ecdsa m' (pd_proxy (sd_message dl)) \<noteq> None"
    using p by (auto simp: ecdsa.lookup_add ecdsa_proxy_ok_def)
  ultimately show ?thesis using p(1) assms(2) by auto
qed

interpretation local_signer: commitment_signer "se_crypto S" V chain "connected S V chain mid secret epoch created ip"
  "\<lambda>cn. has_consensus (local_of S cn)" "\<lambda>cn k. lookup_proxy_bls (local_of S cn) k \<noteq> None"
  "\<lambda>cn a. lookup_proxy_ecdsa (local_of S cn) a \<noteq> None"
  for S :: "('s::field, 'g::ab_group_add) signer_end" and V chain mid secret epoch created ip
proof (unfold_locales, goal_cases)
  case (1 cn k)
  then show ?case by (rule pubkeys_served)
next
  case (2 cn k)
  then show ?case by (rule proxy_bls_made)
next
  case (3 cn k b)
  from proxy_ecdsa_made [OF 3(1,2)] 3(3) show ?case by metis
next
  case (4 cn r)
  from consensus_served [OF 4] show ?case by metis
next
  case (5 cn p)
  from proxy_bls_served [OF 5] show ?case by metis
next
  case (6 cn q)
  from proxy_ecdsa_served [OF 6] show ?case by metis
qed

section \<open>The module runs\<close>

text \<open>
  C14. The example commit module, connected to a signer service with local keys that knows it under its secret
  and its signing id and has a consensus key, never stops with an error: it gets its keys, and after any
  number of rounds every signature it asked for has verified, two or three in each round, and all rounds
  are counted.
\<close>

theorem da_commit_runs:
  fixes S :: "('s::field, 'g::ab_group_add) signer_end" and s :: "signer_heap da_state"
  assumes "connected S V chain mid secret epoch created ip (ds_connection s)"
    and "has_consensus (local_of S (ds_connection s)) k"
  shows "\<exists>s'. da_run (se_crypto S) V chain extra n s = (s', Ok ()) \<and>
    ds_sig_received s' = ds_sig_received s + of_nat n \<and>
    ds_verified s' = ds_verified s @ replicate (n * (if da_use_ecdsa_keys extra then 3 else 2)) True"
  by (rule local_signer.run_works [OF assms])

text \<open>Replies for the example: numbers in unary, and lists of keys with their lengths.\<close>

definition demo_pack :: "nat list \<Rightarrow> bytes" where
  "demo_pack ns = concat (map (\<lambda>n. replicate n 1 @ [0]) ns)"

fun demo_unpack :: "nat \<Rightarrow> bytes \<Rightarrow> nat list" where
  "demo_unpack n [] = []"
| "demo_unpack n (b # bs) = (if b = 0 then n # demo_unpack 0 bs else demo_unpack (Suc n) bs)"

lemma demo_unpack_pack: "demo_unpack 0 (demo_pack ns) = ns"
proof -
  have "demo_unpack m (replicate n 1 @ bs) = demo_unpack (m + n) bs" for m n bs
    by (induction n arbitrary: m) simp_all
  then show ?thesis by (induction ns) (simp_all add: demo_pack_def)
qed

definition demo_pack_map :: "consensus_proxy_map \<Rightarrow> nat list" where
  "demo_pack_map e = unat (cpm_consensus e) # length (cpm_proxy_bls e) # map unat (cpm_proxy_bls e) @
     length (cpm_proxy_ecdsa e) # map unat (cpm_proxy_ecdsa e)"

function demo_unpack_maps :: "nat list \<Rightarrow> consensus_proxy_map list" where
  "demo_unpack_maps (c # l # ns) =
     (case drop l ns of
        [] \<Rightarrow> []
      | e # rest \<Rightarrow> \<lparr>cpm_consensus = word_of_nat c, cpm_proxy_bls = map word_of_nat (take l ns),
                     cpm_proxy_ecdsa = map word_of_nat (take e rest)\<rparr> # demo_unpack_maps (drop e rest))"
| "demo_unpack_maps [] = []"
| "demo_unpack_maps [c] = []"
  by pat_completeness auto

termination demo_unpack_maps
proof (relation "measure length")
  fix c l e and ns rest :: "nat list"
  assume "drop l ns = e # rest"
  then have "length (drop l ns) = Suc (length rest)" by simp
  then show "(drop e rest, c # l # ns) \<in> measure length" by simp
qed simp

lemma demo_unpack_pack_maps: "demo_unpack_maps (concat (map demo_pack_map es)) = es"
proof (induction es)
  case (Cons e es)
  then show ?case by (simp add: demo_pack_map_def comp_def)
qed simp

definition demo_delegation_nats :: "'a::len word signed_proxy_delegation \<Rightarrow> nat list" where
  "demo_delegation_nats d =
     [unat (pd_delegator (sd_message d)), unat (pd_proxy (sd_message d)), unat (sd_signature d)]"

definition demo_delegation_of :: "nat list \<Rightarrow> (string, 'a::len word signed_proxy_delegation) result" where
  "demo_delegation_of ns =
     (case ns of
        [d, p, s] \<Rightarrow> Ok \<lparr>sd_message = \<lparr>pd_delegator = word_of_nat d, pd_proxy = word_of_nat p\<rparr>, sd_signature = word_of_nat s\<rparr>
      | _ \<Rightarrow> Err ''not a delegation'')"

fun demo_reply :: "signer_reply \<Rightarrow> bytes" where
  "demo_reply StatusOk = []"
| "demo_reply (BlsSignatureReply s) = demo_pack [unat s]"
| "demo_reply (EcdsaSignatureReply s) = demo_pack [unat s]"
| "demo_reply (BlsDelegationReply d) = demo_pack (demo_delegation_nats d)"
| "demo_reply (EcdsaDelegationReply d) = demo_pack (demo_delegation_nats d)"
| "demo_reply (PubkeysReply es) = demo_pack (concat (map demo_pack_map es))"

definition demo_end :: "(rat, rat) signer_end" where
  "demo_end = \<lparr>se_crypto = demo_crypto, se_dirk = demo_net, se_group = demo_group,
     se_store = demo_store\<lparr>sl_encrypt := (\<lambda>_ _ _. Ok [])\<rparr>, se_keys = demo_keys, se_state = demo_signing_state,
     se_url = ''http://cb_signer:20000'', se_calls = (\<lambda>_. (demo_call [] GetPubkeys)\<lparr>ca_jwt := demo_clock 500\<rparr>),
     se_encode = demo_reply, se_encode_error = (\<lambda>_. [])\<rparr>"

definition demo_da_env :: "signer_heap da_env" where
  "demo_da_env = \<lparr>da_web = demo_web, da_clock = demo_clock, da_time = (\<lambda>_. 500), da_net = answer_request demo_end,
     da_decode_keys = (\<lambda>bs. Ok (demo_unpack_maps (demo_unpack 0 bs))),
     da_decode_bls_delegation = (\<lambda>bs. demo_delegation_of (demo_unpack 0 bs)),
     da_decode_ecdsa_delegation = (\<lambda>bs. demo_delegation_of (demo_unpack 0 bs)),
     da_decode_bls_signature = (\<lambda>bs. Ok (word_of_nat (hd (demo_unpack 0 bs)))),
     da_decode_ecdsa_signature = (\<lambda>bs. Ok (word_of_nat (hd (demo_unpack 0 bs)))), da_datagram_root = ucast\<rparr>"

definition demo_da_state :: "signer_heap da_state" where
  "demo_da_state = \<lparr>ds_connection = \<lparr>cn_client = demo_client, cn_calls = 0,
     cn_world = demo_heap\<lparr>hp_jwts := [(''m'', \<lparr>ms_module_name = ''m'', ms_jwt_secret = ''k'', ms_signing_id = DA_COMMIT_SIGNING_ID\<rparr>)]\<rparr>\<rparr>,
     ds_sig_received = 0, ds_verified = []\<rparr>"

lemma demo_connected: "connected demo_end demo_da_env Mainnet ''m'' ''k'' 0 0 7 (ds_connection demo_da_state)"
  unfolding connected_def
proof (intro conjI)
  show "codec_ok demo_end demo_da_env"
    by (simp add: codec_ok_def demo_end_def demo_da_env_def demo_unpack_pack demo_unpack_pack_maps demo_delegation_of_def
        demo_delegation_nats_def)
  show "store_works (se_store demo_end)" by (simp add: store_works_def demo_end_def demo_store_def)
  show "crypto_works (se_crypto demo_end)"
    using demo_bls_complete demo_ecdsa_complete by (simp add: crypto_works_def demo_end_def) (simp add: demo_crypto_def)
  show "web_works (da_web demo_da_env) (da_clock demo_da_env) (da_time demo_da_env) (se_url demo_end) ''m'' ''k''"
    by (simp add: web_works_def demo_da_env_def demo_web_def create_jwt_def demo_clock_def SIGNER_JWT_EXPIRATION_def auth_headers_def)
  show "clocks_ok demo_end demo_da_env 0 7"
    using demo_clock_complete demo_clock_agrees by (simp add: clocks_ok_def demo_da_env_def demo_end_def demo_call_def)
  show "client_at (da_web demo_da_env) (da_clock demo_da_env) (se_url demo_end) ''k'' ''m'' 0
      (da_time demo_da_env (cn_calls (ds_connection demo_da_state))) (cn_client (ds_connection demo_da_state))"
    unfolding demo_da_env_def demo_da_state_def demo_end_def da_env.simps da_state.simps connection.simps signer_end.simps
    by (rule client_at.time_passes [OF client_at.created])
      (simp_all add: signer_client_new_def create_jwt_def demo_clock_def SIGNER_JWT_EXPIRATION_def auth_headers_def
        demo_web_def demo_client_def)
  show "serves_module demo_end Mainnet ''m'' ''k'' 7 (cn_world (ds_connection demo_da_state)) (local_of demo_end (ds_connection demo_da_state))"
    using demo_local_wf
    by (simp add: serves_module_def local_of_def demo_end_def demo_da_state_def demo_heap_def demo_signing_state_def
        active_manager_def failures_of_def) (simp add: demo_local_def)
qed (simp add: demo_da_env_def)

theorem da_commit_runs_witness:
  "\<exists>s'. da_run demo_crypto demo_da_env Mainnet \<lparr>da_sleep_secs = 1, da_use_ecdsa_keys = True\<rparr> 2 demo_da_state = (s', Ok ()) \<and>
     ds_sig_received s' = 2 \<and> ds_verified s' = [True, True, True, True, True, True]"
proof -
  have "has_consensus (local_of demo_end (ds_connection demo_da_state)) 9"
    by (simp add: local_of_def demo_end_def demo_da_state_def demo_heap_def demo_signing_state_def active_manager_def
        has_consensus_def demo_local_def) (simp add: demo_crypto_def)
  from da_commit_runs [OF demo_connected this, of "\<lparr>da_sleep_secs = 1, da_use_ecdsa_keys = True\<rparr>" 2]
  show ?thesis by (simp add: demo_end_def demo_da_state_def numeral_eq_Suc)
qed

end
