(* ===== verification/Mock_Relay.thy ===== *)
theory Mock_Relay
  imports Routes
begin

text \<open>
  An honest relay and a validator: \<open>tests/src/mock_relay.rs\<close>, \<open>mock_validator.rs\<close> and the builders of
  configurations in \<open>tests/src/utils.rs\<close>, with which the repository drives the PBS module. The relay is
  its state (atomic counters and the status it is told to answer with), one handler per route and the
  dispatch of a request to a handler. What the relay needs of \<open>axum\<close> and \<open>serde_json\<close>, and \<open>Url::parse\<close>,
  are the record \<open>mocklib\<close>.
\<close>

section \<open>Default values\<close>

text \<open>\<open>#[derive(Default)]\<close> of the containers: zeros, empty lists and, for vectors of fixed length, zero bytes.\<close>

definition default_execution_payload_header :: execution_payload_header where
  "default_execution_payload_header = \<lparr>eph_parent_hash = 0, eph_fee_recipient = 0, eph_state_root = 0,
     eph_receipts_root = 0, eph_logs_bloom = replicate 256 0, eph_prev_randao = 0, eph_block_number = 0,
     eph_gas_limit = 0, eph_gas_used = 0, eph_timestamp = 0, eph_extra_data = [], eph_base_fee_per_gas = 0,
     eph_block_hash = 0, eph_transactions_root = 0, eph_withdrawals_root = 0, eph_blob_gas_used = 0,
     eph_excess_blob_gas = 0\<rparr>"

definition default_execution_requests :: execution_requests where
  "default_execution_requests = \<lparr>er_deposits = [], er_withdrawals = [], er_consolidations = []\<rparr>"

definition default_header_message :: execution_payload_header_message_electra where
  "default_header_message = \<lparr>hm_header = default_execution_payload_header, hm_blob_kzg_commitments = [],
     hm_execution_requests = default_execution_requests, hm_value = 0, hm_pubkey = 0\<rparr>"

definition default_signed_header :: signed_execution_payload_header where
  "default_signed_header = \<lparr>sh_message = default_header_message, sh_signature = 0\<rparr>"

definition default_execution_payload :: execution_payload where
  "default_execution_payload = \<lparr>ep_parent_hash = 0, ep_fee_recipient = 0, ep_state_root = 0, ep_receipts_root = 0,
     ep_logs_bloom = replicate 256 0, ep_prev_randao = 0, ep_block_number = 0, ep_gas_limit = 0, ep_gas_used = 0,
     ep_timestamp = 0, ep_extra_data = [], ep_base_fee_per_gas = 0, ep_block_hash = 0, ep_transactions = [],
     ep_withdrawals = [], ep_blob_gas_used = 0, ep_excess_blob_gas = 0\<rparr>"

definition default_blobs_bundle :: blobs_bundle where
  "default_blobs_bundle = \<lparr>bb_commitments = [], bb_proofs = [], bb_blobs = []\<rparr>"

definition default_payload_and_blobs :: payload_and_blobs_electra where
  "default_payload_and_blobs =
     \<lparr>pb_execution_payload = default_execution_payload, pb_blobs_bundle = default_blobs_bundle\<rparr>"

text \<open>\<open>Default for VersionedResponse\<close>\<close>

definition default_versioned_response :: "'e \<Rightarrow> 'e versioned_response" where
  "default_versioned_response d = Electra d"

definition default_blinded_block_body :: blinded_beacon_block_body_electra where
  "default_blinded_block_body = \<lparr>bd_randao_reveal = 0,
     bd_eth1_data = \<lparr>e1_deposit_root = 0, e1_deposit_count = 0, e1_block_hash = 0\<rparr>,
     bd_graffiti = 0, bd_proposer_slashings = [], bd_attester_slashings = [], bd_attestations = [],
     bd_deposits = [], bd_voluntary_exits = [],
     bd_sync_aggregate = \<lparr>sa_sync_committee_bits = replicate 512 False, sa_sync_committee_signature = 0\<rparr>,
     bd_execution_payload_header = default_execution_payload_header, bd_bls_to_execution_changes = [],
     bd_blob_kzg_commitments = [], bd_execution_requests = default_execution_requests\<rparr>"

definition default_blinded_block :: blinded_beacon_block where
  "default_blinded_block = BlindedElectra \<lparr>bbb_slot = 0, bbb_proposer_index = 0, bbb_parent_root = 0,
     bbb_state_root = 0, bbb_body = default_blinded_block_body\<rparr>"

definition default_signed_blinded_block :: signed_blinded_beacon_block where
  "default_signed_blinded_block = \<lparr>sbb_message = default_blinded_block, sbb_signature = 0\<rparr>"

section \<open>The relay\<close>

record mock_relay_state =
  mr_chain :: chain
  mr_signer :: bls_secret_key
  mr_large_body :: bool
  mr_received_get_header :: u64
  mr_received_get_status :: u64
  mr_received_register_validator :: u64
  mr_received_submit_block :: u64
  mr_response_override :: "u16 option"

definition mock_relay_new :: "chain \<Rightarrow> bls_secret_key \<Rightarrow> mock_relay_state" where
  "mock_relay_new chain signer = \<lparr>mr_chain = chain, mr_signer = signer, mr_large_body = False,
     mr_received_get_header = 0, mr_received_get_status = 0, mr_received_register_validator = 0,
     mr_received_submit_block = 0, mr_response_override = None\<rparr>"

definition with_large_body :: "mock_relay_state \<Rightarrow> mock_relay_state" where
  "with_large_body s = s\<lparr>mr_large_body := True\<rparr>"

definition set_response_override :: "mock_relay_state \<Rightarrow> u16 \<Rightarrow> mock_relay_state" where
  "set_response_override s status = s\<lparr>mr_response_override := Some status\<rparr>"

text \<open>
  \<open>mk_path\<close> is the path of the URL of a request; \<open>mk_header_params\<close> what the pattern of the header route
  and the extractor of its parameters make of a path; \<open>mk_body_size\<close> the length of a request body; the
  others are the JSON encoders and \<open>Url::parse\<close>.
\<close>

record mocklib =
  mk_url_parse :: "string \<Rightarrow> (string, string) result"
  mk_path :: "string \<Rightarrow> string"
  mk_header_params :: "string \<Rightarrow> get_header_params option"
  mk_body_size :: "http_body \<Rightarrow> nat"
  mk_json_header :: "get_header_response \<Rightarrow> bytes"
  mk_json_payload :: "submit_blinded_block_response \<Rightarrow> bytes"
  mk_json_bytes :: "bytes \<Rightarrow> bytes"

record mock_reply =
  mp_status :: u16
  mp_body :: bytes

text \<open>The first byte of the block hash is one.\<close>

definition mock_header :: "crypto \<Rightarrow> mock_relay_state \<Rightarrow> b256 \<Rightarrow> get_header_response" where
  "mock_header C s parent_hash =
     (let message = sh_message default_signed_header;
          header = (hm_header message)\<lparr>eph_parent_hash := parent_hash, eph_block_hash := 2 ^ 248,
            eph_timestamp := timestamp_of_slot_start_sec 0 (mr_chain s)\<rparr>;
          message = message\<lparr>hm_header := header, hm_value := 10, hm_pubkey := blst_sk_to_pk C (mr_signer s)\<rparr>;
          object_root = th_header_message C message
      in Electra \<lparr>sh_message = message,
                  sh_signature = sign_builder_root C (mr_chain s) (mr_signer s) object_root\<rparr>)"

definition mock_handle_get_header ::
  "crypto \<Rightarrow> mocklib \<Rightarrow> get_header_params \<Rightarrow> mock_relay_state \<Rightarrow> mock_relay_state \<times> mock_reply" where
  "mock_handle_get_header C L params s =
     (s\<lparr>mr_received_get_header := mr_received_get_header s + 1\<rparr>,
      \<lparr>mp_status = 200, mp_body = mk_json_header L (mock_header C s (ghp_parent_hash params))\<rparr>)"

definition mock_handle_get_status :: "mock_relay_state \<Rightarrow> mock_relay_state \<times> mock_reply" where
  "mock_handle_get_status s =
     (s\<lparr>mr_received_get_status := mr_received_get_status s + 1\<rparr>, \<lparr>mp_status = 200, mp_body = []\<rparr>)"

definition mock_handle_register_validator ::
  "validator_registration list \<Rightarrow> mock_relay_state \<Rightarrow> mock_relay_state \<times> mock_reply" where
  "mock_handle_register_validator validators s =
     (s\<lparr>mr_received_register_validator := mr_received_register_validator s + 1\<rparr>,
      \<lparr>mp_status = (case mr_response_override s of Some status \<Rightarrow> status | None \<Rightarrow> 200), mp_body = []\<rparr>)"

definition mock_handle_submit_block_v1 ::
  "mocklib \<Rightarrow> mock_relay_state \<Rightarrow> mock_relay_state \<times> mock_reply" where
  "mock_handle_submit_block_v1 L s =
     (s\<lparr>mr_received_submit_block := mr_received_submit_block s + 1\<rparr>,
      \<lparr>mp_status = 200,
       mp_body = (if mr_large_body s then mk_json_bytes L (replicate (1 + MAX_SIZE_SUBMIT_BLOCK_RESPONSE) 1)
                  else mk_json_payload L (default_versioned_response default_payload_and_blobs))\<rparr>)"

definition mock_handle_submit_block_v2 :: "mock_relay_state \<Rightarrow> mock_relay_state \<times> mock_reply" where
  "mock_handle_submit_block_v2 s =
     (s\<lparr>mr_received_submit_block := mr_received_submit_block s + 1\<rparr>, \<lparr>mp_status = 202, mp_body = []\<rparr>)"

text \<open>
  The dispatch by path and method. A body that is not the JSON of registrations is refused by the extractor
  with 422, one above the default limit with 413.
\<close>

definition mock_relay_app_router ::
  "crypto \<Rightarrow> mocklib \<Rightarrow> http_request \<Rightarrow> mock_relay_state \<Rightarrow> mock_relay_state \<times> mock_reply" where
  "mock_relay_app_router C L req s =
     (let path = mk_path L (rq_url req); refuse = (\<lambda>code. (s, \<lparr>mp_status = code, mp_body = []\<rparr>)) in
      if path = BUILDER_V1_API_PATH @ GET_STATUS_PATH
      then (if rq_method req = GET then mock_handle_get_status s else refuse 405)
      else if path = BUILDER_V1_API_PATH @ REGISTER_VALIDATOR_PATH
      then (if rq_method req \<noteq> POST then refuse 405
            else if DEFAULT_BODY_LIMIT < mk_body_size L (rq_body req) then refuse 413
            else case rq_body req of JsonRegistrations rs \<Rightarrow> mock_handle_register_validator rs s | _ \<Rightarrow> refuse 422)
      else if path = BUILDER_V1_API_PATH @ SUBMIT_BLOCK_PATH
      then (if rq_method req = POST then mock_handle_submit_block_v1 L s else refuse 405)
      else if path = BUILDER_V2_API_PATH @ SUBMIT_BLOCK_PATH
      then (if rq_method req = POST then mock_handle_submit_block_v2 s else refuse 405)
      else case mk_header_params L path of
             Some params \<Rightarrow> if rq_method req = GET then mock_handle_get_header C L params s else refuse 405
           | None \<Rightarrow> refuse 404)"

section \<open>Clients and configurations\<close>

definition get_local_address :: "u16 \<Rightarrow> string" where
  "get_local_address port = ''http://0.0.0.0:'' @ decimal (unat port)"

definition mock_relay_config :: "u16 \<Rightarrow> bls_public_key \<Rightarrow> string \<Rightarrow> nat option \<Rightarrow> relay_config" where
  "mock_relay_config port pubkey url batch_size =
     \<lparr>rc_id = None, rc_entry = \<lparr>re_id = ''mock_'' @ decimal (unat port), re_pubkey = pubkey, re_url = url\<rparr>,
      rc_headers = None, rc_get_params = None, rc_enable_timing_games = False,
      rc_target_first_request_ms = None, rc_frequency_get_header_ms = None,
      rc_validator_registration_batch_size = batch_size\<rparr>"

definition generate_mock_relay ::
  "weblib \<Rightarrow> mocklib \<Rightarrow> u16 \<Rightarrow> bls_public_key \<Rightarrow> (string, relay_client) result" where
  "generate_mock_relay W L port pubkey =
     and_then (mk_url_parse L (get_local_address port)) (\<lambda>url.
       relay_client_new W (mock_relay_config port pubkey url None))"

definition generate_mock_relay_with_batch_size ::
  "weblib \<Rightarrow> mocklib \<Rightarrow> u16 \<Rightarrow> bls_public_key \<Rightarrow> nat \<Rightarrow> (string, relay_client) result" where
  "generate_mock_relay_with_batch_size W L port pubkey batch_size =
     and_then (mk_url_parse L (get_local_address port)) (\<lambda>url.
       relay_client_new W (mock_relay_config port pubkey url (Some batch_size)))"

definition get_pbs_config :: "u16 \<Rightarrow> pbs_config" where
  "get_pbs_config port = \<lparr>pc_host = 0, pc_port = port, pc_relay_check = True, pc_wait_all_registrations = True,
     pc_timeout_get_header_ms = - 1, pc_timeout_get_payload_ms = - 1, pc_timeout_register_validator_ms = - 1,
     pc_skip_sigverify = False, pc_min_bid_wei = 0, pc_late_in_slot_time_ms = - 1,
     pc_extra_validation_enabled = False, pc_rpc_url = None, pc_http_timeout_seconds = 10,
     pc_register_validator_retry_limit = - 1\<rparr>"

definition to_pbs_config :: "chain \<Rightarrow> pbs_config \<Rightarrow> relay_client list \<Rightarrow> pbs_module_config" where
  "to_pbs_config chain pbs_config relays =
     \<lparr>pm_chain = chain, pm_endpoint = SocketAddr (pc_host pbs_config) (pc_port pbs_config),
      pm_pbs_config = pbs_config, pm_relays = relays, pm_all_relays = relays, pm_signer_client = None,
      pm_event_publisher = None, pm_muxes = None\<rparr>"

section \<open>The validator\<close>

text \<open>
  A validator talks to the PBS module through a relay client. The calls are the requests they send, with the
  default headers and the time-out of the client (\<open>DEFAULT_REQUEST_TIMEOUT\<close>); \<open>unwrap\<close> on a URL that
  cannot be built panics.
\<close>

definition mock_validator_new :: "weblib \<Rightarrow> mocklib \<Rightarrow> u16 \<Rightarrow> (string, relay_client) result" where
  "mock_validator_new W L port = generate_mock_relay W L port 0"

definition DEFAULT_REQUEST_TIMEOUT :: u64 where
  "DEFAULT_REQUEST_TIMEOUT = 12000"

definition validator_request :: "relay_client \<Rightarrow> http_method \<Rightarrow> string \<Rightarrow> http_body \<Rightarrow> http_request" where
  "validator_request comm_boost verb url body =
     \<lparr>rq_method = verb, rq_url = url, rq_timeout_ms = DEFAULT_REQUEST_TIMEOUT, rq_headers = rl_default_headers comm_boost,
      rq_body = body\<rparr>"

definition send_unwrapped ::
  "(pbs_error, string) result \<Rightarrow> (string \<Rightarrow> (reqwest_error, response) result)
     \<Rightarrow> (pbs_error, response) result outcome" where
  "send_unwrapped url call = (case url of Inl _ \<Rightarrow> Panicked | Inr u \<Rightarrow> Returned (map_err Reqwest (call u)))"

definition do_get_header ::
  "weblib \<Rightarrow> http \<Rightarrow> relay_client \<Rightarrow> bls_public_key option \<Rightarrow> (pbs_error, response) result" where
  "do_get_header W http comm_boost pubkey =
     and_then (get_header_url W comm_boost 0 0 (case pubkey of Some k \<Rightarrow> k | None \<Rightarrow> 0)) (\<lambda>url.
       map_err Reqwest (snd (http (validator_request comm_boost GET url NoBody))))"

definition do_get_status :: "weblib \<Rightarrow> http \<Rightarrow> relay_client \<Rightarrow> (pbs_error, response) result" where
  "do_get_status W http comm_boost =
     and_then (get_status_url W comm_boost) (\<lambda>url.
       map_err Reqwest (snd (http (validator_request comm_boost GET url NoBody))))"

definition do_register_custom_validators ::
  "weblib \<Rightarrow> http \<Rightarrow> relay_client \<Rightarrow> validator_registration list \<Rightarrow> (pbs_error, response) result outcome" where
  "do_register_custom_validators W http comm_boost registrations =
     send_unwrapped (register_validator_url W comm_boost) (\<lambda>url.
       snd (http (validator_request comm_boost POST url (JsonRegistrations registrations))))"

definition do_register_validator :: "weblib \<Rightarrow> http \<Rightarrow> relay_client \<Rightarrow> (pbs_error, response) result outcome" where
  "do_register_validator W http comm_boost = do_register_custom_validators W http comm_boost []"

definition do_submit_block_impl ::
  "weblib \<Rightarrow> http \<Rightarrow> relay_client \<Rightarrow> signed_blinded_beacon_block option \<Rightarrow> builder_api_version
     \<Rightarrow> (pbs_error, response) result outcome" where
  "do_submit_block_impl W http comm_boost block api_version =
     send_unwrapped (submit_block_url W comm_boost api_version) (\<lambda>url.
       snd (http (validator_request comm_boost POST url
         (JsonBlindedBlock (case block of Some b \<Rightarrow> b | None \<Rightarrow> default_signed_blinded_block)))))"

definition do_submit_block_v1 ::
  "weblib \<Rightarrow> http \<Rightarrow> relay_client \<Rightarrow> signed_blinded_beacon_block option \<Rightarrow> (pbs_error, response) result outcome" where
  "do_submit_block_v1 W http comm_boost block = do_submit_block_impl W http comm_boost block V1"

definition do_submit_block_v2 ::
  "weblib \<Rightarrow> http \<Rightarrow> relay_client \<Rightarrow> signed_blinded_beacon_block option \<Rightarrow> (pbs_error, response) result outcome" where
  "do_submit_block_v2 W http comm_boost block = do_submit_block_impl W http comm_boost block V2"

end
