(* ===== verification/Relay_Liveness.thy ===== *)
theory Relay_Liveness
  imports Header_Properties Service_Properties Mock_Relay
begin

text \<open>
  Liveness of the PBS module towards an honest relay: whatever the other relays do, the bid of one relay
  that answers as it should (\<open>offers\<close>, \<open>unblinds\<close>) is not lost, and a block that one such relay unblinds is
  delivered. The mock relay of the repository's tests (theory Mock_Relay) is such a relay, and serves as the example.
\<close>

section \<open>A relay that delivers\<close>

text \<open>The response to a request carries a reply, in any number of chunks.\<close>

definition delivers :: "http \<Rightarrow> http_request \<Rightarrow> mock_reply \<Rightarrow> bool" where
  "delivers http req reply \<longleftrightarrow>
     (\<exists>t parts len. http req = (t, Ok \<lparr>resp_status = mp_status reply, resp_content_length = len,
          resp_chunks = map Ok parts\<rparr>) \<and>
        concat parts = mp_body reply \<and> (len = None \<or> len = Some (of_nat (length (mp_body reply)))))"

definition serves_mock :: "crypto \<Rightarrow> mocklib \<Rightarrow> mock_relay_state \<Rightarrow> http \<Rightarrow> bool" where
  "serves_mock C L s http \<longleftrightarrow> (\<forall>req. delivers http req (snd (mock_relay_app_router C L req s)))"

text \<open>
  What is relied on of the libraries. A URL that is joined from that of the relay and an absolute path has that path.
\<close>

definition mock_works :: "weblib \<Rightarrow> mocklib \<Rightarrow> relay_client \<Rightarrow> bool" where
  "mock_works W L relay \<longleftrightarrow>
     (\<forall>path. \<exists>url. url_join W (re_url (rc_entry (rl_config relay))) path = Ok url \<and> mk_path L url = path)"

text \<open>
  The route of headers matches the path that a client builds, and the JSON of the header that the relay answers with
  is decoded to it and is not too long.
\<close>

definition header_works :: "weblib \<Rightarrow> mocklib \<Rightarrow> get_header_params \<Rightarrow> get_header_response \<Rightarrow> bool" where
  "header_works W L params header \<longleftrightarrow>
     mk_header_params L (BUILDER_V1_API_PATH @
       get_header_path (ghp_slot params) (ghp_parent_hash params) (ghp_pubkey params)) = Some params \<and>
     json_get_header W (mk_json_header L header) = Ok header \<and>
     length (mk_json_header L header) \<le> MAX_SIZE_GET_HEADER_RESPONSE"

text \<open>The same for payloads; and every element of a JSON array takes at least one byte.\<close>

definition payload_works :: "weblib \<Rightarrow> mocklib \<Rightarrow> submit_blinded_block_response \<Rightarrow> bool" where
  "payload_works W L payload \<longleftrightarrow>
     json_submit_block W (mk_json_payload L payload) = Ok payload \<and>
     length (mk_json_payload L payload) \<le> MAX_SIZE_SUBMIT_BLOCK_RESPONSE \<and>
     (\<forall>bs. length bs \<le> length (mk_json_bytes L bs))"

lemma word_of_nat_le: "unat (of_nat n :: u64) \<le> n"
  by (simp add: unat_of_nat)

lemma read_delivered:
  assumes "concat parts = body" and "len = None \<or> len = Some (of_nat (length body))" and "length body \<le> n"
  shows "read_chunked_body_with_max \<lparr>resp_status = code, resp_content_length = len, resp_chunks = map Ok parts\<rparr> n = Ok body"
proof -
  have "unat (of_nat (length body) :: u64) \<le> n" using word_of_nat_le assms(3) by (rule order_trans)
  with assms read_chunks_enough [of "[]" parts n] show ?thesis
    by (auto simp: read_chunked_body_with_max_def not_less)
qed

text \<open>A body that is too long is refused, however it is cut into chunks.\<close>

lemma read_too_large:
  assumes "n < length (concat parts)"
  shows "\<exists>m l bs. read_chunked_body_with_max \<lparr>resp_status = code, resp_content_length = len, resp_chunks = map Ok parts\<rparr> n
    = Err (PayloadTooLarge m l bs)"
proof -
  have "\<exists>m l bs. read_chunks cl n acc (map Ok parts) = Err (PayloadTooLarge m l bs)"
    if "n < length acc + length (concat parts)" "length acc \<le> n" for cl acc
    using that by (induction parts arbitrary: acc) (auto simp: not_less)
  with assms show ?thesis by (auto simp: read_chunked_body_with_max_def split: option.splits)
qed

section \<open>Headers\<close>

lemma timed_header_returns:
  assumes "rc_enable_timing_games (rl_config relay) \<Longrightarrow> rc_frequency_get_header_ms (rl_config relay) \<noteq> Some 0"
  shows "\<exists>r. send_timed_get_header W C env params relay chain hs ms t v = Some r"
proof -
  have "tg_timeouts f t' \<noteq> None" if "f \<noteq> 0" for f t'
    using tg_timeouts_terminates [of f t'] that by (auto simp: word_gt_0_iff)
  with assms show ?thesis
    by (auto simp: send_timed_get_header_def Let_def split: sum.splits option.splits)
qed

lemma join_returns:
  assumes "\<forall>relay\<in>set relays. rc_enable_timing_games (rl_config relay) \<longrightarrow>
      rc_frequency_get_header_ms (rl_config relay) \<noteq> Some 0"
  shows "\<exists>results. join_get_headers W C env params chain hs ms t v relays = Some results"
proof -
  let ?send = "\<lambda>(i, relay). send_timed_get_header W C (env i) params relay chain hs ms t v"
  have "?send p \<noteq> None" if "p \<in> set (enumerate 0 relays)" for p
  proof -
    obtain i relay where p: "p = (i, relay)" by (cases p)
    with that have "relay \<in> set relays" by (auto simp: in_set_enumerate_eq)
    with assms timed_header_returns show ?thesis by (simp add: p)
  qed
  then have "map ?send (enumerate 0 relays) = map Some (map (\<lambda>p. the (?send p)) (enumerate 0 relays))"
    unfolding map_map comp_def by (intro map_cong refl) (metis option.collapse)
  then show ?thesis unfolding join_get_headers_def those_Some_iff by blast
qed

text \<open>
  A relay that offers a bid: its header URL is well formed, and it answers every request to it, the repeated ones of
  timing games too, in time and with 200, in any number of chunks, with a body below the limit that decodes to a
  header of at least the value that passes the checks of the module (with the parent block, if that is fetched).
  The headers may differ from one request to the next.
\<close>

definition offers ::
  "weblib \<Rightarrow> crypto \<Rightarrow> gh_env \<Rightarrow> relay_client \<Rightarrow> get_header_params \<Rightarrow> chain \<Rightarrow> validation_context \<Rightarrow> u256 \<Rightarrow> bool" where
  "offers W C env relay params chain v value \<longleftrightarrow>
     (\<exists>url. get_header_url W relay (ghp_slot params) (ghp_parent_hash params) (ghp_pubkey params) = Ok url \<and>
        (\<forall>k req. rq_method req = GET \<longrightarrow> rq_url req = url \<longrightarrow>
           (\<exists>body bid. delivers (ge_http env k) req \<lparr>mp_status = 200, mp_body = body\<rparr> \<and>
              length body \<le> MAX_SIZE_GET_HEADER_RESPONSE \<and> json_get_header W body = Ok bid \<and> value \<le> ghr_value bid \<and>
              header_acceptable C params relay chain (vc_skip_sigverify v) (vc_min_bid_wei v) bid \<and>
              (\<forall>parent. vc_extra_validation_enabled v \<longrightarrow> vc_parent_block v = Some parent \<longrightarrow>
                 extra_validation parent bid = Ok ()))))"

lemma offered_header_read:
  assumes "delivers http req \<lparr>mp_status = 200, mp_body = body\<rparr>" and "length body \<le> MAX_SIZE_GET_HEADER_RESPONSE"
    and "json_get_header W body = Ok bid" and "validate_get_header_response C params relay chain v bid = Ok ()"
    and "req = \<lparr>rq_method = GET, rq_url = url, rq_timeout_ms = t,
      rq_headers = hs(header_key HEADER_START_TIME_UNIX_MS \<mapsto> decimal (unat now)), rq_body = NoBody\<rparr>"
  shows "snd (send_one_get_header W C http now params relay chain
    \<lparr>rctx_url = url, rctx_timeout_ms = t, rctx_headers = hs\<rparr> v) = Ok (now, Some bid)"
proof -
  from assms(1) obtain d parts len where
    http: "http req = (d, Ok \<lparr>resp_status = 200, resp_content_length = len, resp_chunks = map Ok parts\<rparr>)"
    and parts: "concat parts = body" "len = None \<or> len = Some (of_nat (length body))" by (auto simp: delivers_def)
  from read_delivered [OF parts assms(2)] assms(3,4) http show ?thesis
    by (simp add: send_one_get_header_def Let_def observe_send_def is_success_def NO_CONTENT_def assms(5))
qed

lemma validate_at_request:
  assumes "header_acceptable C params relay chain (vc_skip_sigverify v) (vc_min_bid_wei v) bid"
    and "\<And>parent. vc_extra_validation_enabled v \<Longrightarrow> vc_parent_block v = Some parent \<Longrightarrow> extra_validation parent bid = Ok ()"
  shows "validate_get_header_response C params relay chain (cell_at env v k) bid = Ok ()"
  using assms unfolding validate_get_header_response_Ok_iff by (auto simp: cell_at_def split: if_splits)

text \<open>Of the joined requests of a relay all of which brought an offer, one is taken.\<close>

lemma collect_offers:
  assumes "\<And>k t. snd (one k t) = Ok (ge_now env k, Some (bid k t)) \<and> value \<le> ghr_value (bid k t)"
    and "ge_joined env 0" and "ts \<noteq> []"
  shows "\<exists>b. collect_timed env (map (\<lambda>(k, t). (k, one k t)) (enumerate 0 ts)) = Ok (Some b) \<and> value \<le> ghr_value b"
proof -
  let ?runs = "map (\<lambda>(k, t). (k, one k t)) (enumerate 0 ts)"
  let ?got = "List.map_filter (\<lambda>(k, r). if ge_joined env k then received_header (snd r) else None) ?runs"
  have got: "received_header (snd (one k t)) = Some (ge_now env k, Some (bid k t))" for k t
    using assms(1) [of k t] by (simp add: received_header_def)
  obtain t ts' where "ts = t # ts'" using assms(3) by (cases ts) auto
  with got [of 0 t] assms(2) have "?got \<noteq> []" by (simp add: map_filter_simps)
  then have "max_by_key fst ?got \<noteq> None" by simp
  then obtain p where p: "max_by_key fst ?got = Some p" by blast
  then have "p \<in> set ?got" by (rule max_by_key_SomeD [THEN conjunct1])
  then obtain k t where "p = (ge_now env k, Some (bid k t))" by (auto simp: map_filter_mem got split: if_splits)
  with p assms(1) [of k t] show ?thesis by (simp add: collect_timed_def)
qed

lemma offered_header_delivered:
  assumes "offers W C env relay params chain v value" and "ge_joined env 0"
    and "rc_enable_timing_games (rl_config relay) \<Longrightarrow> rc_frequency_get_header_ms (rl_config relay) \<noteq> Some 0"
  shows "\<exists>es bid. send_timed_get_header W C env params relay chain hs ms t v = Some (es, Ok (Some bid)) \<and>
    value \<le> ghr_value bid"
proof -
  from assms(1) obtain url where
    url: "get_header_url W relay (ghp_slot params) (ghp_parent_hash params) (ghp_pubkey params) = Ok url"
    and answered: "\<And>k req. rq_method req = GET \<Longrightarrow> rq_url req = url \<Longrightarrow>
      \<exists>body bid. delivers (ge_http env k) req \<lparr>mp_status = 200, mp_body = body\<rparr> \<and>
        length body \<le> MAX_SIZE_GET_HEADER_RESPONSE \<and> json_get_header W body = Ok bid \<and> value \<le> ghr_value bid \<and>
        header_acceptable C params relay chain (vc_skip_sigverify v) (vc_min_bid_wei v) bid \<and>
        (\<forall>parent. vc_extra_validation_enabled v \<longrightarrow> vc_parent_block v = Some parent \<longrightarrow>
           extra_validation parent bid = Ok ())" unfolding offers_def by blast
  let ?one = "\<lambda>k t. send_one_get_header W C (ge_http env k) (ge_now env k) params relay chain
    \<lparr>rctx_url = url, rctx_timeout_ms = t, rctx_headers = hs\<rparr> (cell_at env v k)"
  have one: "\<exists>bid. snd (?one k t) = Ok (ge_now env k, Some bid) \<and> value \<le> ghr_value bid" for k t
  proof -
    let ?req = "\<lparr>rq_method = GET, rq_url = url, rq_timeout_ms = t,
      rq_headers = hs(header_key HEADER_START_TIME_UNIX_MS \<mapsto> decimal (unat (ge_now env k))), rq_body = NoBody\<rparr>"
    from answered [of ?req k] obtain body bid where "delivers (ge_http env k) ?req \<lparr>mp_status = 200, mp_body = body\<rparr>"
      "length body \<le> MAX_SIZE_GET_HEADER_RESPONSE" "json_get_header W body = Ok bid" "value \<le> ghr_value bid"
      "validate_get_header_response C params relay chain (cell_at env v k) bid = Ok ()"
      using validate_at_request by (metis http_request.select_convs(1,2))
    with offered_header_read [OF _ _ _ _ refl] show ?thesis by blast
  qed
  from one obtain bid where bid: "\<And>k t. snd (?one k t) = Ok (ge_now env k, Some (bid k t)) \<and> value \<le> ghr_value (bid k t)"
    by metis
  show ?thesis
  proof (cases "if rc_enable_timing_games (rl_config relay) then rc_frequency_get_header_ms (rl_config relay) else None")
    case None
    with bid show ?thesis by (simp add: send_timed_get_header_def url Let_def)
  next
    case (Some f)
    with assms(3) have "0 < f" by (auto simp: word_gt_0_iff split: if_splits)
    have "\<exists>es b. map_option (\<lambda>ts. (concat (map (fst \<circ> snd) (map (\<lambda>(k, t). (k, ?one k t)) (enumerate 0 ts))),
        collect_timed env (map (\<lambda>(k, t). (k, ?one k t)) (enumerate 0 ts)))) (tg_timeouts f t') = Some (es, Ok (Some b)) \<and>
      value \<le> ghr_value b" for t'
    proof -
      from tg_timeouts_terminates [OF \<open>0 < f\<close>, of t'] obtain ts where ts: "tg_timeouts f t' = Some ts" "ts \<noteq> []" by blast
      from collect_offers [OF bid assms(2) ts(2)] ts(1) show ?thesis by simp
    qed
    then show ?thesis unfolding send_timed_get_header_def url sum.case Let_def Some option.case .
  qed
qed

text \<open>A delivered header is outbid or served.\<close>

lemma delivered_header_served:
  assumes "mux_config_and_relays st (ghp_pubkey params) = (cfg, relays, mid)"
    and "\<forall>relay\<in>set relays. rc_enable_timing_games (rl_config relay) \<longrightarrow>
           rc_frequency_get_header_ms (rl_config relay) \<noteq> Some 0"
    and "get_user_agent_with_version W hs = Ok ua"
    and "ms = ms_into_slot now (ghp_slot params) (pm_chain (st_config st))"
    and "max_header_timeout ms cfg \<noteq> 0" and "i < length relays"
    and "send_timed_get_header W C (env i) params (relays ! i) (pm_chain (st_config st)) [USER_AGENT \<mapsto> ua] ms
           (max_header_timeout ms cfg) (header_validation fetched st) = Some (es, Ok (Some bid))"
  shows "\<exists>effs best. get_header W C now env fetched params hs st = Some (effs, Ok (Some best)) \<and>
    ghr_value bid \<le> ghr_value best"
proof -
  from join_returns [OF assms(2)] obtain results where
    join: "join_get_headers W C env params (pm_chain (st_config st)) [USER_AGENT \<mapsto> ua] ms
      (max_header_timeout ms cfg) (header_validation fetched st) relays = Some results" by blast
  let ?bids = "concat (map snd (map (\<lambda>(relay, r). record_bid params (rl_id relay) (snd r)) (zip relays results)))"
  have get: "\<exists>effs. get_header W C now env fetched params hs st = Some (effs, Ok (max_by_key ghr_value ?bids))"
    using assms(1,3-5) join by (simp add: get_header_def Let_def)
  note nth = join_get_headers_nth [OF join]
  with assms(6,7) have "results ! i = (es, Ok (Some bid))" by simp
  then have bid: "bid \<in> set ?bids" using relay_bids_mem [of results relays bid params] nth assms(6) by auto
  then have "max_by_key ghr_value ?bids \<noteq> None" unfolding max_by_key_None_iff by (metis empty_iff list.set(1))
  then obtain best where best: "max_by_key ghr_value ?bids = Some best" by blast
  with max_by_key_SomeD [OF best] bid get show ?thesis by auto
qed

text \<open>
  The signature of a relay verifies if the domain of the builder on the chain, a constant for the known chains,
  is the one that is computed, and if the tree hash of a root is the root itself.
\<close>

definition builder_signing :: "crypto \<Rightarrow> chain \<Rightarrow> bool" where
  "builder_signing C chain \<longleftrightarrow>
     builder_domain C chain = compute_domain C chain APPLICATION_BUILDER_DOMAIN \<and> (\<forall>r. th_b256 C r = r)"

lemma mock_header_fields [simp]:
  "ghr_value (mock_header C s h) = 10" "ghr_parent_hash (mock_header C s h) = h"
  "ghr_pubkey (mock_header C s h) = blst_sk_to_pk C (mr_signer s)" "ghr_block_hash (mock_header C s h) \<noteq> 0"
  by (simp_all add: mock_header_def default_signed_header_def default_header_message_def Let_def)

lemma mock_header_acceptable:
  assumes "bls_complete C" and "builder_signing C (mr_chain s)" and "min_bid \<le> 10"
    and "relay_pubkey relay = blst_sk_to_pk C (mr_signer s)" and "ghp_slot params = 0"
  shows "header_acceptable C params relay (mr_chain s) skip min_bid (mock_header C s (ghp_parent_hash params))"
proof -
  have "verify_signed_message C (mr_chain s) (blst_sk_to_pk C (mr_signer s)) root
      (sign_builder_root C (mr_chain s) (mr_signer s) root) None APPLICATION_BUILDER_DOMAIN = Ok ()" for root
    using assms(1,2) verify_sign_message [OF assms(1)]
    by (simp add: verify_signed_message_def sign_builder_root_def compute_prop_commit_signing_root_def builder_signing_def)
  with assms(3-5) show ?thesis
    by (simp add: header_acceptable_def mock_header_def default_signed_header_def default_header_message_def
        default_execution_payload_header_def EMPTY_TX_ROOT_HASH_def Let_def)
qed

lemma mock_client:
  assumes "generate_mock_relay W L port pubkey = Ok relay"
  shows "relay_pubkey relay = pubkey" and "rc_get_params (rl_config relay) = None"
    and "\<not> rc_enable_timing_games (rl_config relay)"
  using assms
  by (auto simp: generate_mock_relay_def relay_client_new_def mock_relay_config_def relay_pubkey_def and_then_Ok_iff
      split: if_splits)

text \<open>The paths under which the relay is called.\<close>

lemma mock_urls:
  assumes "mock_works W L relay" and "rc_get_params (rl_config relay) = None"
  shows "\<exists>url. get_header_url W relay slot h k = Ok url \<and> mk_path L url = BUILDER_V1_API_PATH @ get_header_path slot h k"
    and "\<exists>url. submit_block_url W relay ver = Ok url \<and> mk_path L url = api_version_path ver @ SUBMIT_BLOCK_PATH"
  using assms
  by (simp_all add: mock_works_def get_header_url_def submit_block_url_def builder_api_url_def get_url_def)
    (metis and_then_simps(2) map_err_simps(2))+

lemma header_path_routes:
  assumes "mk_path L (rq_url req) =
      BUILDER_V1_API_PATH @ get_header_path (ghp_slot params) (ghp_parent_hash params) (ghp_pubkey params)"
    and "rq_method req = GET" and "header_works W L params header"
  shows "snd (mock_relay_app_router C L req s) =
    \<lparr>mp_status = 200, mp_body = mk_json_header L (mock_header C s (ghp_parent_hash params))\<rparr>"
proof -
  have "BUILDER_V1_API_PATH @ get_header_path slot h k \<noteq> BUILDER_V1_API_PATH @ GET_STATUS_PATH"
    "BUILDER_V1_API_PATH @ get_header_path slot h k \<noteq> BUILDER_V1_API_PATH @ REGISTER_VALIDATOR_PATH"
    "BUILDER_V1_API_PATH @ get_header_path slot h k \<noteq> BUILDER_V1_API_PATH @ SUBMIT_BLOCK_PATH"
    "BUILDER_V1_API_PATH @ get_header_path slot h k \<noteq> BUILDER_V2_API_PATH @ SUBMIT_BLOCK_PATH" for slot h k
    by (simp_all add: get_header_path_def GET_STATUS_PATH_def REGISTER_VALIDATOR_PATH_def SUBMIT_BLOCK_PATH_def
        BUILDER_V1_API_PATH_def BUILDER_V2_API_PATH_def)
  with assms show ?thesis
    by (simp add: mock_relay_app_router_def Let_def mock_handle_get_header_def header_works_def
        del: append_same_eq same_append_eq)
qed

text \<open>The mock relay offers its bid of 10 wei for slot 0, for which it has headers.\<close>

lemma mock_offers:
  assumes "mock_works W L relay" and "\<And>k. serves_mock C L s (ge_http env k)"
    and "generate_mock_relay W L port (blst_sk_to_pk C (mr_signer s)) = Ok relay"
    and "header_works W L params (mock_header C s (ghp_parent_hash params))"
    and "bls_complete C" and "builder_signing C (mr_chain s)" and "ghp_slot params = 0"
    and "vc_min_bid_wei v \<le> 10" and "\<not> vc_extra_validation_enabled v"
  shows "offers W C env relay params (mr_chain s) v 10"
proof -
  note client = mock_client [OF assms(3)]
  let ?bid = "mock_header C s (ghp_parent_hash params)"
  let ?body = "mk_json_header L ?bid"
  from mock_urls(1) [OF assms(1) client(2)] obtain url where
    url: "get_header_url W relay (ghp_slot params) (ghp_parent_hash params) (ghp_pubkey params) = Ok url"
    and path: "mk_path L url = BUILDER_V1_API_PATH @ get_header_path (ghp_slot params) (ghp_parent_hash params) (ghp_pubkey params)"
    by blast
  have "delivers (ge_http env k) req \<lparr>mp_status = 200, mp_body = ?body\<rparr>" if "rq_method req = GET" "rq_url req = url" for k req
    using spec [OF assms(2) [unfolded serves_mock_def], of k req] header_path_routes [OF _ that(1) assms(4)] path that(2) by simp
  moreover have "json_get_header W ?body = Ok ?bid" "length ?body \<le> MAX_SIZE_GET_HEADER_RESPONSE"
    using assms(4) by (simp_all add: header_works_def)
  moreover have "header_acceptable C params relay (mr_chain s) (vc_skip_sigverify v) (vc_min_bid_wei v) ?bid"
    by (rule mock_header_acceptable [OF assms(5,6,8) client(1) assms(7)])
  moreover have "(10 :: u256) \<le> ghr_value ?bid" by simp
  ultimately show ?thesis using url assms(9) unfolding offers_def by blast
qed

text \<open>
  C10. A bid of an honest relay is served or outbid: if one of the relays of a validator answers every request for a
  header in time, with 200 and a decodable header of at least the given value that passes the checks, then the request
  of the validator is answered with 200 and an acceptable bid of at least that value, on the requested parent block,
  whatever the other relays do. This holds for every slot, minimum bid and setting of the extra validation, and with
  timing games for that relay (of which the first request is joined); no relay may poll with frequency zero.
\<close>

theorem honest_bid_served:
  assumes "mux_config_and_relays st (ghp_pubkey params) = (cfg, relays, mid)" and "i < length relays"
    and "offers W C (env i) (relays ! i) params (pm_chain (st_config st)) (header_validation fetched st) value"
    and "ge_joined (env i) 0"
    and "\<forall>relay\<in>set relays. rc_enable_timing_games (rl_config relay) \<longrightarrow>
           rc_frequency_get_header_ms (rl_config relay) \<noteq> Some 0"
    and "get_user_agent_with_version W hs = Ok ua"
    and "max_header_timeout (ms_into_slot now (ghp_slot params) (pm_chain (st_config st))) cfg \<noteq> 0"
  shows "\<exists>effs best. handle_get_header W C now env fetched st hs params =
      Some (effs, \<lparr>rp_status = 200, rp_body = HeaderBody best\<rparr>) \<and>
    value \<le> ghr_value best \<and> ghr_parent_hash best = ghp_parent_hash params \<and>
    (\<exists>relay\<in>set relays. header_acceptable C params relay (pm_chain (st_config st))
       (pc_skip_sigverify (st_pbs_config st)) (pc_min_bid_wei (st_pbs_config st)) best)"
proof -
  let ?v = "header_validation fetched st" and ?ms = "ms_into_slot now (ghp_slot params) (pm_chain (st_config st))"
  have "rc_enable_timing_games (rl_config (relays ! i)) \<Longrightarrow> rc_frequency_get_header_ms (rl_config (relays ! i)) \<noteq> Some 0"
    using assms(2,5) by (meson nth_mem)
  from offered_header_delivered [OF assms(3,4) this] obtain es bid where
    "send_timed_get_header W C (env i) params (relays ! i) (pm_chain (st_config st)) [USER_AGENT \<mapsto> ua] ?ms
      (max_header_timeout ?ms cfg) ?v = Some (es, Ok (Some bid))" and least: "value \<le> ghr_value bid" by blast
  from delivered_header_served [where env = env and i = i and now = now, OF assms(1,5,6) refl assms(7,2) this(1)] obtain effs best where
    best: "get_header W C now env fetched params hs st = Some (effs, Ok (Some best))" "ghr_value bid \<le> ghr_value best" by blast
  from get_header_bid [OF best(1) assms(1)] obtain j k where "j < length relays"
    "validate_get_header_response C params (relays ! j) (pm_chain (st_config st)) (cell_at (env j) ?v k) best = Ok ()" by blast
  then have "\<exists>relay\<in>set relays. header_acceptable C params relay (pm_chain (st_config st))
       (pc_skip_sigverify (st_pbs_config st)) (pc_min_bid_wei (st_pbs_config st)) best"
    unfolding validate_get_header_response_Ok_iff by (auto simp: header_validation_def)
  with best order_trans [OF least best(2)] show ?thesis
    by (auto simp: handle_get_header_def Let_def header_acceptable_def)
qed

text \<open>A custom chain, a relay on port 1 and the libraries with which it is reached.\<close>

definition demo_mock :: mock_relay_state where
  "demo_mock = mock_relay_new (Custom 0 12 0) 5"

definition demo_mock_params :: get_header_params where
  "demo_mock_params = \<lparr>ghp_slot = 0, ghp_parent_hash = 11, ghp_pubkey = 77\<rparr>"

definition demo_mocklib :: mocklib where
  "demo_mocklib = \<lparr>mk_url_parse = Ok, mk_path = drop (length (get_local_address 1)),
     mk_header_params = (\<lambda>_. Some demo_mock_params), mk_body_size = (\<lambda>_. 0), mk_json_header = (\<lambda>_. [1]),
     mk_json_payload = (\<lambda>_. [2]), mk_json_bytes = id\<rparr>"

definition demo_mock_web :: weblib where
  "demo_mock_web = demo_web\<lparr>json_get_header := (\<lambda>_. Ok (mock_header demo_crypto demo_mock 11)),
     json_submit_block := (\<lambda>_. Ok (default_versioned_response default_payload_and_blobs))\<rparr>"

definition demo_mock_relay :: relay_client where
  "demo_mock_relay = \<lparr>rl_id = ''mock_'' @ decimal 1, rl_default_headers = [header_key HEADER_VERSION_KEY \<mapsto> HEADER_VERSION_VALUE],
     rl_config = mock_relay_config 1 5 (get_local_address 1) None\<rparr>"

definition demo_mock_net :: http where
  "demo_mock_net req = (let reply = snd (mock_relay_app_router demo_crypto demo_mocklib req demo_mock) in
     (3, Ok \<lparr>resp_status = mp_status reply, resp_content_length = None, resp_chunks = [Ok (mp_body reply)]\<rparr>))"

definition demo_mock_state :: "unit pbs_state" where
  "demo_mock_state = pbs_state_new (to_pbs_config (Custom 0 12 0) (get_pbs_config 18550) [demo_relay, demo_mock_relay])"

lemma demo_mock_serves: "serves_mock demo_crypto demo_mocklib demo_mock demo_mock_net"
  unfolding serves_mock_def delivers_def demo_mock_net_def Let_def
  by (intro allI exI [of _ 3] exI [of _ "[_]"] exI [of _ None]) simp

lemma demo_mock_setup:
  "generate_mock_relay demo_mock_web demo_mocklib 1 (blst_sk_to_pk demo_crypto (mr_signer demo_mock)) = Ok demo_mock_relay"
  "mock_works demo_mock_web demo_mocklib demo_mock_relay"
  "builder_signing demo_crypto (mr_chain demo_mock)"
  "\<exists>ua. get_user_agent_with_version demo_mock_web Map.empty = Ok ua"
  by (simp_all add: generate_mock_relay_def demo_mocklib_def relay_client_new_def demo_mock_web_def demo_web_def
      demo_mock_relay_def mock_relay_config_def relay_config_id_def demo_crypto_def demo_mock_def mock_relay_new_def
      mock_works_def builder_signing_def get_user_agent_with_version_def Let_def)

lemma demo_mock_state_fields:
  "pm_chain (st_config demo_mock_state) = mr_chain demo_mock" "st_pbs_config demo_mock_state = get_pbs_config 18550"
  "all_relays demo_mock_state = [demo_relay, demo_mock_relay]" "\<not> extra_validation_enabled demo_mock_state"
  "mux_config_and_relays demo_mock_state k = (get_pbs_config 18550, [demo_relay, demo_mock_relay], None)"
  by (simp_all add: demo_mock_state_def pbs_state_new_def to_pbs_config_def mux_config_and_relays_def st_pbs_config_def
      all_relays_def extra_validation_enabled_def demo_mock_def mock_relay_new_def get_pbs_config_def)

theorem honest_bid_served_witness:
  "\<exists>effs best. handle_get_header demo_mock_web demo_crypto 5 (\<lambda>i. demo_gh_env\<lparr>ge_http := \<lambda>_. if i = 0 then refused else demo_mock_net\<rparr>)
      (Ok None) demo_mock_state Map.empty demo_mock_params = Some (effs, \<lparr>rp_status = 200, rp_body = HeaderBody best\<rparr>) \<and>
    10 \<le> ghr_value best"
proof -
  let ?env = "\<lambda>i::nat. demo_gh_env\<lparr>ge_http := \<lambda>_. if i = 0 then refused else demo_mock_net\<rparr>"
  let ?relays = "[demo_relay, demo_mock_relay]" and ?v = "header_validation (Ok None) demo_mock_state"
  obtain ua where ua: "get_user_agent_with_version demo_mock_web Map.empty = Ok ua" using demo_mock_setup(4) by blast
  have relay: "?relays ! 1 = demo_mock_relay" "1 < length ?relays"
    "\<forall>relay\<in>set ?relays. rc_enable_timing_games (rl_config relay) \<longrightarrow> rc_frequency_get_header_ms (rl_config relay) \<noteq> Some 0"
    by (simp_all add: demo_mock_relay_def mock_relay_config_def)
  have net: "serves_mock demo_crypto demo_mocklib demo_mock (ge_http (?env 1) k)" for k using demo_mock_serves by simp
  have works: "header_works demo_mock_web demo_mocklib demo_mock_params
      (mock_header demo_crypto demo_mock (ghp_parent_hash demo_mock_params))"
    by (simp add: header_works_def demo_mock_web_def demo_mocklib_def demo_mock_params_def MAX_SIZE_GET_HEADER_RESPONSE_def)
  have "offers demo_mock_web demo_crypto (?env 1) demo_mock_relay demo_mock_params (mr_chain demo_mock) ?v 10"
    by (rule mock_offers [OF demo_mock_setup(2) net demo_mock_setup(1) works demo_bls_complete demo_mock_setup(3)])
      (simp_all add: demo_mock_params_def header_validation_def demo_mock_state_fields get_pbs_config_def)
  then have offer: "offers demo_mock_web demo_crypto (?env 1) (?relays ! 1) demo_mock_params
      (pm_chain (st_config demo_mock_state)) ?v 10" unfolding relay(1) demo_mock_state_fields(1) .
  have early: "max_header_timeout (ms_into_slot 5 (ghp_slot demo_mock_params) (pm_chain (st_config demo_mock_state)))
      (get_pbs_config 18550) \<noteq> 0"
    unfolding demo_mock_state_fields demo_mock_def mock_relay_new_def get_pbs_config_def demo_mock_params_def by code_simp
  have "ge_joined (?env 1) 0" by (simp add: demo_gh_env_def)
  from honest_bid_served [where i = 1 and env = ?env, OF demo_mock_state_fields(5) relay(2) offer this relay(3) ua early]
  show ?thesis by blast
qed

section \<open>Payloads\<close>

lemma submit_path_routes:
  assumes "mk_path L (rq_url req) = api_version_path ver @ SUBMIT_BLOCK_PATH" and "rq_method req = POST"
  shows "snd (mock_relay_app_router C L req s) =
    snd (case ver of V1 \<Rightarrow> mock_handle_submit_block_v1 L s | V2 \<Rightarrow> mock_handle_submit_block_v2 s)"
proof -
  have "api_version_path ver @ SUBMIT_BLOCK_PATH \<noteq> BUILDER_V1_API_PATH @ GET_STATUS_PATH"
    "api_version_path ver @ SUBMIT_BLOCK_PATH \<noteq> BUILDER_V1_API_PATH @ REGISTER_VALIDATOR_PATH"
    "BUILDER_V2_API_PATH @ SUBMIT_BLOCK_PATH \<noteq> BUILDER_V1_API_PATH @ SUBMIT_BLOCK_PATH"
    by (cases ver; simp add: GET_STATUS_PATH_def REGISTER_VALIDATOR_PATH_def SUBMIT_BLOCK_PATH_def
        BUILDER_V1_API_PATH_def BUILDER_V2_API_PATH_def)+
  with assms show ?thesis
    by (cases ver) (simp_all add: mock_relay_app_router_def Let_def del: append_same_eq same_append_eq)
qed

text \<open>The reply to a submitted block, and what one request to the relay gives.\<close>

definition mock_submit_reply :: "mocklib \<Rightarrow> mock_relay_state \<Rightarrow> builder_api_version \<Rightarrow> mock_reply" where
  "mock_submit_reply L s ver =
     snd (case ver of V1 \<Rightarrow> mock_handle_submit_block_v1 L s | V2 \<Rightarrow> mock_handle_submit_block_v2 s)"

text \<open>
  A relay that unblinds a block: its URL is well formed, and it answers the request that carries the block in time
  with a success status, in any number of chunks, with a body below the limit; with version 1 the body decodes to a
  payload that matches the block.
\<close>

definition unblinds ::
  "weblib \<Rightarrow> http \<Rightarrow> relay_client \<Rightarrow> builder_api_version \<Rightarrow> signed_blinded_beacon_block \<Rightarrow> bool" where
  "unblinds W http relay ver block \<longleftrightarrow>
     (\<exists>url. submit_block_url W relay ver = Ok url \<and>
        (\<forall>req. rq_method req = POST \<longrightarrow> rq_url req = url \<longrightarrow> rq_body req = JsonBlindedBlock block \<longrightarrow>
           (\<exists>status body. delivers http req \<lparr>mp_status = status, mp_body = body\<rparr> \<and> is_success status \<and>
              length body \<le> MAX_SIZE_SUBMIT_BLOCK_RESPONSE \<and>
              (ver = V1 \<longrightarrow> (\<exists>payload. json_submit_block W body = Ok payload \<and> payload_matches block payload)))))"

lemma matching_payload_accepted:
  assumes "json_submit_block W body = Ok payload" and "payload_matches block payload" and "is_success (resp_status res)"
    and "read_chunked_body_with_max res MAX_SIZE_SUBMIT_BLOCK_RESPONSE = Ok body"
    and "http \<lparr>rq_method = POST, rq_url = url, rq_timeout_ms = timeout, rq_headers = hs,
      rq_body = JsonBlindedBlock block\<rparr> = (t, Ok res)"
  shows "snd (send_submit_block W http url block relay hs timeout V1) = Ok (Some payload)"
proof -
  obtain b where b: "sbb_message block = BlindedElectra b" by (cases "sbb_message block")
  obtain r where r: "payload = Electra r" by (cases payload)
  have "sbb_block_hash block = submit_response_block_hash payload" "validate_unblinded_block_electra W b r = Ok ()"
    using assms(2) b r by (simp_all add: payload_matches_def validate_unblinded_block_electra_Ok_iff)
  with assms b r show ?thesis by (simp add: send_submit_block_def Let_def observe_send_def)
qed

lemma unblinding_submit_works:
  assumes "unblinds W (rt_http env 0) relay ver block"
  shows "\<exists>effs clk res. submit_block_with_timeout W env block relay hs timeout ver = Some (effs, clk, Ok res)"
proof -
  from assms obtain url where url: "submit_block_url W relay ver = Ok url"
    and answered: "\<And>req. rq_method req = POST \<Longrightarrow> rq_url req = url \<Longrightarrow> rq_body req = JsonBlindedBlock block \<Longrightarrow>
      \<exists>status body. delivers (rt_http env 0) req \<lparr>mp_status = status, mp_body = body\<rparr> \<and> is_success status \<and>
        length body \<le> MAX_SIZE_SUBMIT_BLOCK_RESPONSE \<and>
        (ver = V1 \<longrightarrow> (\<exists>payload. json_submit_block W body = Ok payload \<and> payload_matches block payload))"
    unfolding unblinds_def by blast
  let ?req = "\<lparr>rq_method = POST, rq_url = url, rq_timeout_ms = timeout, rq_headers = hs, rq_body = JsonBlindedBlock block\<rparr>"
  from answered [of ?req] obtain status body where "delivers (rt_http env 0) ?req \<lparr>mp_status = status, mp_body = body\<rparr>"
    and reply: "is_success status" "length body \<le> MAX_SIZE_SUBMIT_BLOCK_RESPONSE"
      "ver = V1 \<longrightarrow> (\<exists>payload. json_submit_block W body = Ok payload \<and> payload_matches block payload)" by auto
  then obtain t parts len where http: "rt_http env 0 ?req = (t, Ok \<lparr>resp_status = status, resp_content_length = len,
      resp_chunks = map Ok parts\<rparr>)" "concat parts = body" "len = None \<or> len = Some (of_nat (length body))"
    by (auto simp: delivers_def)
  have "\<exists>out. snd (send_submit_block W (rt_http env 0) url block relay hs timeout ver) = Ok out"
  proof (cases ver)
    case V1
    with reply(3) obtain payload where "json_submit_block W body = Ok payload" "payload_matches block payload" by blast
    with matching_payload_accepted [where http = "rt_http env 0", OF _ _ _ _ http(1)] reply(1) V1
      read_delivered [OF http(2,3) reply(2)] show ?thesis by auto
  next
    case V2
    with http(1) reply(1) read_delivered [OF http(2,3) reply(2)] show ?thesis
      by (simp add: send_submit_block_def Let_def observe_send_def)
  qed
  then show ?thesis
    unfolding submit_block_with_timeout_def url sum.case by (subst submit_loop.simps) (auto simp: Let_def)
qed

lemma delivers_eta:
  "delivers http req \<lparr>mp_status = mp_status reply, mp_body = mp_body reply\<rparr> \<longleftrightarrow> delivers http req reply"
  by (simp add: delivers_def)

text \<open>The mock relay unblinds every block that its default payload matches, and with version 2 every block.\<close>

lemma mock_unblinds:
  assumes "mock_works W L relay" and "generate_mock_relay W L port pubkey = Ok relay" and "serves_mock C L s http"
    and "\<not> mr_large_body s" and "payload_works W L payload" and "payload = default_versioned_response default_payload_and_blobs"
    and "ver = V1 \<Longrightarrow> payload_matches block payload"
  shows "unblinds W http relay ver block"
proof -
  from mock_urls(2) [OF assms(1) mock_client(2) [OF assms(2)]] obtain url where
    url: "submit_block_url W relay ver = Ok url" "mk_path L url = api_version_path ver @ SUBMIT_BLOCK_PATH" by blast
  have delivered: "delivers http req (mock_submit_reply L s ver)" if "rq_method req = POST" "rq_url req = url" for req
    using spec [OF assms(3) [unfolded serves_mock_def], of req] submit_path_routes [of L req ver C s] url(2) that
    by (simp add: mock_submit_reply_def)
  have body: "length (mp_body (mock_submit_reply L s ver)) \<le> MAX_SIZE_SUBMIT_BLOCK_RESPONSE"
    "is_success (mp_status (mock_submit_reply L s ver))"
    "ver = V1 \<longrightarrow> json_submit_block W (mp_body (mock_submit_reply L s ver)) = Ok payload"
    using assms(4-6) by (cases ver; simp add: mock_submit_reply_def mock_handle_submit_block_v1_def
        mock_handle_submit_block_v2_def payload_works_def is_success_def)+
  have "\<exists>status body. delivers http req \<lparr>mp_status = status, mp_body = body\<rparr> \<and> is_success status \<and>
      length body \<le> MAX_SIZE_SUBMIT_BLOCK_RESPONSE \<and>
      (ver = V1 \<longrightarrow> (\<exists>payload. json_submit_block W body = Ok payload \<and> payload_matches block payload))"
    if "rq_method req = POST" "rq_url req = url" for req
    using delivered [OF that] body assms(7)
    by (intro exI [of _ "mp_status (mock_submit_reply L s ver)"] exI [of _ "mp_body (mock_submit_reply L s ver)"]) (auto simp: delivers_eta)
  with url(1) show ?thesis unfolding unblinds_def by blast
qed

text \<open>
  C12. A block that an honest relay unblinds is delivered: if one of the relays answers the first request that carries
  the block in time, below the size limit and with a success status, with a payload that matches the block, then the
  block is answered with 200 and a payload that matches it (that of the relay that wins the race); with version 2,
  where relays return no payload, a success status is enough for the answer 202. What the other relays do, and in
  which order they end, does not matter.
\<close>

theorem honest_relay_unblinds:
  assumes "i < length (all_relays st)" and "i \<in> set order" and "get_user_agent_with_version W hs = Ok ua"
  shows "(unblinds W (rt_http (env i) 0) (all_relays st ! i) V1 block \<longrightarrow>
      (\<exists>effs payload. handle_submit_block_v1 W now env order st hs block =
           (effs, Returned \<lparr>rp_status = 200, rp_body = PayloadBody payload\<rparr>) \<and> payload_matches block payload)) \<and>
    (unblinds W (rt_http (env i) 0) (all_relays st ! i) V2 block \<longrightarrow>
      (\<exists>effs. handle_submit_block_v2 W now env order st hs block =
         (effs, Returned \<lparr>rp_status = 202, rp_body = EmptyBody\<rparr>)))"
proof -
  have ok: "\<exists>res. snd (submit_block W now env order block hs st ver) = Returned (Ok res)"
    if "unblinds W (rt_http (env i) 0) (all_relays st ! i) ver block" for ver
  proof -
    define headers where "headers = [header_key HEADER_START_TIME_UNIX_MS \<mapsto> decimal (unat now), USER_AGENT \<mapsto> ua]"
    let ?runs = "submit_relay_runs W env block headers st ver"
    from unblinding_submit_works [OF that] obtain effs clk res where
      "?runs ! i = Some (effs, clk, Ok res)" using submit_runs_nth [OF assms(1)] by metis
    with assms(1,2) have "(effs, Ok res) \<in> set (completed order ?runs)" by (intro completed_memI) simp_all
    then have "\<exists>res. snd (race (completed order ?runs)) = Some (Ok res)" using race_ok_iff by blast
    then show ?thesis unfolding submit_block_outcome [OF assms(3) headers_def] by auto
  qed
  have "\<exists>effs payload. handle_submit_block_v1 W now env order st hs block =
      (effs, Returned \<lparr>rp_status = 200, rp_body = PayloadBody payload\<rparr>) \<and> payload_matches block payload"
    if "unblinds W (rt_http (env i) 0) (all_relays st ! i) V1 block"
  proof -
    from ok [OF that] obtain res where res: "snd (submit_block W now env order block hs st V1) = Returned (Ok res)" by blast
    with submit_block_Ok [OF res] show ?thesis
      by (cases res) (auto simp: handle_submit_block_v1_def handle_submit_block_impl_def Let_def split: prod.split)
  qed
  moreover have "\<exists>effs. handle_submit_block_v2 W now env order st hs block =
      (effs, Returned \<lparr>rp_status = 202, rp_body = EmptyBody\<rparr>)"
    if "unblinds W (rt_http (env i) 0) (all_relays st ! i) V2 block"
  proof -
    from ok [OF that] obtain res where res: "snd (submit_block W now env order block hs st V2) = Returned (Ok res)" by blast
    with submit_block_Ok [OF res] show ?thesis
      by (cases res) (auto simp: handle_submit_block_v2_def handle_submit_block_impl_def Let_def split: prod.split)
  qed
  ultimately show ?thesis by blast
qed

theorem honest_relay_unblinds_witness:
  "\<exists>effs payload. handle_submit_block_v1 demo_mock_web 7 (\<lambda>i. constant_net (if i = 0 then refused else demo_mock_net)) [1, 0]
      demo_mock_state Map.empty default_signed_blinded_block =
    (effs, Returned \<lparr>rp_status = 200, rp_body = PayloadBody payload\<rparr>) \<and> payload_matches default_signed_blinded_block payload"
proof -
  let ?env = "\<lambda>i::nat. constant_net (if i = 0 then refused else demo_mock_net)"
  obtain ua where ua: "get_user_agent_with_version demo_mock_web Map.empty = Ok ua" using demo_mock_setup(4) by blast
  have relay: "all_relays demo_mock_state ! 1 = demo_mock_relay" "1 < length (all_relays demo_mock_state)" "1 \<in> set [1, 0::nat]"
    by (simp_all add: demo_mock_state_fields)
  have net: "serves_mock demo_crypto demo_mocklib demo_mock (rt_http (?env 1) 0)"
    using demo_mock_serves by (simp add: constant_net_def)
  have works: "payload_works demo_mock_web demo_mocklib (default_versioned_response default_payload_and_blobs)"
    by (simp add: payload_works_def demo_mock_web_def demo_mocklib_def MAX_SIZE_SUBMIT_BLOCK_RESPONSE_def)
  have small: "\<not> mr_large_body demo_mock" by (simp add: demo_mock_def mock_relay_new_def)
  have matches: "payload_matches default_signed_blinded_block (default_versioned_response default_payload_and_blobs)"
    by (simp add: payload_matches_def default_versioned_response_def default_payload_and_blobs_def payload_block_hash_def
        default_execution_payload_def default_signed_blinded_block_def default_blinded_block_def sbb_block_hash_def
        default_blinded_block_body_def default_execution_payload_header_def default_blobs_bundle_def)
  have "unblinds demo_mock_web (rt_http (?env 1) 0) (all_relays demo_mock_state ! 1) V1 default_signed_blinded_block"
    unfolding relay(1) by (rule mock_unblinds [OF demo_mock_setup(2,1) net small works refl matches])
  with honest_relay_unblinds [where env = ?env, OF relay(2,3) ua] show ?thesis by blast
qed

section \<open>Payloads that are too long\<close>

lemma large_submit_fails:
  assumes "mock_works W L relay" and "generate_mock_relay W L port pubkey = Ok relay" and "serves_mock C L s (rt_http env 0)"
    and "mr_large_body s" and "payload_works W L payload"
  shows "\<exists>effs clk e. submit_block_with_timeout W env block relay hs timeout V1 = Some (effs, clk, Err e)"
proof -
  from mock_urls(2) [OF assms(1) mock_client(2) [OF assms(2)], of V1] obtain url where
    url: "submit_block_url W relay V1 = Ok url" "mk_path L url = api_version_path V1 @ SUBMIT_BLOCK_PATH" by blast
  let ?req = "\<lparr>rq_method = POST, rq_url = url, rq_timeout_ms = timeout, rq_headers = hs, rq_body = JsonBlindedBlock block\<rparr>"
  have "delivers (rt_http env 0) ?req (mock_submit_reply L s V1)"
    using spec [OF assms(3) [unfolded serves_mock_def], of ?req] submit_path_routes [of L ?req V1 C s] url(2)
    by (simp add: mock_submit_reply_def)
  then obtain t parts len where http: "rt_http env 0 ?req = (t, Ok \<lparr>resp_status = mp_status (mock_submit_reply L s V1),
      resp_content_length = len, resp_chunks = map Ok parts\<rparr>)" "concat parts = mp_body (mock_submit_reply L s V1)"
    unfolding delivers_def by blast
  have "MAX_SIZE_SUBMIT_BLOCK_RESPONSE < length (mk_json_bytes L (replicate (1 + MAX_SIZE_SUBMIT_BLOCK_RESPONSE) 1))"
    using assms(5) [unfolded payload_works_def, THEN conjunct2, THEN conjunct2,
        THEN spec, of "replicate (1 + MAX_SIZE_SUBMIT_BLOCK_RESPONSE) 1"] by simp
  then have "MAX_SIZE_SUBMIT_BLOCK_RESPONSE < length (concat parts)"
    using assms(4) http(2) by (simp add: mock_submit_reply_def mock_handle_submit_block_v1_def)
  from read_too_large [OF this] obtain m l bs where
    "read_chunked_body_with_max \<lparr>resp_status = mp_status (mock_submit_reply L s V1), resp_content_length = len,
       resp_chunks = map Ok parts\<rparr> MAX_SIZE_SUBMIT_BLOCK_RESPONSE = Err (PayloadTooLarge m l bs)" by blast
  then have "snd (send_submit_block W (rt_http env 0) url block relay hs timeout V1) = Err (ReadResponse (PayloadTooLarge m l bs))"
    by (simp add: send_submit_block_def Let_def http(1) observe_send_def)
  then show ?thesis
    unfolding submit_block_with_timeout_def url(1) sum.case by (subst submit_loop.simps) (simp add: Let_def)
qed

text \<open>
  If every relay answers with a body above the limit, however it is cut into chunks, the block is answered
  with 502 after the event of a missed payload.
\<close>

theorem large_payload_refused:
  assumes "\<forall>i<length (all_relays st). \<exists>port pubkey C s. mock_works W L (all_relays st ! i) \<and>
      generate_mock_relay W L port pubkey = Ok (all_relays st ! i) \<and> serves_mock C L s (rt_http (env i) 0) \<and> mr_large_body s"
    and "payload_works W L payload" and "all_relays st \<noteq> []" and "set order = {..<length (all_relays st)}"
    and "get_user_agent_with_version W hs = Ok ua"
  shows "\<exists>effs. handle_submit_block_v1 W now env order st hs block = (effs, Returned (client_error_reply NoPayload)) \<and>
    set (publish_event st (MissedPayload (sbb_block_hash block))) \<subseteq> set effs"
proof -
  define headers where "headers = [header_key HEADER_START_TIME_UNIX_MS \<mapsto> decimal (unat now), USER_AGENT \<mapsto> ua]"
  let ?runs = "submit_relay_runs W env block headers st V1"
  have fails: "\<exists>effs clk e. ?runs ! i = Some (effs, clk, Err e)" if "i < length (all_relays st)" for i
    using assms(1) that large_submit_fails [OF _ _ _ _ assms(2)] submit_runs_nth [OF that] by metis
  have order: "set order = {..<length ?runs}" using assms(4) by simp
  have "\<not> (\<exists>res. snd (race (completed order ?runs)) = Some (Ok res))"
    using fails unfolding race_ok_iff completed_iff [OF order] by fastforce
  moreover have "completed order ?runs \<noteq> []"
  proof -
    from assms(3) fails [of 0] obtain effs clk e where "?runs ! 0 = Some (effs, clk, Err e)" by auto
    then have "(effs, Err e) \<in> set (completed order ?runs)" using assms(3) by (auto simp: completed_iff [OF order])
    then show ?thesis by auto
  qed
  ultimately obtain e where "snd (race (completed order ?runs)) = Some (Err e)"
    by (metis race_None_iff not_Some_eq old.sum.exhaust)
  then have "snd (submit_block W now env order block hs st V1) = Returned (Err (Inr e))"
    unfolding submit_block_outcome [OF assms(5) headers_def] by simp
  then show ?thesis
    by (auto simp: handle_submit_block_v1_def handle_submit_block_impl_def Let_def fail_with_def split: prod.split)
qed

end
