(* ===== verification/Proto.thy ===== *)
theory Proto
  imports Dirk Instances
begin

text \<open>
  The gRPC bindings for Dirk: \<open>crates/signer/src/proto/v1.rs\<close>, with all messages and the stubs of the three
  services, and how \<open>crates/signer/src/manager/dirk.rs\<close> connects and calls them. A channel is a number as in
  theory Dirk; \<open>tonic\<close> is the record \<open>grpclib\<close>, with the codec that \<open>prost\<close> derives for the messages of each
  method. \<open>dirknet_of\<close> is the remote interface of theory Dirk in terms of the stubs.
\<close>

section \<open>Messages\<close>

datatype response_state = StateUnknown | StateSucceeded | StateDenied | StateFailed

fun response_state_i32 :: "response_state \<Rightarrow> u32" where
  "response_state_i32 StateUnknown = 0"
| "response_state_i32 StateSucceeded = 1"
| "response_state_i32 StateDenied = 2"
| "response_state_i32 StateFailed = 3"

fun as_str_name :: "response_state \<Rightarrow> string" where
  "as_str_name StateUnknown = ''UNKNOWN''"
| "as_str_name StateSucceeded = ''SUCCEEDED''"
| "as_str_name StateDenied = ''DENIED''"
| "as_str_name StateFailed = ''FAILED''"

definition from_str_name :: "string \<Rightarrow> response_state option" where
  "from_str_name v =
     (if v = ''UNKNOWN'' then Some StateUnknown
      else if v = ''SUCCEEDED'' then Some StateSucceeded
      else if v = ''DENIED'' then Some StateDenied
      else if v = ''FAILED'' then Some StateFailed
      else None)"

text \<open>
  The getter \<open>state()\<close> that \<open>prost\<close> derives for a field of an enumeration: an \<open>i32\<close> that is no variant counts
  as the first one.
\<close>

definition state_of :: "u32 \<Rightarrow> response_state" where
  "state_of n = (if n = 1 then StateSucceeded else if n = 2 then StateDenied else if n = 3 then StateFailed
     else StateUnknown)"

record endpoint_msg =
  em_id :: u64
  em_name :: string
  em_port :: u32

record list_accounts_request_msg =
  lq_paths :: "string list"

record account_msg =
  am_name :: string
  am_public_key :: bytes
  am_uuid :: bytes

record distributed_account_msg =
  dm_name :: string
  dm_public_key :: bytes
  dm_participants :: "endpoint_msg list"
  dm_signing_threshold :: u32
  dm_uuid :: bytes
  dm_composite_public_key :: bytes

record list_accounts_response_msg =
  lr_state :: u32
  lr_accounts :: "account_msg list"
  lr_distributed_accounts :: "distributed_account_msg list"

record unlock_account_request_msg =
  uq_account :: string
  uq_passphrase :: bytes

record lock_account_request_msg =
  kq_account :: string

record unlock_account_response_msg =
  ur_state :: u32

record lock_account_response_msg =
  kr_state :: u32

record generate_request_msg =
  gq_account :: string
  gq_passphrase :: bytes
  gq_participants :: u32
  gq_signing_threshold :: u32

record generate_response_msg =
  gp_state :: u32
  gp_message :: string
  gp_public_key :: bytes
  gp_participants :: "endpoint_msg list"

record checkpoint_msg =
  cm_epoch :: u64
  cm_root :: bytes

record attestation_data_msg =
  tm_slot :: u64
  tm_committee_index :: u64
  tm_beacon_block_root :: bytes
  tm_source :: "checkpoint_msg option"
  tm_target :: "checkpoint_msg option"

record beacon_block_header_msg =
  bm_slot :: u64
  bm_proposer_index :: u64
  bm_parent_root :: bytes
  bm_state_root :: bytes
  bm_body_root :: bytes

text \<open>The three \<open>oneof\<close> types have the same variants.\<close>

datatype sign_request_id = MsgPublicKey bytes | MsgAccount string

record sign_request_msg =
  sq_data :: bytes
  sq_domain :: bytes
  sq_id :: "sign_request_id option"

record multisign_request_msg =
  mq_requests :: "sign_request_msg list"

record sign_beacon_attestation_request_msg =
  aq_domain :: bytes
  aq_data :: "attestation_data_msg option"
  aq_id :: "sign_request_id option"

record sign_beacon_attestations_request_msg =
  asq_requests :: "sign_beacon_attestation_request_msg list"

record sign_beacon_proposal_request_msg =
  bq_domain :: bytes
  bq_data :: "beacon_block_header_msg option"
  bq_id :: "sign_request_id option"

record sign_response_msg =
  sr_state :: u32
  sr_signature :: bytes

record multisign_response_msg =
  mr_responses :: "sign_response_msg list"

section \<open>Clients\<close>

text \<open>A status has a code and a message; the code of \<open>unknown\<close> is 2.\<close>

datatype grpc_status = GrpcStatus nat string

text \<open>The codec of a method: how its request is encoded and its response decoded.\<close>

record ('q, 'r) prost_codec =
  pc_encode :: "'q \<Rightarrow> bytes"
  pc_decode :: "bytes \<Rightarrow> (grpc_status, 'r) result"

text \<open>\<open>tonic\<close>: its client \<open>Grpc\<close> is the type \<open>'c\<close>, and an encoding of compression is a number.\<close>

record 'c grpclib =
  gl_new :: "channel \<Rightarrow> 'c"
  gl_with_origin :: "channel \<Rightarrow> string \<Rightarrow> 'c"
  gl_send_compressed :: "'c \<Rightarrow> nat \<Rightarrow> 'c"
  gl_accept_compressed :: "'c \<Rightarrow> nat \<Rightarrow> 'c"
  gl_max_decoding_message_size :: "'c \<Rightarrow> nat \<Rightarrow> 'c"
  gl_max_encoding_message_size :: "'c \<Rightarrow> nat \<Rightarrow> 'c"
  gl_ready :: "'c \<Rightarrow> (string, unit) result"
  gl_unary :: "'c \<Rightarrow> string \<Rightarrow> bytes \<Rightarrow> (grpc_status, bytes) result"
  gl_display_status :: "grpc_status \<Rightarrow> string"
  gl_list_accounts :: "(list_accounts_request_msg, list_accounts_response_msg) prost_codec"
  gl_unlock :: "(unlock_account_request_msg, unlock_account_response_msg) prost_codec"
  gl_lock :: "(lock_account_request_msg, lock_account_response_msg) prost_codec"
  gl_generate :: "(generate_request_msg, generate_response_msg) prost_codec"
  gl_sign :: "(sign_request_msg, sign_response_msg) prost_codec"
  gl_multisign :: "(multisign_request_msg, multisign_response_msg) prost_codec"
  gl_sign_beacon_attestation :: "(sign_beacon_attestation_request_msg, sign_response_msg) prost_codec"
  gl_sign_beacon_attestations :: "(sign_beacon_attestations_request_msg, multisign_response_msg) prost_codec"
  gl_sign_beacon_proposal :: "(sign_beacon_proposal_request_msg, sign_response_msg) prost_codec"

text \<open>The generated structures of the three clients are the same up to their names.\<close>

record 'c grpc_client =
  gc_inner :: 'c

definition grpc_client_new :: "'c grpclib \<Rightarrow> channel \<Rightarrow> 'c grpc_client" where
  "grpc_client_new G inner = \<lparr>gc_inner = gl_new G inner\<rparr>"

definition grpc_client_with_origin :: "'c grpclib \<Rightarrow> channel \<Rightarrow> string \<Rightarrow> 'c grpc_client" where
  "grpc_client_with_origin G inner origin = \<lparr>gc_inner = gl_with_origin G inner origin\<rparr>"

definition send_compressed :: "'c grpclib \<Rightarrow> 'c grpc_client \<Rightarrow> nat \<Rightarrow> 'c grpc_client" where
  "send_compressed G client encoding = client\<lparr>gc_inner := gl_send_compressed G (gc_inner client) encoding\<rparr>"

definition accept_compressed :: "'c grpclib \<Rightarrow> 'c grpc_client \<Rightarrow> nat \<Rightarrow> 'c grpc_client" where
  "accept_compressed G client encoding = client\<lparr>gc_inner := gl_accept_compressed G (gc_inner client) encoding\<rparr>"

definition max_decoding_message_size :: "'c grpclib \<Rightarrow> 'c grpc_client \<Rightarrow> nat \<Rightarrow> 'c grpc_client" where
  "max_decoding_message_size G client limit =
     client\<lparr>gc_inner := gl_max_decoding_message_size G (gc_inner client) limit\<rparr>"

definition max_encoding_message_size :: "'c grpclib \<Rightarrow> 'c grpc_client \<Rightarrow> nat \<Rightarrow> 'c grpc_client" where
  "max_encoding_message_size G client limit =
     client\<lparr>gc_inner := gl_max_encoding_message_size G (gc_inner client) limit\<rparr>"

text \<open>What all stubs do: wait for the channel, then call the method under its path.\<close>

definition unary_call ::
  "'c grpclib \<Rightarrow> ('q, 'r) prost_codec \<Rightarrow> string \<Rightarrow> 'c grpc_client \<Rightarrow> 'q \<Rightarrow> (grpc_status, 'r) result" where
  "unary_call G codec path client request =
     and_then (map_err (\<lambda>e. GrpcStatus 2 (''Service was not ready: '' @ e)) (gl_ready G (gc_inner client))) (\<lambda>_.
     and_then (gl_unary G (gc_inner client) path (pc_encode codec request)) (pc_decode codec))"

definition list_accounts ::
  "'c grpclib \<Rightarrow> 'c grpc_client \<Rightarrow> list_accounts_request_msg \<Rightarrow> (grpc_status, list_accounts_response_msg) result" where
  "list_accounts G = unary_call G (gl_list_accounts G) ''/v1.Lister/ListAccounts''"

definition unlock ::
  "'c grpclib \<Rightarrow> 'c grpc_client \<Rightarrow> unlock_account_request_msg \<Rightarrow> (grpc_status, unlock_account_response_msg) result" where
  "unlock G = unary_call G (gl_unlock G) ''/v1.AccountManager/Unlock''"

definition lock ::
  "'c grpclib \<Rightarrow> 'c grpc_client \<Rightarrow> lock_account_request_msg \<Rightarrow> (grpc_status, lock_account_response_msg) result" where
  "lock G = unary_call G (gl_lock G) ''/v1.AccountManager/Lock''"

definition generate ::
  "'c grpclib \<Rightarrow> 'c grpc_client \<Rightarrow> generate_request_msg \<Rightarrow> (grpc_status, generate_response_msg) result" where
  "generate G = unary_call G (gl_generate G) ''/v1.AccountManager/Generate''"

definition sign_stub ::
  "'c grpclib \<Rightarrow> 'c grpc_client \<Rightarrow> sign_request_msg \<Rightarrow> (grpc_status, sign_response_msg) result" where
  "sign_stub G = unary_call G (gl_sign G) ''/v1.Signer/Sign''"

definition multisign ::
  "'c grpclib \<Rightarrow> 'c grpc_client \<Rightarrow> multisign_request_msg \<Rightarrow> (grpc_status, multisign_response_msg) result" where
  "multisign G = unary_call G (gl_multisign G) ''/v1.Signer/Multisign''"

definition sign_beacon_attestation ::
  "'c grpclib \<Rightarrow> 'c grpc_client \<Rightarrow> sign_beacon_attestation_request_msg \<Rightarrow> (grpc_status, sign_response_msg) result" where
  "sign_beacon_attestation G = unary_call G (gl_sign_beacon_attestation G) ''/v1.Signer/SignBeaconAttestation''"

definition sign_beacon_attestations ::
  "'c grpclib \<Rightarrow> 'c grpc_client \<Rightarrow> sign_beacon_attestations_request_msg \<Rightarrow> (grpc_status, multisign_response_msg) result" where
  "sign_beacon_attestations G = unary_call G (gl_sign_beacon_attestations G) ''/v1.Signer/SignBeaconAttestations''"

definition sign_beacon_proposal ::
  "'c grpclib \<Rightarrow> 'c grpc_client \<Rightarrow> sign_beacon_proposal_request_msg \<Rightarrow> (grpc_status, sign_response_msg) result" where
  "sign_beacon_proposal G = unary_call G (gl_sign_beacon_proposal G) ''/v1.Signer/SignBeaconProposal''"

section \<open>Channels\<close>

text \<open>\<open>connect\<close>: the TLS settings of a channel, and the three steps of making one.\<close>

record tls_config =
  tl_identity :: bytes
  tl_ca_certificate :: "bytes option"
  tl_domain_name :: "string option"

record chanlib =
  cl_from_shared :: "string \<Rightarrow> (string, string) result"
  cl_tls_config :: "string \<Rightarrow> tls_config \<Rightarrow> (string, string) result"
  cl_endpoint_new :: "string \<Rightarrow> (string, string) result"
  cl_connect :: "string \<Rightarrow> (string, channel) result"

definition dirk_connect ::
  "chanlib \<Rightarrow> dirk_host_config \<Rightarrow> bytes \<Rightarrow> bytes option \<Rightarrow> (string, channel) result" where
  "dirk_connect H server client ca =
     (let tls = \<lparr>tl_identity = client, tl_ca_certificate = None, tl_domain_name = None\<rparr>;
          tls = (case ca of Some c \<Rightarrow> tls\<lparr>tl_ca_certificate := Some c\<rparr> | None \<Rightarrow> tls);
          tls = (case dh_server_name server of Some n \<Rightarrow> tls\<lparr>tl_domain_name := Some n\<rparr> | None \<Rightarrow> tls)
      in and_then (cl_from_shared H (dh_url server)) (\<lambda>endpoint.
         and_then (cl_tls_config H endpoint tls) (cl_connect H)))"

text \<open>The constructor \<open>connect\<close> of the clients, without TLS.\<close>

definition grpc_client_connect ::
  "'c grpclib \<Rightarrow> chanlib \<Rightarrow> string \<Rightarrow> (string, 'c grpc_client) result" where
  "grpc_client_connect G H dst =
     and_then (cl_endpoint_new H dst) (\<lambda>endpoint.
     and_then (cl_connect H endpoint) (\<lambda>conn. Ok (grpc_client_new G conn)))"

section \<open>The calls of the manager\<close>

definition proto_account_of :: "account_msg \<Rightarrow> proto_account" where
  "proto_account_of a = \<lparr>pr_name = am_name a, pr_public_key = am_public_key a\<rparr>"

definition proto_endpoint_of :: "endpoint_msg \<Rightarrow> proto_endpoint" where
  "proto_endpoint_of e = \<lparr>pe_id = em_id e, pe_name = em_name e\<rparr>"

definition proto_distributed_of :: "distributed_account_msg \<Rightarrow> proto_distributed_account" where
  "proto_distributed_of a = \<lparr>pd_name = dm_name a, pd_composite_public_key = dm_composite_public_key a,
     pd_participants = map proto_endpoint_of (dm_participants a), pd_signing_threshold = dm_signing_threshold a\<rparr>"

definition sign_request_of :: "dirk_sign_request \<Rightarrow> sign_request_msg" where
  "sign_request_of r = \<lparr>sq_data = fixed_bytes 32 (ds_data r), sq_domain = fixed_bytes 32 (ds_domain r),
     sq_id = Some (case ds_id r of IdPublicKey k \<Rightarrow> MsgPublicKey (fixed_bytes 48 k) | IdAccount n \<Rightarrow> MsgAccount n)\<rparr>"

definition dirknet_of ::
  "'c grpclib \<Rightarrow> chanlib \<Rightarrow> bytes \<Rightarrow> bytes option \<Rightarrow> (string \<Rightarrow> string option) \<Rightarrow> (string \<Rightarrow> bool) \<Rightarrow> dirknet" where
  "dirknet_of G H client ca host uuid = \<lparr>
     dn_connect = (\<lambda>server. dirk_connect H server client ca),
     dn_list_accounts = (\<lambda>channel paths.
       and_then (map_err (gl_display_status G) (list_accounts G (grpc_client_new G channel) \<lparr>lq_paths = paths\<rparr>)) (\<lambda>res.
         Ok \<lparr>la_succeeded = (state_of (lr_state res) = StateSucceeded),
             la_accounts = map proto_account_of (lr_accounts res),
             la_distributed_accounts = map proto_distributed_of (lr_distributed_accounts res)\<rparr>)),
     dn_sign = (\<lambda>channel r.
       and_then (map_err (gl_display_status G) (sign_stub G (grpc_client_new G channel) (sign_request_of r))) (\<lambda>res.
         Ok (state_of (sr_state res) = StateSucceeded, sr_signature res))),
     dn_generate = (\<lambda>channel r.
       and_then (map_err (gl_display_status G) (generate G (grpc_client_new G channel)
           \<lparr>gq_account = gr_account r, gq_passphrase = bytes_of_string (gr_passphrase r),
            gq_participants = gr_participants r, gq_signing_threshold = gr_signing_threshold r\<rparr>)) (\<lambda>res.
         Ok (state_of (gp_state res) = StateSucceeded, gp_message res, gp_public_key res))),
     dn_unlock = (\<lambda>channel account password.
       and_then (map_err (gl_display_status G) (unlock G (grpc_client_new G channel)
           \<lparr>uq_account = account, uq_passphrase = bytes_of_string password\<rparr>)) (\<lambda>res.
         Ok (state_of (ur_state res) = StateSucceeded))),
     dn_url_host = host, dn_uuid_parses = uuid\<rparr>"

section \<open>Properties\<close>

lemma from_str_name_iff: "from_str_name v = Some s \<longleftrightarrow> v = as_str_name s"
  by (cases s) (auto simp: from_str_name_def)

lemma state_of_i32 [simp]: "state_of (response_state_i32 s) = s"
  by (cases s) (auto simp: state_of_def)

lemma state_of_Succeeded [simp]: "state_of n = StateSucceeded \<longleftrightarrow> n = 1"
  by (simp add: state_of_def)

lemma sign_stub_Ok_iff:
  "sign_stub G client q = Ok r \<longleftrightarrow> gl_ready G (gc_inner client) = Ok () \<and>
     (\<exists>bs. gl_unary G (gc_inner client) ''/v1.Signer/Sign'' (pc_encode (gl_sign G) q) = Ok bs \<and>
        pc_decode (gl_sign G) bs = Ok r)"
  by (cases "gl_ready G (gc_inner client)") (auto simp: sign_stub_def unary_call_def and_then_def split: sum.splits)

end
