(* ===== verification/Dirk_Properties.thy ===== *)
theory Dirk_Properties
  imports Proto Threshold Signer_Properties Store_Recovery
begin

text \<open>
  What the Dirk manager gets over gRPC: the stubs of theory Proto, the signing loop of theory Dirk and the
  interpolation of theory Threshold together.
\<close>

section \<open>Answers of a participant\<close>

text \<open>The signature that a server answers a signing request with, if it gives a usable one.\<close>

definition answered_signature :: "'c grpclib \<Rightarrow> channel \<Rightarrow> sign_request_msg \<Rightarrow> bls_signature option" where
  "answered_signature T channel q =
     (case sign_stub T (grpc_client_new T channel) q of
        Inl _ \<Rightarrow> None
      | Inr r \<Rightarrow> if sr_state r = response_state_i32 StateSucceeded then signature_try_from (sr_signature r) else None)"

definition account_sign_request ::
  "crypto \<Rightarrow> dirk_manager \<Rightarrow> distributed_account \<Rightarrow> b256 \<Rightarrow> b256 option \<Rightarrow> sign_request_msg" where
  "account_sign_request C m a object_root sid =
     \<lparr>sq_data = fixed_bytes 32 (dirk_sign_data C object_root sid),
      sq_domain = fixed_bytes 32 (compute_domain C (dm_chain m) COMMIT_BOOST_DOMAIN),
      sq_id = Some (MsgAccount (da_name a))\<rparr>"

lemma partial_of_dirknet:
  "partial_of (\<lambda>pid channel. dn_sign (dirknet_of T H client ca host uuid) channel
       \<lparr>ds_data = dirk_sign_data C object_root sid, ds_domain = compute_domain C (dm_chain m) COMMIT_BOOST_DOMAIN,
        ds_id = IdAccount (da_name a)\<rparr>) (pid, channel) =
     map_option (\<lambda>sig. (sig, pid)) (answered_signature T channel (account_sign_request C m a object_root sid))"
  by (simp add: partial_of_def dirknet_of_def answered_signature_def account_sign_request_def sign_request_of_def
      split: sum.splits)

text \<open>The usable answers in their order of arrival.\<close>

definition arrived ::
  "'c grpclib \<Rightarrow> sign_request_msg \<Rightarrow> (u32 \<times> channel) list \<Rightarrow> (bls_signature \<times> u32) list" where
  "arrived T q ps =
     List.map_filter (\<lambda>(pid, channel). map_option (\<lambda>sig. (sig, pid)) (answered_signature T channel q)) ps"

lemma arrived_mem:
  "(sig, pid) \<in> set (arrived T q ps) \<longleftrightarrow>
     (\<exists>channel. (pid, channel) \<in> set ps \<and> answered_signature T channel q = Some sig)"
  by (force simp: arrived_def map_filter_mem)

lemma arrived_ids:
  "map snd (arrived T q ps) = map fst (filter (\<lambda>(pid, channel). answered_signature T channel q \<noteq> None) ps)"
  by (induction ps) (auto simp: arrived_def map_filter_simps)

lemma request_distributed_over_grpc:
  fixes T :: "'c grpclib" and G :: "('s::field, 'g::ab_group_add) siggroup"
  assumes "0 < unat (da_threshold a)"
    and "unat (da_threshold a) \<le> length (arrived T (account_sign_request C m a object_root sid) (sort_key arrival (da_participants a)))"
  shows "request_distributed_signature C (dirknet_of T H client ca host uuid) G arrival m a object_root sid =
    map_err InternalError (aggregate_partial_signatures G
      (take (unat (da_threshold a)) (arrived T (account_sign_request C m a object_root sid) (sort_key arrival (da_participants a)))))"
proof -
  let ?q = "account_sign_request C m a object_root sid"
  let ?ps = "sort_key arrival (da_participants a)"
  let ?respond = "\<lambda>pid channel. dn_sign (dirknet_of T H client ca host uuid) channel
    \<lparr>ds_data = dirk_sign_data C object_root sid, ds_domain = compute_domain C (dm_chain m) COMMIT_BOOST_DOMAIN,
     ds_id = IdAccount (da_name a)\<rparr>"
  have "List.map_filter (partial_of ?respond) ?ps = arrived T ?q ?ps"
    unfolding arrived_def by (rule arg_cong [where f = "\<lambda>f. List.map_filter f ?ps"]) (auto simp: partial_of_dirknet)
  moreover have "max 1 (unat (da_threshold a)) = unat (da_threshold a)" using assms(1) by simp
  ultimately have "collect_partials ?respond (unat (da_threshold a)) [] ?ps = take (unat (da_threshold a)) (arrived T ?q ?ps)"
    using collect_partials_eq [of "[]" "unat (da_threshold a)" ?respond ?ps] assms(1) by simp
  with assms(2) show ?thesis by (simp add: request_distributed_signature_def Let_def)
qed

section \<open>Signing with a shared key\<close>

text \<open>
  C11. A distributed account signs with its shared key: let a key be shared with a polynomial of degree below the
  threshold of the account (its coefficients are \<open>key\<close>). If at least as many participants as the threshold give a
  usable answer to the signing request, and the first of them in the order of arrival, as many as the threshold,
  use their shares, the manager serves the signature of the undivided key for the requested root. The other
  participants may be unreachable, refuse, answer nonsense, or answer later with anything. (A wrong signature among
  the first usable answers is not noticed: the aggregate is not verified.)
\<close>

theorem dirk_signs_with_shared_key:
  fixes T :: "'c grpclib" and G :: "('s::field, 'g::ab_group_add) siggroup"
  assumes "dirk_reachable C G chain config m" and "map_of (dm_consensus_accounts m) pubkey = Some (Distributed a)"
    and "scales G" and "inj_on (scalar :: u32 \<Rightarrow> 's) (fst ` set (da_participants a))"
    and "0 < unat (da_threshold a)" and "length key \<le> unat (da_threshold a)"
    and "unat (da_threshold a) \<le> length (filter (\<lambda>(pid, channel).
      answered_signature T channel (account_sign_request C m a object_root sid) \<noteq> None) (da_participants a))"
    and "\<And>sig pid. (sig, pid) \<in> set (take (unat (da_threshold a))
        (arrived T (account_sign_request C m a object_root sid) (sort_key arrival (da_participants a)))) \<Longrightarrow>
      sg_from_compressed G sig = Some (sg_scale G (horner key (scalar pid)) base)"
  shows "request_consensus_signature C (dirknet_of T H client ca host uuid) G arrival m pubkey object_root sid =
    Ok (sg_to_compressed G (sg_scale G (horner key 0) base))"
proof -
  let ?q = "account_sign_request C m a object_root sid"
  let ?ps = "sort_key arrival (da_participants a)"
  let ?answers = "arrived T ?q ?ps"
  let ?partials = "take (unat (da_threshold a)) ?answers"
  let ?up = "\<lambda>(pid, channel). answered_signature T channel ?q \<noteq> None"
  have "length ?answers = length (filter ?up ?ps)" using arrived_ids [of T ?q ?ps] by (metis length_map)
  also have "\<dots> = length (filter ?up (da_participants a))" by (simp add: filter_sort)
  finally have enough: "unat (da_threshold a) \<le> length ?answers" using assms(7) by simp
  have "distinct (map fst ?ps)"
    using dirk_wf_participants [OF dirk_reachable_wf [OF assms(1)] assms(2)] by (simp add: distinct_fst_sort_key)
  then have "distinct (map snd ?answers)" by (simp add: arrived_ids distinct_map_filter)
  then have distinct: "distinct (map snd ?partials)" by (simp add: take_map distinct_take flip: take_map)
  have "snd ` set ?partials \<subseteq> fst ` set (da_participants a)"
    by (force dest!: in_set_takeD simp: arrived_mem)
  with assms(4) have "inj_on (scalar :: u32 \<Rightarrow> 's) (snd ` set ?partials)" by (rule inj_on_subset)
  moreover have "?partials \<noteq> []" "length key \<le> length ?partials" using enough assms(5,6) by auto
  ultimately have "aggregate_partial_signatures G ?partials = Ok (sg_to_compressed G (sg_scale G (horner key 0) base))"
    using aggregate_recovers [OF assms(3) distinct] assms(8) by blast
  then show ?thesis
    using assms(2) request_distributed_over_grpc [where arrival = arrival and G = G and
        H = H and client = client and ca = ca and host = host and uuid = uuid, OF assms(5) enough]
    by (simp add: request_consensus_signature_def request_account_signature_def)
qed

text \<open>
  Three servers, for the key 5 shared with the polynomial \<open>5 + 2 x\<close>; the second answers late, with a wrong signature.
\<close>

definition demo_grpc :: "channel grpclib" where
  "demo_grpc = \<lparr>gl_new = id, gl_with_origin = (\<lambda>c _. c), gl_send_compressed = (\<lambda>c _. c),
     gl_accept_compressed = (\<lambda>c _. c), gl_max_decoding_message_size = (\<lambda>c _. c),
     gl_max_encoding_message_size = (\<lambda>c _. c), gl_ready = (\<lambda>_. Ok ()),
     gl_unary = (\<lambda>c path bs. if path = ''/v1.Signer/Sign'' \<and> length bs = 32
       then Ok (fixed_bytes 96 (if c = 0 then 7 else if c = 1 then 99 else 11 :: bls_signature))
       else Err (GrpcStatus 12 ''unimplemented'')),
     gl_display_status = (\<lambda>_. ''status''),
     gl_list_accounts = \<lparr>pc_encode = (\<lambda>_. []), pc_decode = (\<lambda>_. Err (GrpcStatus 13 ''no''))\<rparr>,
     gl_unlock = \<lparr>pc_encode = (\<lambda>_. []), pc_decode = (\<lambda>_. Err (GrpcStatus 13 ''no''))\<rparr>,
     gl_lock = \<lparr>pc_encode = (\<lambda>_. []), pc_decode = (\<lambda>_. Err (GrpcStatus 13 ''no''))\<rparr>,
     gl_generate = \<lparr>pc_encode = (\<lambda>_. []), pc_decode = (\<lambda>_. Err (GrpcStatus 13 ''no''))\<rparr>,
     gl_sign = \<lparr>pc_encode = sq_data, pc_decode = (\<lambda>bs. Ok \<lparr>sr_state = 1, sr_signature = bs\<rparr>)\<rparr>,
     gl_multisign = \<lparr>pc_encode = (\<lambda>_. []), pc_decode = (\<lambda>_. Err (GrpcStatus 13 ''no''))\<rparr>,
     gl_sign_beacon_attestation = \<lparr>pc_encode = (\<lambda>_. []), pc_decode = (\<lambda>_. Err (GrpcStatus 13 ''no''))\<rparr>,
     gl_sign_beacon_attestations = \<lparr>pc_encode = (\<lambda>_. []), pc_decode = (\<lambda>_. Err (GrpcStatus 13 ''no''))\<rparr>,
     gl_sign_beacon_proposal = \<lparr>pc_encode = (\<lambda>_. []), pc_decode = (\<lambda>_. Err (GrpcStatus 13 ''no''))\<rparr>\<rparr>"

definition demo_channels :: chanlib where
  "demo_channels = \<lparr>cl_from_shared = Ok, cl_tls_config = (\<lambda>e _. Ok e), cl_endpoint_new = Ok, cl_connect = (\<lambda>_. Ok 0)\<rparr>"

abbreviation demo_distributed :: distributed_account where
  "demo_distributed \<equiv> \<lparr>da_composite_public_key = 0, da_participants = [(1, 0), (2, 1), (3, 2)], da_threshold = 2,
     da_name = ''w/a''\<rparr>"

definition demo_arrival :: arrival_times where
  "demo_arrival = (\<lambda>(pid, _). if pid = 2 then 9 else 1)"

lemma signature_try_from_fixed_bytes: "signature_try_from (fixed_bytes 96 sig) = Some sig"
  using be_nat_fixed_bytes [of 96 sig] by (simp add: signature_try_from_def fixed_bytes_def)

lemma demo_answers:
  "answered_signature demo_grpc channel (account_sign_request C m a object_root sid) =
     Some (if channel = 0 then 7 else if channel = 1 then 99 else 11)"
  by (simp add: answered_signature_def sign_stub_def unary_call_def demo_grpc_def grpc_client_new_def
      account_sign_request_def signature_try_from_fixed_bytes) (simp add: fixed_bytes_def)

theorem dirk_signs_with_shared_key_witness:
  "request_consensus_signature demo_crypto (dirknet_of demo_grpc demo_channels [] None (\<lambda>_. None) (\<lambda>_. False))
     demo_group demo_arrival (dirk_manager_new demo_dirk_net Mainnet demo_dirk_config) 0 3 None = Ok 5"
proof -
  let ?m = "dirk_manager_new demo_dirk_net Mainnet demo_dirk_config"
  have first: "take 2 (arrived demo_grpc (account_sign_request demo_crypto ?m demo_distributed 3 None)
      (sort_key demo_arrival (da_participants demo_distributed))) = [(7, 1), (11, 3)]"
    by (simp add: demo_arrival_def arrived_def map_filter_simps demo_answers)
  have "request_consensus_signature demo_crypto (dirknet_of demo_grpc demo_channels [] None (\<lambda>_. None) (\<lambda>_. False))
     demo_group demo_arrival ?m 0 3 None =
     Ok (sg_to_compressed demo_group (sg_scale demo_group (horner [5, 2] 0) 1))"
  proof (rule dirk_signs_with_shared_key [where a = demo_distributed])
    show "dirk_reachable demo_crypto demo_group Mainnet demo_dirk_config ?m" by (rule dirk_reachable.dirk_loaded)
    show "map_of (dm_consensus_accounts ?m) 0 = Some (Distributed demo_distributed)" by (simp add: demo_dirk_accounts)
    show "scales demo_group" by (simp add: scales_def demo_group_def algebra_simps)
    show "inj_on (scalar :: u32 \<Rightarrow> rat) (fst ` set (da_participants demo_distributed))"
      by (auto simp: inj_on_def scalar_def)
    show "sg_from_compressed demo_group sig = Some (sg_scale demo_group (horner [5, 2] (scalar pid)) 1)"
      if "(sig, pid) \<in> set (take (unat (da_threshold demo_distributed)) (arrived demo_grpc
        (account_sign_request demo_crypto ?m demo_distributed 3 None) (sort_key demo_arrival (da_participants demo_distributed))))"
      for sig pid
      using that first by (auto simp: demo_group_def scalar_def)
  qed (simp_all add: demo_answers)
  then show ?thesis by (simp add: demo_group_def)
qed

end
