(* ===== verification/Access_Properties.thy ===== *)
theory Access_Properties
  imports Signer_Properties
begin

text \<open>
  Who can do what with the running signer: requests without a valid token have no effect, and a proxy key that
  was once created serves every module that is registered.
\<close>

section \<open>Requests without a secret\<close>

text \<open>A token that neither the administrator secret nor the secret of any registered module validates.\<close>

definition outsider :: "jwtlib \<Rightarrow> string \<Rightarrow> signer_heap \<Rightarrow> bool" where
  "outsider J jwt h \<longleftrightarrow> validate_admin_jwt J jwt (hp_admin_secret h) \<noteq> Ok () \<and>
     (\<forall>mid cfg. map_of (hp_jwts h) mid = Some cfg \<longrightarrow> validate_jwt J jwt (ms_jwt_secret cfg) \<noteq> Ok ())"

lemma outsider_failures [simp]: "outsider J jwt (h\<lparr>hp_jwt_auth_failures := failures\<rparr>) = outsider J jwt h"
  by (simp add: outsider_def)

fun turned_away :: "(signer_module_error, signer_reply) result outcome \<Rightarrow> bool" where
  "turned_away (Returned (Inl e)) \<longleftrightarrow> signer_status e \<in> {401, 429}"
| "turned_away _ \<longleftrightarrow> False"

lemma rate_limit_effect:
  "\<exists>failures. fst (check_jwt_rate_limit state now ip h) = h\<lparr>hp_jwt_auth_failures := failures\<rparr>"
proof -
  have "h = h\<lparr>hp_jwt_auth_failures := hp_jwt_auth_failures h\<rparr>" by simp
  then show ?thesis
    by (auto simp: check_jwt_rate_limit_def Let_def intro: exI [of _ "hp_jwt_auth_failures h"] split: option.splits)
qed

lemma outsider_jwt_auth:
  assumes "outsider J jwt h"
  shows "\<exists>failures e. jwt_auth J state now ip jwt h = (h\<lparr>hp_jwt_auth_failures := failures\<rparr>, Err e) \<and>
    signer_status e \<in> {401, 429}"
proof -
  obtain h1 q where limit: "check_jwt_rate_limit state now ip h = (h1, q)" by fastforce
  with rate_limit_effect [of state now ip h] obtain failures where h1: "h1 = h\<lparr>hp_jwt_auth_failures := failures\<rparr>" by auto
  show ?thesis
  proof (cases q)
    case (Inl e)
    with limit have "signer_status e = 429"
      by (auto simp: check_jwt_rate_limit_def Let_def split: option.splits if_splits)
    with Inl limit h1 show ?thesis by (auto simp: jwt_auth_def)
  next
    case (Inr x)
    have "check_jwt_auth J jwt h \<noteq> Ok mid" for mid
      using assms by (auto simp: check_jwt_auth_Ok_iff outsider_def)
    then obtain e where "check_jwt_auth J jwt h = Err e" by (cases "check_jwt_auth J jwt h") auto
    then show ?thesis
      using Inr limit h1 by (auto simp: jwt_auth_eq record_failure_def Let_def)
  qed
qed

lemma outsider_admin_auth: "outsider J jwt h \<Longrightarrow> admin_auth J jwt h = Err Unauthorized"
  by (cases "validate_admin_jwt J jwt (hp_admin_secret h)") (auto simp: outsider_def admin_auth_def)

lemma outsider_serve:
  assumes "outsider (ca_jwt ca) (ca_token ca) h"
  shows "\<exists>failures r. serve C N G L K state ca h = (h\<lparr>hp_jwt_auth_failures := failures\<rparr>, r) \<and>
    (if ca_route ca = SignerStatus then r = Returned (Ok StatusOk) else turned_away r)"
proof -
  have same: "h\<lparr>hp_jwt_auth_failures := hp_jwt_auth_failures h\<rparr> = h" by simp
  from outsider_jwt_auth [OF assms] obtain failures e where
    auth: "jwt_auth (ca_jwt ca) state (ca_now ca) (ca_ip ca) (ca_token ca) h = (h\<lparr>hp_jwt_auth_failures := failures\<rparr>, Err e)"
    "signer_status e \<in> {401, 429}" by blast
  show ?thesis
    using auth outsider_admin_auth [OF assms]
    by (cases "ca_route ca") (auto simp: serve.simps with_jwt_auth_def signer_handle_status_def
        intro: exI [of _ "hp_jwt_auth_failures h"])
qed

text \<open>A series of requests, one after the other, with their replies.\<close>

fun serve_all ::
  "crypto \<Rightarrow> dirknet \<Rightarrow> ('s::field, 'g::ab_group_add) siggroup \<Rightarrow> storelib \<Rightarrow> keylib \<Rightarrow> signing_state
     \<Rightarrow> signer_call list \<Rightarrow> signer_heap \<Rightarrow> signer_heap \<times> (signer_module_error, signer_reply) result outcome list" where
  "serve_all C N G L K state [] h = (h, [])"
| "serve_all C N G L K state (ca # cas) h =
     (let (h1, r) = serve C N G L K state ca h; (h2, rs) = serve_all C N G L K state cas h1 in (h2, r # rs))"

text \<open>
  C5. Without a secret there is no effect: a series of requests of any clients to any routes, none of them with a
  token valid under the administrator secret or the secret of a registered module, changes nothing but the counters of
  failures. All of them are answered with 401 or 429, except that the status route says that the service runs.
\<close>

theorem outsiders_have_no_effect:
  assumes "\<forall>ca\<in>set cas. outsider (ca_jwt ca) (ca_token ca) h"
  shows "\<exists>failures replies. serve_all C N G L K state cas h = (h\<lparr>hp_jwt_auth_failures := failures\<rparr>, replies) \<and>
    list_all2 (\<lambda>ca r. if ca_route ca = SignerStatus then r = Returned (Ok StatusOk) else turned_away r) cas replies"
  using assms
proof (induction cas arbitrary: h)
  case Nil
  show ?case by (intro exI [of _ "hp_jwt_auth_failures h"] exI [of _ "[]"]) simp
next
  case (Cons ca cas)
  from Cons.prems outsider_serve [of ca h C N G L K state] obtain failures r where
    first: "serve C N G L K state ca h = (h\<lparr>hp_jwt_auth_failures := failures\<rparr>, r)"
    "if ca_route ca = SignerStatus then r = Returned (Ok StatusOk) else turned_away r" by auto
  from Cons.prems Cons.IH [of "h\<lparr>hp_jwt_auth_failures := failures\<rparr>"] obtain failures' replies where
    "serve_all C N G L K state cas (h\<lparr>hp_jwt_auth_failures := failures\<rparr>) = (h\<lparr>hp_jwt_auth_failures := failures'\<rparr>, replies)"
    "list_all2 (\<lambda>ca r. if ca_route ca = SignerStatus then r = Returned (Ok StatusOk) else turned_away r) cas replies"
    by auto
  with first show ?case by (intro exI [of _ failures'] exI [of _ "r # replies"]) simp
qed

theorem outsiders_have_no_effect_witness:
  "\<exists>failures replies. serve_all demo_crypto demo_net demo_group demo_store demo_keys demo_signing_state
     [demo_call ''stolen'' (RevokeModule ''m''), demo_call ''stolen'' GetPubkeys, demo_call ''stolen'' SignerStatus] demo_heap =
       (demo_heap\<lparr>hp_jwt_auth_failures := failures\<rparr>, replies) \<and>
     length replies = 3 \<and> turned_away (replies ! 0) \<and> turned_away (replies ! 1) \<and> replies ! 2 = Returned (Ok StatusOk)"
proof -
  let ?cas = "[demo_call ''stolen'' (RevokeModule ''m''), demo_call ''stolen'' GetPubkeys, demo_call ''stolen'' SignerStatus]"
  have "\<forall>ca\<in>set ?cas. outsider (ca_jwt ca) (ca_token ca) demo_heap"
    by (simp add: outsider_def demo_call_def demo_jwt_def demo_heap_def validate_admin_jwt_def validate_jwt_def)
  from outsiders_have_no_effect [OF this, of demo_crypto demo_net demo_group demo_store demo_keys demo_signing_state]
  obtain failures replies where run: "serve_all demo_crypto demo_net demo_group demo_store demo_keys demo_signing_state
      ?cas demo_heap = (demo_heap\<lparr>hp_jwt_auth_failures := failures\<rparr>, replies)"
    and replies: "list_all2 (\<lambda>ca r. if ca_route ca = SignerStatus then r = Returned (Ok StatusOk) else turned_away r) ?cas replies"
    by blast
  from replies have "length replies = 3 \<and> turned_away (replies ! 0) \<and> turned_away (replies ! 1) \<and> replies ! 2 = Returned (Ok StatusOk)"
    by (auto simp: list_all2_Cons1 demo_call_def)
  with run show ?thesis by blast
qed

section \<open>Proxy keys\<close>

text \<open>Proxy keys are never lost while the service runs.\<close>

fun manager_has_proxy :: "signing_manager \<Rightarrow> bls_public_key \<Rightarrow> bool" where
  "manager_has_proxy (ManagerLocal m) k \<longleftrightarrow> lookup_proxy_bls m k \<noteq> None"
| "manager_has_proxy (ManagerDirk m) k \<longleftrightarrow> map_of (dm_proxy_accounts m) k \<noteq> None"

lemma create_proxy_bls_keeps:
  assumes "create_proxy_bls C L sk pw seed mid delegator m fs = (m', fs', r)"
  shows "lookup_proxy_bls m k \<noteq> None \<Longrightarrow> lookup_proxy_bls m' k \<noteq> None"
    and "r = Ok d \<Longrightarrow> lookup_proxy_bls m' (pd_proxy (sd_message d)) \<noteq> None"
  using assms
  by (auto simp: create_proxy_bls_def add_proxy_signer_bls_def bls.lookup_add Let_def
      split: sum.splits option.splits prod.splits)

lemma create_proxy_ecdsa_keeps:
  assumes "create_proxy_ecdsa C L sk pw seed mid delegator m fs = (m', fs', r)"
  shows "lookup_proxy_bls m' = lookup_proxy_bls m"
  using assms
  by (auto simp: create_proxy_ecdsa_def add_proxy_signer_ecdsa_def Let_def split: sum.splits option.splits prod.splits)

lemma generate_proxy_key_keeps:
  assumes "generate_proxy_key C N G arrival L uuid pw mid consensus m fs = (m', fs', r)"
  shows "map_of (dm_proxy_accounts m) k \<noteq> None \<Longrightarrow> map_of (dm_proxy_accounts m') k \<noteq> None"
    and "r = Ok d \<Longrightarrow> map_of (dm_proxy_accounts m') (pd_proxy (sd_message d)) \<noteq> None"
  using assms
  by (auto simp: generate_proxy_key_def Let_def update_conv' split: prod.splits sum.splits option.splits account.splits)

lemma handle_generate_proxy_keeps:
  assumes "handle_generate_proxy C N G arrival L fr state mid request h = (h', r)"
    and "sv_manager state < length (hp_managers h)"
  shows "manager_has_proxy (active_manager state h) k \<Longrightarrow> manager_has_proxy (active_manager state h') k"
    and "r = Ok (BlsDelegationReply d) \<Longrightarrow> manager_has_proxy (active_manager state h') (pd_proxy (sd_message d))"
  using assms
  by (auto simp: handle_generate_proxy_def active_manager_def Let_def and_then_Ok_iff
      dest: create_proxy_bls_keeps create_proxy_ecdsa_keeps generate_proxy_key_keeps
      split: signing_manager.splits encryption_scheme.splits prod.splits)

lemma no_delegation:
  "handle_request_signature C N G arrival state mid request h \<noteq> Ok (BlsDelegationReply d)"
  "handle_get_pubkeys state mid h \<noteq> Ok (BlsDelegationReply d)"
  by (auto simp: handle_request_signature_def handle_get_pubkeys_def Let_def and_then_Ok_iff
      split: option.splits signing_manager.splits sign_request.splits)

lemma with_jwt_auth_no_delegation:
  assumes "with_jwt_auth state ca h (\<lambda>mid h. (h, f mid h)) = (h', r)" and "\<And>mid h. f mid h \<noteq> Ok (BlsDelegationReply d)"
  shows "r \<noteq> Returned (Ok (BlsDelegationReply d))"
  using assms by (auto simp: with_jwt_auth_def split: prod.splits sum.splits)

text \<open>Only the route that generates proxies changes the manager in use or answers with a delegation.\<close>

lemma serve_active:
  assumes "serve C N G L K state ca h = (h', r)" and "sv_manager state < length (hp_managers h)"
  shows "active_manager state h' = active_manager state h \<and> (\<forall>d. r \<noteq> Returned (Ok (BlsDelegationReply d))) \<or>
    (\<exists>h1 mid request r'. hp_managers h1 = hp_managers h \<and> r = Returned r' \<and>
      handle_generate_proxy C N G (ca_arrival ca) L (ca_fresh ca) state mid request h1 = (h', r'))"
proof (cases "ca_route ca")
  case (Reload request)
  with assms(1) have "\<forall>d. r \<noteq> Returned (Ok (BlsDelegationReply d))"
    by (auto simp: serve.simps signer_handle_reload_def Let_def split: sum.splits prod.splits option.splits outcome.splits)
  moreover from Reload assms(1) obtain st where "h' = h \<or>
      signer_handle_reload C L K N (ca_env ca) (ca_config ca) request state h = (h', r, st)"
    by (auto simp: serve.simps split: sum.splits prod.splits)
  then have "\<exists>new. hp_managers h' = hp_managers h @ new" using signer_handle_reload_managers by (metis append_Nil2)
  ultimately show ?thesis using assms(2) by (auto simp: active_manager_def nth_append)
next
  case (RevokeModule mid)
  with assms(1) show ?thesis
    by (auto simp: serve.simps handle_revoke_module_def active_manager_def split: sum.splits option.splits)
next
  case (GenerateProxy request)
  then show ?thesis
    using assms(1) jwt_auth_frame [of "ca_jwt ca" state "ca_now ca" "ca_ip ca" "ca_token ca" h]
    by (auto simp: serve.simps with_jwt_auth_def active_manager_def split: prod.splits sum.splits)
next
  case (RequestSignature request)
  with assms(1) have "hp_managers h' = hp_managers h" "\<And>d. r \<noteq> Returned (Ok (BlsDelegationReply d))"
    by (simp_all add: serve.simps with_jwt_auth_query with_jwt_auth_no_delegation no_delegation)
  then show ?thesis by (simp add: active_manager_def)
next
  case GetPubkeys
  with assms(1) have "hp_managers h' = hp_managers h" "\<And>d. r \<noteq> Returned (Ok (BlsDelegationReply d))"
    by (simp_all add: serve.simps with_jwt_auth_query with_jwt_auth_no_delegation no_delegation)
  then show ?thesis by (simp add: active_manager_def)
next
  case SignerStatus
  with assms(1) show ?thesis by (auto simp: serve.simps signer_handle_status_def)
qed

lemma serve_keeps_proxy:
  assumes "serve C N G L K state ca h = (h', r)" and "sv_manager state < length (hp_managers h)"
  shows "manager_has_proxy (active_manager state h) k \<Longrightarrow> manager_has_proxy (active_manager state h') k"
    and "r = Returned (Ok (BlsDelegationReply d)) \<Longrightarrow>
      manager_has_proxy (active_manager state h') (pd_proxy (sd_message d))"
proof -
  have same: "active_manager state h1 = active_manager state h" "sv_manager state < length (hp_managers h1)"
    if "hp_managers h1 = hp_managers h" for h1
    using that assms(2) by (simp_all add: active_manager_def)
  show "manager_has_proxy (active_manager state h) k \<Longrightarrow> manager_has_proxy (active_manager state h') k"
    using serve_active [OF assms] handle_generate_proxy_keeps(1) same by metis
  show "r = Returned (Ok (BlsDelegationReply d)) \<Longrightarrow>
      manager_has_proxy (active_manager state h') (pd_proxy (sd_message d))"
    using serve_active [OF assms] handle_generate_proxy_keeps(2) same by (metis outcome.inject)
qed

lemma bls_signer_sign_verifies:
  assumes "bls_complete C"
  shows "verify_signed_message C chain (bls_signer_pubkey C s) object_root (bls_signer_sign C s chain object_root sid) sid
    COMMIT_BOOST_DOMAIN = Ok ()"
  by (cases s) (simp add: verify_signed_message_def sign_commit_boost_root_def verify_sign_message [OF assms])

lemma signer_reachable_proxy:
  assumes "signer_reachable C N G L K state h0 h" and "sv_manager state < length (hp_managers h0)"
    and "manager_has_proxy (active_manager state h0) k"
  shows "manager_has_proxy (active_manager state h) k"
  using assms(1)
proof (induction rule: signer_reachable.induct)
  case start
  show ?case by (rule assms(3))
next
  case (request h ca h' r)
  from signer_reachable_manager [OF request.hyps(1) assms(2)] have "sv_manager state < length (hp_managers h)"
    by (simp add: manager_kept_def)
  from serve_keeps_proxy(1) [OF request.hyps(2) this request.IH] show ?case .
qed

text \<open>
  C21. A proxy key serves every module: once the service has created a proxy key for some module, in all its later
  states every registered module that authenticates can sign with that key, under its own signing id; whether the
  key was created for it is not checked. With local keys the signature is served and verifies under the proxy key;
  with Dirk the module gets whatever the servers answer to the request for the account of that key.
\<close>

theorem proxy_key_serves_every_module:
  assumes "bls_complete C" and "signing_service_start C L K N E fs config = Returned (Ok (Some (h0, state)))"
    and "signer_reachable C N G L K state h0 h"
    and "serve C N G L K state ca h = (h1, Returned (Ok (BlsDelegationReply d)))"
    and "signer_reachable C N G L K state h1 h2"
    and "ca_route cb = RequestSignature (SignProxyBls \<lparr>spr_proxy = pd_proxy (sd_message d), spr_object_root = object_root\<rparr>)"
    and "jwt_auth (ca_jwt cb) state (ca_now cb) (ca_ip cb) (ca_token cb) h2 = (h3, Ok mid)"
  shows "\<exists>cfg. map_of (hp_jwts h2) mid = Some cfg \<and>
    (case active_manager state h2 of
       ManagerLocal m \<Rightarrow> \<exists>sig. serve C N G L K state cb h2 = (h3, Returned (Ok (BlsSignatureReply sig))) \<and>
         verify_signed_message C (ss_chain config) (pd_proxy (sd_message d)) object_root sig (Some (ms_signing_id cfg))
           COMMIT_BOOST_DOMAIN = Ok ()
     | ManagerDirk m \<Rightarrow> \<exists>proxy. map_of (dm_proxy_accounts m) (pd_proxy (sd_message d)) = Some proxy \<and>
         serve C N G L K state cb h2 = (h3, Returned (and_then
           (request_account_signature C N G (ca_arrival cb) m (pa_inner proxy) object_root (Some (ms_signing_id cfg)))
           (\<lambda>sig. Ok (BlsSignatureReply sig)))))"
proof -
  let ?k = "pd_proxy (sd_message d)"
  note start = signing_service_start_keyed [OF assms(2)]
  have kept: "manager_kept C state h0 h" by (rule signer_reachable_manager [OF assms(3) start(1)])
  then have len: "sv_manager state < length (hp_managers h)" by (simp add: manager_kept_def)
  have kept1: "manager_kept C state h0 h1" by (rule manager_kept_trans [OF kept serve_manager [OF assms(4) len]])
  then have len1: "sv_manager state < length (hp_managers h1)" by (simp add: manager_kept_def)
  have kept2: "manager_kept C state h0 h2"
    by (rule manager_kept_trans [OF kept1 signer_reachable_manager [OF assms(5) len1]])
  then have keyed: "manager_keyed C (active_manager state h2)" "manager_chain (active_manager state h2) = ss_chain config"
    using start(2,5) manager_from_chain by (auto simp: manager_kept_def)
  have known: "manager_has_proxy (active_manager state h2) ?k"
    by (rule signer_reachable_proxy [OF assms(5) len1 serve_keeps_proxy(2) [OF assms(4) len refl]])
  from jwt_auth_Ok [OF assms(7)] obtain cfg where cfg: "map_of (hp_jwts h2) mid = Some cfg"
    by (auto simp: check_jwt_auth_Ok_iff)
  have frame: "hp_managers h3 = hp_managers h2" "hp_jwts h3 = hp_jwts h2" using jwt_auth_frame [OF assms(7)] by simp_all
  show ?thesis
  proof (cases "active_manager state h2")
    case (ManagerLocal m)
    with known obtain p where p: "lookup_proxy_bls m ?k = Some p" by auto
    with ManagerLocal keyed(1) have key: "bls_signer_pubkey C (bp_signer p) = ?k" by (simp add: local_keyed_def)
    let ?sig = "bls_signer_sign C (bp_signer p) (ss_chain config) object_root (Some (ms_signing_id cfg))"
    have "serve C N G L K state cb h2 = (h3, Returned (Ok (BlsSignatureReply ?sig)))"
      using assms(6,7) ManagerLocal p cfg frame keyed(2)
      by (simp add: serve.simps with_jwt_auth_def handle_request_signature_def Let_def active_manager_def
          sign_proxy_bls_def lookup_proxy_bls_def)
    moreover have "verify_signed_message C (ss_chain config) ?k object_root ?sig (Some (ms_signing_id cfg)) COMMIT_BOOST_DOMAIN = Ok ()"
      using bls_signer_sign_verifies [OF assms(1)] key by metis
    ultimately show ?thesis using cfg ManagerLocal by auto
  next
    case (ManagerDirk m)
    with known obtain proxy where "map_of (dm_proxy_accounts m) ?k = Some proxy" by auto
    with assms(6,7) ManagerDirk cfg frame show ?thesis
      by (simp add: serve.simps with_jwt_auth_def handle_request_signature_def Let_def active_manager_def
          request_proxy_signature_def)
  qed
qed

text \<open>A second module with its own token and signing id.\<close>

definition demo_two_jwt :: jwtlib where
  "demo_two_jwt = demo_jwt\<lparr>jl_decode := (\<lambda>jwt s v.
     if jwt = ''token'' \<and> (s = ''k'' \<or> \<not> jv_check_signature v) then Ok \<lparr>jc_exp = 1300, jc_module = ''m''\<rparr>
     else if jwt = ''other'' \<and> (s = ''l'' \<or> \<not> jv_check_signature v) then Ok \<lparr>jc_exp = 1300, jc_module = ''n''\<rparr>
     else Err ''invalid'')\<rparr>"

definition demo_two_modules :: "(module_id \<times> module_signing_config) list" where
  "demo_two_modules = [(''m'', \<lparr>ms_module_name = ''m'', ms_jwt_secret = ''k'', ms_signing_id = 4\<rparr>),
     (''n'', \<lparr>ms_module_name = ''n'', ms_jwt_secret = ''l'', ms_signing_id = 8\<rparr>)]"

definition demo_two_config :: start_signer_config where
  "demo_two_config = demo_start_config\<lparr>ss_mod_signing_configs := demo_two_modules\<rparr>"

definition demo_two_heap :: signer_heap where
  "demo_two_heap = demo_heap\<lparr>hp_jwts := demo_two_modules, hp_fs := demo_start_fs\<rparr>"

definition demo_two_call :: "string \<Rightarrow> signer_route \<Rightarrow> signer_call" where
  "demo_two_call token route = (demo_call token route)\<lparr>ca_jwt := demo_two_jwt\<rparr>"

lemma demo_two_started:
  "signing_service_start demo_crypto demo_store demo_start_keys demo_net demo_reload_env demo_start_fs demo_two_config =
     Returned (Ok (Some (demo_two_heap, demo_signing_state)))"
  using demo_started_with [of demo_two_modules] by (simp add: demo_two_config_def demo_two_heap_def demo_two_modules_def)

lemma demo_two_auth:
  assumes "hp_jwts h = demo_two_modules" and "hp_jwt_auth_failures h = []"
  shows "jwt_auth demo_two_jwt demo_signing_state 5 7 ''token'' h = (h, Ok ''m'')"
    and "jwt_auth demo_two_jwt demo_signing_state 5 7 ''other'' h = (h, Ok ''n'')"
  using assms
  by (simp_all add: jwt_auth_def check_jwt_rate_limit_def check_jwt_auth_def decode_jwt_def validate_jwt_def
      demo_two_jwt_def demo_two_modules_def jwt_validation_default_def)

lemma demo_two_generate:
  "\<exists>m' fs' d. serve demo_crypto demo_net demo_group demo_store demo_start_keys demo_signing_state
     (demo_two_call ''token'' (GenerateProxy \<lparr>gpr_consensus_pubkey = 9, gpr_scheme = Bls\<rparr>)) demo_two_heap =
     (demo_two_heap\<lparr>hp_managers := [ManagerLocal m'], hp_fs := fs'\<rparr>, Returned (Ok (BlsDelegationReply d)))"
proof -
  obtain m' fs' d where create: "create_proxy_bls demo_crypto demo_store 1 ''p'' 3 ''m'' 9 demo_local demo_start_fs =
      (m', fs', Ok d)"
    by (simp add: create_proxy_bls_def sign_consensus_def demo_local_def add_consensus_signer_def demo_crypto_def Let_def
        add_proxy_signer_bls_def)
  moreover have "jwt_auth demo_two_jwt demo_signing_state 5 7 ''token'' demo_two_heap = (demo_two_heap, Ok ''m'')"
    by (rule demo_two_auth) (simp_all add: demo_two_heap_def demo_heap_def)
  ultimately show ?thesis
    by (simp add: serve.simps with_jwt_auth_def demo_two_call_def demo_call_def handle_generate_proxy_def
        demo_two_heap_def demo_heap_def demo_signing_state_def)
qed

theorem proxy_key_serves_every_module_witness:
  "\<exists>h0 h1 d sig. signing_service_start demo_crypto demo_store demo_start_keys demo_net demo_reload_env demo_start_fs
       demo_two_config = Returned (Ok (Some (h0, demo_signing_state))) \<and>
     serve demo_crypto demo_net demo_group demo_store demo_start_keys demo_signing_state
       (demo_two_call ''token'' (GenerateProxy \<lparr>gpr_consensus_pubkey = 9, gpr_scheme = Bls\<rparr>)) h0 =
       (h1, Returned (Ok (BlsDelegationReply d))) \<and>
     serve demo_crypto demo_net demo_group demo_store demo_start_keys demo_signing_state
       (demo_two_call ''other'' (RequestSignature (SignProxyBls \<lparr>spr_proxy = pd_proxy (sd_message d), spr_object_root = 3\<rparr>))) h1 =
       (h1, Returned (Ok (BlsSignatureReply sig))) \<and>
     verify_signed_message demo_crypto Mainnet (pd_proxy (sd_message d)) 3 sig (Some 8) COMMIT_BOOST_DOMAIN = Ok ()"
proof -
  from demo_two_generate obtain m' fs' d where
    generate: "serve demo_crypto demo_net demo_group demo_store demo_start_keys demo_signing_state
      (demo_two_call ''token'' (GenerateProxy \<lparr>gpr_consensus_pubkey = 9, gpr_scheme = Bls\<rparr>)) demo_two_heap =
      (demo_two_heap\<lparr>hp_managers := [ManagerLocal m'], hp_fs := fs'\<rparr>, Returned (Ok (BlsDelegationReply d)))" by blast
  let ?h1 = "demo_two_heap\<lparr>hp_managers := [ManagerLocal m'], hp_fs := fs'\<rparr>"
  let ?cb = "demo_two_call ''other'' (RequestSignature (SignProxyBls \<lparr>spr_proxy = pd_proxy (sd_message d), spr_object_root = 3\<rparr>))"
  have route: "ca_route ?cb = RequestSignature (SignProxyBls \<lparr>spr_proxy = pd_proxy (sd_message d), spr_object_root = 3\<rparr>)"
    by (simp add: demo_two_call_def demo_call_def)
  have auth: "jwt_auth (ca_jwt ?cb) demo_signing_state (ca_now ?cb) (ca_ip ?cb) (ca_token ?cb) ?h1 = (?h1, Ok ''n'')"
    using demo_two_auth(2) [of ?h1] by (simp add: demo_two_call_def demo_call_def demo_two_heap_def demo_heap_def)
  have "active_manager demo_signing_state ?h1 = ManagerLocal m'" "map_of (hp_jwts ?h1) ''n'' =
      Some \<lparr>ms_module_name = ''n'', ms_jwt_secret = ''l'', ms_signing_id = 8\<rparr>" "ss_chain demo_two_config = Mainnet"
    by (simp_all add: active_manager_def demo_signing_state_def demo_two_heap_def demo_two_modules_def demo_two_config_def
        demo_start_config_def)
  with proxy_key_serves_every_module [OF demo_bls_complete demo_two_started signer_reachable.start generate
      signer_reachable.start route auth]
  have "\<exists>sig. serve demo_crypto demo_net demo_group demo_store demo_start_keys demo_signing_state ?cb ?h1 =
      (?h1, Returned (Ok (BlsSignatureReply sig))) \<and>
      verify_signed_message demo_crypto Mainnet (pd_proxy (sd_message d)) 3 sig (Some 8) COMMIT_BOOST_DOMAIN = Ok ()"
    by simp
  with demo_two_started generate show ?thesis by blast
qed

end
