(* ===== verification/Spec2Isabelle.thy ===== *)
theory Spec2Isabelle
  imports Header_Properties Config_Properties Defaults Deployment_Properties Events_Properties
    Launch_Properties Store_Properties Da_Commit_Properties Relay_Liveness Dirk_Properties
    Access_Properties
begin

text \<open>
  Commit-Boost: a verification development of the PBS module and the signer module.

  \<^bold>\<open>The program.\<close> Commit-Boost is a sidecar of an Ethereum validator. Its PBS module (\<open>crates/pbs\<close>) offers
  the builder API to a beacon node: it asks all relays for a header (\<open>getHeader\<close>) and answers with the
  best valid bid, forwards validator registrations, and submits a signed blinded block to the relays
  to get the payload back. Its signer module (\<open>crates/signer\<close>) holds the validator keys and signs
  commitments for registered modules, which authenticate with JSON web tokens. Both are built on
  \<open>crates/common\<close> (chains, configuration, types, signatures, key stores). Its command line (\<open>crates/cli\<close>)
  turns a configuration file into a docker-compose file with these services and the modules. Other
  parties extend it: with commit modules that ask the signer for signatures, with event modules that
  the PBS module notifies, and with PBS modules of their own; \<open>examples\<close> has one of each.

  \<^bold>\<open>Conventions.\<close> Functions that fail return \<open>('e, 'a) result\<close>, the sum type with \<open>Err\<close> (\<open>Inl\<close>) and \<open>Ok\<close>
  (\<open>Inr\<close>); a panic is the constructor \<open>Panicked\<close> of \<open>outcome\<close>; a loop that does not end is \<open>None\<close> of a
  \<open>partial_function (option)\<close>. Machine integers are words of their width and wrap around. Metrics and
  published events are an effect log in front of the result (\<open>'a run\<close>). Tasks that run in parallel
  are given by the results they would have and by the order in which they complete (\<open>order\<close>,
  \<open>joined\<close>), or at which they answer (\<open>arrival\<close>): the properties hold for every order. Time enters as arguments in milliseconds.

  \<^bold>\<open>What is a parameter.\<close> Libraries that the sources call are records of functions: \<open>crypto\<close> (blst, alloy,
  SSZ tree hashes), \<open>weblib\<close> (URLs, header values, JSON of the builder API), \<open>http\<close> (the network),
  \<open>config_env\<close> (environment variables, files, RPC calls), \<open>storelib\<close> and \<open>keylib\<close> (file access and key
  store formats), \<open>jwtlib\<close>, \<open>dirknet\<close> (the calls to Dirk servers), \<open>grpclib\<close> and \<open>chanlib\<close> (tonic and the codecs of prost, from
  which \<open>dirknet_of\<close> makes those calls), \<open>siggroup\<close> (the group of BLS signatures), \<open>mocklib\<close> (path matching and
  JSON encoders of the mock relay) and \<open>promlib\<close> (Prometheus). What a property needs of them is a named hypothesis (\<open>bls_complete\<close>, \<open>ecdsa_complete\<close>, \<open>jwt_complete\<close>,
  \<open>scales\<close>, \<open>jwt_complete_over_time\<close>, \<open>interpolates\<close> (for names that Docker compose reads as such), \<open>hex_inverse\<close>, \<open>store_codec\<close>, \<open>prysm_codec\<close>,
  \<open>mock_works\<close>, \<open>header_works\<close>, \<open>payload_works\<close>, \<open>builder_signing\<close>); theory Instances has concrete ones, to which the properties are applied.

  \<^bold>\<open>The theories and the code they model.\<close>
  \<^item> Prelude: results, effects, saturating subtraction, \<open>max_by_key\<close>, \<open>chunks\<close>, \<open>try_fold\<close>, \<open>select_ok\<close>, hex.
  \<^item> Chain: \<open>common/src/types.rs\<close> and the slot clock of \<open>common/src/utils.rs\<close>.
  \<^item> Pbs_Types: \<open>common/src/pbs/types\<close>, with the textual form of KZG commitments.
  \<^item> Signature: \<open>common/src/signature.rs\<close>, \<open>signer/schemes\<close>: domains, signing roots, signing, verifying.
  \<^item> Relay: \<open>common/src/pbs/relay.rs\<close>, \<open>error.rs\<close>, the bounded body reader, the effect log.
  \<^item> Config, Pbs_State: \<open>common/src/config/{utils,pbs,mux}.rs\<close> and \<open>pbs/src/state.rs\<close>: validation,
    loaders of validator keys (file, HTTP, Lido, SSV), multiplexers, the state shared by the handlers.
  \<^item> Retry: the back-off loop of two endpoints as the locale \<open>retry_loop\<close>, with its bound; races.
  \<^item> Get_Header, Submit_Block, Register_Validator, Status: \<open>pbs/src/mev_boost\<close>. The locale
    \<open>relay_endpoint\<close> in Status is the contract of the four request functions towards the metrics.
  \<^item> Routes: \<open>pbs/src/routes\<close> and \<open>mev_boost/reload.rs\<close>: handlers with replies, events and metrics, the
    route table, and the service as a transition system (\<open>service_step\<close>) in which requests in flight
    keep the snapshot of the state they started with while a reload replaces it.
  \<^item> Commit: \<open>common/src/commit/request.rs\<close>, \<open>signer/types.rs\<close>, tokens of \<open>common/src/utils.rs\<close>.
  \<^item> Signer_Config: \<open>common/src/config/signer.rs\<close>: the registry of modules, \<open>StartSignerConfig\<close>.
  \<^item> Proxy_Store, Key_Loader: \<open>common/src/signer/{store,loader}.rs\<close> on a model file system, in which a write can
    fail before the file is opened or half-way (\<open>write_outcome\<close>).
  \<^item> Local_Manager: \<open>signer/src/manager/local.rs\<close>; the locale \<open>proxy_registry\<close> is what its BLS and its
    ECDSA half have in common. Two invariants: \<open>local_wf\<close> of a manager without a store, and the weaker
    \<open>local_keyed\<close> of every manager, whatever was in its store.
  \<^item> Dirk, Threshold: \<open>signer/src/manager/dirk.rs\<close>, the states it can reach (\<open>dirk_reachable\<close>), and the
    correctness of its interpolation.
  \<^item> Proto: \<open>signer/src/proto/v1.rs\<close>: the messages, clients and stubs of the gRPC services of Dirk, and how the
    manager connects to and calls them.
  \<^item> Signer_Service: \<open>signer/src/service.rs\<close>: authentication with rate limiting, handlers, start, reload,
    and the service as a transition system (\<open>signer_reachable\<close>) over a heap of shared cells.
  \<^item> Signer_Client: \<open>common/src/commit/client.rs\<close>: creation, refresh of the token, the calls of the signer API,
    and the life of a client in time (\<open>client_at\<close>).
  \<^item> Module_Config: \<open>common/src/config/{mod,module,log,metrics}.rs\<close>: the configuration file as a whole, the
    chain loaded from it, and how commit and event modules load their part.
  \<^item> Docker_Init: \<open>cli/src/docker_init.rs\<close>: the generator of docker-compose files, service by service over a
    state that collects services, secrets, variables, ports and warnings. Deployment: what the
    containers of a generated deployment find in their environment.
  \<^item> Defaults: the default values of the sections of the configuration file.
  \<^item> Events: the event client of \<open>common/src/pbs/event.rs\<close> and \<open>examples/builder_log\<close>.
  \<^item> Metrics: \<open>metrics/src/provider.rs\<close> and the metrics of the signer.
  \<^item> Builder_Api: \<open>pbs/src/api.rs\<close> and \<open>examples/status_api\<close>: the interface of a PBS module as a record of
    handlers, and the service with any such record as a transition system (locale \<open>builder_api_contract\<close>).
  \<^item> Launch: \<open>pbs/src/service.rs\<close>, the entry points in \<open>bin\<close>, \<open>cli/src/lib.rs\<close> and the set-up of logging.
  \<^item> Wire: the JSON forms of requests, signatures, KZG values and ETH amounts.
  \<^item> Store_Recovery: the agreement of the proxy keys in memory with those on disk; the locale \<open>store_half\<close> is
    what the BLS and the ECDSA half of the store have in common.
  \<^item> Da_Commit: \<open>examples/da_commit\<close>, against any signer that keeps the locale \<open>commitment_signer\<close>.
  \<^item> Mock_Relay: \<open>tests/src/{mock_relay,mock_validator,utils}.rs\<close>: a relay that answers as it should, on the other
    side of the network of the PBS module, and a validator that calls the module.

  \<^bold>\<open>What is shown.\<close>
  \<^item> Header_Properties: a returned bid passed every check and has the greatest value delivered; the gas
    limit check decides the rule on integers; late requests ask nobody; timing games send the right
    number of requests, end for a positive frequency and never end for frequency zero.
  \<^item> Broadcast_Properties: a returned payload matches the signed block; retries end within a number of
    attempts (not within the time-out); registrations are batched without loss; who decides the reply.
  \<^item> Relay_Liveness: with one honest relay (\<open>offers\<close>, \<open>unblinds\<close>; the mock relay is an example) among any others,
    a header request is answered with a bid at least as good as its own, and a block that it unblinds is
    delivered; bodies above the limit are refused.
  \<^item> Service_Properties: replies of the handlers, reload is atomic, every reachable state is well formed, so
    that submitting a block never panics; the accounting of requests in the metrics.
  \<^item> Config_Properties: round trip of chains, exactness of the slot clock, signatures verify, domains are
    separated, bodies are bounded, multiplexers are disjoint, registries of keys are read completely.
  \<^item> Signer_Properties: served signatures verify under the signing id of the requesting module (with local
    keys; those of Dirk are passed on); wrong tokens are cut off and do not harm other clients; revocation is
    final, also for a reload; reload keeps the manager; the answers of the local manager, with any store;
    threshold signatures come from as many different participants. Dirk_Properties: over gRPC, if the first
    usable answers are honest, a distributed account signs with the undivided key. Access_Properties:
    requests without a secret have no effect; a proxy key serves every registered module.
  \<^item> Store_Properties: wallets written as EIP-2335 prescribes are decrypted to the keys in them; a restarted
    local manager answers like the one before, for every history of starts and key generations in which no
    write was cut short (Store_Recovery shows what happens if one is).
  \<^item> Deployment_Properties: the services of a generated deployment fit together: the signer finds the registry
    of modules in its container, a module whose id can be part of a variable's name finds the secret that the
    signer has for it, and its client's tokens are accepted at any later time; which deployments have a signer that cannot start, and when
    the generator panics. Events_Properties: published events reach every event module; a PBS module with
    a signer cannot start. Metrics: every container has a port for metrics of its own.
  \<^item> Launch_Properties: when the PBS service starts to serve, what the status API example counts, and what a
    reload without relays does to it.
  \<^item> Wire: KZG values keep their length on the wire.
  \<^item> Da_Commit_Properties: the signer service with local keys keeps \<open>commitment_signer\<close>, so that the example
    commit module completes any number of rounds and verifies every signature.

  \<^bold>\<open>Bounds and fuel.\<close> No definition has fuel. The retry loops are partial functions that are proved to
  return under the assumption that elapsed milliseconds fit in 64 bits; the bound on the number of
  attempts follows from the back-off growing by 250 ms. The slot clock is exact for slots below
  \<open>2 ^ 50\<close>. The loops over Lido batches terminate by a measure; the loop over SSV pages may not end.

  \<^bold>\<open>Not modelled.\<close> Parsing of TOML, JSON, SSZ and YAML and the tree hashes (libraries); the text of log
  messages, tracing spans and the watcher of requests; sockets, signals and the registries of Prometheus,
  which enter as parameters; the conversion of floating-point ETH amounts (a parameter of Wire); Docker
  itself, of which a property states what it needs; the generated types of HTTP annotations
  (\<open>google.api.rs\<close>), which no code uses, and interceptors of the gRPC clients; build scripts, test cases
  and benchmarks.
\<close>

end
